(* ===== verification/Ussy_Prelude.thy ===== *)
theory Ussy_Prelude
  imports Main "HOL-Library.Sublist"
begin

section \<open>Prelude: the parts of Go that every component uses\<close>

text \<open>
  Names and lemmas shared by all components: Go's \<^verbatim>\<open>time\<close> values as integers (nanoseconds
  since the Unix epoch), the \<^verbatim>\<open>int64\<close> wrap-around, the functions of package
  \<^verbatim>\<open>strings\<close> the sources call, and decimal rendering. A Go string is its byte sequence, so
  it is a HOL \<^typ>\<open>string\<close>; the case mappings and the white-space tests are the ASCII ones
  (the sources apply them to names, hosts, commands and SMTP verbs).
\<close>

named_theorems go_time "unfolding of the time constants"
named_theorems go_str "unfolding of the string functions"

subsection \<open>Package time\<close>

text \<open>A \<^verbatim>\<open>time.Time\<close> or \<^verbatim>\<open>time.Duration\<close> is a number of nanoseconds.\<close>

type_synonym nanos = int

definition second :: nanos where [go_time]: "second = 1000000000"
definition minute :: nanos where [go_time]: "minute = 60 * 1000000000"
definition hour :: nanos where [go_time]: "hour = 3600 * 1000000000"

text \<open>\<^verbatim>\<open>t.Unix()\<close>, which is also what survives \<^verbatim>\<open>t.Format(time.RFC3339)\<close>.\<close>

definition unix :: "nanos \<Rightarrow> int" where
  "unix t = t div second"

text \<open>\<^verbatim>\<open>t.Truncate(time.Hour)\<close>.\<close>

definition trunc_hour :: "nanos \<Rightarrow> nanos" where
  "trunc_hour t = t - t mod hour"

lemma unix_mono: "s \<le> t \<Longrightarrow> unix s \<le> unix t"
  unfolding unix_def by (simp add: go_time zdiv_mono1)

lemma trunc_hour_le: "trunc_hour t \<le> t"
  by (simp add: trunc_hour_def go_time)

lemma trunc_hour_gt: "t < trunc_hour t + hour"
proof -
  have "t mod hour < hour" by (simp add: go_time)
  then show ?thesis by (simp add: trunc_hour_def)
qed

lemma trunc_hour_mono: "s \<le> t \<Longrightarrow> trunc_hour s \<le> trunc_hour t"
  by (simp add: trunc_hour_def minus_mod_eq_mult_div go_time zdiv_mono1)

lemma trunc_hour_same_window:
  assumes "trunc_hour s \<le> t" "t < trunc_hour s + hour"
  shows "trunc_hour t = trunc_hour s"
proof -
  have s: "trunc_hour s = hour * (s div hour)"
    by (simp add: trunc_hour_def minus_mod_eq_mult_div)
  have "t div hour = s div hour"
  proof (rule int_div_pos_eq [where r = "t - hour * (s div hour)"])
    show "t = hour * (s div hour) + (t - hour * (s div hour))" by simp
    show "0 \<le> t - hour * (s div hour)" using assms(1) s by simp
    show "t - hour * (s div hour) < hour" using assms(2) s by simp
  qed
  then show ?thesis
    by (simp add: trunc_hour_def minus_mod_eq_mult_div)
qed

subsection \<open>Fixed-width integers\<close>

text \<open>The value an \<^verbatim>\<open>int64\<close> expression has when its mathematical value is \<open>x\<close>.\<close>

definition i64 :: "int \<Rightarrow> int" where
  "i64 x = (x + 2 ^ 63) mod 2 ^ 64 - 2 ^ 63"

definition in_i64 :: "int \<Rightarrow> bool" where
  "in_i64 x \<longleftrightarrow> - (2 ^ 63) \<le> x \<and> x < 2 ^ 63"

lemma i64_id: "in_i64 x \<Longrightarrow> i64 x = x"
  by (simp add: i64_def in_i64_def)

lemma i64_in_range: "in_i64 (i64 x)"
proof -
  have "0 \<le> (x + 2 ^ 63) mod 2 ^ 64" and "(x + 2 ^ 63) mod 2 ^ 64 < 2 ^ 64"
    by (simp_all add: pos_mod_sign pos_mod_bound)
  then show ?thesis by (simp add: i64_def in_i64_def)
qed

subsection \<open>Package strings\<close>

definition HasPrefix :: "string \<Rightarrow> string \<Rightarrow> bool" where
  [go_str]: "HasPrefix s p = prefix p s"

definition HasSuffix :: "string \<Rightarrow> string \<Rightarrow> bool" where
  [go_str]: "HasSuffix s p = suffix p s"

definition TrimPrefix :: "string \<Rightarrow> string \<Rightarrow> string" where
  [go_str]: "TrimPrefix s p = (if prefix p s then drop (length p) s else s)"

definition TrimSuffix :: "string \<Rightarrow> string \<Rightarrow> string" where
  [go_str]: "TrimSuffix s p = (if suffix p s then take (length s - length p) s else s)"

definition Contains :: "string \<Rightarrow> string \<Rightarrow> bool" where
  [go_str]: "Contains s sub = sublist sub s"

text \<open>\<^verbatim>\<open>strings.SplitN(s, c, 2)\<close> for a one-byte separator.\<close>

definition SplitN2 :: "string \<Rightarrow> char \<Rightarrow> string list" where
  "SplitN2 s c =
     (if c \<in> set s then [takeWhile (\<lambda>x. x \<noteq> c) s, tl (dropWhile (\<lambda>x. x \<noteq> c) s)] else [s])"

text \<open>\<^verbatim>\<open>strings.Split(s, c)\<close> for a one-byte separator: never empty.\<close>

fun Split :: "string \<Rightarrow> char \<Rightarrow> string list" where
  "Split [] c = [[]]"
| "Split (x # s) c =
     (if x = c then [] # Split s c
      else (case Split s c of [] \<Rightarrow> [[x]] | w # ws \<Rightarrow> (x # w) # ws))"

definition is_space :: "char \<Rightarrow> bool" where
  "is_space c \<longleftrightarrow> c \<in> {CHR '' '', CHR 0x09, CHR 0x0A, CHR 0x0B, CHR 0x0C, CHR 0x0D}"

definition TrimRight :: "(char \<Rightarrow> bool) \<Rightarrow> string \<Rightarrow> string" where
  "TrimRight p s = rev (dropWhile p (rev s))"

definition TrimSpace :: "string \<Rightarrow> string" where
  "TrimSpace s = TrimRight is_space (dropWhile is_space s)"

function Fields :: "string \<Rightarrow> string list" where
  "Fields s =
     (case dropWhile is_space s of
        [] \<Rightarrow> []
      | c # r \<Rightarrow> (c # takeWhile (\<lambda>x. \<not> is_space x) r)
                 # Fields (dropWhile (\<lambda>x. \<not> is_space x) r))"
  by pat_completeness auto
termination
proof (relation "measure length")
  fix s c r assume "dropWhile is_space s = c # r"
  then have "length r < length s"
    by (metis length_Cons length_dropWhile_le less_eq_Suc_le)
  then have "length (dropWhile (\<lambda>x. \<not> is_space x) r) < length s"
    using length_dropWhile_le [of "\<lambda>x. \<not> is_space x" r] by linarith
  then show "(dropWhile (\<lambda>x. \<not> is_space x) r, s) \<in> measure length" by simp
qed simp

declare Fields.simps [simp del]

definition lower_char :: "char \<Rightarrow> char" where
  "lower_char c = (let n = of_char c :: nat in if 65 \<le> n \<and> n \<le> 90 then char_of (n + 32) else c)"

definition upper_char :: "char \<Rightarrow> char" where
  "upper_char c = (let n = of_char c :: nat in if 97 \<le> n \<and> n \<le> 122 then char_of (n - 32) else c)"

definition ToLower :: "string \<Rightarrow> string" where "ToLower s = map lower_char s"
definition ToUpper :: "string \<Rightarrow> string" where "ToUpper s = map upper_char s"

definition EqualFold :: "string \<Rightarrow> string \<Rightarrow> bool" where
  "EqualFold s t \<longleftrightarrow> ToLower s = ToLower t"

lemma length_SplitN2: "length (SplitN2 s c) = (if c \<in> set s then 2 else 1)"
  by (simp add: SplitN2_def)

lemma SplitN2_append:
  "c \<notin> set a \<Longrightarrow> SplitN2 (a @ c # b) c = [a, b]"
  by (induction a) (auto simp: SplitN2_def)

lemma SplitN2_join:
  assumes "c \<in> set s"
  shows "SplitN2 s c ! 0 @ c # SplitN2 s c ! 1 = s"
proof -
  from assms have "dropWhile (\<lambda>x. x \<noteq> c) s \<noteq> []"
    by (simp add: dropWhile_eq_Nil_conv)
  then obtain y ys where d: "dropWhile (\<lambda>x. x \<noteq> c) s = y # ys"
    by (cases "dropWhile (\<lambda>x. x \<noteq> c) s") auto
  then have "y = c" by (metis (mono_tags) dropWhile_eq_Cons_conv)
  with d assms show ?thesis
    by (simp add: SplitN2_def) (metis takeWhile_dropWhile_id)
qed

lemma TrimPrefix_append [simp]: "TrimPrefix (p @ s) p = s"
  by (simp add: TrimPrefix_def)

lemma TrimSuffix_append [simp]: "TrimSuffix (s @ p) p = s"
  by (simp add: TrimSuffix_def suffix_def)

lemma Contains_char: "Contains s [c] \<longleftrightarrow> c \<in> set s"
  by (auto simp: Contains_def sublist_def dest: split_list)

subsection \<open>Package fmt\<close>

text \<open>\<^verbatim>\<open>%d\<close>.\<close>

definition digit_char :: "nat \<Rightarrow> char" where
  "digit_char n = char_of (n mod 10 + 48)"

fun dec_nat :: "nat \<Rightarrow> string" where
  "dec_nat n = (if n < 10 then [digit_char n] else dec_nat (n div 10) @ [digit_char (n mod 10)])"

declare dec_nat.simps [simp del]

definition dec :: "int \<Rightarrow> string" where
  "dec i = (if i < 0 then CHR ''-'' # dec_nat (nat (- i)) else dec_nat (nat i))"

text \<open>\<^verbatim>\<open>%q\<close>, for ASCII text.\<close>

definition hex_char :: "nat \<Rightarrow> char" where
  "hex_char n = (if n < 10 then char_of (n + 48) else char_of (n + 87))"

definition quote_char :: "char \<Rightarrow> string" where
  "quote_char c =
     (if c = CHR 0x22 then [CHR 0x5C, c]
      else if c = CHR 0x5C then [CHR 0x5C, c]
      else if c = CHR 0x07 then [CHR 0x5C, CHR ''a''] else if c = CHR 0x08 then [CHR 0x5C, CHR ''b'']
      else if c = CHR 0x0C then [CHR 0x5C, CHR ''f''] else if c = CHR 0x0A then [CHR 0x5C, CHR ''n'']
      else if c = CHR 0x0D then [CHR 0x5C, CHR ''r''] else if c = CHR 0x09 then [CHR 0x5C, CHR ''t'']
      else if c = CHR 0x0B then [CHR 0x5C, CHR ''v'']
      else let n = of_char c :: nat in
        if 32 \<le> n \<and> n \<le> 126 then [c]
        else [CHR 0x5C, CHR ''x'', hex_char (n div 16), hex_char (n mod 16)])"

definition go_quote :: "string \<Rightarrow> string" where
  "go_quote s = CHR 0x22 # concat (map quote_char s) @ [CHR 0x22]"

lemma digit_char_inj: "a < 10 \<Longrightarrow> b < 10 \<Longrightarrow> digit_char a = digit_char b \<Longrightarrow> a = b"
  by (simp add: digit_char_def)

lemma digit_char_not_dash: "digit_char a \<noteq> CHR ''-''"
proof
  assume "digit_char a = CHR ''-''"
  then have "of_char (digit_char a) = (of_char CHR ''-'' :: nat)" by simp
  moreover have "a mod 10 + 48 < 256" by (simp add: less_imp_le trans_less_add2)
  ultimately show False by (simp add: digit_char_def)
qed

lemma dec_nat_nonempty [simp]: "dec_nat n \<noteq> []" "[] \<noteq> dec_nat n"
  by (subst dec_nat.simps, simp)+

lemma dec_nat_inj: "dec_nat m = dec_nat n \<Longrightarrow> m = n"
proof (induction m arbitrary: n rule: dec_nat.induct)
  case (1 m)
  show ?case
  proof (cases "m < 10"; cases "n < 10")
    assume "m < 10" "n < 10"
    then show ?thesis using 1(2) by (simp add: dec_nat.simps digit_char_inj)
  next
    assume "m < 10" "\<not> n < 10"
    then show ?thesis using 1(2) by (simp add: dec_nat.simps [of m] dec_nat.simps [of n])
  next
    assume "\<not> m < 10" "n < 10"
    then show ?thesis using 1(2) by (simp add: dec_nat.simps [of m] dec_nat.simps [of n])
  next
    assume big: "\<not> m < 10" "\<not> n < 10"
    then have "dec_nat (m div 10) = dec_nat (n div 10)" "digit_char (m mod 10) = digit_char (n mod 10)"
      using 1(2) by (simp_all add: dec_nat.simps [of m] dec_nat.simps [of n])
    then have "m div 10 = n div 10" "m mod 10 = n mod 10"
      using 1(1) [OF big(1)] digit_char_inj by simp_all
    then show ?thesis by (metis mult_div_mod_eq)
  qed
qed

lemma hd_dec_nat: "hd (dec_nat n) \<noteq> CHR ''-''"
proof (induction n rule: dec_nat.induct)
  case (1 n)
  then show ?case by (subst dec_nat.simps) (simp add: digit_char_not_dash)
qed

lemma digit_char_range: "48 \<le> (of_char (digit_char k) :: nat) \<and> (of_char (digit_char k) :: nat) \<le> 57"
proof -
  have "k mod 10 < 10" by simp
  then show ?thesis by (simp add: digit_char_def)
qed

text \<open>Decimal numbers consist of digits and a sign, so they hold no separator.\<close>

lemma dec_chars: "c \<in> set (dec n) \<Longrightarrow> c = CHR ''-'' \<or> 48 \<le> (of_char c :: nat) \<and> (of_char c :: nat) \<le> 57"
proof -
  have "48 \<le> (of_char c :: nat) \<and> (of_char c :: nat) \<le> 57" if "c \<in> set (dec_nat k)" for k
    using that
  proof (induction k rule: dec_nat.induct)
    case (1 n)
    then show ?case using digit_char_range by (subst (asm) (2) dec_nat.simps) (auto split: if_splits)
  qed
  then show "c \<in> set (dec n) \<Longrightarrow> c = CHR ''-'' \<or> 48 \<le> (of_char c :: nat) \<and> (of_char c :: nat) \<le> 57"
    by (auto simp: dec_def split: if_splits)
qed

lemma dec_no_sep [simp]: "CHR '':'' \<notin> set (dec n)" "CHR ''/'' \<notin> set (dec n)" "CHR ''.'' \<notin> set (dec n)"
  by (auto dest: dec_chars)

lemma dec_inj: "dec i = dec j \<longleftrightarrow> i = j"
proof
  assume e: "dec i = dec j"
  show "i = j"
  proof (cases "i < 0"; cases "j < 0")
    assume "i < 0" "j < 0" then show ?thesis using e dec_nat_inj [of "nat (- i)" "nat (- j)"] by (simp add: dec_def)
  next
    assume "i < 0" "\<not> j < 0"
    then show ?thesis using e hd_dec_nat [of "nat j"] by (auto simp: dec_def dest: arg_cong [of _ _ hd])
  next
    assume "\<not> i < 0" "j < 0"
    then show ?thesis using e hd_dec_nat [of "nat i"] by (auto simp: dec_def dest: arg_cong [of _ _ hd])
  next
    assume "\<not> i < 0" "\<not> j < 0" then show ?thesis using e dec_nat_inj [of "nat i" "nat j"] by (simp add: dec_def)
  qed
qed simp

lemma Fields_nonempty: "TrimSpace s \<noteq> [] \<Longrightarrow> Fields (TrimSpace s) \<noteq> []"
proof -
  let ?d = "dropWhile is_space (rev (dropWhile is_space s))"
  assume "TrimSpace s \<noteq> []"
  then have "?d \<noteq> []" by (simp add: TrimSpace_def TrimRight_def)
  then have "\<not> is_space (hd ?d)" "hd ?d \<in> set (TrimSpace s)"
    by (simp_all add: hd_dropWhile TrimSpace_def TrimRight_def)
  then have "dropWhile is_space (TrimSpace s) \<noteq> []" by (auto simp: dropWhile_eq_Nil_conv)
  then show ?thesis by (subst Fields.simps) (auto split: list.splits)
qed

end
