(* ===== verification/Sql_Tables.thy ===== *)
theory Sql_Tables
  imports Ussy_Prelude "HOL-Library.List_Lexorder" "HOL-Library.Char_ord"
begin

section \<open>SQL statements over tables, and the interface of a table\<close>

text \<open>
  The statements of \<^verbatim>\<open>internal/db/queries.go\<close> are SQL texts. This theory gives the meaning
  of the statement forms the file uses, over a table that is the list of its rows in rowid
  order: INSERT and INSERT OR IGNORE under the table's UNIQUE constraints, UPDATE ... WHERE,
  DELETE ... WHERE, a one-row SELECT and the stable ORDER BY. A UNIQUE constraint is a
  symmetric relation \<open>clash\<close> between rows. The locales \<open>uniq_table\<close> and
  \<open>keyed_table\<close> are the contract the query theories rely on; each table of the schema
  interprets one of them.
\<close>

named_theorems sql "unfolding of the SQL statement forms"

text \<open>What \<^verbatim>\<open>errors.Is\<close> can tell apart: wrapping with \<^verbatim>\<open>fmt.Errorf("...: %w")\<close> keeps it.\<close>

datatype db_error =
    ErrNoRows        \<comment> \<open>\<^verbatim>\<open>sql.ErrNoRows\<close>\<close>
  | ErrUnique        \<comment> \<open>UNIQUE or PRIMARY KEY constraint failed\<close>
  | ErrForeignKey    \<comment> \<open>FOREIGN KEY constraint failed\<close>
  | ErrCheck         \<comment> \<open>CHECK constraint failed\<close>
  | ErrClosed        \<comment> \<open>the connection pool is closed\<close>
  | ErrMsg string    \<comment> \<open>an error the Go code makes itself\<close>

definition rows_uniq :: "('r \<Rightarrow> 'r \<Rightarrow> bool) \<Rightarrow> 'r list \<Rightarrow> bool" where
  "rows_uniq clash rows = sorted_wrt (\<lambda>a b. \<not> clash a b) rows"

definition sql_insert :: "('r \<Rightarrow> 'r \<Rightarrow> bool) \<Rightarrow> 'r \<Rightarrow> 'r list \<Rightarrow> db_error + 'r list" where
  "sql_insert clash r rows =
     (if list_ex (\<lambda>s. clash s r) rows then Inl ErrUnique else Inr (rows @ [r]))"

definition sql_insert_or_ignore :: "('r \<Rightarrow> 'r \<Rightarrow> bool) \<Rightarrow> 'r \<Rightarrow> 'r list \<Rightarrow> 'r list" where
  "sql_insert_or_ignore clash r rows =
     (if list_ex (\<lambda>s. clash s r) rows then rows else rows @ [r])"

text \<open>INSERT ... ON CONFLICT ... DO UPDATE: \<open>f\<close> updates the row that is in the way.\<close>

definition sql_upsert ::
  "('r \<Rightarrow> 'r \<Rightarrow> bool) \<Rightarrow> ('r \<Rightarrow> 'r) \<Rightarrow> 'r \<Rightarrow> 'r list \<Rightarrow> 'r list" where
  "sql_upsert clash f r rows =
     (if list_ex (\<lambda>s. clash s r) rows then map (\<lambda>s. if clash s r then f s else s) rows
      else rows @ [r])"

definition sql_update :: "('r \<Rightarrow> bool) \<Rightarrow> ('r \<Rightarrow> 'r) \<Rightarrow> 'r list \<Rightarrow> 'r list" where
  "sql_update p f rows = map (\<lambda>r. if p r then f r else r) rows"

definition sql_delete :: "('r \<Rightarrow> bool) \<Rightarrow> 'r list \<Rightarrow> 'r list" where
  "sql_delete p rows = filter (\<lambda>r. \<not> p r) rows"

definition sql_select :: "('r \<Rightarrow> bool) \<Rightarrow> 'r list \<Rightarrow> 'r list" where
  "sql_select p rows = filter p rows"

text \<open>\<^verbatim>\<open>QueryRow(...).Scan(...)\<close>: the first row of the result, or \<^verbatim>\<open>sql.ErrNoRows\<close>.\<close>

definition query_row :: "'a list \<Rightarrow> db_error + 'a" where
  "query_row rs = (case rs of [] \<Rightarrow> Inl ErrNoRows | r # _ \<Rightarrow> Inr r)"

text \<open>\<^verbatim>\<open>if err != nil { return err }\<close> between two steps.\<close>

definition try_do :: "'e + 'a \<Rightarrow> ('a \<Rightarrow> 'e + 'b) \<Rightarrow> 'e + 'b" where
  "try_do r f = (case r of Inl e \<Rightarrow> Inl e | Inr x \<Rightarrow> f x)"

text \<open>LIMIT: a negative count is no limit in SQLite.\<close>

definition sql_limit :: "int \<Rightarrow> 'r list \<Rightarrow> 'r list" where
  "sql_limit n rows = (if n < 0 then rows else take (nat n) rows)"

definition order_by_desc :: "('r \<Rightarrow> int) \<Rightarrow> 'r list \<Rightarrow> 'r list" where
  "order_by_desc f rows = sort_key (\<lambda>r. - f r) rows"

text \<open>A table with an AUTOINCREMENT key: ids ascend, and none exceeds the sequence \<open>n\<close>.\<close>

definition table_ok :: "('r \<Rightarrow> int) \<Rightarrow> ('r \<Rightarrow> 'r \<Rightarrow> bool) \<Rightarrow> 'r list \<Rightarrow> int \<Rightarrow> bool" where
  "table_ok rid clash rows n \<longleftrightarrow>
     0 \<le> n \<and> sorted_wrt (\<lambda>a b. rid a < rid b) rows \<and> rows_uniq clash rows \<and>
     (\<forall>r \<in> set rows. 1 \<le> rid r \<and> rid r \<le> n)"

text \<open>
  The same with what the schema demands of each single row, \<open>P\<close> (foreign keys and CHECK
  clauses); \<open>set_wf\<close> is for tables whose primary key is not an AUTOINCREMENT id.
\<close>

definition table_wf ::
  "('r \<Rightarrow> int) \<Rightarrow> ('r \<Rightarrow> 'r \<Rightarrow> bool) \<Rightarrow> ('r \<Rightarrow> bool) \<Rightarrow> 'r list \<Rightarrow> int \<Rightarrow> bool" where
  "table_wf rid clash P rows n \<longleftrightarrow> table_ok rid clash rows n \<and> (\<forall>r \<in> set rows. P r)"

definition set_wf :: "('r \<Rightarrow> 'r \<Rightarrow> bool) \<Rightarrow> ('r \<Rightarrow> bool) \<Rightarrow> 'r list \<Rightarrow> bool" where
  "set_wf clash P rows \<longleftrightarrow> rows_uniq clash rows \<and> (\<forall>r \<in> set rows. P r)"

lemma sql_insert_Inr [sql]:
  "sql_insert clash r rows = Inr rows' \<longleftrightarrow>
     rows' = rows @ [r] \<and> (\<forall>s \<in> set rows. \<not> clash s r)"
  by (auto simp: sql_insert_def list_ex_iff)

lemma try_do_Inr: "try_do r f = Inr y \<longleftrightarrow> (\<exists>x. r = Inr x \<and> f x = Inr y)"
  by (cases r) (auto simp: try_do_def)

lemma try_do_simps [simp]: "try_do (Inl e) f = Inl e" "try_do (Inr x) f = f x"
  by (simp_all add: try_do_def)

lemma set_sql_update: "set (sql_update p f rows) = (\<lambda>r. if p r then f r else r) ` set rows"
  by (simp add: sql_update_def)

lemma set_sql_delete [simp]: "set (sql_delete p rows) = {r \<in> set rows. \<not> p r}"
  by (auto simp: sql_delete_def)

lemma set_sql_select [simp]: "set (sql_select p rows) = {r \<in> set rows. p r}"
  by (auto simp: sql_select_def)

lemma set_order_by_desc [simp]: "set (order_by_desc f rows) = set rows"
  by (simp add: order_by_desc_def)

lemma query_row_Inr: "query_row rs = Inr r \<longleftrightarrow> (\<exists>rs'. rs = r # rs')"
  by (cases rs) (auto simp: query_row_def)

lemma query_row_Inl: "query_row rs = Inl e \<longleftrightarrow> rs = [] \<and> e = ErrNoRows"
  by (cases rs) (auto simp: query_row_def)

lemma query_row_in: "query_row rs = Inr r \<Longrightarrow> r \<in> set rs"
  by (auto simp: query_row_Inr)

lemma sql_update_none: "\<forall>r \<in> set rows. \<not> p r \<Longrightarrow> sql_update p f rows = rows"
  by (auto simp: sql_update_def intro: map_idI)

lemma image_sql_update:
  "(\<And>r. g (f r) = g r) \<Longrightarrow> g ` set (sql_update p f rows) = g ` set rows"
  by (induction rows) (simp_all add: sql_update_def)

lemma sql_delete_none: "\<forall>r \<in> set rows. \<not> p r \<Longrightarrow> sql_delete p rows = rows"
  by (auto simp: sql_delete_def filter_id_conv)

lemma sorted_wrt_mono_map:
  assumes "sorted_wrt P rows" "\<And>a b. a \<in> set rows \<Longrightarrow> b \<in> set rows \<Longrightarrow> P a b \<Longrightarrow> Q (f a) (f b)"
  shows "sorted_wrt Q (map f rows)"
  using assms by (induction rows) auto

lemma sorted_wrt_conj:
  "sorted_wrt (\<lambda>a b. P a b \<and> Q a b) rows \<longleftrightarrow> sorted_wrt P rows \<and> sorted_wrt Q rows"
  by (induction rows) auto

lemma sorted_wrt_sql_delete: "sorted_wrt P rows \<Longrightarrow> sorted_wrt P (sql_delete p rows)"
  by (simp add: sql_delete_def sorted_wrt_filter)

subsection \<open>The interface of a table with a UNIQUE constraint\<close>

locale uniq_table =
  fixes clash :: "'r \<Rightarrow> 'r \<Rightarrow> bool"
  assumes clash_sym: "clash a b \<Longrightarrow> clash b a"
begin

lemma uniq_insert:
  "rows_uniq clash rows \<Longrightarrow> sql_insert clash r rows = Inr rows' \<Longrightarrow> rows_uniq clash rows'"
  by (auto simp: rows_uniq_def sql sorted_wrt_append)

lemma uniq_insert_or_ignore:
  "rows_uniq clash rows \<Longrightarrow> rows_uniq clash (sql_insert_or_ignore clash r rows)"
  by (auto simp: rows_uniq_def sql_insert_or_ignore_def sorted_wrt_append list_ex_iff)

lemma uniq_delete: "rows_uniq clash rows \<Longrightarrow> rows_uniq clash (sql_delete p rows)"
  by (simp add: rows_uniq_def sorted_wrt_sql_delete)

lemma uniq_update:
  assumes "rows_uniq clash rows"
    and "\<And>a b. clash (if p a then f a else a) (if p b then f b else b) \<Longrightarrow> clash a b"
  shows "rows_uniq clash (sql_update p f rows)"
  using assms(1) unfolding rows_uniq_def sql_update_def
  by (rule sorted_wrt_mono_map) (use assms(2) in blast)

lemma uniq_upsert:
  assumes "rows_uniq clash rows"
    and "\<And>a b. clash (if clash a r then f a else a) (if clash b r then f b else b) \<Longrightarrow> clash a b"
  shows "rows_uniq clash (sql_upsert clash f r rows)"
proof (cases "list_ex (\<lambda>s. clash s r) rows")
  case True
  have "sorted_wrt (\<lambda>a b. \<not> clash a b) (map (\<lambda>s. if clash s r then f s else s) rows)"
    using assms(1) unfolding rows_uniq_def
    by (rule sorted_wrt_mono_map) (use assms(2) in blast)
  with True show ?thesis by (simp add: sql_upsert_def rows_uniq_def)
next
  case False
  with assms(1) show ?thesis
    by (auto simp: sql_upsert_def rows_uniq_def sorted_wrt_append list_ex_iff)
qed

lemma uniq_same:
  assumes "rows_uniq clash rows" "a \<in> set rows" "b \<in> set rows" "clash a b"
  shows "a = b"
  using assms
proof (induction rows)
  case (Cons x xs)
  then show ?case by (auto simp: rows_uniq_def dest: clash_sym)
qed simp

lemma uniq_query_key:
  assumes ok: "rows_uniq clash rows" and r: "r \<in> set rows" and p: "p r"
    and key: "\<And>a b. p a \<Longrightarrow> p b \<Longrightarrow> clash a b"
  shows "query_row (sql_select p rows) = Inr r"
proof -
  from r p have "r \<in> set (sql_select p rows)" by simp
  then obtain y ys where y: "sql_select p rows = y # ys"
    by (cases "sql_select p rows") auto
  then have "y \<in> set (sql_select p rows)" by simp
  then have "y = r" using uniq_same [OF ok] r p key by auto
  with y show ?thesis by (simp add: query_row_def)
qed

lemma sw_snoc:
  "set_wf clash P rows \<Longrightarrow> \<forall>s \<in> set rows. \<not> clash s r \<Longrightarrow> P r \<Longrightarrow> set_wf clash P (rows @ [r])"
  by (auto simp: set_wf_def rows_uniq_def sorted_wrt_append)

lemma sw_delete:
  "set_wf clash P rows \<Longrightarrow> (\<And>r. P r \<Longrightarrow> \<not> p r \<Longrightarrow> Q r) \<Longrightarrow> set_wf clash Q (sql_delete p rows)"
  by (auto simp: set_wf_def uniq_delete)

lemma sw_mono: "set_wf clash P rows \<Longrightarrow> (\<And>r. P r \<Longrightarrow> Q r) \<Longrightarrow> set_wf clash Q rows"
  by (auto simp: set_wf_def)

lemma sw_update:
  assumes "set_wf clash P rows" "\<And>r. P r \<Longrightarrow> p r \<Longrightarrow> P (f r)"
    and "\<And>a b. clash (if p a then f a else a) (if p b then f b else b) \<Longrightarrow> clash a b"
  shows "set_wf clash P (sql_update p f rows)"
proof -
  have "rows_uniq clash (sql_update p f rows)"
    by (rule uniq_update [OF _ assms(3)]) (use assms(1) in \<open>simp add: set_wf_def\<close>)
  then show ?thesis using assms(1,2) by (auto simp: set_wf_def set_sql_update)
qed

lemma sw_or_ignore:
  "set_wf clash P rows \<Longrightarrow> (sql_insert_or_ignore clash r rows \<noteq> rows \<Longrightarrow> P r) \<Longrightarrow>
   set_wf clash P (sql_insert_or_ignore clash r rows)"
  by (auto simp: sql_insert_or_ignore_def list_ex_iff intro: sw_snoc)

lemma sw_upsert:
  assumes wf: "set_wf clash P rows" and r: "\<not> list_ex (\<lambda>s. clash s r) rows \<Longrightarrow> P r"
    and f: "\<And>s. P s \<Longrightarrow> clash s r \<Longrightarrow> P (f s)"
    and clash: "\<And>a b. clash (if clash a r then f a else a) (if clash b r then f b else b) \<Longrightarrow> clash a b"
  shows "set_wf clash P (sql_upsert clash f r rows)"
proof -
  have "rows_uniq clash (sql_upsert clash f r rows)"
    by (rule uniq_upsert [OF _ clash]) (use wf in \<open>simp_all add: set_wf_def\<close>)
  moreover have "x \<in> set (sql_upsert clash f r rows) \<Longrightarrow> P x" for x
    by (cases "list_ex (\<lambda>s. clash s r) rows")
       (use wf r f in \<open>auto simp: set_wf_def sql_upsert_def simp del: list_ex_iff\<close>)
  ultimately show ?thesis by (simp add: set_wf_def)
qed

end

subsection \<open>The interface of a table with an AUTOINCREMENT key\<close>

locale keyed_table = uniq_table clash for clash :: "'r \<Rightarrow> 'r \<Rightarrow> bool" +
  fixes rid :: "'r \<Rightarrow> int"
begin

lemma ok_empty: "table_ok rid clash [] 0"
  by (simp add: table_ok_def rows_uniq_def)

lemma ok_insert:
  assumes "table_ok rid clash rows n" "sql_insert clash r rows = Inr rows'" "rid r = n + 1"
  shows "table_ok rid clash rows' (n + 1)"
  using assms uniq_insert [of rows r rows']
  by (force simp: table_ok_def sql sorted_wrt_append)

lemma ok_delete: "table_ok rid clash rows n \<Longrightarrow> table_ok rid clash (sql_delete p rows) n"
  by (simp add: table_ok_def uniq_delete sorted_wrt_sql_delete)

lemma ok_update:
  assumes ok: "table_ok rid clash rows n" and rid: "\<And>r. rid (f r) = rid r"
    and clash: "\<And>a b. a \<in> set rows \<Longrightarrow> b \<in> set rows \<Longrightarrow> rid a \<noteq> rid b \<Longrightarrow>
                  clash (if p a then f a else a) (if p b then f b else b) \<Longrightarrow> clash a b"
  shows "table_ok rid clash (sql_update p f rows) n"
proof -
  let ?f = "\<lambda>r. if p r then f r else r"
  have "sorted_wrt (\<lambda>a b. rid a < rid b \<and> \<not> clash a b) rows"
    using ok by (simp add: table_ok_def rows_uniq_def sorted_wrt_conj)
  then have "sorted_wrt (\<lambda>a b. rid a < rid b \<and> \<not> clash a b) (map ?f rows)"
  proof (rule sorted_wrt_mono_map)
    fix a b assume "a \<in> set rows" "b \<in> set rows" "rid a < rid b \<and> \<not> clash a b"
    then show "rid (?f a) < rid (?f b) \<and> \<not> clash (?f a) (?f b)"
      using clash [of a b] rid by auto
  qed
  with ok show ?thesis
    by (auto simp: table_ok_def rows_uniq_def set_sql_update rid sorted_wrt_conj sql_update_def)
qed

lemma ok_snoc:
  assumes "table_ok rid clash rows n" "\<forall>s \<in> set rows. \<not> clash s r" "rid r = n + 1"
  shows "table_ok rid clash (rows @ [r]) (n + 1)"
  using assms by (force simp: table_ok_def rows_uniq_def sorted_wrt_append)

lemma ok_seq: "table_ok rid clash rows n \<Longrightarrow> table_ok rid clash rows (n + 1)"
  by (force simp: table_ok_def)

lemma ok_or_ignore:
  "table_ok rid clash rows n \<Longrightarrow> rid r = n + 1 \<Longrightarrow>
   table_ok rid clash (sql_insert_or_ignore clash r rows) (n + 1)"
  by (auto simp: sql_insert_or_ignore_def list_ex_iff intro: ok_snoc ok_seq)

lemma ok_upsert:
  assumes ok: "table_ok rid clash rows n" and r: "rid r = n + 1" and rid: "\<And>s. rid (f s) = rid s"
    and clash: "\<And>a b. clash (if clash a r then f a else a) (if clash b r then f b else b) \<Longrightarrow> clash a b"
  shows "table_ok rid clash (sql_upsert clash f r rows) (n + 1)"
proof (cases "list_ex (\<lambda>s. clash s r) rows")
  case True
  then show ?thesis
    using ok_seq [OF ok_update [of rows n f "\<lambda>s. clash s r", OF ok rid clash]]
    by (simp add: sql_upsert_def sql_update_def)
next
  case False
  with ok r show ?thesis by (auto simp: sql_upsert_def list_ex_iff intro: ok_snoc)
qed

lemma tw_snoc:
  "table_wf rid clash P rows n \<Longrightarrow> \<forall>s \<in> set rows. \<not> clash s r \<Longrightarrow> rid r = n + 1 \<Longrightarrow> P r \<Longrightarrow>
   table_wf rid clash P (rows @ [r]) (n + 1)"
  by (auto simp: table_wf_def ok_snoc)

lemma tw_delete:
  "table_wf rid clash P rows n \<Longrightarrow> (\<And>r. P r \<Longrightarrow> \<not> p r \<Longrightarrow> Q r) \<Longrightarrow>
   table_wf rid clash Q (sql_delete p rows) n"
  by (auto simp: table_wf_def ok_delete)

lemma tw_mono:
  "table_wf rid clash P rows n \<Longrightarrow> (\<And>r. P r \<Longrightarrow> Q r) \<Longrightarrow> table_wf rid clash Q rows n"
  by (auto simp: table_wf_def)

lemma tw_update:
  assumes "table_wf rid clash P rows n" "\<And>r. r \<in> set rows \<Longrightarrow> P r \<Longrightarrow> p r \<Longrightarrow> P (f r)" "\<And>r. rid (f r) = rid r"
    and "\<And>a b. a \<in> set rows \<Longrightarrow> b \<in> set rows \<Longrightarrow> rid a \<noteq> rid b \<Longrightarrow>
           clash (if p a then f a else a) (if p b then f b else b) \<Longrightarrow> clash a b"
  shows "table_wf rid clash P (sql_update p f rows) n"
  using assms ok_update [of rows n f p] by (auto simp: table_wf_def set_sql_update)

lemma tw_seq: "table_wf rid clash P rows n \<Longrightarrow> table_wf rid clash P rows (n + 1)"
  by (auto simp: table_wf_def intro: ok_seq)

lemma tw_or_ignore:
  "table_wf rid clash P rows n \<Longrightarrow> rid r = n + 1 \<Longrightarrow>
   (sql_insert_or_ignore clash r rows \<noteq> rows \<Longrightarrow> P r) \<Longrightarrow>
   table_wf rid clash P (sql_insert_or_ignore clash r rows) (n + 1)"
  by (auto simp: table_wf_def ok_or_ignore) (auto simp: sql_insert_or_ignore_def split: if_splits)

lemma tw_upsert:
  assumes wf: "table_wf rid clash P rows n" and r: "rid r = n + 1" "\<not> list_ex (\<lambda>s. clash s r) rows \<Longrightarrow> P r"
    and f: "\<And>s. rid (f s) = rid s" "\<And>s. P s \<Longrightarrow> clash s r \<Longrightarrow> P (f s)"
    and clash: "\<And>a b. clash (if clash a r then f a else a) (if clash b r then f b else b) \<Longrightarrow> clash a b"
  shows "table_wf rid clash P (sql_upsert clash f r rows) (n + 1)"
proof -
  have "table_ok rid clash (sql_upsert clash f r rows) (n + 1)"
    by (rule ok_upsert [OF _ r(1) f(1) clash]) (use wf in \<open>simp_all add: table_wf_def\<close>)
  moreover have "x \<in> set (sql_upsert clash f r rows) \<Longrightarrow> P x" for x
    by (cases "list_ex (\<lambda>s. clash s r) rows")
       (use wf r(2) f(2) in \<open>auto simp: table_wf_def sql_upsert_def simp del: list_ex_iff\<close>)
  ultimately show ?thesis by (simp add: table_wf_def)
qed

lemma ok_unique_id:
  assumes "table_ok rid clash rows n" "a \<in> set rows" "b \<in> set rows" "rid a = rid b"
  shows "a = b"
proof -
  from assms(1) have "sorted_wrt (\<lambda>a b. rid a < rid b) rows" by (simp add: table_ok_def)
  then show ?thesis using assms(2-4)
    by (induction rows) auto
qed

lemma ok_same: "table_ok rid clash rows n \<Longrightarrow> a \<in> set rows \<Longrightarrow> b \<in> set rows \<Longrightarrow> clash a b \<Longrightarrow> a = b"
  by (rule uniq_same) (simp_all add: table_ok_def)

lemma ok_fresh: "table_ok rid clash rows n \<Longrightarrow> r \<in> set rows \<Longrightarrow> rid r \<noteq> n + 1"
  by (fastforce simp: table_ok_def)

text \<open>\<^verbatim>\<open>SELECT ... WHERE id = ?\<close> finds the row, and no other.\<close>

lemma ok_query_id:
  assumes ok: "table_ok rid clash rows n" and r: "r \<in> set rows" and i: "rid r = i"
  shows "query_row (sql_select (\<lambda>x. rid x = i) rows) = Inr r"
proof -
  from r i have "r \<in> set (sql_select (\<lambda>x. rid x = i) rows)" by simp
  then obtain y ys where y: "sql_select (\<lambda>x. rid x = i) rows = y # ys"
    by (cases "sql_select (\<lambda>x. rid x = i) rows") auto
  then have "y \<in> set (sql_select (\<lambda>x. rid x = i) rows)" by simp
  then have "y = r" using ok_unique_id [OF ok] r i by auto
  with y show ?thesis by (simp add: query_row_def)
qed

lemma ok_query_key:
  "table_ok rid clash rows n \<Longrightarrow> r \<in> set rows \<Longrightarrow> p r \<Longrightarrow> (\<And>a b. p a \<Longrightarrow> p b \<Longrightarrow> clash a b) \<Longrightarrow>
   query_row (sql_select p rows) = Inr r"
  by (rule uniq_query_key) (simp_all add: table_ok_def)

end

end
