(* ===== verification/Db_Model.thy ===== *)
theory Db_Model
  imports Sql_Tables
begin

section \<open>The database: models, schema and transactions\<close>

text \<open>
  \<^verbatim>\<open>internal/db/models.go\<close> (the structs), \<^verbatim>\<open>internal/db/migrations\<close> (the columns, defaults,
  UNIQUE, CHECK and REFERENCES clauses) and \<^verbatim>\<open>internal/db/db.go\<close> (\<^verbatim>\<open>WriteTx\<close>,
  \<^verbatim>\<open>ReadTx\<close>, \<^verbatim>\<open>Close\<close>). A struct is a record whose fields carry the struct's
  initial; the \<^verbatim>\<open>users\<close> row extends the \<^verbatim>\<open>User\<close> struct by the quota columns that only
  \<^verbatim>\<open>GetUserQuotas\<close> reads. A timestamp column holds whole seconds (RFC 3339); a NULL column is
  \<^term>\<open>None\<close>, which \<^verbatim>\<open>SQLiteTime.Scan\<close> turns into the zero time.
\<close>

subsection \<open>models.go\<close>

type_synonym sqlite_time = "int option"

definition sqlite_IsZero :: "sqlite_time \<Rightarrow> bool" where
  "sqlite_IsZero t \<longleftrightarrow> t = None"

record user =
  u_ID :: int
  u_Handle :: string
  u_Email :: string
  u_TrustLevel :: string
  u_CreatedAt :: int
  u_UpdatedAt :: int

record user_row = user +
  u_vm_limit :: int
  u_cpu_limit :: int
  u_ram_limit_mb :: int
  u_disk_limit_mb :: int

record ssh_key =
  k_ID :: int
  k_UserID :: int
  k_PublicKey :: string
  k_Fingerprint :: string
  k_Comment :: string
  k_CreatedAt :: int

record vm =
  v_ID :: int
  v_UserID :: int
  v_Name :: string
  v_Status :: string
  v_Image :: string
  v_VCPU :: int
  v_MemoryMB :: int
  v_DiskGB :: int
  v_TapDevice :: "string option"
  v_IPAddress :: "string option"
  v_MACAddress :: "string option"
  v_PID :: "int option"
  v_CreatedAt :: int
  v_UpdatedAt :: int

record share =
  s_ID :: int
  s_VMID :: int
  s_SharedWith :: "int option"
  s_LinkToken :: "string option"
  s_IsPublic :: bool
  s_CreatedAt :: int

record token =
  t_ID :: int
  t_UserID :: int
  t_Handle :: string
  t_TokenData :: string
  t_ExpiresAt :: sqlite_time
  t_CreatedAt :: int

text \<open>\<^verbatim>\<open>time.Now().After(t.ExpiresAt.Time)\<close>: the clock has nanoseconds, the column seconds.\<close>

definition IsExpired :: "nanos \<Rightarrow> token \<Rightarrow> bool" where
  "IsExpired now t =
     (\<not> sqlite_IsZero (t_ExpiresAt t) \<and>
      (case t_ExpiresAt t of None \<Rightarrow> False | Some e \<Rightarrow> now > e * second))"

record tutorial_progress =
  tp_ID :: int
  tp_UserID :: int
  tp_LessonNumber :: int
  tp_CompletedAt :: int

record api_token =
  at_TokenID :: string
  at_UserID :: int
  at_FullToken :: string
  at_Description :: "string option"
  at_CreatedAt :: int
  at_LastUsedAt :: sqlite_time
  at_Revoked :: bool

record llm_key =
  lk_ID :: int
  lk_UserID :: int
  lk_Provider :: string
  lk_EncryptedKey :: string
  lk_CreatedAt :: int
  lk_UpdatedAt :: int

record llm_usage =
  lu_ID :: int
  lu_UserID :: int
  lu_Provider :: string
  lu_RequestCount :: int
  lu_EstimatedTokens :: int
  lu_PeriodStart :: int
  lu_PeriodEnd :: int

record magic_token =
  mt_Token :: string
  mt_UserID :: int
  mt_ExpiresAt :: int
  mt_Used :: bool

record audit_log =
  al_ID :: int
  al_ActorID :: "int option"
  al_Action :: string
  al_TargetType :: string
  al_TargetID :: "string option"
  al_Detail :: "string option"
  al_CreatedAt :: int

record arena_match =
  am_ID :: int
  am_MatchID :: string
  am_Scenario :: string
  am_Status :: string
  am_MaxAgents :: int
  am_CreatedBy :: int
  am_StartedAt :: sqlite_time
  am_CompletedAt :: sqlite_time
  am_CreatedAt :: int

record arena_participant =
  ap_ID :: int
  ap_MatchID :: string
  ap_UserID :: int
  ap_VMID :: "int option"
  ap_Score :: int
  ap_Status :: string
  ap_JoinedAt :: int

record arena_elo =
  ae_UserID :: int
  ae_Rating :: int
  ae_Wins :: int
  ae_Losses :: int
  ae_Draws :: int
  ae_LastMatchAt :: sqlite_time

record custom_domain =
  cd_ID :: int
  cd_VMID :: int
  cd_Domain :: string
  cd_Verified :: bool
  cd_VerificationToken :: "string option"
  cd_CreatedAt :: int
  cd_VerifiedAt :: sqlite_time

record trust_limits =
  tl_Level :: string
  tl_VMLimit :: int
  tl_CPULimit :: int
  tl_RAMLimit :: int
  tl_DiskLimit :: int

definition ValidTrustLevels :: "string list" where
  "ValidTrustLevels = [''newbie'', ''citizen'', ''operator'', ''admin'']"

definition IsValidTrustLevel :: "string \<Rightarrow> bool" where
  "IsValidTrustLevel level = list_ex (\<lambda>l. l = level) ValidTrustLevels"

definition trustLimitsMap :: "(string \<times> trust_limits) list" where
  "trustLimitsMap =
     [(''newbie'', \<lparr>tl_Level = ''newbie'', tl_VMLimit = 3, tl_CPULimit = 1,
                     tl_RAMLimit = 2048, tl_DiskLimit = 5120\<rparr>),
      (''citizen'', \<lparr>tl_Level = ''citizen'', tl_VMLimit = 10, tl_CPULimit = 4,
                      tl_RAMLimit = 8192, tl_DiskLimit = 25600\<rparr>),
      (''operator'', \<lparr>tl_Level = ''operator'', tl_VMLimit = 25, tl_CPULimit = 8,
                       tl_RAMLimit = 16384, tl_DiskLimit = 102400\<rparr>),
      (''admin'', \<lparr>tl_Level = ''admin'', tl_VMLimit = - 1, tl_CPULimit = - 1,
                    tl_RAMLimit = - 1, tl_DiskLimit = - 1\<rparr>)]"

text \<open>A Go map read of a missing key gives the zero value.\<close>

definition zero_limits :: trust_limits where
  "zero_limits = \<lparr>tl_Level = '''', tl_VMLimit = 0, tl_CPULimit = 0, tl_RAMLimit = 0, tl_DiskLimit = 0\<rparr>"

definition GetTrustLimits :: "string \<Rightarrow> trust_limits" where
  "GetTrustLimits level =
     (case map_of trustLimitsMap level of
        Some limits \<Rightarrow> limits
      | None \<Rightarrow> (case map_of trustLimitsMap ''newbie'' of Some l \<Rightarrow> l | None \<Rightarrow> zero_limits))"

subsection \<open>The schema\<close>

datatype table =
    TUsers | TSshKeys | TVms | TShares | TTokens | TTutorial | TLlmKeys | TLlmUsage
  | TMatches | TParticipants | TDomains | TAudit

text \<open>
  All tables; \<open>seq\<close> is SQLite's AUTOINCREMENT counter of each (the largest id ever given).
\<close>

record tables =
  users :: "user_row list"
  ssh_keys :: "ssh_key list"
  vms :: "vm list"
  vm_tags :: "(int \<times> string) list"
  shares :: "share list"
  tokens :: "token list"
  tutorial :: "tutorial_progress list"
  llm_keys :: "llm_key list"
  llm_usages :: "llm_usage list"
  api_tokens :: "api_token list"
  magic_tokens :: "magic_token list"
  matches :: "arena_match list"
  participants :: "arena_participant list"
  elos :: "arena_elo list"
  domains :: "custom_domain list"
  audit :: "audit_log list"
  seq :: "table \<Rightarrow> int"

definition empty_tables :: tables where
  "empty_tables = \<lparr>users = [], ssh_keys = [], vms = [], vm_tags = [], shares = [], tokens = [],
     tutorial = [], llm_keys = [], llm_usages = [], api_tokens = [], magic_tokens = [],
     matches = [], participants = [], elos = [], domains = [], audit = [], seq = (\<lambda>_. 0)\<rparr>"

text \<open>The UNIQUE clauses (one disjunct per clause).\<close>

definition user_clash :: "user_row \<Rightarrow> user_row \<Rightarrow> bool" where
  "user_clash a b \<longleftrightarrow> u_Handle a = u_Handle b"
definition key_clash :: "ssh_key \<Rightarrow> ssh_key \<Rightarrow> bool" where
  "key_clash a b \<longleftrightarrow> k_Fingerprint a = k_Fingerprint b"
definition vm_clash :: "vm \<Rightarrow> vm \<Rightarrow> bool" where
  "vm_clash a b \<longleftrightarrow> v_UserID a = v_UserID b \<and> v_Name a = v_Name b"
definition no_clash :: "'r \<Rightarrow> 'r \<Rightarrow> bool" where
  "no_clash a b \<longleftrightarrow> False"
definition token_clash :: "token \<Rightarrow> token \<Rightarrow> bool" where
  "token_clash a b \<longleftrightarrow> t_Handle a = t_Handle b"
definition tutorial_clash :: "tutorial_progress \<Rightarrow> tutorial_progress \<Rightarrow> bool" where
  "tutorial_clash a b \<longleftrightarrow> tp_UserID a = tp_UserID b \<and> tp_LessonNumber a = tp_LessonNumber b"
definition llm_key_clash :: "llm_key \<Rightarrow> llm_key \<Rightarrow> bool" where
  "llm_key_clash a b \<longleftrightarrow> lk_UserID a = lk_UserID b \<and> lk_Provider a = lk_Provider b"
definition llm_usage_clash :: "llm_usage \<Rightarrow> llm_usage \<Rightarrow> bool" where
  "llm_usage_clash a b \<longleftrightarrow> lu_UserID a = lu_UserID b \<and> lu_Provider a = lu_Provider b \<and>
     lu_PeriodStart a = lu_PeriodStart b"
definition api_token_clash :: "api_token \<Rightarrow> api_token \<Rightarrow> bool" where
  "api_token_clash a b \<longleftrightarrow> at_TokenID a = at_TokenID b"
definition magic_clash :: "magic_token \<Rightarrow> magic_token \<Rightarrow> bool" where
  "magic_clash a b \<longleftrightarrow> mt_Token a = mt_Token b"
definition match_clash :: "arena_match \<Rightarrow> arena_match \<Rightarrow> bool" where
  "match_clash a b \<longleftrightarrow> am_MatchID a = am_MatchID b"
definition participant_clash :: "arena_participant \<Rightarrow> arena_participant \<Rightarrow> bool" where
  "participant_clash a b \<longleftrightarrow> ap_MatchID a = ap_MatchID b \<and> ap_UserID a = ap_UserID b"
definition elo_clash :: "arena_elo \<Rightarrow> arena_elo \<Rightarrow> bool" where
  "elo_clash a b \<longleftrightarrow> ae_UserID a = ae_UserID b"
definition domain_clash :: "custom_domain \<Rightarrow> custom_domain \<Rightarrow> bool" where
  "domain_clash a b \<longleftrightarrow> cd_Domain a = cd_Domain b"

lemmas clash_defs = user_clash_def key_clash_def vm_clash_def no_clash_def token_clash_def
  tutorial_clash_def llm_key_clash_def llm_usage_clash_def api_token_clash_def magic_clash_def
  match_clash_def participant_clash_def elo_clash_def domain_clash_def

interpretation users_t: keyed_table user_clash u_ID
  by unfold_locales (simp add: user_clash_def)
interpretation keys_t: keyed_table key_clash k_ID
  by unfold_locales (simp add: key_clash_def)
interpretation vms_t: keyed_table vm_clash v_ID
  by unfold_locales (simp add: vm_clash_def)
interpretation tags_t: uniq_table "(=) :: int \<times> string \<Rightarrow> int \<times> string \<Rightarrow> bool"
  by unfold_locales simp
interpretation shares_t: keyed_table no_clash s_ID
  by unfold_locales (simp add: no_clash_def)
interpretation tokens_t: keyed_table token_clash t_ID
  by unfold_locales (simp add: token_clash_def)
interpretation tutorial_t: keyed_table tutorial_clash tp_ID
  by unfold_locales (simp add: tutorial_clash_def)
interpretation llm_keys_t: keyed_table llm_key_clash lk_ID
  by unfold_locales (simp add: llm_key_clash_def)
interpretation llm_usage_t: keyed_table llm_usage_clash lu_ID
  by unfold_locales (simp add: llm_usage_clash_def)
interpretation api_tokens_t: uniq_table api_token_clash
  by unfold_locales (simp add: api_token_clash_def)
interpretation magic_t: uniq_table magic_clash
  by unfold_locales (simp add: magic_clash_def)
interpretation matches_t: keyed_table match_clash am_ID
  by unfold_locales (simp add: match_clash_def)
interpretation participants_t: keyed_table participant_clash ap_ID
  by unfold_locales (simp add: participant_clash_def)
interpretation elos_t: uniq_table elo_clash
  by unfold_locales (simp add: elo_clash_def)
interpretation domains_t: keyed_table domain_clash cd_ID
  by unfold_locales (simp add: domain_clash_def)
interpretation audit_t: keyed_table no_clash al_ID
  by unfold_locales (simp add: no_clash_def)

text \<open>REFERENCES users(id), vms(id) and arena_matches(match_id), on INSERT.\<close>

definition has_user :: "tables \<Rightarrow> int \<Rightarrow> bool" where
  "has_user t i = list_ex (\<lambda>u. u_ID u = i) (users t)"
definition has_vm :: "tables \<Rightarrow> int \<Rightarrow> bool" where
  "has_vm t i = list_ex (\<lambda>v. v_ID v = i) (vms t)"
definition has_match :: "tables \<Rightarrow> string \<Rightarrow> bool" where
  "has_match t m = list_ex (\<lambda>a. am_MatchID a = m) (matches t)"

text \<open>The CHECK clauses.\<close>

definition vm_status_ok :: "string \<Rightarrow> bool" where
  "vm_status_ok s \<longleftrightarrow> s \<in> {''creating'', ''running'', ''stopped'', ''error''}"
definition match_status_ok :: "string \<Rightarrow> bool" where
  "match_status_ok s \<longleftrightarrow> s \<in> {''waiting'', ''running'', ''completed'', ''cancelled''}"
definition participant_status_ok :: "string \<Rightarrow> bool" where
  "participant_status_ok s \<longleftrightarrow>
     s \<in> {''joined'', ''ready'', ''playing'', ''finished'', ''disconnected''}"

definition fk_check :: "bool \<Rightarrow> db_error + 'a \<Rightarrow> db_error + 'a" where
  "fk_check ok r = (case r of Inl e \<Rightarrow> Inl e | Inr x \<Rightarrow> if ok then Inr x else Inl ErrForeignKey)"

lemma fk_check_Inr [simp]: "fk_check ok r = Inr x \<longleftrightarrow> ok \<and> r = Inr x"
  by (cases r) (auto simp: fk_check_def)

lemma has_user_iff: "has_user t i \<longleftrightarrow> i \<in> u_ID ` set (users t)"
  by (auto simp: has_user_def list_ex_iff)

lemma has_vm_iff: "has_vm t i \<longleftrightarrow> i \<in> v_ID ` set (vms t)"
  by (auto simp: has_vm_def list_ex_iff)

lemma has_match_iff: "has_match t m \<longleftrightarrow> m \<in> am_MatchID ` set (matches t)"
  by (auto simp: has_match_def list_ex_iff)

subsection \<open>db.go: pools and transactions\<close>

record db =
  tables :: tables
  writer_open :: bool
  reader_open :: bool

text \<open>A freshly opened and migrated database.\<close>

definition new_db :: db where
  "new_db = \<lparr>tables = empty_tables, writer_open = True, reader_open = True\<rparr>"

definition WriteTx :: "(tables \<Rightarrow> db_error + 'a \<times> tables) \<Rightarrow> db \<Rightarrow> (db_error + 'a) \<times> db" where
  "WriteTx fn d =
     (if \<not> writer_open d then (Inl ErrClosed, d)
      else case fn (tables d) of
             Inl e \<Rightarrow> (Inl e, d)
           | Inr (a, t) \<Rightarrow> (Inr a, d\<lparr>tables := t\<rparr>))"

definition ReadTx :: "(tables \<Rightarrow> db_error + 'a) \<Rightarrow> db \<Rightarrow> db_error + 'a" where
  "ReadTx fn d = (if \<not> reader_open d then Inl ErrClosed else fn (tables d))"

definition Close :: "db \<Rightarrow> db" where
  "Close d = d\<lparr>reader_open := False, writer_open := False\<rparr>"

text \<open>One statement whose result is not read.\<close>

definition exec :: "(tables \<Rightarrow> db_error + tables) \<Rightarrow> tables \<Rightarrow> db_error + unit \<times> tables" where
  "exec f t = (case f t of Inl e \<Rightarrow> Inl e | Inr t' \<Rightarrow> Inr ((), t'))"

lemma WriteTx_Inl: "WriteTx fn d = (Inl e, d') \<Longrightarrow> d' = d"
  by (auto simp: WriteTx_def split: if_splits sum.splits)

lemma WriteTx_Inr:
  "WriteTx fn d = (Inr a, d') \<longleftrightarrow>
     writer_open d \<and> (\<exists>t. fn (tables d) = Inr (a, t) \<and> d' = d\<lparr>tables := t\<rparr>)"
  by (auto simp: WriteTx_def split: if_splits sum.splits)

lemma WriteTx_pools:
  "writer_open (snd (WriteTx fn d)) = writer_open d"
  "reader_open (snd (WriteTx fn d)) = reader_open d"
  by (auto simp: WriteTx_def split: sum.splits)

lemma WriteTx_invariant:
  assumes "\<And>a t'. fn (tables d) = Inr (a, t') \<Longrightarrow> P (tables d) \<Longrightarrow> P t'" and "P (tables d)"
  shows "P (tables (snd (WriteTx fn d)))"
  using assms by (auto simp: WriteTx_def split: sum.splits)

lemma ReadTx_Inr: "ReadTx fn d = Inr a \<longleftrightarrow> reader_open d \<and> fn (tables d) = Inr a"
  by (auto simp: ReadTx_def)

lemma exec_Inr: "exec f t = Inr (u, t') \<longleftrightarrow> f t = Inr t'"
  by (auto simp: exec_def split: sum.splits)

end
