(* ===== verification/Db_Queries.thy ===== *)
theory Db_Queries
  imports Db_Model
begin

section \<open>The queries of the database\<close>

text \<open>
  \<^verbatim>\<open>internal/db/queries.go\<close>, one definition per function and in the file's order. A writing
  function is a state transformer \<^typ>\<open>db \<Rightarrow> (db_error + 'a) \<times> db\<close>, a reading one a function
  \<^typ>\<open>db \<Rightarrow> db_error + 'a\<close>. The argument \<open>now\<close> is \<^verbatim>\<open>time.Now()\<close> and SQLite's
  \<^verbatim>\<open>'now'\<close>; a column holds \<^term>\<open>unix now\<close>. SQLite advances the AUTOINCREMENT counter also when
  INSERT OR IGNORE or ON CONFLICT finds the row already there, and reports a broken UNIQUE or
  CHECK clause before a broken foreign key. The text comparison of RFC 3339 values is the
  comparison of their seconds.
\<close>

definition next_id :: "table \<Rightarrow> tables \<Rightarrow> int" where
  "next_id k t = seq t k + 1"

definition bump :: "table \<Rightarrow> tables \<Rightarrow> tables" where
  "bump k t = t\<lparr>seq := (seq t)(k := seq t k + 1)\<rparr>"

text \<open>The SELECT that follows a write in the same transaction.\<close>

definition read_back :: "(tables \<Rightarrow> 'a list) \<Rightarrow> tables \<Rightarrow> db_error + 'a \<times> tables" where
  "read_back q t = try_do (query_row (q t)) (\<lambda>r. Inr (r, t))"

subsection \<open>Users\<close>

definition CreateUser :: "nanos \<Rightarrow> string \<Rightarrow> db \<Rightarrow> (db_error + user) \<times> db" where
  "CreateUser now handle = WriteTx (\<lambda>t.
     let id = next_id TUsers t;
         row = \<lparr>u_ID = id, u_Handle = handle, u_Email = '''', u_TrustLevel = ''newbie'',
                u_CreatedAt = unix now, u_UpdatedAt = unix now,
                u_vm_limit = 3, u_cpu_limit = 1, u_ram_limit_mb = 2048, u_disk_limit_mb = 5120\<rparr>
     in try_do (sql_insert user_clash row (users t)) (\<lambda>rows.
          read_back (\<lambda>t. map user.truncate (sql_select (\<lambda>u. u_ID u = id) (users t)))
            (bump TUsers (t\<lparr>users := rows\<rparr>))))"

definition UserByHandle :: "string \<Rightarrow> db \<Rightarrow> db_error + user" where
  "UserByHandle handle = ReadTx (\<lambda>t.
     query_row (map user.truncate (sql_select (\<lambda>u. u_Handle u = handle) (users t))))"

definition UserByID :: "int \<Rightarrow> db \<Rightarrow> db_error + user" where
  "UserByID userID = ReadTx (\<lambda>t.
     query_row (map user.truncate (sql_select (\<lambda>u. u_ID u = userID) (users t))))"

subsection \<open>SSH keys\<close>

definition AddSSHKey ::
  "nanos \<Rightarrow> int \<Rightarrow> string \<Rightarrow> string \<Rightarrow> string \<Rightarrow> db \<Rightarrow> (db_error + ssh_key) \<times> db" where
  "AddSSHKey now userID publicKey fingerprint comment = WriteTx (\<lambda>t.
     let id = next_id TSshKeys t;
         row = \<lparr>k_ID = id, k_UserID = userID, k_PublicKey = publicKey,
                k_Fingerprint = fingerprint, k_Comment = comment, k_CreatedAt = unix now\<rparr>
     in try_do (fk_check (has_user t userID) (sql_insert key_clash row (ssh_keys t))) (\<lambda>rows.
          read_back (\<lambda>t. sql_select (\<lambda>k. k_ID k = id) (ssh_keys t))
            (bump TSshKeys (t\<lparr>ssh_keys := rows\<rparr>))))"

text \<open>The JOIN: rows of \<open>users\<close> paired with the matching rows of \<open>ssh_keys\<close>.\<close>

definition UserByFingerprint :: "string \<Rightarrow> db \<Rightarrow> db_error + user" where
  "UserByFingerprint fingerprint = ReadTx (\<lambda>t.
     query_row (concat (map (\<lambda>k.
         map user.truncate (sql_select (\<lambda>u. u_ID u = k_UserID k) (users t)))
       (sql_select (\<lambda>k. k_Fingerprint k = fingerprint) (ssh_keys t)))))"

definition SSHKeysByUser :: "int \<Rightarrow> db \<Rightarrow> db_error + ssh_key list" where
  "SSHKeysByUser userID = ReadTx (\<lambda>t.
     Inr (sql_select (\<lambda>k. k_UserID k = userID) (ssh_keys t)))"

definition DeleteSSHKey :: "int \<Rightarrow> db \<Rightarrow> (db_error + unit) \<times> db" where
  "DeleteSSHKey keyID = WriteTx (exec (\<lambda>t.
     Inr (t\<lparr>ssh_keys := sql_delete (\<lambda>k. k_ID k = keyID) (ssh_keys t)\<rparr>)))"

definition SSHKeyCountByUser :: "int \<Rightarrow> db \<Rightarrow> db_error + int" where
  "SSHKeyCountByUser userID = ReadTx (\<lambda>t.
     Inr (int (length (sql_select (\<lambda>k. k_UserID k = userID) (ssh_keys t)))))"

subsection \<open>VMs\<close>

definition CreateVM ::
  "nanos \<Rightarrow> int \<Rightarrow> string \<Rightarrow> string \<Rightarrow> int \<Rightarrow> int \<Rightarrow> int \<Rightarrow> db \<Rightarrow> (db_error + vm) \<times> db" where
  "CreateVM now userID name img vcpu memoryMB diskGB = WriteTx (\<lambda>t.
     let id = next_id TVms t;
         row = \<lparr>v_ID = id, v_UserID = userID, v_Name = name, v_Status = ''stopped'',
                v_Image = img, v_VCPU = vcpu, v_MemoryMB = memoryMB, v_DiskGB = diskGB,
                v_TapDevice = None, v_IPAddress = None, v_MACAddress = None, v_PID = None,
                v_CreatedAt = unix now, v_UpdatedAt = unix now\<rparr>
     in try_do (fk_check (has_user t userID) (sql_insert vm_clash row (vms t))) (\<lambda>rows.
          read_back (\<lambda>t. sql_select (\<lambda>v. v_ID v = id) (vms t))
            (bump TVms (t\<lparr>vms := rows\<rparr>))))"

definition VMsByUser :: "int \<Rightarrow> db \<Rightarrow> db_error + vm list" where
  "VMsByUser userID = ReadTx (\<lambda>t.
     Inr (order_by_desc v_CreatedAt (sql_select (\<lambda>v. v_UserID v = userID) (vms t))))"

definition VMByUserAndName :: "int \<Rightarrow> string \<Rightarrow> db \<Rightarrow> db_error + vm" where
  "VMByUserAndName userID name = ReadTx (\<lambda>t.
     query_row (sql_select (\<lambda>v. v_UserID v = userID \<and> v_Name v = name) (vms t)))"

definition VMByIP :: "string \<Rightarrow> db \<Rightarrow> db_error + vm" where
  "VMByIP ip = ReadTx (\<lambda>t. query_row (sql_select (\<lambda>v. v_IPAddress v = Some ip) (vms t)))"

definition UpdateVMStatus ::
  "nanos \<Rightarrow> int \<Rightarrow> string \<Rightarrow> string option \<Rightarrow> string option \<Rightarrow> string option \<Rightarrow> int option \<Rightarrow>
   db \<Rightarrow> (db_error + unit) \<times> db" where
  "UpdateVMStatus now vmID status tapDevice ipAddress macAddress pid = WriteTx (exec (\<lambda>t.
     if has_vm t vmID \<and> \<not> vm_status_ok status then Inl ErrCheck
     else Inr (t\<lparr>vms := sql_update (\<lambda>v. v_ID v = vmID)
            (\<lambda>v. v\<lparr>v_Status := status, v_TapDevice := tapDevice, v_IPAddress := ipAddress,
                   v_MACAddress := macAddress, v_PID := pid, v_UpdatedAt := unix now\<rparr>) (vms t)\<rparr>)))"

text \<open>
  The schema's ON DELETE CASCADE clauses remove the VM's tags, shares and custom domains;
  \<open>arena_participants.vm_id\<close> has no clause, so a row that names the VM blocks the DELETE.
\<close>

definition DeleteVM :: "int \<Rightarrow> db \<Rightarrow> (db_error + unit) \<times> db" where
  "DeleteVM vmID = WriteTx (exec (\<lambda>t.
     if has_vm t vmID \<and> list_ex (\<lambda>p. ap_VMID p = Some vmID) (participants t)
     then Inl ErrForeignKey
     else Inr (t\<lparr>vms := sql_delete (\<lambda>v. v_ID v = vmID) (vms t),
                 vm_tags := sql_delete (\<lambda>g. fst g = vmID) (vm_tags t),
                 shares := sql_delete (\<lambda>s. s_VMID s = vmID) (shares t),
                 domains := sql_delete (\<lambda>c. cd_VMID c = vmID) (domains t)\<rparr>)))"

definition RenameVM :: "nanos \<Rightarrow> int \<Rightarrow> string \<Rightarrow> db \<Rightarrow> (db_error + unit) \<times> db" where
  "RenameVM now vmID newName = WriteTx (exec (\<lambda>t.
     if list_ex (\<lambda>v. v_ID v = vmID \<and>
          list_ex (\<lambda>w. v_ID w \<noteq> vmID \<and> v_UserID w = v_UserID v \<and> v_Name w = newName) (vms t)) (vms t)
     then Inl ErrUnique
     else Inr (t\<lparr>vms := sql_update (\<lambda>v. v_ID v = vmID)
                  (\<lambda>v. v\<lparr>v_Name := newName, v_UpdatedAt := unix now\<rparr>) (vms t)\<rparr>)))"

subsection \<open>Tags\<close>

definition AddTag :: "int \<Rightarrow> string \<Rightarrow> db \<Rightarrow> (db_error + unit) \<times> db" where
  "AddTag vmID tag = WriteTx (exec (\<lambda>t.
     let rows = sql_insert_or_ignore (=) (vmID, tag) (vm_tags t) in
     if rows \<noteq> vm_tags t \<and> \<not> has_vm t vmID then Inl ErrForeignKey
     else Inr (t\<lparr>vm_tags := rows\<rparr>)))"

definition RemoveTag :: "int \<Rightarrow> string \<Rightarrow> db \<Rightarrow> (db_error + unit) \<times> db" where
  "RemoveTag vmID tag = WriteTx (exec (\<lambda>t.
     Inr (t\<lparr>vm_tags := sql_delete (\<lambda>g. fst g = vmID \<and> snd g = tag) (vm_tags t)\<rparr>)))"

definition TagsByVM :: "int \<Rightarrow> db \<Rightarrow> db_error + string list" where
  "TagsByVM vmID = ReadTx (\<lambda>t.
     Inr (sort (map snd (sql_select (\<lambda>g. fst g = vmID) (vm_tags t)))))"

subsection \<open>Shares\<close>

text \<open>No UNIQUE clause binds the table, so IGNORE never applies.\<close>

definition ShareVMWithUser :: "nanos \<Rightarrow> int \<Rightarrow> int \<Rightarrow> db \<Rightarrow> (db_error + unit) \<times> db" where
  "ShareVMWithUser now vmID targetUserID = WriteTx (exec (\<lambda>t.
     let row = \<lparr>s_ID = next_id TShares t, s_VMID = vmID, s_SharedWith = Some targetUserID,
                s_LinkToken = None, s_IsPublic = False, s_CreatedAt = unix now\<rparr> in
     if \<not> (has_vm t vmID \<and> has_user t targetUserID) then Inl ErrForeignKey
     else Inr (bump TShares (t\<lparr>shares := sql_insert_or_ignore no_clash row (shares t)\<rparr>))))"

definition ShareVMWithLink :: "nanos \<Rightarrow> int \<Rightarrow> string \<Rightarrow> db \<Rightarrow> (db_error + share) \<times> db" where
  "ShareVMWithLink now vmID linkToken = WriteTx (\<lambda>t.
     let id = next_id TShares t;
         row = \<lparr>s_ID = id, s_VMID = vmID, s_SharedWith = None,
                s_LinkToken = Some linkToken, s_IsPublic = False, s_CreatedAt = unix now\<rparr>
     in try_do (fk_check (has_vm t vmID) (sql_insert no_clash row (shares t))) (\<lambda>rows.
          read_back (\<lambda>t. sql_select (\<lambda>s. s_ID s = id) (shares t))
            (bump TShares (t\<lparr>shares := rows\<rparr>))))"

definition RemoveShare :: "int \<Rightarrow> db \<Rightarrow> (db_error + unit) \<times> db" where
  "RemoveShare shareID = WriteTx (exec (\<lambda>t.
     Inr (t\<lparr>shares := sql_delete (\<lambda>s. s_ID s = shareID) (shares t)\<rparr>)))"

definition RemoveShareByVMAndUser :: "int \<Rightarrow> int \<Rightarrow> db \<Rightarrow> (db_error + unit) \<times> db" where
  "RemoveShareByVMAndUser vmID targetUserID = WriteTx (exec (\<lambda>t.
     Inr (t\<lparr>shares := sql_delete (\<lambda>s. s_VMID s = vmID \<and> s_SharedWith s = Some targetUserID)
                (shares t)\<rparr>)))"

definition RemoveShareLink :: "int \<Rightarrow> string \<Rightarrow> db \<Rightarrow> (db_error + unit) \<times> db" where
  "RemoveShareLink vmID token = WriteTx (exec (\<lambda>t.
     Inr (t\<lparr>shares := sql_delete (\<lambda>s. s_VMID s = vmID \<and> s_LinkToken s = Some token) (shares t)\<rparr>)))"

definition SharesByVM :: "int \<Rightarrow> db \<Rightarrow> db_error + share list" where
  "SharesByVM vmID = ReadTx (\<lambda>t.
     Inr (order_by_desc s_CreatedAt (sql_select (\<lambda>s. s_VMID s = vmID) (shares t))))"

definition ShareByLinkToken :: "string \<Rightarrow> db \<Rightarrow> db_error + share" where
  "ShareByLinkToken token = ReadTx (\<lambda>t.
     query_row (sql_select (\<lambda>s. s_LinkToken s = Some token) (shares t)))"

text \<open>The row \<^verbatim>\<open>SetVMPublic\<close> keeps: neither a user share nor a link.\<close>

definition flag_row :: "int \<Rightarrow> share \<Rightarrow> bool" where
  "flag_row vmID s \<longleftrightarrow> s_VMID s = vmID \<and> s_SharedWith s = None \<and> s_LinkToken s = None"

definition SetVMPublic :: "nanos \<Rightarrow> int \<Rightarrow> bool \<Rightarrow> db \<Rightarrow> (db_error + unit) \<times> db" where
  "SetVMPublic now vmID public = WriteTx (exec (\<lambda>t.
     let affected = length (sql_select (flag_row vmID) (shares t));
         t1 = t\<lparr>shares := sql_update (flag_row vmID) (\<lambda>s. s\<lparr>s_IsPublic := public\<rparr>) (shares t)\<rparr> in
     if affected > 0 then Inr t1
     else
       let row = \<lparr>s_ID = next_id TShares t1, s_VMID = vmID, s_SharedWith = None,
                  s_LinkToken = None, s_IsPublic = public, s_CreatedAt = unix now\<rparr> in
       try_do (fk_check (has_vm t1 vmID) (sql_insert no_clash row (shares t1))) (\<lambda>rows.
         Inr (bump TShares (t1\<lparr>shares := rows\<rparr>)))))"

definition IsVMPublic :: "int \<Rightarrow> db \<Rightarrow> db_error + bool" where
  "IsVMPublic vmID = ReadTx (\<lambda>t.
     Inr (list_ex (\<lambda>s. s_VMID s = vmID \<and> s_IsPublic s) (shares t)))"

text \<open>No owner in the WHERE clause: of several VMs of the name, the oldest row.\<close>

definition VMByName :: "string \<Rightarrow> db \<Rightarrow> db_error + vm" where
  "VMByName name = ReadTx (\<lambda>t. query_row (sql_select (\<lambda>v. v_Name v = name) (vms t)))"

definition HasShareAccess :: "int \<Rightarrow> int \<Rightarrow> db \<Rightarrow> db_error + bool" where
  "HasShareAccess vmID userID = ReadTx (\<lambda>t.
     Inr (list_ex (\<lambda>s. s_VMID s = vmID \<and> s_SharedWith s = Some userID) (shares t)))"

subsection \<open>Tokens\<close>

definition CreateToken ::
  "nanos \<Rightarrow> int \<Rightarrow> string \<Rightarrow> string \<Rightarrow> nanos \<Rightarrow> db \<Rightarrow> (db_error + unit) \<times> db" where
  "CreateToken now userID handle tokenData expiresAt = WriteTx (exec (\<lambda>t.
     let row = \<lparr>t_ID = next_id TTokens t, t_UserID = userID, t_Handle = handle,
                t_TokenData = tokenData, t_ExpiresAt = Some (unix expiresAt),
                t_CreatedAt = unix now\<rparr> in
     try_do (fk_check (has_user t userID) (sql_insert token_clash row (tokens t))) (\<lambda>rows.
       Inr (bump TTokens (t\<lparr>tokens := rows\<rparr>)))))"

definition TokenByHandle :: "string \<Rightarrow> db \<Rightarrow> db_error + token" where
  "TokenByHandle handle = ReadTx (\<lambda>t.
     query_row (sql_select (\<lambda>k. t_Handle k = handle) (tokens t)))"

definition token_row_expired :: "nanos \<Rightarrow> token \<Rightarrow> bool" where
  "token_row_expired now k = (case t_ExpiresAt k of None \<Rightarrow> False | Some e \<Rightarrow> e < unix now)"

definition CleanExpiredTokens :: "nanos \<Rightarrow> db \<Rightarrow> (db_error + int) \<times> db" where
  "CleanExpiredTokens now = WriteTx (\<lambda>t.
     let count = int (length (sql_select (token_row_expired now) (tokens t))) in
     Inr (count, t\<lparr>tokens := sql_delete (token_row_expired now) (tokens t)\<rparr>))"

subsection \<open>Convenience queries for the SSH gateway\<close>

definition HandleExists :: "string \<Rightarrow> db \<Rightarrow> db_error + bool" where
  "HandleExists handle = ReadTx (\<lambda>t. Inr (list_ex (\<lambda>u. u_Handle u = handle) (users t)))"

definition VMCountByUser :: "int \<Rightarrow> db \<Rightarrow> db_error + int" where
  "VMCountByUser userID = ReadTx (\<lambda>t.
     Inr (int (length (sql_select (\<lambda>v. v_UserID v = userID) (vms t)))))"

definition RunningVMCountByUser :: "int \<Rightarrow> db \<Rightarrow> db_error + int" where
  "RunningVMCountByUser userID = ReadTx (\<lambda>t.
     Inr (int (length (sql_select (\<lambda>v. v_UserID v = userID \<and> v_Status v = ''running'') (vms t)))))"

definition FingerprintByUser :: "int \<Rightarrow> db \<Rightarrow> db_error + string" where
  "FingerprintByUser userID = ReadTx (\<lambda>t.
     query_row (map k_Fingerprint
       (sort_key k_ID (sql_select (\<lambda>k. k_UserID k = userID) (ssh_keys t)))))"

subsection \<open>Tutorial progress\<close>

definition GetTutorialProgress :: "int \<Rightarrow> db \<Rightarrow> db_error + tutorial_progress list" where
  "GetTutorialProgress userID = ReadTx (\<lambda>t.
     Inr (sort_key tp_LessonNumber (sql_select (\<lambda>p. tp_UserID p = userID) (tutorial t))))"

definition CompleteTutorialLesson :: "nanos \<Rightarrow> int \<Rightarrow> int \<Rightarrow> db \<Rightarrow> (db_error + unit) \<times> db" where
  "CompleteTutorialLesson now userID lessonNumber = WriteTx (exec (\<lambda>t.
     let row = \<lparr>tp_ID = next_id TTutorial t, tp_UserID = userID,
                tp_LessonNumber = lessonNumber, tp_CompletedAt = unix now\<rparr>;
         rows = sql_insert_or_ignore tutorial_clash row (tutorial t) in
     if rows \<noteq> tutorial t \<and> \<not> has_user t userID then Inl ErrForeignKey
     else Inr (bump TTutorial (t\<lparr>tutorial := rows\<rparr>))))"

definition ResetTutorialProgress :: "int \<Rightarrow> db \<Rightarrow> (db_error + unit) \<times> db" where
  "ResetTutorialProgress userID = WriteTx (exec (\<lambda>t.
     Inr (t\<lparr>tutorial := sql_delete (\<lambda>p. tp_UserID p = userID) (tutorial t)\<rparr>)))"

subsection \<open>LLM keys and usage\<close>

definition SetLLMKey :: "nanos \<Rightarrow> int \<Rightarrow> string \<Rightarrow> string \<Rightarrow> db \<Rightarrow> (db_error + unit) \<times> db" where
  "SetLLMKey now userID provider encryptedKey = WriteTx (exec (\<lambda>t.
     let row = \<lparr>lk_ID = next_id TLlmKeys t, lk_UserID = userID, lk_Provider = provider,
                lk_EncryptedKey = encryptedKey, lk_CreatedAt = unix now, lk_UpdatedAt = unix now\<rparr>;
         rows = sql_upsert llm_key_clash
                  (\<lambda>k. k\<lparr>lk_EncryptedKey := encryptedKey, lk_UpdatedAt := unix now\<rparr>)
                  row (llm_keys t) in
     if \<not> list_ex (\<lambda>k. llm_key_clash k row) (llm_keys t) \<and> \<not> has_user t userID
     then Inl ErrForeignKey
     else Inr (bump TLlmKeys (t\<lparr>llm_keys := rows\<rparr>))))"

definition GetLLMKey :: "int \<Rightarrow> string \<Rightarrow> db \<Rightarrow> db_error + string" where
  "GetLLMKey userID provider = ReadTx (\<lambda>t.
     query_row (map lk_EncryptedKey
       (sql_select (\<lambda>k. lk_UserID k = userID \<and> lk_Provider k = provider) (llm_keys t))))"

definition DeleteLLMKey :: "int \<Rightarrow> string \<Rightarrow> db \<Rightarrow> (db_error + unit) \<times> db" where
  "DeleteLLMKey userID provider = WriteTx (exec (\<lambda>t.
     Inr (t\<lparr>llm_keys := sql_delete (\<lambda>k. lk_UserID k = userID \<and> lk_Provider k = provider)
                  (llm_keys t)\<rparr>)))"

definition LLMKeyProvidersByUser :: "int \<Rightarrow> db \<Rightarrow> db_error + string list" where
  "LLMKeyProvidersByUser userID = ReadTx (\<lambda>t.
     Inr (sort (map lk_Provider (sql_select (\<lambda>k. lk_UserID k = userID) (llm_keys t)))))"

definition IncrementLLMUsage ::
  "nanos \<Rightarrow> int \<Rightarrow> string \<Rightarrow> int \<Rightarrow> int \<Rightarrow> db \<Rightarrow> (db_error + unit) \<times> db" where
  "IncrementLLMUsage now userID provider requests estTokens = WriteTx (exec (\<lambda>t.
     let periodStart = unix (trunc_hour now);
         periodEnd = unix (trunc_hour now + hour);
         row = \<lparr>lu_ID = next_id TLlmUsage t, lu_UserID = userID, lu_Provider = provider,
                lu_RequestCount = requests, lu_EstimatedTokens = estTokens,
                lu_PeriodStart = periodStart, lu_PeriodEnd = periodEnd\<rparr>;
         rows = sql_upsert llm_usage_clash
                  (\<lambda>u. u\<lparr>lu_RequestCount := lu_RequestCount u + requests,
                         lu_EstimatedTokens := lu_EstimatedTokens u + estTokens\<rparr>)
                  row (llm_usages t) in
     if \<not> list_ex (\<lambda>u. llm_usage_clash u row) (llm_usages t) \<and> \<not> has_user t userID
     then Inl ErrForeignKey
     else Inr (bump TLlmUsage (t\<lparr>llm_usages := rows\<rparr>))))"

definition GetLLMUsage :: "nanos \<Rightarrow> int \<Rightarrow> string \<Rightarrow> db \<Rightarrow> db_error + llm_usage" where
  "GetLLMUsage now userID provider = ReadTx (\<lambda>t.
     let periodStart = unix (trunc_hour now) in
     query_row (sql_select (\<lambda>u. lu_UserID u = userID \<and> lu_Provider u = provider \<and>
                                lu_PeriodStart u = periodStart) (llm_usages t)))"

subsection \<open>User email, trust levels, quotas and the audit log\<close>

definition SetUserEmail :: "nanos \<Rightarrow> int \<Rightarrow> string \<Rightarrow> db \<Rightarrow> (db_error + unit) \<times> db" where
  "SetUserEmail now userID email = WriteTx (exec (\<lambda>t.
     Inr (t\<lparr>users := sql_update (\<lambda>u. u_ID u = userID)
               (\<lambda>u. u\<lparr>u_Email := email, u_UpdatedAt := unix now\<rparr>) (users t)\<rparr>)))"

definition GetUserEmail :: "int \<Rightarrow> db \<Rightarrow> db_error + string" where
  "GetUserEmail userID = ReadTx (\<lambda>t.
     query_row (map u_Email (sql_select (\<lambda>u. u_ID u = userID) (users t))))"

definition GetUserTrustLevel :: "int \<Rightarrow> db \<Rightarrow> db_error + string" where
  "GetUserTrustLevel userID = ReadTx (\<lambda>t.
     query_row (map u_TrustLevel (sql_select (\<lambda>u. u_ID u = userID) (users t))))"

definition SetUserTrustLevel :: "nanos \<Rightarrow> int \<Rightarrow> string \<Rightarrow> db \<Rightarrow> (db_error + unit) \<times> db" where
  "SetUserTrustLevel now userID level d =
     (if \<not> IsValidTrustLevel level then (Inl (ErrMsg ''invalid trust level''), d)
      else
        let limits = GetTrustLimits level in
        WriteTx (exec (\<lambda>t.
          Inr (t\<lparr>users := sql_update (\<lambda>u. u_ID u = userID)
                    (\<lambda>u. u\<lparr>u_TrustLevel := level, u_vm_limit := tl_VMLimit limits,
                           u_cpu_limit := tl_CPULimit limits, u_ram_limit_mb := tl_RAMLimit limits,
                           u_disk_limit_mb := tl_DiskLimit limits, u_UpdatedAt := unix now\<rparr>)
                    (users t)\<rparr>))) d)"

definition CreateAuditLog ::
  "nanos \<Rightarrow> int option \<Rightarrow> string \<Rightarrow> string \<Rightarrow> string option \<Rightarrow> string option \<Rightarrow>
   db \<Rightarrow> (db_error + audit_log) \<times> db" where
  "CreateAuditLog now actorID action targetType targetID detail = WriteTx (\<lambda>t.
     let id = next_id TAudit t;
         row = \<lparr>al_ID = id, al_ActorID = actorID, al_Action = action,
                al_TargetType = targetType, al_TargetID = targetID, al_Detail = detail,
                al_CreatedAt = unix now\<rparr>
     in try_do (fk_check (case actorID of None \<Rightarrow> True | Some a \<Rightarrow> has_user t a)
                 (sql_insert no_clash row (audit t))) (\<lambda>rows.
          read_back (\<lambda>t. sql_select (\<lambda>l. al_ID l = id) (audit t))
            (bump TAudit (t\<lparr>audit := rows\<rparr>))))"

definition GetUserVMCount :: "int \<Rightarrow> db \<Rightarrow> db_error + int" where
  "GetUserVMCount userID = VMCountByUser userID"

definition GetUserQuotas :: "int \<Rightarrow> db \<Rightarrow> db_error + trust_limits" where
  "GetUserQuotas userID = ReadTx (\<lambda>t.
     query_row (map (\<lambda>u. \<lparr>tl_Level = u_TrustLevel u, tl_VMLimit = u_vm_limit u,
                           tl_CPULimit = u_cpu_limit u, tl_RAMLimit = u_ram_limit_mb u,
                           tl_DiskLimit = u_disk_limit_mb u\<rparr>)
       (sql_select (\<lambda>u. u_ID u = userID) (users t))))"

subsection \<open>Custom domains\<close>

definition CreateCustomDomain ::
  "nanos \<Rightarrow> int \<Rightarrow> string \<Rightarrow> string \<Rightarrow> db \<Rightarrow> (db_error + unit) \<times> db" where
  "CreateCustomDomain now vmID domain verificationToken = WriteTx (exec (\<lambda>t.
     let row = \<lparr>cd_ID = next_id TDomains t, cd_VMID = vmID, cd_Domain = domain,
                cd_Verified = False, cd_VerificationToken = Some verificationToken,
                cd_CreatedAt = unix now, cd_VerifiedAt = None\<rparr> in
     try_do (fk_check (has_vm t vmID) (sql_insert domain_clash row (domains t))) (\<lambda>rows.
       Inr (bump TDomains (t\<lparr>domains := rows\<rparr>)))))"

definition GetCustomDomain :: "string \<Rightarrow> db \<Rightarrow> db_error + custom_domain" where
  "GetCustomDomain domain = ReadTx (\<lambda>t.
     query_row (sql_select (\<lambda>c. cd_Domain c = domain) (domains t)))"

definition VerifyCustomDomain :: "nanos \<Rightarrow> string \<Rightarrow> db \<Rightarrow> (db_error + unit) \<times> db" where
  "VerifyCustomDomain now domain = WriteTx (exec (\<lambda>t.
     Inr (t\<lparr>domains := sql_update (\<lambda>c. cd_Domain c = domain)
               (\<lambda>c. c\<lparr>cd_Verified := True, cd_VerifiedAt := Some (unix now)\<rparr>) (domains t)\<rparr>)))"

definition ListCustomDomains :: "int \<Rightarrow> db \<Rightarrow> db_error + custom_domain list" where
  "ListCustomDomains vmID = ReadTx (\<lambda>t.
     Inr (order_by_desc cd_CreatedAt (sql_select (\<lambda>c. cd_VMID c = vmID) (domains t))))"

definition DeleteCustomDomain :: "string \<Rightarrow> db \<Rightarrow> (db_error + unit) \<times> db" where
  "DeleteCustomDomain domain = WriteTx (exec (\<lambda>t.
     Inr (t\<lparr>domains := sql_delete (\<lambda>c. cd_Domain c = domain) (domains t)\<rparr>)))"

subsection \<open>API tokens\<close>

definition CreateAPIToken ::
  "nanos \<Rightarrow> string \<Rightarrow> int \<Rightarrow> string \<Rightarrow> string \<Rightarrow> db \<Rightarrow> (db_error + api_token) \<times> db" where
  "CreateAPIToken now tokenID userID fullToken description = WriteTx (\<lambda>t.
     let row = \<lparr>at_TokenID = tokenID, at_UserID = userID, at_FullToken = fullToken,
                at_Description = Some description, at_CreatedAt = unix now,
                at_LastUsedAt = None, at_Revoked = False\<rparr>
     in try_do (fk_check (has_user t userID) (sql_insert api_token_clash row (api_tokens t))) (\<lambda>rows.
          read_back (\<lambda>t. sql_select (\<lambda>k. at_TokenID k = tokenID) (api_tokens t))
            (t\<lparr>api_tokens := rows\<rparr>)))"

definition APITokenByID :: "string \<Rightarrow> db \<Rightarrow> db_error + api_token" where
  "APITokenByID tokenID = ReadTx (\<lambda>t.
     query_row (sql_select (\<lambda>k. at_TokenID k = tokenID) (api_tokens t)))"

definition APITokensByUser :: "int \<Rightarrow> db \<Rightarrow> db_error + api_token list" where
  "APITokensByUser userID = ReadTx (\<lambda>t.
     Inr (order_by_desc at_CreatedAt (sql_select (\<lambda>k. at_UserID k = userID) (api_tokens t))))"

definition RevokeAPIToken :: "string \<Rightarrow> db \<Rightarrow> (db_error + unit) \<times> db" where
  "RevokeAPIToken tokenID = WriteTx (exec (\<lambda>t.
     Inr (t\<lparr>api_tokens := sql_update (\<lambda>k. at_TokenID k = tokenID)
               (\<lambda>k. k\<lparr>at_Revoked := True\<rparr>) (api_tokens t)\<rparr>)))"

definition TouchAPIToken :: "nanos \<Rightarrow> string \<Rightarrow> db \<Rightarrow> (db_error + unit) \<times> db" where
  "TouchAPIToken now tokenID = WriteTx (exec (\<lambda>t.
     Inr (t\<lparr>api_tokens := sql_update (\<lambda>k. at_TokenID k = tokenID)
               (\<lambda>k. k\<lparr>at_LastUsedAt := Some (unix now)\<rparr>) (api_tokens t)\<rparr>)))"

definition DeleteAPIToken :: "string \<Rightarrow> db \<Rightarrow> (db_error + unit) \<times> db" where
  "DeleteAPIToken tokenID = WriteTx (exec (\<lambda>t.
     Inr (t\<lparr>api_tokens := sql_delete (\<lambda>k. at_TokenID k = tokenID) (api_tokens t)\<rparr>)))"

subsection \<open>Magic tokens\<close>

definition CreateMagicToken ::
  "int \<Rightarrow> string \<Rightarrow> nanos \<Rightarrow> db \<Rightarrow> (db_error + unit) \<times> db" where
  "CreateMagicToken userID tok expiresAt = WriteTx (exec (\<lambda>t.
     let row = \<lparr>mt_Token = tok, mt_UserID = userID, mt_ExpiresAt = unix expiresAt,
                mt_Used = False\<rparr> in
     try_do (fk_check (has_user t userID) (sql_insert magic_clash row (magic_tokens t))) (\<lambda>rows.
       Inr (t\<lparr>magic_tokens := rows\<rparr>))))"

definition ValidateMagicToken :: "nanos \<Rightarrow> string \<Rightarrow> db \<Rightarrow> (db_error + user) \<times> db" where
  "ValidateMagicToken now tok = WriteTx (\<lambda>t.
     try_do (query_row (sql_select (\<lambda>m. mt_Token m = tok) (magic_tokens t))) (\<lambda>m.
       if mt_Used m then Inl (ErrMsg ''token already used'')
       else if now > mt_ExpiresAt m * second then Inl (ErrMsg ''token expired'')
       else
         read_back (\<lambda>t. map user.truncate (sql_select (\<lambda>u. u_ID u = mt_UserID m) (users t)))
           (t\<lparr>magic_tokens := sql_update (\<lambda>m. mt_Token m = tok)
                (\<lambda>m. m\<lparr>mt_Used := True\<rparr>) (magic_tokens t)\<rparr>)))"

definition magic_row_done :: "nanos \<Rightarrow> magic_token \<Rightarrow> bool" where
  "magic_row_done now m \<longleftrightarrow> mt_Used m \<or> mt_ExpiresAt m < unix now"

definition CleanExpiredMagicTokens :: "nanos \<Rightarrow> db \<Rightarrow> (db_error + int) \<times> db" where
  "CleanExpiredMagicTokens now = WriteTx (\<lambda>t.
     let count = int (length (sql_select (magic_row_done now) (magic_tokens t))) in
     Inr (count, t\<lparr>magic_tokens := sql_delete (magic_row_done now) (magic_tokens t)\<rparr>))"

subsection \<open>Arena matches\<close>

definition CreateArenaMatch ::
  "nanos \<Rightarrow> string \<Rightarrow> string \<Rightarrow> int \<Rightarrow> int \<Rightarrow> db \<Rightarrow> (db_error + arena_match) \<times> db" where
  "CreateArenaMatch now matchID scenario maxAgents createdBy = WriteTx (\<lambda>t.
     let row = \<lparr>am_ID = next_id TMatches t, am_MatchID = matchID, am_Scenario = scenario,
                am_Status = ''waiting'', am_MaxAgents = maxAgents, am_CreatedBy = createdBy,
                am_StartedAt = None, am_CompletedAt = None, am_CreatedAt = unix now\<rparr>
     in try_do (fk_check (has_user t createdBy) (sql_insert match_clash row (matches t))) (\<lambda>rows.
          read_back (\<lambda>t. sql_select (\<lambda>m. am_MatchID m = matchID) (matches t))
            (bump TMatches (t\<lparr>matches := rows\<rparr>))))"

definition GetArenaMatch :: "string \<Rightarrow> db \<Rightarrow> db_error + arena_match" where
  "GetArenaMatch matchID = ReadTx (\<lambda>t.
     query_row (sql_select (\<lambda>m. am_MatchID m = matchID) (matches t)))"

definition ListArenaMatches :: "db \<Rightarrow> db_error + arena_match list" where
  "ListArenaMatches = ReadTx (\<lambda>t.
     Inr (order_by_desc am_CreatedAt
            (sql_select (\<lambda>m. am_Status m = ''waiting'' \<or> am_Status m = ''running'') (matches t))))"

text \<open>DISTINCT over the LEFT JOIN: a match once, whichever participant makes it match.\<close>

definition ListArenaMatchHistory :: "int \<Rightarrow> db \<Rightarrow> db_error + arena_match list" where
  "ListArenaMatchHistory userID = ReadTx (\<lambda>t.
     Inr (sql_limit 50 (order_by_desc am_CreatedAt
       (sql_select (\<lambda>m. (am_Status m = ''completed'' \<or> am_Status m = ''cancelled'') \<and>
           (am_CreatedBy m = userID \<or>
            list_ex (\<lambda>p. ap_MatchID p = am_MatchID m \<and> ap_UserID p = userID) (participants t)))
         (matches t)))))"

definition UpdateArenaMatchStatus :: "nanos \<Rightarrow> string \<Rightarrow> string \<Rightarrow> db \<Rightarrow> (db_error + unit) \<times> db" where
  "UpdateArenaMatchStatus now matchID status = WriteTx (exec (\<lambda>t.
     let set_row = (\<lambda>f. if has_match t matchID \<and> \<not> match_status_ok status then Inl ErrCheck
             else Inr (t\<lparr>matches := sql_update (\<lambda>m. am_MatchID m = matchID) f (matches t)\<rparr>)) in
     if status = ''running''
     then set_row (\<lambda>m. m\<lparr>am_Status := status, am_StartedAt := Some (unix now)\<rparr>)
     else if status = ''completed'' \<or> status = ''cancelled''
     then set_row (\<lambda>m. m\<lparr>am_Status := status, am_CompletedAt := Some (unix now)\<rparr>)
     else set_row (\<lambda>m. m\<lparr>am_Status := status\<rparr>)))"

subsection \<open>Arena participants\<close>

definition JoinArenaMatch ::
  "nanos \<Rightarrow> string \<Rightarrow> int \<Rightarrow> db \<Rightarrow> (db_error + arena_participant) \<times> db" where
  "JoinArenaMatch now matchID userID = WriteTx (\<lambda>t.
     let id = next_id TParticipants t;
         row = \<lparr>ap_ID = id, ap_MatchID = matchID, ap_UserID = userID, ap_VMID = None,
                ap_Score = 0, ap_Status = ''joined'', ap_JoinedAt = unix now\<rparr>
     in try_do (fk_check (has_match t matchID \<and> has_user t userID)
                 (sql_insert participant_clash row (participants t))) (\<lambda>rows.
          read_back (\<lambda>t. sql_select (\<lambda>p. ap_ID p = id) (participants t))
            (bump TParticipants (t\<lparr>participants := rows\<rparr>))))"

definition ListArenaParticipants :: "string \<Rightarrow> db \<Rightarrow> db_error + arena_participant list" where
  "ListArenaParticipants matchID = ReadTx (\<lambda>t.
     Inr (order_by_desc ap_Score (sort_key ap_JoinedAt
            (sql_select (\<lambda>p. ap_MatchID p = matchID) (participants t)))))"

definition participant_key :: "string \<Rightarrow> int \<Rightarrow> arena_participant \<Rightarrow> bool" where
  "participant_key matchID userID p \<longleftrightarrow> ap_MatchID p = matchID \<and> ap_UserID p = userID"

definition UpdateArenaParticipantScore ::
  "string \<Rightarrow> int \<Rightarrow> int \<Rightarrow> db \<Rightarrow> (db_error + unit) \<times> db" where
  "UpdateArenaParticipantScore matchID userID score = WriteTx (exec (\<lambda>t.
     Inr (t\<lparr>participants := sql_update (participant_key matchID userID)
               (\<lambda>p. p\<lparr>ap_Score := score\<rparr>) (participants t)\<rparr>)))"

definition UpdateArenaParticipantStatus ::
  "string \<Rightarrow> int \<Rightarrow> string \<Rightarrow> db \<Rightarrow> (db_error + unit) \<times> db" where
  "UpdateArenaParticipantStatus matchID userID status = WriteTx (exec (\<lambda>t.
     if list_ex (participant_key matchID userID) (participants t) \<and> \<not> participant_status_ok status
     then Inl ErrCheck
     else Inr (t\<lparr>participants := sql_update (participant_key matchID userID)
               (\<lambda>p. p\<lparr>ap_Status := status\<rparr>) (participants t)\<rparr>)))"

definition ArenaParticipantCount :: "string \<Rightarrow> db \<Rightarrow> db_error + int" where
  "ArenaParticipantCount matchID = ReadTx (\<lambda>t.
     Inr (int (length (sql_select (\<lambda>p. ap_MatchID p = matchID) (participants t)))))"

definition IsArenaParticipant :: "string \<Rightarrow> int \<Rightarrow> db \<Rightarrow> db_error + bool" where
  "IsArenaParticipant matchID userID = ReadTx (\<lambda>t.
     Inr (list_ex (participant_key matchID userID) (participants t)))"

subsection \<open>Arena ELO\<close>

definition GetArenaELO :: "int \<Rightarrow> db \<Rightarrow> db_error + arena_elo" where
  "GetArenaELO userID d =
     (case ReadTx (\<lambda>t. query_row (sql_select (\<lambda>e. ae_UserID e = userID) (elos t))) d of
        Inl err \<Rightarrow>
          if err = ErrNoRows
          then Inr \<lparr>ae_UserID = userID, ae_Rating = 1200, ae_Wins = 0, ae_Losses = 0,
                    ae_Draws = 0, ae_LastMatchAt = None\<rparr>
          else Inl err
      | Inr elo \<Rightarrow> Inr elo)"

definition UpdateArenaELO ::
  "nanos \<Rightarrow> int \<Rightarrow> int \<Rightarrow> int \<Rightarrow> int \<Rightarrow> int \<Rightarrow> db \<Rightarrow> (db_error + unit) \<times> db" where
  "UpdateArenaELO now userID rating wins losses draws = WriteTx (exec (\<lambda>t.
     let row = \<lparr>ae_UserID = userID, ae_Rating = rating, ae_Wins = wins, ae_Losses = losses,
                ae_Draws = draws, ae_LastMatchAt = Some (unix now)\<rparr>;
         rows = sql_upsert elo_clash (\<lambda>e. row) row (elos t) in
     if \<not> list_ex (\<lambda>e. elo_clash e row) (elos t) \<and> \<not> has_user t userID then Inl ErrForeignKey
     else Inr (t\<lparr>elos := rows\<rparr>)))"

definition GetArenaLeaderboard :: "int \<Rightarrow> db \<Rightarrow> db_error + arena_elo list" where
  "GetArenaLeaderboard limit = ReadTx (\<lambda>t.
     Inr (sql_limit limit (order_by_desc ae_Rating (sort_key ae_UserID (elos t)))))"

definition GetArenaRank :: "int \<Rightarrow> db \<Rightarrow> db_error + int" where
  "GetArenaRank userID = ReadTx (\<lambda>t.
     let mine = (case sql_select (\<lambda>e. ae_UserID e = userID) (elos t) of
                   [] \<Rightarrow> 1200 | e # _ \<Rightarrow> ae_Rating e) in
     Inr (int (length (sql_select (\<lambda>e. ae_Rating e > mine) (elos t))) + 1))"

end
