(* ===== verification/Db_Invariant.thy ===== *)
theory Db_Invariant
  imports Db_Queries
begin

section \<open>The invariant of the database\<close>

text \<open>
  What the schema and the queries of \<^verbatim>\<open>internal/db\<close> keep true of the stored rows:
  ids ascend below the AUTOINCREMENT counter, UNIQUE clauses hold, every REFERENCES clause
  points to a row, the CHECK clauses hold, and \<open>is_public\<close> is set only on the one flag row a
  VM has (\<open>tables_ok\<close>). \<open>db_op\<close> lists the writing functions; \<open>run_ops\<close> runs any sequence of them, each at its own time, and
  \<open>run_ops_ok\<close> is the preservation theorem the other theories use.
\<close>

definition user_ids :: "tables \<Rightarrow> int set" where "user_ids t = u_ID ` set (users t)"
definition vm_ids :: "tables \<Rightarrow> int set" where "vm_ids t = v_ID ` set (vms t)"
definition match_ids :: "tables \<Rightarrow> string set" where "match_ids t = am_MatchID ` set (matches t)"

text \<open>The foreign keys and CHECK clauses of one row, given the ids they may name.\<close>

definition key_row_ok :: "int set \<Rightarrow> ssh_key \<Rightarrow> bool" where
  "key_row_ok U k \<longleftrightarrow> k_UserID k \<in> U"
definition vm_row_ok :: "int set \<Rightarrow> vm \<Rightarrow> bool" where
  "vm_row_ok U v \<longleftrightarrow> v_UserID v \<in> U \<and> vm_status_ok (v_Status v)"
definition share_row_ok :: "int set \<Rightarrow> int set \<Rightarrow> share \<Rightarrow> bool" where
  "share_row_ok V U s \<longleftrightarrow> s_VMID s \<in> V \<and> (\<forall>u. s_SharedWith s = Some u \<longrightarrow> u \<in> U) \<and>
     (s_IsPublic s \<longrightarrow> flag_row (s_VMID s) s)"
definition match_row_ok :: "int set \<Rightarrow> arena_match \<Rightarrow> bool" where
  "match_row_ok U m \<longleftrightarrow> am_CreatedBy m \<in> U \<and> match_status_ok (am_Status m)"
definition participant_row_ok :: "string set \<Rightarrow> int set \<Rightarrow> int set \<Rightarrow> arena_participant \<Rightarrow> bool" where
  "participant_row_ok M U V p \<longleftrightarrow> ap_MatchID p \<in> M \<and> ap_UserID p \<in> U \<and>
     (\<forall>v. ap_VMID p = Some v \<longrightarrow> v \<in> V) \<and> participant_status_ok (ap_Status p)"
definition audit_row_ok :: "int set \<Rightarrow> audit_log \<Rightarrow> bool" where
  "audit_row_ok U l \<longleftrightarrow> (\<forall>u. al_ActorID l = Some u \<longrightarrow> u \<in> U)"

lemmas row_ok_defs = key_row_ok_def vm_row_ok_def share_row_ok_def match_row_ok_def
  participant_row_ok_def audit_row_ok_def

text \<open>At most one flag row per VM, which \<^verbatim>\<open>SetVMPublic\<close> updates in place.\<close>

definition one_flag :: "share list \<Rightarrow> bool" where
  "one_flag ss \<longleftrightarrow> (\<forall>v. length (sql_select (flag_row v) ss) \<le> 1)"

definition tables_ok :: "tables \<Rightarrow> bool" where
  "tables_ok t \<longleftrightarrow>
     table_wf u_ID user_clash (\<lambda>u. IsValidTrustLevel (u_TrustLevel u)) (users t) (seq t TUsers) \<and>
     table_wf k_ID key_clash (key_row_ok (user_ids t)) (ssh_keys t) (seq t TSshKeys) \<and>
     table_wf v_ID vm_clash (vm_row_ok (user_ids t)) (vms t) (seq t TVms) \<and>
     set_wf (=) (\<lambda>g. fst g \<in> vm_ids t) (vm_tags t) \<and>
     table_wf s_ID no_clash (share_row_ok (vm_ids t) (user_ids t)) (shares t) (seq t TShares) \<and>
     one_flag (shares t) \<and>
     table_wf t_ID token_clash (\<lambda>k. t_UserID k \<in> user_ids t) (tokens t) (seq t TTokens) \<and>
     table_wf tp_ID tutorial_clash (\<lambda>p. tp_UserID p \<in> user_ids t) (tutorial t) (seq t TTutorial) \<and>
     table_wf lk_ID llm_key_clash (\<lambda>k. lk_UserID k \<in> user_ids t) (llm_keys t) (seq t TLlmKeys) \<and>
     table_wf lu_ID llm_usage_clash (\<lambda>u. lu_UserID u \<in> user_ids t) (llm_usages t) (seq t TLlmUsage) \<and>
     set_wf api_token_clash (\<lambda>k. at_UserID k \<in> user_ids t) (api_tokens t) \<and>
     set_wf magic_clash (\<lambda>m. mt_UserID m \<in> user_ids t) (magic_tokens t) \<and>
     table_wf am_ID match_clash (match_row_ok (user_ids t)) (matches t) (seq t TMatches) \<and>
     table_wf ap_ID participant_clash (participant_row_ok (match_ids t) (user_ids t) (vm_ids t))
       (participants t) (seq t TParticipants) \<and>
     set_wf elo_clash (\<lambda>e. ae_UserID e \<in> user_ids t) (elos t) \<and>
     table_wf cd_ID domain_clash (\<lambda>c. cd_VMID c \<in> vm_ids t) (domains t) (seq t TDomains) \<and>
     table_wf al_ID no_clash (audit_row_ok (user_ids t)) (audit t) (seq t TAudit)"

definition db_ok :: "db \<Rightarrow> bool" where "db_ok d = tables_ok (tables d)"

subsection \<open>The writing operations as data\<close>

text \<open>One constructor per writing function, grouped by subject.\<close>

datatype account_op =
    OpCreateUser string
  | OpAddSSHKey int string string string
  | OpDeleteSSHKey int
  | OpSetUserEmail int string
  | OpSetUserTrustLevel int string
  | OpCreateAuditLog "int option" string string "string option" "string option"
  | OpCompleteTutorialLesson int int
  | OpResetTutorialProgress int

primrec run_account_op :: "nanos \<Rightarrow> account_op \<Rightarrow> db \<Rightarrow> db" where
  "run_account_op now (OpCreateUser h) d = snd (CreateUser now h d)"
| "run_account_op now (OpAddSSHKey u k f c) d = snd (AddSSHKey now u k f c d)"
| "run_account_op now (OpDeleteSSHKey k) d = snd (DeleteSSHKey k d)"
| "run_account_op now (OpSetUserEmail u e) d = snd (SetUserEmail now u e d)"
| "run_account_op now (OpSetUserTrustLevel u l) d = snd (SetUserTrustLevel now u l d)"
| "run_account_op now (OpCreateAuditLog a n tt ti x) d = snd (CreateAuditLog now a n tt ti x d)"
| "run_account_op now (OpCompleteTutorialLesson u l) d = snd (CompleteTutorialLesson now u l d)"
| "run_account_op now (OpResetTutorialProgress u) d = snd (ResetTutorialProgress u d)"

datatype vm_op =
    OpCreateVM int string string int int int
  | OpUpdateVMStatus int string "string option" "string option" "string option" "int option"
  | OpDeleteVM int
  | OpRenameVM int string
  | OpAddTag int string
  | OpRemoveTag int string
  | OpCreateCustomDomain int string string
  | OpVerifyCustomDomain string
  | OpDeleteCustomDomain string

primrec run_vm_op :: "nanos \<Rightarrow> vm_op \<Rightarrow> db \<Rightarrow> db" where
  "run_vm_op now (OpCreateVM u n i c m g) d = snd (CreateVM now u n i c m g d)"
| "run_vm_op now (OpUpdateVMStatus v s tap ip mac pid) d = snd (UpdateVMStatus now v s tap ip mac pid d)"
| "run_vm_op now (OpDeleteVM v) d = snd (DeleteVM v d)"
| "run_vm_op now (OpRenameVM v n) d = snd (RenameVM now v n d)"
| "run_vm_op now (OpAddTag v g) d = snd (AddTag v g d)"
| "run_vm_op now (OpRemoveTag v g) d = snd (RemoveTag v g d)"
| "run_vm_op now (OpCreateCustomDomain v n k) d = snd (CreateCustomDomain now v n k d)"
| "run_vm_op now (OpVerifyCustomDomain n) d = snd (VerifyCustomDomain now n d)"
| "run_vm_op now (OpDeleteCustomDomain n) d = snd (DeleteCustomDomain n d)"

datatype share_op =
    OpShareVMWithUser int int
  | OpShareVMWithLink int string
  | OpRemoveShare int
  | OpRemoveShareByVMAndUser int int
  | OpRemoveShareLink int string
  | OpSetVMPublic int bool

primrec run_share_op :: "nanos \<Rightarrow> share_op \<Rightarrow> db \<Rightarrow> db" where
  "run_share_op now (OpShareVMWithUser v u) d = snd (ShareVMWithUser now v u d)"
| "run_share_op now (OpShareVMWithLink v l) d = snd (ShareVMWithLink now v l d)"
| "run_share_op now (OpRemoveShare s) d = snd (RemoveShare s d)"
| "run_share_op now (OpRemoveShareByVMAndUser v u) d = snd (RemoveShareByVMAndUser v u d)"
| "run_share_op now (OpRemoveShareLink v l) d = snd (RemoveShareLink v l d)"
| "run_share_op now (OpSetVMPublic v b) d = snd (SetVMPublic now v b d)"

datatype token_op =
    OpCreateToken int string string nanos
  | OpCleanExpiredTokens
  | OpCreateAPIToken string int string string
  | OpRevokeAPIToken string
  | OpTouchAPIToken string
  | OpDeleteAPIToken string
  | OpCreateMagicToken int string nanos
  | OpValidateMagicToken string
  | OpCleanExpiredMagicTokens

primrec run_token_op :: "nanos \<Rightarrow> token_op \<Rightarrow> db \<Rightarrow> db" where
  "run_token_op now (OpCreateToken u h k e) d = snd (CreateToken now u h k e d)"
| "run_token_op now OpCleanExpiredTokens d = snd (CleanExpiredTokens now d)"
| "run_token_op now (OpCreateAPIToken k u f x) d = snd (CreateAPIToken now k u f x d)"
| "run_token_op now (OpRevokeAPIToken k) d = snd (RevokeAPIToken k d)"
| "run_token_op now (OpTouchAPIToken k) d = snd (TouchAPIToken now k d)"
| "run_token_op now (OpDeleteAPIToken k) d = snd (DeleteAPIToken k d)"
| "run_token_op now (OpCreateMagicToken u k e) d = snd (CreateMagicToken u k e d)"
| "run_token_op now (OpValidateMagicToken k) d = snd (ValidateMagicToken now k d)"
| "run_token_op now OpCleanExpiredMagicTokens d = snd (CleanExpiredMagicTokens now d)"

datatype llm_op =
    OpSetLLMKey int string string
  | OpDeleteLLMKey int string
  | OpIncrementLLMUsage int string int int

primrec run_llm_op :: "nanos \<Rightarrow> llm_op \<Rightarrow> db \<Rightarrow> db" where
  "run_llm_op now (OpSetLLMKey u p k) d = snd (SetLLMKey now u p k d)"
| "run_llm_op now (OpDeleteLLMKey u p) d = snd (DeleteLLMKey u p d)"
| "run_llm_op now (OpIncrementLLMUsage u p r k) d = snd (IncrementLLMUsage now u p r k d)"

datatype arena_op =
    OpCreateArenaMatch string string int int
  | OpUpdateArenaMatchStatus string string
  | OpJoinArenaMatch string int
  | OpUpdateArenaParticipantScore string int int
  | OpUpdateArenaParticipantStatus string int string
  | OpUpdateArenaELO int int int int int

primrec run_arena_op :: "nanos \<Rightarrow> arena_op \<Rightarrow> db \<Rightarrow> db" where
  "run_arena_op now (OpCreateArenaMatch m s n u) d = snd (CreateArenaMatch now m s n u d)"
| "run_arena_op now (OpUpdateArenaMatchStatus m s) d = snd (UpdateArenaMatchStatus now m s d)"
| "run_arena_op now (OpJoinArenaMatch m u) d = snd (JoinArenaMatch now m u d)"
| "run_arena_op now (OpUpdateArenaParticipantScore m u s) d = snd (UpdateArenaParticipantScore m u s d)"
| "run_arena_op now (OpUpdateArenaParticipantStatus m u s) d = snd (UpdateArenaParticipantStatus m u s d)"
| "run_arena_op now (OpUpdateArenaELO u r w l x) d = snd (UpdateArenaELO now u r w l x d)"

datatype db_op =
    Account account_op
  | Machine vm_op
  | Sharing share_op
  | Tok token_op
  | Llm llm_op
  | Arena arena_op

primrec run_op :: "nanos \<Rightarrow> db_op \<Rightarrow> db \<Rightarrow> db" where
  "run_op now (Account op) d = run_account_op now op d"
| "run_op now (Machine op) d = run_vm_op now op d"
| "run_op now (Sharing op) d = run_share_op now op d"
| "run_op now (Tok op) d = run_token_op now op d"
| "run_op now (Llm op) d = run_llm_op now op d"
| "run_op now (Arena op) d = run_arena_op now op d"

definition run_ops :: "(nanos \<times> db_op) list \<Rightarrow> db \<Rightarrow> db" where
  "run_ops ops d = fold (\<lambda>(now, op). run_op now op) ops d"

lemma run_ops_simps [simp]:
  "run_ops [] d = d" "run_ops (x # xs) d = run_ops xs (run_op (fst x) (snd x) d)"
  by (simp_all add: run_ops_def split: prod.splits)

end
