(* ===== verification/Db_Preservation.thy ===== *)
theory Db_Preservation
  imports Db_Invariant
begin

section \<open>Every writing operation keeps the database invariant\<close>

text \<open>
  The \<open>put_\<close> lemmas say what replacing one table requires for \<^term>\<open>tables_ok\<close>; the
  \<open>_ok\<close> lemmas discharge it for each writing function of \<^verbatim>\<open>internal/db/queries.go\<close> with
  the laws of the table interfaces; \<open>run_ops_ok\<close> closes them over any sequence.
\<close>

subsection \<open>Replacing one table\<close>

lemma put_keys:
  "tables_ok t \<Longrightarrow> table_wf k_ID key_clash (key_row_ok (user_ids t)) rows n \<Longrightarrow>
   tables_ok (t\<lparr>ssh_keys := rows, seq := (seq t)(TSshKeys := n)\<rparr>)"
  "tables_ok t \<Longrightarrow> table_wf k_ID key_clash (key_row_ok (user_ids t)) rows (seq t TSshKeys) \<Longrightarrow>
   tables_ok (t\<lparr>ssh_keys := rows\<rparr>)"
  "tables_ok t \<Longrightarrow> table_wf k_ID key_clash (key_row_ok (user_ids t)) (ssh_keys t) (seq t TSshKeys)"
  by (simp_all add: tables_ok_def user_ids_def vm_ids_def match_ids_def)

lemma put_tokens:
  "tables_ok t \<Longrightarrow> table_wf t_ID token_clash (\<lambda>k. t_UserID k \<in> user_ids t) rows n \<Longrightarrow>
   tables_ok (t\<lparr>tokens := rows, seq := (seq t)(TTokens := n)\<rparr>)"
  "tables_ok t \<Longrightarrow> table_wf t_ID token_clash (\<lambda>k. t_UserID k \<in> user_ids t) rows (seq t TTokens) \<Longrightarrow>
   tables_ok (t\<lparr>tokens := rows\<rparr>)"
  "tables_ok t \<Longrightarrow> table_wf t_ID token_clash (\<lambda>k. t_UserID k \<in> user_ids t) (tokens t) (seq t TTokens)"
  by (simp_all add: tables_ok_def user_ids_def vm_ids_def match_ids_def)

lemma put_tutorial:
  "tables_ok t \<Longrightarrow> table_wf tp_ID tutorial_clash (\<lambda>p. tp_UserID p \<in> user_ids t) rows n \<Longrightarrow>
   tables_ok (t\<lparr>tutorial := rows, seq := (seq t)(TTutorial := n)\<rparr>)"
  "tables_ok t \<Longrightarrow> table_wf tp_ID tutorial_clash (\<lambda>p. tp_UserID p \<in> user_ids t) rows (seq t TTutorial) \<Longrightarrow>
   tables_ok (t\<lparr>tutorial := rows\<rparr>)"
  "tables_ok t \<Longrightarrow> table_wf tp_ID tutorial_clash (\<lambda>p. tp_UserID p \<in> user_ids t) (tutorial t) (seq t TTutorial)"
  by (simp_all add: tables_ok_def user_ids_def vm_ids_def match_ids_def)

lemma put_llm_keys:
  "tables_ok t \<Longrightarrow> table_wf lk_ID llm_key_clash (\<lambda>k. lk_UserID k \<in> user_ids t) rows n \<Longrightarrow>
   tables_ok (t\<lparr>llm_keys := rows, seq := (seq t)(TLlmKeys := n)\<rparr>)"
  "tables_ok t \<Longrightarrow> table_wf lk_ID llm_key_clash (\<lambda>k. lk_UserID k \<in> user_ids t) rows (seq t TLlmKeys) \<Longrightarrow>
   tables_ok (t\<lparr>llm_keys := rows\<rparr>)"
  "tables_ok t \<Longrightarrow> table_wf lk_ID llm_key_clash (\<lambda>k. lk_UserID k \<in> user_ids t) (llm_keys t) (seq t TLlmKeys)"
  by (simp_all add: tables_ok_def user_ids_def vm_ids_def match_ids_def)

lemma put_llm_usages:
  "tables_ok t \<Longrightarrow> table_wf lu_ID llm_usage_clash (\<lambda>u. lu_UserID u \<in> user_ids t) rows n \<Longrightarrow>
   tables_ok (t\<lparr>llm_usages := rows, seq := (seq t)(TLlmUsage := n)\<rparr>)"
  "tables_ok t \<Longrightarrow> table_wf lu_ID llm_usage_clash (\<lambda>u. lu_UserID u \<in> user_ids t) rows (seq t TLlmUsage) \<Longrightarrow>
   tables_ok (t\<lparr>llm_usages := rows\<rparr>)"
  "tables_ok t \<Longrightarrow> table_wf lu_ID llm_usage_clash (\<lambda>u. lu_UserID u \<in> user_ids t) (llm_usages t) (seq t TLlmUsage)"
  by (simp_all add: tables_ok_def user_ids_def vm_ids_def match_ids_def)

lemma put_participants:
  "tables_ok t \<Longrightarrow> table_wf ap_ID participant_clash (participant_row_ok (match_ids t) (user_ids t) (vm_ids t)) rows n \<Longrightarrow>
   tables_ok (t\<lparr>participants := rows, seq := (seq t)(TParticipants := n)\<rparr>)"
  "tables_ok t \<Longrightarrow> table_wf ap_ID participant_clash (participant_row_ok (match_ids t) (user_ids t) (vm_ids t)) rows (seq t TParticipants) \<Longrightarrow>
   tables_ok (t\<lparr>participants := rows\<rparr>)"
  "tables_ok t \<Longrightarrow> table_wf ap_ID participant_clash (participant_row_ok (match_ids t) (user_ids t) (vm_ids t)) (participants t) (seq t TParticipants)"
  by (simp_all add: tables_ok_def user_ids_def vm_ids_def match_ids_def)

lemma put_domains:
  "tables_ok t \<Longrightarrow> table_wf cd_ID domain_clash (\<lambda>c. cd_VMID c \<in> vm_ids t) rows n \<Longrightarrow>
   tables_ok (t\<lparr>domains := rows, seq := (seq t)(TDomains := n)\<rparr>)"
  "tables_ok t \<Longrightarrow> table_wf cd_ID domain_clash (\<lambda>c. cd_VMID c \<in> vm_ids t) rows (seq t TDomains) \<Longrightarrow>
   tables_ok (t\<lparr>domains := rows\<rparr>)"
  "tables_ok t \<Longrightarrow> table_wf cd_ID domain_clash (\<lambda>c. cd_VMID c \<in> vm_ids t) (domains t) (seq t TDomains)"
  by (simp_all add: tables_ok_def user_ids_def vm_ids_def match_ids_def)

lemma put_audit:
  "tables_ok t \<Longrightarrow> table_wf al_ID no_clash (audit_row_ok (user_ids t)) rows n \<Longrightarrow>
   tables_ok (t\<lparr>audit := rows, seq := (seq t)(TAudit := n)\<rparr>)"
  "tables_ok t \<Longrightarrow> table_wf al_ID no_clash (audit_row_ok (user_ids t)) rows (seq t TAudit) \<Longrightarrow>
   tables_ok (t\<lparr>audit := rows\<rparr>)"
  "tables_ok t \<Longrightarrow> table_wf al_ID no_clash (audit_row_ok (user_ids t)) (audit t) (seq t TAudit)"
  by (simp_all add: tables_ok_def user_ids_def vm_ids_def match_ids_def)

lemma put_tags:
  "tables_ok t \<Longrightarrow> set_wf (=) (\<lambda>g. fst g \<in> vm_ids t) rows \<Longrightarrow> tables_ok (t\<lparr>vm_tags := rows\<rparr>)"
  "tables_ok t \<Longrightarrow> set_wf (=) (\<lambda>g. fst g \<in> vm_ids t) (vm_tags t)"
  by (simp_all add: tables_ok_def user_ids_def vm_ids_def match_ids_def)

lemma put_api_tokens:
  "tables_ok t \<Longrightarrow> set_wf api_token_clash (\<lambda>k. at_UserID k \<in> user_ids t) rows \<Longrightarrow> tables_ok (t\<lparr>api_tokens := rows\<rparr>)"
  "tables_ok t \<Longrightarrow> set_wf api_token_clash (\<lambda>k. at_UserID k \<in> user_ids t) (api_tokens t)"
  by (simp_all add: tables_ok_def user_ids_def vm_ids_def match_ids_def)

lemma put_magic:
  "tables_ok t \<Longrightarrow> set_wf magic_clash (\<lambda>m. mt_UserID m \<in> user_ids t) rows \<Longrightarrow> tables_ok (t\<lparr>magic_tokens := rows\<rparr>)"
  "tables_ok t \<Longrightarrow> set_wf magic_clash (\<lambda>m. mt_UserID m \<in> user_ids t) (magic_tokens t)"
  by (simp_all add: tables_ok_def user_ids_def vm_ids_def match_ids_def)

lemma put_elos:
  "tables_ok t \<Longrightarrow> set_wf elo_clash (\<lambda>e. ae_UserID e \<in> user_ids t) rows \<Longrightarrow> tables_ok (t\<lparr>elos := rows\<rparr>)"
  "tables_ok t \<Longrightarrow> set_wf elo_clash (\<lambda>e. ae_UserID e \<in> user_ids t) (elos t)"
  by (simp_all add: tables_ok_def user_ids_def vm_ids_def match_ids_def)


lemma put_shares:
  "tables_ok t \<Longrightarrow> table_wf s_ID no_clash (share_row_ok (vm_ids t) (user_ids t)) rows n \<Longrightarrow>
   one_flag rows \<Longrightarrow> tables_ok (t\<lparr>shares := rows, seq := (seq t)(TShares := n)\<rparr>)"
  "tables_ok t \<Longrightarrow> table_wf s_ID no_clash (share_row_ok (vm_ids t) (user_ids t)) rows (seq t TShares) \<Longrightarrow>
   one_flag rows \<Longrightarrow> tables_ok (t\<lparr>shares := rows\<rparr>)"
  "tables_ok t \<Longrightarrow> table_wf s_ID no_clash (share_row_ok (vm_ids t) (user_ids t)) (shares t) (seq t TShares)"
  "tables_ok t \<Longrightarrow> one_flag (shares t)"
  by (simp_all add: tables_ok_def user_ids_def vm_ids_def match_ids_def)

lemma put_users:
  assumes t: "tables_ok t"
    and rows: "table_wf u_ID user_clash (\<lambda>u. IsValidTrustLevel (u_TrustLevel u)) rows n"
    and ids: "user_ids t \<subseteq> u_ID ` set rows"
  shows "tables_ok (t\<lparr>users := rows, seq := (seq t)(TUsers := n)\<rparr>)"
    and "n = seq t TUsers \<Longrightarrow> tables_ok (t\<lparr>users := rows\<rparr>)"
proof -
  define I where "I = u_ID ` set rows"
  have ids': "user_ids (t\<lparr>users := rows\<rparr>) = I" "user_ids (t\<lparr>users := rows, seq := s\<rparr>) = I"
    "\<And>i. i \<in> user_ids t \<Longrightarrow> i \<in> I" for s
    using ids by (auto simp: I_def user_ids_def)
  show "tables_ok (t\<lparr>users := rows, seq := (seq t)(TUsers := n)\<rparr>)"
    and "n = seq t TUsers \<Longrightarrow> tables_ok (t\<lparr>users := rows\<rparr>)"
    using t rows unfolding tables_ok_def
    by (auto simp: vm_ids_def match_ids_def ids' row_ok_defs
      elim!: keys_t.tw_mono vms_t.tw_mono shares_t.tw_mono tokens_t.tw_mono tutorial_t.tw_mono
        llm_keys_t.tw_mono llm_usage_t.tw_mono api_tokens_t.sw_mono magic_t.sw_mono
        matches_t.tw_mono participants_t.tw_mono elos_t.sw_mono audit_t.tw_mono)
qed

lemma users_wf:
  "tables_ok t \<Longrightarrow>
   table_wf u_ID user_clash (\<lambda>u. IsValidTrustLevel (u_TrustLevel u)) (users t) (seq t TUsers)"
  by (simp add: tables_ok_def)

lemma put_vms:
  assumes t: "tables_ok t"
    and rows: "table_wf v_ID vm_clash (vm_row_ok (user_ids t)) rows n"
    and ids: "vm_ids t \<subseteq> v_ID ` set rows"
  shows "tables_ok (t\<lparr>vms := rows, seq := (seq t)(TVms := n)\<rparr>)"
    and "n = seq t TVms \<Longrightarrow> tables_ok (t\<lparr>vms := rows\<rparr>)"
proof -
  define I where "I = v_ID ` set rows"
  have ids': "vm_ids (t\<lparr>vms := rows\<rparr>) = I" "vm_ids (t\<lparr>vms := rows, seq := s\<rparr>) = I"
    "\<And>i. i \<in> vm_ids t \<Longrightarrow> i \<in> I" for s
    using ids by (auto simp: I_def vm_ids_def)
  show "tables_ok (t\<lparr>vms := rows, seq := (seq t)(TVms := n)\<rparr>)"
    and "n = seq t TVms \<Longrightarrow> tables_ok (t\<lparr>vms := rows\<rparr>)"
    using t rows unfolding tables_ok_def
    by (auto simp: user_ids_def match_ids_def ids' row_ok_defs
      elim!: tags_t.sw_mono shares_t.tw_mono participants_t.tw_mono domains_t.tw_mono)
qed

lemma vms_wf:
  "tables_ok t \<Longrightarrow> table_wf v_ID vm_clash (vm_row_ok (user_ids t)) (vms t) (seq t TVms)"
  by (simp add: tables_ok_def)

lemma put_matches:
  assumes t: "tables_ok t"
    and rows: "table_wf am_ID match_clash (match_row_ok (user_ids t)) rows n"
    and ids: "match_ids t \<subseteq> am_MatchID ` set rows"
  shows "tables_ok (t\<lparr>matches := rows, seq := (seq t)(TMatches := n)\<rparr>)"
    and "n = seq t TMatches \<Longrightarrow> tables_ok (t\<lparr>matches := rows\<rparr>)"
proof -
  define I where "I = am_MatchID ` set rows"
  have ids': "match_ids (t\<lparr>matches := rows\<rparr>) = I" "match_ids (t\<lparr>matches := rows, seq := s\<rparr>) = I"
    "\<And>i. i \<in> match_ids t \<Longrightarrow> i \<in> I" for s
    using ids by (auto simp: I_def match_ids_def)
  show "tables_ok (t\<lparr>matches := rows, seq := (seq t)(TMatches := n)\<rparr>)"
    and "n = seq t TMatches \<Longrightarrow> tables_ok (t\<lparr>matches := rows\<rparr>)"
    using t rows unfolding tables_ok_def
    by (auto simp: user_ids_def vm_ids_def ids' row_ok_defs
      elim!: participants_t.tw_mono)
qed

lemma matches_wf:
  "tables_ok t \<Longrightarrow> table_wf am_ID match_clash (match_row_ok (user_ids t)) (matches t) (seq t TMatches)"
  by (simp add: tables_ok_def)

lemma read_back_Inr: "read_back q t = Inr (r, t') \<longleftrightarrow> t' = t \<and> query_row (q t) = Inr r"
  by (auto simp: read_back_def try_do_Inr)

lemma has_ids:
  "has_user t i \<longleftrightarrow> i \<in> user_ids t" "has_vm t i \<longleftrightarrow> i \<in> vm_ids t"
  "has_match t m \<longleftrightarrow> m \<in> match_ids t"
  by (simp_all add: has_user_iff has_vm_iff has_match_iff user_ids_def vm_ids_def match_ids_def)

text \<open>What a successful body of a write transaction did.\<close>

lemmas op_Inr = read_back_Inr exec_Inr try_do_Inr sql_insert_Inr has_ids Let_def next_id_def bump_def

lemma one_flag_delete: "one_flag ss \<Longrightarrow> one_flag (sql_delete p ss)"
proof -
  have "length (filter q (filter p' ss)) \<le> length (filter q ss)" for p' q :: "share \<Rightarrow> bool"
    by (induction ss) auto
  then show "one_flag ss \<Longrightarrow> one_flag (sql_delete p ss)"
    by (force simp: one_flag_def sql_delete_def sql_select_def intro: order_trans)
qed

lemma one_flag_snoc: "one_flag ss \<Longrightarrow> \<not> flag_row (s_VMID s) s \<Longrightarrow> one_flag (ss @ [s])"
  by (auto simp: one_flag_def sql_select_def flag_row_def)

lemma one_flag_snoc_first:
  assumes "one_flag ss" "sql_select (flag_row v) ss = []" "s_VMID s = v"
  shows "one_flag (ss @ [s])"
  unfolding one_flag_def
proof
  fix w show "length (sql_select (flag_row w) (ss @ [s])) \<le> 1"
    using assms by (cases "w = v") (auto simp: one_flag_def sql_select_def flag_row_def)
qed

lemma one_flag_public:
  "one_flag (sql_update (flag_row v) (\<lambda>s. s\<lparr>s_IsPublic := b\<rparr>) ss) = one_flag ss"
proof -
  have "length (sql_select (flag_row w) (sql_update (flag_row v) (\<lambda>s. s\<lparr>s_IsPublic := b\<rparr>) ss))
      = length (sql_select (flag_row w) ss)" for w
    by (induction ss) (auto simp: sql_select_def sql_update_def flag_row_def)
  then show ?thesis by (simp add: one_flag_def)
qed

subsection \<open>Every writing operation keeps the invariant\<close>

lemma CreateUser_ok: "db_ok d \<Longrightarrow> db_ok (snd (CreateUser now h d))"
  unfolding CreateUser_def db_ok_def
  by (erule WriteTx_invariant [rotated])
     (auto simp: op_Inr user_ids_def IsValidTrustLevel_def ValidTrustLevels_def
       intro!: put_users users_t.tw_snoc dest: users_wf)

lemma AddSSHKey_ok: "db_ok d \<Longrightarrow> db_ok (snd (AddSSHKey now u k f c d))"
  unfolding AddSSHKey_def db_ok_def
  by (erule WriteTx_invariant [rotated])
     (auto simp: op_Inr row_ok_defs intro!: put_keys(1) keys_t.tw_snoc dest: put_keys(3))

lemma DeleteSSHKey_ok: "db_ok d \<Longrightarrow> db_ok (snd (DeleteSSHKey k d))"
  unfolding DeleteSSHKey_def db_ok_def
  by (erule WriteTx_invariant [rotated])
     (auto simp: op_Inr intro!: put_keys(2) intro: keys_t.tw_delete dest: put_keys(3))

lemma SetUserEmail_ok: "db_ok d \<Longrightarrow> db_ok (snd (SetUserEmail now u e d))"
  unfolding SetUserEmail_def db_ok_def
  by (erule WriteTx_invariant [rotated])
     (auto simp: op_Inr user_ids_def image_sql_update user_clash_def split: if_splits
       intro!: put_users(2) users_t.tw_update dest: users_wf)

lemma SetUserTrustLevel_ok: "db_ok d \<Longrightarrow> db_ok (snd (SetUserTrustLevel now u l d))"
  unfolding SetUserTrustLevel_def db_ok_def Let_def
  by (simp, intro impI, erule WriteTx_invariant [rotated])
     (auto simp: op_Inr user_ids_def image_sql_update user_clash_def split: if_splits
       intro!: put_users(2) users_t.tw_update dest: users_wf)

lemma CreateAuditLog_ok: "db_ok d \<Longrightarrow> db_ok (snd (CreateAuditLog now a n tt ti x d))"
  unfolding CreateAuditLog_def db_ok_def
  by (erule WriteTx_invariant [rotated])
     (auto simp: op_Inr row_ok_defs split: option.splits
       intro!: put_audit(1) audit_t.tw_snoc dest: put_audit(3))

lemma CompleteTutorialLesson_ok: "db_ok d \<Longrightarrow> db_ok (snd (CompleteTutorialLesson now u l d))"
  unfolding CompleteTutorialLesson_def db_ok_def
  by (erule WriteTx_invariant [rotated])
     (auto simp: op_Inr split: if_split_asm intro!: put_tutorial(1) tutorial_t.tw_or_ignore
       dest: put_tutorial(3))

lemma ResetTutorialProgress_ok: "db_ok d \<Longrightarrow> db_ok (snd (ResetTutorialProgress u d))"
  unfolding ResetTutorialProgress_def db_ok_def
  by (erule WriteTx_invariant [rotated])
     (auto simp: op_Inr intro!: put_tutorial(2) intro: tutorial_t.tw_delete dest: put_tutorial(3))

lemma CreateVM_ok: "db_ok d \<Longrightarrow> db_ok (snd (CreateVM now u n i c m g d))"
  unfolding CreateVM_def db_ok_def
  by (erule WriteTx_invariant [rotated])
     (auto simp: op_Inr vm_ids_def row_ok_defs vm_status_ok_def
       intro!: put_vms(1) vms_t.tw_snoc dest: vms_wf)

lemma UpdateVMStatus_ok: "db_ok d \<Longrightarrow> db_ok (snd (UpdateVMStatus now v s tap ip mac pid d))"
  unfolding UpdateVMStatus_def db_ok_def
  by (erule WriteTx_invariant [rotated])
     (auto simp: op_Inr image_sql_update vm_ids_def row_ok_defs vm_clash_def sql_update_none split: if_splits
       intro!: put_vms(2) vms_t.tw_update dest: vms_wf)

lemma RenameVM_ok: "db_ok d \<Longrightarrow> db_ok (snd (RenameVM now v n d))"
  unfolding RenameVM_def db_ok_def
  by (erule WriteTx_invariant [rotated])
     (auto simp: op_Inr image_sql_update vm_ids_def row_ok_defs vm_clash_def list_ex_iff split: if_splits
       intro!: put_vms(2) vms_t.tw_update dest: vms_wf, metis+)

lemma DeleteVM_ok: "db_ok d \<Longrightarrow> db_ok (snd (DeleteVM v d))"
  unfolding DeleteVM_def db_ok_def
proof (erule WriteTx_invariant [rotated], clarsimp simp: op_Inr list_ex_iff split: if_split_asm)
  let ?t = "tables d"
  let ?t' = "?t\<lparr>vms := sql_delete (\<lambda>w. v_ID w = v) (vms ?t), vm_tags := sql_delete (\<lambda>g. fst g = v) (vm_tags ?t),
                shares := sql_delete (\<lambda>s. s_VMID s = v) (shares ?t),
                domains := sql_delete (\<lambda>c. cd_VMID c = v) (domains ?t)\<rparr>"
  assume ok: "tables_ok ?t" and free: "v \<in> vm_ids ?t \<longrightarrow> (\<forall>p \<in> set (participants ?t). ap_VMID p \<noteq> Some v)"
  have ids: "user_ids ?t' = user_ids ?t" "match_ids ?t' = match_ids ?t" "vm_ids ?t' = vm_ids ?t - {v}"
    by (auto simp: user_ids_def match_ids_def vm_ids_def)
  have "table_wf ap_ID participant_clash (participant_row_ok (match_ids ?t) (user_ids ?t) (vm_ids ?t - {v}))
          (participants ?t) (seq ?t TParticipants)"
    using put_participants(3) [OF ok] free by (auto simp: table_wf_def participant_row_ok_def)
  then show "tables_ok ?t'"
    using ok unfolding tables_ok_def ids
    by (auto intro: vms_t.tw_delete tags_t.sw_delete shares_t.tw_delete domains_t.tw_delete
          one_flag_delete simp: share_row_ok_def)
qed

lemma AddTag_ok: "db_ok d \<Longrightarrow> db_ok (snd (AddTag v g d))"
  unfolding AddTag_def db_ok_def
  by (erule WriteTx_invariant [rotated])
     (auto simp: op_Inr split: if_split_asm intro!: put_tags(1) tags_t.sw_or_ignore dest: put_tags(2))

lemma RemoveTag_ok: "db_ok d \<Longrightarrow> db_ok (snd (RemoveTag v g d))"
  unfolding RemoveTag_def db_ok_def
  by (erule WriteTx_invariant [rotated])
     (auto simp: op_Inr intro!: put_tags(1) intro: tags_t.sw_delete dest: put_tags(2))

lemma CreateCustomDomain_ok: "db_ok d \<Longrightarrow> db_ok (snd (CreateCustomDomain now v n k d))"
  unfolding CreateCustomDomain_def db_ok_def
  by (erule WriteTx_invariant [rotated])
     (auto simp: op_Inr intro!: put_domains(1) domains_t.tw_snoc dest: put_domains(3))

lemma VerifyCustomDomain_ok: "db_ok d \<Longrightarrow> db_ok (snd (VerifyCustomDomain now n d))"
  unfolding VerifyCustomDomain_def db_ok_def
  by (erule WriteTx_invariant [rotated])
     (auto simp: op_Inr domain_clash_def split: if_split_asm
       intro!: put_domains(2) domains_t.tw_update dest: put_domains(3))

lemma DeleteCustomDomain_ok: "db_ok d \<Longrightarrow> db_ok (snd (DeleteCustomDomain n d))"
  unfolding DeleteCustomDomain_def db_ok_def
  by (erule WriteTx_invariant [rotated])
     (auto simp: op_Inr intro!: put_domains(2) intro: domains_t.tw_delete dest: put_domains(3))

lemma ShareVMWithUser_ok: "db_ok d \<Longrightarrow> db_ok (snd (ShareVMWithUser now v u d))"
  unfolding ShareVMWithUser_def db_ok_def
  by (erule WriteTx_invariant [rotated])
     (auto simp: op_Inr row_ok_defs flag_row_def no_clash_def sql_insert_or_ignore_def list_ex_iff
        split: if_split_asm
       intro!: put_shares(1) shares_t.tw_snoc one_flag_snoc dest: put_shares(3,4))

lemma ShareVMWithLink_ok: "db_ok d \<Longrightarrow> db_ok (snd (ShareVMWithLink now v l d))"
  unfolding ShareVMWithLink_def db_ok_def
  by (erule WriteTx_invariant [rotated])
     (auto simp: op_Inr row_ok_defs flag_row_def
       intro!: put_shares(1) shares_t.tw_snoc one_flag_snoc dest: put_shares(3,4))

lemma share_delete_ok:
  "db_ok d \<Longrightarrow>
   db_ok (snd (WriteTx (exec (\<lambda>t. Inr (t\<lparr>shares := sql_delete p (shares t)\<rparr>))) d))"
  unfolding db_ok_def
  by (erule WriteTx_invariant [rotated])
     (auto simp: op_Inr intro!: put_shares(2) one_flag_delete intro: shares_t.tw_delete
       dest: put_shares(3,4))

lemma SetVMPublic_ok: "db_ok d \<Longrightarrow> db_ok (snd (SetVMPublic now v b d))"
  unfolding SetVMPublic_def db_ok_def
proof (erule WriteTx_invariant [rotated], clarsimp simp: op_Inr split: if_split_asm, goal_cases)
  case 1
  then show ?case
    by (auto simp: row_ok_defs flag_row_def no_clash_def one_flag_public
      intro!: put_shares(2) shares_t.tw_update dest: put_shares(3,4))
next
  case 2
  then have "sql_update (flag_row v) (\<lambda>s. s\<lparr>s_IsPublic := b\<rparr>) (shares (tables d)) = shares (tables d)"
    by (intro sql_update_none) (auto simp: sql_select_def filter_empty_conv)
  with 2 show ?case
    by (auto simp: row_ok_defs flag_row_def no_clash_def
      intro!: put_shares(1) shares_t.tw_snoc one_flag_snoc_first [of _ v] dest: put_shares(3,4))
qed
lemma CreateToken_ok: "db_ok d \<Longrightarrow> db_ok (snd (CreateToken now u h k e d))"
  unfolding CreateToken_def db_ok_def
  by (erule WriteTx_invariant [rotated])
     (auto simp: op_Inr intro!: put_tokens(1) tokens_t.tw_snoc dest: put_tokens(3))

lemma CleanExpiredTokens_ok: "db_ok d \<Longrightarrow> db_ok (snd (CleanExpiredTokens now d))"
  unfolding CleanExpiredTokens_def db_ok_def
  by (erule WriteTx_invariant [rotated])
     (auto simp: Let_def intro!: put_tokens(2) intro: tokens_t.tw_delete dest: put_tokens(3))

lemma CreateAPIToken_ok: "db_ok d \<Longrightarrow> db_ok (snd (CreateAPIToken now k u f x d))"
  unfolding CreateAPIToken_def db_ok_def
  by (erule WriteTx_invariant [rotated])
     (auto simp: op_Inr intro!: put_api_tokens(1) api_tokens_t.sw_snoc dest: put_api_tokens(2))

lemma RevokeAPIToken_ok: "db_ok d \<Longrightarrow> db_ok (snd (RevokeAPIToken k d))"
  unfolding RevokeAPIToken_def db_ok_def
  by (erule WriteTx_invariant [rotated])
     (auto simp: op_Inr api_token_clash_def split: if_split_asm
       intro!: put_api_tokens(1) api_tokens_t.sw_update dest: put_api_tokens(2))

lemma TouchAPIToken_ok: "db_ok d \<Longrightarrow> db_ok (snd (TouchAPIToken now k d))"
  unfolding TouchAPIToken_def db_ok_def
  by (erule WriteTx_invariant [rotated])
     (auto simp: op_Inr api_token_clash_def split: if_split_asm
       intro!: put_api_tokens(1) api_tokens_t.sw_update dest: put_api_tokens(2))

lemma DeleteAPIToken_ok: "db_ok d \<Longrightarrow> db_ok (snd (DeleteAPIToken k d))"
  unfolding DeleteAPIToken_def db_ok_def
  by (erule WriteTx_invariant [rotated])
     (auto simp: op_Inr intro!: put_api_tokens(1) intro: api_tokens_t.sw_delete dest: put_api_tokens(2))

lemma CreateMagicToken_ok: "db_ok d \<Longrightarrow> db_ok (snd (CreateMagicToken u k e d))"
  unfolding CreateMagicToken_def db_ok_def
  by (erule WriteTx_invariant [rotated])
     (auto simp: op_Inr intro!: put_magic(1) magic_t.sw_snoc dest: put_magic(2))

lemma ValidateMagicToken_ok: "db_ok d \<Longrightarrow> db_ok (snd (ValidateMagicToken now k d))"
  unfolding ValidateMagicToken_def db_ok_def
  by (erule WriteTx_invariant [rotated])
     (auto simp: op_Inr magic_clash_def split: if_split_asm
       intro!: put_magic(1) magic_t.sw_update dest: put_magic(2))

lemma CleanExpiredMagicTokens_ok: "db_ok d \<Longrightarrow> db_ok (snd (CleanExpiredMagicTokens now d))"
  unfolding CleanExpiredMagicTokens_def db_ok_def
  by (erule WriteTx_invariant [rotated])
     (auto simp: Let_def intro!: put_magic(1) intro: magic_t.sw_delete dest: put_magic(2))

lemma SetLLMKey_ok: "db_ok d \<Longrightarrow> db_ok (snd (SetLLMKey now u p k d))"
  unfolding SetLLMKey_def db_ok_def
  by (erule WriteTx_invariant [rotated])
     (auto simp: op_Inr llm_key_clash_def split: if_split_asm
       intro!: put_llm_keys(1) llm_keys_t.tw_upsert dest: put_llm_keys(3))

lemma DeleteLLMKey_ok: "db_ok d \<Longrightarrow> db_ok (snd (DeleteLLMKey u p d))"
  unfolding DeleteLLMKey_def db_ok_def
  by (erule WriteTx_invariant [rotated])
     (auto simp: op_Inr intro!: put_llm_keys(2) intro: llm_keys_t.tw_delete dest: put_llm_keys(3))

lemma IncrementLLMUsage_ok: "db_ok d \<Longrightarrow> db_ok (snd (IncrementLLMUsage now u p r k d))"
  unfolding IncrementLLMUsage_def db_ok_def
  by (erule WriteTx_invariant [rotated])
     (auto simp: op_Inr llm_usage_clash_def split: if_split_asm
       intro!: put_llm_usages(1) llm_usage_t.tw_upsert dest: put_llm_usages(3))

lemma CreateArenaMatch_ok: "db_ok d \<Longrightarrow> db_ok (snd (CreateArenaMatch now m s n u d))"
  unfolding CreateArenaMatch_def db_ok_def
  by (erule WriteTx_invariant [rotated])
     (auto simp: op_Inr match_ids_def row_ok_defs match_status_ok_def
       intro!: put_matches(1) matches_t.tw_snoc dest: matches_wf)

lemma UpdateArenaMatchStatus_ok: "db_ok d \<Longrightarrow> db_ok (snd (UpdateArenaMatchStatus now m s d))"
  unfolding UpdateArenaMatchStatus_def db_ok_def
  by (erule WriteTx_invariant [rotated])
     (auto simp: op_Inr image_sql_update match_ids_def row_ok_defs match_clash_def split: if_split_asm
       intro!: put_matches(2) matches_t.tw_update dest: matches_wf)

lemma JoinArenaMatch_ok: "db_ok d \<Longrightarrow> db_ok (snd (JoinArenaMatch now m u d))"
  unfolding JoinArenaMatch_def db_ok_def
  by (erule WriteTx_invariant [rotated])
     (auto simp: op_Inr row_ok_defs participant_status_ok_def
       intro!: put_participants(1) participants_t.tw_snoc dest: put_participants(3))

lemma UpdateArenaParticipantScore_ok: "db_ok d \<Longrightarrow> db_ok (snd (UpdateArenaParticipantScore m u s d))"
  unfolding UpdateArenaParticipantScore_def db_ok_def
  by (erule WriteTx_invariant [rotated])
     (auto simp: op_Inr row_ok_defs participant_clash_def split: if_split_asm
       intro!: put_participants(2) participants_t.tw_update dest: put_participants(3))

lemma UpdateArenaParticipantStatus_ok: "db_ok d \<Longrightarrow> db_ok (snd (UpdateArenaParticipantStatus m u s d))"
  unfolding UpdateArenaParticipantStatus_def db_ok_def
  by (erule WriteTx_invariant [rotated])
     (auto simp: op_Inr row_ok_defs participant_clash_def list_ex_iff split: if_split_asm
       intro!: put_participants(2) participants_t.tw_update dest: put_participants(3))

lemma UpdateArenaELO_ok: "db_ok d \<Longrightarrow> db_ok (snd (UpdateArenaELO now u r w l x d))"
  unfolding UpdateArenaELO_def db_ok_def
  by (erule WriteTx_invariant [rotated])
     (auto simp: op_Inr elo_clash_def split: if_split_asm
       intro!: put_elos(1) elos_t.sw_upsert dest: put_elos(2))

lemmas account_ops_ok = CreateUser_ok AddSSHKey_ok DeleteSSHKey_ok SetUserEmail_ok
  SetUserTrustLevel_ok CreateAuditLog_ok CompleteTutorialLesson_ok ResetTutorialProgress_ok
lemmas vm_ops_ok = CreateVM_ok UpdateVMStatus_ok DeleteVM_ok RenameVM_ok AddTag_ok RemoveTag_ok
  CreateCustomDomain_ok VerifyCustomDomain_ok DeleteCustomDomain_ok
lemmas share_ops_ok = ShareVMWithUser_ok ShareVMWithLink_ok SetVMPublic_ok share_delete_ok
lemmas token_ops_ok = CreateToken_ok CleanExpiredTokens_ok CreateAPIToken_ok RevokeAPIToken_ok
  TouchAPIToken_ok DeleteAPIToken_ok CreateMagicToken_ok ValidateMagicToken_ok
  CleanExpiredMagicTokens_ok
lemmas llm_ops_ok = SetLLMKey_ok DeleteLLMKey_ok IncrementLLMUsage_ok
lemmas arena_ops_ok = CreateArenaMatch_ok UpdateArenaMatchStatus_ok JoinArenaMatch_ok
  UpdateArenaParticipantScore_ok UpdateArenaParticipantStatus_ok UpdateArenaELO_ok

lemma run_op_ok: "db_ok d \<Longrightarrow> db_ok (run_op now op d)"
proof (induction op)
  case (Account op)
  then show ?case by (cases op) (simp_all add: account_ops_ok)
next
  case (Machine op)
  then show ?case by (cases op) (simp_all add: vm_ops_ok)
next
  case (Sharing op)
  then show ?case
    by (cases op) (simp_all add: share_ops_ok RemoveShare_def RemoveShareByVMAndUser_def
      RemoveShareLink_def)
next
  case (Tok op)
  then show ?case by (cases op) (simp_all add: token_ops_ok)
next
  case (Llm op)
  then show ?case by (cases op) (simp_all add: llm_ops_ok)
next
  case (Arena op)
  then show ?case by (cases op) (simp_all add: arena_ops_ok)
qed

lemma run_ops_ok: "db_ok d \<Longrightarrow> db_ok (run_ops ops d)"
  by (induction ops arbitrary: d) (simp_all add: run_op_ok)

lemma new_db_ok: "db_ok new_db"
  by (simp add: db_ok_def new_db_def tables_ok_def empty_tables_def table_wf_def set_wf_def
      table_ok_def rows_uniq_def one_flag_def sql_select_def)

subsection \<open>What the operations leave alone\<close>

lemma WriteTx_frame:
  assumes "\<And>a t'. fn (tables d) = Inr (a, t') \<Longrightarrow> g t' = g (tables d)"
  shows "g (tables (snd (WriteTx fn d))) = g (tables d)"
  using assms by (auto simp: WriteTx_def split: sum.splits)

lemmas account_defs = CreateUser_def AddSSHKey_def DeleteSSHKey_def SetUserEmail_def
  SetUserTrustLevel_def CreateAuditLog_def CompleteTutorialLesson_def ResetTutorialProgress_def
lemmas machine_defs = CreateVM_def UpdateVMStatus_def DeleteVM_def RenameVM_def AddTag_def
  RemoveTag_def CreateCustomDomain_def VerifyCustomDomain_def DeleteCustomDomain_def
lemmas share_defs = ShareVMWithUser_def ShareVMWithLink_def RemoveShare_def
  RemoveShareByVMAndUser_def RemoveShareLink_def SetVMPublic_def
lemmas token_defs = CreateToken_def CleanExpiredTokens_def CreateAPIToken_def RevokeAPIToken_def
  TouchAPIToken_def DeleteAPIToken_def CreateMagicToken_def ValidateMagicToken_def
  CleanExpiredMagicTokens_def
lemmas llm_defs = SetLLMKey_def DeleteLLMKey_def IncrementLLMUsage_def
lemmas arena_defs = CreateArenaMatch_def UpdateArenaMatchStatus_def JoinArenaMatch_def
  UpdateArenaParticipantScore_def UpdateArenaParticipantStatus_def UpdateArenaELO_def

lemma magic_frame:
  "magic_tokens (tables (run_account_op now ao d)) = magic_tokens (tables d)"
  "magic_tokens (tables (run_vm_op now vo d)) = magic_tokens (tables d)"
  "magic_tokens (tables (run_share_op now so d)) = magic_tokens (tables d)"
  "magic_tokens (tables (run_llm_op now lo d)) = magic_tokens (tables d)"
  "magic_tokens (tables (run_arena_op now ro d)) = magic_tokens (tables d)"
  by (cases ao, auto simp: account_defs op_Inr intro!: WriteTx_frame split: if_split_asm)
     (cases vo, auto simp: machine_defs op_Inr intro!: WriteTx_frame split: if_split_asm,
      cases so, auto simp: share_defs op_Inr intro!: WriteTx_frame split: if_split_asm,
      cases lo, auto simp: llm_defs op_Inr intro!: WriteTx_frame split: if_split_asm,
      cases ro, auto simp: arena_defs op_Inr intro!: WriteTx_frame split: if_split_asm)

lemma vms_frame:
  "vms (tables (run_account_op now ao d)) = vms (tables d)"
  "vms (tables (run_share_op now so d)) = vms (tables d)"
  "vms (tables (run_token_op now tk d)) = vms (tables d)"
  "vms (tables (run_llm_op now lo d)) = vms (tables d)"
  "vms (tables (run_arena_op now ro d)) = vms (tables d)"
  by (cases ao, auto simp: account_defs op_Inr intro!: WriteTx_frame split: if_split_asm)
     (cases so, auto simp: share_defs op_Inr intro!: WriteTx_frame split: if_split_asm,
      cases tk, auto simp: token_defs op_Inr intro!: WriteTx_frame split: if_split_asm,
      cases lo, auto simp: llm_defs op_Inr intro!: WriteTx_frame split: if_split_asm,
      cases ro, auto simp: arena_defs op_Inr intro!: WriteTx_frame split: if_split_asm)
lemma vms_seq_frame:
  "seq (tables (run_account_op now ao d)) TVms = seq (tables d) TVms"
  "seq (tables (run_share_op now so d)) TVms = seq (tables d) TVms"
  "seq (tables (run_token_op now tk d)) TVms = seq (tables d) TVms"
  "seq (tables (run_llm_op now lo d)) TVms = seq (tables d) TVms"
  "seq (tables (run_arena_op now ro d)) TVms = seq (tables d) TVms"
  by (cases ao, auto simp: account_defs op_Inr intro!: WriteTx_frame split: if_split_asm)
     (cases so, auto simp: share_defs op_Inr intro!: WriteTx_frame split: if_split_asm,
      cases tk, auto simp: token_defs op_Inr intro!: WriteTx_frame split: if_split_asm,
      cases lo, auto simp: llm_defs op_Inr intro!: WriteTx_frame split: if_split_asm,
      cases ro, auto simp: arena_defs op_Inr intro!: WriteTx_frame split: if_split_asm)

end
