(* ===== verification/Db_Properties.thy ===== *)
theory Db_Properties
  imports Db_Preservation
begin

section \<open>What the database promises its clients\<close>

text \<open>
  Properties of \<^verbatim>\<open>internal/db\<close> that the gateway, proxy and panel rely on: magic links are
  single use, a stored key finds its owner, flags, shares, quotas, usage counters and new rows
  read back as written, and a deleted VM is gone for good.
\<close>

subsection \<open>Lemmas on the queries\<close>

lemma query_row_single:
  "query_row (map f (sql_select p rows)) =
     (case query_row (sql_select p rows) of Inl e \<Rightarrow> Inl e | Inr r \<Rightarrow> Inr (f r))"
  by (cases "sql_select p rows") (simp_all add: query_row_def)

lemma sql_select_update:
  "(\<And>r. q (f r) = q r) \<Longrightarrow> sql_select q (sql_update p f rows) =
     map (\<lambda>r. if p r then f r else r) (sql_select q rows)"
  by (induction rows) (auto simp: sql_select_def sql_update_def)

lemma sql_select_snoc [simp]:
  "sql_select p (rows @ [r]) = sql_select p rows @ (if p r then [r] else [])"
  by (simp add: sql_select_def)

lemma sql_select_empty: "sql_select p rows = [] \<longleftrightarrow> (\<forall>r \<in> set rows. \<not> p r)"
  by (simp add: sql_select_def filter_empty_conv)

lemma ok_tables:
  assumes "db_ok d"
  shows "table_ok u_ID user_clash (users (tables d)) (seq (tables d) TUsers)"
    and "table_ok k_ID key_clash (ssh_keys (tables d)) (seq (tables d) TSshKeys)"
    and "table_ok v_ID vm_clash (vms (tables d)) (seq (tables d) TVms)"
    and "table_ok t_ID token_clash (tokens (tables d)) (seq (tables d) TTokens)"
    and "table_ok lu_ID llm_usage_clash (llm_usages (tables d)) (seq (tables d) TLlmUsage)"
    and "rows_uniq magic_clash (magic_tokens (tables d))"
  using assms by (simp_all add: db_ok_def tables_ok_def table_wf_def set_wf_def)

text \<open>The only row of a table with a given id, after it has been appended.\<close>

lemma query_fresh_id:
  assumes "table_ok rid clash rows n"
  shows "sql_select (\<lambda>r. rid r = n + 1) rows = []"
  using assms by (force simp: sql_select_empty table_ok_def)

definition magic_spent :: "string \<Rightarrow> tables \<Rightarrow> bool" where
  "magic_spent tok t \<longleftrightarrow> (\<forall>m \<in> set (magic_tokens t). mt_Token m = tok \<longrightarrow> mt_Used m)"

definition vm_id_dead :: "int \<Rightarrow> tables \<Rightarrow> bool" where
  "vm_id_dead i t \<longleftrightarrow> i \<notin> vm_ids t \<and> i \<le> seq t TVms"

lemma magic_spent_token_op:
  assumes "magic_spent tok (tables d)" and "\<And>u e. x \<noteq> OpCreateMagicToken u tok e"
  shows "magic_spent tok (tables (run_token_op now x d))"
  using assms
  apply (cases x)
  apply (simp_all add: token_defs)
  apply (erule WriteTx_invariant [where P = "magic_spent tok", rotated], (auto simp: op_Inr magic_spent_def set_sql_update split: if_split_asm)[])+
  done

lemma magic_spent_step:
  assumes "magic_spent tok (tables d)" and "\<And>u e. op \<noteq> Tok (OpCreateMagicToken u tok e)"
  shows "magic_spent tok (tables (run_op now op d))"
  using assms
  by (cases op) (simp_all add: magic_spent_token_op, simp_all add: magic_spent_def magic_frame)

lemma magic_spent_steps:
  assumes "magic_spent tok (tables d)"
    and "\<And>t u e. (t, Tok (OpCreateMagicToken u tok e)) \<notin> set ops"
  shows "magic_spent tok (tables (run_ops ops d))"
  using assms
proof (induction ops arbitrary: d)
  case (Cons x ops)
  have "magic_spent tok (tables (run_op (fst x) (snd x) d))"
    by (rule magic_spent_step [OF Cons.prems(1)])
       (use Cons.prems(2) in \<open>metis list.set_intros(1) prod.collapse\<close>)
  then show ?case using Cons.IH Cons.prems(2) by (metis list.set_intros(2) run_ops_simps(2))
qed simp

lemma magic_spent_rejected:
  assumes "magic_spent tok (tables d)"
  shows "\<exists>e. ValidateMagicToken now tok d = (Inl e, d)"
proof -
  have "m \<in> set (sql_select (\<lambda>m. mt_Token m = tok) (magic_tokens (tables d))) \<Longrightarrow> mt_Used m" for m
    using assms by (auto simp: magic_spent_def)
  then show ?thesis
    by (cases "sql_select (\<lambda>m. mt_Token m = tok) (magic_tokens (tables d))")
       (auto simp: ValidateMagicToken_def WriteTx_def query_row_def)
qed

lemma ValidateMagicToken_Inr:
  assumes "ValidateMagicToken now tok d = (Inr u, d')"
  obtains m where "query_row (sql_select (\<lambda>m. mt_Token m = tok) (magic_tokens (tables d))) = Inr m"
    and "\<not> mt_Used m" and "now \<le> mt_ExpiresAt m * second" and "writer_open d"
    and "UserByID (mt_UserID m) (d\<lparr>reader_open := True\<rparr>) = Inr u"
    and "d' = d\<lparr>tables := (tables d)\<lparr>magic_tokens := sql_update (\<lambda>m. mt_Token m = tok)
                (\<lambda>m. m\<lparr>mt_Used := True\<rparr>) (magic_tokens (tables d))\<rparr>\<rparr>"
  using assms unfolding ValidateMagicToken_def WriteTx_Inr try_do_Inr
  by (elim conjE exE) (simp add: read_back_Inr UserByID_def ReadTx_def not_less split: if_split_asm)

lemma ValidateMagicToken_spends:
  assumes "ValidateMagicToken now tok d = (Inr u, d')"
  shows "magic_spent tok (tables d')"
proof -
  from assms have "magic_tokens (tables d') = sql_update (\<lambda>m. mt_Token m = tok)
      (\<lambda>m. m\<lparr>mt_Used := True\<rparr>) (magic_tokens (tables d))"
    by (rule ValidateMagicToken_Inr) simp
  then show ?thesis
    by (simp only: magic_spent_def set_sql_update ball_simps) simp
qed

lemma vm_id_dead_vm_op:
  assumes "vm_id_dead i (tables d)"
  shows "vm_id_dead i (tables (run_vm_op now x d))"
  using assms
  apply (cases x)
  apply (simp_all add: machine_defs)
  apply (erule WriteTx_invariant [where P = "vm_id_dead i", rotated], (auto simp: op_Inr vm_id_dead_def vm_ids_def set_sql_update split: if_split_asm)[])+
  done

lemma vm_id_dead_step: "vm_id_dead i (tables d) \<Longrightarrow> vm_id_dead i (tables (run_op now op d))"
  by (cases op) (simp_all add: vm_id_dead_vm_op,
    simp_all add: vm_id_dead_def vm_ids_def vms_frame vms_seq_frame)

lemma vm_id_dead_steps: "vm_id_dead i (tables d) \<Longrightarrow> vm_id_dead i (tables (run_ops ops d))"
  by (induction ops arbitrary: d) (simp_all add: vm_id_dead_step)

text \<open>For the witnesses: a run that \<open>code_simp\<close> shows to succeed.\<close>

lemma Inr_snd: "\<not> (case fst x of Inl _ \<Rightarrow> True | Inr _ \<Rightarrow> False) \<Longrightarrow> \<exists>a. x = (Inr a, snd x)"
  by (cases x) (auto split: sum.splits)

lemma Inr_unit_snd:
  "\<not> (case fst x of Inl _ \<Rightarrow> True | Inr _ \<Rightarrow> False) \<Longrightarrow> x = (Inr (), snd x)"
  by (cases x) (auto split: sum.splits)


lemma ValidateMagicToken_succeeds:
  assumes "db_ok d" "writer_open d" "m \<in> set (magic_tokens (tables d))" "mt_Token m = tok"
    and "\<not> mt_Used m" "now \<le> mt_ExpiresAt m * second"
  shows "\<exists>u d'. ValidateMagicToken now tok d = (Inr u, d')"
proof -
  have q: "query_row (sql_select (\<lambda>m. mt_Token m = tok) (magic_tokens (tables d))) = Inr m"
    using assms(3,4)
    by (intro magic_t.uniq_query_key [OF ok_tables(6) [OF assms(1)]]) (auto simp: magic_clash_def)
  have "mt_UserID m \<in> user_ids (tables d)"
    using assms(1,3) by (simp add: db_ok_def tables_ok_def set_wf_def)
  then obtain u where "u \<in> set (users (tables d))" "u_ID u = mt_UserID m" by (auto simp: user_ids_def)
  then have "query_row (sql_select (\<lambda>u. u_ID u = mt_UserID m) (users (tables d))) = Inr u"
    by (rule users_t.ok_query_id [OF ok_tables(1) [OF assms(1)]])
  with q assms(2,5,6) show ?thesis
    by (simp add: ValidateMagicToken_def WriteTx_def read_back_def query_row_single)
qed

text \<open>A database with two users, a VM, a key and a magic link, for the witnesses.\<close>

definition sample_db :: db where
  "sample_db = run_ops
     [(0, Account (OpCreateUser ''ada'')), (0, Account (OpCreateUser ''bob'')),
      (0, Machine (OpCreateVM 1 ''web'' ''ussyuntu'' 1 512 2)),
      (0, Tok (OpCreateMagicToken 1 ''tok'' (10 * second)))] new_db"

lemma sample_db_ok: "db_ok sample_db"
  by (simp only: sample_db_def run_ops_ok new_db_ok)

lemma sample_db_eval:
  "reader_open sample_db" "writer_open sample_db"
  "magic_tokens (tables sample_db) =
     [\<lparr>mt_Token = ''tok'', mt_UserID = 1, mt_ExpiresAt = 10, mt_Used = False\<rparr>]"
  by code_simp+

subsection \<open>Properties\<close>

text \<open>C2. Whatever sequence of writing operations runs on a fresh database, and whatever their
arguments and outcomes, the stored tables satisfy the schema's keys, foreign keys and CHECKs, ids
stay below the AUTOINCREMENT counters, and a VM has at most one public-flag row.\<close>

theorem db_invariant_always: "db_ok (run_ops ops new_db)"
  by (rule run_ops_ok [OF new_db_ok])

text \<open>A magic link works exactly when its token is stored, unused and not past its expiry.\<close>

theorem validate_magic_iff:
  assumes "db_ok d" "writer_open d"
  shows "(\<exists>u d'. ValidateMagicToken now tok d = (Inr u, d')) \<longleftrightarrow>
    (\<exists>m \<in> set (magic_tokens (tables d)).
       mt_Token m = tok \<and> \<not> mt_Used m \<and> now \<le> mt_ExpiresAt m * second)"
  using ValidateMagicToken_succeeds [OF assms]
  by (auto elim!: ValidateMagicToken_Inr dest!: query_row_in)

theorem validate_magic_iff_witness:
  "\<exists>u d'. ValidateMagicToken (10 * second) ''tok'' sample_db = (Inr u, d')"
  by (subst validate_magic_iff [OF sample_db_ok]) (simp_all add: sample_db_eval)

text \<open>C9. A magic link signs in at most once: after it has been accepted, it is refused at every
later time and after any further operations, unless one of them stores the same token again.\<close>

theorem magic_token_single_use:
  assumes "ValidateMagicToken now tok d = (Inr u, d1)"
    and "\<And>t u' e. (t, Tok (OpCreateMagicToken u' tok e)) \<notin> set ops"
  shows "\<exists>err. ValidateMagicToken now' tok (run_ops ops d1) = (Inl err, run_ops ops d1)"
  by (rule magic_spent_rejected [OF magic_spent_steps [OF ValidateMagicToken_spends [OF assms(1)]]])
     (rule assms(2))

theorem magic_token_single_use_witness:
  "\<exists>u d1 err. ValidateMagicToken 0 ''tok'' sample_db = (Inr u, d1) \<and>
     ValidateMagicToken second ''tok'' (run_ops [(second, Account (OpCreateUser ''eve''))] d1)
       = (Inl err, run_ops [(second, Account (OpCreateUser ''eve''))] d1)"
proof -
  obtain u d1 where v: "ValidateMagicToken 0 ''tok'' sample_db = (Inr u, d1)"
    using ValidateMagicToken_succeeds [OF sample_db_ok, of _ "''tok''" 0]
    by (auto simp: sample_db_eval go_time)
  then show ?thesis
    using magic_token_single_use [OF v, of "[(second, Account (OpCreateUser ''eve''))]" second] by auto
qed

text \<open>A key that was added signs its owner in, and no other fingerprint changes its owner.\<close>

theorem add_key_then_login:
  assumes "db_ok d" "reader_open d" "AddSSHKey now userID pk fp c d = (Inr k, d')"
  shows "UserByFingerprint fp d' = UserByID userID d' \<and>
    (\<exists>u. UserByID userID d' = Inr u \<and> u_ID u = userID) \<and>
    (\<forall>fp'. fp' \<noteq> fp \<longrightarrow> UserByFingerprint fp' d' = UserByFingerprint fp' d)"
proof -
  let ?row = "\<lparr>k_ID = seq (tables d) TSshKeys + 1, k_UserID = userID, k_PublicKey = pk,
     k_Fingerprint = fp, k_Comment = c, k_CreatedAt = unix now\<rparr>"
  from assms(3) have new: "\<forall>s \<in> set (ssh_keys (tables d)). k_Fingerprint s \<noteq> fp"
    and u: "userID \<in> user_ids (tables d)"
    and d': "ssh_keys (tables d') = ssh_keys (tables d) @ [?row]"
      "users (tables d') = users (tables d)" "reader_open d' = reader_open d"
    by (auto simp: AddSSHKey_def WriteTx_Inr op_Inr key_clash_def)
  from u obtain r where r: "r \<in> set (users (tables d))" "u_ID r = userID" by (auto simp: user_ids_def)
  then have "query_row (sql_select (\<lambda>u. u_ID u = userID) (users (tables d))) = Inr r"
    by (rule users_t.ok_query_id [OF ok_tables(1) [OF assms(1)]])
  moreover have "sql_select (\<lambda>k. k_Fingerprint k = fp) (ssh_keys (tables d)) = []"
    using new by (simp add: sql_select_empty)
  ultimately show ?thesis
    using assms(2) d' r by (simp add: UserByFingerprint_def UserByID_def ReadTx_def query_row_single
      user.truncate_def)
qed

theorem add_key_then_login_witness:
  "UserByFingerprint ''SHA256:x'' (snd (AddSSHKey 0 1 ''ssh-ed25519 AAAA'' ''SHA256:x'' '''' sample_db))
   = UserByID 1 (snd (AddSSHKey 0 1 ''ssh-ed25519 AAAA'' ''SHA256:x'' '''' sample_db))"
proof -
  have "\<exists>k. AddSSHKey 0 1 ''ssh-ed25519 AAAA'' ''SHA256:x'' '''' sample_db =
      (Inr k, snd (AddSSHKey 0 1 ''ssh-ed25519 AAAA'' ''SHA256:x'' '''' sample_db))"
    by (rule Inr_snd) code_simp
  then show ?thesis using add_key_then_login [OF sample_db_ok sample_db_eval(1)] by blast
qed

lemma list_ex_snoc [simp]: "list_ex p (xs @ [x]) \<longleftrightarrow> list_ex p xs \<or> p x"
  by simp

lemma list_ex_delete_other:
  "(\<And>r. q r \<Longrightarrow> \<not> p r) \<Longrightarrow> list_ex q (sql_delete p rows) = list_ex q rows"
  by (induction rows) (auto simp: sql_delete_def)

lemma list_ex_delete_same: "(\<And>r. q r \<Longrightarrow> p r) \<Longrightarrow> \<not> list_ex q (sql_delete p rows)"
  by (induction rows) (auto simp: sql_delete_def)

lemma public_after_update:
  assumes "\<And>s. s \<in> set ss \<Longrightarrow> s_IsPublic s \<Longrightarrow> flag_row (s_VMID s) s"
  shows "list_ex (\<lambda>s. s_VMID s = w \<and> s_IsPublic s)
       (sql_update (flag_row v) (\<lambda>s. s\<lparr>s_IsPublic := b\<rparr>) ss) \<longleftrightarrow>
     (if w = v then b \<and> sql_select (flag_row v) ss \<noteq> []
      else list_ex (\<lambda>s. s_VMID s = w \<and> s_IsPublic s) ss)"
  using assms
proof (induction ss)
  case (Cons s ss)
  then have "s_IsPublic s \<Longrightarrow> flag_row (s_VMID s) s" by simp
  moreover have "flag_row x s \<Longrightarrow> x = s_VMID s" for x by (simp add: flag_row_def)
  ultimately show ?case using Cons.IH Cons.prems by (auto simp: sql_update_def sql_select_def)
qed (simp add: sql_update_def sql_select_def)

lemma flag_rows_public:
  assumes "db_ok d" "s \<in> set (shares (tables d))" "s_IsPublic s"
  shows "flag_row (s_VMID s) s"
  using assms by (auto simp: db_ok_def tables_ok_def table_wf_def share_row_ok_def)

text \<open>The public flag reads back as it was set, and no other VM's flag changes.\<close>

theorem set_public_roundtrip:
  assumes "db_ok d" "reader_open d" "SetVMPublic now v b d = (Inr (), d')"
  shows "IsVMPublic v d' = Inr b \<and> (\<forall>w. w \<noteq> v \<longrightarrow> IsVMPublic w d' = IsVMPublic w d)"
proof -
  let ?ss = "shares (tables d)" and ?upd = "sql_update (flag_row v) (\<lambda>s. s\<lparr>s_IsPublic := b\<rparr>)"
  have r: "reader_open d' = reader_open d"
    using assms(3) by (simp add: SetVMPublic_def WriteTx_Inr) (elim conjE exE, simp)
  have cases: "(sql_select (flag_row v) ?ss \<noteq> [] \<and> shares (tables d') = ?upd ?ss) \<or>
      (sql_select (flag_row v) ?ss = [] \<and> (\<exists>i. shares (tables d') = ?upd ?ss @
        [\<lparr>s_ID = i, s_VMID = v, s_SharedWith = None, s_LinkToken = None, s_IsPublic = b,
          s_CreatedAt = unix now\<rparr>]))"
    using assms(3) unfolding SetVMPublic_def WriteTx_Inr exec_Inr
    by (elim conjE exE)
       (simp add: Let_def bump_def sql_insert_Inr try_do_Inr split: if_split_asm, clarsimp)
  have pub: "list_ex (\<lambda>s. s_VMID s = w \<and> s_IsPublic s) (?upd ?ss) \<longleftrightarrow>
      (if w = v then b \<and> sql_select (flag_row v) ?ss \<noteq> []
       else list_ex (\<lambda>s. s_VMID s = w \<and> s_IsPublic s) ?ss)" for w
    by (rule public_after_update) (rule flag_rows_public [OF assms(1)])
  from cases show ?thesis
  proof
    assume "sql_select (flag_row v) ?ss \<noteq> [] \<and> shares (tables d') = ?upd ?ss"
    then show ?thesis using pub assms(2) r by (simp add: IsVMPublic_def ReadTx_def)
  next
    assume "sql_select (flag_row v) ?ss = [] \<and> (\<exists>i. shares (tables d') = ?upd ?ss @
        [\<lparr>s_ID = i, s_VMID = v, s_SharedWith = None, s_LinkToken = None, s_IsPublic = b,
          s_CreatedAt = unix now\<rparr>])"
    then show ?thesis using pub assms(2) r by (auto simp: IsVMPublic_def ReadTx_def)
  qed
qed

theorem set_public_roundtrip_witness:
  "IsVMPublic 1 (snd (SetVMPublic 0 1 True sample_db)) = Inr True"
proof -
  have "SetVMPublic 0 1 True sample_db = (Inr (), snd (SetVMPublic 0 1 True sample_db))"
    by (rule Inr_unit_snd) code_simp
  from set_public_roundtrip [OF sample_db_ok sample_db_eval(1) this] show ?thesis by simp
qed

text \<open>Sharing a VM with a user gives that user access; unsharing takes away exactly that access,
however often the VM had been shared with the user.\<close>

theorem share_then_unshare:
  assumes "reader_open d" "ShareVMWithUser now v u d = (Inr (), d1)"
    and "RemoveShareByVMAndUser v u d1 = (Inr (), d2)"
  shows "HasShareAccess v u d1 = Inr True \<and> HasShareAccess v u d2 = Inr False \<and>
    (\<forall>w x. (w, x) \<noteq> (v, u) \<longrightarrow> HasShareAccess w x d1 = HasShareAccess w x d \<and>
                             HasShareAccess w x d2 = HasShareAccess w x d)"
proof -
  have "\<exists>i. shares (tables d1) = shares (tables d) @
      [\<lparr>s_ID = i, s_VMID = v, s_SharedWith = Some u, s_LinkToken = None, s_IsPublic = False,
        s_CreatedAt = unix now\<rparr>] \<and> reader_open d1 = reader_open d"
    using assms(2) unfolding ShareVMWithUser_def WriteTx_Inr exec_Inr
    by (simp add: Let_def bump_def sql_insert_or_ignore_def no_clash_def list_ex_iff
        split: if_split_asm)
  then obtain i where d1: "shares (tables d1) = shares (tables d) @
      [\<lparr>s_ID = i, s_VMID = v, s_SharedWith = Some u, s_LinkToken = None, s_IsPublic = False,
        s_CreatedAt = unix now\<rparr>]" "reader_open d1 = reader_open d"
    by blast
  from assms(3) have d2: "shares (tables d2) = sql_delete (\<lambda>s. s_VMID s = v \<and> s_SharedWith s = Some u)
      (shares (tables d1))" "reader_open d2 = reader_open d1"
    unfolding RemoveShareByVMAndUser_def WriteTx_Inr exec_Inr by auto
  have "HasShareAccess w x d1 = HasShareAccess w x d \<and> HasShareAccess w x d2 = HasShareAccess w x d"
    if "(w, x) \<noteq> (v, u)" for w x
  proof -
    have "list_ex (\<lambda>s. s_VMID s = w \<and> s_SharedWith s = Some x) (shares (tables d2)) =
          list_ex (\<lambda>s. s_VMID s = w \<and> s_SharedWith s = Some x) (shares (tables d1))"
      unfolding d2(1) by (rule list_ex_delete_other) (use that in auto)
    with that show ?thesis using assms(1) d1 d2(2) by (auto simp: HasShareAccess_def ReadTx_def)
  qed
  moreover have "HasShareAccess v u d1 = Inr True" "HasShareAccess v u d2 = Inr False"
    using assms(1) d1 d2 by (simp_all add: HasShareAccess_def ReadTx_def list_ex_delete_same)
  ultimately show ?thesis by blast
qed

theorem share_then_unshare_witness:
  "HasShareAccess 1 2 (snd (RemoveShareByVMAndUser 1 2 (snd (ShareVMWithUser 0 1 2 sample_db)))) = Inr False"
proof -
  let ?d1 = "snd (ShareVMWithUser 0 1 2 sample_db)"
  have 1: "ShareVMWithUser 0 1 2 sample_db = (Inr (), ?d1)" by (rule Inr_unit_snd) code_simp
  have 2: "RemoveShareByVMAndUser 1 2 ?d1 = (Inr (), snd (RemoveShareByVMAndUser 1 2 ?d1))"
    by (rule Inr_unit_snd) code_simp
  from share_then_unshare [OF sample_db_eval(1) 1 2] show ?thesis by simp
qed

text \<open>Setting a trust level resets the user's stored quotas to the level's limits; an unknown
level is refused and changes nothing.\<close>

theorem trust_level_sets_quotas:
  assumes "db_ok d" "reader_open d" "writer_open d" "userID \<in> user_ids (tables d)"
  shows "if IsValidTrustLevel level
     then GetUserQuotas userID (snd (SetUserTrustLevel now userID level d)) = Inr (GetTrustLimits level)
        \<and> GetUserTrustLevel userID (snd (SetUserTrustLevel now userID level d)) = Inr level
        \<and> (\<forall>w. w \<noteq> userID \<longrightarrow>
             GetUserQuotas w (snd (SetUserTrustLevel now userID level d)) = GetUserQuotas w d)
     else (\<exists>e. SetUserTrustLevel now userID level d = (Inl e, d))"
proof (cases "IsValidTrustLevel level")
  case True
  from assms(4) obtain r where r: "r \<in> set (users (tables d))" "u_ID r = userID" by (auto simp: user_ids_def)
  then have q: "query_row (sql_select (\<lambda>u. u_ID u = userID) (users (tables d))) = Inr r"
    by (rule users_t.ok_query_id [OF ok_tables(1) [OF assms(1)]])
  then obtain rs where rs: "sql_select (\<lambda>u. u_ID u = userID) (users (tables d)) = r # rs"
    by (auto simp: query_row_Inr)
  have level: "tl_Level (GetTrustLimits level) = level"
    using True by (auto simp: IsValidTrustLevel_def ValidTrustLevels_def GetTrustLimits_def trustLimitsMap_def)
  have other: "w \<noteq> userID \<Longrightarrow> map (\<lambda>r. if u_ID r = userID then f r else r)
      (sql_select (\<lambda>u. u_ID u = w) (users (tables d))) = sql_select (\<lambda>u. u_ID u = w) (users (tables d))" for w f
    by (rule map_idI) auto
  show ?thesis using True assms(2,3) rs r(2) level other
    by (simp add: SetUserTrustLevel_def GetUserQuotas_def GetUserTrustLevel_def WriteTx_def ReadTx_def
        exec_def Let_def sql_select_update query_row_def)
next
  case False
  then show ?thesis by (simp add: SetUserTrustLevel_def)
qed

theorem trust_level_sets_quotas_witness:
  "GetUserQuotas 1 (snd (SetUserTrustLevel 0 1 ''admin'' sample_db)) = Inr (GetTrustLimits ''admin'')"
proof -
  have "1 \<in> user_ids (tables sample_db)" by (simp add: has_ids [symmetric]) code_simp
  moreover have "IsValidTrustLevel ''admin''" by code_simp
  ultimately show ?thesis
    using trust_level_sets_quotas [OF sample_db_ok sample_db_eval(1,2), of 1 "''admin''" 0] by simp
qed

text \<open>A successful \<^verbatim>\<open>DeleteVM\<close> removes the VM, its tags, shares and custom domains and nothing
else of those tables, and no VM ever gets the id again, whatever operations follow.\<close>

theorem delete_vm_final:
  assumes "db_ok d" "DeleteVM v d = (Inr (), d')" "v \<in> vm_ids (tables d)"
  shows "vm_ids (tables (d')) = vm_ids (tables d) - {v} \<and>
    set (shares (tables d')) = {s \<in> set (shares (tables d)). s_VMID s \<noteq> v} \<and>
    set (vm_tags (tables d')) = {g \<in> set (vm_tags (tables d)). fst g \<noteq> v} \<and>
    set (domains (tables d')) = {c \<in> set (domains (tables d)). cd_VMID c \<noteq> v} \<and>
    v \<notin> vm_ids (tables (run_ops ops d'))"
proof -
  from assms(2) have d': "tables d' = (tables d)\<lparr>vms := sql_delete (\<lambda>w. v_ID w = v) (vms (tables d)),
      vm_tags := sql_delete (\<lambda>g. fst g = v) (vm_tags (tables d)),
      shares := sql_delete (\<lambda>s. s_VMID s = v) (shares (tables d)),
      domains := sql_delete (\<lambda>c. cd_VMID c = v) (domains (tables d))\<rparr>"
    by (auto simp: DeleteVM_def WriteTx_Inr op_Inr split: if_split_asm)
  have "v \<le> seq (tables d) TVms"
    using assms(3) ok_tables(3) [OF assms(1)] by (auto simp: vm_ids_def table_ok_def)
  then have "vm_id_dead v (tables d')" by (simp add: vm_id_dead_def d' vm_ids_def image_iff)
  then have "v \<notin> vm_ids (tables (run_ops ops d'))"
    using vm_id_dead_steps vm_id_dead_def by blast
  with d' show ?thesis by (auto simp: vm_ids_def)
qed

theorem delete_vm_final_witness:
  "1 \<notin> vm_ids (tables (run_ops [(0, Machine (OpCreateVM 1 ''web'' ''ussyuntu'' 1 512 2))]
     (snd (DeleteVM 1 sample_db))))"
proof -
  have 1: "DeleteVM 1 sample_db = (Inr (), snd (DeleteVM 1 sample_db))"
    by (rule Inr_unit_snd) code_simp
  have 2: "1 \<in> vm_ids (tables sample_db)" by (simp add: has_ids [symmetric]) code_simp
  from delete_vm_final [OF sample_db_ok 1 2] show ?thesis by blast
qed

lemma query_row_delete:
  assumes "query_row (sql_select q rows) = r" and "\<And>a b. a \<in> set rows \<Longrightarrow> b \<in> set rows \<Longrightarrow> q a \<Longrightarrow> q b \<Longrightarrow> a = b"
  shows "query_row (sql_select q (sql_delete p rows)) =
    (case r of Inl e \<Rightarrow> Inl e | Inr x \<Rightarrow> if p x then Inl ErrNoRows else Inr x)"
proof (cases "sql_select q rows")
  case Nil
  then have "sql_select q (sql_delete p rows) = []" by (simp add: sql_select_empty)
  with Nil assms(1) show ?thesis by (auto simp: query_row_def)
next
  case (Cons x xs)
  then have x: "x \<in> set rows" "q x" using list.set_intros(1) [of x xs] by (simp_all flip: Cons)
  have same: "y \<in> set (sql_select q (sql_delete p rows)) \<Longrightarrow> y = x" for y
    using assms(2) x by simp
  show ?thesis
  proof (cases "p x")
    case True
    have "sql_select q (sql_delete p rows) = []"
      using same True by (metis (no_types, lifting) last_in_set mem_Collect_eq set_sql_delete set_sql_select)
    with True Cons assms(1) show ?thesis by (auto simp: query_row_def)
  next
    case False
    with x have "x \<in> set (sql_select q (sql_delete p rows))" by simp
    then obtain y ys where y: "sql_select q (sql_delete p rows) = y # ys"
      by (cases "sql_select q (sql_delete p rows)") auto
    then have "y = x" using same by simp
    with y False Cons assms(1) show ?thesis by (auto simp: query_row_def)
  qed
qed

text \<open>\<^verbatim>\<open>CleanExpiredTokens\<close> deletes exactly the tokens past their expiry and reports how many:
every other token is still found under its handle, and an expired one is not.\<close>

theorem clean_tokens_exact:
  assumes "db_ok d" "reader_open d" "CleanExpiredTokens now d = (Inr n, d')"
  shows "n = int (length (tokens (tables d))) - int (length (tokens (tables d'))) \<and>
    TokenByHandle h d' = (case TokenByHandle h d of Inl e \<Rightarrow> Inl e
       | Inr k \<Rightarrow> if token_row_expired now k then Inl ErrNoRows else Inr k)"
proof -
  have d': "tokens (tables d') = sql_delete (token_row_expired now) (tokens (tables d))"
    "reader_open d' = reader_open d"
    "n = int (length (sql_select (token_row_expired now) (tokens (tables d))))"
    using assms(3) unfolding CleanExpiredTokens_def WriteTx_Inr by (auto simp: Let_def)
  have uniq: "a \<in> set (tokens (tables d)) \<Longrightarrow> b \<in> set (tokens (tables d)) \<Longrightarrow> t_Handle a = h \<Longrightarrow>
      t_Handle b = h \<Longrightarrow> a = b" for a b
    using tokens_t.ok_same [OF ok_tables(4) [OF assms(1)], of a b] by (simp add: token_clash_def)
  have "length (sql_select p xs) + length (sql_delete p xs) = length xs" for p and xs :: "token list"
    by (simp add: sql_select_def sql_delete_def sum_length_filter_compl)
  then have "n = int (length (tokens (tables d))) - int (length (tokens (tables d')))"
    using d' by (metis add_diff_cancel_right' of_nat_add)
  moreover have "TokenByHandle h d' = (case TokenByHandle h d of Inl e \<Rightarrow> Inl e
       | Inr k \<Rightarrow> if token_row_expired now k then Inl ErrNoRows else Inr k)"
    using assms(2) d'(2) unfolding TokenByHandle_def ReadTx_def d'(1)
    by (simp add: query_row_delete [OF refl uniq])
  ultimately show ?thesis ..
qed

theorem clean_tokens_exact_witness:
  "TokenByHandle ''old'' (snd (CleanExpiredTokens (9 * second)
     (snd (CreateToken 0 1 ''old'' ''data'' (5 * second) sample_db)))) = Inl ErrNoRows"
proof -
  let ?d = "run_ops [(0, Tok (OpCreateToken 1 ''old'' ''data'' (5 * second)))] sample_db"
  have ok: "db_ok ?d" by (rule run_ops_ok [OF sample_db_ok])
  have r: "reader_open ?d" by code_simp
  have "\<exists>n. CleanExpiredTokens (9 * second) ?d = (Inr n, snd (CleanExpiredTokens (9 * second) ?d))"
    by (rule Inr_snd) code_simp
  then obtain n where n: "CleanExpiredTokens (9 * second) ?d = (Inr n, snd (CleanExpiredTokens (9 * second) ?d))"
    by blast
  have "(case TokenByHandle ''old'' ?d of Inl e \<Rightarrow> Inl e
       | Inr k \<Rightarrow> if token_row_expired (9 * second) k then Inl ErrNoRows else Inr k) = Inl ErrNoRows"
    by code_simp
  then show ?thesis using clean_tokens_exact [OF ok r n, of "''old''"] by simp
qed

lemma query_row_upsert:
  assumes "\<And>s. clash (f s) r = clash s r" and "clash r r"
  shows "query_row (sql_select (\<lambda>s. clash s r) (sql_upsert clash f r rows)) =
    Inr (case query_row (sql_select (\<lambda>s. clash s r) rows) of Inl _ \<Rightarrow> r | Inr y \<Rightarrow> f y)"
proof (cases "list_ex (\<lambda>s. clash s r) rows")
  case True
  have "sql_select (\<lambda>s. clash s r) (map (\<lambda>s. if clash s r then f s else s) rows) =
      map f (sql_select (\<lambda>s. clash s r) rows)"
    by (induction rows) (simp_all add: sql_select_def assms(1))
  moreover obtain x xs where "sql_select (\<lambda>s. clash s r) rows = x # xs"
    using True by (cases "sql_select (\<lambda>s. clash s r) rows") (auto simp: sql_select_empty list_ex_iff)
  ultimately show ?thesis using True by (simp add: sql_upsert_def query_row_def)
next
  case False
  then have "sql_select (\<lambda>s. clash s r) rows = []" by (simp add: sql_select_empty list_ex_iff)
  with False assms(2) show ?thesis by (simp add: sql_upsert_def query_row_def)
qed

lemma select_upsert_other:
  assumes "\<And>s. clash s r \<Longrightarrow> \<not> q s \<and> \<not> q (f s)" and "\<not> q r"
  shows "sql_select q (sql_upsert clash f r rows) = sql_select q rows"
proof -
  have "sql_select q (map (\<lambda>s. if clash s r then f s else s) rows) = sql_select q rows"
    by (induction rows) (auto simp: sql_select_def assms(1))
  with assms(2) show ?thesis by (simp add: sql_upsert_def)
qed

text \<open>LLM usage accumulates inside an hour: after an increment the row of the current hour shows
the previous counts (zero when there was no row) plus the new ones, and other users, providers and
hours read as before.\<close>

theorem llm_usage_accumulates:
  assumes "db_ok d" "reader_open d" "IncrementLLMUsage now u p r k d = (Inr (), d')"
    and "trunc_hour now' = trunc_hour now"
  shows "(\<exists>x. GetLLMUsage now' u p d' = Inr x \<and>
       (case GetLLMUsage now' u p d of
          Inl _ \<Rightarrow> lu_RequestCount x = r \<and> lu_EstimatedTokens x = k
        | Inr y \<Rightarrow> lu_RequestCount x = lu_RequestCount y + r \<and>
                   lu_EstimatedTokens x = lu_EstimatedTokens y + k)) \<and>
    (\<forall>t v q. (v, q, unix (trunc_hour t)) \<noteq> (u, p, unix (trunc_hour now)) \<longrightarrow>
       GetLLMUsage t v q d' = GetLLMUsage t v q d)"
proof -
  let ?f = "\<lambda>x. x\<lparr>lu_RequestCount := lu_RequestCount x + r, lu_EstimatedTokens := lu_EstimatedTokens x + k\<rparr>"
  let ?row = "\<lambda>i. \<lparr>lu_ID = i, lu_UserID = u, lu_Provider = p, lu_RequestCount = r, lu_EstimatedTokens = k,
    lu_PeriodStart = unix (trunc_hour now), lu_PeriodEnd = unix (trunc_hour now + hour)\<rparr>"
  define i where "i = next_id TLlmUsage (tables d)"
  have d': "llm_usages (tables d') = sql_upsert llm_usage_clash ?f (?row i) (llm_usages (tables d))"
    and open': "reader_open d'"
    using assms(2,3) unfolding IncrementLLMUsage_def WriteTx_Inr exec_Inr
    by (clarsimp simp: Let_def bump_def i_def split: if_split_asm)+
  have key: "(\<lambda>x. lu_UserID x = u \<and> lu_Provider x = p \<and> lu_PeriodStart x = unix (trunc_hour now)) =
      (\<lambda>x. llm_usage_clash x (?row i))"
    by (auto simp: llm_usage_clash_def)
  have "query_row (sql_select (\<lambda>x. llm_usage_clash x (?row i)) (llm_usages (tables d'))) =
      Inr (case query_row (sql_select (\<lambda>x. llm_usage_clash x (?row i)) (llm_usages (tables d))) of
             Inl _ \<Rightarrow> ?row i | Inr y \<Rightarrow> ?f y)"
    unfolding d' by (rule query_row_upsert) (simp_all add: llm_usage_clash_def)
  then have "GetLLMUsage now' u p d' = Inr (case GetLLMUsage now' u p d of Inl _ \<Rightarrow> ?row i | Inr y \<Rightarrow> ?f y)"
    by (simp add: GetLLMUsage_def ReadTx_def assms(2,4) open' key)
  moreover have "GetLLMUsage t v q d' = GetLLMUsage t v q d"
    if "(v, q, unix (trunc_hour t)) \<noteq> (u, p, unix (trunc_hour now))" for t v q
    unfolding GetLLMUsage_def ReadTx_def d' Let_def
    by (subst select_upsert_other) (use that open' assms(2) in \<open>auto simp: llm_usage_clash_def\<close>)
  ultimately show ?thesis by (auto split: sum.splits)
qed

theorem llm_usage_accumulates_witness:
  "\<exists>x. GetLLMUsage (minute + second) 1 ''openai''
     (snd (IncrementLLMUsage minute 1 ''openai'' 1 20 (snd (IncrementLLMUsage 0 1 ''openai'' 1 10 sample_db)))) = Inr x
   \<and> lu_RequestCount x = 2 \<and> lu_EstimatedTokens x = 30"
proof -
  let ?d = "run_ops [(0, Llm (OpIncrementLLMUsage 1 ''openai'' 1 10))] sample_db"
  have ok: "db_ok ?d" by (rule run_ops_ok [OF sample_db_ok])
  have r: "reader_open ?d" by code_simp
  have inc: "IncrementLLMUsage minute 1 ''openai'' 1 20 ?d = (Inr (), snd (IncrementLLMUsage minute 1 ''openai'' 1 20 ?d))"
    by (rule Inr_unit_snd) code_simp
  have h: "trunc_hour (minute + second) = trunc_hour minute" by code_simp
  have old: "(case GetLLMUsage (minute + second) 1 ''openai'' ?d of Inl _ \<Rightarrow> False
      | Inr y \<Rightarrow> lu_RequestCount y = 1 \<and> lu_EstimatedTokens y = 10)"
    by code_simp
  show ?thesis using llm_usage_accumulates [OF ok r inc h] old by (auto split: sum.splits)
qed

text \<open>A handle registers exactly when nobody has it, and the new account is then found by handle
and by id.\<close>

theorem create_user_iff_free:
  assumes "db_ok d" "reader_open d" "writer_open d"
  shows "((\<exists>u. fst (CreateUser now h d) = Inr u) \<longleftrightarrow> HandleExists h d = Inr False) \<and>
    (\<forall>u d'. CreateUser now h d = (Inr u, d') \<longrightarrow>
       u_Handle u = h \<and> u_TrustLevel u = ''newbie'' \<and>
       UserByHandle h d' = Inr u \<and> UserByID (u_ID u) d' = Inr u)"
proof -
  let ?t = "tables d"
  let ?row = "\<lparr>u_ID = seq ?t TUsers + 1, u_Handle = h, u_Email = '''', u_TrustLevel = ''newbie'',
    u_CreatedAt = unix now, u_UpdatedAt = unix now, u_vm_limit = 3, u_cpu_limit = 1,
    u_ram_limit_mb = 2048, u_disk_limit_mb = 5120\<rparr>"
  have fresh: "sql_select (\<lambda>u. u_ID u = seq ?t TUsers + 1) (users ?t) = []"
    by (rule query_fresh_id [OF ok_tables(1) [OF assms(1)]])
  have run: "CreateUser now h d = (if list_ex (\<lambda>u. u_Handle u = h) (users ?t) then (Inl ErrUnique, d)
      else (Inr (user.truncate ?row), d\<lparr>tables := bump TUsers (?t\<lparr>users := users ?t @ [?row]\<rparr>)\<rparr>))"
    using assms(3) fresh
    by (simp add: CreateUser_def WriteTx_def Let_def next_id_def sql_insert_def user_clash_def
        read_back_def bump_def query_row_def)
  moreover have "\<not> list_ex (\<lambda>u. u_Handle u = h) (users ?t) \<Longrightarrow>
      sql_select (\<lambda>u. u_Handle u = h) (users ?t) = []"
    by (simp add: sql_select_empty list_ex_iff)
  ultimately show ?thesis using assms(2) fresh
    by (simp add: HandleExists_def UserByHandle_def UserByID_def ReadTx_def bump_def query_row_def
        user.truncate_def)
qed

theorem create_user_iff_free_witness:
  "(\<exists>u. fst (CreateUser 0 ''eve'' sample_db) = Inr u) \<and> \<not> (\<exists>u. fst (CreateUser 0 ''ada'' sample_db) = Inr u)"
proof -
  have "HandleExists ''eve'' sample_db = Inr False" "HandleExists ''ada'' sample_db = Inr True" by code_simp+
  then show ?thesis using create_user_iff_free [OF sample_db_ok sample_db_eval(1,2)] by simp
qed

text \<open>A VM can be created exactly when its owner exists and has no VM of that name; it then
starts out stopped, is found under owner and name, and counts against its owner only.\<close>

theorem create_vm_iff_free:
  assumes "db_ok d" "reader_open d" "writer_open d"
  shows "((\<exists>v. fst (CreateVM now u n img c m g d) = Inr v) \<longleftrightarrow>
      u \<in> user_ids (tables d) \<and> VMByUserAndName u n d = Inl ErrNoRows) \<and>
    (\<forall>v d'. CreateVM now u n img c m g d = (Inr v, d') \<longrightarrow>
       v_Status v = ''stopped'' \<and> VMByUserAndName u n d' = Inr v \<and>
       (\<forall>w k. VMCountByUser w d = Inr k \<longrightarrow>
          VMCountByUser w d' = Inr (if w = u then k + 1 else k)))"
proof -
  let ?t = "tables d"
  let ?row = "\<lparr>v_ID = seq ?t TVms + 1, v_UserID = u, v_Name = n, v_Status = ''stopped'',
     v_Image = img, v_VCPU = c, v_MemoryMB = m, v_DiskGB = g,
     v_TapDevice = None, v_IPAddress = None, v_MACAddress = None, v_PID = None,
     v_CreatedAt = unix now, v_UpdatedAt = unix now\<rparr>"
  have fresh: "sql_select (\<lambda>v. v_ID v = seq ?t TVms + 1) (vms ?t) = []"
    by (rule query_fresh_id [OF ok_tables(3) [OF assms(1)]])
  have run: "CreateVM now u n img c m g d =
      (if list_ex (\<lambda>v. v_UserID v = u \<and> v_Name v = n) (vms ?t) then (Inl ErrUnique, d)
       else if u \<notin> user_ids ?t then (Inl ErrForeignKey, d)
       else (Inr ?row, d\<lparr>tables := bump TVms (?t\<lparr>vms := vms ?t @ [?row]\<rparr>)\<rparr>))"
    using assms(3) fresh
    by (simp add: CreateVM_def WriteTx_def Let_def next_id_def sql_insert_def vm_clash_def
        read_back_def bump_def query_row_def fk_check_def has_ids)
  moreover have free: "list_ex (\<lambda>v. v_UserID v = u \<and> v_Name v = n) (vms ?t) \<longleftrightarrow>
      sql_select (\<lambda>v. v_UserID v = u \<and> v_Name v = n) (vms ?t) \<noteq> []"
    by (auto simp: sql_select_empty list_ex_iff)
  ultimately show ?thesis using assms(2)
    by (cases "sql_select (\<lambda>v. v_UserID v = u \<and> v_Name v = n) (vms ?t)")
       (simp_all add: VMByUserAndName_def VMCountByUser_def ReadTx_def bump_def query_row_def)
qed

theorem create_vm_iff_free_witness:
  "(\<exists>v. fst (CreateVM 0 2 ''web'' ''ussyuntu'' 1 512 2 sample_db) = Inr v) \<and>
   \<not> (\<exists>v. fst (CreateVM 0 1 ''web'' ''ussyuntu'' 1 512 2 sample_db) = Inr v)"
proof -
  have "VMByUserAndName 2 ''web'' sample_db = Inl ErrNoRows" by code_simp
  moreover have "(case VMByUserAndName 1 ''web'' sample_db of Inl _ \<Rightarrow> False | Inr _ \<Rightarrow> True)" by code_simp
  moreover have "2 \<in> user_ids (tables sample_db)" by (simp add: has_ids [symmetric]) code_simp
  ultimately show ?thesis using create_vm_iff_free [OF sample_db_ok sample_db_eval(1,2)] by (auto split: sum.splits)
qed

end
