(* ===== verification/Auth_Proxy.thy ===== *)
theory Auth_Proxy
  imports Db_Properties
begin

section \<open>The forward-auth proxy\<close>

text \<open>
  \<^verbatim>\<open>internal/proxy/auth.go\<close>: the decision Caddy's \<^verbatim>\<open>forward_auth\<close> asks for on every request
  to a VM. \<open>decide\<close> is the handler, branch by branch; it only reads the database. The parsers
  of package \<^verbatim>\<open>net/url\<close> are the parameters \<open>uri_share\<close> (the \<^verbatim>\<open>ussy_share\<close> value of a
  request URI, \<^term>\<open>None\<close> when it does not parse) and \<open>strip_share\<close> (the URI without that
  parameter). The label given to telemetry is kept as the response's \<open>pr_decision\<close>.
\<close>

record proxy_request =
  px_Host :: string
  px_ForwardedHost :: string
  px_ForwardedProto :: string
  px_ForwardedUri :: string
  px_Scheme :: string
  px_URI :: string
  px_QueryShare :: string      \<comment> \<open>\<^verbatim>\<open>r.URL.Query().Get("ussy_share")\<close>\<close>
  px_Authorization :: string
  px_Cookie :: "string \<Rightarrow> string option"

record url_lib =
  uri_share :: "string \<Rightarrow> string option"
  strip_share :: "string \<Rightarrow> string"

record proxy_response =
  pr_status :: int
  pr_decision :: string
  pr_headers :: "(string \<times> string) list"
  pr_cookie :: "(string \<times> string \<times> int) option"   \<comment> \<open>name, value and MaxAge\<close>

definition http_Error :: "string \<Rightarrow> int \<Rightarrow> proxy_response" where
  "http_Error decision code =
     \<lparr>pr_status = code, pr_decision = decision, pr_headers = [], pr_cookie = None\<rparr>"

text \<open>\<^verbatim>\<open>host[:strings.LastIndex(host, ":")]\<close>.\<close>

definition strip_port :: "string \<Rightarrow> string" where
  "strip_port host =
     (if CHR '':'' \<in> set host then rev (tl (dropWhile (\<lambda>c. c \<noteq> CHR '':'') (rev host))) else host)"

definition vmNameFromHost :: "string \<Rightarrow> string \<Rightarrow> string" where
  "vmNameFromHost domain host =
     (let host = strip_port host; suff = ''.'' @ domain in
      if \<not> HasSuffix host suff then ''''
      else
        let name = TrimSuffix host suff in
        if name = '''' \<or> Contains name ''.'' then '''' else name)"

definition extractVMName :: "string \<Rightarrow> proxy_request \<Rightarrow> string" where
  "extractVMName domain r =
     (let name = vmNameFromHost domain (px_Host r) in
      if name \<noteq> '''' then name else vmNameFromHost domain (px_ForwardedHost r))"

definition extractShareToken :: "url_lib \<Rightarrow> proxy_request \<Rightarrow> string" where
  "extractShareToken lib r =
     (if px_QueryShare r \<noteq> '''' then px_QueryShare r
      else if px_ForwardedUri r \<noteq> '''' then
        (case uri_share lib (px_ForwardedUri r) of Some t \<Rightarrow> t | None \<Rightarrow> '''')
      else '''')"

definition cleanRedirectURL :: "url_lib \<Rightarrow> proxy_request \<Rightarrow> string" where
  "cleanRedirectURL lib r =
     (let scheme = (if px_Scheme r = '''' then ''https'' else px_Scheme r);
          scheme = (if px_ForwardedProto r \<noteq> '''' then px_ForwardedProto r else scheme);
          host = (if px_ForwardedHost r \<noteq> '''' then px_ForwardedHost r else px_Host r);
          rawURI = (if px_ForwardedUri r \<noteq> '''' then px_ForwardedUri r else px_URI r)
      in scheme @ ''://'' @ host @ strip_share lib rawURI)"

definition setAuthHeaders :: "user option \<Rightarrow> vm \<Rightarrow> string \<Rightarrow> (string \<times> string) list" where
  "setAuthHeaders usr vm mode =
     (let mode = (if mode = '''' then ''authenticated'' else mode) in
      [(''X-Ussy-Auth-Mode'', mode), (''X-Ussy-VM'', v_Name vm), (''X-Ussy-VM-ID'', dec (v_ID vm))] @
      (case usr of None \<Rightarrow> []
       | Some u \<Rightarrow> [(''X-Ussy-UserID'', dec (u_ID u)), (''X-Ussy-Handle'', u_Handle u)]))"

definition shareCookieName :: "int \<Rightarrow> string" where
  "shareCookieName vmID = ''ussy_share_'' @ dec vmID"

definition authenticateToken :: "nanos \<Rightarrow> string \<Rightarrow> db \<Rightarrow> string + user" where
  "authenticateToken now token d =
     (case TokenByHandle token d of Inl _ \<Rightarrow> Inl ''invalid token''
      | Inr tok \<Rightarrow>
        if IsExpired now tok then Inl ''token expired''
        else case UserByID (t_UserID tok) d of Inl _ \<Rightarrow> Inl ''user not found'' | Inr user \<Rightarrow> Inr user)"

definition extractBearerToken :: "proxy_request \<Rightarrow> string" where
  "extractBearerToken r =
     (let auth = px_Authorization r in
      if auth = '''' then ''''
      else if \<not> HasPrefix auth ''Bearer '' then ''''
      else TrimPrefix auth ''Bearer '')"

text \<open>\<^verbatim>\<open>x, _ :=\<close> of a failed query: the zero value.\<close>

definition or_false :: "db_error + bool \<Rightarrow> bool" where
  "or_false r = (case r of Inl _ \<Rightarrow> False | Inr b \<Rightarrow> b)"

definition grant :: "user option \<Rightarrow> vm \<Rightarrow> string \<Rightarrow> string \<Rightarrow> proxy_response" where
  "grant usr vm mode decision =
     \<lparr>pr_status = 200, pr_decision = decision, pr_headers = setAuthHeaders usr vm mode, pr_cookie = None\<rparr>"

definition redeem_share :: "url_lib \<Rightarrow> proxy_request \<Rightarrow> vm \<Rightarrow> string \<Rightarrow> db \<Rightarrow> proxy_response" where
  "redeem_share lib r vm token d =
     (case ShareByLinkToken token d of
        Inl _ \<Rightarrow> http_Error ''share_link_invalid'' 403
      | Inr share \<Rightarrow>
        if s_VMID share \<noteq> v_ID vm then http_Error ''share_link_invalid'' 403
        else \<lparr>pr_status = 302, pr_decision = ''share_link_redeemed'',
              pr_headers = [(''Location'', cleanRedirectURL lib r)],
              pr_cookie = Some (shareCookieName (v_ID vm), token, 24 * 3600)\<rparr>)"

definition check_bearer :: "nanos \<Rightarrow> string \<Rightarrow> vm \<Rightarrow> db \<Rightarrow> proxy_response" where
  "check_bearer now token vm d =
     (case authenticateToken now token d of
        Inl _ \<Rightarrow> http_Error ''bearer_unauthorized'' 401
      | Inr user \<Rightarrow>
        if u_ID user \<noteq> v_UserID vm \<and> \<not> or_false (HasShareAccess (v_ID vm) (u_ID user) d)
        then http_Error ''bearer_forbidden'' 403
        else grant (Some user) vm ''authenticated'' ''authenticated'')"

definition cookie_opens :: "proxy_request \<Rightarrow> vm \<Rightarrow> db \<Rightarrow> bool" where
  "cookie_opens r vm d =
     (case px_Cookie r (shareCookieName (v_ID vm)) of
        None \<Rightarrow> False
      | Some value \<Rightarrow>
        if value = '''' then False
        else case ShareByLinkToken value d of Inl _ \<Rightarrow> False | Inr share \<Rightarrow> s_VMID share = v_ID vm)"

definition decide :: "url_lib \<Rightarrow> string \<Rightarrow> nanos \<Rightarrow> proxy_request \<Rightarrow> db \<Rightarrow> proxy_response" where
  "decide lib domain now r d =
     (let vmName = extractVMName domain r in
      if vmName = '''' then http_Error ''invalid_host'' 400
      else case VMByName vmName d of
        Inl _ \<Rightarrow> http_Error ''vm_not_found'' 404
      | Inr vm \<Rightarrow>
        let token = extractShareToken lib r in
        if token \<noteq> '''' then redeem_share lib r vm token d
        else if or_false (IsVMPublic (v_ID vm) d) then grant None vm ''public'' ''public''
        else
          let bearer = extractBearerToken r in
          if bearer \<noteq> '''' then check_bearer now bearer vm d
          else if cookie_opens r vm d then grant None vm ''share-link'' ''share_link_cookie''
          else http_Error ''unauthorized'' 401)"

subsection \<open>Lemmas\<close>

text \<open>What a bearer token must satisfy to open a VM.\<close>

definition bearer_opens :: "nanos \<Rightarrow> string \<Rightarrow> vm \<Rightarrow> db \<Rightarrow> user \<Rightarrow> bool" where
  "bearer_opens now token vm d u \<longleftrightarrow>
     (\<exists>k. TokenByHandle token d = Inr k \<and> \<not> IsExpired now k \<and> UserByID (t_UserID k) d = Inr u) \<and>
     (u_ID u = v_UserID vm \<or> HasShareAccess (v_ID vm) (u_ID u) d = Inr True)"

lemma or_false_iff: "or_false r \<longleftrightarrow> r = Inr True"
  by (auto simp: or_false_def split: sum.splits)

lemma authenticateToken_Inr:
  "authenticateToken now token d = Inr u \<longleftrightarrow>
     (\<exists>k. TokenByHandle token d = Inr k \<and> \<not> IsExpired now k \<and> UserByID (t_UserID k) d = Inr u)"
proof (cases "TokenByHandle token d")
  case (Inr k)
  then show ?thesis by (cases "UserByID (t_UserID k) d") (simp_all add: authenticateToken_def)
qed (simp add: authenticateToken_def)

lemma bearer_opens_iff:
  "bearer_opens now token vm d u \<longleftrightarrow> authenticateToken now token d = Inr u \<and>
     (u_ID u = v_UserID vm \<or> or_false (HasShareAccess (v_ID vm) (u_ID u) d))"
  by (simp only: bearer_opens_def authenticateToken_Inr or_false_iff)

lemma check_bearer_cases:
  "(\<exists>u. bearer_opens now token vm d u \<and> check_bearer now token vm d = grant (Some u) vm ''authenticated'' ''authenticated'') \<or>
   (\<forall>u. \<not> bearer_opens now token vm d u) \<and> pr_status (check_bearer now token vm d) \<in> {401, 403} \<and>
     pr_headers (check_bearer now token vm d) = []"
proof (cases "authenticateToken now token d")
  case (Inl e)
  then show ?thesis by (simp add: bearer_opens_iff check_bearer_def http_Error_def)
next
  case (Inr u)
  then show ?thesis by (simp add: bearer_opens_iff check_bearer_def http_Error_def)
qed

lemma check_bearer_status:
  "pr_status (check_bearer now token vm d) = 200 \<longleftrightarrow> (\<exists>u. bearer_opens now token vm d u)"
  using check_bearer_cases [of now token vm d] by (auto simp: grant_def)

lemma cookie_opens_iff:
  "cookie_opens r vm d \<longleftrightarrow>
     (\<exists>t s. px_Cookie r (shareCookieName (v_ID vm)) = Some t \<and> t \<noteq> '''' \<and>
        ShareByLinkToken t d = Inr s \<and> s_VMID s = v_ID vm)"
  by (auto simp: cookie_opens_def split: option.splits sum.splits)

lemma grant_status [simp]: "pr_status (grant usr vm mode decision) = 200"
  by (simp add: grant_def)

lemma http_Error_status [simp]: "pr_status (http_Error decision code) = code"
  by (simp add: http_Error_def)

lemma shareCookieName_inj: "shareCookieName i = shareCookieName j \<longleftrightarrow> i = j"
  by (simp add: shareCookieName_def dec_inj)

lemma redeem_share_status [simp]: "pr_status (redeem_share lib r vm token d) \<noteq> 200"
  by (simp add: redeem_share_def http_Error_def split: sum.split)

lemma strip_port_plain: "CHR '':'' \<notin> set host \<Longrightarrow> strip_port host = host"
  by (simp add: strip_port_def)

lemma strip_port_port: "CHR '':'' \<notin> set port \<Longrightarrow> strip_port (host @ CHR '':'' # port) = host"
proof -
  assume "CHR '':'' \<notin> set port"
  then have "dropWhile (\<lambda>c. c \<noteq> CHR '':'') (rev port @ CHR '':'' # rev host) = CHR '':'' # rev host"
    by (subst dropWhile_append2) auto
  then show ?thesis by (simp add: strip_port_def)
qed

subsection \<open>Properties\<close>

text \<open>C18. The proxy lets a request through (status 200) exactly when the host names an existing VM, no
share link is being redeemed, and the VM is public, or a bearer token that is stored and unexpired
belongs to the owner or to a user the VM is shared with, or, without a bearer token, the cookie of
this very VM holds a link token of this VM.\<close>

theorem proxy_grants_iff:
  "pr_status (decide lib domain now r d) = 200 \<longleftrightarrow>
     extractVMName domain r \<noteq> '''' \<and> extractShareToken lib r = '''' \<and>
     (\<exists>vm. VMByName (extractVMName domain r) d = Inr vm \<and>
        (IsVMPublic (v_ID vm) d = Inr True \<or>
         (extractBearerToken r \<noteq> '''' \<and> (\<exists>u. bearer_opens now (extractBearerToken r) vm d u)) \<or>
         (extractBearerToken r = '''' \<and>
          (\<exists>t s. px_Cookie r (shareCookieName (v_ID vm)) = Some t \<and> t \<noteq> '''' \<and>
             ShareByLinkToken t d = Inr s \<and> s_VMID s = v_ID vm))))"
proof (cases "extractVMName domain r = '''' \<or> extractShareToken lib r \<noteq> ''''")
  case True
  then show ?thesis
    by (cases "VMByName (extractVMName domain r) d") (auto simp: decide_def http_Error_def Let_def)
next
  case False
  show ?thesis
  proof (cases "VMByName (extractVMName domain r) d")
    case (Inl e)
    with False show ?thesis by (simp add: decide_def http_Error_def)
  next
    case (Inr vm)
    let ?b = "extractBearerToken r"
    have bearer: "pr_status (check_bearer now ?b vm d) = 200 \<longleftrightarrow> (\<exists>u. bearer_opens now ?b vm d u)"
      by (rule check_bearer_status)
    have "pr_status (decide lib domain now r d) = 200 \<longleftrightarrow>
        IsVMPublic (v_ID vm) d = Inr True \<or> ?b \<noteq> '''' \<and> (\<exists>u. bearer_opens now ?b vm d u) \<or>
        ?b = '''' \<and> cookie_opens r vm d"
      using False Inr bearer by (simp add: decide_def or_false_iff Let_def)
    then show ?thesis using False Inr by (simp add: cookie_opens_iff)
  qed
qed

text \<open>C19. The identity headers never lie: when the response to a request names a user, it is a grant to
the owner of a valid bearer token who owns the VM or has it shared; a response without a grant has
no \<^verbatim>\<open>X-Ussy-\<close> header at all.\<close>

theorem proxy_identity_sound:
  assumes "(''X-Ussy-UserID'', uid) \<in> set (pr_headers (decide lib domain now r d))"
  shows "\<exists>vm u. VMByName (extractVMName domain r) d = Inr vm \<and> uid = dec (u_ID u) \<and>
    bearer_opens now (extractBearerToken r) vm d u \<and>
    (''X-Ussy-Handle'', u_Handle u) \<in> set (pr_headers (decide lib domain now r d)) \<and>
    (''X-Ussy-VM-ID'', dec (v_ID vm)) \<in> set (pr_headers (decide lib domain now r d)) \<and>
    pr_status (decide lib domain now r d) = 200"
proof -
  have "extractVMName domain r \<noteq> ''''" using assms by (auto simp: decide_def http_Error_def)
  then obtain vm where vm: "VMByName (extractVMName domain r) d = Inr vm"
    using assms by (cases "VMByName (extractVMName domain r) d") (auto simp: decide_def http_Error_def)
  have "extractShareToken lib r = ''''"
    using assms vm by (auto simp: decide_def http_Error_def redeem_share_def Let_def split: sum.splits if_splits)
  then have "decide lib domain now r d = check_bearer now (extractBearerToken r) vm d"
    using assms vm
    by (auto simp: decide_def http_Error_def grant_def setAuthHeaders_def Let_def split: if_splits)
  then show ?thesis
    using assms vm check_bearer_cases [of now "extractBearerToken r" vm d]
    by (auto simp: grant_def setAuthHeaders_def)
qed

definition sample_proxy_request :: proxy_request where
  "sample_proxy_request = \<lparr>px_Host = ''web.ussy.host:443'', px_ForwardedHost = '''', px_ForwardedProto = '''',
     px_ForwardedUri = '''', px_Scheme = '''', px_URI = ''/'', px_QueryShare = '''',
     px_Authorization = ''Bearer t1'', px_Cookie = (\<lambda>_. None)\<rparr>"

definition sample_url_lib :: url_lib where
  "sample_url_lib = \<lparr>uri_share = (\<lambda>_. None), strip_share = (\<lambda>u. u)\<rparr>"

theorem proxy_identity_sound_witness:
  "\<exists>vm u. (''X-Ussy-UserID'', ''1'') \<in> set (pr_headers (decide sample_url_lib ''ussy.host'' second
     sample_proxy_request (run_ops [(0, Tok (OpCreateToken 1 ''t1'' '''' (9 * second)))] sample_db))) \<and>
   bearer_opens second ''t1'' vm (run_ops [(0, Tok (OpCreateToken 1 ''t1'' '''' (9 * second)))] sample_db) u"
proof -
  let ?d = "run_ops [(0, Tok (OpCreateToken 1 ''t1'' '''' (9 * second)))] sample_db"
  have "list_ex (\<lambda>h. h = (''X-Ussy-UserID'', ''1''))
      (pr_headers (decide sample_url_lib ''ussy.host'' second sample_proxy_request ?d))"
    by code_simp
  then have h: "(''X-Ussy-UserID'', ''1'') \<in> set (pr_headers (decide sample_url_lib ''ussy.host'' second
      sample_proxy_request ?d))"
    by (simp add: list_ex_iff)
  have "extractBearerToken sample_proxy_request = ''t1''" by code_simp
  with proxy_identity_sound [OF h] h show ?thesis by auto
qed

text \<open>C31. A link token opens its VM only, and only while the link exists: it redeems into the VM's
cookie, the cookie opens the VM, and after the link is removed neither works any more.\<close>

theorem share_link_lifecycle:
  assumes "reader_open d" "ShareByLinkToken tok d = Inl ErrNoRows" "tok \<noteq> ''''"
    and "ShareVMWithLink now (v_ID vm) tok d = (Inr s, d1)"
    and "RemoveShareLink (v_ID vm) tok d1 = (Inr (), d2)"
    and "px_Cookie r (shareCookieName (v_ID vm)) = Some tok"
  shows "pr_status (redeem_share lib r vm tok d1) = 302 \<and>
    pr_cookie (redeem_share lib r vm tok d1) = Some (shareCookieName (v_ID vm), tok, 86400) \<and>
    cookie_opens r vm d1 \<and>
    (\<forall>w. v_ID w \<noteq> v_ID vm \<longrightarrow> pr_status (redeem_share lib r w tok d1) = 403) \<and>
    pr_status (redeem_share lib r vm tok d2) = 403 \<and> \<not> cookie_opens r vm d2"
proof -
  have none: "sql_select (\<lambda>s. s_LinkToken s = Some tok) (shares (tables d)) = []"
    using assms(1,2) by (simp add: ShareByLinkToken_def ReadTx_def query_row_Inl)
  define row where "row = \<lparr>s_ID = next_id TShares (tables d), s_VMID = v_ID vm, s_SharedWith = None,
      s_LinkToken = Some tok, s_IsPublic = False, s_CreatedAt = unix now\<rparr>"
  have d1: "shares (tables d1) = shares (tables d) @ [row]" "reader_open d1 = reader_open d"
    using assms(4) unfolding ShareVMWithLink_def WriteTx_Inr
    by (clarsimp simp: Let_def try_do_Inr sql_insert_Inr read_back_Inr bump_def row_def)+
  have d2: "shares (tables d2) = sql_delete (\<lambda>s. s_VMID s = v_ID vm \<and> s_LinkToken s = Some tok)
      (shares (tables d1))" "reader_open d2 = reader_open d1"
    using assms(5) unfolding RemoveShareLink_def WriteTx_Inr exec_Inr by auto
  have link1: "ShareByLinkToken tok d1 = Inr row"
    using assms(1) d1 none by (simp add: ShareByLinkToken_def ReadTx_def query_row_def row_def)
  have "sql_select (\<lambda>s. s_LinkToken s = Some tok) (shares (tables d2)) = []"
    using none by (auto simp: sql_select_empty d1(1) d2(1) row_def)
  then have link2: "ShareByLinkToken tok d2 = Inl ErrNoRows"
    using assms(1) d1(2) d2(2) by (simp add: ShareByLinkToken_def ReadTx_def query_row_def)
  show ?thesis
    using assms(3,6) link1 link2 by (simp add: redeem_share_def cookie_opens_def http_Error_def row_def)
qed

theorem share_link_lifecycle_witness:
  "\<exists>vm d1 d2. v_Name vm = ''web'' \<and>
     pr_status (redeem_share sample_url_lib (sample_proxy_request\<lparr>px_Cookie := (\<lambda>_. Some ''lnk'')\<rparr>) vm ''lnk'' d1) = 302 \<and>
     pr_status (redeem_share sample_url_lib (sample_proxy_request\<lparr>px_Cookie := (\<lambda>_. Some ''lnk'')\<rparr>) vm ''lnk'' d2) = 403"
proof -
  define vm where "vm = \<lparr>v_ID = 1, v_UserID = 1, v_Name = ''web'', v_Status = ''stopped'', v_Image = '''',
    v_VCPU = 1, v_MemoryMB = 512, v_DiskGB = 2, v_TapDevice = None, v_IPAddress = None,
    v_MACAddress = None, v_PID = None, v_CreatedAt = 0, v_UpdatedAt = 0\<rparr>"
  have vm: "v_ID vm = 1" "v_Name vm = ''web''" by (simp_all add: vm_def)
  let ?d1 = "snd (ShareVMWithLink 0 1 ''lnk'' sample_db)"
  have 1: "ShareByLinkToken ''lnk'' sample_db = Inl ErrNoRows" by code_simp
  have "\<exists>s. ShareVMWithLink 0 1 ''lnk'' sample_db = (Inr s, ?d1)" by (rule Inr_snd) code_simp
  then obtain s where 2: "ShareVMWithLink 0 1 ''lnk'' sample_db = (Inr s, ?d1)" by blast
  have 3: "RemoveShareLink 1 ''lnk'' ?d1 = (Inr (), snd (RemoveShareLink 1 ''lnk'' ?d1))"
    by (rule Inr_unit_snd) code_simp
  show ?thesis
    using share_link_lifecycle [OF sample_db_eval(1) 1 _ 2 [folded vm(1)] 3 [folded vm(1)], of
        "sample_proxy_request\<lparr>px_Cookie := (\<lambda>_. Some ''lnk'')\<rparr>" sample_url_lib] vm by auto
qed

end
