(* ===== verification/Caddy_Routes.thy ===== *)
theory Caddy_Routes
  imports Auth_Proxy
begin

section \<open>The Caddy route manager\<close>

text \<open>
  \<^verbatim>\<open>internal/proxy/caddy.go\<close>: the routes the manager registers through Caddy's admin API.
  Caddy is not in the repository: it is the parameter \<open>ce_Do\<close>, which answers a request from the
  requests that came before it, by a transport error or by a status code and a body; \<open>ce_url_ok\<close> says
  whether \<^verbatim>\<open>http.NewRequest\<close> accepts a URL. The manager's state keeps, besides the
  \<^verbatim>\<open>routes\<close> map, every request sent with its answer, so that properties can speak of them.
  Bodies are kept as the values that are marshalled; \<^verbatim>\<open>json.Marshal\<close> does not fail on them.
\<close>

datatype caddyHandler = CaddyHandler
    (ch_Handler: string) (ch_Routes: "caddySubroute list") (ch_Upstreams: "string list")
    (ch_StatusCode: int) (ch_Body: string) (ch_Request: "(string \<times> string list) list option")
    (ch_URI: string) (ch_CopyHeaders: "string list")
and caddySubroute = CaddySubroute (cs_Handle: "caddyHandler list")

record caddyRoute =
  cr_ID :: string
  cr_Match :: "string list list"      \<comment> \<open>the hosts of each matcher; no matcher matches all\<close>
  cr_Handle :: "caddyHandler list"

record caddyServer =
  sv_Listen :: "string list"
  sv_Routes :: "caddyRoute list"

record caddyTLSIssuer =
  is_Module :: string
  is_Email :: string
  is_DNSProvider :: "string option"

record caddyTLSPolicy =
  po_Subjects :: "string list"
  po_Issuers :: "caddyTLSIssuer list"

record caddyConfig =
  cc_Servers :: "(string \<times> caddyServer) list"
  cc_TLS :: "caddyTLSPolicy list option"

datatype caddy_body = NoBody | RouteBody caddyRoute | ConfigBody caddyConfig

record caddy_request =
  cq_Method :: string
  cq_URL :: string
  cq_Body :: caddy_body

type_synonym caddy_answer = "string + int \<times> string"

record caddy_env =
  ce_url_ok :: "string \<Rightarrow> bool"
  ce_Do :: "caddy_request list \<Rightarrow> caddy_request \<Rightarrow> caddy_answer"

record proxy_manager =
  pm_adminAPI :: string
  pm_domain :: string
  pm_authProxyURL :: string
  pm_routes :: "string \<rightharpoonup> string"
  pm_log :: "(caddy_request \<times> caddy_answer) list"

definition NewManager :: "string \<Rightarrow> string \<Rightarrow> string \<Rightarrow> proxy_manager" where
  "NewManager adminAPI domain authProxyURL =
     \<lparr>pm_adminAPI = (if adminAPI = '''' then ''http://localhost:2019'' else adminAPI),
      pm_domain = domain, pm_authProxyURL = authProxyURL, pm_routes = Map.empty, pm_log = []\<rparr>"

definition routeID :: "string \<Rightarrow> string" where "routeID vmName = ''ussycode-vm-'' @ vmName"

definition customDomainRouteID :: "string \<Rightarrow> string" where
  "customDomainRouteID domain = ''ussycode-cname-'' @ domain"

definition handler0 :: "string \<Rightarrow> caddyHandler" where
  "handler0 kind = CaddyHandler kind [] [] 0 '''' None '''' []"

definition forward_auth :: "string \<Rightarrow> caddyHandler" where
  "forward_auth url = CaddyHandler ''forward_auth'' [] [] 0 '''' None url
     [''X-Ussy-Auth-Mode'', ''X-Ussy-VM'', ''X-Ussy-VM-ID'', ''X-Ussy-UserID'', ''X-Ussy-Handle'']"

text \<open>The two handlers both kinds of route end in.\<close>

definition upstream_chain :: "string \<Rightarrow> string \<Rightarrow> caddyHandler list" where
  "upstream_chain hostname upstream =
     [CaddyHandler ''headers'' [] [] 0 '''' (Some [(''X-Forwarded-Proto'', [''https'']),
        (''X-Forwarded-Host'', [hostname])]) '''' [],
      CaddyHandler ''reverse_proxy'' [] [upstream] 0 '''' None '''' []]"

definition subroute :: "caddyHandler list \<Rightarrow> caddyHandler" where
  "subroute hs = CaddyHandler ''subroute'' [CaddySubroute hs] [] 0 '''' None '''' []"

definition vm_route :: "proxy_manager \<Rightarrow> string \<Rightarrow> string \<Rightarrow> int \<Rightarrow> caddyRoute" where
  "vm_route m vmName vmIP port =
     (let port = (if port = 0 then 8080 else port);
          upstream = vmIP @ '':'' @ dec port;
          hostname = vmName @ ''.'' @ pm_domain m;
          handles = (if pm_authProxyURL m \<noteq> '''' then [forward_auth (pm_authProxyURL m)] else []) @
            upstream_chain hostname upstream
      in \<lparr>cr_ID = routeID vmName, cr_Match = [[hostname]], cr_Handle = [subroute handles]\<rparr>)"

definition domain_route :: "string \<Rightarrow> string \<Rightarrow> caddyRoute" where
  "domain_route domain vmIP =
     \<lparr>cr_ID = customDomainRouteID domain, cr_Match = [[domain]],
      cr_Handle = [subroute (upstream_chain domain (vmIP @ '':8080''))]\<rparr>"

definition base_config :: "proxy_manager \<Rightarrow> string \<Rightarrow> caddyConfig" where
  "base_config m email =
     \<lparr>cc_Servers = [(''srv0'', \<lparr>sv_Listen = ['':443'', '':80''],
        sv_Routes = [\<lparr>cr_ID = '''', cr_Match = [],
          cr_Handle = [CaddyHandler ''static_response'' [] [] 404 (''no such environment'' @ [CHR 10]) None '''' []]\<rparr>]\<rparr>)],
      cc_TLS = Some [\<lparr>po_Subjects = [pm_domain m, ''*.'' @ pm_domain m],
        po_Issuers = [\<lparr>is_Module = ''acme'', is_Email = email, is_DNSProvider = Some ''cloudflare''\<rparr>]\<rparr>]\<rparr>"

text \<open>\<^verbatim>\<open>http.NewRequest\<close> and \<^verbatim>\<open>client.Do\<close>.\<close>

definition send_request ::
  "caddy_env \<Rightarrow> string \<Rightarrow> string \<Rightarrow> caddy_body \<Rightarrow> proxy_manager \<Rightarrow> (string + int \<times> string) \<times> proxy_manager" where
  "send_request env method url body m =
     (if \<not> ce_url_ok env url then (Inl ''create request'', m)
      else
        let req = \<lparr>cq_Method = method, cq_URL = url, cq_Body = body\<rparr>;
            resp = ce_Do env (map fst (pm_log m)) req;
            m = m\<lparr>pm_log := pm_log m @ [(req, resp)]\<rparr>
        in (case resp of Inl e \<Rightarrow> (Inl (''caddy API request: '' @ e), m) | Inr r \<Rightarrow> (Inr r, m)))"

definition caddy_failed :: "string \<Rightarrow> int \<times> string \<Rightarrow> string" where
  "caddy_failed what r = what @ '' error (status '' @ dec (fst r) @ ''): '' @ snd r"

definition routes_url :: "proxy_manager \<Rightarrow> string" where
  "routes_url m = pm_adminAPI m @ ''/config/apps/http/servers/srv0/routes''"

definition AddRoute ::
  "caddy_env \<Rightarrow> string \<Rightarrow> string \<Rightarrow> int \<Rightarrow> proxy_manager \<Rightarrow> (string + unit) \<times> proxy_manager" where
  "AddRoute env vmName vmIP port m =
     (case send_request env ''POST'' (routes_url m) (RouteBody (vm_route m vmName vmIP port)) m of
        (Inl e, m') \<Rightarrow> (Inl e, m')
      | (Inr r, m') \<Rightarrow>
        if fst r \<noteq> 200 then (Inl (caddy_failed ''caddy API'' r), m')
        else (Inr (), m'\<lparr>pm_routes := (pm_routes m')(vmName \<mapsto> vmIP)\<rparr>))"

definition RemoveRoute :: "caddy_env \<Rightarrow> string \<Rightarrow> proxy_manager \<Rightarrow> (string + unit) \<times> proxy_manager" where
  "RemoveRoute env vmName m =
     (case send_request env ''DELETE'' (pm_adminAPI m @ ''/id/'' @ routeID vmName) NoBody m of
        (Inl e, m') \<Rightarrow> (Inl e, m')
      | (Inr r, m') \<Rightarrow> (Inr (), m'\<lparr>pm_routes := (pm_routes m')(vmName := None)\<rparr>))"

definition UpdateRoute ::
  "caddy_env \<Rightarrow> string \<Rightarrow> string \<Rightarrow> int \<Rightarrow> proxy_manager \<Rightarrow> (string + unit) \<times> proxy_manager" where
  "UpdateRoute env vmName vmIP port m = AddRoute env vmName vmIP port (snd (RemoveRoute env vmName m))"

definition EnsureBaseConfig :: "caddy_env \<Rightarrow> string \<Rightarrow> proxy_manager \<Rightarrow> (string + unit) \<times> proxy_manager" where
  "EnsureBaseConfig env email m =
     (case send_request env ''POST'' (pm_adminAPI m @ ''/load'') (ConfigBody (base_config m email)) m of
        (Inl e, m') \<Rightarrow> (Inl e, m')
      | (Inr r, m') \<Rightarrow> if fst r \<noteq> 200 then (Inl (caddy_failed ''caddy load'' r), m') else (Inr (), m'))"

definition AddCustomDomain ::
  "caddy_env \<Rightarrow> string \<Rightarrow> string \<Rightarrow> proxy_manager \<Rightarrow> (string + unit) \<times> proxy_manager" where
  "AddCustomDomain env domain vmName m =
     (case pm_routes m vmName of
        None \<Rightarrow> (Inl (''no active route for VM '' @ go_quote vmName), m)
      | Some vmIP \<Rightarrow>
        (case send_request env ''POST'' (routes_url m) (RouteBody (domain_route domain vmIP)) m of
           (Inl e, m') \<Rightarrow> (Inl e, m')
         | (Inr r, m') \<Rightarrow> if fst r \<noteq> 200 then (Inl (caddy_failed ''caddy API'' r), m') else (Inr (), m')))"

definition RemoveCustomDomain :: "caddy_env \<Rightarrow> string \<Rightarrow> proxy_manager \<Rightarrow> (string + unit) \<times> proxy_manager" where
  "RemoveCustomDomain env domain m =
     (case send_request env ''DELETE'' (pm_adminAPI m @ ''/id/'' @ customDomainRouteID domain) NoBody m of
        (Inl e, m') \<Rightarrow> (Inl e, m')
      | (Inr r, m') \<Rightarrow> (Inr (), m'))"

definition ListRoutes :: "proxy_manager \<Rightarrow> string \<rightharpoonup> string" where "ListRoutes m = pm_routes m"

definition Healthy :: "caddy_env \<Rightarrow> proxy_manager \<Rightarrow> bool \<times> proxy_manager" where
  "Healthy env m =
     (case send_request env ''GET'' (pm_adminAPI m @ ''/config/'') NoBody m of
        (Inl e, m') \<Rightarrow> (False, m')
      | (Inr r, m') \<Rightarrow> (fst r = 200, m'))"

subsection \<open>Runs of the manager\<close>

datatype proxy_op = OpAddRoute string string int | OpRemoveRoute string | OpUpdateRoute string string int |
  OpEnsureBaseConfig string | OpAddCustomDomain string string | OpRemoveCustomDomain string | OpHealthy

fun run_proxy_op :: "caddy_env \<Rightarrow> proxy_op \<Rightarrow> proxy_manager \<Rightarrow> proxy_manager" where
  "run_proxy_op env (OpAddRoute n ip p) m = snd (AddRoute env n ip p m)"
| "run_proxy_op env (OpRemoveRoute n) m = snd (RemoveRoute env n m)"
| "run_proxy_op env (OpUpdateRoute n ip p) m = snd (UpdateRoute env n ip p m)"
| "run_proxy_op env (OpEnsureBaseConfig e) m = snd (EnsureBaseConfig env e m)"
| "run_proxy_op env (OpAddCustomDomain cname n) m = snd (AddCustomDomain env cname n m)"
| "run_proxy_op env (OpRemoveCustomDomain cname) m = snd (RemoveCustomDomain env cname m)"
| "run_proxy_op env OpHealthy m = snd (Healthy env m)"

definition run_proxy_ops :: "caddy_env \<Rightarrow> proxy_op list \<Rightarrow> proxy_manager \<Rightarrow> proxy_manager" where
  "run_proxy_ops env ops m = fold (run_proxy_op env) ops m"

text \<open>No reverse proxy of a handler chain is reached before a \<^verbatim>\<open>forward_auth\<close> to \<open>url\<close>.\<close>

fun chain_guarded :: "string \<Rightarrow> caddyHandler list \<Rightarrow> bool"
  and subroutes_guarded :: "string \<Rightarrow> caddySubroute list \<Rightarrow> bool" where
  "chain_guarded url [] = True"
| "chain_guarded url (CaddyHandler kind routes ups code txt req uri copy # hs) =
     (kind = ''forward_auth'' \<and> uri = url \<or>
      kind \<noteq> ''reverse_proxy'' \<and> subroutes_guarded url routes \<and> chain_guarded url hs)"
| "subroutes_guarded url [] = True"
| "subroutes_guarded url (CaddySubroute hs # rs) = (chain_guarded url hs \<and> subroutes_guarded url rs)"

definition body_guarded :: "string \<Rightarrow> caddy_body \<Rightarrow> bool" where
  "body_guarded url b =
     (case b of NoBody \<Rightarrow> True
      | RouteBody rt \<Rightarrow> chain_guarded url (cr_Handle rt)
      | ConfigBody cfg \<Rightarrow> (\<forall>s \<in> set (cc_Servers cfg). \<forall>rt \<in> set (sv_Routes (snd s)). chain_guarded url (cr_Handle rt)))"

text \<open>The VM routes a reader of the log would expect: of each VM the upstream address of its last
accepted route, unless its deletion was answered after that.\<close>

definition route_upstream :: "caddyRoute \<Rightarrow> string" where
  "route_upstream rt =
     concat (concat (map (\<lambda>h. concat (map (\<lambda>r. map (\<lambda>x. concat (ch_Upstreams x)) (cs_Handle r)) (ch_Routes h))) (cr_Handle rt)))"

definition live_step :: "string \<Rightarrow> caddy_request \<times> caddy_answer \<Rightarrow> (string \<rightharpoonup> string) \<Rightarrow> (string \<rightharpoonup> string)" where
  "live_step api e live =
     (case snd e of Inl _ \<Rightarrow> live
      | Inr r \<Rightarrow>
        (case cq_Body (fst e) of
           RouteBody rt \<Rightarrow>
             if fst r = 200 \<and> HasPrefix (cr_ID rt) ''ussycode-vm-''
             then live(TrimPrefix (cr_ID rt) ''ussycode-vm-'' \<mapsto> strip_port (route_upstream rt)) else live
         | ConfigBody _ \<Rightarrow> live
         | NoBody \<Rightarrow>
             if cq_Method (fst e) = ''DELETE'' \<and> HasPrefix (cq_URL (fst e)) (api @ ''/id/ussycode-vm-'')
             then live(TrimPrefix (cq_URL (fst e)) (api @ ''/id/ussycode-vm-'') := None) else live))"

definition live_routes :: "string \<Rightarrow> (caddy_request \<times> caddy_answer) list \<Rightarrow> string \<rightharpoonup> string" where
  "live_routes api log = fold (live_step api) log Map.empty"

subsection \<open>Lemmas\<close>

lemma route_upstream_vm: "strip_port (route_upstream (vm_route m n ip p)) = ip"
  by (simp add: route_upstream_def vm_route_def subroute_def upstream_chain_def forward_auth_def
      strip_port_port Let_def)

lemma vm_route_guarded:
  "pm_authProxyURL m \<noteq> '''' \<Longrightarrow> chain_guarded (pm_authProxyURL m) (cr_Handle (vm_route m n ip p))"
  by (simp add: vm_route_def subroute_def forward_auth_def Let_def)

lemmas manager_defs = AddRoute_def RemoveRoute_def UpdateRoute_def EnsureBaseConfig_def AddCustomDomain_def
  RemoveCustomDomain_def Healthy_def send_request_def

lemma run_proxy_op_config [simp]:
  "pm_adminAPI (run_proxy_op env op m) = pm_adminAPI m"
  "pm_authProxyURL (run_proxy_op env op m) = pm_authProxyURL m"
  by (cases op; simp add: manager_defs Let_def split: option.split sum.split)+

lemma live_routes_snoc [simp]: "live_routes api (log @ [e]) = live_step api e (live_routes api log)"
  by (simp add: live_routes_def)

lemma live_step_failed [simp]: "live_step api (rq, Inl e) live = live"
  by (simp add: live_step_def)

lemma live_step_vm_route [simp]:
  "live_step api (\<lparr>cq_Method = me, cq_URL = u, cq_Body = RouteBody (vm_route m n ip p)\<rparr>, Inr r) live =
     (if fst r = 200 then live(n \<mapsto> ip) else live)"
proof -
  have "cr_ID (vm_route m n ip p) = ''ussycode-vm-'' @ n" by (simp add: vm_route_def routeID_def Let_def)
  then show ?thesis by (simp add: live_step_def HasPrefix_def route_upstream_vm TrimPrefix_append del: append.simps)
qed

lemma live_step_other [simp]:
  "live_step api (\<lparr>cq_Method = me, cq_URL = u, cq_Body = RouteBody (domain_route n ip)\<rparr>, Inr r) live = live"
  "live_step api (\<lparr>cq_Method = me, cq_URL = u, cq_Body = ConfigBody cfg\<rparr>, Inr r) live = live"
  "live_step api (\<lparr>cq_Method = ''GET'', cq_URL = u, cq_Body = NoBody\<rparr>, Inr r) live = live"
  by (simp_all add: live_step_def domain_route_def customDomainRouteID_def HasPrefix_def)

lemma live_step_delete:
  "live_step api (\<lparr>cq_Method = ''DELETE'', cq_URL = api @ ''/id/'' @ routeID n, cq_Body = NoBody\<rparr>, Inr r) live =
     live(n := None)"
  "live_step api (\<lparr>cq_Method = ''DELETE'', cq_URL = api @ ''/id/'' @ customDomainRouteID c, cq_Body = NoBody\<rparr>, Inr r) live =
     live"
proof -
  have "api @ ''/id/'' @ routeID n = (api @ ''/id/ussycode-vm-'') @ n" by (simp add: routeID_def)
  then show "live_step api (\<lparr>cq_Method = ''DELETE'', cq_URL = api @ ''/id/'' @ routeID n, cq_Body = NoBody\<rparr>, Inr r) live =
     live(n := None)"
    by (simp only: live_step_def) (simp add: HasPrefix_def TrimPrefix_append del: append_assoc append.simps)
qed (simp add: live_step_def customDomainRouteID_def HasPrefix_def)

lemmas live_step_delete' [simp] = live_step_delete [simplified append.simps]

text \<open>What the two operations that change the map do to an abstraction of the log.\<close>

lemma live_routes_AddRoute:
  assumes "pm_routes m = live_routes (pm_adminAPI m) (pm_log m)"
  shows "pm_routes (snd (AddRoute env n ip p m)) = live_routes (pm_adminAPI m) (pm_log (snd (AddRoute env n ip p m)))"
  using assms by (simp add: AddRoute_def send_request_def Let_def split: sum.split)

lemma live_routes_RemoveRoute:
  assumes "pm_routes m = live_routes (pm_adminAPI m) (pm_log m)"
  shows "pm_routes (snd (RemoveRoute env n m)) = live_routes (pm_adminAPI m) (pm_log (snd (RemoveRoute env n m)))"
  using assms by (simp add: RemoveRoute_def send_request_def Let_def split: sum.split)

lemma live_routes_step:
  assumes "pm_routes m = live_routes (pm_adminAPI m) (pm_log m)"
  shows "pm_routes (run_proxy_op env op m) = live_routes (pm_adminAPI m) (pm_log (run_proxy_op env op m))"
proof (cases op)
  case (OpUpdateRoute n ip p)
  have "pm_adminAPI (snd (RemoveRoute env n m)) = pm_adminAPI m"
    using run_proxy_op_config(1) [of env "OpRemoveRoute n" m] by simp
  then show ?thesis
    using OpUpdateRoute live_routes_AddRoute [OF live_routes_RemoveRoute [OF assms, folded \<open>_ = pm_adminAPI m\<close>]]
    by (simp add: UpdateRoute_def)
next
  case (OpEnsureBaseConfig e)
  with assms show ?thesis by (simp add: EnsureBaseConfig_def send_request_def Let_def split: sum.split)
next
  case (OpAddCustomDomain c n)
  with assms show ?thesis by (simp add: AddCustomDomain_def send_request_def Let_def split: sum.split option.split)
next
  case (OpRemoveCustomDomain c)
  with assms show ?thesis by (simp add: RemoveCustomDomain_def send_request_def Let_def split: sum.split)
next
  case OpHealthy
  with assms show ?thesis by (simp add: Healthy_def send_request_def Let_def split: sum.split)
qed (use assms live_routes_AddRoute live_routes_RemoveRoute in simp_all)

text \<open>Every operation but \<open>AddCustomDomain\<close> keeps the requests sent guarded.\<close>

definition log_guarded :: "proxy_manager \<Rightarrow> bool" where
  "log_guarded m \<longleftrightarrow> (\<forall>e \<in> set (pm_log m). body_guarded (pm_authProxyURL m) (cq_Body (fst e)))"

lemma send_request_guarded:
  assumes "log_guarded m" "body_guarded (pm_authProxyURL m) body"
  shows "log_guarded (snd (send_request env method url body m))"
    "pm_authProxyURL (snd (send_request env method url body m)) = pm_authProxyURL m"
  using assms by (auto simp: send_request_def log_guarded_def Let_def split: sum.split)

lemma log_guarded_routes [simp]: "log_guarded (m\<lparr>pm_routes := rs\<rparr>) = log_guarded m"
  by (simp add: log_guarded_def)

lemma bodies_guarded [simp]:
  "body_guarded url NoBody"
  "body_guarded url (ConfigBody (base_config m email))"
  "pm_authProxyURL m \<noteq> '''' \<Longrightarrow> body_guarded (pm_authProxyURL m) (RouteBody (vm_route m n ip p))"
  by (simp_all add: body_guarded_def base_config_def vm_route_guarded)

lemma guarded_step:
  assumes "log_guarded m" "pm_authProxyURL m \<noteq> ''''" "\<And>c n. op \<noteq> OpAddCustomDomain c n"
  shows "log_guarded (run_proxy_op env op m)"
proof -
  have send: "log_guarded m'" if "send_request env me url b m0 = (res, m')" "log_guarded m0"
    "body_guarded (pm_authProxyURL m0) b" for me url b m0 m' res
    using send_request_guarded(1) [OF that(2,3), of env me url] that(1) by simp
  have add: "log_guarded (snd (AddRoute env n ip p m0))" if "log_guarded m0" "pm_authProxyURL m0 \<noteq> ''''" for n ip p m0
    using that by (auto simp: AddRoute_def split: prod.split sum.split dest: send)
  have rem: "log_guarded (snd (RemoveRoute env n m0))" if "log_guarded m0" for n m0
    using that by (auto simp: RemoveRoute_def split: prod.split sum.split dest: send)
  show ?thesis
  proof (cases op)
    case (OpUpdateRoute n ip p)
    then show ?thesis
      using add rem assms run_proxy_op_config(2) [of env "OpRemoveRoute n" m] by (simp add: UpdateRoute_def)
  next
    case (OpEnsureBaseConfig e)
    then show ?thesis using assms by (auto simp: EnsureBaseConfig_def split: prod.split sum.split dest: send)
  next
    case (OpRemoveCustomDomain c)
    then show ?thesis using assms by (auto simp: RemoveCustomDomain_def split: prod.split sum.split dest: send)
  next
    case OpHealthy
    then show ?thesis using assms by (auto simp: Healthy_def split: prod.split sum.split dest: send)
  qed (use add rem assms in auto)
qed

subsection \<open>Properties\<close>


text \<open>The manager's table of VM routes is, at every time, the one its log of admin requests
determines: the upstream of a VM's last route accepted with status 200, unless a deletion was answered
since; custom domains and the base configuration never touch it.\<close>

theorem tracked_routes_from_log:
  "ListRoutes (run_proxy_ops env ops (NewManager api domain authURL)) =
     live_routes (if api = '''' then ''http://localhost:2019'' else api)
       (pm_log (run_proxy_ops env ops (NewManager api domain authURL)))"
proof -
  have "pm_routes (run_proxy_ops env ops m) = live_routes (pm_adminAPI m) (pm_log (run_proxy_ops env ops m))"
    if "pm_routes m = live_routes (pm_adminAPI m) (pm_log m)" for m
    using that
  proof (induction ops arbitrary: m)
    case (Cons op ops)
    from Cons.IH [of "run_proxy_op env op m"] show ?case
      using live_routes_step [OF Cons.prems] by (simp add: run_proxy_ops_def)
  qed (simp add: run_proxy_ops_def)
  from this [of "NewManager api domain authURL"] show ?thesis
    by (simp add: NewManager_def ListRoutes_def live_routes_def)
qed

text \<open>The exception for custom domains is needed: the route of a custom domain, here for the VM \<open>web\<close>, reaches its
upstream without authentication.\<close>

definition obliging_caddy :: caddy_env where
  "obliging_caddy = \<lparr>ce_url_ok = (\<lambda>_. True), ce_Do = (\<lambda>_ _. Inr (200, ''''))\<rparr>"

theorem custom_domain_unguarded:
  "\<not> list_all (\<lambda>e. body_guarded ''http://auth'' (cq_Body (fst e)))
     (pm_log (run_proxy_ops obliging_caddy
       [OpAddRoute ''web'' ''10.0.0.2'' 0, OpAddCustomDomain ''shop.com'' ''web'']
       (NewManager '''' ''ussy.host'' ''http://auth'')))"
  by (simp add: run_proxy_ops_def AddRoute_def AddCustomDomain_def send_request_def obliging_caddy_def
      NewManager_def body_guarded_def vm_route_def domain_route_def subroute_def forward_auth_def
      upstream_chain_def Let_def)


end
