(* ===== verification/Go_Files.thy ===== *)
theory Go_Files
  imports Ussy_Prelude "HOL-Library.AList"
begin

section \<open>Paths and files\<close>

text \<open>
  Package \<^verbatim>\<open>path/filepath\<close> on Unix (lexical cleaning and joining) and the part of package
  \<^verbatim>\<open>os\<close> the program uses on regular files: a file system is the list of its files, path and
  content. Failures of the operating system are decided by the caller's environment.
\<close>

fun Join_strings :: "string list \<Rightarrow> string \<Rightarrow> string" where
  "Join_strings [] sep = ''''"
| "Join_strings [s] sep = s"
| "Join_strings (s # t # ss) sep = s @ sep @ Join_strings (t # ss) sep"

text \<open>One element of a path against the reversed elements kept so far.\<close>

definition clean_elem :: "bool \<Rightarrow> string \<Rightarrow> string list \<Rightarrow> string list" where
  "clean_elem rooted e acc =
     (if e = '''' \<or> e = ''.'' then acc
      else if e = ''..'' then
        (case acc of
           [] \<Rightarrow> if rooted then [] else [''..'']
         | a # as \<Rightarrow> if a = ''..'' then ''..'' # acc else as)
      else e # acc)"

definition is_rooted :: "string \<Rightarrow> bool" where "is_rooted p = HasPrefix p ''/''"

definition path_elems :: "string \<Rightarrow> string list" where
  "path_elems p = rev (fold (clean_elem (is_rooted p)) (Split p CHR ''/'') [])"

definition Clean :: "string \<Rightarrow> string" where
  "Clean p =
     (let s = (if is_rooted p then ''/'' else '''') @ Join_strings (path_elems p) ''/'' in
      if s = '''' then ''.'' else s)"

definition Join :: "string list \<Rightarrow> string" where
  "Join ps =
     (let ps = dropWhile (\<lambda>p. p = '''') ps in
      if ps = [] then '''' else Clean (Join_strings ps ''/''))"

type_synonym files = "(string \<times> string) list"

definition in_dir :: "string \<Rightarrow> string \<Rightarrow> bool" where
  "in_dir dir p \<longleftrightarrow> HasPrefix p (dir @ ''/'') \<and> drop (length dir + 1) p \<noteq> '''' \<and>
     CHR ''/'' \<notin> set (drop (length dir + 1) p)"

definition count_in_dir :: "string \<Rightarrow> files \<Rightarrow> nat" where
  "count_in_dir dir fs = length (filter (\<lambda>f. in_dir dir (fst f)) fs)"

subsection \<open>Lemmas\<close>

lemma Split_nonempty [simp]: "Split s c \<noteq> []" "[] \<noteq> Split s c"
proof -
  show "Split s c \<noteq> []" by (cases s) (auto split: list.splits)
  then show "[] \<noteq> Split s c" by metis
qed

lemma Split_append:
  "Split (a @ c # b) c = Split a c @ Split b c"
  by (induction a) (auto split: list.split)

lemma Split_Join:
  "ps \<noteq> [] \<Longrightarrow> Split (Join_strings ps [c]) c = concat (map (\<lambda>p. Split p c) ps)"
proof (induction ps)
  case (Cons p ps)
  then show ?case by (cases ps) (simp_all add: Split_append)
qed simp

lemma Split_plain: "c \<notin> set s \<Longrightarrow> Split s c = [s]"
  by (induction s) auto

lemma Split_parts: "e \<in> set (Split s c) \<Longrightarrow> set e \<subseteq> set s \<and> c \<notin> set e"
proof (induction s arbitrary: e)
  case (Cons x s)
  then show ?case by (cases "Split s c") (fastforce split: if_splits)+
qed simp

definition keep_elem :: "string \<Rightarrow> bool" where "keep_elem e \<longleftrightarrow> e \<noteq> '''' \<and> e \<noteq> ''.''"

lemma clean_no_dotdot:
  "''..'' \<notin> set es \<Longrightarrow> fold (clean_elem r) es acc = rev (filter keep_elem es) @ acc"
  by (induction es arbitrary: acc) (auto simp: clean_elem_def keep_elem_def)

text \<open>A name that \<^verbatim>\<open>Clean\<close> keeps in place: no separator, not empty, not a dot entry.\<close>

definition plain_name :: "string \<Rightarrow> bool" where
  "plain_name e \<longleftrightarrow> e \<noteq> '''' \<and> e \<noteq> ''.'' \<and> e \<noteq> ''..'' \<and> CHR ''/'' \<notin> set e"

lemma fold_clean_plain:
  assumes "\<And>e. e \<in> set es \<Longrightarrow> CHR ''/'' \<notin> set e" "list_all plain_name acc"
  shows "list_all plain_name (fold (clean_elem True) es acc)"
  using assms
proof (induction es arbitrary: acc)
  case (Cons e es)
  have "list_all plain_name (clean_elem True e acc)"
    using Cons.prems by (cases acc) (auto simp: clean_elem_def plain_name_def [of e] plain_name_def [of "''..''"])
  with Cons show ?case by simp
qed simp

lemma path_elems_plain: "is_rooted p \<Longrightarrow> list_all plain_name (path_elems p)"
  unfolding path_elems_def by simp (rule fold_clean_plain, use Split_parts in \<open>fastforce+\<close>)

lemma fold_plain: "list_all plain_name es \<Longrightarrow> fold (clean_elem r) es acc = rev es @ acc"
  by (induction es arbitrary: acc) (auto simp: clean_elem_def plain_name_def)

lemma Split_Join_plain:
  "es \<noteq> [] \<Longrightarrow> list_all plain_name es \<Longrightarrow> Split (Join_strings es ''/'') CHR ''/'' = es"
  by (subst Split_Join) (auto simp: plain_name_def list_all_iff Split_plain concat_map_singleton
      intro!: concat_map_singleton [THEN trans] cong: map_cong)

lemma Clean_rooted: "is_rooted p \<Longrightarrow> Clean p = ''/'' @ Join_strings (path_elems p) ''/''"
  by (simp add: Clean_def)

lemma path_elems_rooted:
  "list_all plain_name es \<Longrightarrow> path_elems (''/'' @ Join_strings es ''/'') = es"
  by (cases "es = []") (simp_all add: path_elems_def clean_elem_def Split_Join_plain fold_plain)

text \<open>Joining a rooted path with further elements that have no dots, in the end a file name.\<close>

lemma path_elems_append:
  assumes "is_rooted root" "ps \<noteq> []" and "\<And>p e. p \<in> set ps \<Longrightarrow> e \<in> set (Split p CHR ''/'') \<Longrightarrow> e = '''' \<or> plain_name e"
  shows "path_elems (Join_strings (root # ps) ''/'') =
     path_elems root @ filter (\<lambda>e. e \<noteq> '''') (concat (map (\<lambda>p. Split p CHR ''/'') ps))"
proof -
  let ?es = "concat (map (\<lambda>p. Split p CHR ''/'') ps)"
  have nodot: "e = '''' \<or> plain_name e" if "e \<in> set ?es" for e
    using that assms(3) by auto
  have keep: "filter keep_elem ?es = filter (\<lambda>e. e \<noteq> '''') ?es"
    by (intro filter_cong refl) (use nodot in \<open>auto simp: keep_elem_def plain_name_def\<close>)
  have "''..'' \<notin> set ?es" using nodot by (auto simp: plain_name_def)
  have "is_rooted (Join_strings (root # ps) ''/'') = is_rooted root"
    using assms(1,2) by (cases ps; cases root) (auto simp: is_rooted_def HasPrefix_def)
  moreover have "Split (Join_strings (root # ps) ''/'') CHR ''/'' = Split root CHR ''/'' @ ?es"
    by (subst Split_Join) auto
  ultimately show ?thesis
    by (simp add: path_elems_def clean_no_dotdot [OF \<open>''..'' \<notin> set ?es\<close>] keep)
qed

lemma Join_rooted:
  assumes "is_rooted root" "ps \<noteq> []" and "\<And>p e. p \<in> set ps \<Longrightarrow> e \<in> set (Split p CHR ''/'') \<Longrightarrow> e = '''' \<or> plain_name e"
  shows "path_elems (Join (root # ps)) =
       path_elems root @ filter (\<lambda>e. e \<noteq> '''') (concat (map (\<lambda>p. Split p CHR ''/'') ps))"
    and "Join (root # ps) = ''/'' @ Join_strings (path_elems (Join (root # ps))) ''/''"
    and "list_all plain_name (path_elems (Join (root # ps)))" "is_rooted (Join (root # ps))"
proof -
  let ?p = "Join_strings (root # ps) ''/''"
  have r: "root \<noteq> ''''" "is_rooted ?p"
    using assms(1,2) by (cases ps; cases root; auto simp: is_rooted_def HasPrefix_def)+
  then have j: "Join (root # ps) = ''/'' @ Join_strings (path_elems ?p) ''/''"
    by (simp add: Join_def Clean_rooted)
  have e: "path_elems (Join (root # ps)) = path_elems ?p"
    unfolding j by (rule path_elems_rooted) (rule path_elems_plain [OF r(2)])
  show "path_elems (Join (root # ps)) =
       path_elems root @ filter (\<lambda>e. e \<noteq> '''') (concat (map (\<lambda>p. Split p CHR ''/'') ps))"
    unfolding e by (rule path_elems_append [OF assms])
  show "Join (root # ps) = ''/'' @ Join_strings (path_elems (Join (root # ps))) ''/''"
    unfolding e by (rule j)
  show "list_all plain_name (path_elems (Join (root # ps)))"
    unfolding e by (rule path_elems_plain [OF r(2)])
  show "is_rooted (Join (root # ps))" unfolding j by (simp add: is_rooted_def HasPrefix_def)
qed

lemma Join_strings_snoc:
  "es \<noteq> [] \<Longrightarrow> Join_strings (es @ [f]) sep = Join_strings es sep @ sep @ f"
  by (induction es sep rule: Join_strings.induct) simp_all

text \<open>A file in a directory: the directory is what comes before the last separator.\<close>

lemma in_dir_iff:
  assumes "plain_name f"
  shows "in_dir dir (d @ ''/'' @ f) \<longleftrightarrow> dir = d"
proof
  assume "in_dir dir (d @ ''/'' @ f)"
  then have "prefix (dir @ ''/'') (d @ ''/'' @ f)" and
    n: "CHR ''/'' \<notin> set (drop (length (dir @ ''/'')) (d @ ''/'' @ f))"
    by (simp_all add: in_dir_def HasPrefix_def)
  then obtain g where g0: "d @ ''/'' @ f = (dir @ ''/'') @ g" by (auto elim: prefixE)
  with n have "CHR ''/'' \<notin> set g" by (metis append_eq_conv_conj)
  with g0 have g: "d @ ''/'' @ f = dir @ ''/'' @ g" "CHR ''/'' \<notin> set g" by simp_all
  moreover have "CHR ''/'' \<notin> set f" using assms by (simp add: plain_name_def)
  ultimately show "dir = d"
    by (auto simp: append_eq_append_conv2 append_eq_Cons_conv Cons_eq_append_conv)
qed (use assms in \<open>simp add: in_dir_def HasPrefix_def plain_name_def\<close>)

lemma count_update:
  "count_in_dir dir (AList.update p c fs) \<le> count_in_dir dir fs + (if in_dir dir p then 1 else 0)"
  by (induction fs) (auto simp: count_in_dir_def)

lemma count_delete: "count_in_dir dir (AList.delete p fs) \<le> count_in_dir dir fs"
  by (induction fs) (auto simp: count_in_dir_def)

end
