(* ===== verification/Mesh_Allocator.thy ===== *)
theory Mesh_Allocator
  imports Go_Files "HOL-Library.Word"
begin

unbundle bit_operations_syntax

section \<open>The mesh subnet allocator\<close>

text \<open>
  \<^verbatim>\<open>internal/mesh/allocator.go\<close>: one subnet of a base network for each node of the mesh.
  Addresses and subnet indices are 32-bit words, as in the code, so that shifts and sums wrap.
  A network is its address and its prefix length. The two Go maps are association lists with
  distinct keys; an iteration visits the entries in the order of the list. Networks are IPv4:
  \<^verbatim>\<open>net.ParseCIDR\<close> is translated for that notation.
\<close>

type_synonym u32 = "32 word"

record ip_net =
  in_IP :: u32
  in_Bits :: nat

record allocator =
  al_baseNet :: ip_net
  al_subnetBits :: int
  al_allocated :: "(string \<times> ip_net) list"
  al_used :: "(u32 \<times> string) list"

subsection \<open>CIDR notation\<close>

definition is_digit :: "char \<Rightarrow> bool" where
  "is_digit c \<longleftrightarrow> 48 \<le> (of_char c :: nat) \<and> (of_char c :: nat) \<le> 57"

definition parse_digits :: "string \<Rightarrow> nat option" where
  "parse_digits s =
     (if s \<noteq> '''' \<and> list_all is_digit s then Some (fold (\<lambda>c n. n * 10 + (of_char c - 48)) s 0) else None)"

text \<open>A field of a dotted address: no leading zero, at most 255.\<close>

definition parse_octet :: "string \<Rightarrow> nat option" where
  "parse_octet s =
     (if hd s = CHR ''0'' \<and> length s > 1 then None
      else case parse_digits s of None \<Rightarrow> None | Some n \<Rightarrow> if n > 255 then None else Some n)"

definition bytes_to_u32 :: "nat \<Rightarrow> nat \<Rightarrow> nat \<Rightarrow> nat \<Rightarrow> u32" where
  "bytes_to_u32 a b c d = word_of_nat (((a * 256 + b) * 256 + c) * 256 + d)"

definition CIDRMask :: "nat \<Rightarrow> u32" where
  "CIDRMask n = push_bit (32 - n) (mask n)"

definition parse_ipv4 :: "string \<Rightarrow> u32 option" where
  "parse_ipv4 s =
     (case map parse_octet (Split s CHR ''.'') of
        [Some a, Some b, Some c, Some d] \<Rightarrow> Some (bytes_to_u32 a b c d)
      | _ \<Rightarrow> None)"

definition ParseCIDR :: "string \<Rightarrow> ip_net option" where
  "ParseCIDR s =
     (case SplitN2 s CHR ''/'' of
        [addr, bits] \<Rightarrow>
          (case (parse_ipv4 addr, parse_digits bits) of
             (Some ip, Some n) \<Rightarrow> if n > 32 then None else Some \<lparr>in_IP = ip AND CIDRMask n, in_Bits = n\<rparr>
           | _ \<Rightarrow> None)
      | _ \<Rightarrow> None)"

definition octet :: "nat \<Rightarrow> u32 \<Rightarrow> string" where
  "octet k w = dec_nat (unat (drop_bit (8 * k) w) mod 256)"

definition IPNet_String :: "ip_net \<Rightarrow> string" where
  "IPNet_String s =
     Join_strings [octet 3 (in_IP s), octet 2 (in_IP s), octet 1 (in_IP s), octet 0 (in_IP s)] ''.''
     @ ''/'' @ dec_nat (in_Bits s)"

subsection \<open>Indices\<close>

text \<open>\<^verbatim>\<open>uint32(1) << uint(k)\<close>: a negative \<open>k\<close> becomes a huge shift, and a shift by 32 or more is 0.\<close>

definition shl1 :: "int \<Rightarrow> u32" where
  "shl1 k = (if 0 \<le> k \<and> k < 32 then push_bit (nat k) 1 else 0)"

definition maxSubnetIndex :: "allocator \<Rightarrow> u32" where
  "maxSubnetIndex a = shl1 (al_subnetBits a - int (in_Bits (al_baseNet a)))"

definition subnetSize :: "allocator \<Rightarrow> u32" where
  "subnetSize a = shl1 (32 - al_subnetBits a)"

definition subnetForIndex :: "allocator \<Rightarrow> u32 \<Rightarrow> ip_net" where
  "subnetForIndex a idx =
     \<lparr>in_IP = in_IP (al_baseNet a) + idx * subnetSize a, in_Bits = nat (al_subnetBits a)\<rparr>"

definition indexForSubnet :: "allocator \<Rightarrow> ip_net \<Rightarrow> u32" where
  "indexForSubnet a subnet =
     (if subnetSize a = 0 then 0 else (in_IP subnet - in_IP (al_baseNet a)) div subnetSize a)"

subsection \<open>Operations\<close>

definition new_allocator :: "ip_net \<Rightarrow> int \<Rightarrow> allocator" where
  "new_allocator base bits = \<lparr>al_baseNet = base, al_subnetBits = bits, al_allocated = [], al_used = []\<rparr>"

definition NewAllocator :: "allocator option" where
  "NewAllocator = map_option (\<lambda>base. new_allocator base 24) (ParseCIDR ''100.64.0.0/10'')"

definition NewAllocatorCustom :: "string \<Rightarrow> int \<Rightarrow> string + allocator" where
  "NewAllocatorCustom baseCIDR subnetBits =
     (case ParseCIDR baseCIDR of None \<Rightarrow> Inl ''parsing base CIDR''
      | Some base \<Rightarrow>
        if subnetBits \<le> int (in_Bits base)
        then Inl (''subnet bits ('' @ dec subnetBits @ '') must be greater than base bits ('' @ dec (int (in_Bits base)) @ '')'')
        else Inr (new_allocator base subnetBits))"

lemma unat_next: "idx < n \<Longrightarrow> unat (idx + 1) = unat idx + 1" for idx n :: u32
  using unsigned_less [of n, where ?'a = nat] by (simp add: word_less_nat_alt unat_word_ariths)

text \<open>The search for the next free index.\<close>

function scan_free :: "(u32 \<times> string) list \<Rightarrow> u32 \<Rightarrow> u32 \<Rightarrow> u32 option" where
  "scan_free used maxIndex idx =
     (if idx < maxIndex then
        (case map_of used idx of None \<Rightarrow> Some idx | Some _ \<Rightarrow> scan_free used maxIndex (idx + 1))
      else None)"
  by pat_completeness auto
termination
  by (relation "measure (\<lambda>(used, maxIndex, idx). unat maxIndex - unat idx)")
     (auto simp: unat_next word_less_nat_alt)

declare scan_free.simps [simp del]

definition Allocate :: "string \<Rightarrow> allocator \<Rightarrow> (string + ip_net) \<times> allocator" where
  "Allocate nodeID a =
     (case map_of (al_allocated a) nodeID of
        Some subnet \<Rightarrow> (Inr subnet, a)
      | None \<Rightarrow>
        (case scan_free (al_used a) (maxSubnetIndex a) 0 of
           Some idx \<Rightarrow>
             let subnet = subnetForIndex a idx in
             (Inr subnet, a\<lparr>al_allocated := AList.update nodeID subnet (al_allocated a),
                            al_used := AList.update idx nodeID (al_used a)\<rparr>)
         | None \<Rightarrow>
             (Inl (''no free subnets available (all '' @ dec_nat (unat (maxSubnetIndex a)) @ '' exhausted)''), a)))"

definition Release :: "string \<Rightarrow> allocator \<Rightarrow> (string + unit) \<times> allocator" where
  "Release nodeID a =
     (case map_of (al_allocated a) nodeID of
        None \<Rightarrow> (Inl (''no allocation for node '' @ nodeID), a)
      | Some subnet \<Rightarrow>
        (Inr (), a\<lparr>al_used := (case find (\<lambda>e. snd e = nodeID) (al_used a) of
                                 None \<Rightarrow> al_used a | Some e \<Rightarrow> AList.delete (fst e) (al_used a)),
                   al_allocated := AList.delete nodeID (al_allocated a)\<rparr>))"

definition GetAllocation :: "string \<Rightarrow> allocator \<Rightarrow> ip_net option" where
  "GetAllocation nodeID a = map_of (al_allocated a) nodeID"

definition ListAllocations :: "allocator \<Rightarrow> (string \<times> string) list" where
  "ListAllocations a = map (\<lambda>(n, s). (n, IPNet_String s)) (al_allocated a)"

definition AllocatedCount :: "allocator \<Rightarrow> u32" where
  "AllocatedCount a = word_of_nat (length (al_used a))"

definition FreeCount :: "allocator \<Rightarrow> u32" where
  "FreeCount a = maxSubnetIndex a - word_of_nat (length (al_used a))"

record AllocationRecord =
  rec_NodeID :: string
  rec_CIDR :: string

definition ExportAllocations :: "allocator \<Rightarrow> AllocationRecord list" where
  "ExportAllocations a = map (\<lambda>(n, s). \<lparr>rec_NodeID = n, rec_CIDR = IPNet_String s\<rparr>) (al_allocated a)"

fun ImportAllocations :: "AllocationRecord list \<Rightarrow> allocator \<Rightarrow> (string + unit) \<times> allocator" where
  "ImportAllocations [] a = (Inr (), a)"
| "ImportAllocations (r # rs) a =
     (case ParseCIDR (rec_CIDR r) of
        None \<Rightarrow> (Inl (''parsing CIDR '' @ go_quote (rec_CIDR r) @ '' for node '' @ rec_NodeID r), a)
      | Some subnet \<Rightarrow>
        ImportAllocations rs
          (a\<lparr>al_allocated := AList.update (rec_NodeID r) subnet (al_allocated a),
             al_used := AList.update (indexForSubnet a subnet) (rec_NodeID r) (al_used a)\<rparr>))"

subsection \<open>Lemmas on indices and addresses\<close>

text \<open>An address belongs to a network when it agrees with it on the prefix.\<close>

definition in_net :: "u32 \<Rightarrow> ip_net \<Rightarrow> bool" where
  "in_net x s \<longleftrightarrow> drop_bit (32 - in_Bits s) x = drop_bit (32 - in_Bits s) (in_IP s)"

definition net_aligned :: "ip_net \<Rightarrow> bool" where
  "net_aligned s \<longleftrightarrow> in_Bits s \<le> 32 \<and> 2 ^ (32 - in_Bits s) dvd unat (in_IP s)"

text \<open>A usable configuration: an aligned base, longer prefixes, and fewer than \<open>2 ^ 32\<close> subnets.\<close>

definition alloc_cfg :: "allocator \<Rightarrow> bool" where
  "alloc_cfg a \<longleftrightarrow> net_aligned (al_baseNet a) \<and> int (in_Bits (al_baseNet a)) < al_subnetBits a \<and>
     al_subnetBits a \<le> 32 \<and> al_subnetBits a - int (in_Bits (al_baseNet a)) < 32"

lemma unat_shl1: "0 \<le> k \<Longrightarrow> k < 32 \<Longrightarrow> unat (shl1 k) = 2 ^ nat k"
proof -
  assume k: "0 \<le> k" "k < 32"
  then have l: "nat k < 32" by simp
  then have "(2::nat) ^ nat k < 2 ^ 32" by (rule power_strict_increasing) simp
  with l have "unat (push_bit (nat k) 1 :: u32) = 2 ^ nat k"
    by (simp only: unsigned_push_bit_eq unsigned_1) (simp add: push_bit_eq_mult take_bit_nat_eq_self)
  then show ?thesis using k by (simp add: shl1_def del: push_bit_of_1)
qed

lemma net_div: "in_net x s \<longleftrightarrow> unat x div 2 ^ (32 - in_Bits s) = unat (in_IP s) div 2 ^ (32 - in_Bits s)"
proof -
  have "unat (drop_bit m w) = unat w div 2 ^ m" for m and w :: u32
    by (simp add: unat_drop_bit_eq drop_bit_eq_div [where 'a = nat] del: drop_bit_eq_div)
  then show ?thesis by (simp only: in_net_def word_unat_eq_iff)
qed

text \<open>The width of a subnet's addresses and of the index range.\<close>

definition host_bits :: "allocator \<Rightarrow> nat" where "host_bits a = 32 - nat (al_subnetBits a)"
definition index_bits :: "allocator \<Rightarrow> nat" where
  "index_bits a = nat (al_subnetBits a) - in_Bits (al_baseNet a)"

lemma widths:
  assumes "alloc_cfg a"
  shows "host_bits a + index_bits a + in_Bits (al_baseNet a) = 32" "nat (al_subnetBits a) = 32 - host_bits a"
    "32 - (32 - host_bits a) = host_bits a" "32 - in_Bits (al_baseNet a) = host_bits a + index_bits a"
  using assms by (auto simp: alloc_cfg_def host_bits_def index_bits_def net_aligned_def)

lemma unat_max: "alloc_cfg a \<Longrightarrow> unat (maxSubnetIndex a) = 2 ^ index_bits a"
  by (simp add: maxSubnetIndex_def alloc_cfg_def unat_shl1 index_bits_def nat_diff_distrib)

lemma unat_size: "alloc_cfg a \<Longrightarrow> unat (subnetSize a) = 2 ^ host_bits a"
  by (auto simp: subnetSize_def alloc_cfg_def unat_shl1 host_bits_def nat_diff_distrib)

lemma base_aligned:
  assumes "alloc_cfg a"
  obtains q where "unat (in_IP (al_baseNet a)) = 2 ^ (host_bits a + index_bits a) * q"
    "(q + 1) * 2 ^ (host_bits a + index_bits a) \<le> 2 ^ 32"
proof -
  let ?m = "host_bits a + index_bits a" and ?base = "unat (in_IP (al_baseNet a))"
  have "2 ^ ?m dvd ?base" using assms by (simp add: alloc_cfg_def net_aligned_def flip: widths(4) [OF assms])
  then obtain q where q: "?base = 2 ^ ?m * q" by (rule dvdE)
  have "?base < 2 ^ 32" using unsigned_less [of "in_IP (al_baseNet a)", where ?'a = nat] by simp
  moreover have e: "(2::nat) ^ 32 = 2 ^ ?m * 2 ^ in_Bits (al_baseNet a)"
    using widths(1) [OF assms] by (metis power_add)
  ultimately have "q < 2 ^ in_Bits (al_baseNet a)" using q by (metis mult_less_cancel1)
  then have "(q + 1) * 2 ^ ?m \<le> 2 ^ in_Bits (al_baseNet a) * 2 ^ ?m" by (intro mult_right_mono) simp_all
  with q that e show ?thesis by (simp only: mult.commute)
qed

lemma unat_subnet:
  assumes "alloc_cfg a" "idx < maxSubnetIndex a"
  shows "unat (idx * subnetSize a) = unat idx * 2 ^ host_bits a"
    and "unat (in_IP (subnetForIndex a idx)) = unat (in_IP (al_baseNet a)) + unat idx * 2 ^ host_bits a"
proof -
  let ?base = "unat (in_IP (al_baseNet a))" and ?k = "host_bits a" and ?n = "index_bits a"
  have i: "unat idx + 1 \<le> 2 ^ ?n" using assms unat_max by (simp add: word_less_nat_alt)
  then have "(unat idx + 1) * 2 ^ ?k \<le> 2 ^ ?n * 2 ^ ?k" by (rule mult_right_mono) simp
  then have off: "unat idx * 2 ^ ?k + 2 ^ ?k \<le> 2 ^ (?k + ?n)" by (simp add: power_add mult.commute)
  obtain q where q: "?base = 2 ^ (?k + ?n) * q" "(q + 1) * 2 ^ (?k + ?n) \<le> 2 ^ 32"
    using base_aligned [OF assms(1)] by blast
  have "q * 2 ^ (?k + ?n) + 2 ^ (?k + ?n) \<le> 2 ^ 32" using q(2) by (simp only: add_mult_distrib mult_1)
  moreover have "?base = q * 2 ^ (?k + ?n)" using q(1) by (simp only: mult.commute)
  moreover have "(0::nat) < 2 ^ ?k" by simp
  ultimately have lt: "?base + unat idx * 2 ^ ?k < 2 ^ 32" using off by linarith
  then have "unat idx * unat (subnetSize a) < 2 ^ 32" using unat_size [OF assms(1)] by simp
  then show m: "unat (idx * subnetSize a) = unat idx * 2 ^ ?k"
    using unat_size [OF assms(1)] by (simp add: unat_word_ariths)
  with lt show "unat (in_IP (subnetForIndex a idx)) = ?base + unat idx * 2 ^ ?k"
    by (simp add: subnetForIndex_def unat_word_ariths)
qed

text \<open>The addresses of a subnet are one block, inside the base network; the index is recovered.\<close>

lemma subnet_block:
  assumes "alloc_cfg a" "idx < maxSubnetIndex a"
  shows "in_net x (subnetForIndex a idx) \<longleftrightarrow>
      unat x div 2 ^ host_bits a = unat (in_IP (al_baseNet a)) div 2 ^ host_bits a + unat idx"
    and "net_aligned (subnetForIndex a idx)"
    and "in_net x (subnetForIndex a idx) \<Longrightarrow> in_net x (al_baseNet a)"
    and "indexForSubnet a (subnetForIndex a idx) = idx"
proof -
  let ?base = "unat (in_IP (al_baseNet a))" and ?k = "host_bits a" and ?n = "index_bits a"
  have bits: "in_Bits (subnetForIndex a idx) = 32 - ?k" using widths(2) [OF assms(1)] by (simp add: subnetForIndex_def)
  obtain q where q: "?base = 2 ^ (?k + ?n) * q" using base_aligned [OF assms(1)] by blast
  then have q': "?base div 2 ^ ?k = 2 ^ ?n * q" "2 ^ ?k dvd ?base" by (simp_all add: power_add mult.assoc)
  note s = unat_subnet(2) [OF assms]
  show blk: "in_net x (subnetForIndex a idx) \<longleftrightarrow> unat x div 2 ^ ?k = ?base div 2 ^ ?k + unat idx"
    unfolding net_div bits widths(3) [OF assms(1)] s by (simp add: add.commute)
  show "net_aligned (subnetForIndex a idx)"
    unfolding net_aligned_def bits widths(3) [OF assms(1)] s using q'(2) by simp
  show "in_net x (al_baseNet a)" if "in_net x (subnetForIndex a idx)"
  proof -
    have i: "unat idx < 2 ^ ?n" using assms unat_max by (simp add: word_less_nat_alt)
    have "unat x div 2 ^ (?k + ?n) = unat x div 2 ^ ?k div 2 ^ ?n"
      by (simp only: div_mult2_eq power_add)
    also have "\<dots> = (2 ^ ?n * q + unat idx) div 2 ^ ?n" using that blk q'(1) by simp
    also have "\<dots> = q" using i by simp
    also have "q = ?base div 2 ^ (?k + ?n)" using q by simp
    finally show ?thesis unfolding net_div widths(4) [OF assms(1)] .
  qed
  have "subnetSize a \<noteq> 0" using unat_size [OF assms(1)] by (metis power_not_zero unat_0 zero_neq_numeral)
  moreover have "in_IP (subnetForIndex a idx) - in_IP (al_baseNet a) = idx * subnetSize a"
    by (simp add: subnetForIndex_def)
  moreover have "unat (idx * subnetSize a div subnetSize a) = unat idx"
    using unat_subnet(1) [OF assms] unat_size [OF assms(1)] by (simp add: unat_div_distrib)
  ultimately show "indexForSubnet a (subnetForIndex a idx) = idx"
    unfolding indexForSubnet_def word_unat_eq_iff [of _ idx] by (simp only: if_False)
qed

subsection \<open>The invariant of a run\<close>

datatype mesh_op = OpAllocate string | OpRelease string

fun run_mesh_op :: "mesh_op \<Rightarrow> allocator \<Rightarrow> allocator" where
  "run_mesh_op (OpAllocate n) a = snd (Allocate n a)"
| "run_mesh_op (OpRelease n) a = snd (Release n a)"

definition run_mesh_ops :: "mesh_op list \<Rightarrow> allocator \<Rightarrow> allocator" where
  "run_mesh_ops ops a = fold run_mesh_op ops a"

text \<open>Each used index belongs to one node, whose allocation is the subnet of that index.\<close>

definition alloc_inv :: "allocator \<Rightarrow> bool" where
  "alloc_inv a \<longleftrightarrow> alloc_cfg a \<and> distinct (map fst (al_allocated a)) \<and> distinct (map fst (al_used a)) \<and>
     distinct (map snd (al_used a)) \<and> snd ` set (al_used a) = fst ` set (al_allocated a) \<and>
     (\<forall>(idx, n) \<in> set (al_used a). idx < maxSubnetIndex a \<and> map_of (al_allocated a) n = Some (subnetForIndex a idx))"

lemma scan_free_correct:
  "scan_free used m idx = Some i \<Longrightarrow> idx \<le> i \<and> i < m \<and> map_of used i = None \<and> (\<forall>j. idx \<le> j \<and> j < i \<longrightarrow> map_of used j \<noteq> None)"
  "scan_free used m idx = None \<Longrightarrow> \<forall>j. idx \<le> j \<and> j < m \<longrightarrow> map_of used j \<noteq> None"
proof (induction used m idx rule: scan_free.induct)
  case (1 used m idx)
  have le: "idx \<le> j \<longleftrightarrow> j = idx \<or> idx + 1 \<le> j" if "idx < m" for j
    using unat_next [OF that] by (auto simp: word_le_nat_alt word_unat_eq_iff)
  {
    case 1
    then show ?case
      using "1.IH"(1) le by (subst (asm) scan_free.simps) (auto split: if_splits option.splits dest: leD)
  next
    case 2
    then show ?case
      using "1.IH"(2) le by (subst (asm) scan_free.simps) (auto split: if_splits option.splits)
  }
qed

lemma update_new: "k \<notin> fst ` set xs \<Longrightarrow> AList.update k v xs = xs @ [(k, v)]"
  by (induction xs) auto

lemma cfg_update [simp]:
  "alloc_cfg (a\<lparr>al_allocated := x\<rparr>) = alloc_cfg a" "alloc_cfg (a\<lparr>al_used := y\<rparr>) = alloc_cfg a"
  "maxSubnetIndex (a\<lparr>al_allocated := x\<rparr>) = maxSubnetIndex a" "maxSubnetIndex (a\<lparr>al_used := y\<rparr>) = maxSubnetIndex a"
  "subnetForIndex (a\<lparr>al_allocated := x\<rparr>) = subnetForIndex a" "subnetForIndex (a\<lparr>al_used := y\<rparr>) = subnetForIndex a"
  "indexForSubnet (a\<lparr>al_allocated := x\<rparr>) = indexForSubnet a" "indexForSubnet (a\<lparr>al_used := y\<rparr>) = indexForSubnet a"
  by (auto simp: alloc_cfg_def maxSubnetIndex_def subnetForIndex_def subnetSize_def indexForSubnet_def)

lemma Allocate_inv:
  assumes "alloc_inv a"
  shows "alloc_inv (snd (Allocate n a))"
proof (cases "map_of (al_allocated a) n")
  case None
  show ?thesis
  proof (cases "scan_free (al_used a) (maxSubnetIndex a) 0")
    case (Some idx)
    have idx: "idx < maxSubnetIndex a" "idx \<notin> fst ` set (al_used a)"
      using scan_free_correct(1) [OF Some] by (auto simp: map_of_eq_None_iff)
    have n: "n \<notin> fst ` set (al_allocated a)" using None by (simp add: map_of_eq_None_iff)
    with assms have n': "n \<notin> snd ` set (al_used a)" by (simp add: alloc_inv_def)
    have img: "\<exists>y. (m, y) \<in> set (al_allocated a)" if "(i, m) \<in> set (al_used a)" for i m
      using that assms by (force simp: alloc_inv_def)
    show ?thesis
      using assms None Some idx n n' img
      by (auto simp: Allocate_def alloc_inv_def Let_def update_new map_of_append map_add_def image_iff
          split: option.splits)
  qed (use None assms in \<open>simp add: Allocate_def\<close>)
qed (use assms in \<open>simp add: Allocate_def\<close>)

lemma Release_inv:
  assumes "alloc_inv a"
  shows "alloc_inv (snd (Release n a))"
proof (cases "map_of (al_allocated a) n")
  case (Some s)
  then have "n \<in> fst ` set (al_allocated a)" by (force dest: map_of_SomeD)
  with assms have "n \<in> snd ` set (al_used a)" by (simp add: alloc_inv_def)
  then obtain e where e: "find (\<lambda>e. snd e = n) (al_used a) = Some e" "e \<in> set (al_used a)" "snd e = n"
    by (cases "find (\<lambda>e. snd e = n) (al_used a)") (auto simp: find_None_iff find_Some_iff)
  have same: "e' = e" if "e' \<in> set (al_used a)" "fst e' = fst e \<or> snd e' = n" for e'
    using that e assms by (auto simp: alloc_inv_def distinct_map inj_on_def)
  have set': "set (AList.delete (fst e) (al_used a)) = set (al_used a) - {e}"
    using same e by (auto simp: AList.delete_eq)
  define u where "u = AList.delete (fst e) (al_used a)"
  define w where "w = AList.delete n (al_allocated a)"
  have rel: "snd (Release n a) = a\<lparr>al_used := u, al_allocated := w\<rparr>"
    using Some e by (simp add: Release_def u_def w_def)
  have parts: "alloc_cfg a" "distinct (map fst w)" "distinct (map fst u)" "distinct (map snd u)"
    using assms by (simp_all add: alloc_inv_def u_def w_def distinct_delete AList.delete_eq distinct_map_filter)
  have img: "snd ` set u = fst ` set w"
  proof -
    have "snd ` set u = snd ` set (al_used a) - {n}" using same e unfolding u_def set' by auto
    also have "\<dots> = fst ` set (al_allocated a) - {n}" using assms by (simp add: alloc_inv_def)
    also have "\<dots> = fst ` set w" by (auto simp: w_def AList.delete_eq)
    finally show ?thesis .
  qed
  have entry: "i < maxSubnetIndex a \<and> map_of w m = Some (subnetForIndex a i)" if "(i, m) \<in> set u" for i m
  proof -
    have im: "(i, m) \<in> set (al_used a)" "(i, m) \<noteq> e" using that by (simp_all add: u_def set')
    then have "m \<noteq> n" using same [OF im(1)] by auto
    then show ?thesis using im(1) assms by (auto simp: alloc_inv_def w_def delete_conv')
  qed
  show ?thesis
    unfolding rel alloc_inv_def using parts img entry by auto
qed (use assms in \<open>simp add: Release_def\<close>)

lemma run_mesh_op_inv: "alloc_inv a \<Longrightarrow> alloc_inv (run_mesh_op op a)"
  by (cases op) (simp_all add: Allocate_inv Release_inv)

lemma run_mesh_inv: "alloc_inv a \<Longrightarrow> alloc_inv (run_mesh_ops ops a)"
  by (induction ops arbitrary: a) (simp_all add: run_mesh_ops_def run_mesh_op_inv)

subsection \<open>Parsing what was printed\<close>

lemma of_digit_char: "of_char (digit_char d) - 48 = d mod (10::nat)"
proof -
  have "d mod 10 < 10" by simp
  then show ?thesis by (simp add: digit_char_def)
qed

lemma is_digit_digit: "is_digit (digit_char k)"
  using digit_char_range [of k] by (simp add: is_digit_def)

lemma parse_digits_dec: "parse_digits (dec_nat k) = Some k"
proof -
  have "list_all is_digit (dec_nat k) \<and> fold (\<lambda>c n. n * 10 + (of_char c - 48)) (dec_nat k) (0::nat) = k"
  proof (induction k rule: dec_nat.induct)
    case (1 k)
    show ?case
    proof (cases "k < 10")
      case True
      then show ?thesis
        by (subst (1 2) dec_nat.simps) (simp add: of_digit_char is_digit_digit)
    next
      case False
      with 1 show ?thesis
        by (subst (1 2) dec_nat.simps) (simp add: of_digit_char is_digit_digit)
    qed
  qed
  then show ?thesis by (simp add: parse_digits_def)
qed

lemma hd_dec_nat_pos: "0 < k \<Longrightarrow> hd (dec_nat k) \<noteq> CHR ''0''"
proof (induction k rule: dec_nat.induct)
  case (1 k)
  have digit: "digit_char k \<noteq> CHR ''0''" if "0 < k" "k < 10"
  proof
    assume "digit_char k = CHR ''0''"
    then have "of_char (digit_char k) - 48 = (of_char CHR ''0'' - 48 :: nat)" by simp
    then show False using that by (simp add: of_digit_char)
  qed
  show ?case
  proof (cases "k < 10")
    case True
    then show ?thesis using digit "1.prems" by (subst dec_nat.simps) simp
  next
    case False
    then show ?thesis using 1 by (subst dec_nat.simps) simp
  qed
qed

lemma parse_octet_dec: "k \<le> 255 \<Longrightarrow> parse_octet (dec_nat k) = Some k"
proof -
  assume k: "k \<le> 255"
  have "\<not> (hd (dec_nat k) = CHR ''0'' \<and> length (dec_nat k) > 1)"
  proof (cases "k = 0")
    case True then show ?thesis by (simp add: dec_nat.simps)
  qed (simp add: hd_dec_nat_pos)
  with k show ?thesis by (simp add: parse_octet_def parse_digits_dec del: One_nat_def)
qed

lemma dec_nat_no_sep: "CHR ''.'' \<notin> set (dec_nat k)" "CHR ''/'' \<notin> set (dec_nat k)"
  using dec_no_sep(2,3) [of "int k"] by (simp_all add: dec_def)

lemma four_bytes:
  "bytes_to_u32 (unat (drop_bit 24 w) mod 256) (unat (drop_bit 16 w) mod 256) (unat (drop_bit 8 w) mod 256)
     (unat w mod 256) = w"
proof -
  let ?n = "unat w"
  have shift: "unat (drop_bit m w) = ?n div 2 ^ m" for m
    by (simp add: unat_drop_bit_eq drop_bit_eq_div [where 'a = nat] del: drop_bit_eq_div)
  have lt: "?n < 2 ^ 32" using unsigned_less [of w, where ?'a = nat] by simp
  have "?n div 256 div 256 div 256 < 256"
    using lt by (simp add: less_mult_imp_div_less flip: div_mult2_eq)
  then have bytes: "((?n div 256 div 256 div 256 mod 256 * 256 + ?n div 256 div 256 mod 256) * 256 + ?n div 256 mod 256) * 256 + ?n mod 256 = ?n"
    by (simp only: mod_less div_mult_mod_eq)
  have "?n div 2 ^ 24 = ?n div 256 div 256 div 256" "?n div 2 ^ 16 = ?n div 256 div 256" "?n div 2 ^ 8 = ?n div 256"
    by (simp_all flip: div_mult2_eq)
  then have eq: "((?n div 2 ^ 24 mod 256 * 256 + ?n div 2 ^ 16 mod 256) * 256 + ?n div 2 ^ 8 mod 256) * 256 + ?n mod 256 = ?n"
    by (simp only: bytes)
  show ?thesis unfolding bytes_to_u32_def shift eq by simp
qed

lemma aligned_masked:
  assumes "net_aligned s"
  shows "in_IP s AND CIDRMask (in_Bits s) = in_IP s"
proof -
  have "take_bit (32 - in_Bits s) (unat (in_IP s)) = 0"
    using assms by (simp add: net_aligned_def take_bit_eq_mod dvd_imp_mod_0)
  then have "unat (take_bit (32 - in_Bits s) (in_IP s)) = 0" by (simp add: unsigned_take_bit_eq)
  then have low: "take_bit (32 - in_Bits s) (in_IP s) = 0"
    by (simp only: word_unat_eq_iff unat_0)
  show ?thesis
  proof (rule bit_word_eqI)
    fix i assume i: "i < LENGTH(32)"
    have "\<not> bit (in_IP s) i" if "i < 32 - in_Bits s"
      using low that by (metis bit_0_eq bit_take_bit_iff bot_apply bot_bool_def)
    then show "bit (in_IP s AND CIDRMask (in_Bits s)) i = bit (in_IP s) i"
      using i assms by (cases "i < 32 - in_Bits s")
        (auto simp: CIDRMask_def bit_and_iff bit_push_bit_iff bit_mask_iff net_aligned_def not_less)
  qed
qed

lemma ParseCIDR_aligned: "ParseCIDR c = Some s \<Longrightarrow> net_aligned s"
proof -
  assume "ParseCIDR c = Some s"
  then obtain ip where s: "s = \<lparr>in_IP = ip AND CIDRMask (in_Bits s), in_Bits = in_Bits s\<rparr>" "in_Bits s \<le> 32"
    by (auto simp: ParseCIDR_def split: list.splits option.splits if_splits)
  have "take_bit (32 - in_Bits s) (in_IP s) = 0"
    by (subst s(1)) (auto simp: CIDRMask_def bit_eq_iff bit_take_bit_iff bit_and_iff bit_push_bit_iff)
  then have "take_bit (32 - in_Bits s) (unat (in_IP s)) = 0" by (metis unat_0 unsigned_take_bit_eq)
  with s(2) show ?thesis by (simp add: net_aligned_def take_bit_eq_mod mod_eq_0_iff_dvd)
qed

lemma ParseCIDR_String:
  assumes "net_aligned s"
  shows "ParseCIDR (IPNet_String s) = Some s"
proof -
  let ?os = "[octet 3 (in_IP s), octet 2 (in_IP s), octet 1 (in_IP s), octet 0 (in_IP s)]"
  have plain: "CHR ''.'' \<notin> set (octet k w)" "CHR ''/'' \<notin> set (octet k w)" for k w
    by (simp_all add: octet_def dec_nat_no_sep)
  then have "CHR ''/'' \<notin> set (Join_strings ?os ''.'')" by simp
  then have 1: "SplitN2 (IPNet_String s) CHR ''/'' = [Join_strings ?os ''.'', dec_nat (in_Bits s)]"
    unfolding IPNet_String_def by (subst SplitN2_append [symmetric]) simp_all
  have "Split (Join_strings ?os ''.'') CHR ''.'' = ?os"
    by (subst Split_Join) (simp_all add: Split_plain plain)
  moreover have "parse_octet (octet k w) = Some (unat (drop_bit (8 * k) w) mod 256)" for k w
    unfolding octet_def by (rule parse_octet_dec) (simp add: less_Suc_eq_le [symmetric])
  ultimately have 2: "parse_ipv4 (Join_strings ?os ''.'') = Some (in_IP s)"
    using four_bytes [of "in_IP s"] by (simp add: parse_ipv4_def)
  show ?thesis
    unfolding ParseCIDR_def 1 using 2 assms aligned_masked [OF assms]
    by (simp add: parse_digits_dec net_aligned_def del: Join_strings.simps)
qed

subsection \<open>Properties\<close>

lemma NewAllocatorCustom_inv:
  assumes "NewAllocatorCustom cidr bits = Inr a" "bits \<le> 32" "bits - int (in_Bits (al_baseNet a)) < 32"
  shows "alloc_inv a" "al_subnetBits a = bits" "al_allocated a = []" "al_used a = []"
  using assms ParseCIDR_aligned
  by (auto simp: NewAllocatorCustom_def new_allocator_def alloc_inv_def alloc_cfg_def split: option.splits if_splits)

lemma run_mesh_config [simp]:
  "al_baseNet (run_mesh_ops ops a) = al_baseNet a" "al_subnetBits (run_mesh_ops ops a) = al_subnetBits a"
proof -
  have step: "al_baseNet (run_mesh_op op a) = al_baseNet a \<and> al_subnetBits (run_mesh_op op a) = al_subnetBits a" for op a
    by (cases op) (simp_all add: Allocate_def Release_def Let_def split: option.split)
  show "al_baseNet (run_mesh_ops ops a) = al_baseNet a" "al_subnetBits (run_mesh_ops ops a) = al_subnetBits a"
    by (induction ops arbitrary: a) (simp_all add: run_mesh_ops_def step)
qed

lemma GetAllocation_index:
  assumes "alloc_inv a" "GetAllocation n a = Some s"
  obtains idx where "(idx, n) \<in> set (al_used a)" "s = subnetForIndex a idx" "idx < maxSubnetIndex a"
proof -
  have "n \<in> fst ` set (al_allocated a)"
    using assms(2) by (force simp: GetAllocation_def dest: map_of_SomeD)
  with assms(1) have "n \<in> snd ` set (al_used a)" by (simp add: alloc_inv_def)
  then obtain idx where u: "(idx, n) \<in> set (al_used a)" by auto
  with assms show ?thesis by (intro that [of idx]) (auto simp: alloc_inv_def GetAllocation_def)
qed

text \<open>C30. The subnets handed out never overlap: after any sequence of allocations and releases two
nodes have subnets of the configured prefix length that share no address, and all their addresses lie
in the base network; 32-bit arithmetic never wraps on the way.\<close>

theorem mesh_subnets_disjoint:
  assumes "NewAllocatorCustom cidr bits = Inr a" "bits \<le> 32" "bits - int (in_Bits (al_baseNet a)) < 32"
    and "GetAllocation n1 (run_mesh_ops ops a) = Some s1" "GetAllocation n2 (run_mesh_ops ops a) = Some s2" "n1 \<noteq> n2"
  shows "int (in_Bits s1) = bits \<and> (in_net x s1 \<longrightarrow> in_net x (al_baseNet a)) \<and> \<not> (in_net x s1 \<and> in_net x s2)"
proof -
  let ?b = "run_mesh_ops ops a"
  note inv = run_mesh_inv [OF NewAllocatorCustom_inv(1) [OF assms(1-3)], of ops]
  have cfg: "alloc_cfg ?b" using inv by (simp add: alloc_inv_def)
  obtain i1 where i1: "(i1, n1) \<in> set (al_used ?b)" "s1 = subnetForIndex ?b i1" "i1 < maxSubnetIndex ?b"
    using GetAllocation_index [OF inv assms(4)] by blast
  obtain i2 where i2: "(i2, n2) \<in> set (al_used ?b)" "s2 = subnetForIndex ?b i2" "i2 < maxSubnetIndex ?b"
    using GetAllocation_index [OF inv assms(5)] by blast
  have "distinct (map fst (al_used ?b))" using inv by (simp add: alloc_inv_def)
  then have "i1 \<noteq> i2" using eq_key_imp_eq_value i1(1) i2(1) assms(6) by fast
  then have ne: "unat i1 \<noteq> unat i2" by (simp add: word_unat_eq_iff)
  note b1 = subnet_block [OF cfg i1(3)] and b2 = subnet_block [OF cfg i2(3)]
  have "int (in_Bits s1) = bits"
    using NewAllocatorCustom_inv(2) [OF assms(1-3)] cfg unfolding i1(2) by (simp add: subnetForIndex_def alloc_cfg_def)
  moreover have "in_net x s1 \<longrightarrow> in_net x (al_baseNet a)" using b1(3) i1(2) by simp
  moreover have "\<not> (in_net x s1 \<and> in_net x s2)" using b1(1) b2(1) i1(2) i2(2) ne by simp
  ultimately show ?thesis by blast
qed

text \<open>\<^verbatim>\<open>Allocate\<close> always terminates with an answer, and fails only when it must: a new node is
refused exactly when all subnets are taken, and otherwise gets the subnet of the lowest free index;
a released subnet is therefore available again.\<close>

theorem mesh_allocate_lowest_free:
  assumes "NewAllocatorCustom cidr bits = Inr a" "bits \<le> 32" "bits - int (in_Bits (al_baseNet a)) < 32"
    and "b = run_mesh_ops ops a" "GetAllocation n b = None"
  shows "(length (al_used b) = 2 ^ nat (bits - int (in_Bits (al_baseNet a))) \<longleftrightarrow> (\<exists>e. fst (Allocate n b) = Inl e)) \<and>
    (\<forall>s. fst (Allocate n b) = Inr s \<longrightarrow> (\<exists>idx. s = subnetForIndex b idx \<and> idx \<notin> fst ` set (al_used b) \<and>
       (\<forall>j < idx. j \<in> fst ` set (al_used b)) \<and> GetAllocation n (snd (Allocate n b)) = Some s))"
proof -
  note inv = run_mesh_inv [OF NewAllocatorCustom_inv(1) [OF assms(1-3)], of ops, folded assms(4)]
  then have cfg: "alloc_cfg b" by (simp add: alloc_inv_def)
  have ib: "index_bits b = nat (bits - int (in_Bits (al_baseNet a)))"
    using NewAllocatorCustom_inv(2) [OF assms(1-3)] assms(4) by (simp add: index_bits_def nat_diff_distrib')
  let ?all = "{idx. idx < maxSubnetIndex b}"
  have "bij_betw unat ?all {..<unat (maxSubnetIndex b)}"
  proof (rule bij_betw_byWitness [where f' = word_of_nat])
    have small: "take_bit 32 x = x" if "x < unat (maxSubnetIndex b)" for x
      using that unsigned_less [of "maxSubnetIndex b", where ?'a = nat]
      by (intro take_bit_nat_eq_self) simp
    show "\<forall>x \<in> {..<unat (maxSubnetIndex b)}. unat (word_of_nat x :: u32) = x"
      by (simp add: unsigned_of_nat small)
    show "word_of_nat ` {..<unat (maxSubnetIndex b)} \<subseteq> ?all"
      by (auto simp: word_less_nat_alt unsigned_of_nat small)
  qed (auto simp: word_less_nat_alt)
  then have card: "card ?all = 2 ^ index_bits b" using unat_max [OF cfg] bij_betw_same_card by fastforce
  have sub: "fst ` set (al_used b) \<subseteq> ?all" using inv by (auto simp: alloc_inv_def)
  have len: "length (al_used b) = card (fst ` set (al_used b))"
    using inv by (metis alloc_inv_def distinct_card length_map list.set_map)
  have full: "length (al_used b) = 2 ^ index_bits b \<longleftrightarrow> fst ` set (al_used b) = ?all"
    using sub card len by (metis card_subset_eq finite)
  have none: "map_of (al_allocated b) n = None" using assms(5) by (simp add: GetAllocation_def)
  show ?thesis
  proof (cases "scan_free (al_used b) (maxSubnetIndex b) 0")
    case None
    then have "?all \<subseteq> fst ` set (al_used b)"
      using scan_free_correct(2) [OF None] by (auto simp: map_of_eq_None_iff)
    then show ?thesis using None none full sub ib by (simp add: Allocate_def)
  next
    case (Some idx)
    note c = scan_free_correct(1) [OF Some]
    have free: "idx \<notin> fst ` set (al_used b)" using c by (simp add: map_of_eq_None_iff)
    then have "fst ` set (al_used b) \<noteq> ?all" using c by blast
    moreover have "\<forall>j < idx. j \<in> fst ` set (al_used b)" using c by (auto simp: map_of_eq_None_iff)
    ultimately show ?thesis
      using Some none full free ib by (auto simp: Allocate_def Let_def GetAllocation_def update_conv')
  qed
qed

lemma fold_update_new:
  "distinct (map fst xs) \<Longrightarrow> fst ` set xs \<inter> fst ` set ys = {} \<Longrightarrow>
    fold (\<lambda>(k, v). AList.update k v) xs ys = ys @ xs"
  by (induction xs arbitrary: ys) (auto simp: update_new)

lemma Import_fold:
  assumes "\<And>n s. (n, s) \<in> set xs \<Longrightarrow> net_aligned s"
  shows "ImportAllocations (map (\<lambda>(n, s). \<lparr>rec_NodeID = n, rec_CIDR = IPNet_String s\<rparr>) xs) b =
    (Inr (), b\<lparr>al_allocated := fold (\<lambda>(k, v). AList.update k v) xs (al_allocated b),
               al_used := fold (\<lambda>(k, v). AList.update k v) (map (\<lambda>(n, s). (indexForSubnet b s, n)) xs) (al_used b)\<rparr>)"
  using assms
proof (induction xs arbitrary: b)
  case (Cons x xs)
  obtain n s where x: "x = (n, s)" by (cases x)
  have "ParseCIDR (IPNet_String s) = Some s" using Cons.prems [of n s] x by (intro ParseCIDR_String) simp
  moreover note Cons.IH [of "b\<lparr>al_allocated := AList.update n s (al_allocated b),
      al_used := AList.update (indexForSubnet b s) n (al_used b)\<rparr>"]
  moreover have "\<And>n s. (n, s) \<in> set xs \<Longrightarrow> net_aligned s" using Cons.prems by (meson list.set_intros(2))
  ultimately show ?case using x by simp
qed simp

text \<open>Allocations survive a restart: exporting them as text and importing the records into a fresh
allocator of the same network restores every node's subnet and the table of used indices.\<close>

theorem mesh_export_import:
  assumes "NewAllocatorCustom cidr bits = Inr a" "bits \<le> 32" "bits - int (in_Bits (al_baseNet a)) < 32"
  shows "\<exists>b. ImportAllocations (ExportAllocations (run_mesh_ops ops a)) a = (Inr (), b) \<and>
    (\<forall>n. GetAllocation n b = GetAllocation n (run_mesh_ops ops a)) \<and>
    map_of (al_used b) = map_of (al_used (run_mesh_ops ops a)) \<and> AllocatedCount b = AllocatedCount (run_mesh_ops ops a)"
proof -
  let ?r = "run_mesh_ops ops a"
  let ?index = "\<lambda>(n, s). (indexForSubnet a s, n)"
  let ?used = "map ?index (al_allocated ?r)"
  note inv = run_mesh_inv [OF NewAllocatorCustom_inv(1) [OF assms(1-3)], of ops]
  note a = NewAllocatorCustom_inv [OF assms(1-3)]
  have cfg: "alloc_cfg ?r" and dist: "distinct (map fst (al_allocated ?r))" "distinct (map fst (al_used ?r))"
    using inv by (simp_all add: alloc_inv_def)
  have same: "indexForSubnet a = indexForSubnet ?r"
    by (simp add: fun_eq_iff indexForSubnet_def subnetSize_def)
  have entry: "\<exists>idx. (idx, n) \<in> set (al_used ?r) \<and> s = subnetForIndex ?r idx \<and> net_aligned s \<and> indexForSubnet a s = idx"
    if "(n, s) \<in> set (al_allocated ?r)" for n s
  proof -
    have "GetAllocation n ?r = Some s" using that dist by (simp add: GetAllocation_def)
    then obtain idx where "(idx, n) \<in> set (al_used ?r)" "s = subnetForIndex ?r idx" "idx < maxSubnetIndex ?r"
      using GetAllocation_index [OF inv] by blast
    then show ?thesis using subnet_block(2,4) [OF cfg] same by metis
  qed
  have used: "set ?used = set (al_used ?r)"
  proof (intro set_eqI iffI)
    fix e assume "e \<in> set ?used"
    then show "e \<in> set (al_used ?r)" using entry by fastforce
  next
    fix e assume e: "e \<in> set (al_used ?r)"
    obtain i m where "e = (i, m)" by (cases e)
    with e have s: "(snd e, subnetForIndex ?r (fst e)) \<in> set (al_allocated ?r)" and l: "fst e < maxSubnetIndex ?r"
      using inv by (auto simp: alloc_inv_def dest!: map_of_SomeD split: prod.splits)
    from imageI [OF s, of ?index] show "e \<in> set ?used" using subnet_block(4) [OF cfg l] same by simp
  qed
  have lens: "length (al_allocated ?r) = length (al_used ?r)"
  proof -
    have "length (al_allocated ?r) = card (fst ` set (al_allocated ?r))"
      using distinct_card [OF dist(1)] by simp
    also have "\<dots> = card (snd ` set (al_used ?r))" using inv by (simp add: alloc_inv_def)
    also have "\<dots> = length (al_used ?r)"
      using inv distinct_card [of "map snd (al_used ?r)"] by (simp add: alloc_inv_def)
    finally show ?thesis .
  qed
  have "set (map fst ?used) = fst ` set (al_used ?r)" using used by (metis list.set_map)
  then have "card (set (map fst ?used)) = length (map fst ?used)"
    using lens distinct_card [OF dist(2)] by simp
  then have dused: "distinct (map fst ?used)" by (rule card_distinct)
  have imp: "ImportAllocations (ExportAllocations ?r) a = (Inr (), a\<lparr>al_allocated := al_allocated ?r, al_used := ?used\<rparr>)"
  proof -
    have i: "ImportAllocations (map (\<lambda>(n, s). \<lparr>rec_NodeID = n, rec_CIDR = IPNet_String s\<rparr>) (al_allocated ?r)) a =
      (Inr (), a\<lparr>al_allocated := fold (\<lambda>(k, v). AList.update k v) (al_allocated ?r) (al_allocated a),
                 al_used := fold (\<lambda>(k, v). AList.update k v) ?used (al_used a)\<rparr>)"
      by (rule Import_fold) (use entry in blast)
    have f: "fold (\<lambda>(k, v). AList.update k v) (al_allocated ?r) [] = al_allocated ?r"
      "fold (\<lambda>(k, v). AList.update k v) ?used [] = ?used"
      using fold_update_new [OF dist(1), of "[]"] fold_update_new [OF dused, of "[]"] by simp_all
    show ?thesis unfolding ExportAllocations_def i a(3,4) f by (rule refl)
  qed
  have "map_of ?used = map_of (al_used ?r)"
    using map_of_inject_set [OF dused dist(2)] used by blast
  then show ?thesis
    using imp lens by (simp add: GetAllocation_def AllocatedCount_def)
qed

subsection \<open>Concrete allocators\<close>

definition sample_mesh :: allocator where
  "sample_mesh = new_allocator \<lparr>in_IP = 0x0A000000, in_Bits = 23\<rparr> 24"

lemma sample_mesh_new: "NewAllocatorCustom ''10.0.0.7/23'' 24 = Inr sample_mesh"
proof -
  have 1: "SplitN2 ''10.0.0.7/23'' CHR ''/'' = [''10.0.0.7'', ''23'']" by code_simp
  have 2: "map parse_octet (Split ''10.0.0.7'' CHR ''.'') = [Some 10, Some 0, Some 0, Some 7]" by code_simp
  have 3: "parse_digits ''23'' = Some 23" by code_simp
  have 4: "bytes_to_u32 10 0 0 7 AND CIDRMask 23 = 0x0A000000"
    by (simp add: bytes_to_u32_def CIDRMask_def mask_eq_exp_minus_1 push_bit_eq_mult)
  have "ParseCIDR ''10.0.0.7/23'' = Some \<lparr>in_IP = 0x0A000000, in_Bits = 23\<rparr>"
    unfolding ParseCIDR_def parse_ipv4_def 1 list.case 2 3 by (simp add: 4)
  then show ?thesis by (simp add: NewAllocatorCustom_def sample_mesh_def)
qed

lemmas mesh_eval = run_mesh_ops_def Allocate_def Release_def GetAllocation_def scan_free.simps maxSubnetIndex_def
  shl1_def subnetForIndex_def subnetSize_def sample_mesh_def new_allocator_def Let_def

lemma sample_mesh_bits: "(24::int) \<le> 32" "24 - int (in_Bits (al_baseNet sample_mesh)) < 32"
  by (simp_all add: sample_mesh_def new_allocator_def)

theorem mesh_subnets_disjoint_witness:
  "GetAllocation ''n1'' (run_mesh_ops [OpAllocate ''n0'', OpAllocate ''n1'', OpRelease ''n0'', OpAllocate ''n2''] sample_mesh) =
     Some \<lparr>in_IP = 0x0A000100, in_Bits = 24\<rparr> \<and>
   (\<forall>x. \<not> (in_net x \<lparr>in_IP = 0x0A000100, in_Bits = 24\<rparr> \<and> in_net x \<lparr>in_IP = 0x0A000000, in_Bits = 24\<rparr>))"
proof -
  let ?ops = "[OpAllocate ''n0'', OpAllocate ''n1'', OpRelease ''n0'', OpAllocate ''n2'']"
  have 1: "GetAllocation ''n1'' (run_mesh_ops ?ops sample_mesh) = Some \<lparr>in_IP = 0x0A000100, in_Bits = 24\<rparr>" by (simp add: mesh_eval)
  have 2: "GetAllocation ''n2'' (run_mesh_ops ?ops sample_mesh) = Some \<lparr>in_IP = 0x0A000000, in_Bits = 24\<rparr>" by (simp add: mesh_eval)
  show ?thesis using mesh_subnets_disjoint [OF sample_mesh_new sample_mesh_bits 1 2] 1 by simp
qed

theorem mesh_allocate_lowest_free_witness:
  "\<exists>e. fst (Allocate ''n2'' (run_mesh_ops [OpAllocate ''n0'', OpAllocate ''n1''] sample_mesh)) = Inl e"
proof -
  have 1: "GetAllocation ''n2'' (run_mesh_ops [OpAllocate ''n0'', OpAllocate ''n1''] sample_mesh) = None" by (simp add: mesh_eval)
  have 2: "length (al_used (run_mesh_ops [OpAllocate ''n0'', OpAllocate ''n1''] sample_mesh)) = 2" by (simp add: mesh_eval)
  show ?thesis
    using mesh_allocate_lowest_free [OF sample_mesh_new sample_mesh_bits refl 1] 2
    by (simp add: sample_mesh_def new_allocator_def)
qed

theorem mesh_export_import_witness:
  "\<exists>b. ImportAllocations [\<lparr>rec_NodeID = ''n0'', rec_CIDR = ''10.0.0.0/24''\<rparr>] sample_mesh = (Inr (), b) \<and>
     GetAllocation ''n0'' b = GetAllocation ''n0'' (run_mesh_ops [OpAllocate ''n0''] sample_mesh)"
proof -
  have digits: "char_of (48::nat) = CHR ''0''" "char_of (49::nat) = CHR ''1''" "char_of (50::nat) = CHR ''2''"
    "char_of (52::nat) = CHR ''4''" by code_simp+
  have "ExportAllocations (run_mesh_ops [OpAllocate ''n0''] sample_mesh) = [\<lparr>rec_NodeID = ''n0'', rec_CIDR = ''10.0.0.0/24''\<rparr>]"
    by (simp add: mesh_eval ExportAllocations_def IPNet_String_def octet_def dec_nat.simps digit_char_def
        drop_bit_eq_div digits)
  then show ?thesis
    using mesh_export_import [OF sample_mesh_new sample_mesh_bits, of "[OpAllocate ''n0'']"] by auto
qed

text \<open>The proviso on the widths is needed: carving single addresses out of the whole IPv4 space, the
number of subnets wraps to 0 and nothing can be allocated.\<close>

theorem mesh_count_wraps:
  "\<exists>a. NewAllocatorCustom ''0.0.0.0/0'' 32 = Inr a \<and> maxSubnetIndex a = 0 \<and> (\<exists>e. fst (Allocate ''n0'' a) = Inl e)"
proof -
  let ?a = "new_allocator \<lparr>in_IP = 0, in_Bits = 0\<rparr> 32"
  have 1: "SplitN2 ''0.0.0.0/0'' CHR ''/'' = [''0.0.0.0'', ''0'']" by code_simp
  have 2: "map parse_octet (Split ''0.0.0.0'' CHR ''.'') = [Some 0, Some 0, Some 0, Some 0]" by code_simp
  have 3: "parse_digits ''0'' = Some 0" by code_simp
  have "ParseCIDR ''0.0.0.0/0'' = Some \<lparr>in_IP = 0, in_Bits = 0\<rparr>"
    unfolding ParseCIDR_def parse_ipv4_def 1 list.case 2 3 by (simp add: bytes_to_u32_def)
  then have "NewAllocatorCustom ''0.0.0.0/0'' 32 = Inr ?a" by (simp add: NewAllocatorCustom_def)
  moreover have "maxSubnetIndex ?a = 0" "\<exists>e. fst (Allocate ''n0'' ?a) = Inl e" by (simp_all add: mesh_eval)
  ultimately show ?thesis by blast
qed

end
