(* ===== verification/Mesh_Wireguard.thy ===== *)
theory Mesh_Wireguard
  imports Mesh_Allocator "HOL-Library.AList"
begin

section \<open>The WireGuard manager\<close>

text \<open>
  \<^verbatim>\<open>internal/mesh/wireguard.go\<close>: the in-memory implementation of the interface, the only one in the
  repository. Interfaces are keyed by name and peers by public key; the abstract view is a map of maps, which
  every operation refines (\<open>wg_refines\<close>).
\<close>

record WireGuardPeer =
  wp_PublicKey :: string
  wp_Endpoint :: string
  wp_AllowedIP :: ip_net

record WireGuardConfig =
  wc_InterfaceName :: string
  wc_ListenPort :: int
  wc_PrivateKey :: string
  wc_Address :: ip_net

record stubInterface =
  si_config :: WireGuardConfig
  si_peers :: "(string \<times> WireGuardPeer) list"

type_synonym wg_manager = "(string \<times> stubInterface) list"

text \<open>Logging a peer slices its key to eight bytes, which panics on a shorter one.\<close>

datatype wg_result = WgOk | WgError string | WgPanic

definition NewStubWireGuardManager :: wg_manager where "NewStubWireGuardManager = []"

definition CreateInterface :: "WireGuardConfig \<Rightarrow> wg_manager \<Rightarrow> wg_result \<times> wg_manager" where
  "CreateInterface cfg m =
     (case map_of m (wc_InterfaceName cfg) of
        Some _ \<Rightarrow> (WgError (''interface '' @ wc_InterfaceName cfg @ '' already exists''), m)
      | None \<Rightarrow> (WgOk, AList.update (wc_InterfaceName cfg) \<lparr>si_config = cfg, si_peers = []\<rparr> m))"

definition DeleteInterface :: "string \<Rightarrow> wg_manager \<Rightarrow> wg_result \<times> wg_manager" where
  "DeleteInterface name m =
     (case map_of m name of
        None \<Rightarrow> (WgError (''interface '' @ name @ '' not found''), m)
      | Some _ \<Rightarrow> (WgOk, AList.delete name m))"

definition log_key :: "string \<Rightarrow> wg_result" where
  "log_key publicKey = (if length publicKey < 8 then WgPanic else WgOk)"

definition AddPeer :: "string \<Rightarrow> WireGuardPeer \<Rightarrow> wg_manager \<Rightarrow> wg_result \<times> wg_manager" where
  "AddPeer name peer m =
     (case map_of m name of
        None \<Rightarrow> (WgError (''interface '' @ name @ '' not found''), m)
      | Some iface \<Rightarrow>
        (log_key (wp_PublicKey peer),
         AList.update name (iface\<lparr>si_peers := AList.update (wp_PublicKey peer) peer (si_peers iface)\<rparr>) m))"

definition RemovePeer :: "string \<Rightarrow> string \<Rightarrow> wg_manager \<Rightarrow> wg_result \<times> wg_manager" where
  "RemovePeer name publicKey m =
     (case map_of m name of
        None \<Rightarrow> (WgError (''interface '' @ name @ '' not found''), m)
      | Some iface \<Rightarrow>
        (case map_of (si_peers iface) publicKey of
           None \<Rightarrow> (WgError (''peer '' @ publicKey @ '' not found on '' @ name), m)
         | Some _ \<Rightarrow>
           (log_key publicKey,
            AList.update name (iface\<lparr>si_peers := AList.delete publicKey (si_peers iface)\<rparr>) m)))"

text \<open>The order is that of the list; in Go it is arbitrary.\<close>

definition ListPeers :: "string \<Rightarrow> wg_manager \<Rightarrow> string + WireGuardPeer list" where
  "ListPeers name m =
     (case map_of m name of
        None \<Rightarrow> Inl (''interface '' @ name @ '' not found'')
      | Some iface \<Rightarrow> Inr (map snd (si_peers iface)))"

subsection \<open>Refinement of a map of maps\<close>

definition wg_view :: "wg_manager \<Rightarrow> string \<Rightarrow> (string \<Rightarrow> WireGuardPeer option) option" where
  "wg_view m name = map_option (\<lambda>i. map_of (si_peers i)) (map_of m name)"

lemma wg_view_update: "wg_view (AList.update n i m) = (wg_view m)(n := Some (map_of (si_peers i)))"
  by (rule ext) (simp add: wg_view_def update_conv')

lemma wg_view_delete: "wg_view (AList.delete n m) = (wg_view m)(n := None)"
  by (rule ext) (simp add: wg_view_def delete_conv')

lemma wg_refines:
  "wg_view (snd (CreateInterface cfg m)) =
     (if wg_view m (wc_InterfaceName cfg) = None then (wg_view m)(wc_InterfaceName cfg \<mapsto> Map.empty) else wg_view m)"
  "wg_view (snd (DeleteInterface n m)) = (wg_view m)(n := None)"
  "wg_view (snd (AddPeer n p m)) =
     (case wg_view m n of None \<Rightarrow> wg_view m | Some ps \<Rightarrow> (wg_view m)(n \<mapsto> ps(wp_PublicKey p \<mapsto> p)))"
  "wg_view (snd (RemovePeer n k m)) =
     (case wg_view m n of None \<Rightarrow> wg_view m | Some ps \<Rightarrow> (wg_view m)(n \<mapsto> ps(k := None)))"
proof -
  show "wg_view (snd (CreateInterface cfg m)) =
     (if wg_view m (wc_InterfaceName cfg) = None then (wg_view m)(wc_InterfaceName cfg \<mapsto> Map.empty) else wg_view m)"
    by (cases "map_of m (wc_InterfaceName cfg)")
      (simp_all add: CreateInterface_def wg_view_update wg_view_def [of m "wc_InterfaceName cfg"])
  show "wg_view (snd (DeleteInterface n m)) = (wg_view m)(n := None)"
    by (auto simp: DeleteInterface_def wg_view_delete fun_eq_iff split: option.split) (simp add: wg_view_def)
  show "wg_view (snd (AddPeer n p m)) =
     (case wg_view m n of None \<Rightarrow> wg_view m | Some ps \<Rightarrow> (wg_view m)(n \<mapsto> ps(wp_PublicKey p \<mapsto> p)))"
    by (cases "map_of m n") (simp_all add: AddPeer_def wg_view_update update_conv' wg_view_def [of m n])
  show "wg_view (snd (RemovePeer n k m)) =
     (case wg_view m n of None \<Rightarrow> wg_view m | Some ps \<Rightarrow> (wg_view m)(n \<mapsto> ps(k := None)))"
  proof (cases "map_of m n")
    case (Some i)
    show ?thesis
    proof (cases "map_of (si_peers i) k")
      case None
      then have "(map_of (si_peers i))(k := None) = map_of (si_peers i)" by auto
      moreover have "(wg_view m)(n \<mapsto> map_of (si_peers i)) = wg_view m" using Some by (auto simp: wg_view_def)
      ultimately show ?thesis using Some None by (simp add: RemovePeer_def wg_view_def [of m n])
    qed (use Some in \<open>simp add: RemovePeer_def wg_view_update delete_conv' wg_view_def [of m n]\<close>)
  qed (simp add: RemovePeer_def wg_view_def [of m n])
qed

text \<open>Adding a peer with a key of less than eight bytes stores it and panics.\<close>

lemma short_key_panics:
  "map_of m n = Some i \<Longrightarrow> length (wp_PublicKey p) < 8 \<Longrightarrow> fst (AddPeer n p m) = WgPanic"
  by (simp add: AddPeer_def log_key_def)

end
