(* ===== verification/Node_Scheduler.thy ===== *)
theory Node_Scheduler
  imports Ussy_Prelude "HOL-Library.Multiset" "HOL-Library.Signed_Division" Complex_Main
begin

section \<open>The VM placement scheduler\<close>

text \<open>
  \<^verbatim>\<open>internal/scheduler/scheduler.go\<close>: filtering nodes by hard constraints and choosing the one
  with the highest score. Scores, \<^verbatim>\<open>float64\<close> in the code, are exact rationals; the int64 sums and
  differences wrap (\<^term>\<open>i64\<close>). \<^verbatim>\<open>sort.Slice\<close> is not stable, so the order of equal scores is not
  fixed: the sorting function is the argument \<open>sort_slice\<close>, of which the properties assume what
  its documentation states (\<open>sorts_slices\<close>). The node provider is an interface; its answer is an
  argument too.
\<close>

record VMSpec =
  sp_VMID :: string
  sp_UserID :: string
  sp_BaseImage :: string
  sp_VCPUs :: int
  sp_MemBytes :: int
  sp_DiskBytes :: int
  sp_PreferNodeIDs :: "string list"
  sp_MinTrustLevel :: int

record NodeStatus =
  ns_ID :: string
  ns_Ready :: bool
  ns_Health :: string
  ns_TrustLevel :: int
  ns_CPUCores :: int
  ns_RAMTotal :: int
  ns_DiskTotal :: int
  ns_CPUUsed :: rat
  ns_RAMUsed :: int
  ns_DiskUsed :: int
  ns_VMCount :: int
  ns_RegisteredAt :: "nanos option"    \<comment> \<open>\<^term>\<open>None\<close> is the zero time\<close>
  ns_UserIDs :: "string list"
  ns_Draining :: bool

definition AvailableRAM :: "NodeStatus \<Rightarrow> int" where
  "AvailableRAM n = (let avail = i64 (ns_RAMTotal n - ns_RAMUsed n) in if avail < 0 then 0 else avail)"

definition AvailableDisk :: "NodeStatus \<Rightarrow> int" where
  "AvailableDisk n = (let avail = i64 (ns_DiskTotal n - ns_DiskUsed n) in if avail < 0 then 0 else avail)"

record ScoreWeights =
  w_BinPacking :: rat
  w_Spread :: rat
  w_Locality :: rat
  w_Freshness :: rat
  w_Trust :: rat

definition DefaultWeights :: ScoreWeights where
  "DefaultWeights = \<lparr>w_BinPacking = 4/10, w_Spread = 2/10, w_Locality = 2/10, w_Freshness = 1/10, w_Trust = 1/10\<rparr>"

subsection \<open>Phase 1: filter\<close>

fun filter_nodes :: "NodeStatus list \<Rightarrow> VMSpec \<Rightarrow> NodeStatus list" where
  "filter_nodes [] spec = []"
| "filter_nodes (n # ns) spec =
     (if \<not> ns_Ready n then filter_nodes ns spec
      else if ns_Health n \<noteq> ''healthy'' then filter_nodes ns spec
      else if ns_Draining n then filter_nodes ns spec
      else if AvailableRAM n < sp_MemBytes spec then filter_nodes ns spec
      else if sp_DiskBytes spec > 0 \<and> AvailableDisk n < sp_DiskBytes spec then filter_nodes ns spec
      else if sp_MinTrustLevel spec > 0 \<and> ns_TrustLevel n < sp_MinTrustLevel spec then filter_nodes ns spec
      else n # filter_nodes ns spec)"

subsection \<open>Phase 2: score\<close>

definition scoreBinPacking :: "NodeStatus \<Rightarrow> VMSpec \<Rightarrow> rat" where
  "scoreBinPacking node spec =
     (if ns_RAMTotal node = 0 then 0
      else
        let futureUsed = of_int (i64 (ns_RAMUsed node + sp_MemBytes spec)) / of_int (ns_RAMTotal node) in
        if futureUsed > 1 then 1 else futureUsed)"

definition scoreSpread :: "NodeStatus \<Rightarrow> NodeStatus list \<Rightarrow> rat" where
  "scoreSpread node candidates =
     (if candidates = [] then 0
      else
        let maxVMs = fold (\<lambda>c m. if ns_VMCount c > m then ns_VMCount c else m) candidates 1 in
        1 - of_int (ns_VMCount node) / of_int maxVMs)"

definition scoreLocality :: "NodeStatus \<Rightarrow> VMSpec \<Rightarrow> rat" where
  "scoreLocality node spec =
     (if list_ex (\<lambda>uid. uid = sp_UserID spec) (ns_UserIDs node) then 1
      else if list_ex (\<lambda>preferred. ns_ID node = preferred) (sp_PreferNodeIDs spec) then 8/10
      else 0)"

definition scoreFreshness :: "nanos \<Rightarrow> NodeStatus \<Rightarrow> rat" where
  "scoreFreshness now node =
     (case ns_RegisteredAt node of
        None \<Rightarrow> 1/2
      | Some t \<Rightarrow>
        let days = of_int (now - t) / of_int hour / 24;
            score = 1 - days / 365
        in max 0 (min 1 score))"

definition scoreTrust :: "NodeStatus \<Rightarrow> rat" where
  "scoreTrust node = of_int (ns_TrustLevel node) / 100"

definition score :: "ScoreWeights \<Rightarrow> nanos \<Rightarrow> NodeStatus \<Rightarrow> VMSpec \<Rightarrow> NodeStatus list \<Rightarrow> rat" where
  "score w now node spec candidates =
     w_BinPacking w * scoreBinPacking node spec +
     w_Spread w * scoreSpread node candidates +
     w_Locality w * scoreLocality node spec +
     w_Freshness w * scoreFreshness now node +
     w_Trust w * scoreTrust node"

definition PlaceVM ::
  "((NodeStatus \<times> rat) list \<Rightarrow> (NodeStatus \<times> rat) list) \<Rightarrow> ScoreWeights \<Rightarrow> nanos \<Rightarrow>
   string + NodeStatus list \<Rightarrow> VMSpec \<Rightarrow> string + NodeStatus" where
  "PlaceVM sort_slice w now provided spec =
     (case provided of
        Inl err \<Rightarrow> Inl (''fetching nodes: '' @ err)
      | Inr nodes \<Rightarrow>
        let candidates = filter_nodes nodes spec in
        if candidates = [] then
          Inl (''no nodes passed filtering for VM '' @ sp_VMID spec @ '' (need '' @
               dec (sp_MemBytes spec sdiv (1024 * 1024)) @ '' MB RAM, '' @ dec (sp_VCPUs spec) @ '' vCPUs)'')
        else
          let scored = map (\<lambda>node. (node, score w now node spec candidates)) candidates
          in Inr (fst (hd (sort_slice scored))))"

text \<open>What the documentation of \<^verbatim>\<open>sort.Slice\<close> says of sorting by descending score.\<close>

definition sorts_slices :: "((NodeStatus \<times> rat) list \<Rightarrow> (NodeStatus \<times> rat) list) \<Rightarrow> bool" where
  "sorts_slices f \<longleftrightarrow> (\<forall>xs. mset (f xs) = mset xs \<and> sorted_wrt (\<lambda>a b. \<not> snd a < snd b) (f xs))"

subsection \<open>Specification\<close>

text \<open>The hard constraints, over unbounded integers and without clipping.\<close>

definition admissible :: "NodeStatus \<Rightarrow> VMSpec \<Rightarrow> bool" where
  "admissible n spec \<longleftrightarrow> ns_Ready n \<and> ns_Health n = ''healthy'' \<and> \<not> ns_Draining n \<and>
     (sp_MemBytes spec > 0 \<longrightarrow> ns_RAMUsed n + sp_MemBytes spec \<le> ns_RAMTotal n) \<and>
     (sp_DiskBytes spec > 0 \<longrightarrow> ns_DiskUsed n + sp_DiskBytes spec \<le> ns_DiskTotal n) \<and>
     (sp_MinTrustLevel spec > 0 \<longrightarrow> sp_MinTrustLevel spec \<le> ns_TrustLevel n)"

text \<open>Node reports whose sizes are int64 values of sizes: neither negative nor out of range.\<close>

definition node_ranges :: "NodeStatus \<Rightarrow> bool" where
  "node_ranges n \<longleftrightarrow> {ns_RAMTotal n, ns_RAMUsed n, ns_DiskTotal n, ns_DiskUsed n} \<subseteq> {0..<2 ^ 63}"

lemma available_iff:
  assumes "node_ranges n"
  shows "\<not> AvailableRAM n < m \<longleftrightarrow> (m > 0 \<longrightarrow> ns_RAMUsed n + m \<le> ns_RAMTotal n)"
    and "\<not> AvailableDisk n < m \<longleftrightarrow> (m > 0 \<longrightarrow> ns_DiskUsed n + m \<le> ns_DiskTotal n)"
proof -
  have "i64 (ns_RAMTotal n - ns_RAMUsed n) = ns_RAMTotal n - ns_RAMUsed n"
    "i64 (ns_DiskTotal n - ns_DiskUsed n) = ns_DiskTotal n - ns_DiskUsed n"
    using assms by (auto simp: node_ranges_def in_i64_def intro!: i64_id)
  then show "\<not> AvailableRAM n < m \<longleftrightarrow> (m > 0 \<longrightarrow> ns_RAMUsed n + m \<le> ns_RAMTotal n)"
    and "\<not> AvailableDisk n < m \<longleftrightarrow> (m > 0 \<longrightarrow> ns_DiskUsed n + m \<le> ns_DiskTotal n)"
    by (auto simp: AvailableRAM_def AvailableDisk_def Let_def)
qed

lemma filter_nodes_spec:
  "list_all node_ranges nodes \<Longrightarrow> filter_nodes nodes spec = filter (\<lambda>n. admissible n spec) nodes"
proof (induction nodes)
  case (Cons n ns)
  then have r: "node_ranges n" by simp
  have "filter_nodes (n # ns) spec = (if admissible n spec then n # filter_nodes ns spec else filter_nodes ns spec)"
    using available_iff(1) [OF r, of "sp_MemBytes spec"] available_iff(2) [OF r, of "sp_DiskBytes spec"]
    by (auto simp: admissible_def)
  with Cons show ?case by simp
qed simp

lemma sorted_head_max:
  assumes "sorts_slices f" "xs \<noteq> []"
  shows "hd (f xs) \<in> set xs" "x \<in> set xs \<Longrightarrow> snd x \<le> snd (hd (f xs))"
proof -
  have m: "set (f xs) = set xs" and s: "sorted_wrt (\<lambda>a b. \<not> snd a < snd b) (f xs)"
    using assms(1) by (auto simp: sorts_slices_def dest: mset_eq_setD)
  then obtain y ys where f: "f xs = y # ys" using assms(2) by (cases "f xs") auto
  then show "hd (f xs) \<in> set xs" using m by auto
  show "snd x \<le> snd (hd (f xs))" if "x \<in> set xs"
    using that m s f by (auto simp: not_less)
qed

subsection \<open>Properties\<close>

text \<open>C27. The scheduler places a VM on a node that satisfies every hard constraint and whose score no
other such node exceeds, and it refuses exactly when no node satisfies them; overflow of the
64-bit sizes and the order in which equal scores are sorted make no difference.\<close>

theorem place_vm_best:
  assumes "sorts_slices sort_slice" "list_all node_ranges nodes"
  shows "case PlaceVM sort_slice w now (Inr nodes) spec of
      Inl _ \<Rightarrow> \<not> (\<exists>n \<in> set nodes. admissible n spec)
    | Inr n \<Rightarrow> n \<in> set nodes \<and> admissible n spec \<and>
        (\<forall>m \<in> set nodes. admissible m spec \<longrightarrow>
          score w now m spec (filter (\<lambda>n. admissible n spec) nodes) \<le> score w now n spec (filter (\<lambda>n. admissible n spec) nodes))"
proof -
  let ?cs = "filter (\<lambda>n. admissible n spec) nodes"
  let ?scored = "map (\<lambda>node. (node, score w now node spec ?cs)) ?cs"
  note f = filter_nodes_spec [OF assms(2), of spec]
  show ?thesis
  proof (cases "?cs = []")
    case True
    then show ?thesis by (simp add: PlaceVM_def f filter_empty_conv)
  next
    case False
    let ?h = "hd (sort_slice ?scored)"
    have place: "PlaceVM sort_slice w now (Inr nodes) spec = Inr (fst ?h)" using False by (simp add: PlaceVM_def f Let_def)
    have "?h \<in> set ?scored" and max: "\<And>x. x \<in> set ?scored \<Longrightarrow> snd x \<le> snd ?h"
      using sorted_head_max [OF assms(1), of ?scored] False by simp_all
    then obtain n where n: "?h = (n, score w now n spec ?cs)" "n \<in> set nodes" "admissible n spec" by auto
    have "score w now m spec ?cs \<le> score w now n spec ?cs" if "m \<in> set nodes" "admissible m spec" for m
      using max [of "(m, score w now m spec ?cs)"] that n(1) by simp
    then show ?thesis using place n by simp
  qed
qed

text \<open>With the default weights the score of a well-formed node is between 0 and 1.\<close>

lemma max_vms: "1 \<le> fold (\<lambda>c m. if ns_VMCount c > m then ns_VMCount c else m) cs (1::int) \<and>
  (\<forall>c \<in> set cs. ns_VMCount c \<le> fold (\<lambda>c m. if ns_VMCount c > m then ns_VMCount c else m) cs 1)"
proof -
  let ?f = "fold (\<lambda>c m. if ns_VMCount c > m then ns_VMCount c else m)"
  have "m \<le> ?f cs m \<and> (\<forall>c \<in> set cs. ns_VMCount c \<le> ?f cs m)" for m :: int
    by (induction cs arbitrary: m) (auto, (meson le_less_trans less_le_not_le linorder_le_cases order.trans)+)
  then show ?thesis by blast
qed

theorem default_scores_unit:
  assumes "node_ranges n" "0 \<le> sp_MemBytes spec" "ns_RAMUsed n + sp_MemBytes spec < 2 ^ 63"
    and "n \<in> set cs" "0 \<le> ns_VMCount n" "0 \<le> ns_TrustLevel n" "ns_TrustLevel n \<le> 100"
  shows "0 \<le> score DefaultWeights now n spec cs \<and> score DefaultWeights now n spec cs \<le> 1"
proof -
  have "i64 (ns_RAMUsed n + sp_MemBytes spec) = ns_RAMUsed n + sp_MemBytes spec"
    using assms by (intro i64_id) (auto simp: node_ranges_def in_i64_def)
  then have 1: "0 \<le> scoreBinPacking n spec" "scoreBinPacking n spec \<le> 1"
    using assms by (auto simp: scoreBinPacking_def node_ranges_def Let_def not_less)
  let ?m = "fold (\<lambda>c m. if ns_VMCount c > m then ns_VMCount c else m) cs 1"
  have "1 \<le> ?m" "ns_VMCount n \<le> ?m" using max_vms [of cs] assms(4) by blast+
  then have "0 \<le> (of_int (ns_VMCount n) / of_int ?m :: rat)" "of_int (ns_VMCount n) / of_int ?m \<le> (1 :: rat)"
    using assms(5) by simp_all
  then have 2: "0 \<le> scoreSpread n cs" "scoreSpread n cs \<le> 1" by (auto simp: scoreSpread_def Let_def)
  have 3: "0 \<le> scoreLocality n spec" "scoreLocality n spec \<le> 1" by (simp_all add: scoreLocality_def)
  have 4: "0 \<le> scoreFreshness now n" "scoreFreshness now n \<le> 1"
    by (auto simp: scoreFreshness_def Let_def split: option.split)
  have 5: "0 \<le> scoreTrust n" "scoreTrust n \<le> 1" using assms(6,7) by (simp_all add: scoreTrust_def)
  have "score DefaultWeights now n spec cs = 4/10 * scoreBinPacking n spec + 2/10 * scoreSpread n cs +
      2/10 * scoreLocality n spec + 1/10 * scoreFreshness now n + 1/10 * scoreTrust n"
    by (simp add: score_def DefaultWeights_def)
  then show ?thesis using 1 2 3 4 5 by linarith
qed

subsection \<open>A concrete placement\<close>

text \<open>Go sorts short slices by insertion.\<close>

fun insert_desc :: "NodeStatus \<times> rat \<Rightarrow> (NodeStatus \<times> rat) list \<Rightarrow> (NodeStatus \<times> rat) list" where
  "insert_desc x [] = [x]"
| "insert_desc x (y # ys) = (if snd y < snd x then x # y # ys else y # insert_desc x ys)"

definition insertion_sort :: "(NodeStatus \<times> rat) list \<Rightarrow> (NodeStatus \<times> rat) list" where
  "insertion_sort xs = fold insert_desc xs []"

lemma insert_desc_props:
  "mset (insert_desc x xs) = add_mset x (mset xs)"
  "sorted_wrt (\<lambda>a b. \<not> snd a < snd b) xs \<Longrightarrow> sorted_wrt (\<lambda>a b. \<not> snd a < snd b) (insert_desc x xs)"
proof -
  show m: "mset (insert_desc x xs) = add_mset x (mset xs)" for xs by (induction xs) auto
  then have s: "set (insert_desc x xs) = insert x (set xs)" for xs
    by (metis set_mset_add_mset_insert set_mset_mset)
  show "sorted_wrt (\<lambda>a b. \<not> snd a < snd b) xs \<Longrightarrow> sorted_wrt (\<lambda>a b. \<not> snd a < snd b) (insert_desc x xs)"
    by (induction xs) (auto simp: s)
qed

lemma insertion_sort_sorts: "sorts_slices insertion_sort"
proof -
  have "mset (fold insert_desc xs acc) = mset xs + mset acc \<and>
      sorted_wrt (\<lambda>a b. \<not> snd a < snd b) (fold insert_desc xs acc)"
    if "sorted_wrt (\<lambda>a b. \<not> snd a < snd b) acc" for xs acc
    using that by (induction xs arbitrary: acc) (simp_all add: insert_desc_props)
  from this [of "[]"] show ?thesis by (simp add: sorts_slices_def insertion_sort_def)
qed

definition sample_node :: "string \<Rightarrow> int \<Rightarrow> NodeStatus" where
  "sample_node name used = \<lparr>ns_ID = name, ns_Ready = True, ns_Health = ''healthy'', ns_TrustLevel = 50, ns_CPUCores = 4,
     ns_RAMTotal = 1000, ns_DiskTotal = 1000, ns_CPUUsed = 0, ns_RAMUsed = used, ns_DiskUsed = 0, ns_VMCount = 0,
     ns_RegisteredAt = None, ns_UserIDs = [], ns_Draining = False\<rparr>"

definition sample_spec :: VMSpec where
  "sample_spec = \<lparr>sp_VMID = ''v'', sp_UserID = ''u'', sp_BaseImage = '''', sp_VCPUs = 1, sp_MemBytes = 300, sp_DiskBytes = 0,
     sp_PreferNodeIDs = [], sp_MinTrustLevel = 0\<rparr>"

theorem place_vm_best_witness:
  "PlaceVM insertion_sort DefaultWeights 0 (Inr [sample_node ''a'' 100, sample_node ''b'' 600, sample_node ''c'' 900]) sample_spec =
     Inr (sample_node ''b'' 600) \<and> admissible (sample_node ''b'' 600) sample_spec"
proof -
  let ?ns = "[sample_node ''a'' 100, sample_node ''b'' 600, sample_node ''c'' 900]"
  have p: "PlaceVM insertion_sort DefaultWeights 0 (Inr ?ns) sample_spec = Inr (sample_node ''b'' 600)" by code_simp
  have "list_all node_ranges ?ns" by (simp add: node_ranges_def sample_node_def)
  from place_vm_best [where w = DefaultWeights and now = 0 and spec = sample_spec, OF insertion_sort_sorts this] p show ?thesis by simp
qed

end
