(* ===== verification/Node_Manager.thy ===== *)
theory Node_Manager
  imports Ussy_Prelude "HOL-Library.AList"
begin

section \<open>The node manager\<close>

text \<open>
  \<^verbatim>\<open>internal/controlplane/nodemanager.go\<close>: the nodes of the server pool, their health and the
  commands queued for them. Capabilities, reported status and commands are only stored and passed on;
  their types are parameters. The map of nodes is an association list with distinct keys, visited in
  the order of the list. The dead-node callback is the list of the node ids it is called with; the
  code defers the calls, so they run last in first out, and before the deferred unlock.
\<close>

datatype NodeHealth = NodeHealthy | NodeUnknown | NodeOffline | NodeDead

fun NodeHealth_String :: "NodeHealth \<Rightarrow> string" where
  "NodeHealth_String NodeHealthy = ''healthy''"
| "NodeHealth_String NodeUnknown = ''unknown''"
| "NodeHealth_String NodeOffline = ''offline''"
| "NodeHealth_String NodeDead = ''dead''"

definition TimeoutUnknown :: nanos where "TimeoutUnknown = 30 * second"
definition TimeoutOffline :: nanos where "TimeoutOffline = 5 * minute"
definition TimeoutDead :: nanos where "TimeoutDead = 1 * hour"

record ('cap, 'st, 'cmd) TrackedNode =
  tn_ID :: string
  tn_Health :: NodeHealth
  tn_Capabilities :: "'cap option"
  tn_LastStatus :: "'st option"
  tn_LastSeen :: nanos
  tn_RegisteredAt :: nanos
  tn_pendingCommands :: "'cmd list"

type_synonym ('cap, 'st, 'cmd) nodes = "(string \<times> ('cap, 'st, 'cmd) TrackedNode) list"

definition RegisterNode ::
  "nanos \<Rightarrow> string \<Rightarrow> 'cap option \<Rightarrow> ('cap, 'st, 'cmd) nodes \<Rightarrow> ('cap, 'st, 'cmd) nodes" where
  "RegisterNode now nodeID caps nodes =
     AList.update nodeID
       \<lparr>tn_ID = nodeID, tn_Health = NodeHealthy, tn_Capabilities = caps, tn_LastStatus = None,
        tn_LastSeen = now, tn_RegisteredAt = now, tn_pendingCommands = []\<rparr> nodes"

definition RemoveNode :: "string \<Rightarrow> ('cap, 'st, 'cmd) nodes \<Rightarrow> ('cap, 'st, 'cmd) nodes" where
  "RemoveNode nodeID nodes = AList.delete nodeID nodes"

definition ProcessHeartbeat ::
  "nanos \<Rightarrow> string \<Rightarrow> 'st option \<Rightarrow> ('cap, 'st, 'cmd) nodes \<Rightarrow> (string + 'cmd list) \<times> ('cap, 'st, 'cmd) nodes" where
  "ProcessHeartbeat now nodeID status nodes =
     (case map_of nodes nodeID of
        None \<Rightarrow> (Inl (''unknown node: '' @ nodeID), nodes)
      | Some node \<Rightarrow>
        (Inr (tn_pendingCommands node),
         AList.update nodeID
           (node\<lparr>tn_Health := NodeHealthy, tn_LastSeen := now, tn_LastStatus := status, tn_pendingCommands := []\<rparr>) nodes))"

definition EnqueueCommand ::
  "string \<Rightarrow> 'cmd \<Rightarrow> ('cap, 'st, 'cmd) nodes \<Rightarrow> (string + unit) \<times> ('cap, 'st, 'cmd) nodes" where
  "EnqueueCommand nodeID cmd nodes =
     (case map_of nodes nodeID of
        None \<Rightarrow> (Inl (''unknown node: '' @ nodeID), nodes)
      | Some node \<Rightarrow>
        (Inr (), AList.update nodeID (node\<lparr>tn_pendingCommands := tn_pendingCommands node @ [cmd]\<rparr>) nodes))"

definition GetNode :: "string \<Rightarrow> ('cap, 'st, 'cmd) nodes \<Rightarrow> ('cap, 'st, 'cmd) TrackedNode option" where
  "GetNode nodeID nodes = map_of nodes nodeID"

definition ListNodes :: "('cap, 'st, 'cmd) nodes \<Rightarrow> ('cap, 'st, 'cmd) TrackedNode list" where
  "ListNodes nodes = map snd nodes"

definition ListHealthyNodes :: "('cap, 'st, 'cmd) nodes \<Rightarrow> ('cap, 'st, 'cmd) TrackedNode list" where
  "ListHealthyNodes nodes = filter (\<lambda>n. tn_Health n = NodeHealthy) (map snd nodes)"

definition NodeCount :: "('cap, 'st, 'cmd) nodes \<Rightarrow> nat" where "NodeCount nodes = length nodes"

text \<open>The health a silent node is moved to; \<^term>\<open>None\<close> is the default case, no change.\<close>

definition timed_out :: "nanos \<Rightarrow> NodeHealth option" where
  "timed_out elapsed =
     (if elapsed \<ge> TimeoutDead then Some NodeDead
      else if elapsed \<ge> TimeoutOffline then Some NodeOffline
      else if elapsed \<ge> TimeoutUnknown then Some NodeUnknown
      else None)"

text \<open>The scan collects the deferred callbacks, the last one first.\<close>

fun check_nodes ::
  "nanos \<Rightarrow> ('cap, 'st, 'cmd) nodes \<Rightarrow> string list \<Rightarrow> ('cap, 'st, 'cmd) nodes \<times> string list" where
  "check_nodes now [] deferred = ([], deferred)"
| "check_nodes now ((k, node) # nodes) deferred =
     (let (node', deferred) =
        (case timed_out (now - tn_LastSeen node) of
           None \<Rightarrow> (node, deferred)
         | Some h \<Rightarrow>
           (node\<lparr>tn_Health := h\<rparr>,
            if h \<noteq> tn_Health node \<and> h = NodeDead then tn_ID node # deferred else deferred));
          (nodes', deferred) = check_nodes now nodes deferred
      in ((k, node') # nodes', deferred))"

definition CheckTimeouts ::
  "nanos \<Rightarrow> ('cap, 'st, 'cmd) nodes \<Rightarrow> string list \<times> ('cap, 'st, 'cmd) nodes" where
  "CheckTimeouts now nodes = (case check_nodes now nodes [] of (nodes', calls) \<Rightarrow> (calls, nodes'))"

subsection \<open>Runs\<close>

datatype ('cap, 'st, 'cmd) node_op = OpRegisterNode string "'cap option" | OpRemoveNode string |
  OpHeartbeat string "'st option" | OpEnqueue string 'cmd | OpCheckTimeouts

text \<open>What the outside sees: commands handed to a node, the dead-node callback, and the moments a node
makes itself known.\<close>

datatype 'cmd node_event = Delivered string "'cmd list" | DeadCall string nanos | Contact string

fun node_step ::
  "nanos \<times> ('cap, 'st, 'cmd) node_op \<Rightarrow> ('cap, 'st, 'cmd) nodes \<Rightarrow> 'cmd node_event list \<times> ('cap, 'st, 'cmd) nodes" where
  "node_step (now, OpRegisterNode k caps) nodes = ([Contact k], RegisterNode now k caps nodes)"
| "node_step (now, OpRemoveNode k) nodes = ([], RemoveNode k nodes)"
| "node_step (now, OpHeartbeat k st) nodes =
     (case ProcessHeartbeat now k st nodes of
        (Inl _, nodes) \<Rightarrow> ([], nodes)
      | (Inr cmds, nodes) \<Rightarrow> ([Contact k, Delivered k cmds], nodes))"
| "node_step (now, OpEnqueue k cmd) nodes = ([], snd (EnqueueCommand k cmd nodes))"
| "node_step (now, OpCheckTimeouts) nodes =
     (case CheckTimeouts now nodes of (calls, nodes) \<Rightarrow> (map (\<lambda>k. DeadCall k now) calls, nodes))"

fun run_nodes ::
  "(nanos \<times> ('cap, 'st, 'cmd) node_op) list \<Rightarrow> ('cap, 'st, 'cmd) nodes \<Rightarrow>
   'cmd node_event list \<times> ('cap, 'st, 'cmd) nodes" where
  "run_nodes [] nodes = ([], nodes)"
| "run_nodes (op # ops) nodes =
     (let (es, nodes) = node_step op nodes; (es', nodes) = run_nodes ops nodes in (es @ es', nodes))"

definition delivered :: "string \<Rightarrow> 'cmd node_event list \<Rightarrow> 'cmd list" where
  "delivered k es = concat (map (\<lambda>e. case e of Delivered j cs \<Rightarrow> if j = k then cs else [] | _ \<Rightarrow> []) es)"

definition enqueued :: "string \<Rightarrow> (nanos \<times> ('cap, 'st, 'cmd) node_op) list \<Rightarrow> 'cmd list" where
  "enqueued k ops = concat (map (\<lambda>(_, op). case op of OpEnqueue j c \<Rightarrow> if j = k then [c] else [] | _ \<Rightarrow> []) ops)"

definition pending :: "string \<Rightarrow> ('cap, 'st, 'cmd) nodes \<Rightarrow> 'cmd list" where
  "pending k nodes = (case map_of nodes k of None \<Rightarrow> [] | Some node \<Rightarrow> tn_pendingCommands node)"

subsection \<open>Lemmas\<close>

text \<open>The scan, node by node.\<close>

definition checked :: "nanos \<Rightarrow> ('cap, 'st, 'cmd) TrackedNode \<Rightarrow> ('cap, 'st, 'cmd) TrackedNode" where
  "checked now node = (case timed_out (now - tn_LastSeen node) of None \<Rightarrow> node | Some h \<Rightarrow> node\<lparr>tn_Health := h\<rparr>)"

definition dies :: "nanos \<Rightarrow> ('cap, 'st, 'cmd) TrackedNode \<Rightarrow> bool" where
  "dies now node \<longleftrightarrow> TimeoutDead \<le> now - tn_LastSeen node \<and> tn_Health node \<noteq> NodeDead"

lemma timed_out_dead: "timed_out e = Some NodeDead \<longleftrightarrow> TimeoutDead \<le> e"
  by (simp add: timed_out_def)

lemma check_nodes_eq:
  "check_nodes now nodes acc =
    (map (\<lambda>(k, n). (k, checked now n)) nodes, rev (map (\<lambda>(k, n). tn_ID n) (filter (\<lambda>(k, n). dies now n) nodes)) @ acc)"
proof (induction now nodes acc rule: check_nodes.induct)
  case (2 now k node nodes acc)
  show ?case
  proof (cases "timed_out (now - tn_LastSeen node)")
    case None
    then have "\<not> dies now node"
      using timed_out_dead [of "now - tn_LastSeen node"] by (auto simp: dies_def)
    with None 2 show ?thesis by (simp add: checked_def)
  next
    case (Some h)
    then have "dies now node \<longleftrightarrow> h \<noteq> tn_Health node \<and> h = NodeDead"
      using timed_out_dead [of "now - tn_LastSeen node"] by (auto simp: dies_def)
    with Some 2 show ?thesis by (simp add: checked_def Let_def)
  qed
qed simp

lemma CheckTimeouts_eq:
  "CheckTimeouts now nodes =
    (rev (map (\<lambda>(k, n). tn_ID n) (filter (\<lambda>(k, n). dies now n) nodes)), map (\<lambda>(k, n). (k, checked now n)) nodes)"
  by (simp add: CheckTimeouts_def check_nodes_eq)

lemma map_of_checked: "map_of (map (\<lambda>(k, n). (k, checked now n)) nodes) k = map_option (checked now) (map_of nodes k)"
  by (induction nodes) auto

lemma checked_keeps [simp]:
  "tn_pendingCommands (checked now n) = tn_pendingCommands n" "tn_LastSeen (checked now n) = tn_LastSeen n"
  "tn_ID (checked now n) = tn_ID n"
  by (simp_all add: checked_def split: option.split)

lemmas node_defs = RegisterNode_def RemoveNode_def ProcessHeartbeat_def EnqueueCommand_def CheckTimeouts_eq

lemma delivered_simps [simp]:
  "delivered k [] = []" "delivered k (es @ es') = delivered k es @ delivered k es'"
  "delivered k (Contact j # es) = delivered k es" "delivered k (map (\<lambda>j. DeadCall (f j) t) js) = []"
  "delivered k (Delivered j cs # es) = (if j = k then cs else []) @ delivered k es"
  by (auto simp: delivered_def comp_def)

text \<open>One step moves commands from the enqueued to the pending to the delivered ones.\<close>

lemma node_step_fifo:
  assumes "map_of nodes k \<noteq> None" "\<And>caps. snd op \<noteq> OpRegisterNode k caps" "snd op \<noteq> OpRemoveNode k"
    and "node_step op nodes = (es, nodes')"
  shows "map_of nodes' k \<noteq> None \<and> delivered k es @ pending k nodes' = pending k nodes @ enqueued k [op]"
proof -
  obtain now o' where op: "op = (now, o')" by (cases op)
  show ?thesis
  proof (cases o')
    case (OpRegisterNode j caps)
    with assms(2) [of caps] op have "j \<noteq> k" by auto
    with OpRegisterNode assms(1,4) op show ?thesis by (auto simp: node_defs pending_def enqueued_def update_conv')
  next
    case (OpRemoveNode j)
    with assms op show ?thesis by (auto simp: node_defs pending_def enqueued_def delete_conv')
  next
    case (OpHeartbeat j st)
    with assms op show ?thesis
      by (cases "map_of nodes j") (auto simp: node_defs pending_def enqueued_def update_conv' split: if_splits)
  next
    case (OpEnqueue j c)
    with assms op show ?thesis
      by (cases "map_of nodes j") (auto simp: node_defs pending_def enqueued_def update_conv' split: if_splits)
  next
    case OpCheckTimeouts
    with assms op show ?thesis
      using delivered_simps(4) [of k "\<lambda>j. j" now] by (auto simp: node_defs pending_def enqueued_def map_of_checked split: option.split)
  qed
qed

text \<open>The potential of a node: one more call is due as long as it is tracked and not yet dead.\<close>

definition alive :: "string \<Rightarrow> ('cap, 'st, 'cmd) nodes \<Rightarrow> nat" where
  "alive k nodes = (case map_of nodes k of None \<Rightarrow> 0 | Some n \<Rightarrow> if tn_Health n = NodeDead then 0 else 1)"

definition calls_of :: "string \<Rightarrow> 'cmd node_event list \<Rightarrow> nat" where
  "calls_of k es = length (filter (\<lambda>e. case e of DeadCall j _ \<Rightarrow> j = k | _ \<Rightarrow> False) es)"

definition contacts_of :: "string \<Rightarrow> 'cmd node_event list \<Rightarrow> nat" where
  "contacts_of k es = length (filter (\<lambda>e. case e of Contact j \<Rightarrow> j = k | _ \<Rightarrow> False) es)"

text \<open>Keys are distinct and agree with the ids; a dead node has been silent for the whole timeout.\<close>

definition nodes_inv :: "nanos \<Rightarrow> ('cap, 'st, 'cmd) nodes \<Rightarrow> bool" where
  "nodes_inv now nodes \<longleftrightarrow> distinct (map fst nodes) \<and>
     (\<forall>k n. map_of nodes k = Some n \<longrightarrow> tn_ID n = k \<and> (tn_Health n = NodeDead \<longrightarrow> TimeoutDead \<le> now - tn_LastSeen n))"

lemma nodes_inv_later: "nodes_inv t nodes \<Longrightarrow> t \<le> now \<Longrightarrow> nodes_inv now nodes"
  by (fastforce simp: nodes_inv_def)

lemma node_step_inv:
  assumes "nodes_inv now nodes" "node_step (now, op) nodes = (es, nodes')"
  shows "nodes_inv now nodes'"
proof (cases op)
  case (OpCheckTimeouts)
  have "tn_Health (checked now n) = NodeDead \<Longrightarrow> TimeoutDead \<le> now - tn_LastSeen n"
    if "map_of nodes k = Some n" for k n
    using that assms(1) timed_out_dead [of "now - tn_LastSeen n"]
    by (auto simp: checked_def nodes_inv_def split: option.splits)
  with OpCheckTimeouts assms show ?thesis
    by (auto simp: node_defs nodes_inv_def map_of_checked comp_def case_prod_beta)
qed (use assms in \<open>auto simp: node_defs nodes_inv_def update_conv' delete_conv' distinct_update distinct_delete
      split: option.splits if_splits\<close>)

lemma calls_dead: "distinct (map fst nodes) \<Longrightarrow> (\<And>k n. map_of nodes k = Some n \<Longrightarrow> tn_ID n = k) \<Longrightarrow>
    calls_of k (map (\<lambda>j. DeadCall j now) (fst (CheckTimeouts now nodes))) =
      (case map_of nodes k of None \<Rightarrow> 0 | Some n \<Rightarrow> if dies now n then 1 else 0)"
proof (induction nodes)
  case (Cons x nodes)
  obtain j n where x: "x = (j, n)" by (cases x)
  have "tn_ID n = j" using Cons.prems(2) [of j n] x by simp
  moreover have "\<And>k m. map_of nodes k = Some m \<Longrightarrow> tn_ID m = k"
    using Cons.prems x by (metis domI dom_map_of_conv_image_fst distinct.simps(2) fst_conv list.set_map list.simps(9) map_of_Cons_code(2))
  moreover have "map_of nodes j = None" using Cons.prems(1) x by (simp add: map_of_eq_None_iff)
  ultimately show ?case
    using Cons.IH Cons.prems(1) x by (auto simp: CheckTimeouts_eq calls_of_def split: option.splits)
qed (simp add: CheckTimeouts_eq calls_of_def)

lemma counts_append [simp]:
  "calls_of k (es @ es') = calls_of k es + calls_of k es'"
  "contacts_of k (es @ es') = contacts_of k es + contacts_of k es'"
  "calls_of k [] = 0" "contacts_of k [] = 0"
  by (simp_all add: calls_of_def contacts_of_def)

lemma node_step_calls:
  assumes "nodes_inv now nodes" "node_step (now, op) nodes = (es, nodes')"
  shows "calls_of k es + alive k nodes' \<le> contacts_of k es + alive k nodes"
proof (cases op)
  case (OpCheckTimeouts)
  have calls: "calls_of k es = (case map_of nodes k of None \<Rightarrow> 0 | Some n \<Rightarrow> if dies now n then 1 else 0)"
    using calls_dead [of nodes k now] assms OpCheckTimeouts by (auto simp: nodes_inv_def split: prod.splits)
  have "alive k nodes' = (case map_of nodes k of None \<Rightarrow> 0 | Some n \<Rightarrow> if tn_Health (checked now n) = NodeDead then 0 else 1)"
    using assms OpCheckTimeouts by (auto simp: node_defs alive_def map_of_checked split: option.split)
  moreover have "tn_Health (checked now n) = NodeDead \<longleftrightarrow> tn_Health n = NodeDead \<or> dies now n"
    if "map_of nodes k = Some n" for n
  proof -
    have "tn_Health n = NodeDead \<longrightarrow> TimeoutDead \<le> now - tn_LastSeen n" using assms(1) that by (simp add: nodes_inv_def)
    then show ?thesis
      using timed_out_dead [of "now - tn_LastSeen n"]
      by (cases "timed_out (now - tn_LastSeen n)") (auto simp: checked_def dies_def)
  qed
  ultimately show ?thesis
    using calls by (auto simp: alive_def dies_def split: option.splits)
qed (use assms in \<open>auto simp: node_defs alive_def calls_of_def contacts_of_def update_conv' delete_conv'
      split: option.splits if_splits\<close>)

subsection \<open>Properties\<close>


text \<open>A node is reported dead at most once per sign of life: while the clock does not run backwards,
the number of dead-node callbacks for a node never exceeds the number of its registrations and accepted
heartbeats, and one is left to spend as long as the node is tracked and not dead.\<close>

theorem dead_reported_once:
  assumes "sorted (map fst ops)" "run_nodes ops [] = (es, nodes)"
  shows "calls_of k es + alive k nodes \<le> contacts_of k es"
proof -
  have "calls_of k es + alive k nodes' \<le> contacts_of k es + alive k nodes"
    if "sorted (map fst ops)" "run_nodes ops nodes = (es, nodes')" "\<And>t. t \<in> fst ` set ops \<Longrightarrow> nodes_inv t nodes" for nodes es nodes'
    using that
  proof (induction ops arbitrary: nodes es)
    case (Cons op ops)
    obtain now o' where op: "op = (now, o')" by (cases op)
    obtain es1 nodes1 where s: "node_step (now, o') nodes = (es1, nodes1)" by fastforce
    obtain es2 where r: "run_nodes ops nodes1 = (es2, nodes')" "es = es1 @ es2"
      using Cons.prems(2) s op by (auto split: prod.splits)
    have inv: "nodes_inv now nodes" using Cons.prems(3) op by simp
    have "calls_of k es2 + alive k nodes' \<le> contacts_of k es2 + alive k nodes1"
    proof (rule Cons.IH [OF _ r(1)])
      show "sorted (map fst ops)" using Cons.prems(1) by simp
      show "nodes_inv t nodes1" if "t \<in> fst ` set ops" for t
        using nodes_inv_later [OF node_step_inv [OF inv s]] that Cons.prems(1) op by fastforce
    qed
    then show ?case using node_step_calls [OF inv s, of k] r(2) by simp
  qed simp
  moreover have "nodes_inv t []" for t by (simp add: nodes_inv_def)
  ultimately show ?thesis using assms by (fastforce simp: alive_def)
qed

subsection \<open>A concrete pool\<close>

definition sample_pool_run :: "(nanos \<times> (unit, unit, string) node_op) list" where
  "sample_pool_run = [(0, OpRegisterNode ''n1'' None), (second, OpEnqueue ''n1'' ''create''), (second, OpEnqueue ''n1'' ''drain''),
     (2 * second, OpHeartbeat ''n1'' None), (2 * second, OpEnqueue ''n1'' ''stop''), (hour, OpCheckTimeouts),
     (2 * hour, OpCheckTimeouts), (3 * hour, OpCheckTimeouts)]"

theorem dead_reported_once_witness:
  "sorted (map fst sample_pool_run) \<and> calls_of ''n1'' (fst (run_nodes sample_pool_run [])) = 1 \<and>
   calls_of ''n1'' (fst (run_nodes sample_pool_run [])) + alive ''n1'' (snd (run_nodes sample_pool_run [])) \<le> 2"
proof -
  have s: "sorted (map fst sample_pool_run)" by code_simp
  have "contacts_of ''n1'' (fst (run_nodes sample_pool_run [])) = 2" by code_simp
  moreover have "calls_of ''n1'' (fst (run_nodes sample_pool_run [])) = 1" by code_simp
  ultimately show ?thesis using dead_reported_once [OF s, of _ _ "''n1''"] s by (metis prod.collapse)
qed


end
