(* ===== verification/Go_Base64.thy ===== *)
theory Go_Base64
  imports Ussy_Prelude
begin

section \<open>Packages encoding/base64 and encoding/hex\<close>

text \<open>
  The two encodings the sources use: \<^verbatim>\<open>base64.StdEncoding\<close> (API keys at rest) and
  \<^verbatim>\<open>base64.RawURLEncoding\<close> (signed tokens, share links, magic links). Both decode what
  they encode; an encoded text holds only letters, digits and the two extra characters.
\<close>

subsection \<open>base64.StdEncoding\<close>

definition b64_char :: "nat \<Rightarrow> char" where
  "b64_char k =
     (if k < 26 then char_of (65 + k) else if k < 52 then char_of (71 + k)
      else if k < 62 then char_of (k - 4) else if k = 62 then CHR ''+'' else CHR ''/'')"

definition b64_val :: "char \<Rightarrow> nat option" where
  "b64_val c =
     (let n = of_char c :: nat in
      if 65 \<le> n \<and> n \<le> 90 then Some (n - 65) else if 97 \<le> n \<and> n \<le> 122 then Some (n - 71)
      else if 48 \<le> n \<and> n \<le> 57 then Some (n + 4) else if c = CHR ''+'' then Some 62
      else if c = CHR ''/'' then Some 63 else None)"

fun b64_encode :: "string \<Rightarrow> string" where
  "b64_encode [] = ''''"
| "b64_encode [a] =
     (let n = of_char a * 16 in [b64_char (n div 64), b64_char (n mod 64), CHR ''='', CHR ''=''])"
| "b64_encode [a, b] =
     (let n = (of_char a * 256 + of_char b) * 4 in
      [b64_char (n div 4096), b64_char (n div 64 mod 64), b64_char (n mod 64), CHR ''=''])"
| "b64_encode (a # b # c # s) =
     (let n = (of_char a * 256 + of_char b) * 256 + of_char c in
      [b64_char (n div 262144), b64_char (n div 4096 mod 64), b64_char (n div 64 mod 64), b64_char (n mod 64)]
      @ b64_encode s)"

text \<open>A character that is no digit of the encoding, a missing or a misplaced padding is an error.\<close>

fun b64_quads :: "string \<Rightarrow> string option" where
  "b64_quads [] = Some ''''"
| "b64_quads (a # b # c # d # s) =
     (case (b64_val a, b64_val b) of
        (Some w, Some x) \<Rightarrow>
          if c = CHR ''='' then
            (if d = CHR ''='' \<and> s = [] then Some [char_of ((w * 64 + x) div 16)] else None)
          else (case b64_val c of
            None \<Rightarrow> None
          | Some y \<Rightarrow>
            if d = CHR ''='' then
              (if s = [] then
                 let n = ((w * 64 + x) * 64 + y) div 4 in Some [char_of (n div 256), char_of (n mod 256)]
               else None)
            else (case (b64_val d, b64_quads s) of
              (Some z, Some r) \<Rightarrow>
                let n = ((w * 64 + x) * 64 + y) * 64 + z in
                Some ([char_of (n div 65536), char_of (n div 256 mod 256), char_of (n mod 256)] @ r)
            | _ \<Rightarrow> None))
      | _ \<Rightarrow> None)"
| "b64_quads _ = None"

definition b64_decode :: "string \<Rightarrow> string option" where
  "b64_decode s = b64_quads (filter (\<lambda>c. c \<noteq> CHR 0x0A \<and> c \<noteq> CHR 0x0D) s)"

subsection \<open>base64.RawURLEncoding\<close>

text \<open>The URL alphabet, no padding.\<close>

definition to_url :: "char \<Rightarrow> char" where
  "to_url c = (if c = CHR ''+'' then CHR ''-'' else if c = CHR ''/'' then CHR ''_'' else c)"

definition of_url :: "char \<Rightarrow> char" where
  "of_url c = (if c = CHR ''-'' then CHR ''+'' else if c = CHR ''_'' then CHR ''/'' else c)"

definition RawURL_encode :: "string \<Rightarrow> string" where
  "RawURL_encode s = map to_url (takeWhile (\<lambda>c. c \<noteq> CHR ''='') (b64_encode s))"

definition b64_pad :: "string \<Rightarrow> string" where
  "b64_pad s = s @ replicate ((4 - length s mod 4) mod 4) (CHR ''='')"

text \<open>A group of one digit, and a character outside the alphabet, are errors; line breaks are skipped.\<close>

definition RawURL_decode :: "string \<Rightarrow> string option" where
  "RawURL_decode s =
     (let s = filter (\<lambda>c. c \<noteq> CHR 0x0A \<and> c \<noteq> CHR 0x0D) s in
      if length s mod 4 = 1 \<or> list_ex (\<lambda>c. c \<in> {CHR ''+'', CHR ''/'', CHR ''=''}) s then None
      else b64_quads (b64_pad (map of_url s)))"

subsection \<open>hex.EncodeToString\<close>

definition hex_string :: "string \<Rightarrow> string" where
  "hex_string bytes =
     concat (map (\<lambda>c. [hex_char (of_char c div 16), hex_char (of_char c mod 16)]) bytes)"

subsection \<open>Decoding inverts encoding\<close>

lemma b64_val_char: "k < 64 \<Longrightarrow> b64_val (b64_char k) = Some k"
  by (cases "k = 62"; cases "k = 63") (auto simp: b64_char_def b64_val_def Let_def)

lemma b64_char_not_special:
  "k < 64 \<Longrightarrow> b64_char k \<noteq> CHR ''='' \<and> b64_char k \<noteq> CHR 0x0A \<and> b64_char k \<noteq> CHR 0x0D"
  using b64_val_char [of k] by (auto simp: b64_val_def)

lemma digits_64:
  fixes n :: nat
  shows "(n div 64) * 64 + n mod 64 = n"
    "((n div 4096) * 64 + n div 64 mod 64) * 64 + n mod 64 = n"
    "(((n div 262144) * 64 + n div 4096 mod 64) * 64 + n div 64 mod 64) * 64 + n mod 64 = n"
proof -
  show 1: "(n div 64) * 64 + n mod 64 = n" for n :: nat by simp
  show 2: "((n div 4096) * 64 + n div 64 mod 64) * 64 + n mod 64 = n" for n :: nat
    using 1 [of "n div 64"] 1 [of n] by (simp add: div_mult2_eq [of n 64 64, simplified])
  show "(((n div 262144) * 64 + n div 4096 mod 64) * 64 + n div 64 mod 64) * 64 + n mod 64 = n"
    using 2 [of "n div 64"] 1 [of n]
    by (simp add: div_mult2_eq [of n 64 64, simplified] div_mult2_eq [of n 64 4096, simplified])
qed

lemma bytes_256:
  assumes "a < 256" "b < 256" "c < (256 :: nat)"
  shows "(a * 256 + b) div 256 = a" "(a * 256 + b) mod 256 = b"
    "((a * 256 + b) * 256 + c) div 65536 = a" "((a * 256 + b) * 256 + c) div 256 mod 256 = b"
    "((a * 256 + b) * 256 + c) mod 256 = c"
proof -
  have 1: "(x * 256 + y) div 256 = x" "(x * 256 + y) mod 256 = y" if "y < 256" for x y :: nat using that by simp_all
  show "(a * 256 + b) div 256 = a" "(a * 256 + b) mod 256 = b" using 1 [OF assms(2)] by simp_all
  have 2: "((a * 256 + b) * 256 + c) div 256 = a * 256 + b" using assms(3) by (rule 1)
  have "((a * 256 + b) * 256 + c) div 65536 = ((a * 256 + b) * 256 + c) div 256 div 256"
    by (simp add: div_mult2_eq [symmetric])
  then show "((a * 256 + b) * 256 + c) div 65536 = a" "((a * 256 + b) * 256 + c) div 256 mod 256 = b"
    using 1 [OF assms(2), of a] by (simp_all only: 2)
  show "((a * 256 + b) * 256 + c) mod 256 = c" using assms(3) by (rule 1)
qed

lemma b64_bounds:
  assumes "a < 256" "b < 256" "c < (256 :: nat)"
  shows "a * 16 div 64 < 64" "(a * 256 + b) * 4 div 4096 < 64" "((a * 256 + b) * 256 + c) div 262144 < 64"
  using assms by (simp_all add: less_mult_imp_div_less)

lemma b64_quads_encode: "b64_quads (b64_encode s) = Some s"
proof (induction s rule: b64_encode.induct)
  case (2 a)
  show ?case using b64_bounds(1) [of "of_char a" 0 0] digits_64(1) [of "of_char a * 16", simplified]
    by (simp add: Let_def b64_val_char)
next
  case (3 a b)
  define n :: nat where "n = (of_char a * 256 + of_char b) * 4"
  have "n div 4 = of_char a * 256 + of_char b" by (simp add: n_def)
  moreover have "char_of (of_char a * 256 + of_char b :: nat) = b"
    by (subst char_of_mod_256 [symmetric]) (simp del: char_of_mod_256)
  ultimately show ?case using b64_bounds(2) [of "of_char a" "of_char b" 0] bytes_256(1,2) [of "of_char a" "of_char b" 0]
      digits_64(2) [of n]
    unfolding b64_encode.simps Let_def n_def [symmetric]
    by (simp add: b64_val_char b64_char_not_special)
next
  case (4 a b c s)
  define n :: nat where "n = (of_char a * 256 + of_char b) * 256 + of_char c"
  show ?case using b64_bounds(3) [of "of_char a" "of_char b" "of_char c"]
      bytes_256(3-5) [of "of_char a" "of_char b" "of_char c"] digits_64(3) [of n] 4
    unfolding b64_encode.simps Let_def n_def [symmetric]
    by (simp add: b64_val_char b64_char_not_special del: char_of_mod_256)
qed simp

lemma b64_decode_encode: "b64_decode (b64_encode s) = Some s"
proof -
  have "filter (\<lambda>c. c \<noteq> CHR 0x0A \<and> c \<noteq> CHR 0x0D) (b64_encode s) = b64_encode s"
  proof (induction s rule: b64_encode.induct)
    case (2 a)
    show ?case using b64_bounds(1) [of "of_char a" 0 0] by (simp add: Let_def b64_char_not_special)
  next
    case (3 a b)
    show ?case using b64_bounds(2) [of "of_char a" "of_char b" 0]
      unfolding b64_encode.simps Let_def by (simp add: b64_char_not_special)
  next
    case (4 a b c s)
    then show ?case using b64_bounds(3) [of "of_char a" "of_char b" "of_char c"]
      unfolding b64_encode.simps Let_def by (simp add: b64_char_not_special)
  qed simp
  then show ?thesis by (simp add: b64_decode_def b64_quads_encode)
qed

definition b64_digits :: "string \<Rightarrow> bool" where
  "b64_digits w \<longleftrightarrow> (\<forall>c \<in> set w. \<exists>k < 64. c = b64_char k)"

lemma b64_digits_simps [simp]:
  "b64_digits ''''" "k < 64 \<Longrightarrow> b64_digits (b64_char k # w) = b64_digits w" "b64_digits (v @ w) = (b64_digits v \<and> b64_digits w)"
  by (auto simp: b64_digits_def)

lemma b64_shape:
  "\<exists>w. b64_encode s = w @ replicate ((4 - length w mod 4) mod 4) (CHR ''='') \<and> b64_digits w \<and> length w mod 4 \<noteq> 1"
proof (induction s rule: b64_encode.induct)
  case 1
  show ?case by (intro exI [of _ "''''"]) simp
next
  case (2 a)
  define n :: nat where "n = of_char a * 16"
  have "n div 64 < 64" using b64_bounds(1) [of "of_char a" 0 0] by (simp add: n_def)
  then show ?case unfolding b64_encode.simps Let_def n_def [symmetric]
    by (intro exI [of _ "[b64_char (n div 64), b64_char (n mod 64)]"]) (simp add: numeral_2_eq_2)
next
  case (3 a b)
  define n :: nat where "n = (of_char a * 256 + of_char b) * 4"
  have "n div 4096 < 64" using b64_bounds(2) [of "of_char a" "of_char b" 0] by (simp add: n_def)
  then show ?case unfolding b64_encode.simps Let_def n_def [symmetric]
    by (intro exI [of _ "[b64_char (n div 4096), b64_char (n div 64 mod 64), b64_char (n mod 64)]"]) simp
next
  case (4 a b c s)
  define n :: nat where "n = (of_char a * 256 + of_char b) * 256 + of_char c"
  obtain w where w: "b64_encode s = w @ replicate ((4 - length w mod 4) mod 4) (CHR ''='')"
    "b64_digits w" "length w mod 4 \<noteq> 1" using 4 by blast
  have "n div 262144 < 64" using b64_bounds(3) [of "of_char a" "of_char b" "of_char c"] by (simp add: n_def)
  then show ?case using w(2,3) unfolding b64_encode.simps Let_def n_def [symmetric] w(1)
    by (intro exI [of _ "[b64_char (n div 262144), b64_char (n div 4096 mod 64), b64_char (n div 64 mod 64), b64_char (n mod 64)] @ w"])
       simp
qed

lemma b64_char_plain:
  assumes "k < 64"
  shows "b64_char k \<notin> {CHR ''-'', CHR ''_'', CHR ''='', CHR ''.'', CHR 0x0A, CHR 0x0D}"
  using b64_val_char [OF assms] by (auto simp: b64_val_def)

lemma url_digit:
  assumes "k < 64"
  shows "of_url (to_url (b64_char k)) = b64_char k"
    "to_url (b64_char k) \<notin> {CHR ''='', CHR ''+'', CHR ''/'', CHR ''.'', CHR 0x0A, CHR 0x0D}"
  using b64_char_plain [OF assms] by (auto simp: of_url_def to_url_def)

lemma RawURL_digits: "c \<in> set (RawURL_encode s) \<Longrightarrow> \<exists>k < 64. c = to_url (b64_char k)"
proof -
  obtain w where w: "b64_encode s = w @ replicate ((4 - length w mod 4) mod 4) (CHR ''='')"
    "\<forall>c \<in> set w. \<exists>k < 64. c = b64_char k"
    using b64_shape unfolding b64_digits_def by blast
  then have "\<forall>c \<in> set w. c \<noteq> CHR ''=''" using b64_char_plain by fastforce
  then have "set (takeWhile (\<lambda>c. c \<noteq> CHR ''='') (b64_encode s)) \<subseteq> set w"
    unfolding w(1) by (subst takeWhile_append2) (auto dest!: set_takeWhileD split: if_splits)
  then show "c \<in> set (RawURL_encode s) \<Longrightarrow> \<exists>k < 64. c = to_url (b64_char k)"
    using w(2) by (fastforce simp: RawURL_encode_def)
qed

lemma RawURL_plain:
  assumes "c \<in> set (RawURL_encode s)"
  shows "c \<notin> {CHR ''='', CHR ''+'', CHR ''/'', CHR ''.'', CHR 0x0A, CHR 0x0D}"
proof -
  obtain k where "k < 64" "c = to_url (b64_char k)" using RawURL_digits [OF assms] by blast
  then show ?thesis using url_digit(2) by simp
qed

lemma RawURL_no_dot: "CHR ''.'' \<notin> set (RawURL_encode s)"
proof
  assume "CHR ''.'' \<in> set (RawURL_encode s)"
  from RawURL_plain [OF this] show False by simp
qed

lemma RawURL_decode_encode: "RawURL_decode (RawURL_encode s) = Some s"
proof -
  let ?u = "RawURL_encode s"
  obtain w where w: "b64_encode s = w @ replicate ((4 - length w mod 4) mod 4) (CHR ''='')"
    "\<forall>c \<in> set w. \<exists>k < 64. c = b64_char k" "length w mod 4 \<noteq> 1"
    using b64_shape unfolding b64_digits_def by blast
  have no_pad: "c \<noteq> CHR ''=''" if "c \<in> set w" for c
    using bspec [OF w(2) that] b64_char_plain by (elim exE conjE) simp
  have "takeWhile (\<lambda>c. c \<noteq> CHR ''='') (b64_encode s) = w"
    using no_pad unfolding w(1) by (simp add: takeWhile_append2)
  then have u: "?u = map to_url w" by (simp add: RawURL_encode_def)
  have "filter (\<lambda>c. c \<noteq> CHR 0x0A \<and> c \<noteq> CHR 0x0D) ?u = ?u"
  proof (intro filter_True ballI)
    fix c assume "c \<in> set ?u"
    from RawURL_plain [OF this] show "c \<noteq> CHR 0x0A \<and> c \<noteq> CHR 0x0D" by simp
  qed
  moreover have "map of_url ?u = w"
  proof -
    have "of_url (to_url c) = c" if "c \<in> set w" for c
      using bspec [OF w(2) that] by (elim exE conjE) (simp add: url_digit(1))
    then show ?thesis unfolding u by (simp add: map_idI)
  qed
  moreover have "\<not> list_ex (\<lambda>c. c \<in> {CHR ''+'', CHR ''/'', CHR ''=''}) ?u"
  proof
    assume "list_ex (\<lambda>c. c \<in> {CHR ''+'', CHR ''/'', CHR ''=''}) ?u"
    then obtain c where "c \<in> set ?u" "c \<in> {CHR ''+'', CHR ''/'', CHR ''=''}" by (auto simp only: list_ex_iff)
    with RawURL_plain [of c s] show False by auto
  qed
  moreover have "length ?u mod 4 \<noteq> 1" using w(3) u by simp
  ultimately show ?thesis
    using b64_quads_encode [of s] w(1) by (simp add: RawURL_decode_def Let_def b64_pad_def)
qed

end
