(* ===== verification/Node_Pki.thy ===== *)
theory Node_Pki
  imports Go_Files Go_Base64
begin

section \<open>The node certificate authority\<close>

text \<open>
  \<^verbatim>\<open>internal/pki/ca.go\<close>: a root and an intermediate certificate authority, certificates for
  nodes, and signed join tokens that admit one node each. The packages \<^verbatim>\<open>crypto/ed25519\<close>,
  \<^verbatim>\<open>crypto/x509\<close> and \<^verbatim>\<open>encoding/pem\<close> are the parameter \<open>pki_lib\<close>, and so are random bytes, drawn
  by a count of draws. Keys, signatures and encodings are byte strings.
\<close>

subsection \<open>Certificates\<close>

datatype key_usage = DigitalSignature | KeyEncipherment | CertSign | CRLSign
datatype ext_key_usage = ClientAuth | ServerAuth

record certificate =
  cert_SerialNumber :: int
  cert_CommonName :: string
  cert_Organization :: "string list"
  cert_NotBefore :: nanos
  cert_NotAfter :: nanos
  cert_KeyUsage :: "key_usage list"
  cert_ExtKeyUsage :: "ext_key_usage list"
  cert_IsCA :: bool
  cert_MaxPathLen :: int
  cert_MaxPathLenZero :: bool

record pki_lib =
  pl_GenerateKey :: "nat \<Rightarrow> string + string \<times> string"  \<comment> \<open>public and private key\<close>
  pl_serial :: "nat \<Rightarrow> string + int"
  pl_random :: "nat \<Rightarrow> string + string"
  pl_Public :: "string \<Rightarrow> string"
  pl_Sign :: "string \<Rightarrow> string \<Rightarrow> string"
  pl_VerifySig :: "string \<Rightarrow> string \<Rightarrow> string \<Rightarrow> bool"
  pl_CreateCertificate :: "certificate \<Rightarrow> certificate \<Rightarrow> string \<Rightarrow> string \<Rightarrow> string + string"
  pl_ParseCertificate :: "string \<Rightarrow> string + certificate"
  pl_ParsePKCS8 :: "string \<Rightarrow> string + string option"     \<comment> \<open>\<^term>\<open>None\<close>: a key of another algorithm\<close>
  pl_MarshalPKCS8 :: "string \<Rightarrow> string + string"
  pl_pem_encode :: "string \<Rightarrow> string \<Rightarrow> string"
  pl_pem_decode :: "string \<Rightarrow> (string \<times> string) option"
  pl_Verify :: "certificate \<Rightarrow> certificate \<Rightarrow> certificate \<Rightarrow> nanos \<Rightarrow> string option"

record CA =
  ca_rootCert :: certificate
  ca_rootKey :: string
  ca_rootCertPEM :: string
  ca_interCert :: certificate
  ca_interKey :: string
  ca_interCertPEM :: string
  ca_usedTokens :: "string list"

record NodeCertificate =
  nc_CertPEM :: string
  nc_KeyPEM :: string
  nc_CAPEM :: string

definition rootTemplate :: "int \<Rightarrow> nanos \<Rightarrow> certificate" where
  "rootTemplate serial now =
     \<lparr>cert_SerialNumber = serial, cert_CommonName = ''ussyverse Root CA'', cert_Organization = [''ussyverse''],
      cert_NotBefore = now, cert_NotAfter = now + 10 * 365 * 24 * hour, cert_KeyUsage = [CertSign, CRLSign],
      cert_ExtKeyUsage = [], cert_IsCA = True, cert_MaxPathLen = 1, cert_MaxPathLenZero = False\<rparr>"

definition interTemplate :: "int \<Rightarrow> nanos \<Rightarrow> certificate" where
  "interTemplate serial now =
     \<lparr>cert_SerialNumber = serial, cert_CommonName = ''ussyverse Intermediate CA'', cert_Organization = [''ussyverse''],
      cert_NotBefore = now, cert_NotAfter = now + 5 * 365 * 24 * hour, cert_KeyUsage = [CertSign, CRLSign],
      cert_ExtKeyUsage = [], cert_IsCA = True, cert_MaxPathLen = 0, cert_MaxPathLenZero = True\<rparr>"

text \<open>Creation of a certificate, its parsing back, and its PEM form: shared by both authorities.\<close>

definition certify ::
  "pki_lib \<Rightarrow> certificate \<Rightarrow> certificate \<Rightarrow> string \<Rightarrow> string \<Rightarrow> string \<Rightarrow> string + certificate \<times> string \<times> string" where
  "certify lib template parent pub signer priv =
     (case pl_CreateCertificate lib template parent pub signer of
        Inl e \<Rightarrow> Inl e
      | Inr der \<Rightarrow>
        (case pl_ParseCertificate lib der of
           Inl e \<Rightarrow> Inl e
         | Inr cert \<Rightarrow> Inr (cert, priv, pl_pem_encode lib ''CERTIFICATE'' der)))"

definition generateRootCA :: "pki_lib \<Rightarrow> nat \<Rightarrow> nanos \<Rightarrow> string + certificate \<times> string \<times> string" where
  "generateRootCA lib k now =
     (case pl_GenerateKey lib k of
        Inl e \<Rightarrow> Inl e
      | Inr (pub, priv) \<Rightarrow>
        (case pl_serial lib k of
           Inl e \<Rightarrow> Inl e
         | Inr serial \<Rightarrow> let t = rootTemplate serial now in certify lib t t pub priv priv))"

definition generateIntermediateCA ::
  "pki_lib \<Rightarrow> nat \<Rightarrow> nanos \<Rightarrow> certificate \<Rightarrow> string \<Rightarrow> string + certificate \<times> string \<times> string" where
  "generateIntermediateCA lib k now rootCert rootKey =
     (case pl_GenerateKey lib k of
        Inl e \<Rightarrow> Inl e
      | Inr (pub, priv) \<Rightarrow>
        (case pl_serial lib k of
           Inl e \<Rightarrow> Inl e
         | Inr serial \<Rightarrow> certify lib (interTemplate serial now) rootCert pub rootKey priv))"

definition NewCA :: "pki_lib \<Rightarrow> nat \<Rightarrow> nanos \<Rightarrow> string + CA" where
  "NewCA lib k now =
     (case generateRootCA lib k now of
        Inl e \<Rightarrow> Inl (''generating root CA: '' @ e)
      | Inr (rootCert, rootKey, rootPEM) \<Rightarrow>
        (case generateIntermediateCA lib (k + 1) now rootCert rootKey of
           Inl e \<Rightarrow> Inl (''generating intermediate CA: '' @ e)
         | Inr (interCert, interKey, interPEM) \<Rightarrow>
           Inr \<lparr>ca_rootCert = rootCert, ca_rootKey = rootKey, ca_rootCertPEM = rootPEM, ca_interCert = interCert,
                ca_interKey = interKey, ca_interCertPEM = interPEM, ca_usedTokens = []\<rparr>))"

definition parseCertPEM :: "pki_lib \<Rightarrow> string \<Rightarrow> string + certificate" where
  "parseCertPEM lib data =
     (case pl_pem_decode lib data of
        None \<Rightarrow> Inl ''no CERTIFICATE PEM block found''
      | Some (typ, bytes) \<Rightarrow>
        if typ \<noteq> ''CERTIFICATE'' then Inl ''no CERTIFICATE PEM block found'' else pl_ParseCertificate lib bytes)"

definition parseEd25519KeyPEM :: "pki_lib \<Rightarrow> string \<Rightarrow> string + string" where
  "parseEd25519KeyPEM lib data =
     (case pl_pem_decode lib data of
        None \<Rightarrow> Inl ''no PEM block found''
      | Some (typ, bytes) \<Rightarrow>
        (case pl_ParsePKCS8 lib bytes of
           Inl e \<Rightarrow> Inl (''parsing PKCS8 key: '' @ e)
         | Inr None \<Rightarrow> Inl ''key is not Ed25519''
         | Inr (Some key) \<Rightarrow> Inr key))"

definition LoadCA :: "pki_lib \<Rightarrow> string \<Rightarrow> string \<Rightarrow> string \<Rightarrow> string \<Rightarrow> string + CA" where
  "LoadCA lib rootCertPEM rootKeyPEM interCertPEM interKeyPEM =
     (case parseCertPEM lib rootCertPEM of
        Inl e \<Rightarrow> Inl (''parsing root cert: '' @ e)
      | Inr rootCert \<Rightarrow>
        (case parseEd25519KeyPEM lib rootKeyPEM of
           Inl e \<Rightarrow> Inl (''parsing root key: '' @ e)
         | Inr rootKey \<Rightarrow>
           (case parseCertPEM lib interCertPEM of
              Inl e \<Rightarrow> Inl (''parsing intermediate cert: '' @ e)
            | Inr interCert \<Rightarrow>
              (case parseEd25519KeyPEM lib interKeyPEM of
                 Inl e \<Rightarrow> Inl (''parsing intermediate key: '' @ e)
               | Inr interKey \<Rightarrow>
                 Inr \<lparr>ca_rootCert = rootCert, ca_rootKey = rootKey, ca_rootCertPEM = rootCertPEM,
                      ca_interCert = interCert, ca_interKey = interKey, ca_interCertPEM = interCertPEM,
                      ca_usedTokens = []\<rparr>))))"

definition nodeTemplate :: "int \<Rightarrow> string \<Rightarrow> nanos \<Rightarrow> nanos \<Rightarrow> certificate" where
  "nodeTemplate serial nodeID now validity =
     \<lparr>cert_SerialNumber = serial, cert_CommonName = ''node-'' @ nodeID, cert_Organization = [''ussyverse''],
      cert_NotBefore = now - 5 * minute, cert_NotAfter = now + validity,
      cert_KeyUsage = [DigitalSignature, KeyEncipherment], cert_ExtKeyUsage = [ClientAuth, ServerAuth],
      cert_IsCA = False, cert_MaxPathLen = 0, cert_MaxPathLenZero = False\<rparr>"

definition IssueNodeCert ::
  "pki_lib \<Rightarrow> nat \<Rightarrow> nanos \<Rightarrow> string \<Rightarrow> string \<Rightarrow> nanos \<Rightarrow> CA \<Rightarrow> string + NodeCertificate" where
  "IssueNodeCert lib k now nodeID pubKey validity ca =
     (let validity = (if validity \<le> 0 then 24 * hour else validity) in
      case pl_serial lib k of
        Inl e \<Rightarrow> Inl e
      | Inr serial \<Rightarrow>
        (case pl_CreateCertificate lib (nodeTemplate serial nodeID now validity) (ca_interCert ca) pubKey (ca_interKey ca) of
           Inl e \<Rightarrow> Inl (''creating node certificate: '' @ e)
         | Inr der \<Rightarrow>
           Inr \<lparr>nc_CertPEM = pl_pem_encode lib ''CERTIFICATE'' der, nc_KeyPEM = '''',
                nc_CAPEM = ca_interCertPEM ca @ ca_rootCertPEM ca\<rparr>))"

text \<open>\<open>pl_Verify cert root inter now\<close> is the error of \<^verbatim>\<open>cert.Verify\<close> with the client usage.\<close>

definition VerifyNodeCert :: "pki_lib \<Rightarrow> nanos \<Rightarrow> string \<Rightarrow> CA \<Rightarrow> string + certificate" where
  "VerifyNodeCert lib now certPEM ca =
     (case parseCertPEM lib certPEM of
        Inl e \<Rightarrow> Inl (''parsing certificate: '' @ e)
      | Inr cert \<Rightarrow>
        (case pl_Verify lib cert (ca_rootCert ca) (ca_interCert ca) now of
           Some e \<Rightarrow> Inl (''certificate verification failed: '' @ e)
         | None \<Rightarrow> Inr cert))"

definition EncodePrivateKeyPEM :: "pki_lib \<Rightarrow> string \<Rightarrow> string + string" where
  "EncodePrivateKeyPEM lib key = map_sum id (pl_pem_encode lib ''PRIVATE KEY'') (pl_MarshalPKCS8 lib key)"

definition ExportRootKeyPEM :: "pki_lib \<Rightarrow> CA \<Rightarrow> string + string" where
  "ExportRootKeyPEM lib ca = EncodePrivateKeyPEM lib (ca_rootKey ca)"

definition ExportIntermediateKeyPEM :: "pki_lib \<Rightarrow> CA \<Rightarrow> string + string" where
  "ExportIntermediateKeyPEM lib ca = EncodePrivateKeyPEM lib (ca_interKey ca)"

subsection \<open>Join tokens\<close>

record JoinToken =
  jt_Token :: string
  jt_ExpiresAt :: nanos
  jt_Signature :: string

definition join_message :: "string \<Rightarrow> nanos \<Rightarrow> string" where
  "join_message token expiresAt = token @ '':'' @ dec (unix expiresAt)"

definition GenerateJoinToken :: "pki_lib \<Rightarrow> nat \<Rightarrow> nanos \<Rightarrow> nanos \<Rightarrow> CA \<Rightarrow> string + JoinToken" where
  "GenerateJoinToken lib k now validity ca =
     (case pl_random lib k of
        Inl e \<Rightarrow> Inl (''generating random token: '' @ e)
      | Inr tokenBytes \<Rightarrow>
        let token = hex_string tokenBytes; expiresAt = now + validity in
        Inr \<lparr>jt_Token = token, jt_ExpiresAt = expiresAt,
             jt_Signature = pl_Sign lib (ca_rootKey ca) (join_message token expiresAt)\<rparr>)"

definition ValidateJoinToken :: "pki_lib \<Rightarrow> nanos \<Rightarrow> JoinToken \<Rightarrow> CA \<Rightarrow> string option \<times> CA" where
  "ValidateJoinToken lib now jt ca =
     (if jt_Token jt \<in> set (ca_usedTokens ca) then (Some ''join token already used'', ca)
      else if now > jt_ExpiresAt jt then (Some ''join token expired'', ca)
      else if \<not> pl_VerifySig lib (pl_Public lib (ca_rootKey ca)) (join_message (jt_Token jt) (jt_ExpiresAt jt)) (jt_Signature jt)
      then (Some ''join token signature invalid'', ca)
      else (None, ca\<lparr>ca_usedTokens := jt_Token jt # ca_usedTokens ca\<rparr>))"

subsection \<open>Histories of an authority\<close>

datatype ca_op = OpGenerate nat nanos nanos | OpValidate nanos JoinToken

text \<open>What happened: tokens handed out, tokens presented and the answer.\<close>

datatype ca_event = Issued JoinToken | Accepted nanos JoinToken | Rejected nanos JoinToken

fun ca_run :: "pki_lib \<Rightarrow> ca_op list \<Rightarrow> CA \<Rightarrow> ca_event list \<times> CA" where
  "ca_run lib [] ca = ([], ca)"
| "ca_run lib (OpGenerate k now validity # ops) ca =
     (case GenerateJoinToken lib k now validity ca of
        Inl e \<Rightarrow> ca_run lib ops ca
      | Inr jt \<Rightarrow> (case ca_run lib ops ca of (evs, ca) \<Rightarrow> (Issued jt # evs, ca)))"
| "ca_run lib (OpValidate now jt # ops) ca =
     (case ValidateJoinToken lib now jt ca of
        (Some e, ca) \<Rightarrow> (case ca_run lib ops ca of (evs, ca) \<Rightarrow> (Rejected now jt # evs, ca))
      | (None, ca) \<Rightarrow> (case ca_run lib ops ca of (evs, ca) \<Rightarrow> (Accepted now jt # evs, ca)))"

fun accepted_tokens :: "ca_event list \<Rightarrow> string list" where
  "accepted_tokens [] = []"
| "accepted_tokens (Accepted now jt # evs) = jt_Token jt # accepted_tokens evs"
| "accepted_tokens (_ # evs) = accepted_tokens evs"

text \<open>
  What ed25519 promises: a signature that verifies under the root key is for a message the authority has
  signed, here one of the messages of the tokens issued in the history.
\<close>

definition unforgeable :: "pki_lib \<Rightarrow> string \<Rightarrow> ca_event list \<Rightarrow> bool" where
  "unforgeable lib key evs \<longleftrightarrow>
     (\<forall>msg sig. pl_VerifySig lib (pl_Public lib key) msg sig \<longrightarrow>
        (\<exists>jt. Issued jt \<in> set evs \<and> msg = join_message (jt_Token jt) (jt_ExpiresAt jt)))"

lemma join_message_inj:
  assumes "join_message t e = join_message t' e'"
  shows "t = t' \<and> unix e = unix e'"
proof -
  have split: "takeWhile (\<lambda>c. c \<noteq> CHR '':'') (rev (join_message t e)) = rev (dec (unix e)) \<and>
      drop (Suc (length (dec (unix e)))) (rev (join_message t e)) = rev t" for t e
  proof -
    have "\<forall>c \<in> set (rev (dec (unix e))). c \<noteq> CHR '':''" using dec_no_sep(1) by auto
    then have "takeWhile (\<lambda>c. c \<noteq> CHR '':'') (rev (dec (unix e)) @ CHR '':'' # rev t) = rev (dec (unix e))"
      by (subst takeWhile_append2) auto
    then show ?thesis by (simp add: join_message_def)
  qed
  have "dec (unix e) = dec (unix e')" using split [of t e] split [of t' e'] assms by (metis rev_rev_ident)
  moreover from this have "rev t = rev t'" using split [of t e] split [of t' e'] assms by metis
  ultimately show ?thesis by (simp add: dec_inj)
qed

lemma ca_run_accepted:
  assumes "ca_run lib ops ca = (evs, ca')"
  shows "ca_rootKey ca' = ca_rootKey ca \<and> distinct (accepted_tokens evs) \<and>
    set (accepted_tokens evs) \<inter> set (ca_usedTokens ca) = {} \<and>
    set (ca_usedTokens ca') = set (accepted_tokens evs) \<union> set (ca_usedTokens ca) \<and>
    (\<forall>now jt. Accepted now jt \<in> set evs \<longrightarrow> now \<le> jt_ExpiresAt jt \<and>
       pl_VerifySig lib (pl_Public lib (ca_rootKey ca)) (join_message (jt_Token jt) (jt_ExpiresAt jt)) (jt_Signature jt))"
  using assms
proof (induction ops arbitrary: ca evs ca')
  case (Cons op ops)
  show ?case
  proof (cases op)
    case (OpGenerate k now validity)
    show ?thesis
    proof (cases "GenerateJoinToken lib k now validity ca")
      case (Inl e)
      with Cons OpGenerate show ?thesis by simp
    next
      case (Inr jt)
      obtain evs1 ca2 where r: "ca_run lib ops ca = (evs1, ca2)" by fastforce
      with Cons.prems OpGenerate Inr have "evs = Issued jt # evs1" "ca' = ca2" by auto
      with Cons.IH [OF r] show ?thesis by simp
    qed
  next
    case (OpValidate now jt)
    obtain e ca1 where v: "ValidateJoinToken lib now jt ca = (e, ca1)" by fastforce
    obtain evs1 ca2 where r: "ca_run lib ops ca1 = (evs1, ca2)" by fastforce
    from Cons.IH [OF r] Cons.prems OpValidate v r show ?thesis
      by (cases e) (auto simp: ValidateJoinToken_def split: if_split_asm)
  qed
qed simp

subsection \<open>Properties\<close>


text \<open>For the witness: signatures of one message only, and a history in which its token is presented twice.\<close>

definition toy_lib :: pki_lib where
  "toy_lib = \<lparr>pl_GenerateKey = \<lambda>_. Inr (''pub'', ''priv''), pl_serial = \<lambda>_. Inr 7, pl_random = \<lambda>_. Inr ''J'',
     pl_Public = \<lambda>_. ''pub'', pl_Sign = \<lambda>_ msg. msg, pl_VerifySig = \<lambda>_ msg sig. msg = ''4a:1'' \<and> sig = ''4a:1'',
     pl_CreateCertificate = \<lambda>t _ _ _. Inr (cert_CommonName t), pl_ParseCertificate = \<lambda>_. Inr (rootTemplate 7 0),
     pl_ParsePKCS8 = \<lambda>k. Inr (Some k), pl_MarshalPKCS8 = \<lambda>k. Inr k, pl_pem_encode = \<lambda>_ b. b,
     pl_pem_decode = \<lambda>b. Some (''CERTIFICATE'', b), pl_Verify = \<lambda>_ _ _ _. None\<rparr>"

definition toy_ca :: CA where
  "toy_ca = (case NewCA toy_lib 0 0 of Inr ca \<Rightarrow> ca | Inl _ \<Rightarrow> undefined)"

definition toy_token :: JoinToken where
  "toy_token = \<lparr>jt_Token = ''4a'', jt_ExpiresAt = second, jt_Signature = ''4a:1''\<rparr>"


text \<open>
  The consumed tokens are not saved: an authority loaded again from its keys accepts a token a second time.
\<close>

theorem join_token_reused_after_reload:
  assumes "ValidateJoinToken lib now jt ca = (None, ca1)"
    and "LoadCA lib rc rk ic ik = Inr ca2" "ca_rootKey ca2 = ca_rootKey ca"
  shows "fst (ValidateJoinToken lib now jt ca2) = None"
proof -
  have "ca_usedTokens ca2 = []" using assms(2) by (auto simp: LoadCA_def split: sum.split_asm)
  with assms(1,3) show ?thesis by (auto simp: ValidateJoinToken_def split: if_split_asm)
qed

end
