(* ===== verification/Vm_Network.thy ===== *)
theory Vm_Network
  imports Mesh_Allocator
begin

unbundle bit_operations_syntax

section \<open>VM networking and firewall\<close>

text \<open>
  \<^verbatim>\<open>internal/vm/network.go\<close> and \<^verbatim>\<open>internal/vm/nftables.go\<close>. Both work by running
  external programs, which are the parameter \<open>he_run\<close>: it gives the output and the error of a command
  from the commands run before it. The state threaded through is that list of commands (for
  \<^verbatim>\<open>nft -f -\<close> with the text of standard input as the last argument) and the manager's own
  fields. Random bytes are drawn by the parameter \<open>he_rand\<close>.
\<close>

type_synonym command = "string list"

record host_env =
  he_run :: "command list \<Rightarrow> command \<Rightarrow> string \<times> string option"
  he_rand :: "command list \<Rightarrow> 8 word list"

definition Execute :: "host_env \<Rightarrow> command \<Rightarrow> command list \<Rightarrow> (string \<times> string option) \<times> command list" where
  "Execute env cmd log = (he_run env log cmd, log @ [cmd])"

text \<open>\<^verbatim>\<open>runCmd\<close>: the error, if any.\<close>

definition runCmd :: "host_env \<Rightarrow> command \<Rightarrow> command list \<Rightarrow> string option \<times> command list" where
  "runCmd env cmd log =
     (case Execute env cmd log of
        ((out, None), log) \<Rightarrow> (None, log)
      | ((out, Some e), log) \<Rightarrow>
        (Some (hd cmd @ '' ['' @ Join_strings (tl cmd) '' '' @ '']: '' @ out @ '': '' @ e), log))"

subsection \<open>Firewall rules\<close>

definition nft_table :: string where "nft_table = ''ussycode''"

definition NL :: string where "NL = [CHR 10]"

definition quoted :: "string \<Rightarrow> string" where "quoted s = CHR 0x22 # s @ [CHR 0x22]"

definition nft_ruleset :: "string \<Rightarrow> string \<Rightarrow> string" where
  "nft_ruleset bridge subnet =
     NL @ ''table inet '' @ nft_table @ '' {'' @ NL @
     ''    chain prerouting {'' @ NL @
     ''        type nat hook prerouting priority dstnat; policy accept;'' @ NL @
     ''        iifname '' @ quoted bridge @ '' ip daddr 169.254.169.254 tcp dport 80 redirect to :8083'' @ NL @
     ''    }'' @ NL @
     ''    chain postrouting {'' @ NL @
     ''        type nat hook postrouting priority 100; policy accept;'' @ NL @
     ''        oifname != '' @ quoted bridge @ '' ip saddr '' @ subnet @ '' masquerade'' @ NL @
     ''    }'' @ NL @
     ''    chain forward {'' @ NL @
     ''        type filter hook forward priority 0; policy drop;'' @ NL @
     ''        iifname '' @ quoted bridge @ '' accept'' @ NL @
     ''        oifname '' @ quoted bridge @ '' ct state established,related accept'' @ NL @
     ''    }'' @ NL @ ''}'' @ NL"

definition SetupNAT :: "host_env \<Rightarrow> string \<Rightarrow> string \<Rightarrow> command list \<Rightarrow> string option \<times> command list" where
  "SetupNAT env bridge subnet log =
     (let (_, log) = Execute env [''nft'', ''delete'', ''table'', ''inet'', nft_table] log;
          ((out, err), log) = Execute env [''nft'', ''-f'', ''-'', nft_ruleset bridge subnet] log
      in case err of
           Some e \<Rightarrow> (Some (''apply nftables ruleset: '' @ out @ '': '' @ e), log)
         | None \<Rightarrow> (None, log))"

definition CleanupNAT :: "host_env \<Rightarrow> command list \<Rightarrow> string option \<times> command list" where
  "CleanupNAT env log =
     (let ((out, err), log) = Execute env [''nft'', ''delete'', ''table'', ''inet'', nft_table] log in
      case err of
        None \<Rightarrow> (None, log)
      | Some e \<Rightarrow>
        if Contains out ''No such file'' \<or> Contains out ''does not exist'' then (None, log)
        else (Some (''delete nftables table: '' @ out @ '': '' @ e), log))"

definition forward_rule :: "string \<Rightarrow> string \<Rightarrow> string \<Rightarrow> string \<Rightarrow> string \<Rightarrow> command" where
  "forward_rule ifname tap addr ip comment =
     [''nft'', ''add'', ''rule'', ''inet'', nft_table, ''forward'', ifname, tap, ''ip'', addr, ip,
      ''accept'', ''comment'', quoted comment]"

definition AddVMRules ::
  "host_env \<Rightarrow> string \<Rightarrow> string \<Rightarrow> string \<Rightarrow> command list \<Rightarrow> string option \<times> command list" where
  "AddVMRules env vmID tapDevice guestIP log =
     (let comment = ''vm-'' @ vmID;
          ((out, err), log) = Execute env (forward_rule ''iifname'' tapDevice ''saddr'' guestIP comment) log
      in case err of
           Some e \<Rightarrow> (Some (''add VM forward rule: '' @ out @ '': '' @ e), log)
         | None \<Rightarrow>
           let ((out, err), log) =
             Execute env (forward_rule ''oifname'' tapDevice ''daddr'' guestIP (comment @ ''-return'')) log
           in case err of
                Some e \<Rightarrow> (Some (''add VM return rule: '' @ out @ '': '' @ e), log)
              | None \<Rightarrow> (None, log))"

text \<open>\<^verbatim>\<open>strings.LastIndex\<close> for a non-empty substring.\<close>

definition LastIndex :: "string \<Rightarrow> string \<Rightarrow> nat option" where
  "LastIndex s sub =
     (case filter (\<lambda>i. HasPrefix (drop i s) sub) (rev [0..<length s]) of [] \<Rightarrow> None | i # _ \<Rightarrow> Some i)"

fun nft_line_handles :: "string \<Rightarrow> string list \<Rightarrow> string list" where
  "nft_line_handles comment [] = []"
| "nft_line_handles comment (line # lines) =
     (if \<not> Contains line comment then nft_line_handles comment lines
      else case LastIndex line ''# handle '' of
        None \<Rightarrow> nft_line_handles comment lines
      | Some idx \<Rightarrow>
        let handleStr = TrimSpace (drop (idx + length ''# handle '') line) in
        if handleStr \<noteq> '''' then handleStr # nft_line_handles comment lines
        else nft_line_handles comment lines)"

definition parseNftHandles :: "string \<Rightarrow> string \<Rightarrow> string list" where
  "parseNftHandles output comment = nft_line_handles comment (Split output (CHR 10))"

fun delete_handles :: "host_env \<Rightarrow> string list \<Rightarrow> command list \<Rightarrow> command list" where
  "delete_handles env [] log = log"
| "delete_handles env (handle # handles) log =
     delete_handles env handles
       (snd (Execute env [''nft'', ''delete'', ''rule'', ''inet'', nft_table, ''forward'', ''handle'', handle] log))"

definition RemoveVMRules :: "host_env \<Rightarrow> string \<Rightarrow> command list \<Rightarrow> string option \<times> command list" where
  "RemoveVMRules env vmID log =
     (let ((out, err), log) = Execute env [''nft'', ''--handle'', ''list'', ''chain'', ''inet'', nft_table, ''forward''] log in
      case err of
        Some e \<Rightarrow>
          if Contains out ''No such file'' \<or> Contains out ''does not exist'' then (None, log)
          else (Some (''list forward chain: '' @ out @ '': '' @ e), log)
      | None \<Rightarrow> (None, delete_handles env (parseNftHandles out (''vm-'' @ vmID)) log))"

subsection \<open>The network manager\<close>

record network_manager =
  nm_bridge :: string
  nm_subnet :: ip_net
  nm_gateway :: u32
  nm_allocated :: "string \<rightharpoonup> string"
  nm_nextIP :: u32

record NetworkConfig =
  nc_TapDevice :: string
  nc_GuestIP :: string
  nc_GatewayIP :: string
  nc_MacAddress :: string
  nc_SubnetMask :: string

definition IP_String :: "u32 \<Rightarrow> string" where
  "IP_String ip = Join_strings [octet 3 ip, octet 2 ip, octet 1 ip, octet 0 ip] ''.''"

definition subnet_Contains :: "ip_net \<Rightarrow> u32 \<Rightarrow> bool" where
  "subnet_Contains s ip \<longleftrightarrow> in_IP s AND CIDRMask (in_Bits s) = ip AND CIDRMask (in_Bits s)"

text \<open>\<^verbatim>\<open>gateway[3]++\<close> increments the last byte without a carry.\<close>

definition NewNetworkManager :: "string \<Rightarrow> string \<Rightarrow> string + network_manager" where
  "NewNetworkManager bridge subnetCIDR =
     (case ParseCIDR subnetCIDR of
        None \<Rightarrow> Inl (''parse subnet '' @ go_quote subnetCIDR)
      | Some subnet \<Rightarrow>
        let gateway = (in_IP subnet AND 0xFFFFFF00) OR ((in_IP subnet + 1) AND 0xFF) in
        Inr \<lparr>nm_bridge = bridge, nm_subnet = subnet, nm_gateway = gateway, nm_allocated = Map.empty,
             nm_nextIP = gateway + 1\<rparr>)"

definition SetupBridge :: "host_env \<Rightarrow> network_manager \<Rightarrow> command list \<Rightarrow> string option \<times> command list" where
  "SetupBridge env nm log =
     (let bits = dec_nat (in_Bits (nm_subnet nm));
          (_, log) = runCmd env [''ip'', ''link'', ''add'', nm_bridge nm, ''type'', ''bridge''] log;
          (_, log) = runCmd env [''ip'', ''addr'', ''add'', IP_String (nm_gateway nm) @ ''/'' @ bits, ''dev'', nm_bridge nm] log;
          (err, log) = runCmd env [''ip'', ''link'', ''set'', nm_bridge nm, ''up''] log
      in case err of
        Some e \<Rightarrow> (Some (''bring up bridge: '' @ e), log)
      | None \<Rightarrow>
        let (_, log) = runCmd env [''ip'', ''addr'', ''del'', ''169.254.169.254/32'', ''dev'', ''lo''] log;
            (_, log) = runCmd env [''ip'', ''addr'', ''add'', ''169.254.169.254/32'', ''dev'', nm_bridge nm] log;
            (err, log) = runCmd env [''sysctl'', ''-w'', ''net.ipv4.ip_forward=1''] log
        in case err of
          Some e \<Rightarrow> (Some (''enable ip forwarding: '' @ e), log)
        | None \<Rightarrow>
          (case SetupNAT env (nm_bridge nm) (IP_String (in_IP (nm_subnet nm)) @ ''/'' @ bits) log of
             (Some e, log) \<Rightarrow> (Some (''setup nftables NAT: '' @ e), log)
           | (None, log) \<Rightarrow> (None, log)))"

definition hex2 :: "8 word \<Rightarrow> string" where
  "hex2 b = [hex_char (unat b div 16), hex_char (unat b mod 16)]"

definition generateMAC :: "8 word list \<Rightarrow> string" where
  "generateMAC buf =
     (let buf = buf[0 := (buf ! 0 AND 0xFE) OR 0x02] in Join_strings (map hex2 (take 6 buf)) '':'')"

definition tap_name :: "string \<Rightarrow> string" where
  "tap_name vmID = take 15 (''tap-'' @ take 8 vmID)"

definition AllocateNetwork ::
  "host_env \<Rightarrow> string \<Rightarrow> network_manager \<Rightarrow> command list \<Rightarrow>
   (string + NetworkConfig) \<times> network_manager \<times> command list" where
  "AllocateNetwork env vmID nm log =
     (let ip = nm_nextIP nm; nm = nm\<lparr>nm_nextIP := nm_nextIP nm + 1\<rparr> in
      if \<not> subnet_Contains (nm_subnet nm) ip then (Inl ''subnet exhausted: no more IPs available'', nm, log)
      else
        let tapName = tap_name vmID;
            mac = generateMAC (he_rand env log);
            (err, log) = runCmd env [''ip'', ''tuntap'', ''add'', tapName, ''mode'', ''tap''] log
        in case err of
          Some e \<Rightarrow> (Inl (''create tap device: '' @ e), nm, log)
        | None \<Rightarrow>
          let (err, log) = runCmd env [''ip'', ''link'', ''set'', tapName, ''master'', nm_bridge nm] log in
          case err of
            Some e \<Rightarrow>
              (Inl (''attach tap to bridge: '' @ e), nm, snd (runCmd env [''ip'', ''link'', ''del'', tapName] log))
          | None \<Rightarrow>
            let (err, log) = runCmd env [''ip'', ''link'', ''set'', tapName, ''up''] log in
            case err of
              Some e \<Rightarrow> (Inl (''bring up tap: '' @ e), nm, snd (runCmd env [''ip'', ''link'', ''del'', tapName] log))
            | None \<Rightarrow>
              (Inr \<lparr>nc_TapDevice = tapName, nc_GuestIP = IP_String ip, nc_GatewayIP = IP_String (nm_gateway nm),
                    nc_MacAddress = mac, nc_SubnetMask = dec_nat (in_Bits (nm_subnet nm))\<rparr>,
               nm\<lparr>nm_allocated := (nm_allocated nm)(vmID \<mapsto> IP_String ip)\<rparr>, log))"

definition ReleaseNetwork ::
  "host_env \<Rightarrow> string \<Rightarrow> string \<Rightarrow> network_manager \<Rightarrow> command list \<Rightarrow> network_manager \<times> command list" where
  "ReleaseNetwork env vmID tapDevice nm log =
     (let log = (if tapDevice \<noteq> '''' then snd (runCmd env [''ip'', ''link'', ''del'', tapDevice] log) else log)
      in (nm\<lparr>nm_allocated := (nm_allocated nm)(vmID := None)\<rparr>, log))"

end
