(* ===== verification/Guest_Files.thy ===== *)
theory Guest_Files
  imports Vm_Network
begin

section \<open>Preparing the guest's file system\<close>

text \<open>
  The part of \<^verbatim>\<open>internal/vm/manager.go\<close> that edits the root image of a VM before it boots,
  with the \<^verbatim>\<open>debugfs\<close> program: every edit dumps or writes one file through a temporary file of
  the host, which is gone when the edit returns. The state is the list of commands run; a
  \<^verbatim>\<open>debugfs\<close> write command has the content of the temporary file it reads as a last, extra
  argument. Besides the programs (\<open>host_env\<close>) the parameters are the name \<^verbatim>\<open>os.CreateTemp\<close> draws, what a dump command left
  in the temporary file, and the failures of the operating system.
\<close>

record guest_env =
  ge_host :: host_env
  ge_CreateTemp :: "command list \<Rightarrow> string + string"
  ge_dumped :: "command list \<Rightarrow> string"
  ge_os_error :: "string \<Rightarrow> string \<Rightarrow> string option"

subsection \<open>Edits of single files\<close>

text \<open>\<^verbatim>\<open>strings.ReplaceAll\<close> for a non-empty pattern.\<close>

function ReplaceAll :: "string \<Rightarrow> string \<Rightarrow> string \<Rightarrow> string" where
  "ReplaceAll s old new =
     (if s = '''' \<or> old = '''' then s
      else if HasPrefix s old then new @ ReplaceAll (drop (length old) s) old new
      else hd s # ReplaceAll (tl s) old new)"
  by pat_completeness auto
termination by (relation "measure (\<lambda>(s, _, _). length s)") auto

declare ReplaceAll.simps [simp del]

definition patch_sshd :: "string \<Rightarrow> string" where
  "patch_sshd s =
     (let yes = NL @ ''UsePAM yes'' @ NL; no = NL @ ''UsePAM no'' @ NL;
          s = (if Contains s yes then ReplaceAll s yes no else s)
      in if \<not> Contains s no then (if \<not> HasSuffix s NL then s @ NL else s) @ ''UsePAM no'' @ NL else s)"

fun patch_shadow_lines :: "string list \<Rightarrow> string list" where
  "patch_shadow_lines [] = []"
| "patch_shadow_lines (line # lines) =
     (if \<not> HasPrefix line ''ussycode:'' then line # patch_shadow_lines lines
      else
        let parts = Split line CHR '':'' in
        (if length parts > 1 \<and> (HasPrefix (parts ! 1) ''!'' \<or> HasPrefix (parts ! 1) ''*'')
         then Join_strings (parts[1 := ''x'']) '':'' else line) # lines)"

definition patch_shadow :: "string \<Rightarrow> string" where
  "patch_shadow s = Join_strings (patch_shadow_lines (Split s (CHR 10))) NL"

text \<open>A list of \<^verbatim>\<open>debugfs -w\<close> commands, ended by the first error that is not tolerated.\<close>

fun debugfs_all ::
  "guest_env \<Rightarrow> (string \<Rightarrow> string \<Rightarrow> bool) \<Rightarrow> string \<Rightarrow> string \<Rightarrow> string list \<Rightarrow> command list \<Rightarrow>
   string option \<times> command list" where
  "debugfs_all env tolerated rootfs content [] log = (None, log)"
| "debugfs_all env tolerated rootfs content (cmdText # cmds) log =
     (case Execute (ge_host env) ([''debugfs'', ''-w'', ''-R'', cmdText, rootfs] @
             (if HasPrefix cmdText ''write '' then [content] else [])) log of
        ((out, Some e), log) \<Rightarrow>
          if tolerated cmdText out then debugfs_all env tolerated rootfs content cmds log
          else (Some (''debugfs '' @ go_quote cmdText @ '': '' @ out @ '': '' @ e), log)
      | ((out, None), log) \<Rightarrow> debugfs_all env tolerated rootfs content cmds log)"

definition replace_cmds :: "string \<Rightarrow> string \<Rightarrow> int \<Rightarrow> int \<Rightarrow> string \<Rightarrow> string list" where
  "replace_cmds guestPath tmpPath uid gid mode =
     [''rm '' @ guestPath,
      ''write '' @ tmpPath @ '' '' @ guestPath,
      ''set_inode_field '' @ guestPath @ '' uid '' @ dec uid,
      ''set_inode_field '' @ guestPath @ '' gid '' @ dec gid,
      ''set_inode_field '' @ guestPath @ '' mode '' @ mode]"

definition mkdirExt4 :: "guest_env \<Rightarrow> string \<Rightarrow> string \<Rightarrow> command list \<Rightarrow> string option \<times> command list" where
  "mkdirExt4 env rootfs dir log =
     (case Execute (ge_host env) [''debugfs'', ''-w'', ''-R'', ''mkdir '' @ dir, rootfs] log of
        ((out, Some e), log) \<Rightarrow>
          if Contains out ''Ext2 directory already exists'' then (None, log)
          else (Some (''debugfs mkdir '' @ dir @ '': '' @ out @ '': '' @ e), log)
      | ((out, None), log) \<Rightarrow> (None, log))"

definition writeExt4File ::
  "guest_env \<Rightarrow> string \<Rightarrow> string \<Rightarrow> string \<Rightarrow> int \<Rightarrow> int \<Rightarrow> string \<Rightarrow> command list \<Rightarrow> string option \<times> command list" where
  "writeExt4File env rootfs guestPath content uid gid mode log =
     (case ge_CreateTemp env log of
        Inl e \<Rightarrow> (Some e, log)
      | Inr tmpPath \<Rightarrow>
        (case ge_os_error env ''write'' tmpPath of
           Some e \<Rightarrow> (Some e, log)
         | None \<Rightarrow>
           debugfs_all env (\<lambda>cmd out. HasPrefix cmd ''rm '' \<and> Contains out ''File not found'') rootfs content
             (replace_cmds guestPath tmpPath uid gid mode) log))"

definition rewriteExt4File ::
  "guest_env \<Rightarrow> string \<Rightarrow> string \<Rightarrow> int \<Rightarrow> int \<Rightarrow> string \<Rightarrow> (string \<Rightarrow> string) \<Rightarrow> command list \<Rightarrow>
   string option \<times> command list" where
  "rewriteExt4File env rootfs guestPath uid gid mode mutate log =
     (case ge_CreateTemp env log of
        Inl e \<Rightarrow> (Some e, log)
      | Inr tmpPath \<Rightarrow>
        (case Execute (ge_host env) [''debugfs'', ''-R'', ''dump '' @ guestPath @ '' '' @ tmpPath, rootfs] log of
           ((out, Some e), log) \<Rightarrow> (Some (''debugfs dump '' @ guestPath @ '': '' @ out @ '': '' @ e), log)
         | ((out, None), log) \<Rightarrow>
           (case ge_os_error env ''read'' tmpPath of
              Some e \<Rightarrow> (Some e, log)
            | None \<Rightarrow>
              (case ge_os_error env ''write'' tmpPath of
                 Some e \<Rightarrow> (Some e, log)
               | None \<Rightarrow>
                 debugfs_all env (\<lambda>_ _. False) rootfs (mutate (ge_dumped env log))
                   (replace_cmds guestPath tmpPath uid gid mode) log))))"

subsection \<open>Texts installed in the guest\<close>

definition ussycodeOpencodeConfig :: string where
  \<open>ussycodeOpencodeConfig =
     ''{'' @ NL @
     ''  "$schema": "https://opencode.ai/config.json",'' @ NL @
     ''  "instructions": ["instructions/ussycode-runtime.md"],'' @ NL @
     ''  "provider": {'' @ NL @
     ''    "zai": {'' @ NL @
     ''      "npm": "@ai-sdk/openai-compatible",'' @ NL @
     ''      "name": "Zai (GLM via ussycode)",'' @ NL @
     ''      "options": {'' @ NL @
     ''        "apiKey": "{env:OPENCODE_API_KEY}",'' @ NL @
     ''        "baseURL": "{env:OPENCODE_BASE_URL}"'' @ NL @
     ''      },'' @ NL @
     ''      "models": {'' @ NL @
     ''        "glm-5": { "name": "GLM-5" },'' @ NL @
     ''        "glm-5-turbo": { "name": "GLM-5 Turbo" },'' @ NL @
     ''        "glm-4.7": { "name": "GLM-4.7" },'' @ NL @
     ''        "glm-4.7-flash": { "name": "GLM-4.7 Flash" },'' @ NL @
     ''        "glm-4.6": { "name": "GLM-4.6" },'' @ NL @
     ''        "glm-4.6v": { "name": "GLM-4.6V" },'' @ NL @
     ''        "glm-4.5": { "name": "GLM-4.5" },'' @ NL @
     ''        "glm-4.5-air": { "name": "GLM-4.5 Air" },'' @ NL @
     ''        "glm-4.5-flash": { "name": "GLM-4.5 Flash" },'' @ NL @
     ''        "glm-4.5v": { "name": "GLM-4.5V" }'' @ NL @
     ''      }'' @ NL @
     ''    }'' @ NL @
     ''  },'' @ NL @
     ''  "model": "zai/glm-5"'' @ NL @
     ''}'' @ NL\<close>

definition ussycodeOpencodeInstruction :: string where
  \<open>ussycodeOpencodeInstruction =
     ''You are running inside a ussycode VM.'' @ NL @
     NL @
     ''When a user asks you to run, preview, host, expose, or share a web app from this VM, load the ussycode-web-proxy skill and follow it.'' @ NL @
     NL @
     ''Default behavior in this environment:'' @ NL @
     ''- bind web servers to 0.0.0.0, not localhost'' @ NL @
     ''- prefer port 8080 because ussycode proxies that port automatically'' @ NL @
     ''- the public URL is https://$USSYCODE_VM_NAME.$USSYCODE_PUBLIC_DOMAIN (read both env vars to construct it)'' @ NL\<close>

definition ussycodeOpencodeSkill :: string where
  \<open>ussycodeOpencodeSkill =
     ''---'' @ NL @
     ''name: ussycode-web-proxy'' @ NL @
     ''description: Expose web apps correctly from a ussycode VM by binding to 0.0.0.0:8080 and reporting the public proxy URL.'' @ NL @
     ''---'' @ NL @
     NL @
     ''## When to use me'' @ NL @
     NL @
     ''Use this when the user wants to run, preview, host, expose, share, or remotely access an HTTP app from inside a ussycode VM.'' @ NL @
     NL @
     ''## What to do'' @ NL @
     NL @
     ''1. Read the env vars `USSYCODE_VM_NAME` and `USSYCODE_PUBLIC_DOMAIN` to construct the public URL.'' @ NL @
     ''2. The public URL is always `https://$USSYCODE_VM_NAME.$USSYCODE_PUBLIC_DOMAIN`.'' @ NL @
     ''3. Bind services to `0.0.0.0`, not `127.0.0.1`.'' @ NL @
     ''4. Prefer port `8080` because ussycode proxies that port automatically.'' @ NL @
     ''5. If a framework defaults to another port, change it to `8080` unless the user explicitly wants something else.'' @ NL @
     ''6. If the app is already running on the wrong host or port, fix the command/config rather than just reporting a localhost URL.'' @ NL @
     NL @
     ''## Public URL construction'' @ NL @
     NL @
     ''**Always** read the env vars to build the URL. Example: if `USSYCODE_VM_NAME=mild-owl` and `USSYCODE_PUBLIC_DOMAIN=dev.ussyco.de`, the public URL is `https://mild-owl.dev.ussyco.de`.'' @ NL @
     NL @
     ''Do NOT guess the domain. Do NOT use `vmname.ussyco.de` '' @ [CHR 0xE2, CHR 0x80, CHR 0x94] @ '' always include the full domain from `USSYCODE_PUBLIC_DOMAIN`.'' @ NL @
     NL @
     ''## Common commands'' @ NL @
     NL @
     ''- `python3 -m http.server 8080 --bind 0.0.0.0`'' @ NL @
     ''- `uvicorn app:app --host 0.0.0.0 --port 8080`'' @ NL @
     ''- `streamlit run app.py --server.address 0.0.0.0 --server.port 8080`'' @ NL @
     ''- `npm run dev -- --host 0.0.0.0 --port 8080`'' @ NL @
     ''- `vite --host 0.0.0.0 --port 8080`'' @ NL @
     ''- `next dev -H 0.0.0.0 -p 8080`'' @ NL @
     NL @
     ''## Verify'' @ NL @
     NL @
     ''- confirm the app listens on `0.0.0.0:8080`'' @ NL @
     ''- tell the user the public URL (from env vars), not a localhost URL'' @ NL\<close>

subsection \<open>The whole preparation\<close>

text \<open>Steps in sequence, each error prefixed with what failed.\<close>

fun first_error :: "(string \<times> (command list \<Rightarrow> string option \<times> command list)) list \<Rightarrow> command list \<Rightarrow> string option \<times> command list" where
  "first_error [] log = (None, log)"
| "first_error ((what, step) # steps) log =
     (case step log of
        (Some e, log) \<Rightarrow> (Some (what @ e), log)
      | (None, log) \<Rightarrow> first_error steps log)"

definition installOpencodeRuntimeFiles :: "guest_env \<Rightarrow> string \<Rightarrow> command list \<Rightarrow> string option \<times> command list" where
  "installOpencodeRuntimeFiles env rootfs =
     (let base = Join [''home'', ''ussycode'', ''.config'', ''opencode''] in
      first_error
        [('''', mkdirExt4 env rootfs ''/home/ussycode/.config''),
         ('''', mkdirExt4 env rootfs ''/home/ussycode/.config/opencode''),
         ('''', mkdirExt4 env rootfs ''/home/ussycode/.config/opencode/instructions''),
         ('''', mkdirExt4 env rootfs ''/home/ussycode/.config/opencode/skills''),
         ('''', mkdirExt4 env rootfs ''/home/ussycode/.config/opencode/skills/ussycode-web-proxy''),
         ('''', writeExt4File env rootfs (''/'' @ Join [base, ''opencode.json'']) ussycodeOpencodeConfig 1001 1001 ''0100644''),
         ('''', writeExt4File env rootfs (''/'' @ Join [base, ''instructions'', ''ussycode-runtime.md'']) ussycodeOpencodeInstruction 1001 1001 ''0100644''),
         ('''', writeExt4File env rootfs (''/'' @ Join [base, ''skills'', ''ussycode-web-proxy'', ''SKILL.md'']) ussycodeOpencodeSkill 1001 1001 ''0100644'')])"

definition configureGuestSSH :: "guest_env \<Rightarrow> string \<Rightarrow> command list \<Rightarrow> string option \<times> command list" where
  "configureGuestSSH env rootfs =
     first_error
       [(''patch sshd_config: '', rewriteExt4File env rootfs ''/etc/ssh/sshd_config'' 0 0 ''0100644'' patch_sshd),
        (''patch shadow: '', rewriteExt4File env rootfs ''/etc/shadow'' 0 42 ''0100640'' patch_shadow),
        (''patch sudo permissions: '', rewriteExt4File env rootfs ''/usr/bin/sudo'' 0 0 ''0104755'' (\<lambda>s. s)),
        (''patch resolv.conf: '', rewriteExt4File env rootfs ''/etc/resolv.conf'' 0 0 ''0100644''
           (\<lambda>_. ''nameserver 1.1.1.1'' @ NL @ ''nameserver 8.8.8.8'' @ NL)),
        (''install opencode runtime files: '', installOpencodeRuntimeFiles env rootfs)]"

definition rootfs_path :: "string \<Rightarrow> int \<Rightarrow> string" where
  "rootfs_path dataDir vmID = Join [dataDir, ''disks'', ''vm-'' @ dec vmID @ ''-rootfs.ext4'']"

definition data_path :: "string \<Rightarrow> int \<Rightarrow> string" where
  "data_path dataDir vmID = Join [dataDir, ''disks'', ''vm-'' @ dec vmID @ ''-data.ext4'']"

definition authorized_keys_cmds :: "string \<Rightarrow> string list" where
  "authorized_keys_cmds tmpPath =
     [''rm /home/ussycode/.ssh/authorized_keys'',
      ''write '' @ tmpPath @ '' /home/ussycode/.ssh/authorized_keys'',
      ''set_inode_field /home/ussycode/.ssh/authorized_keys uid 1001'',
      ''set_inode_field /home/ussycode/.ssh/authorized_keys gid 1001'',
      ''set_inode_field /home/ussycode/.ssh/authorized_keys mode 0100600'',
      ''set_inode_field /home/ussycode/.ssh uid 1001'',
      ''set_inode_field /home/ussycode/.ssh gid 1001'',
      ''set_inode_field /home/ussycode/.ssh mode 040700'',
      ''set_inode_field /home/ussycode uid 1001'',
      ''set_inode_field /home/ussycode gid 1001'']"

text \<open>\<^verbatim>\<open>os.Stat\<close>: \<open>paths\<close> are the files that exist.\<close>

definition os_Stat :: "guest_env \<Rightarrow> string list \<Rightarrow> string \<Rightarrow> string option" where
  "os_Stat env paths path =
     (if path \<notin> set paths then Some (''stat '' @ path @ '': no such file or directory'') else ge_os_error env ''stat'' path)"

definition SeedAuthorizedKeys ::
  "guest_env \<Rightarrow> string \<Rightarrow> string list \<Rightarrow> int \<Rightarrow> string list \<Rightarrow> command list \<Rightarrow> string option \<times> command list" where
  "SeedAuthorizedKeys env dataDir paths vmID keys log =
     (let rootfs = rootfs_path dataDir vmID in
      case os_Stat env paths rootfs of
        Some e \<Rightarrow> (Some (''stat rootfs: '' @ e), log)
      | None \<Rightarrow>
        (case configureGuestSSH env rootfs log of
           (Some e, log) \<Rightarrow> (Some e, log)
         | (None, log) \<Rightarrow>
           if keys = [] then (None, log)
           else case ge_CreateTemp env log of
             Inl e \<Rightarrow> (Some (''create temp keys file: '' @ e), log)
           | Inr tmpPath \<Rightarrow>
             (case ge_os_error env ''write'' tmpPath of
                Some e \<Rightarrow> (Some (''write temp keys file: '' @ e), log)
              | None \<Rightarrow>
                debugfs_all env (\<lambda>_ _. False) rootfs (Join_strings keys NL @ NL) (authorized_keys_cmds tmpPath) log)))"

end
