(* ===== verification/Db_Frames.thy ===== *)
theory Db_Frames
  imports Db_Properties
begin

section \<open>What database operations leave alone, for the components that share the database\<close>

text \<open>
  No operation opens or closes a pool, and only the operations on LLM keys touch their table.
\<close>

lemma WriteTx_same_pools: "writer_open (snd (WriteTx fn d)) = writer_open d \<and> reader_open (snd (WriteTx fn d)) = reader_open d"
  by (simp add: WriteTx_pools)

lemma op_pools:
  "writer_open (run_account_op now ao d) = writer_open d" "reader_open (run_account_op now ao d) = reader_open d"
  "writer_open (run_vm_op now vo d) = writer_open d" "reader_open (run_vm_op now vo d) = reader_open d"
  "writer_open (run_share_op now so d) = writer_open d" "reader_open (run_share_op now so d) = reader_open d"
  "writer_open (run_token_op now tk d) = writer_open d" "reader_open (run_token_op now tk d) = reader_open d"
  "writer_open (run_llm_op now lo d) = writer_open d" "reader_open (run_llm_op now lo d) = reader_open d"
  "writer_open (run_arena_op now ro d) = writer_open d" "reader_open (run_arena_op now ro d) = reader_open d"
proof -
  show "writer_open (run_account_op now ao d) = writer_open d" "reader_open (run_account_op now ao d) = reader_open d"
    by (cases ao; simp add: account_defs WriteTx_pools Let_def)+
  show "writer_open (run_vm_op now vo d) = writer_open d" "reader_open (run_vm_op now vo d) = reader_open d"
    by (cases vo; simp add: machine_defs WriteTx_pools)+
  show "writer_open (run_share_op now so d) = writer_open d" "reader_open (run_share_op now so d) = reader_open d"
    by (cases so; simp add: share_defs WriteTx_pools)+
  show "writer_open (run_token_op now tk d) = writer_open d" "reader_open (run_token_op now tk d) = reader_open d"
    by (cases tk; simp add: token_defs WriteTx_pools)+
  show "writer_open (run_llm_op now lo d) = writer_open d" "reader_open (run_llm_op now lo d) = reader_open d"
    by (cases lo; simp add: llm_defs WriteTx_pools)+
  show "writer_open (run_arena_op now ro d) = writer_open d" "reader_open (run_arena_op now ro d) = reader_open d"
    by (cases ro; simp add: arena_defs WriteTx_pools)+
qed

lemma run_op_pools: "writer_open (run_op now op d) = writer_open d" "reader_open (run_op now op d) = reader_open d"
  by (cases op; simp add: op_pools)+

lemma llm_keys_frame:
  "llm_keys (tables (run_account_op now ao d)) = llm_keys (tables d)"
  "llm_keys (tables (run_vm_op now vo d)) = llm_keys (tables d)"
  "llm_keys (tables (run_share_op now so d)) = llm_keys (tables d)"
  "llm_keys (tables (run_token_op now tk d)) = llm_keys (tables d)"
  "llm_keys (tables (run_arena_op now ro d)) = llm_keys (tables d)"
proof -
  show "llm_keys (tables (run_account_op now ao d)) = llm_keys (tables d)"
    by (cases ao, auto simp: account_defs op_Inr intro!: WriteTx_frame split: if_split_asm)
  show "llm_keys (tables (run_vm_op now vo d)) = llm_keys (tables d)"
    by (cases vo, auto simp: machine_defs op_Inr intro!: WriteTx_frame split: if_split_asm)
  show "llm_keys (tables (run_share_op now so d)) = llm_keys (tables d)"
    by (cases so, auto simp: share_defs op_Inr intro!: WriteTx_frame split: if_split_asm)
  show "llm_keys (tables (run_token_op now tk d)) = llm_keys (tables d)"
    by (cases tk, auto simp: token_defs op_Inr intro!: WriteTx_frame split: if_split_asm)
  show "llm_keys (tables (run_arena_op now ro d)) = llm_keys (tables d)"
    by (cases ro, auto simp: arena_defs op_Inr intro!: WriteTx_frame split: if_split_asm)
qed

text \<open>An operation that neither sets nor deletes the key of this user and provider.\<close>

fun keeps_key :: "int \<Rightarrow> string \<Rightarrow> db_op \<Rightarrow> bool" where
  "keeps_key u p (Llm (OpSetLLMKey v q k)) \<longleftrightarrow> (v, q) \<noteq> (u, p)"
| "keeps_key u p (Llm (OpDeleteLLMKey v q)) \<longleftrightarrow> (v, q) \<noteq> (u, p)"
| "keeps_key u p _ \<longleftrightarrow> True"

lemma GetLLMKey_kept:
  assumes "keeps_key u p op"
  shows "GetLLMKey u p (run_op now op d) = GetLLMKey u p d"
proof -
  let ?q = "\<lambda>k. lk_UserID k = u \<and> lk_Provider k = p"
  have "sql_select ?q (llm_keys (tables (run_op now op d))) = sql_select ?q (llm_keys (tables d))"
  proof (cases op)
    case (Llm x)
    show ?thesis
    proof (cases x)
      case (OpSetLLMKey v r k)
      with assms Llm have ne: "(v, r) \<noteq> (u, p)" by simp
      have keep: "sql_select ?q (sql_upsert llm_key_clash f row (llm_keys t)) = sql_select ?q (llm_keys t)"
        if "\<And>s. lk_UserID (f s) = lk_UserID s \<and> lk_Provider (f s) = lk_Provider s" "lk_UserID row = v" "lk_Provider row = r"
        for f row t using ne that by (intro select_upsert_other) (auto simp: llm_key_clash_def)
      then show ?thesis using Llm OpSetLLMKey
        by (auto simp: SetLLMKey_def op_Inr Let_def bump_def keep intro!: WriteTx_frame split: if_split_asm)
    next
      case (OpDeleteLLMKey v r)
      with assms Llm have "(v, r) \<noteq> (u, p)" by simp
      then have "sql_select ?q (sql_delete (\<lambda>k. lk_UserID k = v \<and> lk_Provider k = r) ks) = sql_select ?q ks" for ks
        by (induction ks) (auto simp: sql_select_def sql_delete_def)
      then show ?thesis using Llm OpDeleteLLMKey
        by (auto simp: DeleteLLMKey_def op_Inr intro!: WriteTx_frame)
    next
      case (OpIncrementLLMUsage v r k m)
      then show ?thesis using Llm
        by (auto simp: IncrementLLMUsage_def op_Inr Let_def bump_def intro!: WriteTx_frame split: if_split_asm)
    qed
  qed (simp_all add: llm_keys_frame)
  then show ?thesis by (simp add: GetLLMKey_def ReadTx_def run_op_pools)
qed

lemma GetLLMKey_kept_steps:
  "list_all (\<lambda>(now, op). keeps_key u p op) ops \<Longrightarrow> GetLLMKey u p (run_ops ops d) = GetLLMKey u p d"
  by (induction ops arbitrary: d) (auto simp: GetLLMKey_kept)

lemma GetLLMKey_set:
  assumes "reader_open d" "SetLLMKey now u p enc d = (Inr (), d')"
  shows "GetLLMKey u p d' = Inr enc"
proof -
  define row where "row = \<lparr>lk_ID = next_id TLlmKeys (tables d), lk_UserID = u, lk_Provider = p,
    lk_EncryptedKey = enc, lk_CreatedAt = unix now, lk_UpdatedAt = unix now\<rparr>"
  let ?f = "\<lambda>k. k\<lparr>lk_EncryptedKey := enc, lk_UpdatedAt := unix now\<rparr>"
  have d': "llm_keys (tables d') = sql_upsert llm_key_clash ?f row (llm_keys (tables d))" "reader_open d'"
    using assms unfolding SetLLMKey_def WriteTx_Inr exec_Inr
    by (clarsimp simp: Let_def bump_def row_def split: if_split_asm)+
  have key: "(\<lambda>k. lk_UserID k = u \<and> lk_Provider k = p) = (\<lambda>k. llm_key_clash k row)"
    by (auto simp: llm_key_clash_def row_def)
  have "query_row (sql_select (\<lambda>k. llm_key_clash k row) (llm_keys (tables d'))) =
      Inr (case query_row (sql_select (\<lambda>k. llm_key_clash k row) (llm_keys (tables d))) of Inl _ \<Rightarrow> row | Inr y \<Rightarrow> ?f y)"
    unfolding d' by (rule query_row_upsert) (simp_all add: llm_key_clash_def row_def)
  then obtain k where k: "query_row (sql_select (\<lambda>k. llm_key_clash k row) (llm_keys (tables d'))) = Inr k" "lk_EncryptedKey k = enc"
    by (auto simp: row_def split: sum.splits)
  then show ?thesis using d'(2)
    by (cases "sql_select (\<lambda>k. llm_key_clash k row) (llm_keys (tables d'))")
      (auto simp: GetLLMKey_def ReadTx_def key query_row_def)
qed

end
