(* ===== verification/Vm_Manager.thy ===== *)
theory Vm_Manager
  imports Guest_Files Db_Frames
begin

section \<open>The Firecracker driver and the VM manager\<close>

text \<open>
  \<^verbatim>\<open>internal/vm/firecracker.go\<close> and the life cycle of VMs in
  \<^verbatim>\<open>internal/vm/manager.go\<close>: disks, network, firewall, Firecracker process and database row
  of a VM, through its creation, start, stop and destruction. The Firecracker SDK is the parameter of
  the driver: a machine is named by the position of its \<open>NewMachine\<close> call in the list of the calls
  made, and the SDK answers from that list. The image manager, which runs Docker, is a parameter.
  A file is only known to exist or not; an operation uses one reading of the clock for the rows it
  updates. Each operation runs alone: the goroutines of two SSH sessions do not interleave here.
\<close>

subsection \<open>firecracker.go\<close>

record Drive =
  dr_DriveID :: string
  dr_PathOnHost :: string
  dr_IsRootDevice :: bool
  dr_IsReadOnly :: bool

record fc_Config =
  fcc_SocketPath :: string
  fcc_KernelImagePath :: string
  fcc_InitrdPath :: string
  fcc_KernelArgs :: string
  fcc_VcpuCount :: int
  fcc_MemSizeMib :: int
  fcc_Drives :: "Drive list"
  fcc_NetworkInterfaces :: "(string \<times> string) list"  \<comment> \<open>MAC address and host device\<close>

record VMStartOptions =
  so_VMID :: string
  so_RootfsPath :: string
  so_DataDiskPath :: string
  so_VCPU :: int
  so_MemoryMB :: int
  so_NetworkConfig :: "NetworkConfig option"

record FirecrackerVM =
  fv_machine :: nat
  fv_socketPath :: string
  fv_logPath :: string

datatype fc_call =
    NewMachine fc_Config | machine_Start nat | machine_Shutdown nat | machine_StopVMM nat
  | machine_Wait nat | cancel_context nat

record vm_env =
  ve_guest :: guest_env
  ve_dataDir :: string
  ve_kernelPath :: string
  ve_initrdPath :: string
  ve_sdk :: "fc_call list \<Rightarrow> fc_call \<Rightarrow> string option"  \<comment> \<open>the error of a call\<close>
  ve_PID :: "fc_call list \<Rightarrow> nat \<Rightarrow> string + int"
  ve_alive :: "int \<Rightarrow> bool"
  ve_EnsureRootfs :: "string \<Rightarrow> string + string"

text \<open>\<^verbatim>\<open>strconv.Atoi\<close>: an optional sign and decimal digits, within 64 bits.\<close>

definition Atoi :: "string \<Rightarrow> int option" where
  "Atoi s =
     (let neg = HasPrefix s ''-''; ds = (if HasPrefix s ''-'' \<or> HasPrefix s ''+'' then tl s else s) in
      case parse_digits ds of
        None \<Rightarrow> None
      | Some n \<Rightarrow> let i = (if neg then - int n else int n) in if in_i64 i then Some i else None)"

definition cidrMaskToNetmask :: "string \<Rightarrow> string" where
  "cidrMaskToNetmask cidr =
     (case Atoi cidr of
        None \<Rightarrow> ''255.255.255.0''
      | Some bits \<Rightarrow>
        if bits < 0 \<or> bits > 32 then ''255.255.255.0'' else IP_String (CIDRMask (nat bits)))"

definition vm_run_dir :: "vm_env \<Rightarrow> string \<Rightarrow> string" where
  "vm_run_dir env vmID = Join [ve_dataDir env, ''run'', vmID]"

definition fc_config :: "vm_env \<Rightarrow> VMStartOptions \<Rightarrow> fc_Config" where
  "fc_config env opts =
     \<lparr>fcc_SocketPath = Join [vm_run_dir env (so_VMID opts), ''firecracker.sock''],
      fcc_KernelImagePath = ve_kernelPath env,
      fcc_InitrdPath = ve_initrdPath env,
      fcc_KernelArgs = ''console=ttyS0 reboot=k panic=1 rootwait pci=off'' @
        (case so_NetworkConfig opts of None \<Rightarrow> '''' | Some nc \<Rightarrow>
           '' ip='' @ nc_GuestIP nc @ ''::'' @ nc_GatewayIP nc @ '':'' @ cidrMaskToNetmask (nc_SubnetMask nc) @ ''::eth0:off''),
      fcc_VcpuCount = so_VCPU opts,
      fcc_MemSizeMib = so_MemoryMB opts,
      fcc_Drives =
        \<lparr>dr_DriveID = ''rootfs'', dr_PathOnHost = so_RootfsPath opts, dr_IsRootDevice = True, dr_IsReadOnly = False\<rparr> #
        (if so_DataDiskPath opts \<noteq> '''' then
           [\<lparr>dr_DriveID = ''data'', dr_PathOnHost = so_DataDiskPath opts, dr_IsRootDevice = False, dr_IsReadOnly = False\<rparr>]
         else []),
      fcc_NetworkInterfaces =
        (case so_NetworkConfig opts of None \<Rightarrow> [] | Some nc \<Rightarrow> [(nc_MacAddress nc, nc_TapDevice nc)])\<rparr>"

text \<open>The context of a VM is named like its machine; a failed start cancels it.\<close>

definition StartVM :: "vm_env \<Rightarrow> VMStartOptions \<Rightarrow> fc_call list \<Rightarrow> (string + FirecrackerVM) \<times> fc_call list" where
  "StartVM env opts fcs =
     (let m = length fcs; vmRunDir = vm_run_dir env (so_VMID opts);
          socketPath = Join [vmRunDir, ''firecracker.sock'']; logPath = Join [vmRunDir, ''firecracker.log''] in
      case ge_os_error (ve_guest env) ''mkdir'' vmRunDir of
        Some e \<Rightarrow> (Inl (''create vm run dir: '' @ e), fcs)
      | None \<Rightarrow>
        (case ge_os_error (ve_guest env) ''create'' logPath of
           Some e \<Rightarrow> (Inl (''create log file: '' @ e), fcs @ [cancel_context m])
         | None \<Rightarrow>
           let call = NewMachine (fc_config env opts); err = ve_sdk env fcs call; fcs = fcs @ [call] in
           (case err of
              Some e \<Rightarrow> (Inl (''create firecracker machine: '' @ e), fcs @ [cancel_context m])
            | None \<Rightarrow>
              let err = ve_sdk env fcs (machine_Start m); fcs = fcs @ [machine_Start m] in
              (case err of
                 Some e \<Rightarrow> (Inl (''start firecracker: '' @ e), fcs @ [cancel_context m])
               | None \<Rightarrow> (Inr \<lparr>fv_machine = m, fv_socketPath = socketPath, fv_logPath = logPath\<rparr>, fcs)))))"

definition StopVM :: "vm_env \<Rightarrow> FirecrackerVM option \<Rightarrow> fc_call list \<Rightarrow> fc_call list" where
  "StopVM env vm fcs =
     (case vm of
        None \<Rightarrow> fcs
      | Some vm \<Rightarrow>
        let m = fv_machine vm; err = ve_sdk env fcs (machine_Shutdown m); fcs = fcs @ [machine_Shutdown m];
            fcs = (if err \<noteq> None then fcs @ [machine_StopVMM m] else fcs)
        in fcs @ [machine_Wait m, cancel_context m])"

definition Pid :: "vm_env \<Rightarrow> FirecrackerVM option \<Rightarrow> fc_call list \<Rightarrow> int" where
  "Pid env vm fcs =
     (case vm of
        None \<Rightarrow> 0
      | Some vm \<Rightarrow> (case ve_PID env fcs (fv_machine vm) of Inl _ \<Rightarrow> 0 | Inr pid \<Rightarrow> pid))"

definition IsRunning :: "vm_env \<Rightarrow> FirecrackerVM option \<Rightarrow> fc_call list \<Rightarrow> bool" where
  "IsRunning env vm fcs =
     (case vm of
        None \<Rightarrow> False
      | Some vm \<Rightarrow>
        (case ve_PID env fcs (fv_machine vm) of
           Inl _ \<Rightarrow> False
         | Inr pid \<Rightarrow> if pid \<le> 0 then False else ve_alive env pid))"

subsection \<open>manager.go: files\<close>

record RunningVM =
  rv_VMID :: int
  rv_Name :: string
  rv_FirecrackerVM :: FirecrackerVM
  rv_NetworkConfig :: NetworkConfig

record vm_host =
  vh_db :: db
  vh_net :: network_manager
  vh_log :: "command list"
  vh_fc :: "fc_call list"
  vh_running :: "(int \<times> RunningVM) list"
  vh_files :: "string list"

definition copyFile :: "guest_env \<Rightarrow> string \<Rightarrow> string \<Rightarrow> string list \<Rightarrow> string option \<times> string list" where
  "copyFile env src dst files =
     (if src \<notin> set files then (Some (''open '' @ src @ '': no such file or directory''), files)
      else case ge_os_error env ''open'' src of
        Some e \<Rightarrow> (Some e, files)
      | None \<Rightarrow>
        (case ge_os_error env ''create'' dst of
           Some e \<Rightarrow> (Some e, files)
         | None \<Rightarrow>
           let files = List.insert dst files in
           (case ge_os_error env ''write'' dst of
              Some e \<Rightarrow> (Some e, files)
            | None \<Rightarrow> (ge_os_error env ''sync'' dst, files))))"

definition createEmptyExt4 ::
  "guest_env \<Rightarrow> string \<Rightarrow> string list \<Rightarrow> command list \<Rightarrow> string option \<times> string list \<times> command list" where
  "createEmptyExt4 env path files log =
     (case ge_os_error env ''create'' path of
        Some e \<Rightarrow> (Some e, files, log)
      | None \<Rightarrow>
        let files = List.insert path files in
        (case ge_os_error env ''truncate'' path of
           Some e \<Rightarrow> (Some e, files, log)
         | None \<Rightarrow>
           (case Execute (ge_host env) [''mkfs.ext4'', ''-F'', ''-q'', path] log of
              ((out, Some e), log) \<Rightarrow> (Some (''mkfs.ext4: '' @ out @ '': '' @ e), removeAll path files, log)
            | ((out, None), log) \<Rightarrow> (None, files, log))))"

text \<open>\<^verbatim>\<open>os.Remove\<close>; its error is only logged, or ignored.\<close>

definition os_Remove :: "guest_env \<Rightarrow> string \<Rightarrow> string list \<Rightarrow> string list" where
  "os_Remove env path files = (if ge_os_error env ''remove'' path = None then removeAll path files else files)"

definition CloneDisks :: "vm_env \<Rightarrow> int \<Rightarrow> int \<Rightarrow> vm_host \<Rightarrow> string option \<times> vm_host" where
  "CloneDisks env srcVMID dstVMID h =
     (let g = ve_guest env; dir = ve_dataDir env; files = vh_files h;
          (err, files) =
            (if os_Stat g files (rootfs_path dir srcVMID) = None
             then copyFile g (rootfs_path dir srcVMID) (rootfs_path dir dstVMID) files else (None, files))
      in case err of
        Some e \<Rightarrow> (Some (''copy rootfs: '' @ e), h\<lparr>vh_files := files\<rparr>)
      | None \<Rightarrow>
        let (err, files) =
              (if os_Stat g files (data_path dir srcVMID) = None
               then copyFile g (data_path dir srcVMID) (data_path dir dstVMID) files else (None, files))
        in case err of
          Some e \<Rightarrow> (Some (''copy data disk: '' @ e), h\<lparr>vh_files := os_Remove g (rootfs_path dir dstVMID) files\<rparr>)
        | None \<Rightarrow> (None, h\<lparr>vh_files := files\<rparr>))"

subsection \<open>manager.go: the life cycle\<close>

definition set_status :: "nanos \<Rightarrow> int \<Rightarrow> string \<Rightarrow> vm_host \<Rightarrow> vm_host" where
  "set_status now vmID status h = h\<lparr>vh_db := snd (UpdateVMStatus now vmID status None None None None (vh_db h))\<rparr>"

text \<open>\<^verbatim>\<open>m.db.UpdateVMStatus(..., "error", ...)\<close> and the return of the error.\<close>

definition fail_vm :: "nanos \<Rightarrow> int \<Rightarrow> string \<Rightarrow> vm_host \<Rightarrow> string option \<times> vm_host" where
  "fail_vm now vmID e h = (Some e, set_status now vmID ''error'' h)"

definition release_vm :: "vm_env \<Rightarrow> string \<Rightarrow> string \<Rightarrow> vm_host \<Rightarrow> vm_host" where
  "release_vm env vmIDStr tap h =
     (case ReleaseNetwork (ge_host (ve_guest env)) vmIDStr tap (vh_net h) (vh_log h) of
        (nm, log) \<Rightarrow> h\<lparr>vh_net := nm, vh_log := log\<rparr>)"

text \<open>The end of \<^verbatim>\<open>CreateAndStart\<close> and of \<^verbatim>\<open>Start\<close>, the same code: network, firewall, boot, tracking.\<close>

definition track_vm :: "vm_env \<Rightarrow> nanos \<Rightarrow> int \<Rightarrow> string \<Rightarrow> NetworkConfig \<Rightarrow> FirecrackerVM \<Rightarrow> vm_host \<Rightarrow> vm_host" where
  "track_vm env now vmID name nc fcVM h =
     h\<lparr>vh_db := snd (UpdateVMStatus now vmID ''running'' (Some (nc_TapDevice nc)) (Some (nc_GuestIP nc))
                      (Some (nc_MacAddress nc)) (Some (Pid env (Some fcVM) (vh_fc h))) (vh_db h)),
       vh_running := AList.update vmID
         \<lparr>rv_VMID = vmID, rv_Name = name, rv_FirecrackerVM = fcVM, rv_NetworkConfig = nc\<rparr> (vh_running h)\<rparr>"

definition boot_vm :: "vm_env \<Rightarrow> nanos \<Rightarrow> int \<Rightarrow> string \<Rightarrow> int \<Rightarrow> int \<Rightarrow> vm_host \<Rightarrow> string option \<times> vm_host" where
  "boot_vm env now vmID name vcpu memoryMB h =
     (let host = ge_host (ve_guest env); dir = ve_dataDir env; vmIDStr = dec vmID in
      case SetupBridge host (vh_net h) (vh_log h) of
        (Some e, log) \<Rightarrow> fail_vm now vmID (''setup bridge: '' @ e) (h\<lparr>vh_log := log\<rparr>)
      | (None, log) \<Rightarrow>
        (case AllocateNetwork host vmIDStr (vh_net h) log of
           (Inl e, nm, log) \<Rightarrow> fail_vm now vmID (''allocate network: '' @ e) (h\<lparr>vh_net := nm, vh_log := log\<rparr>)
         | (Inr nc, nm, log) \<Rightarrow>
           (case AddVMRules host vmIDStr (nc_TapDevice nc) (nc_GuestIP nc) log of
              (Some e, log) \<Rightarrow>
                fail_vm now vmID (''add VM firewall rules: '' @ e)
                  (release_vm env vmIDStr (nc_TapDevice nc) (h\<lparr>vh_net := nm, vh_log := log\<rparr>))
            | (None, log) \<Rightarrow>
              (case StartVM env \<lparr>so_VMID = vmIDStr, so_RootfsPath = rootfs_path dir vmID,
                                 so_DataDiskPath = data_path dir vmID, so_VCPU = vcpu,
                                 so_MemoryMB = memoryMB, so_NetworkConfig = Some nc\<rparr> (vh_fc h) of
                 (Inl e, fcs) \<Rightarrow>
                   fail_vm now vmID (''start VM: '' @ e)
                     (release_vm env vmIDStr (nc_TapDevice nc) (h\<lparr>vh_net := nm, vh_log := log, vh_fc := fcs\<rparr>))
               | (Inr fcVM, fcs) \<Rightarrow>
                   (None, track_vm env now vmID name nc fcVM (h\<lparr>vh_net := nm, vh_log := log, vh_fc := fcs\<rparr>))))))"

definition seed_vm :: "vm_env \<Rightarrow> int \<Rightarrow> string list \<Rightarrow> vm_host \<Rightarrow> string option \<times> vm_host" where
  "seed_vm env vmID keys h =
     (case SeedAuthorizedKeys (ve_guest env) (ve_dataDir env) (vh_files h) vmID keys (vh_log h) of
        (err, log) \<Rightarrow> (err, h\<lparr>vh_log := log\<rparr>))"

text \<open>The data disk is created when \<^verbatim>\<open>os.IsNotExist\<close> says it is missing.\<close>

definition ensure_data_disk :: "vm_env \<Rightarrow> int \<Rightarrow> vm_host \<Rightarrow> string option \<times> vm_host" where
  "ensure_data_disk env vmID h =
     (let path = data_path (ve_dataDir env) vmID in
      if path \<in> set (vh_files h) then (None, h)
      else case createEmptyExt4 (ve_guest env) path (vh_files h) (vh_log h) of
        (err, files, log) \<Rightarrow> (err, h\<lparr>vh_files := files, vh_log := log\<rparr>))"

definition CreateAndStart ::
  "vm_env \<Rightarrow> nanos \<Rightarrow> int \<Rightarrow> string \<Rightarrow> string \<Rightarrow> int \<Rightarrow> int \<Rightarrow> string list \<Rightarrow> vm_host \<Rightarrow> string option \<times> vm_host" where
  "CreateAndStart env now vmID name imageRef vcpu memoryMB sshKeys h =
     (case UpdateVMStatus now vmID ''creating'' None None None None (vh_db h) of
        (Inl e, d) \<Rightarrow> (Some ''update status to creating'', h\<lparr>vh_db := d\<rparr>)
      | (Inr (), d) \<Rightarrow>
        let h = h\<lparr>vh_db := d\<rparr> in
        (case ve_EnsureRootfs env imageRef of
           Inl e \<Rightarrow> fail_vm now vmID (''ensure rootfs: '' @ e) h
         | Inr rootfsPath \<Rightarrow>
           (case copyFile (ve_guest env) rootfsPath (rootfs_path (ve_dataDir env) vmID) (List.insert rootfsPath (vh_files h)) of
              (Some e, files) \<Rightarrow> fail_vm now vmID (''copy rootfs: '' @ e) (h\<lparr>vh_files := files\<rparr>)
            | (None, files) \<Rightarrow>
              (case seed_vm env vmID sshKeys (h\<lparr>vh_files := files\<rparr>) of
                 (Some e, h) \<Rightarrow> fail_vm now vmID (''seed authorized keys: '' @ e) h
               | (None, h) \<Rightarrow>
                 (case ensure_data_disk env vmID h of
                    (Some e, h) \<Rightarrow> fail_vm now vmID (''create data disk: '' @ e) h
                  | (None, h) \<Rightarrow> boot_vm env now vmID name vcpu memoryMB h)))))"

definition Start ::
  "vm_env \<Rightarrow> nanos \<Rightarrow> int \<Rightarrow> string \<Rightarrow> int \<Rightarrow> int \<Rightarrow> string list \<Rightarrow> vm_host \<Rightarrow> string option \<times> vm_host" where
  "Start env now vmID name vcpu memoryMB sshKeys h =
     (if rootfs_path (ve_dataDir env) vmID \<notin> set (vh_files h)
      then (Some (''rootfs disk not found for VM '' @ dec vmID @ '' (may need to recreate)''), h)
      else case seed_vm env vmID sshKeys h of
        (Some e, h) \<Rightarrow> fail_vm now vmID (''seed authorized keys: '' @ e) h
      | (None, h) \<Rightarrow>
        (case UpdateVMStatus now vmID ''creating'' None None None None (vh_db h) of
           (Inl e, d) \<Rightarrow> (Some ''update status to creating'', h\<lparr>vh_db := d\<rparr>)
         | (Inr (), d) \<Rightarrow> boot_vm env now vmID name vcpu memoryMB (h\<lparr>vh_db := d\<rparr>)))"

definition Stop :: "vm_env \<Rightarrow> nanos \<Rightarrow> int \<Rightarrow> vm_host \<Rightarrow> string option \<times> vm_host" where
  "Stop env now vmID h =
     (case map_of (vh_running h) vmID of
        None \<Rightarrow> (Some (''VM '' @ dec vmID @ '' is not running''), h)
      | Some rv \<Rightarrow>
        let tap = nc_TapDevice (rv_NetworkConfig rv);
            h = h\<lparr>vh_running := AList.delete vmID (vh_running h), vh_fc := StopVM env (Some (rv_FirecrackerVM rv)) (vh_fc h)\<rparr>;
            h = h\<lparr>vh_log := snd (RemoveVMRules (ge_host (ve_guest env)) (dec vmID) (vh_log h))\<rparr>;
            h = release_vm env (dec vmID) tap h
        in (None, set_status now vmID ''stopped'' h))"

definition Destroy :: "vm_env \<Rightarrow> nanos \<Rightarrow> int \<Rightarrow> vm_host \<Rightarrow> string option \<times> vm_host" where
  "Destroy env now vmID h =
     (let g = ve_guest env; dir = ve_dataDir env;
          h = (if map_of (vh_running h) vmID \<noteq> None then snd (Stop env now vmID h) else h);
          h = h\<lparr>vh_files := os_Remove g (data_path dir vmID) (os_Remove g (rootfs_path dir vmID) (vh_files h))\<rparr>
      in case DeleteVM vmID (vh_db h) of
           (Inl e, d) \<Rightarrow> (Some ''delete VM record'', h\<lparr>vh_db := d\<rparr>)
         | (Inr (), d) \<Rightarrow> (None, h\<lparr>vh_db := d\<rparr>))"

definition GetRunning :: "int \<Rightarrow> vm_host \<Rightarrow> RunningVM option" where
  "GetRunning vmID h = map_of (vh_running h) vmID"

definition ListRunning :: "vm_host \<Rightarrow> RunningVM list" where
  "ListRunning h = map snd (vh_running h)"

definition ShutdownAll :: "vm_env \<Rightarrow> nanos \<Rightarrow> vm_host \<Rightarrow> vm_host" where
  "ShutdownAll env now h = fold (\<lambda>id h. snd (Stop env now id h)) (map fst (vh_running h)) h"

subsection \<open>Histories\<close>

text \<open>The manager's operations, and those of the database by other components.\<close>

datatype host_op =
    HCreateAndStart int string string int int "string list"
  | HStart int string int int "string list"
  | HStop int
  | HDestroy int
  | HCloneDisks int int
  | HShutdownAll
  | HDb db_op

primrec run_host_op :: "vm_env \<Rightarrow> nanos \<Rightarrow> host_op \<Rightarrow> vm_host \<Rightarrow> vm_host" where
  "run_host_op env now (HCreateAndStart v n i c m k) h = snd (CreateAndStart env now v n i c m k h)"
| "run_host_op env now (HStart v n c m k) h = snd (Start env now v n c m k h)"
| "run_host_op env now (HStop v) h = snd (Stop env now v h)"
| "run_host_op env now (HDestroy v) h = snd (Destroy env now v h)"
| "run_host_op env now (HCloneDisks s t) h = snd (CloneDisks env s t h)"
| "run_host_op env now HShutdownAll h = ShutdownAll env now h"
| "run_host_op env now (HDb op) h = h\<lparr>vh_db := run_op now op (vh_db h)\<rparr>"

definition run_host :: "vm_env \<Rightarrow> (nanos \<times> host_op) list \<Rightarrow> vm_host \<Rightarrow> vm_host" where
  "run_host env ops h = fold (\<lambda>(now, op). run_host_op env now op) ops h"

text \<open>A server just started: no VM runs.\<close>

definition fresh_host :: "db \<Rightarrow> network_manager \<Rightarrow> string list \<Rightarrow> vm_host" where
  "fresh_host d nm files = \<lparr>vh_db = d, vh_net = nm, vh_log = [], vh_fc = [], vh_running = [], vh_files = files\<rparr>"

text \<open>Only the manager gives a row an IP address.\<close>

fun sets_address :: "host_op \<Rightarrow> bool" where
  "sets_address (HDb (Machine (OpUpdateVMStatus v s tap (Some ip) mac pid))) = True"
| "sets_address _ = False"

definition no_address :: "db \<Rightarrow> bool" where
  "no_address d = list_all (\<lambda>v. v_IPAddress v = None) (vms (tables d))"

subsection \<open>What the steps change\<close>

lemma seed_vm_frame: "seed_vm env vmID keys h = (err, h') \<Longrightarrow> \<exists>log. h' = h\<lparr>vh_log := log\<rparr>"
  by (auto simp: seed_vm_def split: prod.splits)

lemma ensure_data_disk_frame:
  "ensure_data_disk env vmID h = (err, h') \<Longrightarrow> \<exists>files log. h' = h\<lparr>vh_files := files, vh_log := log\<rparr>"
  by (auto simp: ensure_data_disk_def Let_def split: if_splits prod.splits
      intro: exI [of _ "vh_files h", OF exI [of _ "vh_log h"]])

text \<open>The parts of the state the addresses depend on.\<close>

definition same_vms :: "vm_host \<Rightarrow> vm_host \<Rightarrow> bool" where
  "same_vms h h' \<longleftrightarrow> vh_db h' = vh_db h \<and> vh_running h' = vh_running h"

definition net_spent :: "network_manager \<Rightarrow> network_manager" where
  "net_spent nm = nm\<lparr>nm_nextIP := nm_nextIP nm + 1\<rparr>"

lemma AllocateNetwork_net:
  "AllocateNetwork host v nm log = (r, nm', log') \<Longrightarrow>
     (case r of Inl e \<Rightarrow> nm' = net_spent nm
      | Inr nc \<Rightarrow> nc_GuestIP nc = IP_String (nm_nextIP nm) \<and> nc_TapDevice nc = tap_name v \<and>
          nm' = (net_spent nm)\<lparr>nm_allocated := (nm_allocated nm)(v \<mapsto> nc_GuestIP nc)\<rparr>)"
  by (auto simp: AllocateNetwork_def net_spent_def Let_def split: if_splits prod.splits option.splits)

lemma release_vm_frame [simp]:
  "vh_db (release_vm env v tap h) = vh_db h" "vh_running (release_vm env v tap h) = vh_running h"
  "vh_fc (release_vm env v tap h) = vh_fc h" "vh_files (release_vm env v tap h) = vh_files h"
  "vh_net (release_vm env v tap h) = (vh_net h)\<lparr>nm_allocated := (nm_allocated (vh_net h))(v := None)\<rparr>"
  by (simp_all add: release_vm_def ReleaseNetwork_def Let_def)

lemma boot_vm_cases:
  assumes "boot_vm env now vmID name vcpu mem h = (err, h')"
  obtains (failed) e h1 where "err = Some e" "h' = set_status now vmID ''error'' h1" "same_vms h h1"
      "vh_net h1 = vh_net h \<or> vh_net h1 = net_spent (vh_net h) \<or>
       vh_net h1 = (net_spent (vh_net h))\<lparr>nm_allocated := (nm_allocated (vh_net h))(dec vmID := None)\<rparr>"
  | (booted) nc fcVM h1 where "err = None" "h' = track_vm env now vmID name nc fcVM h1" "same_vms h h1"
      "nc_GuestIP nc = IP_String (nm_nextIP (vh_net h))"
      "vh_net h1 = (net_spent (vh_net h))\<lparr>nm_allocated := (nm_allocated (vh_net h))(dec vmID \<mapsto> nc_GuestIP nc)\<rparr>"
proof -
  note * = assms [unfolded boot_vm_def fail_vm_def Let_def]
  let ?host = "ge_host (ve_guest env)"
  obtain berr log where 1: "SetupBridge ?host (vh_net h) (vh_log h) = (berr, log)" by (cases "SetupBridge ?host (vh_net h) (vh_log h)")
  show ?thesis
  proof (cases berr)
    case (Some e)
    then show ?thesis using * 1 by (intro failed [of "''setup bridge: '' @ e" "h\<lparr>vh_log := log\<rparr>"]) (simp_all add: same_vms_def)
  next
    case None
    obtain r nm log2 where 2: "AllocateNetwork ?host (dec vmID) (vh_net h) log = (r, nm, log2)"
      by (cases "AllocateNetwork ?host (dec vmID) (vh_net h) log")
    note net = AllocateNetwork_net [OF 2]
    show ?thesis
    proof (cases r)
      case (Inl e)
      then show ?thesis using * 1 2 None net
        by (intro failed [of "''allocate network: '' @ e" "h\<lparr>vh_net := nm, vh_log := log2\<rparr>"]) (simp_all add: same_vms_def)
    next
      case (Inr nc)
      obtain ferr log3 where 3: "AddVMRules ?host (dec vmID) (nc_TapDevice nc) (nc_GuestIP nc) log2 = (ferr, log3)"
        by (cases "AddVMRules ?host (dec vmID) (nc_TapDevice nc) (nc_GuestIP nc) log2")
      show ?thesis
      proof (cases ferr)
        case (Some e)
        then show ?thesis using * 1 2 3 None Inr net
          by (intro failed [of "''add VM firewall rules: '' @ e"
                "release_vm env (dec vmID) (nc_TapDevice nc) (h\<lparr>vh_net := nm, vh_log := log3\<rparr>)"])
            (simp_all add: same_vms_def net_spent_def)
      next
        case fnone: None
        let ?opts = "\<lparr>so_VMID = dec vmID, so_RootfsPath = rootfs_path (ve_dataDir env) vmID,
          so_DataDiskPath = data_path (ve_dataDir env) vmID, so_VCPU = vcpu, so_MemoryMB = mem, so_NetworkConfig = Some nc\<rparr>"
        obtain s fcs where 4: "StartVM env ?opts (vh_fc h) = (s, fcs)" by (cases "StartVM env ?opts (vh_fc h)")
        show ?thesis
        proof (cases s)
          case (Inl e)
          then show ?thesis using * 1 2 3 4 None fnone Inr net
            by (intro failed [of "''start VM: '' @ e"
                  "release_vm env (dec vmID) (nc_TapDevice nc) (h\<lparr>vh_net := nm, vh_log := log3, vh_fc := fcs\<rparr>)"])
              (simp_all add: same_vms_def net_spent_def)
        next
          case vm: (Inr fcVM)
          then show ?thesis using * 1 2 3 4 None fnone Inr net
            by (intro booted [of nc fcVM "h\<lparr>vh_net := nm, vh_log := log3, vh_fc := fcs\<rparr>"])
              (simp_all add: same_vms_def net_spent_def)
        qed
      qed
    qed
  qed
qed

subsection \<open>Addresses of running VMs\<close>

text \<open>
  After \<open>n\<close> allocations from \<open>start\<close> on, \<open>slot\<close> numbers the allocation of each running VM,
  and every address in the database belongs to the VM that runs with it.
\<close>

definition slots_ok :: "u32 \<Rightarrow> nat \<Rightarrow> (int \<Rightarrow> nat) \<Rightarrow> (int \<rightharpoonup> RunningVM) \<Rightarrow> bool" where
  "slots_ok start n slot run \<longleftrightarrow>
     inj_on slot (dom run) \<and>
     (\<forall>i rv. run i = Some rv \<longrightarrow>
        slot i < n \<and> nc_GuestIP (rv_NetworkConfig rv) = IP_String (start + of_nat (slot i)))"

definition rows_tracked :: "(int \<rightharpoonup> RunningVM) \<Rightarrow> vm list \<Rightarrow> bool" where
  "rows_tracked run rows \<longleftrightarrow>
     (\<forall>v \<in> set rows. \<forall>ip. v_IPAddress v = Some ip \<longrightarrow>
        (\<exists>rv. run (v_ID v) = Some rv \<and> nc_GuestIP (rv_NetworkConfig rv) = ip))"

definition host_inv :: "u32 \<Rightarrow> nat \<Rightarrow> vm_host \<Rightarrow> bool" where
  "host_inv start n h \<longleftrightarrow>
     writer_open (vh_db h) \<and> nm_nextIP (vh_net h) = start + of_nat n \<and>
     (\<exists>slot. slots_ok start n slot (map_of (vh_running h))) \<and>
     rows_tracked (map_of (vh_running h)) (vms (tables (vh_db h)))"

lemma IP_String_inj: "IP_String a = IP_String b \<longleftrightarrow> a = b"
proof
  assume e: "IP_String a = IP_String b"
  have s: "IPNet_String \<lparr>in_IP = w, in_Bits = 32\<rparr> = IP_String w @ ''/'' @ dec_nat 32" for w
    by (simp add: IPNet_String_def IP_String_def)
  have "net_aligned \<lparr>in_IP = w, in_Bits = 32\<rparr>" for w by (simp add: net_aligned_def)
  from ParseCIDR_String [OF this] show "a = b" using e unfolding s by (metis ip_net.ext_inject option.inject)
qed simp

lemma slots_ok_mono: "slots_ok start n slot run \<Longrightarrow> n \<le> m \<Longrightarrow> slots_ok start m slot run"
  by (auto simp: slots_ok_def dest: less_le_trans)

lemma slots_ok_update:
  assumes "slots_ok start n slot run" "nc_GuestIP (rv_NetworkConfig rv) = IP_String (start + of_nat n)"
  shows "slots_ok start (Suc n) (slot(i := n)) (run(i \<mapsto> rv))"
  using assms by (auto simp: slots_ok_def inj_on_def dom_def less_Suc_eq)

lemma slots_ok_delete: "slots_ok start n slot run \<Longrightarrow> slots_ok start n slot (run(i := None))"
  by (auto simp: slots_ok_def inj_on_def split: if_split_asm)

lemma rows_tracked_address:
  assumes "rows_tracked run rows"
    "\<And>v ip. v \<in> set rows' \<Longrightarrow> v_IPAddress v = Some ip \<Longrightarrow> \<exists>w \<in> set rows. v_ID w = v_ID v \<and> v_IPAddress w = Some ip"
  shows "rows_tracked run rows'"
  using assms by (fastforce simp: rows_tracked_def)

lemma UpdateVMStatus_rows:
  assumes "writer_open d" "vm_status_ok status"
  shows "tables (snd (UpdateVMStatus now i status tap ip mac pid d)) =
    (tables d)\<lparr>vms := sql_update (\<lambda>v. v_ID v = i)
            (\<lambda>v. v\<lparr>v_Status := status, v_TapDevice := tap, v_IPAddress := ip,
                   v_MACAddress := mac, v_PID := pid, v_UpdatedAt := unix now\<rparr>) (vms (tables d))\<rparr>"
    "fst (UpdateVMStatus now i status tap ip mac pid d) = Inr ()"
  using assms by (simp_all add: UpdateVMStatus_def WriteTx_def exec_def)

lemma status_ok [simp]:
  "vm_status_ok ''error''" "vm_status_ok ''creating''" "vm_status_ok ''running''" "vm_status_ok ''stopped''"
  by (simp_all add: vm_status_ok_def)

lemma UpdateVMStatus_pools [simp]:
  "writer_open (snd (UpdateVMStatus now i status tap ip mac pid d)) = writer_open d"
  "reader_open (snd (UpdateVMStatus now i status tap ip mac pid d)) = reader_open d"
  by (simp_all add: UpdateVMStatus_def WriteTx_pools)

lemma set_status_inv: "host_inv start n h \<Longrightarrow> vm_status_ok status \<Longrightarrow> host_inv start n (set_status now i status h)"
  by (auto simp: host_inv_def set_status_def UpdateVMStatus_rows set_sql_update
      elim!: rows_tracked_address split: if_split_asm)

lemma same_vms_inv:
  "host_inv start n h \<Longrightarrow> same_vms h h' \<Longrightarrow> nm_nextIP (vh_net h') = nm_nextIP (vh_net h) \<Longrightarrow> host_inv start n h'"
  by (simp add: host_inv_def same_vms_def)

lemma same_vms_spent:
  "host_inv start n h \<Longrightarrow> same_vms h h' \<Longrightarrow> nm_nextIP (vh_net h') = nm_nextIP (vh_net h) + 1 \<Longrightarrow> host_inv start (Suc n) h'"
  by (auto simp: host_inv_def same_vms_def ac_simps dest: slots_ok_mono [OF _ le_SucI [OF order_refl]])

lemma rows_tracked_update:
  assumes "rows_tracked run rows" "nc_GuestIP (rv_NetworkConfig rv) = ip"
  shows "rows_tracked (run(i \<mapsto> rv)) (sql_update (\<lambda>v. v_ID v = i)
     (\<lambda>v. v\<lparr>v_Status := s, v_TapDevice := tap, v_IPAddress := Some ip, v_MACAddress := mac, v_PID := pid, v_UpdatedAt := t\<rparr>) rows)"
  using assms by (auto simp: rows_tracked_def set_sql_update split: if_split_asm)

lemma track_vm_inv:
  assumes "host_inv start n h" "nc_GuestIP nc = IP_String (start + of_nat n)"
    and that: "nm_nextIP nm = nm_nextIP (vh_net h) + 1"
  shows "host_inv start (Suc n) ((track_vm env now i name nc fcVM h)\<lparr>vh_net := nm\<rparr>)"
proof -
  from assms obtain slot where s: "slots_ok start n slot (map_of (vh_running h))" by (auto simp: host_inv_def)
  let ?rv = "\<lparr>rv_VMID = i, rv_Name = name, rv_FirecrackerVM = fcVM, rv_NetworkConfig = nc\<rparr>"
  have "slots_ok start (Suc n) (slot(i := n)) ((map_of (vh_running h))(i \<mapsto> ?rv))"
    using s assms(2) by (intro slots_ok_update) simp_all
  then show ?thesis using assms that
    by (auto simp: host_inv_def track_vm_def UpdateVMStatus_rows AList.update_conv' ac_simps intro!: rows_tracked_update)
qed

lemma boot_vm_inv:
  assumes "host_inv start n h"
  shows "\<exists>m \<le> Suc n. n \<le> m \<and> host_inv start m (snd (boot_vm env now i name vcpu mem h))"
proof -
  obtain err h' where b: "boot_vm env now i name vcpu mem h = (err, h')" by fastforce
  from b show ?thesis
  proof (cases rule: boot_vm_cases)
    case (failed e h1)
    from failed(4) have "host_inv start n h1 \<or> host_inv start (Suc n) h1"
      using same_vms_inv [OF assms failed(3)] same_vms_spent [OF assms failed(3)] by (auto simp: net_spent_def)
    then show ?thesis
    proof
      assume "host_inv start n h1"
      then show ?thesis using b failed(2) by (intro exI [of _ n]) (simp add: set_status_inv)
    next
      assume "host_inv start (Suc n) h1"
      then show ?thesis using b failed(2) by (intro exI [of _ "Suc n"]) (simp add: set_status_inv)
    qed
  next
    case (booted nc fcVM h1)
    let ?h2 = "h1\<lparr>vh_net := vh_net h\<rparr>"
    have "host_inv start n ?h2" using assms booted(3) by (simp add: host_inv_def same_vms_def)
    moreover have "nm_nextIP (vh_net h) = start + of_nat n" using assms by (simp add: host_inv_def)
    ultimately have "host_inv start (Suc n) ((track_vm env now i name nc fcVM ?h2)\<lparr>vh_net := vh_net h1\<rparr>)"
      using booted(4,5) by (intro track_vm_inv) (simp_all add: net_spent_def)
    then show ?thesis using b booted(2) by (intro exI [of _ "Suc n"]) (simp add: track_vm_def)
  qed
qed

lemma Stop_inv:
  assumes "host_inv start n h"
  shows "host_inv start n (snd (Stop env now i h))"
proof (cases "map_of (vh_running h) i")
  case None
  then show ?thesis using assms by (simp add: Stop_def)
next
  case (Some rv)
  then show ?thesis using assms
    by (auto simp: host_inv_def Stop_def Let_def set_status_def UpdateVMStatus_rows delete_conv'
        rows_tracked_def set_sql_update intro: slots_ok_delete split: if_split_asm)
qed

lemma host_inv_frame:
  "host_inv start n h \<Longrightarrow> vh_db h' = vh_db h \<Longrightarrow> vh_running h' = vh_running h \<Longrightarrow> vh_net h' = vh_net h \<Longrightarrow> host_inv start n h'"
  by (simp add: host_inv_def)

text \<open>One operation adds at most one allocation.\<close>

definition grows :: "u32 \<Rightarrow> nat \<Rightarrow> vm_host \<Rightarrow> bool" where
  "grows start n h \<longleftrightarrow> (\<exists>m \<le> Suc n. n \<le> m \<and> host_inv start m h)"

lemma grows_same: "host_inv start n h \<Longrightarrow> grows start n h"
  unfolding grows_def by (intro exI [of _ n]) simp

lemmas grows_boot = boot_vm_inv [folded grows_def]

lemma creating_inv:
  "host_inv start n h \<Longrightarrow> UpdateVMStatus now i ''creating'' None None None None (vh_db h) = (r, d) \<Longrightarrow>
     host_inv start n (h\<lparr>vh_db := d\<rparr>)"
  using set_status_inv [of start n h "''creating''" now i] by (simp add: set_status_def)

lemma fail_vm_inv: "host_inv start n h \<Longrightarrow> grows start n (snd (fail_vm now i e h))"
  by (simp add: fail_vm_def grows_same set_status_inv)

lemma seed_vm_inv: "host_inv start n h \<Longrightarrow> seed_vm env i keys h = (err, h') \<Longrightarrow> host_inv start n h'"
  by (auto dest!: seed_vm_frame elim: host_inv_frame)

lemma ensure_data_disk_inv: "host_inv start n h \<Longrightarrow> ensure_data_disk env i h = (err, h') \<Longrightarrow> host_inv start n h'"
  by (auto dest!: ensure_data_disk_frame elim: host_inv_frame)

lemma host_inv_other [simp]:
  "host_inv start n (h\<lparr>vh_files := f\<rparr>) = host_inv start n h" "host_inv start n (h\<lparr>vh_log := l\<rparr>) = host_inv start n h"
  by (simp_all add: host_inv_def)

lemma CreateAndStart_inv:
  assumes inv: "host_inv start n h"
  shows "grows start n (snd (CreateAndStart env now i name img vcpu mem keys h))"
proof (cases "UpdateVMStatus now i ''creating'' None None None None (vh_db h)")
  case (Pair r d)
  note inv' = creating_inv [OF inv Pair]
  have seeded: "host_inv start n h2" if "seed_vm env i keys (h\<lparr>vh_db := d, vh_files := files\<rparr>) = (err, h2)" for files err h2
    using inv' that by (intro seed_vm_inv [OF _ that]) simp
  then have "grows start n (snd (fail_vm now i e (h\<lparr>vh_db := d, vh_files := files\<rparr>)))"
    and "grows start n (snd (fail_vm now i e (h\<lparr>vh_db := d\<rparr>)))" for e files
    using inv' by (auto intro: fail_vm_inv)
  then show ?thesis using Pair inv'
    by (auto simp: CreateAndStart_def Let_def split: prod.split sum.split option.split unit.split
        intro: grows_same fail_vm_inv [OF seeded] fail_vm_inv [OF ensure_data_disk_inv [OF seeded]]
          grows_boot [OF ensure_data_disk_inv [OF seeded]])
qed

lemma Start_inv:
  assumes inv: "host_inv start n h"
  shows "grows start n (snd (Start env now i name vcpu mem keys h))"
proof (cases "seed_vm env i keys h")
  case (Pair err h2)
  note inv' = seed_vm_inv [OF inv Pair]
  then show ?thesis using Pair inv
    by (auto simp: Start_def split: prod.split sum.split option.split unit.split
        intro: grows_same [OF inv] fail_vm_inv [OF inv'] grows_same [OF creating_inv [OF inv']] grows_boot [OF creating_inv [OF inv']])
qed

lemma ShutdownAll_inv: "host_inv start n h \<Longrightarrow> host_inv start n (ShutdownAll env now h)"
proof -
  have "host_inv start n h \<Longrightarrow> host_inv start n (fold (\<lambda>id h. snd (Stop env now id h)) ids h)" for ids
    by (induction ids arbitrary: h) (simp_all add: Stop_inv)
  then show "host_inv start n h \<Longrightarrow> host_inv start n (ShutdownAll env now h)" by (simp add: ShutdownAll_def)
qed

lemma CloneDisks_frame:
  "vh_db (snd (CloneDisks env s t h)) = vh_db h" "vh_running (snd (CloneDisks env s t h)) = vh_running h"
  "vh_net (snd (CloneDisks env s t h)) = vh_net h"
  by (simp_all add: CloneDisks_def Let_def split: prod.split option.split)

text \<open>An operation of another component gives no row a new address.\<close>

definition addresses_from :: "vm list \<Rightarrow> vm list \<Rightarrow> bool" where
  "addresses_from rows rows' \<longleftrightarrow>
     (\<forall>v \<in> set rows'. \<forall>ip. v_IPAddress v = Some ip \<longrightarrow>
        (\<exists>w \<in> set rows. v_ID w = v_ID v \<and> v_IPAddress w = Some ip))"

lemma addresses_from_refl [simp]: "addresses_from rows rows"
  by (auto simp: addresses_from_def)

lemma addresses_from_update:
  assumes "\<And>v. v_ID (f v) = v_ID v" "\<And>v. v_IPAddress (f v) = None \<or> v_IPAddress (f v) = v_IPAddress v"
  shows "addresses_from rows (sql_update p f rows)"
  unfolding addresses_from_def set_sql_update
proof (intro ballI allI impI)
  fix v ip
  assume "v \<in> (\<lambda>r. if p r then f r else r) ` set rows" "v_IPAddress v = Some ip"
  then show "\<exists>w\<in>set rows. v_ID w = v_ID v \<and> v_IPAddress w = Some ip"
    using assms by (auto split: if_split_asm) (metis option.discI)
qed

lemma db_op_addresses:
  assumes "\<not> sets_address (HDb (Machine x))"
  shows "addresses_from (vms (tables d)) (vms (tables (run_vm_op now x d)))"
proof (cases x)
  case (OpUpdateVMStatus v s tap ip mac pid)
  with assms have "ip = None" by (cases ip) simp_all
  then show ?thesis using OpUpdateVMStatus
    by (simp add: UpdateVMStatus_def WriteTx_def exec_def addresses_from_update)
next
  case (OpDeleteVM v)
  then show ?thesis
    by (auto simp: DeleteVM_def WriteTx_def exec_def addresses_from_def)
next
  case (OpCreateVM u n i c m g)
  then show ?thesis
    by (auto simp: CreateVM_def intro!: WriteTx_invariant [where P = "\<lambda>t. addresses_from (vms (tables d)) (vms t)"])
      (auto simp: op_Inr addresses_from_def split: if_split_asm)
next
  case (OpRenameVM v n)
  then show ?thesis
    by (simp add: RenameVM_def WriteTx_def exec_def addresses_from_update)
qed (simp_all add: machine_defs,
    (subst WriteTx_frame [where g = vms], (auto simp: op_Inr split: if_split_asm)[], simp)+)

lemma db_step_inv:
  assumes "host_inv start n h" "addresses_from (vms (tables (vh_db h))) (vms (tables d))" "writer_open d"
  shows "host_inv start n (h\<lparr>vh_db := d\<rparr>)"
  using assms by (auto simp: host_inv_def addresses_from_def elim: rows_tracked_address)

lemma Destroy_inv:
  assumes "host_inv start n h"
  shows "host_inv start n (snd (Destroy env now i h))"
proof -
  let ?h = "if map_of (vh_running h) i \<noteq> None then snd (Stop env now i h) else h"
  have inv: "host_inv start n ?h" using assms by (simp add: Stop_inv)
  have "addresses_from (vms (tables d)) (vms (tables (snd (DeleteVM i d))))" "writer_open (snd (DeleteVM i d)) = writer_open d" for d
    using db_op_addresses [of "OpDeleteVM i" d now] by (simp_all add: DeleteVM_def WriteTx_pools)
  moreover have "writer_open (vh_db ?h)" using inv by (simp add: host_inv_def)
  ultimately have "host_inv start n (?h\<lparr>vh_db := snd (DeleteVM i (vh_db ?h))\<rparr>)"
    by (intro db_step_inv [OF inv]) simp_all
  moreover define h2 where "h2 = ?h"
  ultimately have "host_inv start n (h2\<lparr>vh_files := files, vh_db := snd (DeleteVM i (vh_db h2))\<rparr>)" for files
    by (simp add: host_inv_def)
  then show ?thesis
    unfolding Destroy_def Let_def h2_def [symmetric]
    by (cases "DeleteVM i (vh_db h2)") (simp split: sum.split unit.split)
qed

lemma run_host_op_inv:
  assumes "host_inv start n h" "\<not> sets_address op"
  shows "grows start n (run_host_op env now op h)"
proof (cases op)
  case (HDb x)
  have "addresses_from (vms (tables (vh_db h))) (vms (tables (run_op now x (vh_db h))))"
    using assms(2) HDb by (cases x) (simp_all add: vms_frame db_op_addresses)
  then show ?thesis using assms(1) HDb
    by (simp add: grows_same db_step_inv run_op_pools host_inv_def [THEN iffD1])
qed (simp_all add: assms CreateAndStart_inv Start_inv Stop_inv Destroy_inv ShutdownAll_inv grows_same
    host_inv_frame [OF assms(1)] CloneDisks_frame)

lemma run_host_inv:
  assumes "host_inv start n h" "list_all (\<lambda>(now, op). \<not> sets_address op) ops"
  shows "\<exists>m \<le> n + length ops. host_inv start m (run_host env ops h)"
  using assms
proof (induction ops arbitrary: n h)
  case (Cons x ops)
  obtain now op where x: "x = (now, op)" by force
  have op: "\<not> sets_address op" and rest: "list_all (\<lambda>(now, op). \<not> sets_address op) ops"
    using Cons.prems(2) by (simp_all add: x)
  from run_host_op_inv [OF Cons.prems(1) op]
  obtain m where m: "m \<le> Suc n" "host_inv start m (run_host_op env now op h)" unfolding grows_def by blast
  from Cons.IH [OF m(2) rest]
  obtain k where k: "k \<le> m + length ops" "host_inv start k (run_host env ops (run_host_op env now op h))" by blast
  have "k \<le> n + length (x # ops)" using m(1) k(1) by simp
  moreover have "run_host env (x # ops) h = run_host env ops (run_host_op env now op h)" by (simp add: run_host_def x)
  ultimately show ?case using k(2) by metis
next
  case Nil
  then show ?case by (auto simp: run_host_def)
qed

lemma fresh_host_inv: "writer_open d \<Longrightarrow> no_address d \<Longrightarrow> host_inv (nm_nextIP nm) 0 (fresh_host d nm files)"
  by (simp add: host_inv_def fresh_host_def slots_ok_def rows_tracked_def no_address_def list_all_iff)

lemma slots_inj:
  assumes "slots_ok start n slot run" "n \<le> 2 ^ 32" "run i = Some a" "run j = Some b"
    "nc_GuestIP (rv_NetworkConfig a) = nc_GuestIP (rv_NetworkConfig b)"
  shows "i = j"
proof -
  from assms have lt: "slot i < n" "slot j < n" and "start + of_nat (slot i) = (start + of_nat (slot j) :: u32)"
    by (simp_all add: slots_ok_def IP_String_inj)
  then have "(of_nat (slot i) :: u32) = of_nat (slot j)" by simp
  moreover have "slot i < 2 ^ LENGTH(32)" "slot j < 2 ^ LENGTH(32)"
    using lt assms(2) by (simp_all only: len_num0 len_bit0 len_num1) (simp_all)
  ultimately have "slot i = slot j" using of_nat_inverse by metis
  with assms show ?thesis by (simp add: slots_ok_def inj_on_def dom_def)
qed

subsection \<open>Outcomes of a start\<close>

text \<open>What the rows of a VM say, and what remains of the others.\<close>

definition row_shows :: "db \<Rightarrow> int \<Rightarrow> string \<Rightarrow> string option \<Rightarrow> string option \<Rightarrow> string option \<Rightarrow> int option \<Rightarrow> bool" where
  "row_shows d i status tap ip mac pid \<longleftrightarrow>
     (let rows = sql_select (\<lambda>v. v_ID v = i) (vms (tables d)) in
      rows \<noteq> [] \<and> list_all (\<lambda>v. v_Status v = status \<and> v_TapDevice v = tap \<and> v_IPAddress v = ip \<and>
        v_MACAddress v = mac \<and> v_PID v = pid) rows)"

definition other_rows :: "int \<Rightarrow> db \<Rightarrow> vm list" where
  "other_rows i d = sql_select (\<lambda>v. v_ID v \<noteq> i) (vms (tables d))"

definition up_for_start :: "int \<Rightarrow> db \<Rightarrow> db \<Rightarrow> bool" where
  "up_for_start i d d' \<longleftrightarrow> writer_open d' \<and> list_ex (\<lambda>v. v_ID v = i) (vms (tables d')) \<and> other_rows i d' = other_rows i d"

lemma UpdateVMStatus_shows:
  assumes "up_for_start i d0 d" "vm_status_ok status"
  shows "row_shows (snd (UpdateVMStatus now i status tap ip mac pid d)) i status tap ip mac pid"
    "up_for_start i d0 (snd (UpdateVMStatus now i status tap ip mac pid d))"
proof -
  have sel: "filter (\<lambda>v. v_ID v \<noteq> i) (sql_update (\<lambda>v. v_ID v = i) (\<lambda>v. v\<lparr>v_Status := s, v_TapDevice := tap,
      v_IPAddress := ip, v_MACAddress := mac, v_PID := pid, v_UpdatedAt := t\<rparr>) rows) = filter (\<lambda>v. v_ID v \<noteq> i) rows"
    for s t rows by (induction rows) (simp_all add: sql_update_def)
  have ex: "list_ex (\<lambda>v. v_ID v = i) (sql_update (\<lambda>v. v_ID v = i) (\<lambda>v. v\<lparr>v_Status := s, v_TapDevice := tap,
      v_IPAddress := ip, v_MACAddress := mac, v_PID := pid, v_UpdatedAt := t\<rparr>) rows) \<longleftrightarrow> list_ex (\<lambda>v. v_ID v = i) rows"
    for s t rows by (induction rows) (simp_all add: sql_update_def)
  have same: "filter (\<lambda>v. v_ID v = i) (sql_update (\<lambda>v. v_ID v = i) (\<lambda>v. v\<lparr>v_Status := s, v_TapDevice := tap,
      v_IPAddress := ip, v_MACAddress := mac, v_PID := pid, v_UpdatedAt := t\<rparr>) rows) =
      map (\<lambda>v. v\<lparr>v_Status := s, v_TapDevice := tap, v_IPAddress := ip, v_MACAddress := mac, v_PID := pid,
        v_UpdatedAt := t\<rparr>) (filter (\<lambda>v. v_ID v = i) rows)"
    for s t rows by (induction rows) (simp_all add: sql_update_def)
  show "row_shows (snd (UpdateVMStatus now i status tap ip mac pid d)) i status tap ip mac pid"
    using assms by (auto simp: row_shows_def up_for_start_def UpdateVMStatus_rows Let_def sql_select_def same
        list_all_iff list_ex_iff filter_empty_conv)
  show "up_for_start i d0 (snd (UpdateVMStatus now i status tap ip mac pid d))"
    using assms by (simp add: up_for_start_def UpdateVMStatus_rows other_rows_def sel ex sql_select_def)
qed

text \<open>The state from which the common part runs: only the VM's own row, the files and the log differ.\<close>

definition prepared :: "int \<Rightarrow> vm_host \<Rightarrow> vm_host \<Rightarrow> bool" where
  "prepared i h h1 \<longleftrightarrow> up_for_start i (vh_db h) (vh_db h1) \<and> vh_running h1 = vh_running h \<and> vh_net h1 = vh_net h"

lemma prepared_other [simp]:
  "prepared i h (h1\<lparr>vh_files := f\<rparr>) = prepared i h h1" "prepared i h (h1\<lparr>vh_log := l\<rparr>) = prepared i h h1"
  by (simp_all add: prepared_def)

lemma prepared_seed: "prepared i h h1 \<Longrightarrow> seed_vm env j keys h1 = (err, h2) \<Longrightarrow> prepared i h h2"
  by (auto dest!: seed_vm_frame)

lemma prepared_data_disk: "prepared i h h1 \<Longrightarrow> ensure_data_disk env j h1 = (err, h2) \<Longrightarrow> prepared i h h2"
  by (auto dest!: ensure_data_disk_frame)

lemma prepared_creating:
  "prepared i h h1 \<Longrightarrow> UpdateVMStatus now i ''creating'' None None None None (vh_db h1) = (r, d) \<Longrightarrow>
     r = Inr () \<and> prepared i h (h1\<lparr>vh_db := d\<rparr>)"
  using UpdateVMStatus_shows(2) [of i "vh_db h" "vh_db h1" "''creating''" now None None None None]
    UpdateVMStatus_rows(2) [of "vh_db h1" "''creating''" now i None None None None]
  by (simp add: prepared_def up_for_start_def)

definition start_ok :: "vm_env \<Rightarrow> int \<Rightarrow> string \<Rightarrow> vm_host \<Rightarrow> vm_host \<Rightarrow> bool" where
  "start_ok env i name h h' \<longleftrightarrow>
     (case GetRunning i h' of
        None \<Rightarrow> False
      | Some rv \<Rightarrow>
        let nc = rv_NetworkConfig rv in
        rv_VMID rv = i \<and> rv_Name rv = name \<and> nm_allocated (vh_net h') (dec i) = Some (nc_GuestIP nc) \<and>
        row_shows (vh_db h') i ''running'' (Some (nc_TapDevice nc)) (Some (nc_GuestIP nc)) (Some (nc_MacAddress nc))
          (Some (Pid env (Some (rv_FirecrackerVM rv)) (vh_fc h'))))"

definition start_failed :: "int \<Rightarrow> vm_host \<Rightarrow> vm_host \<Rightarrow> bool" where
  "start_failed i h h' \<longleftrightarrow>
     vh_running h' = vh_running h \<and> row_shows (vh_db h') i ''error'' None None None None \<and>
     nm_allocated (vh_net h') (dec i) \<in> {None, nm_allocated (vh_net h) (dec i)}"

definition start_outcome :: "vm_env \<Rightarrow> int \<Rightarrow> string \<Rightarrow> vm_host \<Rightarrow> string option \<times> vm_host \<Rightarrow> bool" where
  "start_outcome env i name h res \<longleftrightarrow>
     (case fst res of None \<Rightarrow> start_ok env i name h (snd res) | Some e \<Rightarrow> start_failed i h (snd res)) \<and>
     other_rows i (vh_db (snd res)) = other_rows i (vh_db h)"

lemma fail_vm_outcome:
  assumes "prepared i h h1"
  shows "start_outcome env i name h (fail_vm now i e h1)"
  using assms UpdateVMStatus_shows [of i "vh_db h" "vh_db h1" "''error''" now None None None None]
  by (simp add: start_outcome_def fail_vm_def start_failed_def set_status_def prepared_def up_for_start_def)

lemma boot_vm_outcome:
  assumes p: "prepared i h h1"
  shows "start_outcome env i name h (boot_vm env now i name vcpu mem h1)"
proof -
  obtain err h' where b: "boot_vm env now i name vcpu mem h1 = (err, h')" by fastforce
  from b show ?thesis
  proof (cases rule: boot_vm_cases)
    case (failed e h2)
    have "up_for_start i (vh_db h) (vh_db h2)" "vh_running h2 = vh_running h" using p failed(3)
      by (simp_all add: prepared_def same_vms_def)
    then show ?thesis using b failed(1,2,4) p UpdateVMStatus_shows [of i "vh_db h" "vh_db h2" "''error''" now None None None None]
      by (auto simp: start_outcome_def start_failed_def set_status_def prepared_def up_for_start_def net_spent_def)
  next
    case (booted nc fcVM h2)
    have "up_for_start i (vh_db h) (vh_db h2)" using p booted(3) by (simp add: prepared_def same_vms_def)
    then show ?thesis using b booted(1,2,5) UpdateVMStatus_shows [of i "vh_db h" "vh_db h2" "''running''" now]
      by (simp add: start_outcome_def start_ok_def GetRunning_def track_vm_def AList.update_conv' Let_def up_for_start_def)
  qed
qed

lemma CreateAndStart_outcome:
  assumes "prepared i h h"
  shows "start_outcome env i name h (CreateAndStart env now i name img vcpu mem keys h)"
proof (cases "UpdateVMStatus now i ''creating'' None None None None (vh_db h)")
  case (Pair r d)
  with prepared_creating [OF assms Pair] have r: "r = Inr ()" and p: "prepared i h (h\<lparr>vh_db := d\<rparr>)" by simp_all
  have seeded: "prepared i h h2" if "seed_vm env i keys (h\<lparr>vh_db := d, vh_files := files\<rparr>) = (err, h2)" for files err h2
    using p that by (intro prepared_seed [OF _ that]) simp
  have failed: "start_outcome env i name h (fail_vm now i e (h\<lparr>vh_db := d, vh_files := files\<rparr>))"
    "start_outcome env i name h (fail_vm now i e (h\<lparr>vh_db := d\<rparr>))" for e files
    using p by (simp_all add: fail_vm_outcome)
  show ?thesis
    unfolding CreateAndStart_def Let_def Pair r prod.case sum.case unit.case
    by (simp split: prod.split sum.split option.split, intro conjI allI impI)
      (rule failed fail_vm_outcome [OF seeded] fail_vm_outcome [OF prepared_data_disk [OF seeded]]
        boot_vm_outcome [OF prepared_data_disk [OF seeded]]; (elim conjE)?; assumption)+
qed

lemma Start_outcome:
  assumes "prepared i h h" "rootfs_path (ve_dataDir env) i \<in> set (vh_files h)"
  shows "start_outcome env i name h (Start env now i name vcpu mem keys h)"
proof (cases "seed_vm env i keys h")
  case (Pair err h2)
  note p = prepared_seed [OF assms(1) Pair]
  obtain r d where u: "UpdateVMStatus now i ''creating'' None None None None (vh_db h2) = (r, d)" by fastforce
  from prepared_creating [OF p u] have r: "r = Inr ()" and p': "prepared i h (h2\<lparr>vh_db := d\<rparr>)" by simp_all
  show ?thesis using assms(2) u
    by (cases err) (simp_all add: Start_def Pair r fail_vm_outcome [OF p] boot_vm_outcome [OF p'] split: unit.split)
qed

text \<open>For the witnesses: programs, SDK and operating system that never fail.\<close>

definition no_failure :: "vm_env \<Rightarrow> bool" where
  "no_failure env \<longleftrightarrow>
     (\<forall>log cmd. he_run (ge_host (ve_guest env)) log cmd = ('''', None)) \<and>
     (\<forall>op path. ge_os_error (ve_guest env) op path = None) \<and> (\<forall>fcs call. ve_sdk env fcs call = None)"

lemma seed_vm_succeeds:
  assumes ok: "no_failure env" and temp: "\<And>log. ge_CreateTemp (ve_guest env) log = Inr tmp"
    and root: "rootfs_path (ve_dataDir env) i \<in> set (vh_files h)"
  shows "fst (seed_vm env i keys h) = None"
proof -
  let ?g = "ve_guest env"
  have run: "Execute (ge_host ?g) cmd log = (('''', None), log @ [cmd])" for cmd log
    using ok by (simp add: no_failure_def Execute_def)
  have os: "ge_os_error ?g what path = None" for what path using ok by (simp add: no_failure_def)
  have all: "\<exists>log'. debugfs_all ?g P rootfs content cmds log = (None, log')" for P rootfs content cmds log
    by (induction cmds arbitrary: log) (simp_all add: run)
  have steps: "\<exists>log'. first_error xs log = (None, log')"
    if "\<And>what step log. (what, step) \<in> set xs \<Longrightarrow> \<exists>log'. step log = (None, log')" for xs log
    using that
  proof (induction xs arbitrary: log)
    case (Cons x xs)
    obtain what step where x: "x = (what, step)" by (cases x)
    then obtain log1 where "step log = (None, log1)" using Cons.prems by (meson list.set_intros(1))
    moreover obtain log2 where "first_error xs log1 = (None, log2)"
      using Cons.IH Cons.prems by (meson list.set_intros(2))
    ultimately show ?case using x by simp
  qed simp
  have edit: "\<exists>log'. rewriteExt4File ?g r p u g m f log = (None, log')" for r p u g m f log
    using all by (simp add: rewriteExt4File_def temp run os)
  have "\<exists>log'. writeExt4File ?g r p c u g m log = (None, log')" for r p c u g m log
    using all by (simp add: writeExt4File_def temp os)
  moreover have "\<exists>log'. mkdirExt4 ?g r d log = (None, log')" for r d log by (simp add: mkdirExt4_def run)
  ultimately have "\<exists>log'. installOpencodeRuntimeFiles ?g r log = (None, log')" for r log
    unfolding installOpencodeRuntimeFiles_def Let_def by (intro steps) fastforce
  with edit have "\<exists>log'. configureGuestSSH ?g r log = (None, log')" for r log
    unfolding configureGuestSSH_def by (intro steps) fastforce
  then obtain log1 where 1: "configureGuestSSH ?g (rootfs_path (ve_dataDir env) i) (vh_log h) = (None, log1)" by blast
  obtain log2 where 2: "debugfs_all ?g (\<lambda>_ _. False) (rootfs_path (ve_dataDir env) i) (Join_strings keys NL @ NL)
      (authorized_keys_cmds tmp) log1 = (None, log2)" using all by blast
  show ?thesis using 1 2 root by (simp add: seed_vm_def SeedAuthorizedKeys_def os_Stat_def os temp Let_def)
qed

lemma boot_vm_succeeds:
  assumes ok: "no_failure env" and ip: "subnet_Contains (nm_subnet (vh_net h)) (nm_nextIP (vh_net h))"
  shows "fst (boot_vm env now i name vcpu mem h) = None"
proof -
  let ?host = "ge_host (ve_guest env)"
  have run: "Execute ?host cmd log = (('''', None), log @ [cmd])" for cmd log
    using ok by (simp add: no_failure_def Execute_def)
  have cmd: "runCmd ?host cmd log = (None, log @ [cmd])" for cmd log by (simp add: runCmd_def run)
  have nat: "SetupNAT ?host b s log =
      (None, (log @ [[''nft'', ''delete'', ''table'', ''inet'', nft_table]]) @ [[''nft'', ''-f'', ''-'', nft_ruleset b s]])" for b s log
    by (simp add: SetupNAT_def Let_def run)
  have bridge: "\<exists>log'. SetupBridge ?host nm log = (None, log')" for nm log
    by (simp add: SetupBridge_def Let_def cmd nat)
  have alloc: "\<exists>nc nm' log'. AllocateNetwork ?host v (vh_net h) log = (Inr nc, nm', log')" for v log
    by (simp add: AllocateNetwork_def Let_def cmd ip)
  have rules: "\<exists>log'. AddVMRules ?host v tap g log = (None, log')" for v tap g log
    by (simp add: AddVMRules_def Let_def run)
  have start: "\<exists>vm fcs'. StartVM env opts fcs = (Inr vm, fcs')" for opts fcs
    using ok by (simp add: StartVM_def Let_def no_failure_def)
  obtain l1 where 1: "SetupBridge ?host (vh_net h) (vh_log h) = (None, l1)" using bridge by blast
  obtain nc nm2 l2 where 2: "AllocateNetwork ?host (dec i) (vh_net h) l1 = (Inr nc, nm2, l2)" using alloc by blast
  obtain l3 where 3: "AddVMRules ?host (dec i) (nc_TapDevice nc) (nc_GuestIP nc) l2 = (None, l3)" using rules by blast
  let ?opts = "\<lparr>so_VMID = dec i, so_RootfsPath = rootfs_path (ve_dataDir env) i,
    so_DataDiskPath = data_path (ve_dataDir env) i, so_VCPU = vcpu, so_MemoryMB = mem, so_NetworkConfig = Some nc\<rparr>"
  obtain vm f4 where "StartVM env ?opts (vh_fc h) = (Inr vm, f4)" using start by blast
  with 1 2 3 show ?thesis by (simp add: boot_vm_def Let_def)
qed

lemma VMByIP_shown:
  assumes "row_shows d i status tap (Some ip) mac pid" "reader_open d"
  shows "\<exists>v. VMByIP ip d = Inr v"
proof -
  from assms(1) have "sql_select (\<lambda>v. v_ID v = i) (vms (tables d)) \<noteq> []" and
    all: "list_all (\<lambda>v. v_IPAddress v = Some ip) (sql_select (\<lambda>v. v_ID v = i) (vms (tables d)))"
    by (auto simp: row_shows_def Let_def list_all_iff)
  then obtain v where "v \<in> set (sql_select (\<lambda>v. v_ID v = i) (vms (tables d)))" by (meson last_in_set)
  with all have "v \<in> set (sql_select (\<lambda>v. v_IPAddress v = Some ip) (vms (tables d)))" by (auto simp: list_all_iff)
  then show ?thesis using assms(2) by (cases "sql_select (\<lambda>v. v_IPAddress v = Some ip) (vms (tables d))")
    (auto simp: VMByIP_def ReadTx_def query_row_def)
qed

lemma fail_vm_reader [simp]: "reader_open (vh_db (snd (fail_vm now i e h))) = reader_open (vh_db h)"
  by (simp add: fail_vm_def set_status_def)

lemma Start_reader: "reader_open (vh_db (snd (Start env now i name vcpu mem keys h))) = reader_open (vh_db h)"
proof -
  have boot: "reader_open (vh_db (snd (boot_vm env now i name vcpu mem h2))) = reader_open (vh_db h2)" for h2
  proof -
    obtain err h' where b: "boot_vm env now i name vcpu mem h2 = (err, h')" by fastforce
    then show ?thesis by (cases rule: boot_vm_cases) (simp_all add: b set_status_def track_vm_def same_vms_def)
  qed
  obtain err h2 where s: "seed_vm env i keys h = (err, h2)" by fastforce
  with seed_vm_frame [OF s] have "vh_db h2 = vh_db h" by auto
  moreover obtain r d where u: "UpdateVMStatus now i ''creating'' None None None None (vh_db h2) = (r, d)" by fastforce
  then have "reader_open d = reader_open (vh_db h2)"
    using UpdateVMStatus_pools(2) [of now i "''creating''" None None None None "vh_db h2"] by simp
  ultimately show ?thesis using s u
    by (cases err; cases r) (simp_all add: Start_def boot split: unit.split)
qed

definition good_env :: vm_env where
  "good_env = \<lparr>ve_guest = \<lparr>ge_host = \<lparr>he_run = \<lambda>_ _. ('''', None), he_rand = \<lambda>_. [1, 2, 3, 4, 5, 6]\<rparr>,
      ge_CreateTemp = \<lambda>_. Inr ''/tmp/x'', ge_dumped = \<lambda>_. '''', ge_os_error = \<lambda>_ _. None\<rparr>,
    ve_dataDir = ''/data'', ve_kernelPath = ''/k'', ve_initrdPath = '''', ve_sdk = \<lambda>_ _. None,
    ve_PID = \<lambda>_ _. Inr 4242, ve_alive = \<lambda>_. True, ve_EnsureRootfs = \<lambda>_. Inr ''/img''\<rparr>"

definition good_net :: network_manager where
  "good_net = \<lparr>nm_bridge = ''br0'', nm_subnet = \<lparr>in_IP = 0x0A000000, in_Bits = 24\<rparr>, nm_gateway = 0x0A000001,
     nm_allocated = Map.empty, nm_nextIP = 0x0A000002\<rparr>"

definition good_host :: vm_host where
  "good_host = fresh_host sample_db good_net [rootfs_path (ve_dataDir good_env) 1]"

lemma good_start: "fst (Start good_env 0 1 ''web'' 1 512 [''key''] good_host) = None"
proof -
  obtain err h2 where s: "seed_vm good_env 1 [''key''] good_host = (err, h2)" by fastforce
  have "fst (seed_vm good_env 1 [''key''] good_host) = None"
    by (rule seed_vm_succeeds [where tmp = "''/tmp/x''"])
       (simp_all add: no_failure_def good_env_def good_host_def fresh_host_def)
  with s have err: "err = None" by simp
  from seed_vm_frame [OF s] have h2: "vh_db h2 = sample_db" "vh_net h2 = good_net"
    by (auto simp: good_host_def fresh_host_def)
  obtain r d where u: "UpdateVMStatus 0 1 ''creating'' None None None None sample_db = (r, d)" by fastforce
  then have "r = Inr ()" using UpdateVMStatus_rows(2) [of sample_db "''creating''" 0 1 None None None None] sample_db_eval(2) by simp
  moreover have "no_failure good_env" by (simp add: no_failure_def good_env_def)
  moreover have "subnet_Contains (nm_subnet good_net) (nm_nextIP good_net)"
    by (simp add: subnet_Contains_def good_net_def CIDRMask_def mask_eq_exp_minus_1)
  moreover have "rootfs_path (ve_dataDir good_env) 1 \<in> set (vh_files good_host)" by (simp add: good_host_def fresh_host_def)
  ultimately show ?thesis using s err h2 u boot_vm_succeeds [of good_env "h2\<lparr>vh_db := d\<rparr>" 0 1 "''web''" 1 512]
    by (simp add: Start_def split: unit.split)
qed

subsection \<open>Properties\<close>

text \<open>
  The rules of a VM are found by a comment that contains its name, so those of VM 10 are found, and
  deleted, with those of VM 1.
\<close>

theorem firewall_rules_of_others:
  "parseNftHandles (''accept comment '' @ quoted ''vm-10'' @ '' # handle 7'') ''vm-1'' = [''7'']"
  by code_simp





end
