(* ===== verification/Go_Scan.thy ===== *)
theory Go_Scan
  imports Vm_Manager
begin

section \<open>Package fmt: scanning\<close>

text \<open>What the sources use of \<^verbatim>\<open>fmt.Sscanf\<close>: one decimal integer, or one after a literal prefix.\<close>

text \<open>\<^verbatim>\<open>fmt.Sscanf(s, "%d", ...)\<close>: what follows the number is not read.\<close>

definition is_digit_char :: "char \<Rightarrow> bool" where
  "is_digit_char c \<longleftrightarrow> 48 \<le> (of_char c :: nat) \<and> (of_char c :: nat) \<le> 57"

definition Sscanf_d :: "string \<Rightarrow> int option" where
  "Sscanf_d s =
     (let s = dropWhile (\<lambda>c. is_space c \<and> c \<noteq> CHR 0x0A) s;
          sign = (if s \<noteq> [] \<and> hd s \<in> {CHR ''+'', CHR ''-''} then [hd s] else []);
          digits = takeWhile is_digit_char (drop (length sign) s)
      in if digits = [] then None else Atoi (sign @ digits))"

text \<open>\<^verbatim>\<open>fmt.Sscanf(s, "Label: %d ...", &v)\<close>: the label, then the number.\<close>

definition Sscanf_label :: "string \<Rightarrow> string \<Rightarrow> int option" where
  "Sscanf_label label s = (if HasPrefix s label then Sscanf_d (TrimPrefix s label) else None)"

end
