(* ===== verification/Go_Float.thy ===== *)
theory Go_Float
  imports Mesh_Allocator Complex_Main
begin

section \<open>Package strconv: floating point\<close>

text \<open>
  \<^verbatim>\<open>strconv.ParseFloat\<close> on decimal numbers with an optional exponent, as \<^verbatim>\<open>zfs\<close> and
  \<^verbatim>\<open>/proc\<close> print them, and exact; infinities, hexadecimal numbers and underscores are left out.
\<close>

text \<open>The digits of a number with at most one point, as a numerator and the number of digits after it.\<close>

definition parse_mantissa :: "string \<Rightarrow> rat option" where
  "parse_mantissa s =
     (case SplitN2 s CHR ''.'' of
        [ip] \<Rightarrow> map_option of_nat (parse_digits ip)
      | [ip, fp] \<Rightarrow> map_option (\<lambda>n. of_nat n / 10 ^ length fp) (parse_digits (ip @ fp))
      | _ \<Rightarrow> None)"

definition parse_signed :: "(string \<Rightarrow> 'a :: uminus option) \<Rightarrow> string \<Rightarrow> 'a option" where
  "parse_signed f s =
     (if HasPrefix s ''-'' then map_option uminus (f (tl s)) else if HasPrefix s ''+'' then f (tl s) else f s)"

definition scale10 :: "rat \<Rightarrow> int \<Rightarrow> rat" where
  "scale10 x k = (if k < 0 then x / 10 ^ nat (- k) else x * 10 ^ nat k)"

definition ParseFloat :: "string \<Rightarrow> rat option" where
  "ParseFloat s =
     (let s = map (\<lambda>c. if c = CHR ''E'' then CHR ''e'' else c) s in
      case SplitN2 s CHR ''e'' of
        [m] \<Rightarrow> parse_signed parse_mantissa m
      | [m, e] \<Rightarrow>
        (case (parse_signed parse_mantissa m, parse_signed (map_option int \<circ> parse_digits) e) of
           (Some x, Some k) \<Rightarrow> Some (scale10 x k) | _ \<Rightarrow> None)
      | _ \<Rightarrow> None)"

end
