(* ===== verification/Node_Agent.thy ===== *)
theory Node_Agent
  imports Go_Files Go_Scan Go_Float "HOL-Library.AList"
begin

section \<open>The node agent\<close>

text \<open>
  \<^verbatim>\<open>internal/agent/agent.go\<close> and \<^verbatim>\<open>heartbeat.go\<close>: the keys and the state a node keeps on
  disk, joining a cluster, the heartbeat stream with its backoff, and the metrics read from
  \<^verbatim>\<open>/proc\<close>. Files are a list of paths and contents; a file that is missing cannot be read, and
  the environment says which writes fail (a failed write leaves the file as it was).
\<close>

subsection \<open>Messages of the node protocol\<close>

record NodeCapabilities =
  nc_CPUCores :: int
  nc_RAMBytes :: int
  nc_DiskBytes :: int
  nc_KVMAvailable :: bool
  nc_ZFSAvailable :: bool
  nc_OSVersion :: string
  nc_AgentVersion :: string

record RegisterRequest =
  rr_JoinToken :: string
  rr_PublicKey :: string
  rr_Capabilities :: NodeCapabilities

record PeerInfo =
  pi_NodeID :: string
  pi_WireGuardPublicKey :: string
  pi_WireGuardEndpoint :: string
  pi_WireGuardCIDR :: string

record RegisterResponse =
  rp_NodeID :: string
  rp_TLSCertificate :: string
  rp_TLSKey :: string
  rp_CACertificate :: string
  rp_WireGuardCIDR :: string
  rp_Peers :: "PeerInfo list"

record node_status =
  st_CPUUsage :: rat
  st_RAMUsed :: int
  st_RAMTotal :: int
  st_DiskUsed :: int
  st_DiskTotal :: int
  st_VMCount :: int
  st_NetworkRxBytes :: int
  st_NetworkTxBytes :: int

subsection \<open>The agent\<close>

record agent_config =
  ac_DataDir :: string
  ac_ControlURL :: string

record agent_state =
  sa_NodeID :: string
  sa_ControlURL :: string
  sa_JoinedAt :: nanos
  sa_WireGuardCIDR :: string

record agent =
  ag_cfg :: agent_config
  ag_state :: "agent_state option"
  ag_publicKey :: string
  ag_privateKey :: string

text \<open>Keys are byte strings; the client is \<^term>\<open>None\<close> when no control plane is configured.\<close>

record agent_env =
  na_MkdirAll :: "string \<Rightarrow> string option"
  na_WriteFile :: "string \<Rightarrow> string option"
  na_GenerateKey :: "string + string \<times> string"
  na_Public :: "string \<Rightarrow> string"
  na_json :: "agent_state \<Rightarrow> string"
  na_parse :: "string \<Rightarrow> string + agent_state"
  na_client :: "(RegisterRequest \<Rightarrow> string + RegisterResponse) option"

definition write_file :: "agent_env \<Rightarrow> string \<Rightarrow> string \<Rightarrow> files \<Rightarrow> string option \<times> files" where
  "write_file env p content fs =
     (case na_WriteFile env p of Some e \<Rightarrow> (Some e, fs) | None \<Rightarrow> (None, AList.update p content fs))"

definition keyPath :: "agent_config \<Rightarrow> string" where "keyPath cfg = Join [ac_DataDir cfg, ''node.key'']"
definition pubKeyPath :: "agent_config \<Rightarrow> string" where "pubKeyPath cfg = Join [ac_DataDir cfg, ''node.pub'']"
definition statePath :: "agent_config \<Rightarrow> string" where "statePath cfg = Join [ac_DataDir cfg, ''state.json'']"

text \<open>The key pair: a stored private key has 64 bytes. \<^verbatim>\<open>(public, private)\<close>.\<close>

definition loadOrGenerateKeys :: "agent_env \<Rightarrow> agent_config \<Rightarrow> files \<Rightarrow> (string + string \<times> string) \<times> files" where
  "loadOrGenerateKeys env cfg fs =
     (let generate =
        (case na_GenerateKey env of
           Inl e \<Rightarrow> (Inl (''generating Ed25519 key: '' @ e), fs)
         | Inr (pub, priv) \<Rightarrow>
           (case write_file env (keyPath cfg) priv fs of
              (Some e, fs) \<Rightarrow> (Inl (''writing private key: '' @ e), fs)
            | (None, fs) \<Rightarrow>
              (case write_file env (pubKeyPath cfg) pub fs of
                 (Some e, fs) \<Rightarrow> (Inl (''writing public key: '' @ e), fs)
               | (None, fs) \<Rightarrow> (Inr (pub, priv), fs))))
      in case map_of fs (keyPath cfg) of
           Some keyData \<Rightarrow> if length keyData = 64 then (Inr (na_Public env keyData, keyData), fs) else generate
         | None \<Rightarrow> generate)"

definition LoadState :: "agent_env \<Rightarrow> agent_config \<Rightarrow> files \<Rightarrow> string + agent_state" where
  "LoadState env cfg fs =
     (case map_of fs (statePath cfg) of
        None \<Rightarrow> Inl (''reading state file '' @ statePath cfg)
      | Some data \<Rightarrow>
        (case na_parse env data of Inl e \<Rightarrow> Inl (''parsing state file: '' @ e) | Inr s \<Rightarrow> Inr s))"

definition agent_New :: "agent_env \<Rightarrow> agent_config \<Rightarrow> files \<Rightarrow> (string + agent) \<times> files" where
  "agent_New env cfg fs =
     (case na_MkdirAll env (ac_DataDir cfg) of
        Some e \<Rightarrow> (Inl (''creating data dir '' @ ac_DataDir cfg @ '': '' @ e), fs)
      | None \<Rightarrow>
        (case loadOrGenerateKeys env cfg fs of
           (Inl e, fs) \<Rightarrow> (Inl (''loading keys: '' @ e), fs)
         | (Inr (pub, priv), fs) \<Rightarrow>
           (Inr \<lparr>ag_cfg = cfg, ag_state = (case LoadState env cfg fs of Inl _ \<Rightarrow> None | Inr s \<Rightarrow> Some s),
                 ag_publicKey = pub, ag_privateKey = priv\<rparr>, fs)))"

definition collectCapabilities :: NodeCapabilities where
  "collectCapabilities = \<lparr>nc_CPUCores = 1, nc_RAMBytes = 0, nc_DiskBytes = 0, nc_KVMAvailable = False,
     nc_ZFSAvailable = False, nc_OSVersion = ''linux'', nc_AgentVersion = ''dev''\<rparr>"

definition register :: "agent_env \<Rightarrow> RegisterRequest \<Rightarrow> string + RegisterResponse" where
  "register env req =
     (case na_client env of
        Some client \<Rightarrow> client req
      | None \<Rightarrow> Inl ''no control plane client configured (gRPC transport not yet implemented)'')"

definition saveState :: "agent_env \<Rightarrow> agent \<Rightarrow> agent_state \<Rightarrow> files \<Rightarrow> string option \<times> files" where
  "saveState env ag s fs = write_file env (statePath (ag_cfg ag)) (na_json env s) fs"

text \<open>Go ranges over a map here; the order of the list is one of its orders.\<close>

fun save_files :: "agent_env \<Rightarrow> string \<Rightarrow> (string \<times> string) list \<Rightarrow> files \<Rightarrow> string option \<times> files" where
  "save_files env dir [] fs = (None, fs)"
| "save_files env dir ((name, content) # rest) fs =
     (if content = '''' then save_files env dir rest fs
      else case write_file env (Join [dir, name]) content fs of
        (Some e, fs) \<Rightarrow> (Some (''writing '' @ name @ '': '' @ e), fs)
      | (None, fs) \<Rightarrow> save_files env dir rest fs)"

definition saveCerts :: "agent_env \<Rightarrow> agent \<Rightarrow> RegisterResponse \<Rightarrow> files \<Rightarrow> string option \<times> files" where
  "saveCerts env ag resp fs =
     (let certsDir = Join [ac_DataDir (ag_cfg ag), ''certs''] in
      case na_MkdirAll env certsDir of
        Some e \<Rightarrow> (Some e, fs)
      | None \<Rightarrow>
        save_files env certsDir
          [(''node.crt'', rp_TLSCertificate resp), (''node.key'', rp_TLSKey resp), (''ca.crt'', rp_CACertificate resp)] fs)"

definition agent_Join :: "agent_env \<Rightarrow> nanos \<Rightarrow> string \<Rightarrow> agent \<Rightarrow> files \<Rightarrow> string option \<times> agent \<times> files" where
  "agent_Join env now token ag fs =
     (case register env \<lparr>rr_JoinToken = token, rr_PublicKey = ag_publicKey ag, rr_Capabilities = collectCapabilities\<rparr> of
        Inl e \<Rightarrow> (Some (''register RPC: '' @ e), ag, fs)
      | Inr resp \<Rightarrow>
        let s = \<lparr>sa_NodeID = rp_NodeID resp, sa_ControlURL = ac_ControlURL (ag_cfg ag), sa_JoinedAt = now,
                 sa_WireGuardCIDR = rp_WireGuardCIDR resp\<rparr>;
            ag = ag\<lparr>ag_state := Some s\<rparr> in
        (case saveState env ag s fs of
           (Some e, fs) \<Rightarrow> (Some (''saving state: '' @ e), ag, fs)
         | (None, fs) \<Rightarrow>
           (case saveCerts env ag resp fs of
              (Some e, fs) \<Rightarrow> (Some (''saving certificates: '' @ e), ag, fs)
            | (None, fs) \<Rightarrow> (None, ag, fs))))"

text \<open>\<^verbatim>\<open>Start\<close> waits for its context to end; what it returns.\<close>

definition agent_Start :: "agent \<Rightarrow> string option" where
  "agent_Start ag = (case ag_state ag of None \<Rightarrow> Some ''agent not joined; run 'join' first'' | Some _ \<Rightarrow> None)"

subsection \<open>Heartbeats\<close>

record HeartbeatConfig =
  hc_Interval :: nanos
  hc_InitialBackoff :: nanos
  hc_MaxBackoff :: nanos

definition DefaultHeartbeatConfig :: HeartbeatConfig where
  "DefaultHeartbeatConfig =
     \<lparr>hc_Interval = 10 * second, hc_InitialBackoff = 1 * second, hc_MaxBackoff = 60 * second\<rparr>"

text \<open>
  The loop over streams, each of which ends with an error or cleanly, until the context is cancelled: the
  waits it makes. \<open>True\<close> is a stream that failed while the context was live.
\<close>

fun backoff_waits :: "HeartbeatConfig \<Rightarrow> nanos \<Rightarrow> bool list \<Rightarrow> nanos list" where
  "backoff_waits cfg backoff [] = []"
| "backoff_waits cfg backoff (failed # streams) =
     (if failed then backoff # backoff_waits cfg (min (backoff * 2) (hc_MaxBackoff cfg)) streams
      else backoff_waits cfg (hc_InitialBackoff cfg) streams)"

definition heartbeatLoop :: "HeartbeatConfig \<Rightarrow> bool list \<Rightarrow> nanos list" where
  "heartbeatLoop cfg streams =
     (let cfg = (if hc_Interval cfg = 0 then DefaultHeartbeatConfig else cfg)
      in backoff_waits cfg (hc_InitialBackoff cfg) streams)"

text \<open>
  One stream: at each tick the metrics are collected and sent with the node's id; the context may end
  instead. \<open>Tick status e\<close> is a tick with the metrics it collects and the error of sending them.
\<close>

datatype stream_event = Tick node_status "string option" | Cancelled

fun stream_loop :: "string \<Rightarrow> stream_event list \<Rightarrow> (string \<times> node_status) list \<times> string option" where
  "stream_loop nodeID [] = ([], None)"
| "stream_loop nodeID (Cancelled # evs) = ([], None)"
| "stream_loop nodeID (Tick status e # evs) =
     (case e of
        Some e \<Rightarrow> ([], Some (''sending heartbeat: '' @ e))
      | None \<Rightarrow> (case stream_loop nodeID evs of (sent, r) \<Rightarrow> ((nodeID, status) # sent, r)))"

definition runHeartbeatStream ::
  "string option \<Rightarrow> bool \<Rightarrow> string \<Rightarrow> stream_event list \<Rightarrow> (string \<times> node_status) list \<times> string option" where
  "runHeartbeatStream open_error has_client nodeID evs =
     (if \<not> has_client then ([], None)
      else case open_error of
        Some e \<Rightarrow> ([], Some (''opening heartbeat stream: '' @ e))
      | None \<Rightarrow> stream_loop nodeID evs)"

subsection \<open>Commands of the control plane\<close>

record VMCreateCommand =
  vc_VMID :: string
  vc_UserID :: string
  vc_BaseImage :: string
  vc_VCPUCount :: int
  vc_MemBytes :: int
  vc_DiskBytes :: int
  vc_Metadata :: "(string \<times> string) list"

datatype CommandType =
  CommandTypeUnknown | CommandTypeCreateVM | CommandTypeStopVM | CommandTypeDestroyVM | CommandTypeDrain | CommandTypeUpdateConfig

text \<open>The stop and destroy commands are the id of the VM, the drain command its deadline in seconds.\<close>

record Command =
  cmd_Type :: CommandType
  cmd_CreateVM :: "VMCreateCommand option"
  cmd_StopVM :: "string option"
  cmd_DestroyVM :: "string option"
  cmd_Drain :: "int option"
  cmd_UpdateConfig :: "(string \<times> string) list option"

text \<open>Commands are only written to the log: its messages, each with the value it names.\<close>

definition handleCommand :: "Command \<Rightarrow> (string \<times> string) option" where
  "handleCommand cmd =
     (case cmd_Type cmd of
        CommandTypeCreateVM \<Rightarrow> map_option (\<lambda>c. (''received create VM command'', vc_VMID c)) (cmd_CreateVM cmd)
      | CommandTypeStopVM \<Rightarrow> map_option (\<lambda>vmID. (''received stop VM command'', vmID)) (cmd_StopVM cmd)
      | CommandTypeDestroyVM \<Rightarrow> map_option (\<lambda>vmID. (''received destroy VM command'', vmID)) (cmd_DestroyVM cmd)
      | CommandTypeDrain \<Rightarrow> map_option (\<lambda>secs. (''received drain command'', dec secs)) (cmd_Drain cmd)
      | CommandTypeUpdateConfig \<Rightarrow>
          map_option (\<lambda>kvs. (''received config update'', dec (int (length kvs)))) (cmd_UpdateConfig cmd)
      | CommandTypeUnknown \<Rightarrow> Some (''unknown command type'', ''0''))"

definition handleCommands :: "Command list \<Rightarrow> (string \<times> string) list" where
  "handleCommands commands = List.map_filter handleCommand commands"

subsection \<open>Metrics\<close>

text \<open>
  \<^verbatim>\<open>/proc/loadavg\<close>: a first field that is no number leaves the load at 0 (Go also accepts a number
  followed by other characters, which the kernel never writes there).
\<close>

definition collectCPUUsage :: "string option \<Rightarrow> int \<Rightarrow> rat" where
  "collectCPUUsage loadavg numCPU =
     (case loadavg of
        None \<Rightarrow> 0
      | Some data \<Rightarrow>
        (case Fields data of
           [] \<Rightarrow> 0
         | f # _ \<Rightarrow>
           let load1 = (case ParseFloat f of None \<Rightarrow> 0 | Some x \<Rightarrow> x);
               cpus = (if numCPU = 0 then 1 else of_int numCPU);
               usage = load1 / cpus
           in if usage > 1 then 1 else usage))"

record meminfo =
  mi_total :: int
  mi_free :: int
  mi_buffers :: int
  mi_cached :: int

definition scan_or :: "int \<Rightarrow> string \<Rightarrow> string \<Rightarrow> int" where
  "scan_or old label line = (case Sscanf_label label line of None \<Rightarrow> old | Some n \<Rightarrow> n)"

definition mem_line :: "string \<Rightarrow> meminfo \<Rightarrow> meminfo" where
  "mem_line line m =
     (if HasPrefix line ''MemTotal:'' then m\<lparr>mi_total := scan_or (mi_total m) ''MemTotal:'' line\<rparr>
      else if HasPrefix line ''MemFree:'' then m\<lparr>mi_free := scan_or (mi_free m) ''MemFree:'' line\<rparr>
      else if HasPrefix line ''Buffers:'' then m\<lparr>mi_buffers := scan_or (mi_buffers m) ''Buffers:'' line\<rparr>
      else if HasPrefix line ''Cached:'' then m\<lparr>mi_cached := scan_or (mi_cached m) ''Cached:'' line\<rparr>
      else m)"

text \<open>Used and total bytes; without \<^verbatim>\<open>/proc/meminfo\<close> those of the Go runtime.\<close>

definition collectMemory :: "string option \<Rightarrow> int \<times> int \<Rightarrow> int \<times> int" where
  "collectMemory meminfo runtime =
     (case meminfo of
        None \<Rightarrow> runtime
      | Some data \<Rightarrow>
        let m = fold mem_line (Split data (CHR 0x0A)) \<lparr>mi_total = 0, mi_free = 0, mi_buffers = 0, mi_cached = 0\<rparr>;
            totalBytes = i64 (mi_total m * 1024);
            usedBytes = i64 ((mi_total m - mi_free m - mi_buffers m - mi_cached m) * 1024)
        in (if usedBytes < 0 then 0 else usedBytes, totalBytes))"

definition collectDisk :: "int \<times> int" where "collectDisk = (0, 0)"

definition net_line :: "string \<Rightarrow> int \<times> int" where
  "net_line line =
     (let line = TrimSpace line in
      if \<not> Contains line '':'' \<or> HasPrefix line ''lo:'' then (0, 0)
      else
        let fields = Fields (SplitN2 line CHR '':'' ! 1); num = (\<lambda>s. case Sscanf_d s of None \<Rightarrow> 0 | Some n \<Rightarrow> n) in
        if length fields < 10 then (0, 0) else (num (fields ! 0), num (fields ! 8)))"

definition collectNetworkBytes :: "string option \<Rightarrow> int \<times> int" where
  "collectNetworkBytes dev =
     (case dev of
        None \<Rightarrow> (0, 0)
      | Some data \<Rightarrow>
        fold (\<lambda>line (rx, tx). case net_line line of (r, t) \<Rightarrow> (i64 (rx + r), i64 (tx + t))) (Split data (CHR 0x0A)) (0, 0))"

definition CollectNodeStatus ::
  "string option \<Rightarrow> int \<Rightarrow> string option \<Rightarrow> int \<times> int \<Rightarrow> string option \<Rightarrow> node_status" where
  "CollectNodeStatus loadavg numCPU meminfo runtime dev =
     (let (ramUsed, ramTotal) = collectMemory meminfo runtime; (diskUsed, diskTotal) = collectDisk;
          (rx, tx) = collectNetworkBytes dev in
      \<lparr>st_CPUUsage = collectCPUUsage loadavg numCPU, st_RAMUsed = ramUsed, st_RAMTotal = ramTotal,
       st_DiskUsed = diskUsed, st_DiskTotal = diskTotal, st_VMCount = 0, st_NetworkRxBytes = rx, st_NetworkTxBytes = tx\<rparr>)"

subsection \<open>Files of the agent\<close>

lemma agent_paths:
  assumes "is_rooted (ac_DataDir cfg)" "plain_name n"
  shows "keyPath cfg \<noteq> pubKeyPath cfg" "keyPath cfg \<noteq> statePath cfg" "pubKeyPath cfg \<noteq> statePath cfg"
    "keyPath cfg \<noteq> Join [Join [ac_DataDir cfg, ''certs''], n]" "statePath cfg \<noteq> Join [Join [ac_DataDir cfg, ''certs''], n]"
proof -
  have plain: "plain_name ''node.key''" "plain_name ''node.pub''" "plain_name ''state.json''" "plain_name ''certs''"
    by (simp_all add: plain_name_def)
  have one: "path_elems (Join [r, f]) = path_elems r @ [f] \<and> is_rooted (Join [r, f])" if "plain_name f" "is_rooted r" for f r
  proof -
    have "Split f CHR ''/'' = [f]" using that by (auto simp: plain_name_def Split_plain)
    then show ?thesis using Join_rooted(1,4) [of r "[f]"] that by (auto simp: plain_name_def)
  qed
  note e = one [OF _ assms(1)] one [OF assms(2)]
  show "keyPath cfg \<noteq> pubKeyPath cfg" "keyPath cfg \<noteq> statePath cfg" "pubKeyPath cfg \<noteq> statePath cfg"
    using e(1) [OF plain(1)] e(1) [OF plain(2)] e(1) [OF plain(3)] by (auto simp: keyPath_def pubKeyPath_def statePath_def)
  have "path_elems (Join [Join [ac_DataDir cfg, ''certs''], n]) = path_elems (ac_DataDir cfg) @ [''certs'', n]"
    using e(1) [OF plain(4)] e(2) [of "Join [ac_DataDir cfg, ''certs'']"] by simp
  then show "keyPath cfg \<noteq> Join [Join [ac_DataDir cfg, ''certs''], n]" "statePath cfg \<noteq> Join [Join [ac_DataDir cfg, ''certs''], n]"
    using e(1) [OF plain(1)] e(1) [OF plain(3)] by (auto simp: keyPath_def statePath_def)
qed

lemma write_file_lookup:
  "write_file env p c fs = (r, fs') \<Longrightarrow> map_of fs' q = (if q = p \<and> r = None then Some c else map_of fs q)"
  by (auto simp: write_file_def update_conv' split: option.splits)

lemma save_files_lookup:
  "save_files env dir xs fs = (r, fs') \<Longrightarrow> (\<And>n c. (n, c) \<in> set xs \<Longrightarrow> q \<noteq> Join [dir, n]) \<Longrightarrow> map_of fs' q = map_of fs q"
proof (induction xs arbitrary: fs)
  case (Cons x xs)
  obtain n c where x: "x = (n, c)" by (cases x)
  have here: "q \<noteq> Join [dir, n]" using Cons.prems(2) x by auto
  have rest: "\<And>n c. (n, c) \<in> set xs \<Longrightarrow> q \<noteq> Join [dir, n]" using Cons.prems(2) by auto
  note IH = Cons.IH [OF _ rest]
  show ?case
  proof (cases "c = []")
    case True
    then show ?thesis using Cons.prems(1) IH x by simp
  next
    case False
    obtain e fs1 where w: "write_file env (Join [dir, n]) c fs = (e, fs1)" by fastforce
    then have "map_of fs1 q = map_of fs q" using write_file_lookup [OF w, of q] here by simp
    then show ?thesis using Cons.prems(1) IH x w False by (cases e) auto
  qed
qed simp

lemma keys_stored:
  assumes "loadOrGenerateKeys env cfg fs = (Inr (pub, priv), fs')" "keyPath cfg \<noteq> pubKeyPath cfg"
    "\<And>p q. na_GenerateKey env = Inr (p, q) \<Longrightarrow> length q = 64 \<and> p = na_Public env q"
  shows "map_of fs' (keyPath cfg) = Some priv \<and> length priv = 64 \<and> pub = na_Public env priv"
  using assms(1,2)
  by (auto simp: loadOrGenerateKeys_def Let_def write_file_lookup assms(3) split: option.splits if_splits sum.splits prod.splits)

text \<open>What a node keeps survives a restart: after a successful join, an agent started on the same
directory has the same key pair and the state of the join, and so starts.\<close>

theorem agent_rejoin:
  assumes "agent_New env cfg fs = (Inr ag, fs1)" "agent_Join env now token ag fs1 = (None, ag', fs2)"
    "is_rooted (ac_DataDir cfg)" "\<And>p q. na_GenerateKey env = Inr (p, q) \<Longrightarrow> length q = 64 \<and> p = na_Public env q"
    "\<And>s. ag_state ag' = Some s \<Longrightarrow> na_parse env (na_json env s) = Inr s"
  shows "agent_New env cfg fs2 = (Inr ag', fs2) \<and> agent_Start ag' = None"
proof -
  have plain: "plain_name ''node.crt''" "plain_name ''node.key''" "plain_name ''ca.crt''" by (simp_all add: plain_name_def)
  note paths = agent_paths [OF assms(3)]
  from assms(1) obtain pub priv where mk: "na_MkdirAll env (ac_DataDir cfg) = None"
    and keys: "loadOrGenerateKeys env cfg fs = (Inr (pub, priv), fs1)"
    and ag: "ag_cfg ag = cfg" "ag_publicKey ag = pub" "ag_privateKey ag = priv"
    by (auto simp: agent_New_def split: option.splits sum.splits prod.splits)
  note stored = keys_stored [OF keys paths(1) [OF plain(1)] assms(4)]
  from assms(2) obtain s fs3 where ag': "ag' = ag\<lparr>ag_state := Some s\<rparr>"
    and save: "saveState env (ag\<lparr>ag_state := Some s\<rparr>) s fs1 = (None, fs3)"
    and certs: "\<exists>resp. saveCerts env (ag\<lparr>ag_state := Some s\<rparr>) resp fs3 = (None, fs2)"
    by (auto simp: agent_Join_def Let_def split: sum.splits option.splits prod.splits)
  from certs obtain resp where resp: "saveCerts env (ag\<lparr>ag_state := Some s\<rparr>) resp fs3 = (None, fs2)" ..
  define xs where "xs = [(''node.crt'', rp_TLSCertificate resp), (''node.key'', rp_TLSKey resp), (''ca.crt'', rp_CACertificate resp)]"
  have xs: "save_files env (Join [ac_DataDir cfg, ''certs'']) xs fs3 = (None, fs2)" "set (map fst xs) \<subseteq> {''node.crt'', ''node.key'', ''ca.crt''}"
    using resp by (auto simp: saveCerts_def Let_def ag xs_def simp del: save_files.simps split: option.splits)
  have other: "q \<noteq> Join [Join [ac_DataDir cfg, ''certs''], n]" if "q = keyPath cfg \<or> q = statePath cfg" "(n, c) \<in> set xs" for q n c
  proof -
    have "n \<in> {''node.crt'', ''node.key'', ''ca.crt''}" using xs(2) that(2) by force
    then have "plain_name n" using plain by auto
    then show ?thesis using paths(4,5) [of n] that(1) by auto
  qed
  have "map_of fs2 (keyPath cfg) = Some priv" "map_of fs2 (statePath cfg) = Some (na_json env s)"
    using save_files_lookup [OF xs(1), of "keyPath cfg"] save_files_lookup [OF xs(1), of "statePath cfg"] other
      write_file_lookup [OF save [unfolded saveState_def]] stored paths(2) [OF plain(1)] by (auto simp: ag)
  then have "loadOrGenerateKeys env cfg fs2 = (Inr (pub, priv), fs2)" "LoadState env cfg fs2 = Inr s"
    using stored assms(5) ag' by (auto simp: loadOrGenerateKeys_def LoadState_def Let_def)
  then have "agent_New env cfg fs2 = (Inr ag', fs2)" using mk ag ag' by (cases ag) (simp add: agent_New_def)
  then show ?thesis using ag' by (simp add: agent_Start_def)
qed

definition first_node :: agent_env where
  "first_node =
     \<lparr>na_MkdirAll = (\<lambda>_. None), na_WriteFile = (\<lambda>_. None),
      na_GenerateKey = Inr (replicate 32 CHR ''k'', replicate 64 CHR ''k''), na_Public = take 32,
      na_json = sa_NodeID,
      na_parse = (\<lambda>d. Inr \<lparr>sa_NodeID = d, sa_ControlURL = ''https://c'', sa_JoinedAt = 5, sa_WireGuardCIDR = ''10.100.1.0/24''\<rparr>),
      na_client = Some (\<lambda>_. Inr \<lparr>rp_NodeID = ''n1'', rp_TLSCertificate = ''c'', rp_TLSKey = ''k'', rp_CACertificate = ''a'',
                                  rp_WireGuardCIDR = ''10.100.1.0/24'', rp_Peers = []\<rparr>)\<rparr>"

theorem agent_rejoin_witness:
  "let cfg = \<lparr>ac_DataDir = ''/d'', ac_ControlURL = ''https://c''\<rparr>; (r, fs1) = agent_New first_node cfg [];
       ag = projr r; (e, ag', fs2) = agent_Join first_node 5 ''t'' ag fs1
   in e = None \<and> map_option sa_NodeID (ag_state ag') = Some ''n1'' \<and>
      agent_New first_node cfg fs2 = (Inr ag', fs2) \<and> agent_Start ag' = None"
proof -
  define cfg where "cfg = \<lparr>ac_DataDir = ''/d'', ac_ControlURL = ''https://c''\<rparr>"
  obtain ag fs1 where new: "agent_New first_node cfg [] = (Inr ag, fs1)" "ag_cfg ag = cfg"
    by (simp add: agent_New_def first_node_def loadOrGenerateKeys_def write_file_def)
  obtain ag' fs2 where join: "agent_Join first_node 5 ''t'' ag fs1 = (None, ag', fs2)"
      "ag_state ag' = Some \<lparr>sa_NodeID = ''n1'', sa_ControlURL = ''https://c'', sa_JoinedAt = 5, sa_WireGuardCIDR = ''10.100.1.0/24''\<rparr>"
    using new(2) by (simp add: agent_Join_def register_def saveState_def saveCerts_def write_file_def first_node_def cfg_def Let_def)
  have "agent_New first_node cfg fs2 = (Inr ag', fs2) \<and> agent_Start ag' = None"
    by (rule agent_rejoin [OF new(1) join(1)]) (simp_all add: first_node_def join(2), simp add: cfg_def is_rooted_def HasPrefix_def)
  then show ?thesis using new(1) join unfolding cfg_def by (simp add: Let_def)
qed

subsection \<open>Waits between streams\<close>

lemma backoff_restart:
  "backoff_waits cfg b (xs @ False # ys) = backoff_waits cfg b xs @ backoff_waits cfg (hc_InitialBackoff cfg) ys"
  by (induction xs arbitrary: b) simp_all

lemma backoff_capped:
  "0 \<le> hc_MaxBackoff cfg \<Longrightarrow>
   backoff_waits cfg (min b (hc_MaxBackoff cfg)) (replicate n True) = map (\<lambda>k. min (b * 2 ^ k) (hc_MaxBackoff cfg)) [0..<n]"
proof (induction n arbitrary: b)
  case (Suc n)
  have "min (min b (hc_MaxBackoff cfg) * 2) (hc_MaxBackoff cfg) = min (b * 2) (hc_MaxBackoff cfg)" using Suc.prems by linarith
  then show ?case using Suc.IH [OF Suc.prems, of "b * 2"] by (simp add: map_upt_Suc mult.assoc del: upt_Suc)
qed simp

lemma backoff_run:
  assumes "0 \<le> hc_MaxBackoff cfg"
  shows "backoff_waits cfg b (replicate n True) = map (\<lambda>k. if k = 0 then b else min (b * 2 ^ k) (hc_MaxBackoff cfg)) [0..<n]"
proof (cases n)
  case (Suc m)
  then show ?thesis using backoff_capped [OF assms, of "b * 2" m] by (simp add: map_upt_Suc mult.assoc del: upt_Suc)
qed simp

lemma backoff_bound: "w \<in> set (backoff_waits cfg b xs) \<Longrightarrow> w \<le> Max {b, hc_InitialBackoff cfg, hc_MaxBackoff cfg}"
proof (induction xs arbitrary: b)
  case (Cons x xs)
  then show ?case using Cons.IH [of "min (b * 2) (hc_MaxBackoff cfg)"] Cons.IH [of "hc_InitialBackoff cfg"]
    by (auto split: if_splits simp: le_max_iff_disj)
qed simp

text \<open>Exponential backoff with a ceiling: after a clean stream the waits start over at the initial
one and double up to the ceiling, whatever came before, and no wait is longer than the configuration allows.\<close>

theorem backoff_schedule:
  assumes "hc_Interval cfg \<noteq> 0" "0 \<le> hc_MaxBackoff cfg"
  shows "heartbeatLoop cfg (xs @ False # replicate n True) =
           heartbeatLoop cfg xs @
           map (\<lambda>k. if k = 0 then hc_InitialBackoff cfg else min (hc_InitialBackoff cfg * 2 ^ k) (hc_MaxBackoff cfg)) [0..<n] \<and>
         (\<forall>w \<in> set (heartbeatLoop cfg xs). w \<le> max (hc_InitialBackoff cfg) (hc_MaxBackoff cfg))"
  using assms backoff_bound [of _ cfg "hc_InitialBackoff cfg" xs]
  by (auto simp: heartbeatLoop_def backoff_restart backoff_run)

theorem backoff_schedule_witness:
  "heartbeatLoop \<lparr>hc_Interval = 10, hc_InitialBackoff = 1, hc_MaxBackoff = 5\<rparr> [True, True, False, True, True, True, True] =
     [1, 2] @ [1, 2, 4, 5]"
  using backoff_schedule [of "\<lparr>hc_Interval = 10, hc_InitialBackoff = 1, hc_MaxBackoff = 5\<rparr>" "[True, True]" 4]
  by (simp add: heartbeatLoop_def upt_rec numeral_eq_Suc)

end
