(* ===== verification/Go_Flag.thy ===== *)
theory Go_Flag
  imports Vm_Manager
begin

section \<open>Package flag\<close>

text \<open>
  What the sources use of Go's \<^verbatim>\<open>flag\<close>: variables of the kinds string, int and bool, and
  \<^verbatim>\<open>Parse\<close>. A variable is a pointer into a configuration, so a pair of reader and writer. The locale
  \<^verbatim>\<open>flag_table\<close> states that the pointers of a table point to different places; what \<^verbatim>\<open>Parse\<close> leaves
  in each is proved once inside it.
\<close>

subsection \<open>Integers and booleans\<close>

text \<open>\<^verbatim>\<open>strconv.ParseInt(s, 0, 64)\<close>: a prefix for the base, underscores between digits (a number
both malformed and too large has the first of these errors here).\<close>

datatype num_error = SyntaxError | RangeError

definition digit_val :: "char \<Rightarrow> nat" where
  "digit_val c =
     (let n = of_char c :: nat in
      if 48 \<le> n \<and> n \<le> 57 then n - 48 else if 97 \<le> n \<and> n \<le> 122 then n - 87 else if 65 \<le> n \<and> n \<le> 90 then n - 55 else 99)"

definition int_base :: "string \<Rightarrow> nat \<times> string \<times> bool" where
  "int_base s =
     (if hd s \<noteq> CHR ''0'' then (10, s, False)
      else if length s \<ge> 3 \<and> s ! 1 \<in> {CHR ''b'', CHR ''B''} then (2, drop 2 s, True)
      else if length s \<ge> 3 \<and> s ! 1 \<in> {CHR ''o'', CHR ''O''} then (8, drop 2 s, True)
      else if length s \<ge> 3 \<and> s ! 1 \<in> {CHR ''x'', CHR ''X''} then (16, drop 2 s, True)
      else (8, tl s, True))"

text \<open>An underscore stands after a digit or the prefix and before a digit.\<close>

fun underscores_ok :: "bool \<Rightarrow> string \<Rightarrow> bool" where
  "underscores_ok after [] = True"
| "underscores_ok after (c # s) =
     (if c = CHR ''_'' then after \<and> s \<noteq> [] \<and> hd s \<noteq> CHR ''_'' \<and> underscores_ok False s else underscores_ok True s)"

definition ParseUint0 :: "string \<Rightarrow> num_error + nat" where
  "ParseUint0 s =
     (if s = '''' then Inl SyntaxError
      else let (base, t, prefixed) = int_base s; ds = filter (\<lambda>c. c \<noteq> CHR ''_'') t in
        if \<not> list_all (\<lambda>c. digit_val c < base) ds \<or> \<not> underscores_ok prefixed t then Inl SyntaxError
        else Inr (fold (\<lambda>c n. n * base + digit_val c) ds 0))"

definition ParseInt0 :: "string \<Rightarrow> num_error + int" where
  "ParseInt0 s =
     (let neg = HasPrefix s ''-''; t = (if neg \<or> HasPrefix s ''+'' then tl s else s) in
      case ParseUint0 t of
        Inl e \<Rightarrow> Inl e
      | Inr n \<Rightarrow>
        let v = (if neg then - int n else int n) in if in_i64 v then Inr v else Inl RangeError)"

definition ParseBool :: "string \<Rightarrow> bool option" where
  "ParseBool s =
     (if list_ex (\<lambda>x. x = s) [''1'', ''t'', ''T'', ''true'', ''TRUE'', ''True''] then Some True
      else if list_ex (\<lambda>x. x = s) [''0'', ''f'', ''F'', ''false'', ''FALSE'', ''False''] then Some False
      else None)"

subsection \<open>Flags\<close>

datatype 'c flag_var =
    StringVar "'c \<Rightarrow> string" "string \<Rightarrow> 'c \<Rightarrow> 'c"
  | IntVar "'c \<Rightarrow> int" "int \<Rightarrow> 'c \<Rightarrow> 'c"
  | BoolVar "'c \<Rightarrow> bool" "bool \<Rightarrow> 'c \<Rightarrow> 'c"

datatype flag_datum = FString string | FInt int | FBool bool

type_synonym 'c flags = "(string \<times> 'c flag_var) list"

fun flag_get :: "'c flag_var \<Rightarrow> 'c \<Rightarrow> flag_datum" where
  "flag_get (StringVar g p) c = FString (g c)"
| "flag_get (IntVar g p) c = FInt (g c)"
| "flag_get (BoolVar g p) c = FBool (g c)"

fun flag_put :: "'c flag_var \<Rightarrow> flag_datum \<Rightarrow> 'c \<Rightarrow> 'c" where
  "flag_put (StringVar g p) (FString s) c = p s c"
| "flag_put (IntVar g p) (FInt n) c = p n c"
| "flag_put (BoolVar g p) (FBool b) c = p b c"
| "flag_put _ _ c = c"

definition num_error_text :: "num_error \<Rightarrow> string" where
  "num_error_text e = (case e of SyntaxError \<Rightarrow> ''parse error'' | RangeError \<Rightarrow> ''value out of range'')"

fun flag_read :: "'c flag_var \<Rightarrow> string \<Rightarrow> string + flag_datum" where
  "flag_read (StringVar g p) s = Inr (FString s)"
| "flag_read (IntVar g p) s = (case ParseInt0 s of Inl e \<Rightarrow> Inl (num_error_text e) | Inr n \<Rightarrow> Inr (FInt n))"
| "flag_read (BoolVar g p) s = (case ParseBool s of None \<Rightarrow> Inl ''parse error'' | Some b \<Rightarrow> Inr (FBool b))"

definition is_bool_flag :: "'c flag_var \<Rightarrow> bool" where
  "is_bool_flag v = (case v of BoolVar _ _ \<Rightarrow> True | _ \<Rightarrow> False)"

text \<open>A pointer reads back what was written through it.\<close>

definition reads_back :: "'c flag_var \<Rightarrow> bool" where
  "reads_back v =
     (case v of StringVar g p \<Rightarrow> \<forall>x c. g (p x c) = x | IntVar g p \<Rightarrow> \<forall>x c. g (p x c) = x | BoolVar g p \<Rightarrow> \<forall>x c. g (p x c) = x)"

lemma reads_back_put: "reads_back v \<Longrightarrow> flag_read v x = Inr y \<Longrightarrow> flag_get v (flag_put v y c) = y"
  by (cases v) (auto simp: reads_back_def split: sum.splits option.splits)

subsection \<open>Arguments\<close>

text \<open>An argument that is no flag ends the flags; so does \<^verbatim>\<open>--\<close>, which is dropped.\<close>

datatype flag_arg = NotFlag | Terminator | BadSyntax | FlagArg string "string option"

definition cut_equals :: "string \<Rightarrow> flag_arg" where
  "cut_equals name =
     FlagArg (hd name # takeWhile (\<lambda>c. c \<noteq> CHR ''='') (tl name))
       (case dropWhile (\<lambda>c. c \<noteq> CHR ''='') (tl name) of [] \<Rightarrow> None | _ # v \<Rightarrow> Some v)"

definition flag_arg :: "string \<Rightarrow> flag_arg" where
  "flag_arg s =
     (if length s < 2 \<or> hd s \<noteq> CHR ''-'' then NotFlag
      else if s = ''--'' then Terminator
      else let name = drop (if s ! 1 = CHR ''-'' then 2 else 1) s in
        if hd name = CHR ''-'' \<or> hd name = CHR ''='' then BadSyntax else cut_equals name)"

text \<open>The next setting: the flag with its value, or the end of the flags with the arguments left.\<close>

datatype 'c next_flag = NoMore "string list" | Bad string | SetFlag string "'c flag_var" string "string list"

definition parse_one :: "'c flags \<Rightarrow> string list \<Rightarrow> 'c next_flag" where
  "parse_one fs args =
     (case args of
        [] \<Rightarrow> NoMore []
      | s # rest \<Rightarrow>
        (case flag_arg s of
           NotFlag \<Rightarrow> NoMore args
         | Terminator \<Rightarrow> NoMore rest
         | BadSyntax \<Rightarrow> Bad (''bad flag syntax: '' @ s)
         | FlagArg name value \<Rightarrow>
           (case map_of fs name of
              None \<Rightarrow>
                Bad (if name = ''help'' \<or> name = ''h'' then ''flag: help requested''
                     else ''flag provided but not defined: -'' @ name)
            | Some v \<Rightarrow>
              if is_bool_flag v then SetFlag name v (case value of None \<Rightarrow> ''true'' | Some x \<Rightarrow> x) rest
              else (case value of
                Some x \<Rightarrow> SetFlag name v x rest
              | None \<Rightarrow>
                (case rest of
                   [] \<Rightarrow> Bad (''flag needs an argument: -'' @ name)
                 | x # rest \<Rightarrow> SetFlag name v x rest)))))"

lemma parse_one_shorter [simp]: "parse_one fs args = SetFlag n v x rest \<Longrightarrow> length rest < length args"
  by (auto simp: parse_one_def split: list.splits flag_arg.splits option.splits if_splits)

lemma parse_one_known: "parse_one fs args = SetFlag n v x rest \<Longrightarrow> map_of fs n = Some v"
  by (auto simp: parse_one_def split: list.splits flag_arg.splits option.splits if_splits)

text \<open>What is left after the flags, or the error.\<close>

function flag_Parse :: "'c flags \<Rightarrow> string list \<Rightarrow> 'c \<Rightarrow> string + 'c \<times> string list" where
  "flag_Parse fs args c =
     (case parse_one fs args of
        NoMore rest \<Rightarrow> Inr (c, rest)
      | Bad e \<Rightarrow> Inl e
      | SetFlag n v x rest \<Rightarrow>
        (case flag_read v x of
           Inl e \<Rightarrow>
             Inl (''invalid '' @ (if is_bool_flag v then ''boolean '' else []) @ ''value '' @ go_quote x @
                  (if is_bool_flag v then '' for -'' else '' for flag -'') @ n @ '': '' @ e)
         | Inr y \<Rightarrow> flag_Parse fs rest (flag_put v y c)))"
  by pat_completeness auto
termination by (relation "measure (\<lambda>(fs, args, c). length args)") auto

declare flag_Parse.simps [simp del]

text \<open>The settings on a command line, in order.\<close>

function flag_settings :: "'c flags \<Rightarrow> string list \<Rightarrow> (string \<times> string) list" where
  "flag_settings fs args =
     (case parse_one fs args of SetFlag n v x rest \<Rightarrow> (n, x) # flag_settings fs rest | _ \<Rightarrow> [])"
  by pat_completeness auto
termination by (relation "measure (\<lambda>(fs, args). length args)") auto

declare flag_settings.simps [simp del]

locale flag_table =
  fixes fs :: "'c flags"
  assumes own: "map_of fs n = Some v \<Longrightarrow> flag_read v x = Inr y \<Longrightarrow> flag_get v (flag_put v y c) = y"
    and other: "map_of fs n = Some v \<Longrightarrow> map_of fs m = Some w \<Longrightarrow> n \<noteq> m \<Longrightarrow> flag_get v (flag_put w y c) = flag_get v c"
begin

text \<open>A flag holds its last setting, or what it held before.\<close>

lemma last_setting:
  "flag_Parse fs args c = Inr (c', rest) \<Longrightarrow> map_of fs n = Some v \<Longrightarrow>
   (case map_of (rev (flag_settings fs args)) n of
      None \<Rightarrow> flag_get v c' = flag_get v c | Some x \<Rightarrow> flag_read v x = Inr (flag_get v c'))"
proof (induction args arbitrary: c rule: measure_induct_rule [of length])
  case (less args)
  show ?case
  proof (cases "parse_one fs args")
    case (SetFlag m w x tail)
    then obtain y where y: "flag_read w x = Inr y" "flag_Parse fs tail (flag_put w y c) = Inr (c', rest)"
      using less.prems(1) by (auto simp: flag_Parse.simps [of _ args] split: sum.splits)
    have w: "map_of fs m = Some w" by (rule parse_one_known [OF SetFlag])
    have IH: "case map_of (rev (flag_settings fs tail)) n of
        None \<Rightarrow> flag_get v c' = flag_get v (flag_put w y c) | Some z \<Rightarrow> flag_read v z = Inr (flag_get v c')"
      by (rule less.IH [OF parse_one_shorter [OF SetFlag] y(2) less.prems(2)])
    have all: "rev (flag_settings fs args) = rev (flag_settings fs tail) @ [(m, x)]"
      using SetFlag by (simp add: flag_settings.simps [of _ args])
    show ?thesis
    proof (cases "n = m")
      case True
      then have "v = w" using w less.prems(2) by simp
      then show ?thesis using IH True y(1) own [OF w y(1)] by (auto simp: all map_add_def split: option.splits)
    next
      case False
      then show ?thesis using IH other [OF less.prems(2) w] by (auto simp: all map_add_def split: option.splits)
    qed
  qed (use less.prems in \<open>auto simp: flag_Parse.simps [of _ args] flag_settings.simps [of _ args]\<close>)
qed

end

end
