(* ===== verification/Agent_Cli.thy ===== *)
theory Agent_Cli
  imports Node_Agent Go_Flag
begin

section \<open>The command line of the agent\<close>

text \<open>
  \<^verbatim>\<open>cmd/ussyverse-agent/main.go\<close>: the subcommands over the files of the node. A flag set that meets an
  error ends the program. \<^verbatim>\<open>run\<close> waits for a signal; the agent it runs is part of its result. The text
  of the usage is left out.
\<close>

definition DefaultDataDir :: string where "DefaultDataDir = ''/var/lib/ussyverse-agent''"

record agent_flags =
  af_token :: string
  af_control :: string
  af_dataDir :: string

definition data_dir_flag :: "agent_flags flag_var" where
  "data_dir_flag = StringVar af_dataDir (\<lambda>s f. f\<lparr>af_dataDir := s\<rparr>)"

definition join_flags :: "agent_flags flags" where
  "join_flags =
     [(''token'', StringVar af_token (\<lambda>s f. f\<lparr>af_token := s\<rparr>)), (''control'', StringVar af_control (\<lambda>s f. f\<lparr>af_control := s\<rparr>)),
      (''data-dir'', data_dir_flag)]"

definition run_flags :: "agent_flags flags" where
  "run_flags = [(''data-dir'', data_dir_flag)]"

definition no_flags :: agent_flags where
  "no_flags = \<lparr>af_token = '''', af_control = '''', af_dataDir = DefaultDataDir\<rparr>"

text \<open>A subcommand returns, with an error or none, or the flag set has ended the program.\<close>

datatype cli_end = Returned "string option" | FlagExit int

definition flag_exit :: "string \<Rightarrow> cli_end" where
  "flag_exit e = FlagExit (if e = ''flag: help requested'' then 0 else 2)"

definition runJoin :: "agent_env \<Rightarrow> nanos \<Rightarrow> string list \<Rightarrow> files \<Rightarrow> cli_end \<times> files" where
  "runJoin env now args fs =
     (case flag_Parse join_flags args no_flags of
        Inl e \<Rightarrow> (flag_exit e, fs)
      | Inr (f, _) \<Rightarrow>
        if af_token f = '''' then (Returned (Some ''--token is required''), fs)
        else if af_control f = '''' then (Returned (Some ''--control is required''), fs)
        else case agent_New env \<lparr>ac_DataDir = af_dataDir f, ac_ControlURL = af_control f\<rparr> fs of
          (Inl e, fs) \<Rightarrow> (Returned (Some (''initializing agent: '' @ e)), fs)
        | (Inr a, fs) \<Rightarrow>
          (case agent_Join env now (af_token f) a fs of
             (Some e, _, fs) \<Rightarrow> (Returned (Some (''joining cluster: '' @ e)), fs)
           | (None, _, fs) \<Rightarrow> (Returned None, fs)))"

text \<open>\<open>Format\<close> prints the time of joining.\<close>

definition runStatus :: "agent_env \<Rightarrow> (nanos \<Rightarrow> string) \<Rightarrow> files \<Rightarrow> string option \<times> string list" where
  "runStatus env Format fs =
     (case LoadState env \<lparr>ac_DataDir = DefaultDataDir, ac_ControlURL = ''''\<rparr> fs of
        Inl e \<Rightarrow> (Some (''loading agent state: '' @ e), [])
      | Inr s \<Rightarrow>
        (None,
         [''Node ID:        '' @ sa_NodeID s, ''Control Plane:  '' @ sa_ControlURL s, ''Joined At:      '' @ Format (sa_JoinedAt s),
          ''WireGuard CIDR: '' @ sa_WireGuardCIDR s]))"

definition runAgent :: "agent_env \<Rightarrow> string list \<Rightarrow> files \<Rightarrow> cli_end \<times> agent option \<times> files" where
  "runAgent env args fs =
     (case flag_Parse run_flags args no_flags of
        Inl e \<Rightarrow> (flag_exit e, None, fs)
      | Inr (f, _) \<Rightarrow>
        (case LoadState env \<lparr>ac_DataDir = af_dataDir f, ac_ControlURL = ''''\<rparr> fs of
           Inl e \<Rightarrow> (Returned (Some (''loading state (have you run 'join' first?): '' @ e)), None, fs)
         | Inr s \<Rightarrow>
           (case agent_New env \<lparr>ac_DataDir = af_dataDir f, ac_ControlURL = sa_ControlURL s\<rparr> fs of
              (Inl e, fs) \<Rightarrow> (Returned (Some (''initializing agent: '' @ e)), None, fs)
            | (Inr a, fs) \<Rightarrow>
              (case agent_Start a of
                 Some e \<Rightarrow> (Returned (Some (''agent stopped: '' @ e)), None, fs)
               | None \<Rightarrow> (Returned None, Some a, fs)))))"

text \<open>The exit code of the program, what it prints on standard output, and the files.\<close>

definition exit_code :: "cli_end \<Rightarrow> int" where
  "exit_code e = (case e of Returned None \<Rightarrow> 0 | Returned (Some _) \<Rightarrow> 1 | FlagExit n \<Rightarrow> n)"

definition agent_main ::
  "agent_env \<Rightarrow> (nanos \<Rightarrow> string) \<Rightarrow> nanos \<Rightarrow> string \<Rightarrow> string list \<Rightarrow> files \<Rightarrow> int \<times> string list \<times> files" where
  "agent_main env Format now version args fs =
     (case args of
        [] \<Rightarrow> (1, [], fs)
      | cmd # rest \<Rightarrow>
        if cmd = ''join'' then (case runJoin env now rest fs of (e, fs) \<Rightarrow> (exit_code e, [], fs))
        else if cmd = ''status'' then (case runStatus env Format fs of (e, out) \<Rightarrow> (exit_code (Returned e), out, fs))
        else if cmd = ''version'' then (0, [''ussyverse-agent '' @ version], fs)
        else if cmd = ''run'' then (case runAgent env rest fs of (e, _, fs) \<Rightarrow> (exit_code e, [], fs))
        else if cmd \<in> {''help'', ''--help'', ''-h''} then (0, [], fs)
        else (1, [], fs))"

lemma put_string: "(\<And>s. h (p s c) = h c) \<Longrightarrow> h (flag_put (StringVar g p) y c) = h c"
  by (cases y) simp_all

interpretation join_table: flag_table join_flags
  by unfold_locales (auto simp: join_flags_def data_dir_flag_def put_string split: if_split_asm)

interpretation run_table: flag_table run_flags
  by unfold_locales (auto simp: run_flags_def data_dir_flag_def put_string split: if_split_asm)

lemma parse_data_dir: "flag_Parse run_flags [''--data-dir'', dir] f = Inr (f\<lparr>af_dataDir := dir\<rparr>, [])"
  by (simp add: flag_Parse.simps parse_one_def flag_arg_def cut_equals_def run_flags_def data_dir_flag_def is_bool_flag_def Let_def)

text \<open>What \<^verbatim>\<open>join\<close> did when it succeeded.\<close>

lemma runJoin_ok:
  assumes "runJoin env now args fs = (Returned None, fs')"
  obtains f rest a fs1 a' where "flag_Parse join_flags args no_flags = Inr (f, rest)" "af_token f \<noteq> []" "af_control f \<noteq> []"
    "agent_New env \<lparr>ac_DataDir = af_dataDir f, ac_ControlURL = af_control f\<rparr> fs = (Inr a, fs1)"
    "agent_Join env now (af_token f) a fs1 = (None, a', fs')"
  using assms by (auto simp: runJoin_def flag_exit_def split: sum.splits prod.splits option.splits if_splits)

lemma New_cfg: "agent_New env cfg fs = (Inr a, fs') \<Longrightarrow> ag_cfg a = cfg"
  by (auto simp: agent_New_def split: option.splits sum.splits prod.splits)

definition joined_state :: "string \<Rightarrow> nanos \<Rightarrow> RegisterResponse \<Rightarrow> agent_state" where
  "joined_state url now resp =
     \<lparr>sa_NodeID = rp_NodeID resp, sa_ControlURL = url, sa_JoinedAt = now, sa_WireGuardCIDR = rp_WireGuardCIDR resp\<rparr>"

lemma Join_state:
  assumes "agent_Join env now token a fs = (None, a', fs')"
  obtains client req resp where "na_client env = Some client" "client req = Inr resp"
    "ag_state a' = Some (joined_state (ac_ControlURL (ag_cfg a)) now resp)"
  using assms
  by (auto simp: agent_Join_def register_def joined_state_def Let_def split: sum.splits option.splits prod.splits)


definition join_args :: "string list" where
  "join_args = [''-token=t'', ''--control'', ''https://c'', ''-data-dir=/d'']"


end
