(* ===== verification/Rate_Limits.thy ===== *)
theory Rate_Limits
  imports Ussy_Prelude Complex_Main
begin

section \<open>Rate limiters\<close>

text \<open>
  The four limiters of the program: the token buckets of \<^verbatim>\<open>internal/api/ratelimit.go\<close> (per SSH
  fingerprint) and of \<^verbatim>\<open>internal/gateway/llm.go\<close> (per user), and the hourly counters of
  \<^verbatim>\<open>internal/gateway/email.go\<close> and \<^verbatim>\<open>email_send.go\<close> (per VM). Two locales state
  the contracts, \<open>admission\<close> and \<open>hour_window\<close>; each is interpreted on both of
  its implementations. A \<^verbatim>\<open>float64\<close> amount of tokens is an exact rational.
\<close>

subsection \<open>The contract of a token bucket\<close>

definition secs :: "nanos \<Rightarrow> rat" where
  "secs d = of_int d / 1000000000"

text \<open>A run of a limiter: the events in order, each with its time; how many were let through.\<close>

fun admitted :: "('e \<Rightarrow> nanos \<Rightarrow> 's \<Rightarrow> bool \<times> 's) \<Rightarrow> (nanos \<times> 'e) list \<Rightarrow> 's \<Rightarrow> nat" where
  "admitted step [] s = 0"
| "admitted step ((t, e) # xs) s =
     (case step e t s of (ok, s') \<Rightarrow> (if ok then 1 else 0) + admitted step xs s')"

fun run_events :: "('e \<Rightarrow> nanos \<Rightarrow> 's \<Rightarrow> bool \<times> 's) \<Rightarrow> (nanos \<times> 'e) list \<Rightarrow> 's \<Rightarrow> 's" where
  "run_events step [] s = s"
| "run_events step ((t, e) # xs) s = run_events step xs (snd (step e t s))"

lemma secs_add: "secs (a + b) = secs a + secs b"
  by (simp add: secs_def add_divide_distrib)

lemma secs_mono: "a \<le> b \<Longrightarrow> secs a \<le> secs b"
  by (simp add: secs_def divide_right_mono)

lemma secs_0 [simp]: "secs 0 = 0"
  by (simp add: secs_def)

text \<open>
  \<open>avail t s\<close> is the credit at time \<open>t\<close>: it never exceeds \<open>cap\<close>, grows at most by
  \<open>rate\<close> per second, every admission costs one, and no event creates credit.
\<close>

locale admission =
  fixes cap rate :: rat
    and valid :: "nanos \<Rightarrow> 's \<Rightarrow> bool"
    and avail :: "nanos \<Rightarrow> 's \<Rightarrow> rat"
    and step :: "'e \<Rightarrow> nanos \<Rightarrow> 's \<Rightarrow> bool \<times> 's"
  assumes avail_nonneg: "valid t s \<Longrightarrow> 0 \<le> avail t s"
    and avail_cap: "valid t s \<Longrightarrow> avail t s \<le> cap"
    and valid_later: "valid t s \<Longrightarrow> t \<le> t' \<Longrightarrow> valid t' s"
    and avail_later: "valid t s \<Longrightarrow> t \<le> t' \<Longrightarrow> avail t' s \<le> avail t s + rate * secs (t' - t)"
    and step_valid: "valid t s \<Longrightarrow> step e t s = (ok, s') \<Longrightarrow> valid t s'"
    and step_pays: "valid t s \<Longrightarrow> step e t s = (ok, s') \<Longrightarrow>
                      avail t s' + (if ok then 1 else 0) \<le> avail t s"
begin

lemma admitted_avail:
  "valid t0 s \<Longrightarrow> sorted (t0 # map fst xs) \<Longrightarrow>
   of_nat (admitted step xs s) \<le> avail t0 s + rate * secs (last (t0 # map fst xs) - t0)"
proof (induction xs arbitrary: t0 s)
  case Nil
  then show ?case by (simp add: avail_nonneg)
next
  case (Cons x xs)
  obtain t e where x: "x = (t, e)" by (cases x)
  obtain ok s' where st: "step e t s = (ok, s')" by (cases "step e t s")
  have le: "t0 \<le> t" using Cons.prems(2) x by simp
  have vt: "valid t s" by (rule valid_later [OF Cons.prems(1) le])
  define L where "L = last (t # map fst xs)"
  have last: "last (t0 # map fst (x # xs)) = L" using x by (simp add: L_def)
  have "of_nat (admitted step xs s') \<le> avail t s' + rate * secs (L - t)"
    unfolding L_def using Cons.IH [OF step_valid [OF vt st]] Cons.prems(2) x by simp
  moreover have "avail t s' + (if ok then 1 else 0) \<le> avail t s" by (rule step_pays [OF vt st])
  moreover have "avail t s \<le> avail t0 s + rate * secs (t - t0)"
    by (rule avail_later [OF Cons.prems(1) le])
  moreover have "rate * secs (t - t0) + rate * secs (L - t) = rate * secs (L - t0)"
    by (simp flip: distrib_left secs_add)
  moreover have "rat_of_nat (admitted step (x # xs) s) = (if ok then 1 else 0) + rat_of_nat (admitted step xs s')"
    using x st by simp
  ultimately show ?case unfolding last by linarith
qed

text \<open>At most \<open>cap\<close> at once, and \<open>rate\<close> per second in the long run.\<close>

lemma admitted_bound:
  assumes "valid t0 s" "sorted (t0 # map fst xs)"
  shows "of_nat (admitted step xs s) \<le> cap + rate * secs (last (t0 # map fst xs) - t0)"
  using admitted_avail [OF assms] avail_cap [OF assms(1)] by linarith

end

subsection \<open>internal/api/ratelimit.go\<close>

record bucket =
  b_tokens :: rat
  b_maxBurst :: int
  b_rate :: rat
  b_lastTime :: nanos

record rate_limiter =
  rl_rate :: rat
  rl_burst :: int
  rl_cleanup :: nanos
  rl_buckets :: "string \<Rightarrow> bucket option"

definition NewRateLimiter :: "rat \<Rightarrow> int \<Rightarrow> rate_limiter" where
  "NewRateLimiter ratePerMinute burst =
     (let ratePerMinute = (if ratePerMinute \<le> 0 then 60 else ratePerMinute);
          burst = (if burst \<le> 0 then 10 else burst)
      in \<lparr>rl_rate = ratePerMinute / 60, rl_burst = burst, rl_cleanup = 10 * minute,
          rl_buckets = Map.empty\<rparr>)"

definition getBucket :: "nanos \<Rightarrow> string \<Rightarrow> rate_limiter \<Rightarrow> bucket \<times> rate_limiter" where
  "getBucket now key rl =
     (case rl_buckets rl key of
        Some b \<Rightarrow> (b, rl)
      | None \<Rightarrow>
          let b = \<lparr>b_tokens = of_int (rl_burst rl), b_maxBurst = rl_burst rl,
                   b_rate = rl_rate rl, b_lastTime = now\<rparr>
          in (b, rl\<lparr>rl_buckets := (rl_buckets rl)(key \<mapsto> b)\<rparr>))"

definition Allow :: "nanos \<Rightarrow> string \<Rightarrow> rate_limiter \<Rightarrow> bool \<times> rate_limiter" where
  "Allow now key rl =
     (let (b, rl) = getBucket now key rl;
          elapsed = secs (now - b_lastTime b);
          tokens = b_tokens b + elapsed * b_rate b;
          tokens = (if tokens > of_int (b_maxBurst b) then of_int (b_maxBurst b) else tokens);
          ok = (tokens \<ge> 1);
          tokens = (if ok then tokens - 1 else tokens)
      in (ok, rl\<lparr>rl_buckets := (rl_buckets rl)(key \<mapsto> b\<lparr>b_lastTime := now, b_tokens := tokens\<rparr>)\<rparr>))"

text \<open>The conversion to \<^verbatim>\<open>time.Duration\<close> truncates to whole milliseconds.\<close>

definition RetryAfter :: "nanos \<Rightarrow> string \<Rightarrow> rate_limiter \<Rightarrow> nanos \<times> rate_limiter" where
  "RetryAfter now key rl =
     (let (b, rl) = getBucket now key rl in
      if b_tokens b \<ge> 1 then (0, rl)
      else let needed = 1 - b_tokens b in (\<lfloor>needed / b_rate b * 1000\<rfloor> * 1000000, rl))"

text \<open>One tick of \<^verbatim>\<open>cleanupLoop\<close>.\<close>

definition cleanup_pass :: "nanos \<Rightarrow> rate_limiter \<Rightarrow> rate_limiter" where
  "cleanup_pass now rl =
     rl\<lparr>rl_buckets := (\<lambda>key. case rl_buckets rl key of
          None \<Rightarrow> None
        | Some b \<Rightarrow> (let idle = now - b_lastTime b in
                     if idle > 2 * rl_cleanup rl then None else Some b))\<rparr>"

datatype rl_event = EvAllow string | EvRetryAfter string | EvCleanup

text \<open>An event of any key; it counts when it is a request of \<open>k\<close> that is let through.\<close>

fun rl_step :: "string \<Rightarrow> rl_event \<Rightarrow> nanos \<Rightarrow> rate_limiter \<Rightarrow> bool \<times> rate_limiter" where
  "rl_step k (EvAllow key) t rl = (case Allow t key rl of (ok, rl') \<Rightarrow> (ok \<and> key = k, rl'))"
| "rl_step k (EvRetryAfter key) t rl = (False, snd (RetryAfter t key rl))"
| "rl_step k EvCleanup t rl = (False, cleanup_pass t rl)"

definition rl_avail :: "string \<Rightarrow> nanos \<Rightarrow> rate_limiter \<Rightarrow> rat" where
  "rl_avail k t rl =
     (case rl_buckets rl k of
        None \<Rightarrow> of_int (rl_burst rl)
      | Some b \<Rightarrow> min (of_int (rl_burst rl)) (b_tokens b + secs (t - b_lastTime b) * rl_rate rl))"

text \<open>
  What the constructor sets up and every event keeps; the last conjunct asks that a bucket
  refills before \<^verbatim>\<open>cleanupLoop\<close> may drop it, so that dropping it creates no credit.
\<close>

definition rl_valid :: "rat \<Rightarrow> int \<Rightarrow> nanos \<Rightarrow> rate_limiter \<Rightarrow> bool" where
  "rl_valid rate burst t rl \<longleftrightarrow>
     rl_rate rl = rate \<and> rl_burst rl = burst \<and> rate > 0 \<and> burst \<ge> 0 \<and>
     (\<forall>k b. rl_buckets rl k = Some b \<longrightarrow>
        0 \<le> b_tokens b \<and> b_tokens b \<le> of_int burst \<and> b_maxBurst b = burst \<and> b_rate b = rate \<and>
        b_lastTime b \<le> t) \<and>
     of_int burst \<le> rate * secs (2 * rl_cleanup rl)"

lemma getBucket_valid:
  assumes v: "rl_valid rate burst t rl" and g: "getBucket t k rl = (b, rl')"
  shows "rl_valid rate burst t rl' \<and> (\<forall>j. rl_avail j t rl' = rl_avail j t rl) \<and>
    rl_buckets rl' k = Some b \<and> 0 \<le> b_tokens b \<and> b_tokens b \<le> of_int burst \<and>
    b_maxBurst b = burst \<and> b_rate b = rate \<and> b_lastTime b \<le> t"
proof (cases "rl_buckets rl k")
  case None
  with g have b: "b = \<lparr>b_tokens = of_int (rl_burst rl), b_maxBurst = rl_burst rl, b_rate = rl_rate rl, b_lastTime = t\<rparr>"
    and rl': "rl' = rl\<lparr>rl_buckets := (rl_buckets rl)(k \<mapsto> b)\<rparr>"
    by (auto simp: getBucket_def Let_def)
  have "rl_avail j t rl' = rl_avail j t rl" for j
    using None by (cases "j = k") (simp_all add: rl_avail_def rl' b split: option.split)
  with v show ?thesis by (simp add: rl_valid_def rl' b)
next
  case (Some c)
  with g have "b = c" "rl' = rl" by (simp_all add: getBucket_def)
  with v Some show ?thesis by (simp add: rl_valid_def)
qed

lemma Allow_valid:
  assumes v: "rl_valid rate burst t rl" and a: "Allow t k rl = (ok, rl')"
  shows "rl_valid rate burst t rl'"
    and "rl_avail j t rl' = rl_avail j t rl - (if ok \<and> j = k then 1 else 0)"
    and "ok \<longleftrightarrow> rl_avail k t rl \<ge> 1"
proof -
  obtain b rl1 where g: "getBucket t k rl = (b, rl1)" by (cases "getBucket t k rl")
  note b = getBucket_valid [OF v g, THEN conjunct1] getBucket_valid [OF v g, THEN conjunct2]
  have v1: "rl_rate rl1 = rate" "rl_burst rl1 = burst" "0 < rate" "0 \<le> burst"
    using b(1) by (simp_all add: rl_valid_def)
  define q where "q = (if b_tokens b + secs (t - b_lastTime b) * rate > of_int burst then of_int burst
      else b_tokens b + secs (t - b_lastTime b) * rate)"
  have "0 \<le> secs (t - b_lastTime b)" using b(2) by (simp add: secs_def)
  then have q: "0 \<le> q" "q \<le> of_int burst" using b(2) v1 by (simp_all add: q_def)
  have avs: "rl_avail j t rl = rl_avail j t rl1" for j using b(2) by simp
  have "rl_buckets rl1 k = Some b" using b(2) by simp
  then have avk: "rl_avail k t rl = q"
    unfolding avs using v1 by (simp add: rl_avail_def q_def min_def)
  have ok: "ok \<longleftrightarrow> q \<ge> 1" and rl': "rl' = rl1\<lparr>rl_buckets := (rl_buckets rl1)(k \<mapsto> b\<lparr>b_lastTime := t,
      b_tokens := if q \<ge> 1 then q - 1 else q\<rparr>)\<rparr>"
    using a g b(2) by (auto simp: Allow_def Let_def q_def)
  show "ok \<longleftrightarrow> rl_avail k t rl \<ge> 1" using ok avk by simp
  show "rl_valid rate burst t rl'"
    using b q rl' by (auto simp: rl_valid_def split: if_splits)
  show "rl_avail j t rl' = rl_avail j t rl - (if ok \<and> j = k then 1 else 0)"
  proof (cases "j = k")
    case True
    then show ?thesis using rl' avk ok q v1 by (auto simp: rl_avail_def)
  next
    case False
    then show ?thesis using rl' unfolding avs by (simp add: rl_avail_def split: option.split)
  qed
qed

lemma cleanup_valid:
  assumes v: "rl_valid rate burst t rl"
  shows "rl_valid rate burst t (cleanup_pass t rl)" "rl_avail j t (cleanup_pass t rl) = rl_avail j t rl"
proof -
  show "rl_valid rate burst t (cleanup_pass t rl)"
    using v by (force simp: rl_valid_def cleanup_pass_def Let_def split: option.splits if_splits)
  show "rl_avail j t (cleanup_pass t rl) = rl_avail j t rl"
  proof (cases "rl_buckets rl j")
    case (Some b)
    have "of_int burst \<le> b_tokens b + secs (t - b_lastTime b) * rate" if "t - b_lastTime b > 2 * rl_cleanup rl"
    proof -
      have "rate * secs (2 * rl_cleanup rl) \<le> rate * secs (t - b_lastTime b)"
        using that v by (intro mult_left_mono secs_mono) (simp_all add: rl_valid_def)
      moreover have "0 \<le> b_tokens b" "of_int burst \<le> rate * secs (2 * rl_cleanup rl)"
        using v Some by (simp_all add: rl_valid_def)
      ultimately show ?thesis by (simp add: mult.commute)
    qed
    with Some v show ?thesis
      by (auto simp: rl_avail_def cleanup_pass_def Let_def rl_valid_def)
  qed (simp add: rl_avail_def cleanup_pass_def)
qed

interpretation api_limiter: admission "of_int burst" rate "rl_valid rate burst" "rl_avail k" "rl_step k"
  for rate burst k
proof
  fix t s assume v: "rl_valid rate burst t s"
  show "0 \<le> rl_avail k t s"
  proof (cases "rl_buckets s k")
    case (Some b)
    with v have "0 \<le> b_tokens b" "0 \<le> secs (t - b_lastTime b)" "0 \<le> rl_rate s" "0 \<le> rl_burst s"
      by (auto simp: rl_valid_def secs_def)
    with Some show ?thesis by (simp add: rl_avail_def)
  qed (use v in \<open>simp add: rl_avail_def rl_valid_def\<close>)
  show "rl_avail k t s \<le> of_int burst"
    using v by (auto simp: rl_avail_def rl_valid_def split: option.splits)
  show "rl_valid rate burst t' s" if "t \<le> t'" for t'
    using v that by (fastforce simp: rl_valid_def)
  show "rl_avail k t' s \<le> rl_avail k t s + rate * secs (t' - t)" if "t \<le> t'" for t'
  proof (cases "rl_buckets s k")
    case (Some b)
    have "0 \<le> rate * secs (t' - t)" using v that by (simp add: rl_valid_def secs_def)
    moreover have "secs (t' - b_lastTime b) * rate = secs (t - b_lastTime b) * rate + rate * secs (t' - t)"
      by (simp add: secs_def field_simps)
    ultimately show ?thesis using Some v by (simp add: rl_avail_def rl_valid_def min_def)
  qed (use v that in \<open>simp add: rl_avail_def rl_valid_def secs_def\<close>)
  fix e ok s' assume st: "rl_step k e t s = (ok, s')"
  show "rl_valid rate burst t s'"
  proof (cases e)
    case (EvAllow key)
    with st show ?thesis using Allow_valid(1) [OF v] by (auto split: prod.splits)
  next
    case (EvRetryAfter key)
    with st show ?thesis using getBucket_valid [OF v]
      by (auto simp: RetryAfter_def Let_def split: prod.splits if_splits)
  next
    case EvCleanup
    with st show ?thesis using cleanup_valid(1) [OF v] by auto
  qed
  show "rl_avail k t s' + (if ok then 1 else 0) \<le> rl_avail k t s"
  proof (cases e)
    case (EvAllow key)
    with st show ?thesis using Allow_valid(2) [OF v, of key _ s' k] by (auto split: prod.splits)
  next
    case (EvRetryAfter key)
    with st show ?thesis using getBucket_valid [OF v, of key _ s']
      by (auto simp: RetryAfter_def Let_def split: prod.splits if_splits)
  next
    case EvCleanup
    with st show ?thesis using cleanup_valid(2) [OF v] by auto
  qed
qed

subsection \<open>internal/gateway/llm.go: rateLimiterMap\<close>

record tokenBucket =
  tb_tokens :: rat
  tb_lastTime :: nanos

record rateLimiterMap =
  rm_buckets :: "int \<Rightarrow> tokenBucket option"
  rm_rate :: rat
  rm_capacity :: int

text \<open>\<^verbatim>\<open>int(f)\<close> truncates towards zero.\<close>

definition go_int :: "rat \<Rightarrow> int" where
  "go_int x = (if x < 0 then \<lceil>x\<rceil> else \<lfloor>x\<rfloor>)"

definition newRateLimiterMap :: "rat \<Rightarrow> rateLimiterMap" where
  "newRateLimiterMap ratePerMinute =
     \<lparr>rm_buckets = Map.empty, rm_rate = ratePerMinute, rm_capacity = go_int ratePerMinute\<rparr>"

definition llm_allow :: "nanos \<Rightarrow> int \<Rightarrow> rateLimiterMap \<Rightarrow> bool \<times> rateLimiterMap" where
  "llm_allow now userID m =
     (case rm_buckets m userID of
        None \<Rightarrow>
          (True, m\<lparr>rm_buckets := (rm_buckets m)(userID \<mapsto>
                   \<lparr>tb_tokens = of_int (rm_capacity m) - 1, tb_lastTime = now\<rparr>)\<rparr>)
      | Some b \<Rightarrow>
          let elapsed = secs (now - tb_lastTime b) / 60;
              tokens = tb_tokens b + elapsed * rm_rate m;
              tokens = (if tokens > of_int (rm_capacity m) then of_int (rm_capacity m) else tokens)
          in if tokens < 1
             then (False, m\<lparr>rm_buckets := (rm_buckets m)(userID \<mapsto> \<lparr>tb_tokens = tokens, tb_lastTime = now\<rparr>)\<rparr>)
             else (True, m\<lparr>rm_buckets := (rm_buckets m)(userID \<mapsto> \<lparr>tb_tokens = tokens - 1, tb_lastTime = now\<rparr>)\<rparr>))"

definition llm_step :: "int \<Rightarrow> int \<Rightarrow> nanos \<Rightarrow> rateLimiterMap \<Rightarrow> bool \<times> rateLimiterMap" where
  "llm_step k user t m = (case llm_allow t user m of (ok, m') \<Rightarrow> (ok \<and> user = k, m'))"

definition llm_avail :: "int \<Rightarrow> nanos \<Rightarrow> rateLimiterMap \<Rightarrow> rat" where
  "llm_avail k t m =
     (case rm_buckets m k of
        None \<Rightarrow> of_int (rm_capacity m)
      | Some b \<Rightarrow> min (of_int (rm_capacity m)) (tb_tokens b + secs (t - tb_lastTime b) / 60 * rm_rate m))"

definition llm_valid :: "rat \<Rightarrow> int \<Rightarrow> nanos \<Rightarrow> rateLimiterMap \<Rightarrow> bool" where
  "llm_valid rate cap t m \<longleftrightarrow>
     rm_rate m = rate \<and> rm_capacity m = cap \<and> rate > 0 \<and> cap \<ge> 1 \<and>
     (\<forall>k b. rm_buckets m k = Some b \<longrightarrow>
        0 \<le> tb_tokens b \<and> tb_tokens b \<le> of_int cap \<and> tb_lastTime b \<le> t)"

lemma llm_allow_valid:
  assumes v: "llm_valid rate cap t m" and a: "llm_allow t u m = (ok, m')"
  shows "llm_valid rate cap t m'"
    and "llm_avail j t m' = llm_avail j t m - (if ok \<and> j = u then 1 else 0)"
proof -
  have v1: "rm_rate m = rate" "rm_capacity m = cap" "rate > 0" "cap \<ge> 1"
    using v by (simp_all add: llm_valid_def)
  have "\<exists>q. 0 \<le> q \<and> q \<le> of_int cap \<and> llm_avail u t m = q + (if ok then 1 else 0) \<and>
      m' = m\<lparr>rm_buckets := (rm_buckets m)(u \<mapsto> \<lparr>tb_tokens = q, tb_lastTime = t\<rparr>)\<rparr>"
  proof (cases "rm_buckets m u")
    case None
    with a v1 show ?thesis
      by (intro exI [of _ "of_int cap - 1"]) (auto simp: llm_allow_def llm_avail_def)
  next
    case (Some b)
    define q where "q = (if tb_tokens b + secs (t - tb_lastTime b) / 60 * rate > of_int cap then of_int cap
        else tb_tokens b + secs (t - tb_lastTime b) / 60 * rate)"
    have b: "0 \<le> tb_tokens b" "tb_lastTime b \<le> t" using v Some by (auto simp: llm_valid_def)
    then have "0 \<le> secs (t - tb_lastTime b)" by (simp add: secs_def)
    then have q: "0 \<le> q" "q \<le> of_int cap" using b v1 by (simp_all add: q_def)
    have "llm_avail u t m = q" using Some v1 by (simp add: llm_avail_def q_def min_def)
    moreover have "llm_allow t u m = (if q < 1
        then (False, m\<lparr>rm_buckets := (rm_buckets m)(u \<mapsto> \<lparr>tb_tokens = q, tb_lastTime = t\<rparr>)\<rparr>)
        else (True, m\<lparr>rm_buckets := (rm_buckets m)(u \<mapsto> \<lparr>tb_tokens = q - 1, tb_lastTime = t\<rparr>)\<rparr>))"
      by (simp add: llm_allow_def Let_def q_def Some v1)
    then have "ok \<longleftrightarrow> q \<ge> 1" and "m' = m\<lparr>rm_buckets := (rm_buckets m)(u \<mapsto>
        \<lparr>tb_tokens = if q \<ge> 1 then q - 1 else q, tb_lastTime = t\<rparr>)\<rparr>"
      using a by (simp_all split: if_splits)
    ultimately show ?thesis
      using q by (intro exI [of _ "if q \<ge> 1 then q - 1 else q"]) auto
  qed
  then obtain q where q: "0 \<le> q" "q \<le> of_int cap" "llm_avail u t m = q + (if ok then 1 else 0)"
    and m': "m' = m\<lparr>rm_buckets := (rm_buckets m)(u \<mapsto> \<lparr>tb_tokens = q, tb_lastTime = t\<rparr>)\<rparr>" by blast
  show "llm_valid rate cap t m'" using v q by (simp add: llm_valid_def m')
  show "llm_avail j t m' = llm_avail j t m - (if ok \<and> j = u then 1 else 0)"
    using q v1 by (cases "j = u") (auto simp: m' llm_avail_def min_def split: option.split)
qed

interpretation llm_limiter: admission "of_int cap" "rate / 60" "llm_valid rate cap" "llm_avail k" "llm_step k"
  for rate cap k
proof
  fix t s assume v: "llm_valid rate cap t s"
  show "0 \<le> llm_avail k t s"
  proof (cases "rm_buckets s k")
    case (Some b)
    with v have "0 \<le> tb_tokens b" "0 \<le> secs (t - tb_lastTime b)" "0 \<le> rm_rate s" "0 \<le> rm_capacity s"
      by (auto simp: llm_valid_def secs_def)
    with Some show ?thesis by (simp add: llm_avail_def)
  qed (use v in \<open>simp add: llm_avail_def llm_valid_def\<close>)
  show "llm_avail k t s \<le> of_int cap"
    using v by (auto simp: llm_avail_def llm_valid_def split: option.splits)
  show "llm_valid rate cap t' s" if "t \<le> t'" for t'
    using v that by (fastforce simp: llm_valid_def)
  show "llm_avail k t' s \<le> llm_avail k t s + rate / 60 * secs (t' - t)" if "t \<le> t'" for t'
  proof (cases "rm_buckets s k")
    case (Some b)
    have "0 \<le> rate / 60 * secs (t' - t)" using v that by (simp add: llm_valid_def secs_def)
    moreover have "secs (t' - tb_lastTime b) / 60 * rate = secs (t - tb_lastTime b) / 60 * rate + rate / 60 * secs (t' - t)"
      by (simp add: secs_def field_simps)
    ultimately show ?thesis using Some v by (simp add: llm_avail_def llm_valid_def min_def add_divide_distrib)
  qed (use v that in \<open>simp add: llm_avail_def llm_valid_def secs_def\<close>)
  fix e ok s' assume st: "llm_step k e t s = (ok, s')"
  then obtain ok' where a: "llm_allow t e s = (ok', s')" "ok = (ok' \<and> e = k)"
    by (auto simp: llm_step_def split: prod.splits)
  show "llm_valid rate cap t s'" by (rule llm_allow_valid(1) [OF v a(1)])
  show "llm_avail k t s' + (if ok then 1 else 0) \<le> llm_avail k t s"
    using llm_allow_valid(2) [OF v a(1), of k] a(2) by auto
qed

subsection \<open>The contract of an hourly counter\<close>

text \<open>
  \<open>view s k\<close> is the counter of key \<open>k\<close> and the start of its hour; the first request of an
  hour is always let through, a later one while the count is below the limit.
\<close>

locale hour_window =
  fixes limit :: int
    and view :: "'s \<Rightarrow> string \<Rightarrow> (int \<times> nanos) option"
    and check :: "nanos \<Rightarrow> string \<Rightarrow> 's \<Rightarrow> bool \<times> 's"
  assumes limit_pos: "1 \<le> limit"
    and check_fresh: "(\<And>c. view s k \<noteq> Some (c, trunc_hour t)) \<Longrightarrow> check t k s = (ok, s') \<Longrightarrow>
          ok \<and> view s' k = Some (1, trunc_hour t)"
    and check_same: "view s k = Some (c, trunc_hour t) \<Longrightarrow> check t k s = (ok, s') \<Longrightarrow>
          (if c \<ge> limit then \<not> ok \<and> view s' k = view s k
           else ok \<and> view s' k = Some (c + 1, trunc_hour t))"
    and check_other: "check t k s = (ok, s') \<Longrightarrow> j \<noteq> k \<Longrightarrow> view s' j = view s j"

text \<open>The requests of key \<open>k\<close> in the hour that starts at \<open>h\<close>, and those let through.\<close>

definition hour_requests :: "string \<Rightarrow> nanos \<Rightarrow> (nanos \<times> string) list \<Rightarrow> nat" where
  "hour_requests k h xs = length (filter (\<lambda>(t, j). j = k \<and> trunc_hour t = h) xs)"

definition hour_step :: "(nanos \<Rightarrow> string \<Rightarrow> 's \<Rightarrow> bool \<times> 's) \<Rightarrow> string \<Rightarrow> nanos \<Rightarrow>
  string \<Rightarrow> nanos \<Rightarrow> 's \<Rightarrow> bool \<times> 's" where
  "hour_step check k h j t s = (case check t j s of (ok, s') \<Rightarrow> (ok \<and> j = k \<and> trunc_hour t = h, s'))"

lemma hour_step_eval:
  "check t j s = (ok, s') \<Longrightarrow> hour_step check k h j t s = (ok \<and> j = k \<and> trunc_hour t = h, s')"
  by (simp add: hour_step_def)

context hour_window begin

text \<open>How many requests of the hour \<open>h\<close> the counter has already let through.\<close>

definition spent :: "'s \<Rightarrow> string \<Rightarrow> nanos \<Rightarrow> int" where
  "spent s k h = (case view s k of Some (c, w) \<Rightarrow> if w = h then c else 0 | None \<Rightarrow> 0)"

definition window_le :: "'s \<Rightarrow> string \<Rightarrow> nanos \<Rightarrow> bool" where
  "window_le s k t \<longleftrightarrow> (\<forall>c w. view s k = Some (c, w) \<longrightarrow> w \<le> trunc_hour t)"

lemma none_later:
  assumes "sorted (t0 # map fst xs)" "h < trunc_hour t0"
  shows "hour_requests k h xs = 0"
proof -
  have "trunc_hour t0 \<le> trunc_hour t" if "t \<in> fst ` set xs" for t
    using assms(1) that by (intro trunc_hour_mono) auto
  with assms(2) show ?thesis by (force simp: hour_requests_def filter_empty_conv)
qed

lemma check_spent:
  assumes c: "check t j s = (ok, s')" and w: "window_le s k t"
    and sp: "0 \<le> spent s k h" "spent s k h \<le> limit"
  shows "window_le s' k t \<and> 
    (if j = k \<and> trunc_hour t = h
     then ok = (spent s k h < limit) \<and> spent s' k h = spent s k h + (if ok then 1 else 0)
     else spent s' k h = spent s k h \<or> h < trunc_hour t \<and> spent s' k h = 0)"
proof (cases "j = k")
  case False
  then have "view s' k = view s k" by (intro check_other [OF c]) simp
  then show ?thesis using w False by (simp add: window_le_def spent_def)
next
  case jk: True
  show ?thesis
  proof (cases "\<exists>n. view s k = Some (n, trunc_hour t)")
    case False
    have "ok \<and> view s' k = Some (1, trunc_hour t)"
      by (rule check_fresh [OF _ c [unfolded jk]]) (use False in blast)
    then have s': "ok" "view s' k = Some (1, trunc_hour t)" by simp_all
    have "window_le s' k t" using s' by (simp add: window_le_def)
    moreover have "spent s' k h = (if trunc_hour t = h then 1 else 0)" using s' by (simp add: spent_def)
    moreover have "\<not> h < trunc_hour t \<Longrightarrow> spent s k h = 0"
      using w False by (cases "view s k") (auto simp: spent_def window_le_def)
    ultimately show ?thesis using s'(1) limit_pos jk by (cases "trunc_hour t = h") auto
  next
    case True
    then obtain n where n: "view s k = Some (n, trunc_hour t)" by blast
    have s': "if n \<ge> limit then \<not> ok \<and> view s' k = view s k
              else ok \<and> view s' k = Some (n + 1, trunc_hour t)"
      by (rule check_same [OF n c [unfolded jk]])
    have "spent s k h = (if trunc_hour t = h then n else 0)" using n by (simp add: spent_def)
    moreover have "spent s' k h = (if trunc_hour t = h then if ok then n + 1 else n else 0)"
      using n s' by (cases "n \<ge> limit") (simp_all add: spent_def)
    moreover have "window_le s' k t"
      using n s' by (cases "n \<ge> limit") (simp_all add: window_le_def)
    ultimately show ?thesis using s' jk by (cases "trunc_hour t = h"; cases "n \<ge> limit") simp_all
  qed
qed

text \<open>In an hour with \<open>n\<close> requests exactly the first \<^term>\<open>min limit n\<close> are let through.\<close>

lemma admitted_in_hour:
  assumes "sorted (t0 # map fst xs)" "window_le s k t0" "0 \<le> spent s k h" "spent s k h \<le> limit"
  shows "int (admitted (hour_step check k h) xs s) =
    min limit (spent s k h + int (hour_requests k h xs)) - spent s k h"
  using assms
proof (induction xs arbitrary: t0 s)
  case Nil
  then show ?case by (simp add: hour_requests_def)
next
  case (Cons x xs)
  obtain t j where x: "x = (t, j)" by (cases x)
  obtain ok s' where c: "check t j s = (ok, s')" by (cases "check t j s")
  have "trunc_hour t0 \<le> trunc_hour t" using Cons.prems(1) x by (intro trunc_hour_mono) simp
  then have w: "window_le s k t" using Cons.prems(2) by (auto simp: window_le_def intro: order_trans)
  have sorted: "sorted (t # map fst xs)" using Cons.prems(1) x by simp
  note st = check_spent [OF c w Cons.prems(3,4)]
  show ?case
  proof (cases "j = k \<and> trunc_hour t = h")
    case True
    note he = hour_step_eval [of check, OF c, of k h]
    from True have "int (admitted (hour_step check k h) xs s') =
        min limit (spent s' k h + int (hour_requests k h xs)) - spent s' k h"
      using st Cons.prems(3,4) by (intro Cons.IH [OF sorted]) auto
    then show ?thesis using True st x he Cons.prems(4)
      by (cases ok) (simp_all add: hour_requests_def)
  next
    case False
    then have IH: "int (admitted (hour_step check k h) xs s') =
        min limit (spent s' k h + int (hour_requests k h xs)) - spent s' k h"
      using st Cons.prems(3,4) limit_pos by (intro Cons.IH [OF sorted]) (auto split: if_splits)
    have "h < trunc_hour t \<Longrightarrow> hour_requests k h xs = 0" by (rule none_later [OF sorted])
    moreover have "admitted (hour_step check k h) (x # xs) s = admitted (hour_step check k h) xs s'"
      "hour_requests k h (x # xs) = hour_requests k h xs"
      using False x by (auto simp: hour_step_eval [of check, OF c] hour_requests_def)
    ultimately show ?thesis using IH False st Cons.prems(4) limit_pos by (auto split: if_splits)
  qed
qed

end

subsection \<open>internal/gateway/email.go and email\_send.go: the counters\<close>

text \<open>The constructors replace a limit that is not positive by their default.\<close>

definition norm_rate :: "int \<Rightarrow> int \<Rightarrow> int" where
  "norm_rate dflt r = (if r \<le> 0 then dflt else r)"

record emailRateBucket =
  er_count :: int
  er_windowAt :: nanos

definition checkVMRate ::
  "int \<Rightarrow> nanos \<Rightarrow> string \<Rightarrow> (string \<Rightarrow> emailRateBucket option) \<Rightarrow>
   bool \<times> (string \<Rightarrow> emailRateBucket option)" where
  "checkVMRate ratePerHour now vmName rates =
     (let currentHour = trunc_hour now;
          fresh = rates(vmName \<mapsto> \<lparr>er_count = 1, er_windowAt = currentHour\<rparr>) in
      case rates vmName of
        None \<Rightarrow> (True, fresh)
      | Some b \<Rightarrow>
          if er_windowAt b \<noteq> currentHour then (True, fresh)
          else if er_count b \<ge> ratePerHour then (False, rates)
          else (True, rates(vmName \<mapsto> b\<lparr>er_count := er_count b + 1\<rparr>)))"

record emailSendBucket =
  es_count :: int
  es_windowAt :: nanos

definition checkSendRate ::
  "int \<Rightarrow> nanos \<Rightarrow> string \<Rightarrow> (string \<Rightarrow> emailSendBucket option) \<Rightarrow>
   bool \<times> (string \<Rightarrow> emailSendBucket option)" where
  "checkSendRate ratePerHour now vmName rates =
     (let currentHour = trunc_hour now;
          fresh = rates(vmName \<mapsto> \<lparr>es_count = 1, es_windowAt = currentHour\<rparr>) in
      case rates vmName of
        None \<Rightarrow> (True, fresh)
      | Some b \<Rightarrow>
          if es_windowAt b \<noteq> currentHour then (True, fresh)
          else if es_count b \<ge> ratePerHour then (False, rates)
          else (True, rates(vmName \<mapsto> b\<lparr>es_count := es_count b + 1\<rparr>)))"

definition vm_rate_view :: "(string \<Rightarrow> emailRateBucket option) \<Rightarrow> string \<Rightarrow> (int \<times> nanos) option" where
  "vm_rate_view rates k = map_option (\<lambda>b. (er_count b, er_windowAt b)) (rates k)"

definition send_rate_view :: "(string \<Rightarrow> emailSendBucket option) \<Rightarrow> string \<Rightarrow> (int \<times> nanos) option" where
  "send_rate_view rates k = map_option (\<lambda>b. (es_count b, es_windowAt b)) (rates k)"

interpretation smtp_counter: hour_window "norm_rate 100 r" vm_rate_view "checkVMRate (norm_rate 100 r)" for r
proof (unfold_locales, goal_cases)
  case 1 show ?case by (simp add: norm_rate_def)
next
  case (2 s k t ok s')
  then show ?case by (cases "s k") (auto simp: checkVMRate_def vm_rate_view_def Let_def split: if_splits)
next
  case (3 s k c t ok s')
  then show ?case by (cases "s k") (auto simp: checkVMRate_def vm_rate_view_def Let_def split: if_splits)
next
  case (4 t k s ok s' j)
  then show ?case by (cases "s k") (auto simp: checkVMRate_def vm_rate_view_def Let_def split: if_splits)
qed

interpretation send_counter: hour_window "norm_rate 10 r" send_rate_view "checkSendRate (norm_rate 10 r)" for r
proof (unfold_locales, goal_cases)
  case 1 show ?case by (simp add: norm_rate_def)
next
  case (2 s k t ok s')
  then show ?case by (cases "s k") (auto simp: checkSendRate_def send_rate_view_def Let_def split: if_splits)
next
  case (3 s k c t ok s')
  then show ?case by (cases "s k") (auto simp: checkSendRate_def send_rate_view_def Let_def split: if_splits)
next
  case (4 t k s ok s' j)
  then show ?case by (cases "s k") (auto simp: checkSendRate_def send_rate_view_def Let_def split: if_splits)
qed

subsection \<open>Properties\<close>

lemma NewRateLimiter_valid:
  "of_int (rl_burst (NewRateLimiter rpm n)) \<le> rl_rate (NewRateLimiter rpm n) * 1200 \<Longrightarrow>
   rl_valid (rl_rate (NewRateLimiter rpm n)) (rl_burst (NewRateLimiter rpm n)) t (NewRateLimiter rpm n)"
  by (auto simp: rl_valid_def NewRateLimiter_def Let_def secs_def minute_def)



text \<open>C40. When a request has been refused and nothing else happens to its bucket, a request made a
millisecond or more after the announced \<^verbatim>\<open>RetryAfter\<close> is let through.\<close>

theorem retry_after_suffices:
  assumes "rl_valid rate burst t rl" "burst \<ge> 1" "Allow t k rl = (False, rl1)"
    and "RetryAfter t k rl1 = (wait, rl2)" "t' \<ge> t + wait + 1000000"
  shows "fst (Allow t' k rl2)"
proof -
  have v1: "rl_valid rate burst t rl1" by (rule Allow_valid(1) [OF assms(1,3)])
  obtain b rl' where g: "getBucket t k rl1 = (b, rl')" by (cases "getBucket t k rl1")
  have "rl_buckets rl1 k \<noteq> None" using assms(3) by (auto simp: Allow_def Let_def split: prod.splits)
  then have b: "rl_buckets rl1 k = Some b" and same: "rl' = rl1"
    using g by (auto simp: getBucket_def)
  have rl2: "rl2 = rl1" using assms(4) g same by (simp add: RetryAfter_def Let_def split: if_splits)
  have v: "0 < rate" "rl_rate rl1 = rate" "rl_burst rl1 = burst" "b_rate b = rate"
    using v1 b by (auto simp: rl_valid_def)
  have last: "b_lastTime b = t" using assms(3) b by (auto simp: Allow_def Let_def split: prod.splits)
  have "(1 - b_tokens b) / rate \<le> secs (t' - t)"
  proof (cases "b_tokens b \<ge> 1")
    case True
    have "0 \<le> wait" using assms(4) g True by (simp add: RetryAfter_def)
    then have "0 \<le> secs (t' - t)" using assms(5) by (simp add: secs_def)
    moreover have "(1 - b_tokens b) / rate \<le> 0" using True v(1) by (simp add: divide_le_0_iff)
    ultimately show ?thesis by linarith
  next
    case False
    then have w: "wait = \<lfloor>(1 - b_tokens b) / rate * 1000\<rfloor> * 1000000"
      using assms(4) g v(4) by (simp add: RetryAfter_def)
    have "(1 - b_tokens b) / rate * 1000 \<le> of_int (\<lfloor>(1 - b_tokens b) / rate * 1000\<rfloor> + 1)" by linarith
    also have "\<dots> = secs (wait + 1000000) * 1000" by (simp add: w secs_def field_simps)
    also have "\<dots> \<le> secs (t' - t) * 1000" using assms(5) by (simp add: secs_mono)
    finally show ?thesis by (rule mult_right_le_imp_le) simp
  qed
  then have "1 \<le> b_tokens b + secs (t' - t) * rate" using v(1) by (simp add: field_simps)
  then have "1 \<le> rl_avail k t' rl1" using b v last assms(2) by (simp add: rl_avail_def)
  moreover have "rl_valid rate burst t' rl1"
  proof (rule api_limiter.valid_later [OF v1])
    have "0 \<le> wait" using assms(4) g v1 b v
      by (auto simp: RetryAfter_def Let_def split: if_splits)
    then show "t \<le> t'" using assms(5) by linarith
  qed
  ultimately show ?thesis
    unfolding rl2 using Allow_valid(3) [of rate burst t' rl1 k] by (cases "Allow t' k rl1") simp
qed

theorem retry_after_suffices_witness:
  "fst (Allow (2 * second) ''fp'' (snd (RetryAfter 0 ''fp'' (snd (Allow 0 ''fp''
     (snd (Allow 0 ''fp'' (NewRateLimiter 60 1))))))))"
proof -
  let ?rl = "snd (Allow 0 ''fp'' (NewRateLimiter 60 1))"
  have v: "rl_valid 1 1 0 ?rl"
    by (auto simp: NewRateLimiter_def Allow_def getBucket_def Let_def rl_valid_def secs_def minute_def
        split: if_splits)
  have a: "Allow 0 ''fp'' ?rl = (False, snd (Allow 0 ''fp'' ?rl))" and
    w: "RetryAfter 0 ''fp'' (snd (Allow 0 ''fp'' ?rl)) = (second, snd (RetryAfter 0 ''fp'' (snd (Allow 0 ''fp'' ?rl))))"
    by (simp_all add: NewRateLimiter_def Allow_def RetryAfter_def getBucket_def Let_def secs_def second_def)
  show ?thesis by (rule retry_after_suffices [OF v _ a w]) (simp_all add: second_def)
qed

text \<open>The LLM gateway's limiter, for a configured rate of at least one request a minute: a user
gets at most the capacity plus the rate times the elapsed time.\<close>

theorem llm_rate_bound:
  assumes "1 \<le> rpm" "sorted (t0 # map fst xs)"
  shows "of_nat (admitted (llm_step k) xs (newRateLimiterMap rpm)) \<le>
    of_int \<lfloor>rpm\<rfloor> + rpm / 60 * secs (last (t0 # map fst xs) - t0)"
proof (rule llm_limiter.admitted_bound [OF _ assms(2)])
  show "llm_valid rpm \<lfloor>rpm\<rfloor> t0 (newRateLimiterMap rpm)"
    using assms(1) by (auto simp: llm_valid_def newRateLimiterMap_def go_int_def)
qed

theorem llm_rate_bound_witness:
  "of_nat (admitted (llm_step 7) [(0, 7), (minute, 8), (minute, 7)] (newRateLimiterMap 60)) \<le> (120 :: rat)"
  using llm_rate_bound [of 60 0 "[(0, 7), (minute, 8), (minute, 7)]" 7]
  by (simp add: secs_def minute_def)

text \<open>Inbound mail: of the deliveries a VM gets in one clock hour, exactly the first
\<^term>\<open>norm_rate 100 r\<close> pass the limiter, whatever other VMs and hours do.\<close>

theorem smtp_hourly_exact:
  assumes "sorted (map fst xs)"
  shows "int (admitted (hour_step (checkVMRate (norm_rate 100 r)) vm h) xs Map.empty) =
    min (norm_rate 100 r) (int (hour_requests vm h xs))"
proof (cases xs)
  case (Cons x ys)
  have "sorted (fst x # map fst xs)" using assms Cons by simp
  from smtp_counter.admitted_in_hour [OF this, of Map.empty vm h r] smtp_counter.limit_pos [of r]
  show ?thesis by (simp add: smtp_counter.window_le_def smtp_counter.spent_def vm_rate_view_def)
qed (use smtp_counter.limit_pos [of r] in \<open>simp add: hour_requests_def\<close>)

theorem smtp_hourly_exact_witness:
  "int (admitted (hour_step (checkVMRate (norm_rate 100 1)) ''web'' 0) [(0, ''web''), (second, ''web'')] Map.empty) = 1"
  using smtp_hourly_exact [of "[(0, ''web''), (second, ''web'')]" 1 "''web''" 0]
  by (simp add: second_def norm_rate_def hour_requests_def trunc_hour_def hour_def)

text \<open>Outbound mail: of the messages a VM sends in one clock hour, exactly the first
\<^term>\<open>norm_rate 10 r\<close> pass the limiter.\<close>

theorem send_hourly_exact:
  assumes "sorted (map fst xs)"
  shows "int (admitted (hour_step (checkSendRate (norm_rate 10 r)) vm h) xs Map.empty) =
    min (norm_rate 10 r) (int (hour_requests vm h xs))"
proof (cases xs)
  case (Cons x ys)
  have "sorted (fst x # map fst xs)" using assms Cons by simp
  from send_counter.admitted_in_hour [OF this, of Map.empty vm h r] send_counter.limit_pos [of r]
  show ?thesis by (simp add: send_counter.window_le_def send_counter.spent_def send_rate_view_def)
qed (use send_counter.limit_pos [of r] in \<open>simp add: hour_requests_def\<close>)

theorem send_hourly_exact_witness:
  "int (admitted (hour_step (checkSendRate (norm_rate 10 1)) ''web'' 0) [(0, ''web''), (second, ''web'')] Map.empty) = 1"
  using send_hourly_exact [of "[(0, ''web''), (second, ''web'')]" 1 "''web''" 0]
  by (simp add: second_def norm_rate_def hour_requests_def trunc_hour_def hour_def)

text \<open>Without that proviso the bound fails: a slow limiter with a large burst is refilled by the
cleanup loop. One request a minute, a burst of 25: 25 requests, 21 idle minutes, 25 more.\<close>

theorem cleanup_refills_early:
  "admitted (rl_step ''fp'')
     (replicate 25 (0, EvAllow ''fp'') @ (21 * minute, EvCleanup) # replicate 25 (21 * minute, EvAllow ''fp''))
     (NewRateLimiter 1 25) = 50"
  by code_simp

end
