(* ===== verification/Email_Send.thy ===== *)
theory Email_Send
  imports Rate_Limits Db_Frames Go_Files
begin

section \<open>Outbound mail\<close>

text \<open>
  \<^verbatim>\<open>internal/gateway/email_send.go\<close>: a guest asks for a mail to be sent to the owner of its VM.
  The hourly limiter is in \<open>Rate_Limits\<close>. The SMTP relay is a parameter, asked with the list of the
  mails handed to it before; the date header's text is a parameter too. The JSON body comes decoded, or
  as the decoder's error.
\<close>

subsection \<open>net.SplitHostPort\<close>

text \<open>Host and port; an address with a bracketed or with an unbracketed host.\<close>

definition SplitHostPort :: "string \<Rightarrow> (string \<times> string) option" where
  "SplitHostPort s =
     (let port = rev (takeWhile (\<lambda>c. c \<noteq> CHR '':'') (rev s)); i = length s - length port - 1 in
      if CHR '':'' \<notin> set s then None
      else if HasPrefix s ''['' then
        (if CHR '']'' \<notin> set s then None
         else let e = length (takeWhile (\<lambda>c. c \<noteq> CHR '']'') s) in
           if e + 1 \<noteq> i then None
           else if CHR ''['' \<in> set (drop 1 s) \<or> CHR '']'' \<in> set (drop (e + 1) s) then None
           else Some (take (e - 1) (drop 1 s), port))
      else if CHR '':'' \<in> set (take i s) then None
      else if CHR ''['' \<in> set s \<or> CHR '']'' \<in> set s then None
      else Some (take i s, port))"

subsection \<open>Metadata of a VM, from metadata.go\<close>

record VMMetadata =
  md_InstanceID :: string
  md_LocalIPv4 :: string
  md_Hostname :: string
  md_UserID :: int
  md_UserHandle :: string
  md_VMName :: string
  md_Image :: string
  md_UserData :: string
  md_SSHKeys :: "string list"
  md_Gateway :: string
  md_EnvVars :: "(string \<times> string) list"

subsection \<open>The sender\<close>

record EmailSendConfig =
  ec_SMTPRelay :: string
  ec_SMTPUsername :: string
  ec_SMTPPassword :: string
  ec_FromAddress :: string
  ec_RatePerHourPerVM :: int

record relay_call =
  rc_addr :: string
  rc_auth :: "(string \<times> string \<times> string) option"
  rc_from :: string
  rc_to :: "string list"
  rc_msg :: string

record EmailSender =
  em_cfg :: EmailSendConfig
  em_rates :: "string \<Rightarrow> emailSendBucket option"
  em_sent :: "relay_call list"

record email_env =
  ee_relay :: "relay_call list \<Rightarrow> relay_call \<Rightarrow> string option"
  ee_date :: "nanos \<Rightarrow> string"

definition DefaultEmailSendConfig :: EmailSendConfig where
  "DefaultEmailSendConfig =
     \<lparr>ec_SMTPRelay = ''localhost:25'', ec_SMTPUsername = '''', ec_SMTPPassword = '''',
      ec_FromAddress = ''noreply@ussy.host'', ec_RatePerHourPerVM = 10\<rparr>"

definition NewEmailSender :: "EmailSendConfig option \<Rightarrow> EmailSender" where
  "NewEmailSender cfg =
     (let cfg = (case cfg of None \<Rightarrow> DefaultEmailSendConfig | Some c \<Rightarrow> c);
          cfg = (if ec_RatePerHourPerVM cfg \<le> 0 then cfg\<lparr>ec_RatePerHourPerVM := 10\<rparr> else cfg);
          cfg = (if ec_FromAddress cfg = '''' then cfg\<lparr>ec_FromAddress := ''noreply@ussy.host''\<rparr> else cfg)
      in \<lparr>em_cfg = cfg, em_rates = Map.empty, em_sent = []\<rparr>)"

record EmailSendRequest =
  eq_To :: string
  eq_Subject :: string
  eq_Body :: string

record EmailSendResponse =
  ep_Status :: string
  ep_Message :: string
  ep_Error :: string

definition email_error :: "int \<Rightarrow> string \<Rightarrow> int \<times> EmailSendResponse" where
  "email_error code msg = (code, \<lparr>ep_Status = ''error'', ep_Message = '''', ep_Error = msg\<rparr>)"

definition maskEmail :: "string \<Rightarrow> string" where
  "maskEmail email =
     (case SplitN2 email CHR ''@'' of
        [local, rest] \<Rightarrow> (if length local > 1 then [hd local] @ ''***'' else local) @ ''@'' @ rest
      | _ \<Rightarrow> ''***'')"

definition MailEOL :: string where "MailEOL = [CHR 0x0D, CHR 0x0A]"

definition buildEmailMessage ::
  "string \<Rightarrow> string \<Rightarrow> string \<Rightarrow> string \<Rightarrow> string \<Rightarrow> VMMetadata \<Rightarrow> string" where
  "buildEmailMessage date from to subject body meta =
     ''From: '' @ from @ MailEOL @
     ''To: '' @ to @ MailEOL @
     ''Subject: '' @ subject @ MailEOL @
     ''Date: '' @ date @ MailEOL @
     ''MIME-Version: 1.0'' @ MailEOL @
     ''Content-Type: text/plain; charset=utf-8'' @ MailEOL @
     ''X-Ussycode-VM: '' @ md_VMName meta @ MailEOL @
     ''X-Ussycode-User: '' @ md_UserHandle meta @ MailEOL @
     MailEOL @ body"

definition relay_auth :: "EmailSendConfig \<Rightarrow> (string \<times> string \<times> string) option" where
  "relay_auth cfg =
     (if ec_SMTPUsername cfg = '''' then None
      else Some (ec_SMTPUsername cfg, ec_SMTPPassword cfg,
             case SplitHostPort (ec_SMTPRelay cfg) of None \<Rightarrow> '''' | Some (host, _) \<Rightarrow> host))"

definition HandleEmailSend ::
  "email_env \<Rightarrow> nanos \<Rightarrow> string \<Rightarrow> string + EmailSendRequest \<Rightarrow> VMMetadata \<Rightarrow> db \<Rightarrow> EmailSender \<Rightarrow>
   (int \<times> EmailSendResponse) \<times> EmailSender" where
  "HandleEmailSend env now method body meta d e =
     (if method \<noteq> ''POST'' then (email_error 405 ''method not allowed'', e)
      else case body of
        Inl err \<Rightarrow> (email_error 400 (''invalid JSON: '' @ err), e)
      | Inr req \<Rightarrow>
        if eq_To req = '''' \<or> eq_Subject req = '''' \<or> eq_Body req = ''''
        then (email_error 400 ''fields 'to', 'subject', and 'body' are required'', e)
        else case GetUserEmail (md_UserID meta) d of
          Inl err \<Rightarrow> (email_error 500 ''failed to look up owner email'', e)
        | Inr ownerEmail \<Rightarrow>
          if ownerEmail = ''''
          then (email_error 403 (''VM owner has no email configured. Set your email with 'email set <address>'' @ [CHR 0x27]), e)
          else if \<not> EqualFold (eq_To req) ownerEmail
          then (email_error 403 (''can only send email to the VM owner ('' @ maskEmail ownerEmail @ '')''), e)
          else case checkSendRate (ec_RatePerHourPerVM (em_cfg e)) now (md_VMName meta) (em_rates e) of
            (False, rates) \<Rightarrow>
              (email_error 429 (''rate limit exceeded (max '' @ dec (ec_RatePerHourPerVM (em_cfg e)) @ '' emails/hour per VM)''),
               e\<lparr>em_rates := rates\<rparr>)
          | (True, rates) \<Rightarrow>
            let cfg = em_cfg e;
                call = \<lparr>rc_addr = ec_SMTPRelay cfg, rc_auth = relay_auth cfg, rc_from = ec_FromAddress cfg,
                        rc_to = [eq_To req],
                        rc_msg = buildEmailMessage (ee_date env now) (ec_FromAddress cfg) (eq_To req) (eq_Subject req)
                                   (eq_Body req) meta\<rparr>;
                err = ee_relay env (em_sent e) call;
                e = e\<lparr>em_rates := rates, em_sent := em_sent e @ [call]\<rparr>
            in case err of
                 Some msg \<Rightarrow> (email_error 502 (''SMTP relay error: '' @ msg), e)
               | None \<Rightarrow>
                 ((200, \<lparr>ep_Status = ''sent'', ep_Message = ''email sent to '' @ eq_To req, ep_Error = ''''\<rparr>), e))"

subsection \<open>What a request can send\<close>

text \<open>The mails handed to the relay by one request: none, or one, addressed to the owner alone.\<close>

definition to_owner :: "int \<Rightarrow> db \<Rightarrow> relay_call \<Rightarrow> bool" where
  "to_owner userID d call \<longleftrightarrow>
     (case GetUserEmail userID d of
        Inl _ \<Rightarrow> False
      | Inr owner \<Rightarrow> owner \<noteq> '''' \<and> (case rc_to call of [to] \<Rightarrow> EqualFold to owner | _ \<Rightarrow> False))"

lemma HandleEmailSend_sends:
  assumes "HandleEmailSend env now method body meta d e = (resp, e')"
  shows "em_sent e' = em_sent e \<and> fst resp \<noteq> 200 \<or>
    (\<exists>call. em_sent e' = em_sent e @ [call] \<and> to_owner (md_UserID meta) d call \<and>
       rc_from call = ec_FromAddress (em_cfg e) \<and>
       (fst resp = 200 \<longleftrightarrow> ee_relay env (em_sent e) call = None))"
  using assms
  by (auto simp: HandleEmailSend_def email_error_def to_owner_def Let_def
      split: if_split_asm sum.split_asm prod.split_asm bool.split_asm option.split_asm)

lemma HandleEmailSend_cfg: "em_cfg (snd (HandleEmailSend env now method body meta d e)) = em_cfg e"
  by (auto simp: HandleEmailSend_def Let_def split: sum.split prod.split bool.split option.split)

text \<open>The subject is copied into the header as it is: a line break in it starts a header of the guest's choice.\<close>

theorem subject_injects_header:
  "Contains (buildEmailMessage date from to (s @ MailEOL @ ''Reply-To: '' @ a) body meta) (MailEOL @ ''Reply-To: '' @ a @ MailEOL)"
proof -
  let ?l = "''From: '' @ from @ MailEOL @ ''To: '' @ to @ MailEOL @ ''Subject: '' @ s"
  have "\<exists>r. buildEmailMessage date from to (s @ MailEOL @ ''Reply-To: '' @ a) body meta = ?l @ (MailEOL @ ''Reply-To: '' @ a @ MailEOL) @ r"
    by (simp add: buildEmailMessage_def)
  then show ?thesis unfolding Contains_def by (metis sublist_appendI)
qed

text \<open>A one-character local part is not masked.\<close>

theorem mask_short_local: "maskEmail ''a@x.org'' = ''a@x.org''"
  by code_simp

end
