(* ===== verification/Llm_Gateway.thy ===== *)
theory Llm_Gateway
  imports Rate_Limits Db_Frames Go_Base64
begin

section \<open>The LLM gateway\<close>

text \<open>
  \<^verbatim>\<open>internal/gateway/crypto.go\<close> (API keys at rest) and \<^verbatim>\<open>internal/gateway/llm.go\<close>
  (the proxy to LLM providers); the per-user limiter of \<^verbatim>\<open>llm.go\<close> is in \<open>Rate_Limits\<close>. The
  primitives of Go's \<^verbatim>\<open>crypto\<close> packages, the nonces drawn and \<^verbatim>\<open>url.Parse\<close> are parameters;
  \<^verbatim>\<open>Proxy\<close> is modelled as the two steps between
  which other goroutines can run: up to the assignment of the shared proxy's \<^verbatim>\<open>Director\<close>, and
  \<^verbatim>\<open>ServeHTTP\<close>, which reads it. The goroutine that counts the usage runs at once.
\<close>

subsection \<open>crypto.go\<close>

record aead =
  Seal :: "string \<Rightarrow> string \<Rightarrow> string"         \<comment> \<open>nonce, plaintext\<close>
  Open :: "string \<Rightarrow> string \<Rightarrow> string option"  \<comment> \<open>nonce, ciphertext with tag\<close>

definition NonceSize :: nat where "NonceSize = 12"

definition Encrypt :: "aead \<Rightarrow> string \<Rightarrow> string \<Rightarrow> string" where
  "Encrypt e nonce plaintext = b64_encode (nonce @ Seal e nonce plaintext)"

definition Decrypt :: "aead \<Rightarrow> string \<Rightarrow> db_error + string" where
  "Decrypt e encoded =
     (case b64_decode encoded of
        None \<Rightarrow> Inl (ErrMsg ''decode base64'')
      | Some data \<Rightarrow>
        if length data < NonceSize then Inl (ErrMsg ''ciphertext too short'')
        else (case Open e (take NonceSize data) (drop NonceSize data) of
                None \<Rightarrow> Inl (ErrMsg ''decrypt'')
              | Some plaintext \<Rightarrow> Inr plaintext))"

subsection \<open>llm.go: configuration\<close>

record ProviderConfig =
  pc_Name :: string
  pc_BaseURL :: string
  pc_BYOK :: bool

record LLMGatewayConfig =
  lc_Providers :: "ProviderConfig list"
  lc_RateLimit :: rat
  lc_EncryptSecret :: string

record target_url =
  tu_Scheme :: string
  tu_Host :: string
  tu_Path :: string

text \<open>The director installed last: what its closure captured.\<close>

record director =
  di_provider :: string
  di_target :: target_url
  di_apiKey :: string

record provider_proxy =
  pp_config :: ProviderConfig
  pp_target :: target_url
  pp_director :: "director option"

record llm_gateway =
  lg_encryptor :: "aead option"
  lg_providers :: "string \<rightharpoonup> provider_proxy"
  lg_limiters :: rateLimiterMap

record llm_lib =
  ll_aead :: "string \<Rightarrow> aead"
  ll_parse_url :: "string \<Rightarrow> target_url option"

definition NewKeyEncryptor :: "llm_lib \<Rightarrow> string \<Rightarrow> string + aead" where
  "NewKeyEncryptor lib secret =
     (if secret = '''' then Inl ''encryption secret must not be empty'' else Inr (ll_aead lib secret))"

definition DefaultLLMGatewayConfig :: LLMGatewayConfig where
  "DefaultLLMGatewayConfig =
     \<lparr>lc_Providers =
        [\<lparr>pc_Name = ''anthropic'', pc_BaseURL = ''https://api.anthropic.com'', pc_BYOK = True\<rparr>,
         \<lparr>pc_Name = ''openai'', pc_BaseURL = ''https://api.openai.com'', pc_BYOK = True\<rparr>,
         \<lparr>pc_Name = ''ollama'', pc_BaseURL = ''http://localhost:11434'', pc_BYOK = False\<rparr>,
         \<lparr>pc_Name = ''fireworks'', pc_BaseURL = ''https://api.fireworks.ai'', pc_BYOK = True\<rparr>,
         \<lparr>pc_Name = ''vllm'', pc_BaseURL = ''http://localhost:8000'', pc_BYOK = False\<rparr>],
      lc_RateLimit = 60, lc_EncryptSecret = ''''\<rparr>"

fun add_providers ::
  "llm_lib \<Rightarrow> ProviderConfig list \<Rightarrow> (string \<rightharpoonup> provider_proxy) \<Rightarrow> string + (string \<rightharpoonup> provider_proxy)" where
  "add_providers lib [] m = Inr m"
| "add_providers lib (pc # pcs) m =
     (case ll_parse_url lib (pc_BaseURL pc) of
        None \<Rightarrow> Inl (''parse URL for provider '' @ pc_Name pc)
      | Some target \<Rightarrow>
        add_providers lib pcs
          (m(pc_Name pc \<mapsto> \<lparr>pp_config = pc, pp_target = target, pp_director = None\<rparr>)))"

definition NewLLMGateway :: "llm_lib \<Rightarrow> LLMGatewayConfig option \<Rightarrow> string + llm_gateway" where
  "NewLLMGateway lib cfg =
     (let cfg = (case cfg of None \<Rightarrow> DefaultLLMGatewayConfig | Some c \<Rightarrow> c);
          rate = (if lc_RateLimit cfg \<le> 0 then 60 else lc_RateLimit cfg);
          encryptor = (if lc_EncryptSecret cfg \<noteq> '''' then map_sum id Some (NewKeyEncryptor lib (lc_EncryptSecret cfg))
                       else Inr None) in
      case encryptor of
        Inl e \<Rightarrow> Inl (''create key encryptor: '' @ e)
      | Inr enc \<Rightarrow>
        (case add_providers lib (lc_Providers cfg) Map.empty of
           Inl e \<Rightarrow> Inl e
         | Inr m \<Rightarrow> Inr \<lparr>lg_encryptor = enc, lg_providers = m, lg_limiters = newRateLimiterMap rate\<rparr>))"

subsection \<open>llm.go: keys\<close>

definition SetUserKey ::
  "nanos \<Rightarrow> string \<Rightarrow> int \<Rightarrow> string \<Rightarrow> string \<Rightarrow> llm_gateway \<Rightarrow> db \<Rightarrow> (db_error + unit) \<times> db" where
  "SetUserKey now nonce userID provider key g d =
     (case lg_encryptor g of
        None \<Rightarrow> (Inl (ErrMsg ''key encryption not configured (set LLM_ENCRYPT_SECRET)''), d)
      | Some e \<Rightarrow>
        if lg_providers g provider = None then (Inl (ErrMsg (''unknown provider: '' @ provider)), d)
        else SetLLMKey now userID provider (Encrypt e nonce key) d)"

definition GetUserKey :: "int \<Rightarrow> string \<Rightarrow> llm_gateway \<Rightarrow> db \<Rightarrow> db_error + string" where
  "GetUserKey userID provider g d =
     (case lg_encryptor g of
        None \<Rightarrow> Inl (ErrMsg ''key encryption not configured'')
      | Some e \<Rightarrow> try_do (GetLLMKey userID provider d) (Decrypt e))"

subsection \<open>llm.go: the proxy\<close>

text \<open>A request, with the user its context carries; header names are canonical.\<close>

record llm_request =
  lr_user :: "int option"
  lr_Scheme :: string
  lr_Host :: string
  lr_Path :: string
  lr_headers :: "(string \<times> string) list"
  lr_ContentLength :: int

definition header_del :: "string \<Rightarrow> (string \<times> string) list \<Rightarrow> (string \<times> string) list" where
  "header_del k hs = filter (\<lambda>h. fst h \<noteq> k) hs"

definition header_set :: "string \<Rightarrow> string \<Rightarrow> (string \<times> string) list \<Rightarrow> (string \<times> string) list" where
  "header_set k v hs = header_del k hs @ [(k, v)]"

definition estimateTokens :: "llm_request \<Rightarrow> int" where
  "estimateTokens r = (if lr_ContentLength r > 0 then lr_ContentLength r div 4 else 100)"

definition singleJoiningSlash :: "string \<Rightarrow> string \<Rightarrow> string" where
  "singleJoiningSlash a b =
     (let aslash = HasSuffix a ''/''; bslash = HasPrefix b ''/'' in
      if aslash \<and> bslash then a @ drop 1 b
      else if \<not> aslash \<and> \<not> bslash then a @ ''/'' @ b
      else a @ b)"

definition inject_key :: "string \<Rightarrow> string \<Rightarrow> (string \<times> string) list \<Rightarrow> (string \<times> string) list" where
  "inject_key provider apiKey hs =
     (if apiKey = '''' then hs
      else if provider = ''anthropic'' then
        header_set ''Anthropic-Version'' ''2023-06-01'' (header_set ''X-Api-Key'' apiKey hs)
      else if provider = ''openai'' \<or> provider = ''fireworks'' then
        header_set ''Authorization'' (''Bearer '' @ apiKey) hs
      else hs)"

definition run_director :: "director \<Rightarrow> llm_request \<Rightarrow> llm_request" where
  "run_director di r =
     (let subPath = TrimPrefix (lr_Path r) (''/gateway/llm/'' @ di_provider di);
          subPath = (if subPath = '''' then ''/'' else subPath);
          t = di_target di in
      r\<lparr>lr_Scheme := tu_Scheme t, lr_Host := tu_Host t, lr_Path := singleJoiningSlash (tu_Path t) subPath,
        lr_headers := inject_key (di_provider di) (di_apiKey di) (header_del ''X-Forwarded-For'' (lr_headers r))\<rparr>)"

text \<open>The first step: an error answer, or the gateway with the request's director installed.\<close>

definition Proxy_prepare ::
  "nanos \<Rightarrow> llm_request \<Rightarrow> string \<Rightarrow> llm_gateway \<times> db \<Rightarrow> (int \<times> string) option \<times> llm_gateway \<times> db" where
  "Proxy_prepare now r provider s =
     (case s of (g, d) \<Rightarrow>
      case lg_providers g provider of
        None \<Rightarrow> (Some (404, ''unknown provider: '' @ provider), g, d)
      | Some pp \<Rightarrow>
        (case lr_user r of
           None \<Rightarrow> (Some (403, ''user not identified''), g, d)
         | Some userID \<Rightarrow>
           (case llm_allow now userID (lg_limiters g) of
              (False, m) \<Rightarrow> (Some (429, ''rate limit exceeded, try again later''), g\<lparr>lg_limiters := m\<rparr>, d)
            | (True, m) \<Rightarrow>
              let g = g\<lparr>lg_limiters := m\<rparr>;
                  key = (if pc_BYOK (pp_config pp) then GetUserKey userID provider g d else Inr '''') in
              (case key of
                 Inl e \<Rightarrow>
                   (Some (401, ''no API key configured for '' @ provider @ ''. Use 'llm-key set '' @ provider @
                          '' <key>' to configure.''), g, d)
               | Inr apiKey \<Rightarrow>
                   (None,
                    g\<lparr>lg_providers := (lg_providers g)(provider \<mapsto> pp\<lparr>pp_director :=
                        Some \<lparr>di_provider = provider, di_target = pp_target pp, di_apiKey = apiKey\<rparr>\<rparr>)\<rparr>,
                    snd (IncrementLLMUsage now userID provider 1 (estimateTokens r) d))))))"

text \<open>The second step: what \<^verbatim>\<open>ServeHTTP\<close> sends upstream.\<close>

definition Proxy_serve :: "llm_request \<Rightarrow> string \<Rightarrow> llm_gateway \<Rightarrow> llm_request option" where
  "Proxy_serve r provider g =
     (case lg_providers g provider of
        None \<Rightarrow> None
      | Some pp \<Rightarrow> (case pp_director pp of None \<Rightarrow> Some r | Some di \<Rightarrow> Some (run_director di r)))"

datatype llm_answer = Refused int string | Forwarded llm_request

definition Proxy :: "nanos \<Rightarrow> llm_request \<Rightarrow> string \<Rightarrow> llm_gateway \<times> db \<Rightarrow> llm_answer \<times> llm_gateway \<times> db" where
  "Proxy now r provider s =
     (case Proxy_prepare now r provider s of
        (Some (code, msg), s) \<Rightarrow> (Refused code msg, s)
      | (None, g, d) \<Rightarrow>
        (case Proxy_serve r provider g of
           None \<Rightarrow> (Refused 502 '''', g, d)
         | Some out \<Rightarrow> (Forwarded out, g, d)))"

subsection \<open>Keys survive encryption\<close>

lemma Decrypt_Encrypt:
  assumes "\<And>n p. Open e n (Seal e n p) = Some p" "length nonce = NonceSize"
  shows "Decrypt e (Encrypt e nonce plaintext) = Inr plaintext"
  using assms by (simp add: Decrypt_def Encrypt_def b64_decode_encode)

definition header_values :: "string \<Rightarrow> (string \<times> string) list \<Rightarrow> string list" where
  "header_values k hs = map snd (filter (\<lambda>h. fst h = k) hs)"

lemma header_values_set [simp]:
  "header_values k (header_set k v hs) = [v]" "k \<noteq> l \<Longrightarrow> header_values k (header_set l v hs) = header_values k hs"
  by (auto simp: header_values_def header_set_def header_del_def filter_filter intro: arg_cong [where f = "map snd"] filter_cong)

text \<open>A request that is let through runs the director its own preparation installed, if nothing runs in between.\<close>

lemma Proxy_prepare_None:
  assumes "Proxy_prepare now r provider (g, d) = (None, g', d')"
  obtains pp u key where "lg_providers g provider = Some pp" "lr_user r = Some u"
    "(if pc_BYOK (pp_config pp) then GetUserKey u provider g d else Inr '''') = Inr key"
    "lg_providers g' = (lg_providers g)(provider \<mapsto> pp\<lparr>pp_director :=
       Some \<lparr>di_provider = provider, di_target = pp_target pp, di_apiKey = key\<rparr>\<rparr>)"
    "lg_encryptor g' = lg_encryptor g"
  using assms
  by (auto simp: Proxy_prepare_def Let_def GetUserKey_def split: option.split_asm sum.split_asm prod.split_asm bool.split_asm if_split_asm)

lemma Proxy_Forwarded:
  assumes "Proxy now r provider (g, d) = (Forwarded out, g', d')"
  obtains pp u key where "lg_providers g provider = Some pp" "lr_user r = Some u"
    "(if pc_BYOK (pp_config pp) then GetUserKey u provider g d else Inr '''') = Inr key"
    "out = run_director \<lparr>di_provider = provider, di_target = pp_target pp, di_apiKey = key\<rparr> r"
proof -
  obtain res g1 d1 where p: "Proxy_prepare now r provider (g, d) = (res, g1, d1)" by (metis prod_cases3)
  with assms have "res = None" by (auto simp: Proxy_def split: option.split_asm prod.split_asm)
  with p have p: "Proxy_prepare now r provider (g, d) = (None, g1, d1)" by simp
  from p show ?thesis
  proof (cases rule: Proxy_prepare_None)
    case (1 pp u key)
    with assms p show ?thesis by (intro that [of pp u key]) (auto simp: Proxy_def Proxy_serve_def)
  qed
qed

lemma stored_key_read:
  assumes law: "\<And>n p. Open e n (Seal e n p) = Some p" and e: "lg_encryptor g = Some e" "lg_encryptor g2 = Some e"
    and nonce: "length nonce = NonceSize" and reader: "reader_open d"
    and set: "SetUserKey now nonce u provider key g d = (Inr (), d1)"
    and others: "list_all (\<lambda>(now, op). keeps_key u provider op) ops"
  shows "GetUserKey u provider g2 (run_ops ops d1) = Inr key"
proof -
  from set e(1) have "SetLLMKey now u provider (Encrypt e nonce key) d = (Inr (), d1)"
    by (simp add: SetUserKey_def split: if_split_asm)
  then have "GetLLMKey u provider d1 = Inr (Encrypt e nonce key)" by (rule GetLLMKey_set [OF reader])
  then have "GetLLMKey u provider (run_ops ops d1) = Inr (Encrypt e nonce key)"
    by (simp add: GetLLMKey_kept_steps [OF others])
  then show ?thesis using e(2) Decrypt_Encrypt [OF law nonce] by (simp add: GetUserKey_def)
qed

subsection \<open>Properties\<close>


text \<open>For the witness: a cipher that reverses, and a gateway with one provider.\<close>

definition rev_aead :: aead where
  "rev_aead = \<lparr>Seal = \<lambda>_ p. rev p, Open = \<lambda>_ c. Some (rev c)\<rparr>"

definition openai_proxy :: provider_proxy where
  "openai_proxy = \<lparr>pp_config = \<lparr>pc_Name = ''openai'', pc_BaseURL = ''https://api.openai.com'', pc_BYOK = True\<rparr>,
     pp_target = \<lparr>tu_Scheme = ''https'', tu_Host = ''api.openai.com'', tu_Path = ''''\<rparr>, pp_director = None\<rparr>"

definition toy_gateway :: llm_gateway where
  "toy_gateway = \<lparr>lg_encryptor = Some rev_aead, lg_providers = [''openai'' \<mapsto> openai_proxy],
     lg_limiters = newRateLimiterMap 60\<rparr>"

definition guest_request :: llm_request where
  "guest_request = \<lparr>lr_user = Some 1, lr_Scheme = ''http'', lr_Host = ''169.254.169.254'',
     lr_Path = ''/gateway/llm/openai/v1/models'', lr_headers = [(''Authorization'', ''Bearer guess'')], lr_ContentLength = 0\<rparr>"


text \<open>
  The director is shared by all requests to a provider. When a second request is prepared before the first
  is served, the first goes out with the second user's key.
\<close>

theorem llm_director_shared:
  assumes "Proxy_prepare t1 r1 provider s = (None, s1)" "Proxy_prepare t2 r2 provider s1 = (None, g2, d2)"
    and "GetUserKey u2 provider (fst s1) (snd s1) = Inr key2" "lr_user r2 = Some u2"
    and "lg_providers (fst s1) provider = Some pp" "pc_BYOK (pp_config pp)"
  shows "\<exists>out. Proxy_serve r1 provider g2 = Some out \<and>
    lr_headers out = inject_key provider key2 (header_del ''X-Forwarded-For'' (lr_headers r1))"
proof -
  obtain g1 d1 where s1: "s1 = (g1, d1)" by fastforce
  from assms(2) [unfolded s1] show ?thesis
  proof (cases rule: Proxy_prepare_None)
    case (1 pp' u key)
    with assms(3-6) s1 show ?thesis by (auto simp: Proxy_serve_def run_director_def Let_def)
  qed
qed

end
