(* ===== verification/Metadata_Service.thy ===== *)
theory Metadata_Service
  imports Email_Send Llm_Gateway
begin

section \<open>The metadata service\<close>

text \<open>
  \<^verbatim>\<open>internal/gateway/metadata.go\<close>: the HTTP server that guests query. A guest is identified by
  the source address of its connection. The service routes a request as \<^verbatim>\<open>http.ServeMux\<close> does,
  answers with the record registered for the address, and hands LLM and mail requests to the LLM
  gateway and the mail sender, which it holds. The listening sockets and the reverse proxy in front of
  them are not modelled. A JSON answer is the value that is encoded.
\<close>

subsection \<open>Routing\<close>

datatype route =
    RMetadata | RVm | RUser | RSSHKeys | RHostname | REnv | RGateway | RLLM | REmail | RHealth

definition mux_exact :: "(string \<times> route) list" where
  "mux_exact =
     [(''/metadata/vm'', RVm), (''/metadata/user'', RUser), (''/ssh-keys'', RSSHKeys), (''/hostname'', RHostname),
      (''/env'', REnv), (''/gateway'', RGateway), (''/gateway/email/send'', REmail), (''/health'', RHealth)]"

definition mux_subtree :: "(string \<times> route) list" where
  "mux_subtree = [(''/latest/meta-data/'', RMetadata), (''/gateway/llm/'', RLLM)]"

text \<open>\<^verbatim>\<open>cleanPath\<close>: the canonical path; a final slash is kept.\<close>

definition cleanPath :: "string \<Rightarrow> string" where
  "cleanPath p =
     (if p = '''' then ''/''
      else
        let p = (if HasPrefix p ''/'' then p else ''/'' @ p); np = Clean p in
        if HasSuffix p ''/'' \<and> np \<noteq> ''/'' then np @ ''/'' else np)"

datatype mux_result = Matched route | RedirectTo string | NoMatch

definition mux_match :: "string \<Rightarrow> mux_result" where
  "mux_match path =
     (let p = cleanPath path in
      case map_of mux_exact p of
        Some r \<Rightarrow> if p = path then Matched r else RedirectTo p
      | None \<Rightarrow>
        (case filter (\<lambda>x. HasPrefix p (fst x)) mux_subtree of
           (_, r) # _ \<Rightarrow> if p = path then Matched r else RedirectTo p
         | [] \<Rightarrow>
           if map_of mux_subtree (p @ ''/'') \<noteq> None then RedirectTo (p @ ''/'')
           else if p \<noteq> path then RedirectTo p else NoMatch))"

subsection \<open>Requests, answers and the server\<close>

datatype json = JStr string | JNum int | JBool bool | JNull | JArr "json list" | JObj "(string \<times> json) list"

datatype http_body = BText string | BJson json | BUpstream llm_request

record http_answer =
  ha_code :: int
  ha_type :: string
  ha_body :: http_body

record guest_http_request =
  gr_Method :: string
  gr_Path :: string
  gr_RemoteAddr :: string
  gr_Host :: string
  gr_headers :: "(string \<times> string) list"
  gr_ContentLength :: int
  gr_email :: "string + EmailSendRequest"  \<comment> \<open>the body, decoded for the mail handler\<close>

record LLMConfig =
  ll_Provider :: string
  ll_BaseURL :: string
  ll_APIKey :: string

record md_server =
  ms_vms :: "string \<rightharpoonup> VMMetadata"
  ms_llm :: "string \<rightharpoonup> LLMConfig"
  ms_llmGateway :: "llm_gateway option"
  ms_emailSender :: "EmailSender option"
  ms_db :: db

definition NewServer :: "db \<Rightarrow> md_server" where
  "NewServer d = \<lparr>ms_vms = Map.empty, ms_llm = Map.empty, ms_llmGateway = None, ms_emailSender = None, ms_db = d\<rparr>"

definition RegisterVM :: "string \<Rightarrow> VMMetadata \<Rightarrow> md_server \<Rightarrow> md_server" where
  "RegisterVM ip meta s = s\<lparr>ms_vms := (ms_vms s)(ip \<mapsto> meta)\<rparr>"

definition UnregisterVM :: "string \<Rightarrow> md_server \<Rightarrow> md_server" where
  "UnregisterVM ip s = s\<lparr>ms_vms := (ms_vms s)(ip := None)\<rparr>"

definition AddLLMProvider :: "string \<Rightarrow> LLMConfig \<Rightarrow> md_server \<Rightarrow> md_server" where
  "AddLLMProvider name cfg s = s\<lparr>ms_llm := (ms_llm s)(name \<mapsto> cfg)\<rparr>"

definition SetLLMGateway :: "llm_gateway option \<Rightarrow> md_server \<Rightarrow> md_server" where
  "SetLLMGateway gw s = s\<lparr>ms_llmGateway := gw\<rparr>"

definition SetEmailSender :: "EmailSender option \<Rightarrow> md_server \<Rightarrow> md_server" where
  "SetEmailSender sender s = s\<lparr>ms_emailSender := sender\<rparr>"

definition metadataForRequest :: "guest_http_request \<Rightarrow> md_server \<Rightarrow> VMMetadata option" where
  "metadataForRequest r s =
     (case SplitHostPort (gr_RemoteAddr r) of None \<Rightarrow> None | Some (host, _) \<Rightarrow> ms_vms s host)"

definition text_answer :: "string \<Rightarrow> http_answer" where
  "text_answer body = \<lparr>ha_code = 200, ha_type = ''text/plain'', ha_body = BText body\<rparr>"

definition json_answer :: "int \<Rightarrow> json \<Rightarrow> http_answer" where
  "json_answer code j = \<lparr>ha_code = code, ha_type = ''application/json'', ha_body = BJson j\<rparr>"

text \<open>\<^verbatim>\<open>http.Error\<close> ends the message with a line feed.\<close>

definition plain_error :: "string \<Rightarrow> int \<Rightarrow> http_answer" where
  "plain_error msg code =
     \<lparr>ha_code = code, ha_type = ''text/plain; charset=utf-8'', ha_body = BText (msg @ [CHR 0x0A])\<rparr>"

definition forbidden :: http_answer where "forbidden = plain_error ''forbidden'' 403"

subsection \<open>Handlers\<close>

text \<open>Strings joined by line feeds, as \<^verbatim>\<open>"\n"\<close> in the source.\<close>

definition handleMetadata :: "guest_http_request \<Rightarrow> VMMetadata \<Rightarrow> http_answer" where
  "handleMetadata r meta =
     (let path = TrimSuffix (TrimPrefix (gr_Path r) ''/latest/meta-data/'') ''/'' in
      if path = '''' then
        text_answer (Join_strings [''instance-id'', ''local-ipv4'', ''hostname'', ''user-id'', ''user-handle'', ''vm-name'', ''image''] [CHR 0x0A])
      else if path = ''instance-id'' then text_answer (md_InstanceID meta)
      else if path = ''local-ipv4'' then text_answer (md_LocalIPv4 meta)
      else if path = ''hostname'' then text_answer (md_Hostname meta)
      else if path = ''user-id'' then text_answer (dec (md_UserID meta))
      else if path = ''user-handle'' then text_answer (md_UserHandle meta)
      else if path = ''vm-name'' then text_answer (md_VMName meta)
      else if path = ''image'' then text_answer (md_Image meta)
      else plain_error ''404 page not found'' 404)"

text \<open>The JSON tags of \<^verbatim>\<open>VMMetadata\<close>, empty optional members left out; a map is sorted by its keys.\<close>

definition metadata_json :: "VMMetadata \<Rightarrow> json" where
  "metadata_json meta =
     JObj ([(''instance-id'', JStr (md_InstanceID meta)), (''local-ipv4'', JStr (md_LocalIPv4 meta)),
            (''hostname'', JStr (md_Hostname meta)), (''user-id'', JNum (md_UserID meta)),
            (''user-handle'', JStr (md_UserHandle meta)), (''vm-name'', JStr (md_VMName meta)),
            (''image'', JStr (md_Image meta))] @
           (if md_UserData meta = '''' then [] else [(''user-data'', JStr (md_UserData meta))]) @
           (if md_SSHKeys meta = [] then [] else [(''ssh-keys'', JArr (map JStr (md_SSHKeys meta)))]) @
           (if md_Gateway meta = '''' then [] else [(''gateway'', JStr (md_Gateway meta))]) @
           (if md_EnvVars meta = [] then []
            else [(''env'', JObj (map (\<lambda>(k, v). (k, JStr v)) (sort_key fst (md_EnvVars meta))))]))"

definition handleVMMetadata :: "VMMetadata \<Rightarrow> http_answer" where
  "handleVMMetadata meta = json_answer 200 (metadata_json meta)"

definition handleUserMetadata :: "VMMetadata \<Rightarrow> http_answer" where
  "handleUserMetadata meta =
     json_answer 200 (JObj [(''handle'', JStr (md_UserHandle meta)), (''user_id'', JNum (md_UserID meta))])"

definition handleSSHKeys :: "VMMetadata \<Rightarrow> http_answer" where
  "handleSSHKeys meta = text_answer (concat (map (\<lambda>key. key @ [CHR 0x0A]) (md_SSHKeys meta)))"

definition handleHostname :: "VMMetadata \<Rightarrow> http_answer" where
  "handleHostname meta = text_answer (md_Hostname meta)"

text \<open>The variables of the record follow in the order in which Go ranges over the map.\<close>

definition handleEnv :: "VMMetadata \<Rightarrow> http_answer" where
  "handleEnv meta =
     (let line = (\<lambda>k v. k @ ''='' @ v @ [CHR 0x0A]) in
      text_answer (line ''USSYCODE_USER'' (md_UserHandle meta) @ line ''USSYCODE_VM'' (md_VMName meta) @
        line ''USSYCODE_IMAGE'' (md_Image meta) @ concat (map (\<lambda>(k, v). line k v) (md_EnvVars meta))))"

definition handleGateway :: "VMMetadata \<Rightarrow> http_answer" where
  "handleGateway meta = text_answer (md_Gateway meta)"

definition llm_request_of :: "guest_http_request \<Rightarrow> VMMetadata \<Rightarrow> llm_request" where
  "llm_request_of r meta =
     \<lparr>lr_user = Some (md_UserID meta), lr_Scheme = '''', lr_Host = gr_Host r, lr_Path = gr_Path r,
      lr_headers = gr_headers r, lr_ContentLength = gr_ContentLength r\<rparr>"

definition handleLLMProxy ::
  "nanos \<Rightarrow> guest_http_request \<Rightarrow> VMMetadata \<Rightarrow> md_server \<Rightarrow> http_answer \<times> md_server" where
  "handleLLMProxy now r meta s =
     (let provider = SplitN2 (TrimPrefix (gr_Path r) ''/gateway/llm/'') CHR ''/'' ! 0 in
      if provider = '''' then (plain_error ''provider required: /gateway/llm/{provider}'' 400, s)
      else case ms_llmGateway s of
        Some gw \<Rightarrow>
          (case Proxy now (llm_request_of r meta) provider (gw, ms_db s) of
             (answer, gw, d) \<Rightarrow>
               (case answer of
                  Refused code msg \<Rightarrow> json_answer code (JObj [(''error'', JStr msg)])
                | Forwarded out \<Rightarrow> \<lparr>ha_code = 200, ha_type = '''', ha_body = BUpstream out\<rparr>,
                s\<lparr>ms_llmGateway := Some gw, ms_db := d\<rparr>))
      | None \<Rightarrow>
        (case ms_llm s provider of
           None \<Rightarrow> (plain_error (''unknown LLM provider: '' @ provider) 404, s)
         | Some cfg \<Rightarrow>
           (json_answer 200 (JObj [(''provider'', JStr provider), (''status'', JStr ''proxy_not_implemented''),
                                   (''upstream'', JStr (ll_BaseURL cfg))]), s)))"

definition email_json :: "int \<times> EmailSendResponse \<Rightarrow> http_answer" where
  "email_json resp =
     (case resp of (code, p) \<Rightarrow>
        json_answer code (JObj ([(''status'', JStr (ep_Status p))] @
          (if ep_Message p = '''' then [] else [(''message'', JStr (ep_Message p))]) @
          (if ep_Error p = '''' then [] else [(''error'', JStr (ep_Error p))]))))"

definition handleEmailSend ::
  "email_env \<Rightarrow> nanos \<Rightarrow> guest_http_request \<Rightarrow> md_server \<Rightarrow> http_answer \<times> md_server" where
  "handleEmailSend env now r s =
     (if gr_Method r \<noteq> ''POST'' then (plain_error ''method not allowed'' 405, s)
      else case metadataForRequest r s of
        None \<Rightarrow> (forbidden, s)
      | Some meta \<Rightarrow>
        (case ms_emailSender s of
           Some sender \<Rightarrow>
             (case HandleEmailSend env now (gr_Method r) (gr_email r) meta (ms_db s) sender of
                (resp, sender) \<Rightarrow> (email_json resp, s\<lparr>ms_emailSender := Some sender\<rparr>))
         | None \<Rightarrow> (json_answer 200 (JObj [(''status'', JStr ''email_not_implemented'')]), s)))"

text \<open>A handler that needs the guest's record.\<close>

definition with_metadata ::
  "guest_http_request \<Rightarrow> md_server \<Rightarrow> (VMMetadata \<Rightarrow> http_answer) \<Rightarrow> http_answer \<times> md_server" where
  "with_metadata r s h = (case metadataForRequest r s of None \<Rightarrow> forbidden | Some meta \<Rightarrow> h meta, s)"

definition Handler ::
  "email_env \<Rightarrow> nanos \<Rightarrow> guest_http_request \<Rightarrow> md_server \<Rightarrow> http_answer \<times> md_server" where
  "Handler env now r s =
     (case mux_match (gr_Path r) of
        NoMatch \<Rightarrow> (plain_error ''404 page not found'' 404, s)
      | RedirectTo p \<Rightarrow> (\<lparr>ha_code = 301, ha_type = '''', ha_body = BText p\<rparr>, s)
      | Matched route \<Rightarrow>
        (case route of
           RMetadata \<Rightarrow> with_metadata r s (handleMetadata r)
         | RVm \<Rightarrow> with_metadata r s handleVMMetadata
         | RUser \<Rightarrow> with_metadata r s handleUserMetadata
         | RSSHKeys \<Rightarrow> with_metadata r s handleSSHKeys
         | RHostname \<Rightarrow> with_metadata r s handleHostname
         | REnv \<Rightarrow> with_metadata r s handleEnv
         | RGateway \<Rightarrow> with_metadata r s handleGateway
         | RLLM \<Rightarrow>
           (case metadataForRequest r s of
              None \<Rightarrow> (forbidden, s)
            | Some meta \<Rightarrow> handleLLMProxy now r meta s)
         | REmail \<Rightarrow> handleEmailSend env now r s
         | RHealth \<Rightarrow> (\<lparr>ha_code = 200, ha_type = '''', ha_body = BText ''ok''\<rparr>, s)))"

subsection \<open>Properties\<close>

lemma handleLLMProxy_vms: "ms_vms (snd (handleLLMProxy now r meta s)) = ms_vms s"
  by (auto simp: handleLLMProxy_def Let_def split: option.split prod.split)

lemma handleLLMProxy_email: "ms_emailSender (snd (handleLLMProxy now r meta s)) = ms_emailSender s"
  by (auto simp: handleLLMProxy_def Let_def split: option.split prod.split)

lemma handleLLMProxy_isolated:
  "fst (handleLLMProxy now r meta (s\<lparr>ms_vms := f\<rparr>)) = fst (handleLLMProxy now r meta s)"
  "(snd (handleLLMProxy now r meta (s\<lparr>ms_vms := f\<rparr>)))\<lparr>ms_vms := g\<rparr> = (snd (handleLLMProxy now r meta s))\<lparr>ms_vms := g\<rparr>"
  by (auto simp: handleLLMProxy_def Let_def split: option.split prod.split)

text \<open>C24. A guest learns nothing from the records of other guests, and changes nothing through them: the
  answer to a request, and all it does to the server, is the same whatever records are registered for other
  addresses. A request from an address without a record is told nothing but 403 (or that the path or method
  does not exist).\<close>

theorem metadata_isolated:
  assumes "SplitHostPort (gr_RemoteAddr r) = Some (host, port)" "f host = ms_vms s host"
  shows "fst (Handler env now r (s\<lparr>ms_vms := f\<rparr>)) = fst (Handler env now r s) \<and>
    (snd (Handler env now r (s\<lparr>ms_vms := f\<rparr>)))\<lparr>ms_vms := ms_vms s\<rparr> = snd (Handler env now r s) \<and>
    (ms_vms s host = None \<longrightarrow> snd (Handler env now r s) = s \<and>
       fst (Handler env now r s) \<in> {forbidden, plain_error ''method not allowed'' 405, plain_error ''404 page not found'' 404} \<union>
         {a. gr_Path r = ''/health'' \<or> ha_code a = 301})"
proof -
  have meta: "metadataForRequest r (s\<lparr>ms_vms := f\<rparr>) = metadataForRequest r s"
    using assms by (simp add: metadataForRequest_def)
  have "fst (Handler env now r (s\<lparr>ms_vms := f\<rparr>)) = fst (Handler env now r s) \<and>
    (snd (Handler env now r (s\<lparr>ms_vms := f\<rparr>)))\<lparr>ms_vms := ms_vms s\<rparr> = (snd (Handler env now r s))\<lparr>ms_vms := ms_vms s\<rparr>"
    by (auto simp: Handler_def with_metadata_def meta handleEmailSend_def handleLLMProxy_isolated
        split: mux_result.split route.split option.split prod.split)
  moreover have "ms_vms (snd (Handler env now r s)) = ms_vms s"
    by (auto simp: Handler_def with_metadata_def handleEmailSend_def handleLLMProxy_vms
        split: mux_result.split route.split option.split prod.split)
  then have "(snd (Handler env now r s))\<lparr>ms_vms := ms_vms s\<rparr> = snd (Handler env now r s)"
    by (metis md_server.surjective md_server.update_convs(1) md_server.select_convs(1))
  moreover have health: "gr_Path r = ''/health''" if "mux_match (gr_Path r) = Matched RHealth"
    using that by (auto simp: mux_match_def Let_def mux_exact_def mux_subtree_def split: if_split_asm list.split_asm)
  have "snd (Handler env now r s) = s \<and>
       fst (Handler env now r s) \<in> {forbidden, plain_error ''method not allowed'' 405, plain_error ''404 page not found'' 404} \<union>
         {a. gr_Path r = ''/health'' \<or> ha_code a = 301}" if "ms_vms s host = None"
  proof -
    have "metadataForRequest r s = None" using assms(1) that by (simp add: metadataForRequest_def)
    then show ?thesis using health
      by (auto simp: Handler_def with_metadata_def handleEmailSend_def split: mux_result.split route.split)
  qed
  ultimately show ?thesis by simp
qed

lemma HandleEmailSend_sender:
  assumes "handleEmailSend env now r s = (a, s')" "ms_emailSender s = Some e"
  shows "\<exists>e'. ms_emailSender s' = Some e' \<and>
    (em_sent e' = em_sent e \<or>
     (\<exists>call meta. em_sent e' = em_sent e @ [call] \<and> metadataForRequest r s = Some meta \<and>
        to_owner (md_UserID meta) (ms_db s) call \<and>
        (ha_code a = 200 \<longleftrightarrow> ee_relay env (em_sent e) call = None)))"
proof (cases "gr_Method r \<noteq> ''POST'' \<or> metadataForRequest r s = None")
  case True
  then show ?thesis using assms by (auto simp: handleEmailSend_def split: if_split_asm)
next
  case False
  then obtain meta where meta: "metadataForRequest r s = Some meta" and post: "gr_Method r = ''POST''" by auto
  obtain resp e' where h: "HandleEmailSend env now (gr_Method r) (gr_email r) meta (ms_db s) e = (resp, e')" by fastforce
  have a: "a = email_json resp" "s' = s\<lparr>ms_emailSender := Some e'\<rparr>"
    using assms meta post h by (auto simp: handleEmailSend_def)
  have "ha_code a = fst resp" by (cases resp) (simp add: a email_json_def json_answer_def)
  with HandleEmailSend_sends [OF h] meta a(2) show ?thesis by auto
qed

text \<open>C23. Mail leaves only for the owner: a request to the service hands the relay no mail, or exactly one,
  and then only when the connection's source address has a registered VM; the envelope names a single
  recipient, which is the registered e-mail address of that VM's owner (up to case), and the answer is 200
  exactly when the relay accepted the mail.\<close>

theorem mail_only_to_owner:
  assumes "Handler env now r s = (a, s')" "ms_emailSender s = Some e"
  shows "\<exists>e'. ms_emailSender s' = Some e' \<and>
    (em_sent e' = em_sent e \<or>
     (\<exists>call host port meta. em_sent e' = em_sent e @ [call] \<and>
        SplitHostPort (gr_RemoteAddr r) = Some (host, port) \<and> ms_vms s host = Some meta \<and>
        to_owner (md_UserID meta) (ms_db s) call \<and>
        (ha_code a = 200 \<longleftrightarrow> ee_relay env (em_sent e) call = None)))"
proof (cases "mux_match (gr_Path r) = Matched REmail")
  case True
  with assms(1) have "handleEmailSend env now r s = (a, s')" by (simp add: Handler_def)
  from HandleEmailSend_sender [OF this assms(2)] show ?thesis
    by (fastforce simp: metadataForRequest_def split: option.split_asm)
next
  case False
  then have "ms_emailSender s' = Some e"
    using assms handleLLMProxy_email [of now r _ s]
    by (auto simp: Handler_def with_metadata_def split: mux_result.split_asm route.split_asm option.split_asm)
       (metis snd_conv)
  then show ?thesis by simp
qed

text \<open>Two guests, and a mail to the first one's owner.\<close>

definition sample_meta :: "int \<Rightarrow> string \<Rightarrow> VMMetadata" where
  "sample_meta user name = \<lparr>md_InstanceID = ''i'' @ dec user, md_LocalIPv4 = '''', md_Hostname = name, md_UserID = user,
     md_UserHandle = ''ada'', md_VMName = name, md_Image = ''ussyuntu'', md_UserData = '''', md_SSHKeys = [],
     md_Gateway = '''', md_EnvVars = []\<rparr>"

definition sample_server :: md_server where
  "sample_server = SetEmailSender (Some (NewEmailSender None))
     (RegisterVM ''10.0.0.3'' (sample_meta 2 ''db'') (RegisterVM ''10.0.0.2'' (sample_meta 1 ''web'')
       (NewServer (snd (SetUserEmail 0 1 ''Ada@x.org'' sample_db)))))"

definition guest_get :: "string \<Rightarrow> guest_http_request" where
  "guest_get path = \<lparr>gr_Method = ''GET'', gr_Path = path, gr_RemoteAddr = ''10.0.0.2:4000'', gr_Host = ''169.254.169.254'',
     gr_headers = [], gr_ContentLength = 0, gr_email = Inl ''EOF''\<rparr>"

definition guest_mail :: guest_http_request where
  "guest_mail = (guest_get ''/gateway/email/send'')\<lparr>gr_Method := ''POST'',
     gr_email := Inr \<lparr>eq_To = ''ada@x.org'', eq_Subject = ''hi'', eq_Body = ''there''\<rparr>\<rparr>"

definition sample_relay :: email_env where
  "sample_relay = \<lparr>ee_relay = \<lambda>_ _. None, ee_date = \<lambda>_. ''today''\<rparr>"

theorem metadata_isolated_witness:
  "fst (Handler sample_relay 0 (guest_get ''/hostname'') (UnregisterVM ''10.0.0.3'' sample_server)) = text_answer ''web''"
proof -
  let ?r = "guest_get ''/hostname''"
  have addr: "SplitHostPort (gr_RemoteAddr ?r) = Some (''10.0.0.2'', ''4000'')" by code_simp
  have s: "UnregisterVM ''10.0.0.3'' sample_server = sample_server\<lparr>ms_vms := (ms_vms sample_server)(''10.0.0.3'' := None)\<rparr>"
    by (simp add: UnregisterVM_def)
  have m: "mux_match (gr_Path ?r) = Matched RHostname" by code_simp
  have v: "ms_vms sample_server ''10.0.0.2'' = Some (sample_meta 1 ''web'')" by code_simp
  have "fst (Handler sample_relay 0 ?r sample_server) = text_answer ''web''"
    by (simp add: Handler_def m with_metadata_def metadataForRequest_def addr v handleHostname_def sample_meta_def)
  with metadata_isolated [OF addr, of "(ms_vms sample_server)(''10.0.0.3'' := None)" sample_server sample_relay 0]
  show ?thesis by (simp add: s)
qed

theorem mail_only_to_owner_witness:
  "\<exists>e'. ms_emailSender (snd (Handler sample_relay 0 guest_mail sample_server)) = Some e' \<and> map rc_to (em_sent e') = [[''ada@x.org'']]"
proof -
  have e: "ms_emailSender sample_server = Some (NewEmailSender None)" by (simp add: sample_server_def SetEmailSender_def)
  obtain e' where e': "ms_emailSender (snd (Handler sample_relay 0 guest_mail sample_server)) = Some e'"
    using mail_only_to_owner [OF _ e, of sample_relay 0 guest_mail] by (metis prod.collapse)
  have "map rc_to (em_sent (the (ms_emailSender (snd (Handler sample_relay 0 guest_mail sample_server))))) = [[''ada@x.org'']]"
    by code_simp
  with e' show ?thesis by simp
qed

end
