(* ===== verification/Image_Manager.thy ===== *)
theory Image_Manager
  imports Go_Files Vm_Manager
begin

section \<open>The image manager\<close>

text \<open>
  \<^verbatim>\<open>internal/vm/image.go\<close>: pulling OCI images, unpacking them and building the ext4 images VMs boot
  from. The state is the list of calls made to the operating system; \<open>image_env\<close> answers a call, and the
  questions about files, from the calls before it. The container registry library is a parameter: an image is
  a value of type \<open>'i\<close>, known by its digest, configuration and the entries of its flattened archive. Sizes
  are exact (Go multiplies them as floating point numbers).
\<close>

subsection \<open>Calls\<close>

datatype os_call =
    MkdirAll string int | OpenFile string int | CopyTo string string | WriteFile string string int
  | RemovePath string | RemoveAll string | Symlink string string | HardLink string string
  | Chown string int int | Lchown string int int | CreateFile string | Truncate string int
  | Rename string string | RunProgram "string list"

definition mode_755 :: int where "mode_755 = 493"
definition mode_644 :: int where "mode_644 = 420"

datatype stat_result = Exists | NotExist | StatError string

datatype type_flag = TypeReg | TypeLink | TypeSymlink | TypeChar | TypeBlock | TypeDir | TypeFifo | TypeOther char

record tar_header =
  th_Name :: string
  th_Linkname :: string
  th_Typeflag :: type_flag
  th_Mode :: int
  th_Uid :: int
  th_Gid :: int
  th_Content :: string

record ImageConfig =
  ic_Entrypoint :: "string list"
  ic_Cmd :: "string list"
  ic_Env :: "string list"
  ic_ExposedPorts :: "string list"
  ic_WorkingDir :: string
  ic_User :: string

text \<open>\<open>ie_Get\<close> is the pull: its own error, or the image of the descriptor. The archive of an image ends
regularly or with an error. A walk lists the paths visited, each with an error or whether it is a directory
and its size. \<open>ie_ctx\<close> is the error of a context that has ended.\<close>

record 'i image_env =
  ie_call :: "os_call list \<Rightarrow> os_call \<Rightarrow> string option"
  ie_Output :: "os_call list \<Rightarrow> os_call \<Rightarrow> string"
  ie_Stat :: "os_call list \<Rightarrow> string \<Rightarrow> stat_result"
  ie_ReadFile :: "os_call list \<Rightarrow> string \<Rightarrow> string option"
  ie_ReadDir :: "os_call list \<Rightarrow> string \<Rightarrow> string + string list"
  ie_Walk :: "os_call list \<Rightarrow> string \<Rightarrow> (string \<times> (string + bool \<times> int)) list"
  ie_MkdirTemp :: "os_call list \<Rightarrow> string + string"
  ie_ctx :: "os_call list \<Rightarrow> string option"
  ie_ParseReference :: "string \<Rightarrow> string option"
  ie_NewTag :: "string \<Rightarrow> string option"
  ie_Get :: "os_call list \<Rightarrow> string \<Rightarrow> string + (string + 'i)"
  ie_ImageFromPath :: "os_call list \<Rightarrow> string \<Rightarrow> string \<Rightarrow> string + 'i"
  ie_Digest :: "'i \<Rightarrow> string + string"
  ie_ConfigFile :: "'i \<Rightarrow> string + ImageConfig"
  ie_Extract :: "'i \<Rightarrow> tar_header list \<times> string option"

definition os_do :: "'i image_env \<Rightarrow> os_call \<Rightarrow> os_call list \<Rightarrow> string option \<times> os_call list" where
  "os_do env c log = (ie_call env log c, log @ [c])"

text \<open>A call whose error, if any, is returned after a text.\<close>

definition os_try :: "'i image_env \<Rightarrow> string \<Rightarrow> os_call \<Rightarrow> os_call list \<Rightarrow> string option \<times> os_call list" where
  "os_try env what c log = (map_option (\<lambda>e. what @ e) (ie_call env log c), log @ [c])"

text \<open>Calls one after the other, up to the first error.\<close>

definition and_then ::
  "string option \<times> os_call list \<Rightarrow> (os_call list \<Rightarrow> string option \<times> os_call list) \<Rightarrow> string option \<times> os_call list" where
  "and_then r f = (case r of (Some e, log) \<Rightarrow> (Some e, log) | (None, log) \<Rightarrow> f log)"

text \<open>A call whose error is ignored.\<close>

definition os_ignore :: "os_call \<Rightarrow> os_call list \<Rightarrow> os_call list" where
  "os_ignore c log = log @ [c]"

text \<open>\<^verbatim>\<open>filepath.Dir\<close>.\<close>

definition Dir :: "string \<Rightarrow> string" where
  "Dir p = Clean (rev (dropWhile (\<lambda>c. c \<noteq> CHR ''/'') (rev p)))"

subsection \<open>Unpacking\<close>

definition applyOwnership :: "string \<Rightarrow> int \<Rightarrow> int \<Rightarrow> os_call list \<Rightarrow> os_call list" where
  "applyOwnership path uid gid log = (if uid = 0 \<and> gid = 0 then log else os_ignore (Chown path uid gid) log)"

definition entry_path :: "string \<Rightarrow> string \<Rightarrow> string" where
  "entry_path destDir nm = Join [destDir, Clean (''/'' @ nm)]"

definition extract_entry :: "'i image_env \<Rightarrow> string \<Rightarrow> tar_header \<Rightarrow> os_call list \<Rightarrow> string option \<times> os_call list" where
  "extract_entry env destDir hdr log =
     (let nm = th_Name hdr; target = entry_path destDir nm in
      if \<not> HasPrefix target destDir then (None, log)
      else case th_Typeflag hdr of
        TypeDir \<Rightarrow>
          and_then (os_try env (''mkdir '' @ nm @ '': '') (MkdirAll target (th_Mode hdr)) log)
            (\<lambda>log. (None, applyOwnership target (th_Uid hdr) (th_Gid hdr) log))
      | TypeReg \<Rightarrow>
          and_then (os_try env (''mkdir parent '' @ nm @ '': '') (MkdirAll (Dir target) mode_755) log) (\<lambda>log.
          and_then (os_try env (''create '' @ nm @ '': '') (OpenFile target (th_Mode hdr)) log) (\<lambda>log.
          and_then (os_try env (''write '' @ nm @ '': '') (CopyTo target (th_Content hdr)) log)
            (\<lambda>log. (None, applyOwnership target (th_Uid hdr) (th_Gid hdr) log))))
      | TypeSymlink \<Rightarrow>
          and_then (os_try env (''mkdir parent for symlink '' @ nm @ '': '') (MkdirAll (Dir target) mode_755) log) (\<lambda>log.
          and_then (os_try env (''symlink '' @ nm @ '' -> '' @ th_Linkname hdr @ '': '') (Symlink (th_Linkname hdr) target)
              (os_ignore (RemovePath target) log))
            (\<lambda>log. (None, os_ignore (Lchown target (th_Uid hdr) (th_Gid hdr)) log)))
      | TypeLink \<Rightarrow>
          and_then (os_try env (''mkdir parent for hardlink '' @ nm @ '': '') (MkdirAll (Dir target) mode_755) log) (\<lambda>log.
          os_try env (''hardlink '' @ nm @ '' -> '' @ th_Linkname hdr @ '': '')
            (HardLink (entry_path destDir (th_Linkname hdr)) target) (os_ignore (RemovePath target) log))
      | _ \<Rightarrow> (None, log))"

fun extract_entries ::
  "'i image_env \<Rightarrow> string \<Rightarrow> tar_header list \<Rightarrow> string option \<Rightarrow> os_call list \<Rightarrow> string option \<times> os_call list" where
  "extract_entries env destDir [] end log =
     (if ie_ctx env log \<noteq> None then (ie_ctx env log, log) else (map_option (\<lambda>e. ''read tar: '' @ e) end, log))"
| "extract_entries env destDir (hdr # hdrs) end log =
     (if ie_ctx env log \<noteq> None then (ie_ctx env log, log)
      else and_then (extract_entry env destDir hdr log) (extract_entries env destDir hdrs end))"

definition extractRootfs :: "'i image_env \<Rightarrow> 'i \<Rightarrow> string \<Rightarrow> os_call list \<Rightarrow> string option \<times> os_call list" where
  "extractRootfs env img destDir log =
     (case ie_Extract env img of (hdrs, end) \<Rightarrow> extract_entries env destDir hdrs end log)"

subsection \<open>Files the guest needs\<close>

definition essentials :: "string list" where
  "essentials =
     [''dev'', ''proc'', ''sys'', ''run'', ''tmp'', ''var/run'', ''var/log'', ''root'', ''home'', ''etc'']"

fun make_dirs :: "'i image_env \<Rightarrow> string \<Rightarrow> string list \<Rightarrow> os_call list \<Rightarrow> string option \<times> os_call list" where
  "make_dirs env rootDir [] log = (None, log)"
| "make_dirs env rootDir (dir # dirs) log =
     and_then (os_try env (''create '' @ dir @ '': '') (MkdirAll (Join [rootDir, dir]) mode_755) log) (make_dirs env rootDir dirs)"

definition default_file :: "'i image_env \<Rightarrow> string \<Rightarrow> string \<Rightarrow> string \<Rightarrow> os_call list \<Rightarrow> string option \<times> os_call list" where
  "default_file env what path content log =
     (if ie_Stat env log path = NotExist then os_try env what (WriteFile path content mode_644) log else (None, log))"

definition chown_tree :: "'i image_env \<Rightarrow> string \<Rightarrow> int \<Rightarrow> int \<Rightarrow> os_call list \<Rightarrow> os_call list" where
  "chown_tree env root uid gid log =
     fold (\<lambda>(path, r) log. case r of Inl _ \<Rightarrow> log | Inr _ \<Rightarrow> os_ignore (Lchown path uid gid) log) (ie_Walk env log root) log"

definition own_home :: "'i image_env \<Rightarrow> string \<Rightarrow> string \<Rightarrow> os_call list \<Rightarrow> os_call list" where
  "own_home env rootDir passwd log =
     (case filter (\<lambda>line. HasPrefix line ''ussycode:'') (Split passwd (CHR 0x0A)) of
        [] \<Rightarrow> log
      | line # _ \<Rightarrow>
        let parts = Split line CHR '':'' in
        if length parts < 7 then log
        else let home = TrimPrefix (parts ! 5) ''/'' in
          (case (Atoi (parts ! 2), Atoi (parts ! 3)) of
             (Some uid, Some gid) \<Rightarrow> if home \<noteq> '''' then chown_tree env (Join [rootDir, home]) uid gid log else log
           | _ \<Rightarrow> log))"

definition newline :: string where "newline = [CHR 0x0A]"

definition ensureEssentialDirs :: "'i image_env \<Rightarrow> string \<Rightarrow> os_call list \<Rightarrow> string option \<times> os_call list" where
  "ensureEssentialDirs env rootDir log =
     and_then (make_dirs env rootDir essentials log) (\<lambda>log.
     and_then (default_file env ''write resolv.conf: '' (Join [rootDir, ''etc'', ''resolv.conf''])
                 (''nameserver 8.8.8.8'' @ newline @ ''nameserver 8.8.4.4'' @ newline) log) (\<lambda>log.
     and_then (default_file env ''write hostname: '' (Join [rootDir, ''etc'', ''hostname'']) (''ussycode'' @ newline) log) (\<lambda>log.
       (None,
        case ie_ReadFile env log (Join [rootDir, ''etc'', ''passwd'']) of
          None \<Rightarrow> log
        | Some passwd \<Rightarrow> own_home env rootDir passwd log))))"

subsection \<open>The ext4 image\<close>

text \<open>The sizes of the files, up to the first error of the walk.\<close>

fun total_size :: "(string \<times> (string + bool \<times> int)) list \<Rightarrow> int \<Rightarrow> string + int" where
  "total_size [] acc = Inr acc"
| "total_size ((path, Inl e) # visits) acc = Inl e"
| "total_size ((path, Inr (is_dir, n)) # visits) acc = total_size visits (if is_dir then acc else i64 (acc + n))"

definition image_size :: "int \<Rightarrow> int" where
  "image_size totalSize = max (totalSize * 3 div 2 + 64 * 1024 * 1024) (128 * 1024 * 1024)"

definition createExt4 :: "'i image_env \<Rightarrow> string \<Rightarrow> string \<Rightarrow> os_call list \<Rightarrow> string option \<times> os_call list" where
  "createExt4 env srcDir outPath log =
     (case total_size (ie_Walk env log srcDir) 0 of
        Inl e \<Rightarrow> (Some (''calculate dir size: '' @ e), log)
      | Inr totalSize \<Rightarrow>
        and_then (os_try env ''create image file: '' (CreateFile outPath) log) (\<lambda>log.
        and_then (os_try env ''truncate image file: '' (Truncate outPath (image_size totalSize)) log) (\<lambda>log.
        and_then (os_try env ''mkfs.ext4: '' (RunProgram [''mkfs.ext4'', ''-F'', ''-d'', srcDir, outPath]) log) (\<lambda>log.
          (None, os_ignore (RunProgram [''resize2fs'', ''-M'', outPath]) log)))))"

subsection \<open>Pulling\<close>

definition local_tar :: "string \<Rightarrow> string \<Rightarrow> string" where
  "local_tar cacheDir ref =
     Join [Join [cacheDir, ''local-images''],
           map (\<lambda>c. if c = CHR ''/'' \<or> c = CHR '':'' \<or> c = CHR 0x40 then CHR ''_'' else c) ref @ ''.tar'']"

definition loadLocalDockerImage :: "'i image_env \<Rightarrow> string \<Rightarrow> string \<Rightarrow> os_call list \<Rightarrow> (string + 'i) \<times> os_call list" where
  "loadLocalDockerImage env cacheDir ref log =
     (let tmpPath = local_tar cacheDir ref;
          (err, log) =
            and_then (os_try env ''create local image cache dir: '' (MkdirAll (Join [cacheDir, ''local-images'']) mode_755) log) (\<lambda>log.
            if ie_Stat env log tmpPath \<noteq> NotExist then (None, log)
            else and_then (os_do env (CreateFile tmpPath) log) (\<lambda>log.
              let save = RunProgram [''docker'', ''save'', ''-o'', tmpPath, ref] in
              (case os_do env save log of
                 (None, log') \<Rightarrow> (None, log')
               | (Some e, log') \<Rightarrow>
                   (Some (''docker save '' @ go_quote ref @ '': '' @ ie_Output env log save @ '': '' @ e),
                    os_ignore (RemovePath tmpPath) log'))))
      in case err of
        Some e \<Rightarrow> (Inl e, log)
      | None \<Rightarrow>
        (case ie_NewTag env ref of
           Some e \<Rightarrow> (Inl (''parse local tag '' @ go_quote ref @ '': '' @ e), log)
         | None \<Rightarrow>
           (case ie_ImageFromPath env log tmpPath ref of
              Inl e \<Rightarrow> (Inl (''load tarball image '' @ go_quote ref @ '': '' @ e), log)
            | Inr img \<Rightarrow> (Inr img, log))))"

fun first_local :: "'i image_env \<Rightarrow> string \<Rightarrow> string list \<Rightarrow> os_call list \<Rightarrow> 'i option \<times> os_call list" where
  "first_local env cacheDir [] log = (None, log)"
| "first_local env cacheDir (candidate # rest) log =
     (if ie_NewTag env candidate \<noteq> None then first_local env cacheDir rest log
      else case loadLocalDockerImage env cacheDir candidate log of
        (Inr img, log) \<Rightarrow> (Some img, log)
      | (Inl _, log) \<Rightarrow> first_local env cacheDir rest log)"

definition getImage :: "'i image_env \<Rightarrow> string \<Rightarrow> string \<Rightarrow> os_call list \<Rightarrow> (string + 'i) \<times> os_call list" where
  "getImage env cacheDir imageRef log =
     (let candidates = imageRef # (if Contains imageRef '':'' then [] else [imageRef @ '':latest'']) in
      case first_local env cacheDir candidates log of
        (Some img, log) \<Rightarrow> (Inr img, log)
      | (None, log) \<Rightarrow>
        (case ie_Get env log imageRef of
           Inl e \<Rightarrow> (Inl (''pull image '' @ go_quote imageRef @ '': '' @ e), log)
         | Inr (Inl e) \<Rightarrow> (Inl (''get image from descriptor: '' @ e), log)
         | Inr (Inr img) \<Rightarrow> (Inr img, log)))"

definition extractConfig :: "'i image_env \<Rightarrow> 'i \<Rightarrow> string + ImageConfig" where
  "extractConfig env img =
     (case ie_ConfigFile env img of Inl e \<Rightarrow> Inl (''read image config: '' @ e) | Inr cfg \<Rightarrow> Inr cfg)"

subsection \<open>The cache\<close>

definition NewImageManager :: "'i image_env \<Rightarrow> string \<Rightarrow> os_call list \<Rightarrow> string option \<times> os_call list" where
  "NewImageManager env cacheDir log = os_try env ''create cache dir: '' (MkdirAll cacheDir mode_755) log"

definition cache_path :: "string \<Rightarrow> string \<Rightarrow> string" where
  "cache_path cacheDir digest =
     Join [cacheDir, map (\<lambda>c. if c = CHR '':'' then CHR ''-'' else c) digest @ ''.ext4'']"

text \<open>Building the image in \<open>tmpDir\<close> and moving it into the cache.\<close>

definition build_rootfs :: "'i image_env \<Rightarrow> 'i \<Rightarrow> string \<Rightarrow> string \<Rightarrow> os_call list \<Rightarrow> string option \<times> os_call list" where
  "build_rootfs env img tmpDir ext4Path log =
     (let wrap = (\<lambda>what r. case r of (err, log) \<Rightarrow> (map_option (\<lambda>e. what @ e) err, log)); tmpExt4 = ext4Path @ ''.tmp'' in
      and_then (wrap ''extract rootfs: '' (extractRootfs env img tmpDir log)) (\<lambda>log.
      and_then (wrap ''ensure essential dirs: '' (ensureEssentialDirs env tmpDir log)) (\<lambda>log.
      (case createExt4 env tmpDir tmpExt4 log of
         (Some e, log) \<Rightarrow> (Some (''create ext4: '' @ e), os_ignore (RemovePath tmpExt4) log)
       | (None, log) \<Rightarrow>
         (case os_do env (Rename tmpExt4 ext4Path) log of
            (Some e, log) \<Rightarrow> (Some (''rename ext4 to cache: '' @ e), os_ignore (RemovePath tmpExt4) log)
          | (None, log) \<Rightarrow> (None, log))))))"

definition EnsureRootfs :: "'i image_env \<Rightarrow> string \<Rightarrow> string \<Rightarrow> os_call list \<Rightarrow> (string + string \<times> ImageConfig) \<times> os_call list" where
  "EnsureRootfs env cacheDir imageRef log =
     (case ie_ParseReference env imageRef of
        Some e \<Rightarrow> (Inl (''parse image ref '' @ go_quote imageRef @ '': '' @ e), log)
      | None \<Rightarrow>
        (case getImage env cacheDir imageRef log of
           (Inl e, log) \<Rightarrow> (Inl e, log)
         | (Inr img, log) \<Rightarrow>
           (case ie_Digest env img of
              Inl e \<Rightarrow> (Inl (''get image digest: '' @ e), log)
            | Inr digest \<Rightarrow>
              let ext4Path = cache_path cacheDir digest in
              (case extractConfig env img of
                 Inl e \<Rightarrow> (Inl e, log)
               | Inr cfg \<Rightarrow>
                 if ie_Stat env log ext4Path = Exists then (Inr (ext4Path, cfg), log)
                 else case ie_MkdirTemp env log of
                   Inl e \<Rightarrow> (Inl (''create temp dir: '' @ e), log)
                 | Inr tmpDir \<Rightarrow>
                   (case build_rootfs env img tmpDir ext4Path log of (err, log) \<Rightarrow>
                      (case err of Some e \<Rightarrow> Inl e | None \<Rightarrow> Inr (ext4Path, cfg), os_ignore (RemoveAll tmpDir) log))))))"

definition CleanCache :: "'i image_env \<Rightarrow> string \<Rightarrow> os_call list \<Rightarrow> string option \<times> os_call list" where
  "CleanCache env cacheDir log =
     (case ie_ReadDir env log cacheDir of
        Inl e \<Rightarrow> (Some (''read cache dir: '' @ e), log)
      | Inr entries \<Rightarrow>
        (None, fold (\<lambda>nm. os_ignore (RemovePath (Join [cacheDir, nm]))) (filter (\<lambda>nm. HasSuffix nm ''.ext4'') entries) log))"

subsection \<open>Calls of an operation\<close>

text \<open>What an operation adds to the calls made.\<close>

definition appends :: "(os_call \<Rightarrow> bool) \<Rightarrow> os_call list \<Rightarrow> os_call list \<Rightarrow> bool" where
  "appends P log log' \<longleftrightarrow> (\<exists>cs. log' = log @ cs \<and> (\<forall>c \<in> set cs. P c))"

named_theorems calls \<open>rules for what an operation appends\<close>

lemma appends_refl [calls]: "appends P log log"
  by (simp add: appends_def)

lemma appends_trans: "appends P a b \<Longrightarrow> appends P b c \<Longrightarrow> appends P a c"
  unfolding appends_def by fastforce

lemma appends_do: "P c \<Longrightarrow> appends P log (log @ [c])"
  by (simp add: appends_def)

lemma appends_try [calls]: "P c \<Longrightarrow> appends P log log' \<Longrightarrow> appends P log (snd (os_try env what c log'))"
  by (auto simp: os_try_def intro: appends_trans appends_do)

lemma appends_os_do [calls]: "P c \<Longrightarrow> appends P log log' \<Longrightarrow> appends P log (snd (os_do env c log'))"
  by (auto simp: os_do_def intro: appends_trans appends_do)

lemma appends_ignore [calls]: "P c \<Longrightarrow> appends P log log' \<Longrightarrow> appends P log (os_ignore c log')"
  by (auto simp: os_ignore_def intro: appends_trans appends_do)

lemma appends_and_then [calls]:
  "appends P log (snd r) \<Longrightarrow> (\<And>log. appends P log (snd (f log))) \<Longrightarrow> appends P log (snd (and_then r f))"
  by (auto simp: and_then_def split: prod.splits option.splits intro: appends_trans)

lemma appends_ownership [calls]: "P (Chown path uid gid) \<Longrightarrow> appends P log (applyOwnership path uid gid log)"
  by (simp add: applyOwnership_def calls)

lemma appends_fold: "(\<And>x log. x \<in> set xs \<Longrightarrow> appends P log (f x log)) \<Longrightarrow> appends P log (fold f xs log)"
  by (induction xs arbitrary: log) (auto intro: appends_refl appends_trans)

subsection \<open>Paths of the archive\<close>

definition below :: "string \<Rightarrow> string \<Rightarrow> bool" where
  "below dir p \<longleftrightarrow> prefix (path_elems dir) (path_elems p)"

lemma Split_Clean:
  assumes "is_rooted p"
  shows "filter (\<lambda>e. e \<noteq> []) (Split (Clean p) CHR ''/'') = path_elems p"
    "e \<in> set (Split (Clean p) CHR ''/'') \<Longrightarrow> e = [] \<or> plain_name e"
proof -
  have plain: "list_all plain_name (path_elems p)" by (rule path_elems_plain [OF assms])
  have "Split (Clean p) CHR ''/'' = [] # (if path_elems p = [] then [[]] else path_elems p)"
    using Split_Join_plain [OF _ plain] by (simp add: Clean_rooted [OF assms])
  then show "filter (\<lambda>e. e \<noteq> []) (Split (Clean p) CHR ''/'') = path_elems p"
    "e \<in> set (Split (Clean p) CHR ''/'') \<Longrightarrow> e = [] \<or> plain_name e"
    using plain by (auto simp: list_all_iff plain_name_def filter_id_conv split: if_splits)
qed

lemma entry_path_elems:
  assumes "is_rooted destDir"
  shows "path_elems (entry_path destDir nm) = path_elems destDir @ path_elems (''/'' @ nm)" "is_rooted (entry_path destDir nm)"
    "entry_path destDir nm = ''/'' @ Join_strings (path_elems (entry_path destDir nm)) ''/''"
proof -
  have r: "is_rooted (''/'' @ nm)" by (simp add: is_rooted_def HasPrefix_def)
  have e: "e = '''' \<or> plain_name e" if "p \<in> set [Clean (''/'' @ nm)]" "e \<in> set (Split p CHR ''/'')" for p e
    using Split_Clean(2) [OF r] that by auto
  show "path_elems (entry_path destDir nm) = path_elems destDir @ path_elems (''/'' @ nm)" "is_rooted (entry_path destDir nm)"
    "entry_path destDir nm = ''/'' @ Join_strings (path_elems (entry_path destDir nm)) ''/''"
    using Join_rooted [OF assms _ e, of "[Clean (''/'' @ nm)]"] Split_Clean(1) [OF r] by (simp_all add: entry_path_def)
qed

lemma path_elems_Clean: "is_rooted p \<Longrightarrow> path_elems (Clean p) = path_elems p"
  using Clean_rooted path_elems_rooted [OF path_elems_plain] by metis

lemma Dir_elems:
  assumes "list_all plain_name es"
  shows "path_elems (Dir (''/'' @ Join_strings es ''/'')) = butlast es"
proof (cases es rule: rev_cases)
  case Nil
  then show ?thesis by (simp add: Dir_def Clean_def path_elems_def is_rooted_def HasPrefix_def clean_elem_def)
next
  case (snoc ds f)
  have "CHR ''/'' \<notin> set f" using assms snoc by (simp add: plain_name_def)
  then have cut: "rev (dropWhile (\<lambda>c. c \<noteq> CHR ''/'') (rev (p @ ''/'' @ f))) = p @ ''/''" for p
    by (induction p) (auto simp: dropWhile_append3 dropWhile_append)
  have rest: "path_elems (''/'' @ Join_strings ds ''/'' @ ''/'') = ds" if "ds \<noteq> []"
  proof -
    have "Split (''/'' @ Join_strings ds ''/'' @ ''/'') CHR ''/'' = [] # ds @ [[]]"
      using that assms snoc Split_Join_plain [of ds] Split_append [of "Join_strings ds ''/''" "CHR ''/''" "[]"] by simp
    then show ?thesis using assms snoc fold_plain [of ds True "[]"]
      by (simp add: path_elems_def is_rooted_def HasPrefix_def clean_elem_def)
  qed
  show ?thesis
  proof (cases "ds = []")
    case True
    then show ?thesis using cut [of "[]"] snoc
      by (simp add: Dir_def Clean_def path_elems_def is_rooted_def HasPrefix_def clean_elem_def)
  next
    case False
    then have "Dir (''/'' @ Join_strings es ''/'') = Clean (''/'' @ Join_strings ds ''/'' @ ''/'')"
      using cut [of "''/'' @ Join_strings ds ''/''"] snoc by (simp add: Dir_def Join_strings_snoc)
    then show ?thesis using rest [OF False] snoc by (simp add: path_elems_Clean is_rooted_def HasPrefix_def)
  qed
qed

text \<open>The paths a call may change; a program may change any.\<close>

fun call_paths :: "os_call \<Rightarrow> string set" where
  "call_paths (MkdirAll p _) = {p}"
| "call_paths (OpenFile p _) = {p}"
| "call_paths (CopyTo p _) = {p}"
| "call_paths (WriteFile p _ _) = {p}"
| "call_paths (RemovePath p) = {p}"
| "call_paths (RemoveAll p) = {p}"
| "call_paths (Symlink _ p) = {p}"
| "call_paths (HardLink p q) = {p, q}"
| "call_paths (Chown p _ _) = {p}"
| "call_paths (Lchown p _ _) = {p}"
| "call_paths (CreateFile p) = {p}"
| "call_paths (Truncate p _) = {p}"
| "call_paths (Rename p q) = {p, q}"
| "call_paths (RunProgram _) = UNIV"

definition confined_call :: "string \<Rightarrow> os_call \<Rightarrow> bool" where
  "confined_call dir c \<longleftrightarrow> (\<forall>p \<in> call_paths c. below dir p) \<or>
     (\<exists>p. c = MkdirAll p mode_755 \<and> path_elems p = butlast (path_elems dir))"

lemma confined_entry:
  assumes "is_rooted destDir"
  shows "below destDir (entry_path destDir nm)" "confined_call destDir (MkdirAll (Dir (entry_path destDir nm)) mode_755)"
proof -
  note e = entry_path_elems [OF assms, of nm]
  show "below destDir (entry_path destDir nm)" by (simp add: below_def e(1))
  have "path_elems (Dir (entry_path destDir nm)) = butlast (path_elems destDir @ path_elems (''/'' @ nm))"
    using Dir_elems [OF path_elems_plain [OF e(2)]] e(1,3) by metis
  then show "confined_call destDir (MkdirAll (Dir (entry_path destDir nm)) mode_755)"
    by (cases "path_elems (''/'' @ nm) = []") (auto simp: confined_call_def below_def butlast_append)
qed

lemma extract_entry_confined:
  assumes "is_rooted destDir"
  shows "appends (confined_call destDir) log (snd (extract_entry env destDir hdr log))"
proof -
  note c = confined_entry [OF assms, of "th_Name hdr"] confined_entry(1) [OF assms, of "th_Linkname hdr"]
  have here: "confined_call destDir x" if "call_paths x \<subseteq> {entry_path destDir (th_Name hdr), entry_path destDir (th_Linkname hdr)}" for x
    using that c(1,3) by (auto simp: confined_call_def)
  show ?thesis
    by (cases "th_Typeflag hdr") (auto simp: extract_entry_def Let_def intro!: calls c(2) here)
qed

lemma extractRootfs_confined:
  assumes "is_rooted destDir"
  shows "appends (confined_call destDir) log (snd (extractRootfs env img destDir log))"
proof -
  have "appends (confined_call destDir) log (snd (extract_entries env destDir hdrs end log))" for hdrs "end"
  proof (induction hdrs arbitrary: log)
    case (Cons h hdrs)
    then show ?case using extract_entry_confined [OF assms] by (auto intro!: calls)
  qed (simp add: calls)
  then show ?thesis by (simp add: extractRootfs_def split: prod.splits)
qed

text \<open>C33. An image can only name paths below the directory it is unpacked in: whatever the archive
holds, every path changed while it is unpacked lies below that directory as it is written (a link of the
archive may still point elsewhere), but for creating the directory above it.\<close>

theorem image_paths_confined:
  assumes "is_rooted destDir"
  shows "appends (confined_call destDir) log (snd (extractRootfs env img destDir log))"
  by (rule extractRootfs_confined [OF assms])

text \<open>An archive with a directory, a file and a link out of it.\<close>

definition sample_images :: "unit image_env" where
  "sample_images =
     \<lparr>ie_call = (\<lambda>_ _. None), ie_Output = (\<lambda>_ _. ''''), ie_Stat = (\<lambda>_ _. NotExist), ie_ReadFile = (\<lambda>_ _. None),
      ie_ReadDir = (\<lambda>_ _. Inr []), ie_Walk = (\<lambda>_ _. []), ie_MkdirTemp = (\<lambda>_. Inr ''/tmp/x''), ie_ctx = (\<lambda>_. None),
      ie_ParseReference = (\<lambda>_. None), ie_NewTag = (\<lambda>_. Some ''bad tag''), ie_Get = (\<lambda>_ _. Inr (Inr ())),
      ie_ImageFromPath = (\<lambda>_ _ _. Inl ''no file''), ie_Digest = (\<lambda>_. Inr ''sha256:ab''),
      ie_ConfigFile = (\<lambda>_. Inr \<lparr>ic_Entrypoint = [], ic_Cmd = [], ic_Env = [], ic_ExposedPorts = [], ic_WorkingDir = '''', ic_User = ''''\<rparr>),
      ie_Extract = (\<lambda>_. ([\<lparr>th_Name = ''../bin/sh'', th_Linkname = '''', th_Typeflag = TypeReg, th_Mode = 493, th_Uid = 0,
                             th_Gid = 0, th_Content = ''x''\<rparr>], None))\<rparr>"

theorem image_paths_confined_witness:
  "appends (confined_call ''/tmp/x'') [] (snd (extractRootfs sample_images () ''/tmp/x'' [])) \<and>
   list_ex (\<lambda>c. c = CopyTo ''/tmp/x/bin/sh'' ''x'') (snd (extractRootfs sample_images () ''/tmp/x'' []))"
proof
  show "appends (confined_call ''/tmp/x'') [] (snd (extractRootfs sample_images () ''/tmp/x'' []))"
    by (rule image_paths_confined) (simp add: is_rooted_def HasPrefix_def)
  show "list_ex (\<lambda>c. c = CopyTo ''/tmp/x/bin/sh'' ''x'') (snd (extractRootfs sample_images () ''/tmp/x'' []))"
    by code_simp
qed

text \<open>The home directory of the passwd file is joined unchecked: its dots lead out of the root.\<close>

lemma home_escapes:
  "own_home sample_images ''/tmp/x'' ''ussycode:x:0:0::/../../etc:/bin/sh'' [] =
   chown_tree sample_images ''/etc'' 0 0 []"
proof -
  have parts: "filter (\<lambda>line. HasPrefix line ''ussycode:'') (Split ''ussycode:x:0:0::/../../etc:/bin/sh'' (CHR 0x0A)) =
      [''ussycode:x:0:0::/../../etc:/bin/sh'']"
    "Split ''ussycode:x:0:0::/../../etc:/bin/sh'' CHR '':'' = [''ussycode'', ''x'', ''0'', ''0'', '''', ''/../../etc'', ''/bin/sh'']"
    "TrimPrefix ''/../../etc'' ''/'' = ''../../etc''" "Join [''/tmp/x'', ''../../etc''] = ''/etc''" "Atoi ''0'' = Some 0"
    by code_simp+
  show ?thesis unfolding own_home_def Let_def parts by (simp add: parts)
qed

subsection \<open>Files an operation writes\<close>

text \<open>The file a program writes: the argument after \<^verbatim>\<open>-o\<close> of \<^verbatim>\<open>docker save\<close>, the last of the
others.\<close>

definition program_file :: "string list \<Rightarrow> string" where
  "program_file as = (if hd as = ''docker'' then as ! 3 else last as)"

fun writes :: "os_call \<Rightarrow> string set" where
  "writes (OpenFile p _) = {p}"
| "writes (CopyTo p _) = {p}"
| "writes (WriteFile p _ _) = {p}"
| "writes (Symlink _ p) = {p}"
| "writes (HardLink _ p) = {p}"
| "writes (CreateFile p) = {p}"
| "writes (Truncate p _) = {p}"
| "writes (Rename _ p) = {p}"
| "writes (RunProgram as) = {program_file as}"
| "writes _ = {}"

abbreviation spares :: "string \<Rightarrow> os_call \<Rightarrow> bool" where "spares q c \<equiv> q \<notin> writes c"

definition ext4_calls :: "string \<Rightarrow> string \<Rightarrow> int \<Rightarrow> os_call list" where
  "ext4_calls src out n =
     [CreateFile out, Truncate out n, RunProgram [''mkfs.ext4'', ''-F'', ''-d'', src, out], RunProgram [''resize2fs'', ''-M'', out]]"

text \<open>Either nothing writes \<open>q\<close>, or it appears by renaming an image whose creation succeeded.\<close>

definition published :: "'i image_env \<Rightarrow> string \<Rightarrow> os_call list \<Rightarrow> os_call list \<Rightarrow> bool" where
  "published env q log cs \<longleftrightarrow> (\<forall>c \<in> set cs. spares q c) \<or>
     (\<exists>pre src n post. cs = pre @ ext4_calls src (q @ ''.tmp'') n @ Rename (q @ ''.tmp'') q # post \<and>
        (\<forall>c \<in> set pre \<union> set post. spares q c) \<and>
        (\<forall>i < 3. ie_call env (log @ pre @ take i (ext4_calls src (q @ ''.tmp'') n)) (ext4_calls src (q @ ''.tmp'') n ! i) = None))"

lemma published_prepend:
  assumes "\<forall>c \<in> set a. spares q c" "published env q (log @ a) cs"
  shows "published env q log (a @ cs)"
  using assms(2) unfolding published_def
proof
  assume "\<exists>pre src n post. cs = pre @ ext4_calls src (q @ ''.tmp'') n @ Rename (q @ ''.tmp'') q # post \<and>
        (\<forall>c \<in> set pre \<union> set post. spares q c) \<and>
        (\<forall>i < 3. ie_call env ((log @ a) @ pre @ take i (ext4_calls src (q @ ''.tmp'') n)) (ext4_calls src (q @ ''.tmp'') n ! i) = None)"
  then obtain pre src n post where
    "cs = pre @ ext4_calls src (q @ ''.tmp'') n @ Rename (q @ ''.tmp'') q # post" "\<forall>c \<in> set pre \<union> set post. spares q c"
    "\<forall>i < 3. ie_call env ((log @ a) @ pre @ take i (ext4_calls src (q @ ''.tmp'') n)) (ext4_calls src (q @ ''.tmp'') n ! i) = None"
    by blast
  then have "a @ cs = (a @ pre) @ ext4_calls src (q @ ''.tmp'') n @ Rename (q @ ''.tmp'') q # post \<and>
      (\<forall>c \<in> set (a @ pre) \<union> set post. spares q c) \<and>
      (\<forall>i < 3. ie_call env (log @ (a @ pre) @ take i (ext4_calls src (q @ ''.tmp'') n)) (ext4_calls src (q @ ''.tmp'') n ! i) = None)"
    using assms(1) by auto
  then show "(\<forall>c \<in> set (a @ cs). spares q c) \<or> (\<exists>pre src n post. a @ cs = pre @ ext4_calls src (q @ ''.tmp'') n @ Rename (q @ ''.tmp'') q # post \<and>
        (\<forall>c \<in> set pre \<union> set post. spares q c) \<and>
        (\<forall>i < 3. ie_call env (log @ pre @ take i (ext4_calls src (q @ ''.tmp'') n)) (ext4_calls src (q @ ''.tmp'') n ! i) = None))"
    by blast
qed (use assms(1) in auto)

lemma published_append:
  assumes "published env q log cs" "\<forall>c \<in> set b. spares q c"
  shows "published env q log (cs @ b)"
proof (cases "\<forall>c \<in> set cs. spares q c")
  case False
  then obtain pre src n post where p: "cs = pre @ ext4_calls src (q @ ''.tmp'') n @ Rename (q @ ''.tmp'') q # post"
    "\<forall>c \<in> set pre \<union> set post. spares q c"
    "\<forall>i < 3. ie_call env (log @ pre @ take i (ext4_calls src (q @ ''.tmp'') n)) (ext4_calls src (q @ ''.tmp'') n ! i) = None"
    using assms(1) unfolding published_def by blast
  have "cs @ b = pre @ ext4_calls src (q @ ''.tmp'') n @ Rename (q @ ''.tmp'') q # (post @ b)" using p(1) by simp
  moreover have "\<forall>c \<in> set pre \<union> set (post @ b). spares q c" using p(2) assms(2) by auto
  ultimately show ?thesis unfolding published_def using p(3) by blast
qed (use assms(2) in \<open>auto simp: published_def\<close>)

definition publishes :: "'i image_env \<Rightarrow> string \<Rightarrow> os_call list \<Rightarrow> os_call list \<Rightarrow> bool" where
  "publishes env q log log' \<longleftrightarrow> (\<exists>cs. log' = log @ cs \<and> published env q log cs)"

lemma publishes_spared: "appends (spares q) log log' \<Longrightarrow> publishes env q log log'"
  unfolding publishes_def appends_def published_def by blast

lemma publishes_after: "appends (spares q) a b \<Longrightarrow> publishes env q b c \<Longrightarrow> publishes env q a c"
  unfolding publishes_def appends_def using published_prepend by fastforce

lemma publishes_ignore: "publishes env q a b \<Longrightarrow> spares q c \<Longrightarrow> publishes env q a (os_ignore c b)"
  unfolding publishes_def os_ignore_def using published_append [of env q a _ "[c]"] by fastforce

lemma below_spares:
  assumes "confined_call dir c" "\<not> below dir q"
  shows "spares q c"
proof -
  have "writes c \<subseteq> call_paths c" by (cases c) auto
  then show ?thesis using assms by (auto simp: confined_call_def)
qed

lemma Join_below:
  assumes "is_rooted dir" "ps \<noteq> []" "list_all plain_name ps"
  shows "path_elems (Join (dir # ps)) = path_elems dir @ ps"
    "Join (dir # ps) = ''/'' @ Join_strings (path_elems dir @ ps) ''/''" "is_rooted (Join (dir # ps))"
proof -
  have e: "e = '''' \<or> plain_name e" if "p \<in> set ps" "e \<in> set (Split p CHR ''/'')" for p e
    using that assms(3) by (auto simp: list_all_iff plain_name_def Split_plain)
  have "concat (map (\<lambda>p. Split p CHR ''/'') ps) = ps" "filter (\<lambda>e. e \<noteq> []) ps = ps"
    using assms(3) by (induction ps) (auto simp: plain_name_def Split_plain)
  then show p: "path_elems (Join (dir # ps)) = path_elems dir @ ps"
    using Join_rooted(1) [OF assms(1,2) e] by simp
  show "Join (dir # ps) = ''/'' @ Join_strings (path_elems dir @ ps) ''/''" "is_rooted (Join (dir # ps))"
    using Join_rooted(2,4) [OF assms(1,2) e] p by simp_all
qed

lemma image_name:
  assumes "\<And>c. c \<in> set s \<Longrightarrow> f c \<noteq> CHR ''/''"
  shows "plain_name (map f s @ ''.ext4'')" "plain_name (map f s @ ''.tar'')"
proof -
  have "CHR ''/'' \<notin> f ` set s" using assms by (metis imageE)
  then show "plain_name (map f s @ ''.ext4'')" "plain_name (map f s @ ''.tar'')"
    by (auto simp: plain_name_def append_eq_Cons_conv Cons_eq_append_conv)
qed

text \<open>A path of the cache: its elements are those of the directory and a name.\<close>

lemma cache_elems:
  assumes "is_rooted cacheDir" "CHR ''/'' \<notin> set digest"
  shows "path_elems (cache_path cacheDir digest) = path_elems cacheDir @ [map (\<lambda>c. if c = CHR '':'' then CHR ''-'' else c) digest @ ''.ext4'']"
proof -
  have "plain_name (map (\<lambda>c. if c = CHR '':'' then CHR ''-'' else c) digest @ ''.ext4'')"
    by (rule image_name(1)) (use assms(2) in auto)
  then show ?thesis unfolding cache_path_def using Join_below(1) [OF assms(1)] by simp
qed

lemma local_tar_elems:
  assumes "is_rooted cacheDir"
  shows "\<exists>n. path_elems (local_tar cacheDir ref) = path_elems cacheDir @ [''local-images'', n]"
proof -
  have l: "plain_name ''local-images''" by (simp add: plain_name_def)
  let ?n = "map (\<lambda>c. if c = CHR ''/'' \<or> c = CHR '':'' \<or> c = CHR 0x40 then CHR ''_'' else c) ref @ ''.tar''"
  have n: "plain_name ?n" by (rule image_name(2)) auto
  note d = Join_below [OF assms, of "[''local-images'']"]
  show ?thesis unfolding local_tar_def
    using Join_below(1) [OF d(3), of "[?n]"] d(1) l n by simp
qed

lemma essential_spared:
  assumes "is_rooted dir" "\<not> below dir q"
  shows "appends (spares q) log (snd (ensureEssentialDirs env dir log))"
proof -
  have dirs: "appends (spares q) log (snd (make_dirs env dir ds log))" for ds log
    by (induction ds arbitrary: log) (auto intro!: calls)
  have etc: "q \<noteq> Join [dir, ''etc'', n]" if "plain_name n" for n
    using Join_below(1) [OF assms(1), of "[''etc'', n]"] that assms(2) by (auto simp: below_def plain_name_def)
  have deflt: "appends (spares q) log (snd (default_file env what (Join [dir, ''etc'', n]) content log))"
    if "plain_name n" for what n content log
    using etc [OF that] by (auto simp: default_file_def intro!: calls)
  have "appends (spares q) log (chown_tree env d uid gid log)" for d uid gid log
    unfolding chown_tree_def by (rule appends_fold) (auto split: sum.splits intro!: calls)
  then have home: "appends (spares q) log (own_home env dir passwd log)" for passwd log
    by (auto simp: own_home_def Let_def split: list.splits option.splits intro: appends_refl)
  show ?thesis unfolding ensureEssentialDirs_def
    by (intro calls dirs deflt) (auto simp: plain_name_def split: option.splits intro: home appends_refl)
qed

lemma first_ok: "and_then (os_try env what c log) f = (None, log') \<Longrightarrow> ie_call env log c = None \<and> f (log @ [c]) = (None, log')"
  by (auto simp: and_then_def os_try_def split: option.splits)

lemma createExt4_built:
  assumes "createExt4 env src out log = (None, log')"
  obtains n where "log' = log @ ext4_calls src out n"
    "\<forall>i < 3. ie_call env (log @ take i (ext4_calls src out n)) (ext4_calls src out n ! i) = None"
proof -
  from assms obtain t where t: "total_size (ie_Walk env log src) 0 = Inr t" by (auto simp: createExt4_def split: sum.splits)
  note s = first_ok [OF assms [unfolded createExt4_def t sum.case]]
  note s2 = first_ok [OF conjunct2 [OF s]]
  note s3 = first_ok [OF conjunct2 [OF s2]]
  show ?thesis
  proof (rule that [of "image_size t"])
    show "log' = log @ ext4_calls src out (image_size t)" using s3 by (simp add: ext4_calls_def os_ignore_def)
    show "\<forall>i < 3. ie_call env (log @ take i (ext4_calls src out (image_size t))) (ext4_calls src out (image_size t) ! i) = None"
      using s s2 s3 by (auto simp: ext4_calls_def less_Suc_eq numeral_3_eq_3)
  qed
qed

lemma createExt4_spared: "q \<noteq> out \<Longrightarrow> appends (spares q) log (snd (createExt4 env src out log))"
  by (auto simp: createExt4_def program_file_def split: sum.splits intro!: calls)

lemma published_built:
  assumes "\<forall>i < 3. ie_call env (log @ take i (ext4_calls src (q @ ''.tmp'') n)) (ext4_calls src (q @ ''.tmp'') n ! i) = None"
  shows "publishes env q log (log @ ext4_calls src (q @ ''.tmp'') n @ [Rename (q @ ''.tmp'') q])"
  unfolding publishes_def published_def using assms by (intro exI conjI disjI2) (rule refl, rule append_Nil [symmetric], auto)

lemma ext4_calls_spare: "q \<noteq> out \<Longrightarrow> c \<in> set (ext4_calls src out n) \<Longrightarrow> spares q c"
  by (auto simp: ext4_calls_def program_file_def)

text \<open>A build writes the path it builds only to publish it, and no other path outside its directory.\<close>

lemma build_rootfs_publishes:
  assumes "is_rooted tmpDir" "\<not> below tmpDir q" "q \<noteq> p @ ''.tmp''"
  shows "publishes env q log (snd (build_rootfs env img tmpDir p log))"
proof -
  have step: "publishes env q log (snd (and_then (case r of (err, l) \<Rightarrow> (map_option f err, l)) g))"
    if "appends (spares q) log (snd r)" "\<And>l. publishes env q l (snd (g l))" for r f g and log :: "os_call list"
    using that by (auto simp: and_then_def split: prod.splits option.splits intro: publishes_spared publishes_after)
  have spare_confined: "appends (confined_call tmpDir) a b \<Longrightarrow> appends (spares q) a b" for a b
    unfolding appends_def using below_spares assms(2) by blast
  have unpack: "appends (spares q) log (snd (extractRootfs env img tmpDir log))" for log
    by (rule spare_confined [OF extractRootfs_confined [OF assms(1)]])
  have out: "publishes env q log (snd (case createExt4 env tmpDir (p @ ''.tmp'') log of
         (Some e, log) \<Rightarrow> (Some (''create ext4: '' @ e), os_ignore (RemovePath (p @ ''.tmp'')) log)
       | (None, log) \<Rightarrow>
         (case os_do env (Rename (p @ ''.tmp'') p) log of
            (Some e, log) \<Rightarrow> (Some (''rename ext4 to cache: '' @ e), os_ignore (RemovePath (p @ ''.tmp'')) log)
          | (None, log) \<Rightarrow> (None, log))))" for log
  proof -
    obtain r l where c: "createExt4 env tmpDir (p @ ''.tmp'') log = (r, l)" by fastforce
    then have spared: "appends (spares q) log l" using createExt4_spared [OF assms(3), of log env tmpDir] by simp
    show ?thesis
    proof (cases r)
      case None
      obtain n where n: "l = log @ ext4_calls tmpDir (p @ ''.tmp'') n"
        "\<forall>i < 3. ie_call env (log @ take i (ext4_calls tmpDir (p @ ''.tmp'') n)) (ext4_calls tmpDir (p @ ''.tmp'') n ! i) = None"
        using createExt4_built c None by metis
      have "publishes env q log (l @ [Rename (p @ ''.tmp'') p])"
      proof (cases "p = q")
        case True
        then show ?thesis using published_built n by fastforce
      next
        case False
        have "appends (spares q) log (l @ [Rename (p @ ''.tmp'') p])"
          by (rule appends_trans [OF spared appends_do]) (use False in auto)
        then show ?thesis by (rule publishes_spared)
      qed
      then show ?thesis using c None by (auto simp: os_do_def split: option.splits intro: publishes_ignore)
    next
      case (Some e)
      then show ?thesis using c spared by (auto intro!: publishes_spared calls)
    qed
  qed
  show ?thesis unfolding build_rootfs_def Let_def
    by (intro step unpack essential_spared [OF assms(1,2)] out)
qed

lemma getImage_spared:
  assumes "\<And>ref. q \<noteq> local_tar cacheDir ref"
  shows "appends (spares q) log (snd (getImage env cacheDir imageRef log))"
proof -
  have load: "appends (spares q) log (snd (loadLocalDockerImage env cacheDir ref log))" for ref log
  proof -
    have save: "appends (spares q) l (snd (case os_do env (RunProgram [''docker'', ''save'', ''-o'', local_tar cacheDir ref, ref]) l of
                 (None, l') \<Rightarrow> (None, l')
               | (Some e, l') \<Rightarrow> (Some (msg e), os_ignore (RemovePath (local_tar cacheDir ref)) l')))" for l msg
      using assms [of ref] by (auto simp: os_do_def program_file_def split: option.splits intro!: calls appends_do)
    have all: "appends (spares q) log (snd (and_then (os_try env ''create local image cache dir: '' (MkdirAll (Join [cacheDir, ''local-images'']) mode_755) log) (\<lambda>log.
            if ie_Stat env log (local_tar cacheDir ref) \<noteq> NotExist then (None, log)
            else and_then (os_do env (CreateFile (local_tar cacheDir ref)) log) (\<lambda>log.
              let save = RunProgram [''docker'', ''save'', ''-o'', local_tar cacheDir ref, ref] in
              (case os_do env save log of
                 (None, log') \<Rightarrow> (None, log')
               | (Some e, log') \<Rightarrow>
                   (Some (''docker save '' @ go_quote ref @ '': '' @ ie_Output env log save @ '': '' @ e),
                    os_ignore (RemovePath (local_tar cacheDir ref)) log'))))))"
      unfolding Let_def using assms [of ref] by (auto intro!: calls save)
    show ?thesis using all unfolding loadLocalDockerImage_def Let_def by (auto split: prod.splits option.splits sum.splits)
  qed
  have "appends (spares q) log (snd (first_local env cacheDir refs log))" for refs
  proof (induction refs arbitrary: log)
    case (Cons ref refs)
    obtain r l where l: "loadLocalDockerImage env cacheDir ref log = (r, l)" by fastforce
    then have "appends (spares q) log l" using load [of log ref] by simp
    then show ?case using Cons.IH l by (cases r) (auto intro: appends_trans)
  qed (simp add: appends_refl)
  then have firsts: "appends (spares q) log (snd (first_local env cacheDir refs log))" for refs .
  obtain r l where l: "first_local env cacheDir (imageRef # (if Contains imageRef '':'' then [] else [imageRef @ '':latest''])) log = (r, l)"
    by fastforce
  then have "appends (spares q) log l"
    using firsts [of "imageRef # (if Contains imageRef '':'' then [] else [imageRef @ '':latest''])"] by (metis snd_conv)
  then show ?thesis unfolding getImage_def Let_def l by (auto split: option.splits sum.splits)
qed



end
