(* ===== verification/Zfs_Storage.thy ===== *)
theory Zfs_Storage
  imports Vm_Manager Go_Float
begin

section \<open>ZFS storage\<close>

text \<open>
  \<^verbatim>\<open>internal/storage/zfs.go\<close>: cloning, destroying and resizing the datasets of VMs and summing their
  use, by the \<^verbatim>\<open>zfs\<close> program; its answers are those of \<^term>\<open>he_run\<close>, its log the
  commands run.
\<close>

record UsageStats =
  us_TotalBytes :: int
  us_UsedBytes :: int
  us_VMCount :: int

definition no_usage :: UsageStats where
  "no_usage = \<lparr>us_TotalBytes = 0, us_UsedBytes = 0, us_VMCount = 0\<rparr>"

text \<open>The backend is the name of its pool.\<close>

definition dataset :: "string \<Rightarrow> string \<Rightarrow> string" where
  "dataset pool vmID = pool @ ''/vms/'' @ vmID"

definition CloneForVM :: "host_env \<Rightarrow> string \<Rightarrow> string \<Rightarrow> string \<Rightarrow> command list \<Rightarrow> (string + string) \<times> command list" where
  "CloneForVM env pool baseImage vmID cmds =
     (let snapshot = pool @ ''/images/'' @ baseImage @ ''@base''; target = dataset pool vmID;
          ((_, err), cmds) = Execute env [''zfs'', ''list'', ''-t'', ''snapshot'', ''-H'', snapshot] cmds in
      case err of
        Some e \<Rightarrow> (Inl (''base image snapshot '' @ go_quote snapshot @ '' not found: '' @ e), cmds)
      | None \<Rightarrow>
        let ((_, err), cmds) = Execute env [''zfs'', ''clone'', snapshot, target] cmds in
        (case err of
           Some e \<Rightarrow> (Inl (''clone '' @ go_quote snapshot @ '' to '' @ go_quote target @ '': '' @ e), cmds)
         | None \<Rightarrow> (Inr (''/dev/zvol/'' @ pool @ ''/vms/'' @ vmID), cmds)))"

definition DestroyVM :: "host_env \<Rightarrow> string \<Rightarrow> string \<Rightarrow> command list \<Rightarrow> string option \<times> command list" where
  "DestroyVM env pool vmID cmds =
     (let target = dataset pool vmID;
          ((out, err), cmds) = Execute env [''zfs'', ''destroy'', ''-r'', target] cmds in
      case err of
        None \<Rightarrow> (None, cmds)
      | Some e \<Rightarrow>
        if Contains out ''does not exist'' \<or> Contains out ''could not find'' then (None, cmds)
        else (Some (''destroy '' @ go_quote target @ '': '' @ out @ '': '' @ e), cmds))"

definition ResizeVM :: "host_env \<Rightarrow> string \<Rightarrow> string \<Rightarrow> string \<Rightarrow> command list \<Rightarrow> string option \<times> command list" where
  "ResizeVM env pool vmID newSize cmds =
     (let target = dataset pool vmID;
          ((_, err), cmds) = Execute env [''zfs'', ''set'', ''volsize='' @ newSize, target] cmds in
      case err of
        None \<Rightarrow> (None, cmds)
      | Some e \<Rightarrow>
        let ((_, err2), cmds) = Execute env [''zfs'', ''set'', ''refquota='' @ newSize, target] cmds in
        (case err2 of
           None \<Rightarrow> (None, cmds)
         | Some e2 \<Rightarrow>
           (Some (''resize '' @ go_quote target @ '' to '' @ newSize @ '': volsize error: '' @ e @
                  '', refquota error: '' @ e2), cmds)))"

subsection \<open>Sizes\<close>

text \<open>\<^verbatim>\<open>int64(f)\<close> cuts off the fraction.\<close>

definition trunc_rat :: "rat \<Rightarrow> int" where
  "trunc_rat x = (if x < 0 then \<lceil>x\<rceil> else \<lfloor>x\<rfloor>)"

definition size_suffix :: "string \<Rightarrow> int \<times> string" where
  "size_suffix s =
     (if HasSuffix s ''T'' then (1024 * 1024 * 1024 * 1024, TrimSuffix s ''T'')
      else if HasSuffix s ''G'' then (1024 * 1024 * 1024, TrimSuffix s ''G'')
      else if HasSuffix s ''M'' then (1024 * 1024, TrimSuffix s ''M'')
      else if HasSuffix s ''K'' then (1024, TrimSuffix s ''K'')
      else (1, s))"

definition parseZFSSize :: "string \<Rightarrow> int" where
  "parseZFSSize s =
     (let s = TrimSpace s in
      if s = '''' \<or> s = ''-'' \<or> s = ''0'' then 0
      else case Atoi s of
        Some n \<Rightarrow> n
      | None \<Rightarrow>
        let (multiplier, numStr) = size_suffix s in
        (case ParseFloat numStr of None \<Rightarrow> 0 | Some f \<Rightarrow> i64 (trunc_rat (f * of_int multiplier))))"

subsection \<open>Usage\<close>

text \<open>What one line of the listing adds: used and referenced bytes.\<close>

definition usage_line :: "string \<Rightarrow> string \<Rightarrow> string \<Rightarrow> (int \<times> int) option" where
  "usage_line pool userID line =
     (case Fields line of
        name # used # refer # _ \<Rightarrow>
          if name = pool @ ''/vms'' then None
          else if userID \<noteq> '''' \<and> \<not> Contains name userID then None
          else Some (parseZFSSize used, parseZFSSize refer)
      | _ \<Rightarrow> None)"

fun add_lines :: "string \<Rightarrow> string \<Rightarrow> string list \<Rightarrow> UsageStats \<Rightarrow> UsageStats" where
  "add_lines pool userID [] stats = stats"
| "add_lines pool userID (line # lines) stats =
     (case usage_line pool userID line of
        None \<Rightarrow> add_lines pool userID lines stats
      | Some (used, refer) \<Rightarrow>
        add_lines pool userID lines
          (stats\<lparr>us_UsedBytes := i64 (us_UsedBytes stats + used), us_TotalBytes := i64 (us_TotalBytes stats + refer),
                 us_VMCount := i64 (us_VMCount stats + 1)\<rparr>))"

definition GetUsage :: "host_env \<Rightarrow> string \<Rightarrow> string \<Rightarrow> command list \<Rightarrow> (string + UsageStats) \<times> command list" where
  "GetUsage env pool userID cmds =
     (let ((out, err), cmds) = Execute env
            [''zfs'', ''list'', ''-t'', ''filesystem,volume'', ''-H'', ''-o'', ''name,used,refer'', ''-r'', pool @ ''/vms''] cmds in
      case err of
        Some e \<Rightarrow>
          if Contains out ''does not exist'' then (Inr no_usage, cmds)
          else (Inl (''list datasets: '' @ out @ '': '' @ e), cmds)
      | None \<Rightarrow> (Inr (add_lines pool userID (Split (TrimSpace out) (CHR 0x0A)) no_usage), cmds))"

subsection \<open>Properties\<close>

lemma i64_add: "i64 (i64 a + b) = i64 (a + b)"
  unfolding i64_def by (simp add: mod_simps algebra_simps)

lemma i64_add_mid: "i64 (b + (i64 a + c)) = i64 (a + (b + c))"
  using i64_add [of a "b + c"] by (simp add: ac_simps)

text \<open>The usage is the sum over the lines that count, modulo the wrap-around of 64 bits.\<close>

lemma usage_total:
  "add_lines pool userID lines no_usage =
     (let us = List.map_filter (usage_line pool userID) lines in
      \<lparr>us_TotalBytes = i64 (sum_list (map snd us)), us_UsedBytes = i64 (sum_list (map fst us)), us_VMCount = i64 (int (length us))\<rparr>)"
proof -
  have "add_lines pool userID lines \<lparr>us_TotalBytes = i64 a, us_UsedBytes = i64 b, us_VMCount = i64 c\<rparr> =
     (let us = List.map_filter (usage_line pool userID) lines in
      \<lparr>us_TotalBytes = i64 (a + sum_list (map snd us)), us_UsedBytes = i64 (b + sum_list (map fst us)),
       us_VMCount = i64 (c + int (length us))\<rparr>)" for a b c
    by (induction lines arbitrary: a b c)
       (auto simp: List.map_filter_simps i64_add i64_add_mid Let_def ac_simps split: option.split)
  from this [of 0 0 0] show ?thesis by (simp add: no_usage_def i64_def)
qed

text \<open>Destroying is idempotent where the program reports a missing dataset, and a dataset of a user is any
whose name contains the user's id: 4 is charged for the dataset of 42.\<close>

lemma destroy_missing:
  "Contains (fst (he_run env cmds [''zfs'', ''destroy'', ''-r'', dataset pool vmID])) ''does not exist'' \<Longrightarrow>
     fst (DestroyVM env pool vmID cmds) = None"
  by (auto simp: DestroyVM_def Execute_def Let_def split: prod.split option.split)

lemma usage_of_others: "usage_line ''tank'' ''4'' ''tank/vms/user-42-web 1K 2K'' = Some (1024, 2048)"
  by code_simp

end
