(* ===== verification/Auth_Tokens.thy ===== *)
theory Auth_Tokens
  imports Ussy_Prelude Go_Base64
begin

section \<open>Signed tokens\<close>

text \<open>
  \<^verbatim>\<open>internal/auth/token.go\<close> and \<^verbatim>\<open>middleware.go\<close>: tokens
  \<^verbatim>\<open>base64url(JSON).base64url(signature)\<close> signed with SSH keys. JSON, the SSH signatures and their
  wire format are parameters; \<open>'k\<close> are public keys and \<open>'s\<close> signatures. Of a wrapped error the text of
  the base64 and JSON packages is left out.
\<close>

record TokenPayload =
  tp_Subject :: string
  tp_IssuedAt :: int
  tp_ExpiresAt :: int
  tp_NotBefore :: int
  tp_Perms :: "string list"
  tp_Nonce :: string

record ('k, 's) token_env =
  te_json :: "TokenPayload \<Rightarrow> string"
  te_parse :: "string \<Rightarrow> TokenPayload option"
  te_Marshal :: "'s \<Rightarrow> string"
  te_Unmarshal :: "string \<Rightarrow> 's option"
  te_Verify :: "'k \<Rightarrow> string \<Rightarrow> 's \<Rightarrow> bool"

definition signed_payload :: "nanos \<Rightarrow> string \<Rightarrow> string \<Rightarrow> nanos \<Rightarrow> string list \<Rightarrow> TokenPayload" where
  "signed_payload now nonce subject ttl perms =
     \<lparr>tp_Subject = subject, tp_IssuedAt = unix now, tp_ExpiresAt = unix (now + ttl), tp_NotBefore = unix now,
      tp_Perms = perms, tp_Nonce = RawURL_encode nonce\<rparr>"

text \<open>\<open>random\<close> is the outcome of reading 16 random bytes, \<open>sign\<close> the signer.\<close>

definition SignToken ::
  "('k, 's) token_env \<Rightarrow> nanos \<Rightarrow> string + string \<Rightarrow> (string \<Rightarrow> string + 's) \<Rightarrow> string \<Rightarrow> nanos \<Rightarrow> string list \<Rightarrow>
   string + string" where
  "SignToken env now random sign subject ttl perms =
     (case random of
        Inl e \<Rightarrow> Inl (''generate nonce: '' @ e)
      | Inr nonce \<Rightarrow>
        let payloadJSON = te_json env (signed_payload now nonce subject ttl perms) in
        case sign payloadJSON of
          Inl e \<Rightarrow> Inl (''sign token: '' @ e)
        | Inr sig \<Rightarrow> Inr (RawURL_encode payloadJSON @ ''.'' @ RawURL_encode (te_Marshal env sig)))"

definition VerifyToken :: "('k, 's) token_env \<Rightarrow> nanos \<Rightarrow> string \<Rightarrow> 'k list \<Rightarrow> string + TokenPayload" where
  "VerifyToken env now token trustedKeys =
     (let parts = SplitN2 token CHR ''.'' in
      if length parts \<noteq> 2 then Inl ''invalid token format: expected payload.signature''
      else case RawURL_decode (parts ! 0) of
        None \<Rightarrow> Inl ''decode payload''
      | Some payloadJSON \<Rightarrow>
        (case RawURL_decode (parts ! 1) of
           None \<Rightarrow> Inl ''decode signature''
         | Some sigBytes \<Rightarrow>
           (case te_Unmarshal env sigBytes of
              None \<Rightarrow> Inl ''unmarshal signature''
            | Some sig \<Rightarrow>
              if \<not> list_ex (\<lambda>key. te_Verify env key payloadJSON sig) trustedKeys
              then Inl ''signature verification failed: no matching key''
              else case te_parse env payloadJSON of
                None \<Rightarrow> Inl ''unmarshal payload''
              | Some payload \<Rightarrow>
                if unix now < tp_NotBefore payload then
                  Inl (''token not yet valid (nbf: '' @ dec (tp_NotBefore payload) @ '', now: '' @ dec (unix now) @ '')'')
                else if unix now > tp_ExpiresAt payload then
                  Inl (''token expired (exp: '' @ dec (tp_ExpiresAt payload) @ '', now: '' @ dec (unix now) @ '')'')
                else Inr payload)))"

definition GenerateHandle :: "string + string \<Rightarrow> string + string" where
  "GenerateHandle random = (case random of Inl e \<Rightarrow> Inl e | Inr b \<Rightarrow> Inr (RawURL_encode b))"

definition FingerprintKey :: "('k \<Rightarrow> string) \<Rightarrow> 'k \<Rightarrow> string" where
  "FingerprintKey FingerprintSHA256 key = FingerprintSHA256 key"

definition ParsePublicKey :: "(string \<Rightarrow> string + 'k \<times> string) \<Rightarrow> string \<Rightarrow> string + 'k \<times> string" where
  "ParsePublicKey ParseAuthorizedKey authorizedKey =
     (case ParseAuthorizedKey authorizedKey of
        Inl e \<Rightarrow> Inl (''parse public key: '' @ e) | Inr key \<Rightarrow> Inr key)"

subsection \<open>The middleware\<close>

text \<open>Either a refusal, message and status, or the payload the next handler finds in the context.\<close>

datatype auth_outcome = Refused string int | Passed TokenPayload

definition Middleware ::
  "('k, 's) token_env \<Rightarrow> (string \<Rightarrow> string + 'k list) \<Rightarrow> nanos \<Rightarrow> string \<Rightarrow> auth_outcome" where
  "Middleware env resolve now authorization =
     (if authorization = '''' then Refused ''missing authorization header'' 401
      else if \<not> HasPrefix authorization ''Bearer '' then Refused ''invalid authorization scheme'' 401
      else
        let token = TrimPrefix authorization ''Bearer ''; parts = SplitN2 token CHR ''.'' in
        if length parts \<noteq> 2 then Refused ''invalid token format'' 401
        else case RawURL_decode (parts ! 0) of
          None \<Rightarrow> Refused ''invalid token payload'' 401
        | Some payloadJSON \<Rightarrow>
          (case te_parse env payloadJSON of
             None \<Rightarrow> Refused ''invalid token payload'' 401
           | Some peek \<Rightarrow>
             (case resolve (tp_Subject peek) of
                Inl _ \<Rightarrow> Refused ''failed to resolve keys'' 500
              | Inr keys \<Rightarrow>
                (case VerifyToken env now token keys of
                   Inl e \<Rightarrow> Refused (''invalid token: '' @ e) 401
                 | Inr payload \<Rightarrow> Passed payload))))"

definition PayloadFromContext :: "auth_outcome \<Rightarrow> TokenPayload option" where
  "PayloadFromContext r = (case r of Refused _ _ \<Rightarrow> None | Passed p \<Rightarrow> Some p)"

subsection \<open>Properties\<close>

lemma VerifyToken_Inr:
  assumes "VerifyToken env now token keys = Inr p"
  obtains a b msg sig key where "token = a @ CHR ''.'' # b" "SplitN2 token CHR ''.'' = [a, b]" "RawURL_decode a = Some msg"
    "te_parse env msg = Some p" "key \<in> set keys" "te_Verify env key msg sig"
    "tp_NotBefore p \<le> unix now" "unix now \<le> tp_ExpiresAt p"
proof -
  have 2: "length (SplitN2 token CHR ''.'') = 2" using assms by (auto simp: VerifyToken_def Let_def split: if_splits)
  then obtain a b where ab: "SplitN2 token CHR ''.'' = [a, b]" by (auto simp: numeral_2_eq_2 length_Suc_conv)
  moreover have "CHR ''.'' \<in> set token" using 2 by (simp add: length_SplitN2 split: if_splits)
  then have "token = a @ CHR ''.'' # b" using SplitN2_join [of "CHR ''.''" token] ab by simp
  ultimately show ?thesis using assms that
    by (auto simp: VerifyToken_def Let_def list_ex_iff not_less split: if_splits option.splits)
qed

text \<open>C34. Tokens round-trip: if the signer's key is trusted, and JSON and signatures read back what was
written, a signed token verifies from the second it was made until the second its lifetime ends, with the
subject and the permissions it was made for.\<close>

theorem token_roundtrip:
  assumes "SignToken env now (Inr nonce) sign subject ttl perms = Inr token"
    "te_parse env (te_json env (signed_payload now nonce subject ttl perms)) = Some (signed_payload now nonce subject ttl perms)"
    "\<And>m s. sign m = Inr s \<Longrightarrow> te_Verify env key m s \<and> te_Unmarshal env (te_Marshal env s) = Some s" "key \<in> set keys"
    "unix now \<le> unix now'" "unix now' \<le> unix (now + ttl)"
  shows "\<exists>p. VerifyToken env now' token keys = Inr p \<and> tp_Subject p = subject \<and> tp_Perms p = perms"
proof -
  let ?p = "signed_payload now nonce subject ttl perms"
  from assms(1) obtain sig where sig: "sign (te_json env ?p) = Inr sig"
    and token: "token = RawURL_encode (te_json env ?p) @ ''.'' @ RawURL_encode (te_Marshal env sig)"
    by (auto simp: SignToken_def Let_def split: sum.splits)
  have parts: "SplitN2 token CHR ''.'' = [RawURL_encode (te_json env ?p), RawURL_encode (te_Marshal env sig)]"
    unfolding token using SplitN2_append [OF RawURL_no_dot] by simp
  have "list_ex (\<lambda>k. te_Verify env k (te_json env ?p) sig) keys"
    using assms(3) [OF sig] assms(4) by (auto simp: list_ex_iff)
  moreover have "tp_NotBefore ?p = unix now" "tp_ExpiresAt ?p = unix (now + ttl)" by (simp_all add: signed_payload_def)
  ultimately have "VerifyToken env now' token keys = Inr ?p"
    using assms(3) [OF sig] assms(5,6) by (simp add: VerifyToken_def parts RawURL_decode_encode assms(2))
  then show ?thesis by (simp add: signed_payload_def)
qed

text \<open>An environment for the witnesses: one payload, a message is its own signature.\<close>

definition toy_tokens :: "(nat, string) token_env" where
  "toy_tokens =
     \<lparr>te_json = (\<lambda>_. ''{}''), te_parse = (\<lambda>_. Some (signed_payload 0 ''n'' ''ada'' hour [''exec''])), te_Marshal = (\<lambda>s. s),
      te_Unmarshal = Some, te_Verify = (\<lambda>k m s. k = 7 \<and> m = s)\<rparr>"

definition toy_signed_token :: string where
  "toy_signed_token = RawURL_encode ''{}'' @ ''.'' @ RawURL_encode ''{}''"

lemma toy_signed: "SignToken toy_tokens 0 (Inr ''n'') Inr ''ada'' hour [''exec''] = Inr toy_signed_token"
  by (simp add: SignToken_def toy_tokens_def toy_signed_token_def Let_def)

theorem token_roundtrip_witness:
  "\<exists>p. VerifyToken toy_tokens minute toy_signed_token [7] = Inr p \<and> tp_Subject p = ''ada'' \<and> tp_Perms p = [''exec'']"
  by (rule token_roundtrip [OF toy_signed, of 7]) (simp_all add: toy_tokens_def unix_def go_time)



end
