(* ===== verification/Server_Config.thy ===== *)
theory Server_Config
  imports Go_Flag Go_Files
begin

section \<open>Configuration\<close>

text \<open>
  \<^verbatim>\<open>internal/config/config.go\<close>: every setting has a default, an environment variable and a flag of
  the command line. \<open>env\<close> is \<^verbatim>\<open>os.Getenv\<close>, empty for a variable that is not set.
\<close>

record server_config =
  cf_Domain :: string
  cf_SSHListenAddr :: string
  cf_SSHHostKeyPath :: string
  cf_HTTPListenAddr :: string
  cf_DataDir :: string
  cf_DBPath :: string
  cf_CaddyAdminAddr :: string
  cf_MetadataAddr :: string
  cf_AuthProxyAddr :: string
  cf_AuthProxyURL :: string
  cf_VMM :: string
  cf_KernelPath :: string
  cf_DefaultImage :: string
  cf_StorageBackend :: string
  cf_StoragePool :: string
  cf_NetworkBridge :: string
  cf_NetworkSubnet :: string
  cf_MaxVMsPerUser :: int
  cf_DefaultCPU :: int
  cf_DefaultMemoryMB :: int
  cf_DefaultDiskGB :: int
  cf_TLSEmail :: string
  cf_DNSProvider :: string
  cf_DNSAPIToken :: string
  cf_Debug :: bool
  cf_FirecrackerBin :: string
  cf_AdminListenAddr :: string
  cf_LLMEncryptSecret :: string
  cf_SMTPListenAddr :: string
  cf_SMTPRelay :: string
  cf_SMTPFromAddress :: string
  cf_RoutussyURL :: string
  cf_RoutussyInternalKey :: string

definition envOrDefault :: "(string \<Rightarrow> string) \<Rightarrow> string \<Rightarrow> string \<Rightarrow> string" where
  "envOrDefault env key defaultVal = (if env key \<noteq> '''' then env key else defaultVal)"

definition envOrDefaultInt :: "(string \<Rightarrow> string) \<Rightarrow> string \<Rightarrow> int \<Rightarrow> int" where
  "envOrDefaultInt env key defaultVal =
     (if env key \<noteq> '''' then (case Atoi (env key) of Some n \<Rightarrow> n | None \<Rightarrow> defaultVal) else defaultVal)"

definition DefaultConfig :: "(string \<Rightarrow> string) \<Rightarrow> server_config" where
  "DefaultConfig env =
     (let dataDir = envOrDefault env ''USSYCODE_DATA_DIR'' ''/var/lib/ussycode'' in
      \<lparr>cf_Domain = envOrDefault env ''USSYCODE_DOMAIN'' ''ussy.host'',
       cf_SSHListenAddr = envOrDefault env ''USSYCODE_SSH_ADDR'' '':2222'',
       cf_SSHHostKeyPath = envOrDefault env ''USSYCODE_SSH_HOST_KEY'' (Join [dataDir, ''ssh_host_ed25519_key'']),
       cf_HTTPListenAddr = envOrDefault env ''USSYCODE_HTTP_ADDR'' '':8080'',
       cf_DataDir = dataDir,
       cf_DBPath = envOrDefault env ''USSYCODE_DB_PATH'' (Join [dataDir, ''ussycode.db'']),
       cf_CaddyAdminAddr = envOrDefault env ''USSYCODE_CADDY_ADMIN'' ''http://localhost:2019'',
       cf_MetadataAddr = envOrDefault env ''USSYCODE_METADATA_ADDR'' '':8083'',
       cf_AuthProxyAddr = envOrDefault env ''USSYCODE_AUTH_PROXY_ADDR'' '':9876'',
       cf_AuthProxyURL = envOrDefault env ''USSYCODE_AUTH_PROXY_URL'' ''http://localhost:9876'',
       cf_VMM = envOrDefault env ''USSYCODE_VMM'' ''firecracker'',
       cf_KernelPath = envOrDefault env ''USSYCODE_KERNEL'' (Join [dataDir, ''vmlinux'']),
       cf_DefaultImage = envOrDefault env ''USSYCODE_DEFAULT_IMAGE'' ''ussyuntu'',
       cf_StorageBackend = envOrDefault env ''USSYCODE_STORAGE'' ''lvm'',
       cf_StoragePool = envOrDefault env ''USSYCODE_STORAGE_POOL'' ''ussycode'',
       cf_NetworkBridge = envOrDefault env ''USSYCODE_BRIDGE'' ''ussy0'',
       cf_NetworkSubnet = envOrDefault env ''USSYCODE_SUBNET'' ''10.0.0.0/24'',
       cf_MaxVMsPerUser = envOrDefaultInt env ''USSYCODE_MAX_VMS'' 5,
       cf_DefaultCPU = envOrDefaultInt env ''USSYCODE_DEFAULT_CPU'' 1,
       cf_DefaultMemoryMB = envOrDefaultInt env ''USSYCODE_DEFAULT_MEM'' 512,
       cf_DefaultDiskGB = envOrDefaultInt env ''USSYCODE_DEFAULT_DISK'' 5,
       cf_TLSEmail = envOrDefault env ''USSYCODE_TLS_EMAIL'' '''',
       cf_DNSProvider = envOrDefault env ''USSYCODE_DNS_PROVIDER'' ''cloudflare'',
       cf_DNSAPIToken = envOrDefault env ''USSYCODE_DNS_API_TOKEN'' '''',
       cf_Debug = (envOrDefault env ''USSYCODE_DEBUG'' [] \<noteq> ''''),
       cf_FirecrackerBin = envOrDefault env ''USSYCODE_FIRECRACKER_BIN'' ''firecracker'',
       cf_AdminListenAddr = envOrDefault env ''USSYCODE_ADMIN_ADDR'' '':9090'',
       cf_LLMEncryptSecret = envOrDefault env ''USSYCODE_LLM_ENCRYPT_SECRET'' '''',
       cf_SMTPListenAddr = envOrDefault env ''USSYCODE_SMTP_ADDR'' '':2525'',
       cf_SMTPRelay = envOrDefault env ''USSYCODE_SMTP_RELAY'' ''localhost:25'',
       cf_SMTPFromAddress = envOrDefault env ''USSYCODE_SMTP_FROM'' ''noreply@ussy.host'',
       cf_RoutussyURL = envOrDefault env ''USSYCODE_ROUTUSSY_URL'' '''',
       cf_RoutussyInternalKey = envOrDefault env ''USSYCODE_ROUTUSSY_INTERNAL_KEY'' ''''\<rparr>)"

definition RegisterFlags :: "server_config flags" where
  "RegisterFlags =
     [(''domain'', StringVar cf_Domain (\<lambda>x c. c\<lparr>cf_Domain := x\<rparr>)),
      (''addr'', StringVar cf_SSHListenAddr (\<lambda>x c. c\<lparr>cf_SSHListenAddr := x\<rparr>)),
      (''host-key'', StringVar cf_SSHHostKeyPath (\<lambda>x c. c\<lparr>cf_SSHHostKeyPath := x\<rparr>)),
      (''http-addr'', StringVar cf_HTTPListenAddr (\<lambda>x c. c\<lparr>cf_HTTPListenAddr := x\<rparr>)),
      (''data-dir'', StringVar cf_DataDir (\<lambda>x c. c\<lparr>cf_DataDir := x\<rparr>)),
      (''db'', StringVar cf_DBPath (\<lambda>x c. c\<lparr>cf_DBPath := x\<rparr>)),
      (''caddy-api'', StringVar cf_CaddyAdminAddr (\<lambda>x c. c\<lparr>cf_CaddyAdminAddr := x\<rparr>)),
      (''metadata-addr'', StringVar cf_MetadataAddr (\<lambda>x c. c\<lparr>cf_MetadataAddr := x\<rparr>)),
      (''auth-proxy-addr'', StringVar cf_AuthProxyAddr (\<lambda>x c. c\<lparr>cf_AuthProxyAddr := x\<rparr>)),
      (''auth-proxy-url'', StringVar cf_AuthProxyURL (\<lambda>x c. c\<lparr>cf_AuthProxyURL := x\<rparr>)),
      (''vmm'', StringVar cf_VMM (\<lambda>x c. c\<lparr>cf_VMM := x\<rparr>)),
      (''kernel'', StringVar cf_KernelPath (\<lambda>x c. c\<lparr>cf_KernelPath := x\<rparr>)),
      (''firecracker'', StringVar cf_FirecrackerBin (\<lambda>x c. c\<lparr>cf_FirecrackerBin := x\<rparr>)),
      (''default-image'', StringVar cf_DefaultImage (\<lambda>x c. c\<lparr>cf_DefaultImage := x\<rparr>)),
      (''storage'', StringVar cf_StorageBackend (\<lambda>x c. c\<lparr>cf_StorageBackend := x\<rparr>)),
      (''storage-pool'', StringVar cf_StoragePool (\<lambda>x c. c\<lparr>cf_StoragePool := x\<rparr>)),
      (''bridge'', StringVar cf_NetworkBridge (\<lambda>x c. c\<lparr>cf_NetworkBridge := x\<rparr>)),
      (''subnet'', StringVar cf_NetworkSubnet (\<lambda>x c. c\<lparr>cf_NetworkSubnet := x\<rparr>)),
      (''max-vms'', IntVar cf_MaxVMsPerUser (\<lambda>x c. c\<lparr>cf_MaxVMsPerUser := x\<rparr>)),
      (''default-cpu'', IntVar cf_DefaultCPU (\<lambda>x c. c\<lparr>cf_DefaultCPU := x\<rparr>)),
      (''default-mem'', IntVar cf_DefaultMemoryMB (\<lambda>x c. c\<lparr>cf_DefaultMemoryMB := x\<rparr>)),
      (''default-disk'', IntVar cf_DefaultDiskGB (\<lambda>x c. c\<lparr>cf_DefaultDiskGB := x\<rparr>)),
      (''acme-email'', StringVar cf_TLSEmail (\<lambda>x c. c\<lparr>cf_TLSEmail := x\<rparr>)),
      (''dns-provider'', StringVar cf_DNSProvider (\<lambda>x c. c\<lparr>cf_DNSProvider := x\<rparr>)),
      (''dns-api-token'', StringVar cf_DNSAPIToken (\<lambda>x c. c\<lparr>cf_DNSAPIToken := x\<rparr>)),
      (''debug'', BoolVar cf_Debug (\<lambda>x c. c\<lparr>cf_Debug := x\<rparr>)),
      (''admin-addr'', StringVar cf_AdminListenAddr (\<lambda>x c. c\<lparr>cf_AdminListenAddr := x\<rparr>)),
      (''llm-encrypt-secret'', StringVar cf_LLMEncryptSecret (\<lambda>x c. c\<lparr>cf_LLMEncryptSecret := x\<rparr>)),
      (''smtp-addr'', StringVar cf_SMTPListenAddr (\<lambda>x c. c\<lparr>cf_SMTPListenAddr := x\<rparr>)),
      (''smtp-relay'', StringVar cf_SMTPRelay (\<lambda>x c. c\<lparr>cf_SMTPRelay := x\<rparr>)),
      (''smtp-from'', StringVar cf_SMTPFromAddress (\<lambda>x c. c\<lparr>cf_SMTPFromAddress := x\<rparr>)),
      (''routussy-url'', StringVar cf_RoutussyURL (\<lambda>x c. c\<lparr>cf_RoutussyURL := x\<rparr>)),
      (''routussy-key'', StringVar cf_RoutussyInternalKey (\<lambda>x c. c\<lparr>cf_RoutussyInternalKey := x\<rparr>))]"

definition Validate :: "server_config \<Rightarrow> string option" where
  "Validate c =
     (if cf_Domain c = '''' then Some ''config: domain is required (set USSYCODE_DOMAIN or -domain)''
      else if cf_DataDir c = '''' then Some ''config: data directory is required (set USSYCODE_DATA_DIR or -data-dir)''
      else if cf_SSHListenAddr c = '''' then Some ''config: SSH listen address is required (set USSYCODE_SSH_ADDR or -addr)''
      else if cf_DBPath c = '''' then Some ''config: database path is required (set USSYCODE_DB_PATH or -db)''
      else None)"

subsection \<open>Flags point to different settings\<close>

text \<open>All settings, in the order of the flags.\<close>

definition settings :: "server_config \<Rightarrow> flag_datum list" where
  "settings c =
     [FString (cf_Domain c), FString (cf_SSHListenAddr c), FString (cf_SSHHostKeyPath c),
      FString (cf_HTTPListenAddr c), FString (cf_DataDir c), FString (cf_DBPath c),
      FString (cf_CaddyAdminAddr c), FString (cf_MetadataAddr c), FString (cf_AuthProxyAddr c),
      FString (cf_AuthProxyURL c), FString (cf_VMM c), FString (cf_KernelPath c),
      FString (cf_FirecrackerBin c), FString (cf_DefaultImage c), FString (cf_StorageBackend c),
      FString (cf_StoragePool c), FString (cf_NetworkBridge c), FString (cf_NetworkSubnet c),
      FInt (cf_MaxVMsPerUser c), FInt (cf_DefaultCPU c), FInt (cf_DefaultMemoryMB c),
      FInt (cf_DefaultDiskGB c), FString (cf_TLSEmail c), FString (cf_DNSProvider c),
      FString (cf_DNSAPIToken c), FBool (cf_Debug c), FString (cf_AdminListenAddr c),
      FString (cf_LLMEncryptSecret c), FString (cf_SMTPListenAddr c), FString (cf_SMTPRelay c),
      FString (cf_SMTPFromAddress c), FString (cf_RoutussyURL c), FString (cf_RoutussyInternalKey c)]"

lemma flag_put_cases:
  "flag_put (StringVar g p) y c = (case y of FString s \<Rightarrow> p s c | _ \<Rightarrow> c)"
  "flag_put (IntVar h q) y c = (case y of FInt n \<Rightarrow> q n c | _ \<Rightarrow> c)"
  "flag_put (BoolVar k r) y c = (case y of FBool b \<Rightarrow> r b c | _ \<Rightarrow> c)"
  by (cases y; simp)+

definition at_setting :: "nat \<Rightarrow> server_config flag_var \<Rightarrow> bool" where
  "at_setting i v \<longleftrightarrow> (\<forall>c. flag_get v c = settings c ! i) \<and>
     (\<forall>y c. settings (flag_put v y c) = settings c \<or> settings (flag_put v y c) = (settings c)[i := y])"

lemma flags_at_settings: "list_all (\<lambda>(i, n, v). at_setting i v) (enumerate 0 RegisterFlags)"
  by (simp add: RegisterFlags_def at_setting_def settings_def flag_put_cases numeral_eq_Suc split: flag_datum.splits)

text \<open>Where a setting comes from: flag, environment variable, default.\<close>

definition config_sources :: "(string \<Rightarrow> string) \<Rightarrow> (string \<times> string \<times> flag_datum) list" where
  "config_sources env =
     (let dataDir = envOrDefault env ''USSYCODE_DATA_DIR'' ''/var/lib/ussycode'' in
      [(''domain'', ''USSYCODE_DOMAIN'', FString ''ussy.host''),
       (''addr'', ''USSYCODE_SSH_ADDR'', FString '':2222''),
       (''host-key'', ''USSYCODE_SSH_HOST_KEY'', FString (Join [dataDir, ''ssh_host_ed25519_key''])),
       (''http-addr'', ''USSYCODE_HTTP_ADDR'', FString '':8080''),
       (''data-dir'', ''USSYCODE_DATA_DIR'', FString ''/var/lib/ussycode''),
       (''db'', ''USSYCODE_DB_PATH'', FString (Join [dataDir, ''ussycode.db''])),
       (''caddy-api'', ''USSYCODE_CADDY_ADMIN'', FString ''http://localhost:2019''),
       (''metadata-addr'', ''USSYCODE_METADATA_ADDR'', FString '':8083''),
       (''auth-proxy-addr'', ''USSYCODE_AUTH_PROXY_ADDR'', FString '':9876''),
       (''auth-proxy-url'', ''USSYCODE_AUTH_PROXY_URL'', FString ''http://localhost:9876''),
       (''vmm'', ''USSYCODE_VMM'', FString ''firecracker''),
       (''kernel'', ''USSYCODE_KERNEL'', FString (Join [dataDir, ''vmlinux''])),
       (''firecracker'', ''USSYCODE_FIRECRACKER_BIN'', FString ''firecracker''),
       (''default-image'', ''USSYCODE_DEFAULT_IMAGE'', FString ''ussyuntu''),
       (''storage'', ''USSYCODE_STORAGE'', FString ''lvm''),
       (''storage-pool'', ''USSYCODE_STORAGE_POOL'', FString ''ussycode''),
       (''bridge'', ''USSYCODE_BRIDGE'', FString ''ussy0''),
       (''subnet'', ''USSYCODE_SUBNET'', FString ''10.0.0.0/24''),
       (''max-vms'', ''USSYCODE_MAX_VMS'', FInt 5),
       (''default-cpu'', ''USSYCODE_DEFAULT_CPU'', FInt 1),
       (''default-mem'', ''USSYCODE_DEFAULT_MEM'', FInt 512),
       (''default-disk'', ''USSYCODE_DEFAULT_DISK'', FInt 5),
       (''acme-email'', ''USSYCODE_TLS_EMAIL'', FString ''''),
       (''dns-provider'', ''USSYCODE_DNS_PROVIDER'', FString ''cloudflare''),
       (''dns-api-token'', ''USSYCODE_DNS_API_TOKEN'', FString ''''),
       (''debug'', ''USSYCODE_DEBUG'', FBool False),
       (''admin-addr'', ''USSYCODE_ADMIN_ADDR'', FString '':9090''),
       (''llm-encrypt-secret'', ''USSYCODE_LLM_ENCRYPT_SECRET'', FString ''''),
       (''smtp-addr'', ''USSYCODE_SMTP_ADDR'', FString '':2525''),
       (''smtp-relay'', ''USSYCODE_SMTP_RELAY'', FString ''localhost:25''),
       (''smtp-from'', ''USSYCODE_SMTP_FROM'', FString ''noreply@ussy.host''),
       (''routussy-url'', ''USSYCODE_ROUTUSSY_URL'', FString ''''),
       (''routussy-key'', ''USSYCODE_ROUTUSSY_INTERNAL_KEY'', FString '''')])"

lemma flags_read_back: "list_all (\<lambda>(n, v). reads_back v) RegisterFlags"
  by (simp add: RegisterFlags_def reads_back_def)

lemma flag_names: "distinct (map fst RegisterFlags)" "length RegisterFlags = 33" "length (settings c) = 33"
  by (simp_all add: RegisterFlags_def settings_def)

lemma flag_position:
  assumes "map_of RegisterFlags n = Some v"
  obtains i where "i < 33" "RegisterFlags ! i = (n, v)" "at_setting i v" "reads_back v"
proof -
  obtain i where i: "i < 33" "RegisterFlags ! i = (n, v)"
    using map_of_SomeD [OF assms] by (auto simp: in_set_conv_nth flag_names)
  then have "(i, n, v) \<in> set (enumerate 0 RegisterFlags)"
    by (auto simp: in_set_conv_nth nth_enumerate_eq flag_names intro!: exI [of _ i])
  then have "at_setting i v" using flags_at_settings by (auto simp: list_all_iff)
  moreover have "reads_back v" using map_of_SomeD [OF assms] flags_read_back by (auto simp: list_all_iff)
  ultimately show ?thesis using that i by blast
qed

interpretation config_flags: flag_table RegisterFlags
proof
  fix n v x y c
  assume "map_of RegisterFlags n = Some v" "flag_read v x = Inr y"
  then show "flag_get v (flag_put v y c) = y" by (auto elim: flag_position intro: reads_back_put)
next
  fix n m v w y and c :: server_config
  assume v: "map_of RegisterFlags n = Some v" and w: "map_of RegisterFlags m = Some w" and "n \<noteq> m"
  obtain i where i: "i < 33" "RegisterFlags ! i = (n, v)" "at_setting i v" by (rule flag_position [OF v])
  obtain j where j: "j < 33" "RegisterFlags ! j = (m, w)" "at_setting j w" by (rule flag_position [OF w])
  have "i \<noteq> j" using i(2) j(2) \<open>n \<noteq> m\<close> by auto
  then have "settings (flag_put w y c) ! i = settings c ! i"
    using j(3) by (metis at_setting_def nth_list_update_neq)
  then show "flag_get v (flag_put w y c) = flag_get v c" using i(3) by (simp add: at_setting_def)
qed

definition env_value :: "server_config flag_var \<Rightarrow> string \<Rightarrow> flag_datum \<Rightarrow> flag_datum" where
  "env_value v s d =
     (case v of
        StringVar _ _ \<Rightarrow> if s \<noteq> '''' then FString s else d
      | IntVar _ _ \<Rightarrow> (if s = '''' then d else case Atoi s of None \<Rightarrow> d | Some n \<Rightarrow> FInt n)
      | BoolVar _ _ \<Rightarrow> if s \<noteq> '''' then FBool True else d)"

lemma env_value_folds:
  "env_value (StringVar g p) (env k) (FString x) = FString (envOrDefault env k x)"
  "env_value (IntVar h q) (env k) (FInt n) = FInt (envOrDefaultInt env k n)"
  "env_value (BoolVar j r) (env k) (FBool False) = FBool (envOrDefault env k [] \<noteq> [])"
  by (simp_all add: env_value_def envOrDefault_def envOrDefaultInt_def split: option.splits)

lemma default_settings:
  "list_all2 (\<lambda>(n, v) (m, e, d). n = m \<and> flag_get v (DefaultConfig env) = env_value v (env e) d) RegisterFlags (config_sources env)"
  by (simp add: RegisterFlags_def config_sources_def Let_def DefaultConfig_def env_value_folds)

text \<open>C32. Precedence of the configuration: every setting is the last flag given for it, else the value
of its environment variable (a number only if it is one), else its default.\<close>

theorem config_precedence:
  assumes "flag_Parse RegisterFlags args (DefaultConfig env) = Inr (cfg, rest)"
    "(n, e, d) \<in> set (config_sources env)" "map_of RegisterFlags n = Some v"
  shows "case map_of (rev (flag_settings RegisterFlags args)) n of
           Some x \<Rightarrow> flag_read v x = Inr (flag_get v cfg)
         | None \<Rightarrow> flag_get v cfg = env_value v (env e) d"
proof -
  obtain i where i: "i < 33" "config_sources env ! i = (n, e, d)"
    using assms(2) list_all2_lengthD [OF default_settings [of env]] by (auto simp: in_set_conv_nth flag_names)
  then have "fst (RegisterFlags ! i) = n \<and> flag_get (snd (RegisterFlags ! i)) (DefaultConfig env) = env_value (snd (RegisterFlags ! i)) (env e) d"
    using list_all2_nthD [OF default_settings [of env], of i] by (auto simp: flag_names split: prod.splits)
  moreover have "map_of RegisterFlags (fst (RegisterFlags ! i)) = Some (snd (RegisterFlags ! i))"
    using i by (intro map_of_is_SomeI) (simp_all add: flag_names)
  ultimately have "flag_get v (DefaultConfig env) = env_value v (env e) d" using assms(3) by auto
  then show ?thesis using config_flags.last_setting [OF assms(1,3)] by (auto split: option.splits)
qed

definition sample_getenv :: "string \<Rightarrow> string" where
  "sample_getenv k = (if k = ''USSYCODE_DATA_DIR'' then ''/srv'' else if k = ''USSYCODE_MAX_VMS'' then ''many'' else [])"

abbreviation db_flag :: "server_config flag_var" where
  "db_flag \<equiv> StringVar cf_DBPath (\<lambda>x c. c\<lparr>cf_DBPath := x\<rparr>)"

lemma sample_line:
  "parse_one RegisterFlags [''--data-dir=/tmp'', ''-debug'', ''-domain'', ''a.b''] =
     SetFlag ''data-dir'' (StringVar cf_DataDir (\<lambda>x c. c\<lparr>cf_DataDir := x\<rparr>)) ''/tmp'' [''-debug'', ''-domain'', ''a.b'']"
  "parse_one RegisterFlags [''-debug'', ''-domain'', ''a.b''] =
     SetFlag ''debug'' (BoolVar cf_Debug (\<lambda>x c. c\<lparr>cf_Debug := x\<rparr>)) ''true'' [''-domain'', ''a.b'']"
  "parse_one RegisterFlags [''-domain'', ''a.b''] = SetFlag ''domain'' (StringVar cf_Domain (\<lambda>x c. c\<lparr>cf_Domain := x\<rparr>)) ''a.b'' []"
  "parse_one RegisterFlags [] = NoMore []"
  by (simp_all add: parse_one_def flag_arg_def cut_equals_def RegisterFlags_def is_bool_flag_def Let_def)

lemma sample_settings:
  "flag_settings RegisterFlags [''--data-dir=/tmp'', ''-debug'', ''-domain'', ''a.b''] =
     [(''data-dir'', ''/tmp''), (''debug'', ''true''), (''domain'', ''a.b'')]"
  by (simp add: flag_settings.simps [of _ "_ # _"] flag_settings.simps [of _ "[]"] sample_line)

lemma sample_parse:
  "flag_Parse RegisterFlags [''--data-dir=/tmp'', ''-debug'', ''-domain'', ''a.b''] c =
     Inr (c\<lparr>cf_DataDir := ''/tmp'', cf_Debug := True, cf_Domain := ''a.b''\<rparr>, [])"
  by (simp add: flag_Parse.simps [of _ "_ # _"] flag_Parse.simps [of _ "[]"] sample_line ParseBool_def)

lemma sample_sources:
  "(''db'', ''USSYCODE_DB_PATH'', FString (Join [''/srv'', ''ussycode.db''])) \<in> set (config_sources sample_getenv)"
  "map_of RegisterFlags ''db'' = Some db_flag" "env_value db_flag [] x = x"
  by (simp_all add: config_sources_def RegisterFlags_def Let_def sample_getenv_def env_value_def envOrDefault_def)

text \<open>A data directory given as a flag leaves the paths below the one of the environment.\<close>

theorem config_precedence_witness:
  "\<exists>cfg. flag_Parse RegisterFlags [''--data-dir=/tmp'', ''-debug'', ''-domain'', ''a.b''] (DefaultConfig sample_getenv) = Inr (cfg, []) \<and>
     flag_get db_flag cfg = FString (Join [''/srv'', ''ussycode.db'']) \<and> cf_DataDir cfg = ''/tmp''"
proof -
  have "sample_getenv ''USSYCODE_DB_PATH'' = []" by (simp add: sample_getenv_def)
  then show ?thesis
    using config_precedence [OF sample_parse sample_sources(1,2)] by (auto simp: sample_parse sample_settings sample_sources(3) simp del: flag_get.simps)
qed

text \<open>What \<^verbatim>\<open>Validate\<close> accepts.\<close>

lemma Validate_None:
  "Validate c = None \<longleftrightarrow> cf_Domain c \<noteq> '''' \<and> cf_DataDir c \<noteq> '''' \<and> cf_SSHListenAddr c \<noteq> '''' \<and> cf_DBPath c \<noteq> ''''"
  by (simp add: Validate_def)

end
