(* ===== verification/Go_Format.thy ===== *)
theory Go_Format
  imports Ussy_Prelude
begin

section \<open>Package fmt, and dates as text\<close>

text \<open>
  What the commands of the SSH gateway print with: padded columns of \<^verbatim>\<open>fmt.Sprintf\<close>, terminal
  colours, and the layouts of \<^verbatim>\<open>time.Time.Format\<close> the sources use. A time is a number of
  seconds; the dates are those of the proleptic Gregorian calendar in UTC, which is the location of every
  time read from the database. Characters outside ASCII are their UTF-8 bytes.
\<close>

text \<open>\<^verbatim>\<open>fmt\<close> pads to a number of characters, not of bytes.\<close>

definition rune_count :: "string \<Rightarrow> nat" where
  "rune_count s = length (filter (\<lambda>c. \<not> (128 \<le> (of_char c :: nat) \<and> (of_char c :: nat) < 192)) s)"

text \<open>\<^verbatim>\<open>%-Ns\<close> and \<^verbatim>\<open>%Ns\<close>, the latter also for \<^verbatim>\<open>%Nd\<close>.\<close>

definition pad_right :: "nat \<Rightarrow> string \<Rightarrow> string" where
  "pad_right n s = s @ replicate (n - rune_count s) CHR '' ''"

definition pad_left :: "nat \<Rightarrow> string \<Rightarrow> string" where
  "pad_left n s = replicate (n - rune_count s) CHR '' '' @ s"

text \<open>\<^verbatim>\<open>"\033[" + code + "m" + text + "\033[0m"\<close>.\<close>

definition esc :: "string \<Rightarrow> string" where
  "esc code = CHR 0x1B # CHR ''['' # code @ ''m''"

definition colored :: "string \<Rightarrow> string \<Rightarrow> string" where
  "colored code s = esc code @ s @ esc ''0''"

text \<open>The characters U+2500 and U+2713, repeated.\<close>

definition box_line :: "nat \<Rightarrow> string" where
  "box_line n = concat (replicate n [CHR 0xE2, CHR 0x94, CHR 0x80])"

definition check_mark :: string where "check_mark = [CHR 0xE2, CHR 0x9C, CHR 0x93]"

text \<open>\<^verbatim>\<open>%02d\<close> and \<^verbatim>\<open>%04d\<close>.\<close>

definition zero_pad :: "nat \<Rightarrow> nat \<Rightarrow> string" where
  "zero_pad n k = (let s = dec_nat k in replicate (n - length s) CHR ''0'' @ s)"

subsection \<open>Dates\<close>

text \<open>Year, month and day of a number of days since 1970-01-01. Years start in March, so that the
leap day is the last of its year; 146097 days are 400 years.\<close>

definition civil_date :: "int \<Rightarrow> int \<times> nat \<times> nat" where
  "civil_date days =
     (let z = days + 719468; era = z div 146097; doe = z mod 146097;
          yoe = (doe - doe div 1460 + doe div 36524 - doe div 146096) div 365;
          doy = doe - (365 * yoe + yoe div 4 - yoe div 100);
          mp = (5 * doy + 2) div 153;
          m = (if mp < 10 then mp + 3 else mp - 9);
          y = yoe + era * 400 + (if m \<le> 2 then 1 else 0)
      in (y, nat m, nat (doy - (153 * mp + 2) div 5 + 1)))"

definition month_name :: "nat \<Rightarrow> string" where
  "month_name m =
     [''Jan'', ''Feb'', ''Mar'', ''Apr'', ''May'', ''Jun'', ''Jul'', ''Aug'', ''Sep'', ''Oct'', ''Nov'', ''Dec''] ! (m - 1)"

text \<open>The layouts \<^verbatim>\<open>"Jan 2"\<close>, \<^verbatim>\<open>"Jan 2, 2006"\<close>, \<^verbatim>\<open>"2006-01-02"\<close>
and \<^verbatim>\<open>time.RFC3339\<close>.\<close>

definition format_month_day :: "int \<Rightarrow> string" where
  "format_month_day t = (case civil_date (t div 86400) of (y, m, d) \<Rightarrow> month_name m @ '' '' @ dec_nat d)"

definition format_long_date :: "int \<Rightarrow> string" where
  "format_long_date t =
     (case civil_date (t div 86400) of (y, m, d) \<Rightarrow> month_name m @ '' '' @ dec_nat d @ '', '' @ zero_pad 4 (nat y))"

definition format_date :: "int \<Rightarrow> string" where
  "format_date t =
     (case civil_date (t div 86400) of (y, m, d) \<Rightarrow> zero_pad 4 (nat y) @ ''-'' @ zero_pad 2 m @ ''-'' @ zero_pad 2 d)"

definition format_RFC3339 :: "int \<Rightarrow> string" where
  "format_RFC3339 t =
     (let s = nat (t mod 86400) in
      format_date t @ ''T'' @ zero_pad 2 (s div 3600) @ '':'' @ zero_pad 2 (s div 60 mod 60) @ '':'' @
      zero_pad 2 (s mod 60) @ ''Z'')"

end
