(* ===== verification/Shell_Core.thy ===== *)
theory Shell_Core
  imports Go_Scan Metadata_Service Vm_Manager Caddy_Routes Go_Base64 Go_Format
begin

section \<open>The shell of the SSH gateway: its state and its helpers\<close>

text \<open>
  \<^verbatim>\<open>internal/ssh/shell.go\<close> (the \<^verbatim>\<open>Shell\<close> and the helpers of its commands), the
  \<^verbatim>\<open>Gateway\<close> and its Routussy client in \<^verbatim>\<open>internal/ssh/gateway.go\<close>, and the helpers of
  \<^verbatim>\<open>internal/ssh/commands.go\<close>. A command works on the \<open>world\<close>: the VM manager with the
  database, the metadata service, the proxy manager, the lines the user will type and the output so
  far. What the gateway is configured with is fixed. The parameters (\<open>outside\<close>) are the random
  numbers, the x/crypto/ssh key parser, DNS, HTTP requests to Routussy, the \<^verbatim>\<open>ssh\<close> program and the
  template files. A command reads the clock once. Log lines are left out; JSON output is the value encoded.
\<close>

subsection \<open>State\<close>

datatype shell_error =
    Msg string
  | DbErr string db_error   \<comment> \<open>\<^verbatim>\<open>fmt.Errorf("prefix: %w", err)\<close>\<close>

datatype outcome = Done | Failed shell_error | Panicked string

datatype shown = Text string | Encoded json

datatype ssh_end = SshNotStarted string | SshExited | SshLost string

record routussyUserResponse =
  ru_UserID :: string
  ru_DiscordID :: string
  ru_BudgetCents :: int
  ru_SpentCents :: int
  ru_SSHPubkey :: string
  ru_APIKeyPrefix :: string

record ArenaScenario =
  as_Name :: string
  as_Description :: string
  as_DurationMinutes :: int
  as_MaxAgents :: int
  as_Ports :: "int list"

record outside =
  ot_caddy :: caddy_env
  ot_random :: "nat \<Rightarrow> nat"                                \<comment> \<open>\<^verbatim>\<open>math/rand\<close>, draw by draw\<close>
  ot_rand_bytes :: "nat \<Rightarrow> nat \<Rightarrow> string + string"           \<comment> \<open>\<^verbatim>\<open>crypto/rand\<close>: draw, byte count\<close>
  ot_ParseAuthorizedKey :: "string \<Rightarrow> string + string \<times> string"  \<comment> \<open>fingerprint and comment\<close>
  ot_LookupTXT :: "nanos \<Rightarrow> string \<Rightarrow> string + string list"
  ot_url_ok :: "string \<Rightarrow> bool"
  ot_QueryEscape :: "string \<Rightarrow> string"
  ot_Get :: "nanos \<Rightarrow> string \<Rightarrow> (string \<times> string) list \<Rightarrow> string + int \<times> string"
  ot_user_json :: "string \<Rightarrow> string + routussyUserResponse"
  ot_ssh :: "nanos \<Rightarrow> string list \<Rightarrow> ssh_end"
  ot_ReadFile :: "string \<Rightarrow> string option"
  ot_db_text :: "db_error \<Rightarrow> string"                     \<comment> \<open>the text of an error of the driver\<close>
  ot_Stat :: "string \<Rightarrow> bool"
  ot_scenario_json :: "string \<Rightarrow> string + ArenaScenario"
  ot_ReadDir :: "string \<Rightarrow> (string \<times> bool) list option"    \<comment> \<open>names, and whether a directory\<close>

record gateway =
  gw_outside :: outside
  gw_VM :: "vm_env option"
  gw_LLMGateway :: "llm_gateway option"
  gw_hostKeyPath :: string
  gw_hostPublicKey :: string      \<comment> \<open>\<^verbatim>\<open>MarshalAuthorizedKey(hostSigner.PublicKey())\<close>\<close>
  gw_domain :: string
  gw_RoutussyURL :: string
  gw_RoutussyInternalKey :: string

text \<open>Of the session the commands use the fingerprint in its context; the HTTPS API has no session.\<close>

record Shell =
  sh_gw :: gateway
  sh_session :: "string option"
  sh_user :: user

record world =
  w_host :: vm_host
  w_Metadata :: "md_server option"
  w_Proxy :: "proxy_manager option"
  w_draws :: nat
  w_in :: "string list"
  w_out :: "shown list"

definition w_db :: "world \<Rightarrow> db" where "w_db w = vh_db (w_host w)"

type_synonym command_fun = "Shell \<Rightarrow> nanos \<Rightarrow> string list \<Rightarrow> world \<Rightarrow> outcome \<times> world"

text \<open>\<^verbatim>\<open>s.writef\<close> with its text, \<^verbatim>\<open>s.writeln\<close> and \<^verbatim>\<open>s.writeJSON\<close>.\<close>

definition writef :: "string \<Rightarrow> world \<Rightarrow> world" where
  "writef msg w = w\<lparr>w_out := w_out w @ [Text msg]\<rparr>"

definition writeln :: "string \<Rightarrow> world \<Rightarrow> world" where "writeln msg = writef (msg @ [CHR 0x0A])"

definition writelns :: "string list \<Rightarrow> world \<Rightarrow> world" where "writelns msgs w = fold writeln msgs w"

definition writeJSON :: "json \<Rightarrow> world \<Rightarrow> world" where
  "writeJSON j w = w\<lparr>w_out := w_out w @ [Encoded j, Text [CHR 0x0A]]\<rparr>"

text \<open>\<^verbatim>\<open>s.term.ReadLine()\<close>; at the end of the input the error is \<^verbatim>\<open>io.EOF\<close>.\<close>

definition ReadLine :: "world \<Rightarrow> string option \<times> world" where
  "ReadLine w = (case w_in w of [] \<Rightarrow> (None, w) | l # ls \<Rightarrow> (Some l, w\<lparr>w_in := ls\<rparr>))"

text \<open>A writing query, and an operation of the VM manager.\<close>

definition db_write :: "(db \<Rightarrow> (db_error + 'a) \<times> db) \<Rightarrow> world \<Rightarrow> (db_error + 'a) \<times> world" where
  "db_write f w = (case f (w_db w) of (r, d) \<Rightarrow> (r, w\<lparr>w_host := (w_host w)\<lparr>vh_db := d\<rparr>\<rparr>))"

definition manager :: "(vm_host \<Rightarrow> string option \<times> vm_host) \<Rightarrow> world \<Rightarrow> string option \<times> world" where
  "manager f w = (case f (w_host w) of (e, h) \<Rightarrow> (e, w\<lparr>w_host := h\<rparr>))"

text \<open>\<^verbatim>\<open>mathrand.Intn(n)\<close> and a read of \<^verbatim>\<open>crypto/rand\<close>.\<close>

definition Intn :: "Shell \<Rightarrow> nat \<Rightarrow> world \<Rightarrow> nat \<times> world" where
  "Intn sh n w = (ot_random (gw_outside (sh_gw sh)) (w_draws w) mod n, w\<lparr>w_draws := w_draws w + 1\<rparr>)"

definition rand_read :: "Shell \<Rightarrow> nat \<Rightarrow> world \<Rightarrow> (string + string) \<times> world" where
  "rand_read sh n w =
     (ot_rand_bytes (gw_outside (sh_gw sh)) (w_draws w) n, w\<lparr>w_draws := w_draws w + 1\<rparr>)"

subsection \<open>Helpers of commands.go\<close>

definition hasFlag :: "string list \<Rightarrow> string list \<Rightarrow> bool \<times> string list" where
  "hasFlag args flags = (list_ex (\<lambda>a. a \<in> set flags) args, filter (\<lambda>a. a \<notin> set flags) args)"

definition hasArgFlag :: "string list \<Rightarrow> string \<Rightarrow> bool" where
  "hasArgFlag args flag = list_ex (\<lambda>a. a = flag) args"

text \<open>The regular expression \<^verbatim>\<open>^[a-z][a-z0-9-]{lo-2,hi-2}[a-z0-9]$\<close>.\<close>

definition is_lower :: "char \<Rightarrow> bool" where
  "is_lower c \<longleftrightarrow> 97 \<le> (of_char c :: nat) \<and> (of_char c :: nat) \<le> 122"

definition is_lower_digit :: "char \<Rightarrow> bool" where
  "is_lower_digit c \<longleftrightarrow> is_lower c \<or> 48 \<le> (of_char c :: nat) \<and> (of_char c :: nat) \<le> 57"

definition label_match :: "nat \<Rightarrow> nat \<Rightarrow> string \<Rightarrow> bool" where
  "label_match lo hi s \<longleftrightarrow>
     lo \<le> length s \<and> length s \<le> hi \<and> is_lower (hd s) \<and> is_lower_digit (last s) \<and>
     list_all (\<lambda>c. is_lower_digit c \<or> c = CHR ''-'') s"

definition validName :: "string \<Rightarrow> bool" where "validName s = label_match 3 30 s"

definition invalid_name :: "string \<Rightarrow> shell_error" where
  "invalid_name name =
     Msg (''invalid name '' @ go_quote name @ '': must be 3-30 chars, lowercase letters/numbers/hyphens, start with letter'')"

definition adjectives :: "string list" where
  "adjectives =
     [''swift'', ''bold'', ''calm'', ''dark'', ''eager'', ''fair'', ''glad'', ''keen'', ''live'', ''mild'',
      ''neat'', ''pale'', ''rare'', ''safe'', ''vast'', ''warm'', ''wise'', ''cool'', ''free'', ''pure'']"

definition nouns :: "string list" where
  "nouns =
     [''fox'', ''owl'', ''bee'', ''elk'', ''jay'', ''ant'', ''bat'', ''cat'', ''dog'', ''emu'',
      ''gnu'', ''hen'', ''ape'', ''yak'', ''ram'', ''cod'', ''doe'', ''ewe'', ''kit'', ''pup'']"

definition randomName :: "Shell \<Rightarrow> world \<Rightarrow> string \<times> world" where
  "randomName sh w =
     (let (i, w) = Intn sh (length adjectives) w; (j, w) = Intn sh (length nouns) w
      in (adjectives ! i @ ''-'' @ nouns ! j, w))"

definition generateLinkToken :: "Shell \<Rightarrow> world \<Rightarrow> (string + string) \<times> world" where
  "generateLinkToken sh w =
     (case rand_read sh 18 w of (Inl e, w) \<Rightarrow> (Inl e, w) | (Inr b, w) \<Rightarrow> (Inr (RawURL_encode b), w))"

definition colorStatus :: "string \<Rightarrow> string" where
  "colorStatus status =
     (if status = ''running'' then colored ''32'' status else if status = ''stopped'' then colored ''33'' status
      else if status = ''creating'' then colored ''36'' status else if status = ''error'' then colored ''31'' status
      else status)"

text \<open>Times in the database are seconds and never the zero time here; \<^verbatim>\<open>d\<close> has nanoseconds.\<close>

definition relativeTime :: "nanos \<Rightarrow> int \<Rightarrow> string" where
  "relativeTime now t =
     (let d = now - t * second in
      if d < minute then ''just now''
      else if d < hour then dec (d div minute) @ ''m ago''
      else if d < 24 * hour then dec (d div hour) @ ''h ago''
      else if d < 30 * 24 * hour then dec (d div hour div 24) @ ''d ago''
      else format_month_day t)"

subsection \<open>shell.go\<close>

definition plural :: "int \<Rightarrow> string" where "plural n = (if n = 1 then '''' else ''s'')"

text \<open>The text of an error, as \<^verbatim>\<open>%v\<close> prints it.\<close>

definition err_text :: "Shell \<Rightarrow> shell_error \<Rightarrow> string" where
  "err_text sh e =
     (case e of Msg m \<Rightarrow> m | DbErr what d \<Rightarrow> what @ '': '' @ ot_db_text (gw_outside (sh_gw sh)) d)"

definition or_else :: "'a \<Rightarrow> 'e + 'a \<Rightarrow> 'a" where
  "or_else x r = (case r of Inl _ \<Rightarrow> x | Inr y \<Rightarrow> y)"

definition vmSSHKeys :: "Shell \<Rightarrow> world \<Rightarrow> string list" where
  "vmSSHKeys sh w =
     (let keys = map k_PublicKey (or_else [] (SSHKeysByUser (u_ID (sh_user sh)) (w_db w)));
          hostPubKey = TrimSpace (gw_hostPublicKey (sh_gw sh))
      in keys @ (if hostPubKey \<noteq> '''' then [hostPubKey] else []))"

definition user_url :: "gateway \<Rightarrow> string \<Rightarrow> string" where
  "user_url g fingerprint =
     TrimRight (\<lambda>c. c = CHR ''/'') (gw_RoutussyURL g) @ ''/ussycode/user-by-fingerprint?fingerprint='' @
     ot_QueryEscape (gw_outside g) fingerprint"

definition routussy_headers :: "gateway \<Rightarrow> (string \<times> string) list" where
  "routussy_headers g =
     (if gw_RoutussyInternalKey g \<noteq> '''' then [(''Authorization'', ''Bearer '' @ gw_RoutussyInternalKey g)] else [])"

definition LookupRoutussyUser :: "gateway \<Rightarrow> nanos \<Rightarrow> string \<Rightarrow> string + routussyUserResponse" where
  "LookupRoutussyUser g now fingerprint =
     (let ot = gw_outside g in
      if gw_RoutussyURL g = '''' then Inl ''routussy URL not configured''
      else if \<not> ot_url_ok ot (user_url g fingerprint) then Inl ''create request''
      else case ot_Get ot now (user_url g fingerprint) (routussy_headers g) of
        Inl e \<Rightarrow> Inl (''request failed: '' @ e)
      | Inr (status, body) \<Rightarrow>
        if status \<noteq> 200 then Inl (''status '' @ dec status @ '': '' @ take 512 body)
        else (case ot_user_json ot body of Inl e \<Rightarrow> Inl (''decode response: '' @ e) | Inr u \<Rightarrow> Inr u))"

text \<open>Without a session, \<^verbatim>\<open>s.session.Context()\<close> is a call on a nil interface.\<close>

definition nil_session :: string where
  "nil_session = ''invalid memory address or nil pointer dereference''"

definition buildVMEnvVars :: "Shell \<Rightarrow> nanos \<Rightarrow> string + (string \<times> string) list" where
  "buildVMEnvVars sh now =
     (let g = sh_gw sh in
      if gw_RoutussyURL g = '''' then Inr []
      else case sh_session sh of
        None \<Rightarrow> Inl nil_session
      | Some fingerprint \<Rightarrow>
        if fingerprint = '''' then Inr []
        else case LookupRoutussyUser g now fingerprint of
          Inl _ \<Rightarrow> Inr []
        | Inr _ \<Rightarrow> Inr [(''OPENCODE_API_KEY'', ''ussycode-fp:'' @ fingerprint),
                        (''OPENCODE_BASE_URL'', TrimRight (\<lambda>c. c = CHR ''/'') (gw_RoutussyURL g) @ ''/v1'')])"

text \<open>The address of a VM of the user, from \<^verbatim>\<open>VMsByUser\<close>.\<close>

definition own_address :: "Shell \<Rightarrow> int \<Rightarrow> world \<Rightarrow> string option" where
  "own_address sh vmID w =
     (case VMsByUser (u_ID (sh_user sh)) (w_db w) of
        Inl _ \<Rightarrow> None
      | Inr rows \<Rightarrow>
        (case filter (\<lambda>v. v_ID v = vmID \<and> v_IPAddress v \<noteq> None) rows of [] \<Rightarrow> None | v # _ \<Rightarrow> v_IPAddress v))"

definition vm_metadata :: "Shell \<Rightarrow> int \<Rightarrow> string \<Rightarrow> string \<Rightarrow> string \<Rightarrow> string list \<Rightarrow> (string \<times> string) list \<Rightarrow> VMMetadata" where
  "vm_metadata sh vmID vmName img ip sshKeys envVars =
     \<lparr>md_InstanceID = ''vm-'' @ dec vmID, md_LocalIPv4 = ip, md_Hostname = vmName, md_UserID = u_ID (sh_user sh),
      md_UserHandle = u_Handle (sh_user sh), md_VMName = vmName, md_Image = img, md_UserData = '''',
      md_SSHKeys = sshKeys, md_Gateway = ''10.0.0.1'', md_EnvVars = envVars\<rparr>"

text \<open>The first component is the message of a panic.\<close>

definition registerVMMetadata :: "Shell \<Rightarrow> nanos \<Rightarrow> int \<Rightarrow> string \<Rightarrow> string \<Rightarrow> world \<Rightarrow> string option \<times> world" where
  "registerVMMetadata sh now vmID vmName img w =
     (case w_Metadata w of
        None \<Rightarrow> (None, w)
      | Some srv \<Rightarrow>
        (case VMsByUser (u_ID (sh_user sh)) (w_db w) of
           Inl _ \<Rightarrow> (None, w)
         | Inr _ \<Rightarrow>
           (case buildVMEnvVars sh now of
              Inl p \<Rightarrow> (Some p, w)
            | Inr envVars \<Rightarrow>
              let envVars = (if gw_domain (sh_gw sh) \<noteq> ''''
                    then AList.update ''USSYCODE_PUBLIC_DOMAIN'' (gw_domain (sh_gw sh)) envVars else envVars);
                  envVars = AList.update ''USSYCODE_VM_NAME'' vmName envVars
              in case own_address sh vmID w of
                   None \<Rightarrow> (None, w)
                 | Some ip \<Rightarrow>
                   (None, w\<lparr>w_Metadata := Some (RegisterVM ip
                      (vm_metadata sh vmID vmName img ip (vmSSHKeys sh w) envVars) srv)\<rparr>))))"

definition unregisterVMMetadata :: "Shell \<Rightarrow> int \<Rightarrow> world \<Rightarrow> world" where
  "unregisterVMMetadata sh vmID w =
     (case w_Metadata w of
        None \<Rightarrow> w
      | Some srv \<Rightarrow>
        (case own_address sh vmID w of None \<Rightarrow> w | Some ip \<Rightarrow> w\<lparr>w_Metadata := Some (UnregisterVM ip srv)\<rparr>))"

definition addProxyRoute :: "Shell \<Rightarrow> int \<Rightarrow> string \<Rightarrow> world \<Rightarrow> world" where
  "addProxyRoute sh vmID vmName w =
     (case w_Proxy w of
        None \<Rightarrow> w
      | Some pm \<Rightarrow>
        (case own_address sh vmID w of
           None \<Rightarrow> w
         | Some ip \<Rightarrow> w\<lparr>w_Proxy := Some (snd (AddRoute (ot_caddy (gw_outside (sh_gw sh))) vmName ip 8080 pm))\<rparr>))"

definition removeProxyRoute :: "Shell \<Rightarrow> string \<Rightarrow> world \<Rightarrow> world" where
  "removeProxyRoute sh vmName w =
     (case w_Proxy w of
        None \<Rightarrow> w
      | Some pm \<Rightarrow> w\<lparr>w_Proxy := Some (snd (RemoveRoute (ot_caddy (gw_outside (sh_gw sh))) vmName pm))\<rparr>)"

text \<open>The lookup most commands start with: \<open>what\<close> prefixes an error of the database.\<close>

definition find_vm :: "string \<Rightarrow> Shell \<Rightarrow> string \<Rightarrow> world \<Rightarrow> shell_error + vm" where
  "find_vm what sh name w =
     (case VMByUserAndName (u_ID (sh_user sh)) name (w_db w) of
        Inl e \<Rightarrow> Inl (if e = ErrNoRows then Msg (''no vm named '' @ go_quote name) else DbErr what e)
      | Inr v \<Rightarrow> Inr v)"

text \<open>Whether a name is free among the VMs of the user.\<close>

definition name_taken :: "Shell \<Rightarrow> string \<Rightarrow> world \<Rightarrow> shell_error option" where
  "name_taken sh name w =
     (case VMByUserAndName (u_ID (sh_user sh)) name (w_db w) of
        Inl e \<Rightarrow> if e = ErrNoRows then None else Some (DbErr ''check existing'' e)
      | Inr _ \<Rightarrow> Some (Msg (''vm '' @ go_quote name @ '' already exists'')))"

text \<open>The quota of \<^verbatim>\<open>new\<close> and \<^verbatim>\<open>cp\<close>; a negative limit is none.\<close>

definition quota_error :: "Shell \<Rightarrow> world \<Rightarrow> shell_error option" where
  "quota_error sh w =
     (case GetUserVMCount (u_ID (sh_user sh)) (w_db w) of
        Inl e \<Rightarrow> Some (DbErr ''check vm count'' e)
      | Inr vmCount \<Rightarrow>
        let limit = tl_VMLimit (GetTrustLimits (u_TrustLevel (sh_user sh))) in
        if 0 \<le> limit \<and> limit \<le> vmCount
        then Some (Msg (''VM limit reached ('' @ dec vmCount @ ''/'' @ dec limit @
                        ''). Upgrade trust level or remove a VM.''))
        else None)"

definition vm_url :: "Shell \<Rightarrow> string \<Rightarrow> string" where
  "vm_url sh name = ''https://'' @ name @ ''.'' @ gw_domain (sh_gw sh)"

lemma write_frame [simp]:
  "w_host (writef m w) = w_host w" "w_host (writeln m w) = w_host w" "w_host (writeJSON j w) = w_host w"
  "w_in (writef m w) = w_in w" "w_in (writeln m w) = w_in w" "w_in (writeJSON j w) = w_in w"
  "w_Proxy (writef m w) = w_Proxy w" "w_Proxy (writeln m w) = w_Proxy w" "w_Proxy (writeJSON j w) = w_Proxy w"
  "w_Metadata (writef m w) = w_Metadata w" "w_Metadata (writeln m w) = w_Metadata w"
  "w_Metadata (writeJSON j w) = w_Metadata w"
  by (simp_all add: writef_def writeln_def writeJSON_def)

lemma writelns_frame [simp]:
  "w_host (writelns ms w) = w_host w" "w_in (writelns ms w) = w_in w"
  "w_Proxy (writelns ms w) = w_Proxy w" "w_Metadata (writelns ms w) = w_Metadata w"
  by (induction ms arbitrary: w) (simp_all add: writelns_def)

lemma db_write_frame:
  "db_write f w = (r, w') \<Longrightarrow> w_db w' = snd (f (w_db w)) \<and> r = fst (f (w_db w)) \<and>
     vh_running (w_host w') = vh_running (w_host w)"
  by (auto simp: db_write_def w_db_def split: prod.splits)

lemma helper_frame [simp]:
  "w_host (snd (Intn sh k w)) = w_host w" "w_host (snd (rand_read sh k w)) = w_host w"
  "w_host (snd (randomName sh w)) = w_host w" "w_host (snd (ReadLine w)) = w_host w"
  "w_host (snd (generateLinkToken sh w)) = w_host w"
  "w_host (snd (registerVMMetadata sh now v n i w)) = w_host w"
  "w_host (unregisterVMMetadata sh v w) = w_host w"
  "w_host (addProxyRoute sh v n w) = w_host w" "w_host (removeProxyRoute sh n w) = w_host w"
  by (simp_all add: Intn_def rand_read_def randomName_def ReadLine_def generateLinkToken_def registerVMMetadata_def
      unregisterVMMetadata_def addProxyRoute_def removeProxyRoute_def Let_def
      split: sum.split option.split prod.split list.split)

end
