(* ===== verification/Shell_Vms.thy ===== *)
theory Shell_Vms
  imports Shell_Core
begin

section \<open>Shell commands on VMs\<close>

text \<open>
  The commands \<^verbatim>\<open>whoami\<close>, \<^verbatim>\<open>ls\<close>, \<^verbatim>\<open>new\<close>, \<^verbatim>\<open>ssh\<close>,
  \<^verbatim>\<open>stop\<close>, \<^verbatim>\<open>restart\<close>, \<^verbatim>\<open>start\<close>, \<^verbatim>\<open>cp\<close>, \<^verbatim>\<open>rm\<close>,
  \<^verbatim>\<open>tag\<close> and \<^verbatim>\<open>rename\<close> of \<^verbatim>\<open>internal/ssh/commands.go\<close>, each from its argument
  checks to its output. A command is a function of the shell, the time, its arguments and the world.
\<close>

definition cmdWhoami :: command_fun where
  "cmdWhoami sh now args w =
     (let u = sh_user sh; fp = or_else '''' (FingerprintByUser (u_ID u) (w_db w));
          vmCount = or_else 0 (VMCountByUser (u_ID u) (w_db w)) in
      (Done, writelns
         ['''', ''  handle:      '' @ u_Handle u, ''  trust level: '' @ u_TrustLevel u, ''  fingerprint: '' @ fp,
          ''  vms:         '' @ dec vmCount, ''  member since: '' @ format_long_date (u_CreatedAt u), ''''] w))"

definition ls_row :: "bool \<Rightarrow> nanos \<Rightarrow> vm \<Rightarrow> string" where
  "ls_row long now v =
     ''  '' @ pad_right 16 (v_Name v) @ '' '' @ pad_right 10 (colorStatus (v_Status v)) @ '' '' @ pad_right 14 (v_Image v) @ '' '' @
     (if long then pad_left 4 (dec (v_VCPU v)) @ '' '' @ pad_left 4 (dec (v_MemoryMB v)) @ ''MB '' @
        pad_left 3 (dec (v_DiskGB v)) @ ''GB  '' else '''') @
     relativeTime now (v_CreatedAt v)"

definition ls_header :: "bool \<Rightarrow> string list" where
  "ls_header long =
     (let cols = ''  '' @ pad_right 16 ''NAME'' @ '' '' @ pad_right 10 ''STATUS'' @ '' '' @ pad_right 14 ''IMAGE'' @ '' '';
          rule = ''  '' @ pad_right 16 (box_line 4) @ '' '' @ pad_right 10 (box_line 6) @ '' '' @ pad_right 14 (box_line 5) @ '' '' in
      if long then
        [cols @ pad_left 4 ''CPU'' @ '' '' @ pad_left 6 ''MEM'' @ '' '' @ pad_left 5 ''DISK'' @ ''  CREATED'',
         rule @ pad_left 4 (box_line 3) @ '' '' @ pad_left 6 (box_line 3) @ '' '' @ pad_left 5 (box_line 4) @ ''  '' @ box_line 7]
      else [cols @ ''CREATED'', rule @ box_line 7])"

definition cmdLs :: command_fun where
  "cmdLs sh now args w =
     (case VMsByUser (u_ID (sh_user sh)) (w_db w) of
        Inl e \<Rightarrow> (Failed (DbErr ''list vms'' e), w)
      | Inr rows \<Rightarrow>
        if rows = [] then (Done, writeln ''  no environments yet. type 'new' to create one.'' w)
        else
          let long = list_ex (\<lambda>a. a = ''-l'' \<or> a = ''--long'') args in
          (Done, writelns ([''''] @ ls_header long @ map (ls_row long now) rows @ ['''']) w))"

text \<open>The last flag of a kind wins.\<close>

definition flag_value :: "string \<Rightarrow> string list \<Rightarrow> string \<Rightarrow> string" where
  "flag_value flag args dflt = fold (\<lambda>a v. if HasPrefix a flag then TrimPrefix a flag else v) args dflt"

text \<open>The VM that \<^verbatim>\<open>new\<close> makes: two CPUs and 2 GB, within the limits of the trust level.\<close>

definition new_vcpu :: "trust_limits \<Rightarrow> int" where
  "new_vcpu limits = (if tl_CPULimit limits > 0 \<and> 2 > tl_CPULimit limits then tl_CPULimit limits else 2)"

definition new_memory :: "trust_limits \<Rightarrow> int" where
  "new_memory limits =
     (let memoryMB = (if tl_RAMLimit limits > 0 \<and> 2048 > tl_RAMLimit limits then tl_RAMLimit limits else 2048)
      in if memoryMB < 512 then 512 else memoryMB)"

definition new_done :: "Shell \<Rightarrow> vm \<Rightarrow> world \<Rightarrow> world" where
  "new_done sh v w =
     writelns
       ['' done!'', '''', ''  name:  '' @ v_Name v, ''  image: '' @ v_Image v, ''  url:   '' @ vm_url sh (v_Name v),
        ''  ssh:   ssh '' @ v_Name v @ '' (from this shell)'', ''''] w"

text \<open>After the row exists: provisioning, when there is a VM manager.\<close>

definition provision :: "Shell \<Rightarrow> nanos \<Rightarrow> vm \<Rightarrow> string \<Rightarrow> string \<Rightarrow> int \<Rightarrow> int \<Rightarrow> world \<Rightarrow> outcome \<times> world" where
  "provision sh now v name img vcpu memoryMB w =
     (case gw_VM (sh_gw sh) of
        None \<Rightarrow>
          (Done, new_done sh v (snd (db_write (UpdateVMStatus now (v_ID v) ''stopped'' None None None None) w)))
      | Some env \<Rightarrow>
        (case manager (CreateAndStart env now (v_ID v) name img vcpu memoryMB (vmSSHKeys sh w)) w of
           (Some e, w) \<Rightarrow> (Failed (Msg (''provision vm: '' @ e)), writeln '' failed!'' w)
         | (None, w) \<Rightarrow>
           (case registerVMMetadata sh now (v_ID v) name img w of
              (Some p, w) \<Rightarrow> (Panicked p, w)
            | (None, w) \<Rightarrow> (Done, new_done sh v (addProxyRoute sh (v_ID v) name w)))))"

definition cmdNew :: command_fun where
  "cmdNew sh now args w =
     (let u = sh_user sh; name = flag_value ''--name='' args ''''; img = flag_value ''--image='' args ''ussyuntu'';
          (name, w) = (if name = '''' then randomName sh w else (name, w)); name = ToLower name in
      if \<not> validName name then (Failed (invalid_name name), w)
      else case name_taken sh name w of
        Some e \<Rightarrow> (Failed e, w)
      | None \<Rightarrow>
        (case quota_error sh w of
           Some e \<Rightarrow> (Failed e, w)
         | None \<Rightarrow>
           let limits = GetTrustLimits (u_TrustLevel u); vcpu = new_vcpu limits; memoryMB = new_memory limits in
           (case db_write (CreateVM now (u_ID u) name img vcpu memoryMB 5) w of
              (Inl e, w) \<Rightarrow> (Failed (DbErr ''create vm'' e), w)
            | (Inr v, w) \<Rightarrow> provision sh now v name img vcpu memoryMB (writef (''  creating '' @ name @ ''...'') w))))"

text \<open>The inner \<^verbatim>\<open>ssh\<close> process; the terminal that is piped through it is left out.\<close>

definition proxySSHSession :: "Shell \<Rightarrow> nanos \<Rightarrow> string \<Rightarrow> outcome" where
  "proxySSHSession sh now vmIP =
     (let args = [''-tt'', ''-o'', ''BatchMode=yes'', ''-o'', ''StrictHostKeyChecking=no'',
                  ''-o'', ''UserKnownHostsFile=/dev/null'', ''-o'', ''LogLevel=ERROR'', ''-o'', ''IdentitiesOnly=yes'',
                  ''-o'', ''PreferredAuthentications=publickey'', ''-i'', gw_hostKeyPath (sh_gw sh), ''ussycode@'' @ vmIP]
      in case sh_session sh of
           None \<Rightarrow> Panicked nil_session
         | Some _ \<Rightarrow>
           (case ot_ssh (gw_outside (sh_gw sh)) now args of
              SshNotStarted e \<Rightarrow> Failed (Msg (''start ssh with pty: '' @ e))
            | SshExited \<Rightarrow> Done
            | SshLost e \<Rightarrow> Failed (Msg (''connect to VM at '' @ vmIP @ '': '' @ e))))"

definition cmdSSH :: command_fun where
  "cmdSSH sh now args w =
     (case args of
        [] \<Rightarrow> (Failed (Msg ''usage: ssh <name>''), w)
      | name # _ \<Rightarrow>
        (case find_vm ''lookup'' sh name w of
           Inl e \<Rightarrow> (Failed e, w)
         | Inr v \<Rightarrow>
           if v_Status v \<noteq> ''running''
           then (Failed (Msg (''vm '' @ go_quote name @ '' is '' @ v_Status v @ '' (must be running)'')), w)
           else case v_IPAddress v of
             None \<Rightarrow> (Failed (Msg (''vm '' @ go_quote name @ '' has no IP address assigned'')), w)
           | Some ip \<Rightarrow>
             if ip = '''' then (Failed (Msg (''vm '' @ go_quote name @ '' has no IP address assigned'')), w)
             else
               let w = writeln (''  connecting to '' @ name @ ''...'') w in
               (case proxySSHSession sh now ip of
                  Failed (Msg e) \<Rightarrow> (Failed (Msg (''ssh to '' @ name @ '': '' @ e)), w)
                | r \<Rightarrow> (r, w))))"

definition cmdStop :: command_fun where
  "cmdStop sh now args w =
     (case args of
        [] \<Rightarrow> (Failed (Msg ''usage: stop <name>''), w)
      | name # _ \<Rightarrow>
        (case find_vm ''lookup'' sh name w of
           Inl e \<Rightarrow> (Failed e, w)
         | Inr v \<Rightarrow>
           if v_Status v \<noteq> ''running''
           then (Failed (Msg (''vm '' @ go_quote name @ '' is already '' @ v_Status v)), w)
           else
             let w = writef (''  stopping '' @ name @ ''...'') w;
                 w = unregisterVMMetadata sh (v_ID v) w;
                 w = removeProxyRoute sh name w in
             (case gw_VM (sh_gw sh) of
                None \<Rightarrow>
                  (Done, writeln '' done.'' (snd (db_write (UpdateVMStatus now (v_ID v) ''stopped'' None None None None) w)))
              | Some env \<Rightarrow>
                (case manager (Stop env now (v_ID v)) w of
                   (Some e, w) \<Rightarrow> (Failed (Msg (''stop vm: '' @ e)), writeln '' failed!'' w)
                 | (None, w) \<Rightarrow> (Done, writeln '' done.'' w)))))"

text \<open>The part \<^verbatim>\<open>restart\<close> and \<^verbatim>\<open>start\<close> share: start the VM, then register it.\<close>

definition start_and_register :: "Shell \<Rightarrow> nanos \<Rightarrow> vm_env \<Rightarrow> vm \<Rightarrow> string \<Rightarrow> string \<Rightarrow> world \<Rightarrow> outcome \<times> world" where
  "start_and_register sh now env v name failed w =
     (case manager (Start env now (v_ID v) name (v_VCPU v) (v_MemoryMB v) (vmSSHKeys sh w)) w of
        (Some e, w) \<Rightarrow> (Failed (Msg (''start vm: '' @ e)), writeln failed w)
      | (None, w) \<Rightarrow>
        (case registerVMMetadata sh now (v_ID v) name (v_Image v) w of
           (Some p, w) \<Rightarrow> (Panicked p, w)
         | (None, w) \<Rightarrow> (Done, addProxyRoute sh (v_ID v) name w)))"

definition cmdRestart :: command_fun where
  "cmdRestart sh now args w =
     (case args of
        [] \<Rightarrow> (Failed (Msg ''usage: restart <name>''), w)
      | name # _ \<Rightarrow>
        (case find_vm ''lookup'' sh name w of
           Inl e \<Rightarrow> (Failed e, w)
         | Inr v \<Rightarrow>
           let w = writef (''  restarting '' @ name @ ''...'') w in
           (case gw_VM (sh_gw sh) of
              None \<Rightarrow> (Done, writeln '' done.'' w)
            | Some env \<Rightarrow>
              let w = removeProxyRoute sh name (unregisterVMMetadata sh (v_ID v) w) in
              (case (if v_Status v = ''running'' then manager (Stop env now (v_ID v)) w else (None, w)) of
                 (Some e, w) \<Rightarrow> (Failed (Msg (''stop vm: '' @ e)), writeln '' stop failed!'' w)
               | (None, w) \<Rightarrow>
                 (case start_and_register sh now env v name '' start failed!'' w of
                    (Done, w) \<Rightarrow> (Done, writeln '' done.'' w)
                  | r \<Rightarrow> r)))))"

definition cmdStart :: command_fun where
  "cmdStart sh now args w =
     (case args of
        [] \<Rightarrow> (Failed (Msg ''usage: start <name>''), w)
      | name # _ \<Rightarrow>
        (case find_vm ''lookup'' sh name w of
           Inl e \<Rightarrow> (Failed e, w)
         | Inr v \<Rightarrow>
           if v_Status v = ''running'' then (Failed (Msg (''vm '' @ go_quote name @ '' is already running'')), w)
           else
             let w = writef (''  starting '' @ name @ ''...'') w;
                 r = (case gw_VM (sh_gw sh) of
                        None \<Rightarrow> (Done, snd (db_write (UpdateVMStatus now (v_ID v) ''running'' None None None None) w))
                      | Some env \<Rightarrow> start_and_register sh now env v name '' failed!'' w) in
             (case r of
                (Done, w) \<Rightarrow> (Done, writelns ['' done.'', ''  ssh '' @ name @ '' to connect.''] w)
              | r \<Rightarrow> r)))"

text \<open>\<^verbatim>\<open>cp\<close> after its checks: the row, the disks, the status, the tags.\<close>

definition clone_vm :: "Shell \<Rightarrow> nanos \<Rightarrow> vm \<Rightarrow> string \<Rightarrow> world \<Rightarrow> outcome \<times> world" where
  "clone_vm sh now src dstName w =
     (case db_write (CreateVM now (u_ID (sh_user sh)) dstName (v_Image src) (v_VCPU src) (v_MemoryMB src) (v_DiskGB src)) w of
        (Inl e, w) \<Rightarrow> (Failed (DbErr ''create clone record'' e), writeln '' failed!'' w)
      | (Inr v, w) \<Rightarrow>
        (case (case gw_VM (sh_gw sh) of None \<Rightarrow> (None, w) | Some env \<Rightarrow> manager (CloneDisks env (v_ID src) (v_ID v)) w) of
           (Some e, w) \<Rightarrow>
             (Failed (Msg (''clone disks: '' @ e)), snd (db_write (DeleteVM (v_ID v)) (writeln '' failed!'' w)))
         | (None, w) \<Rightarrow>
           let w = snd (db_write (UpdateVMStatus now (v_ID v) ''stopped'' None None None None) w);
               w = fold (\<lambda>tag w. snd (db_write (AddTag (v_ID v) tag) w)) (or_else [] (TagsByVM (v_ID src) (w_db w))) w
           in (Done, writelns
                 ['' done!'', '''', ''  name:  '' @ v_Name v, ''  image: '' @ v_Image v, ''  url:   '' @ vm_url sh (v_Name v),
                  ''  start it with: start '' @ v_Name v, ''''] w)))"

definition cmdCp :: command_fun where
  "cmdCp sh now args w =
     (case args of
        [] \<Rightarrow> (Failed (Msg ''usage: cp <name> [new-name]''), w)
      | srcName # rest \<Rightarrow>
        let dstName = (case rest of [] \<Rightarrow> '''' | n # _ \<Rightarrow> ToLower n) in
        (case find_vm ''lookup'' sh srcName w of
           Inl e \<Rightarrow> (Failed e, w)
         | Inr src \<Rightarrow>
           let (dstName, w) = (if dstName = '''' then randomName sh w else (dstName, w)) in
           if \<not> validName dstName then (Failed (invalid_name dstName), w)
           else case name_taken sh dstName w of
             Some e \<Rightarrow> (Failed e, w)
           | None \<Rightarrow>
             (case quota_error sh w of
                Some e \<Rightarrow> (Failed e, w)
              | None \<Rightarrow> clone_vm sh now src dstName (writef (''  cloning '' @ srcName @ '' -> '' @ dstName @ ''...'') w))))"

definition cmdRm :: command_fun where
  "cmdRm sh now args w =
     (case args of
        [] \<Rightarrow> (Failed (Msg ''usage: rm <name>''), w)
      | name # _ \<Rightarrow>
        (case find_vm ''lookup'' sh name w of
           Inl e \<Rightarrow> (Failed e, w)
         | Inr v \<Rightarrow>
           (case ReadLine (writef ''  are you sure? type the vm name to confirm: '' w) of
              (None, w) \<Rightarrow> (Failed (Msg ''read confirmation: EOF''), w)
            | (Some confirm, w) \<Rightarrow>
              if TrimSpace confirm \<noteq> name then (Done, writeln ''  cancelled.'' w)
              else
                let w = unregisterVMMetadata sh (v_ID v) (removeProxyRoute sh name w) in
                (case gw_VM (sh_gw sh) of
                   Some env \<Rightarrow>
                     (case manager (Destroy env now (v_ID v)) w of
                        (Some e, w) \<Rightarrow> (Failed (Msg (''destroy: '' @ e)), w)
                      | (None, w) \<Rightarrow> (Done, writeln (''  deleted '' @ name @ ''.'') w))
                 | None \<Rightarrow>
                     (case db_write (DeleteVM (v_ID v)) w of
                        (Inl e, w) \<Rightarrow> (Failed (DbErr ''delete'' e), w)
                      | (Inr _, w) \<Rightarrow> (Done, writeln (''  deleted '' @ name @ ''.'') w))))))"

definition cmdTag :: command_fun where
  "cmdTag sh now args w =
     (case hasFlag args [''-d'', ''--delete''] of
        (remove, name # tag # _) \<Rightarrow>
          (case find_vm ''lookup'' sh name w of
             Inl e \<Rightarrow> (Failed e, w)
           | Inr v \<Rightarrow>
             if remove then
               (case db_write (RemoveTag (v_ID v) tag) w of
                  (Inl e, w) \<Rightarrow> (Failed (DbErr ''remove tag'' e), w)
                | (Inr _, w) \<Rightarrow> (Done, writeln (''  removed tag '' @ go_quote tag @ '' from '' @ name) w))
             else
               (case db_write (AddTag (v_ID v) tag) w of
                  (Inl e, w) \<Rightarrow> (Failed (DbErr ''add tag'' e), w)
                | (Inr _, w) \<Rightarrow> (Done, writeln (''  tagged '' @ name @ '' with '' @ go_quote tag) w)))
      | _ \<Rightarrow> (Failed (Msg ''usage: tag [-d] <name> <tag>''), w))"

definition cmdRename :: command_fun where
  "cmdRename sh now args w =
     (case args of
        oldName # newArg # _ \<Rightarrow>
          let newName = ToLower newArg in
          if \<not> validName newName then (Failed (invalid_name newName), w)
          else case find_vm ''lookup'' sh oldName w of
            Inl e \<Rightarrow> (Failed e, w)
          | Inr v \<Rightarrow>
            (case name_taken sh newName w of
               Some e \<Rightarrow> (Failed e, w)
             | None \<Rightarrow>
               (case db_write (RenameVM now (v_ID v) newName) w of
                  (Inl e, w) \<Rightarrow> (Failed (DbErr ''rename'' e), w)
                | (Inr _, w) \<Rightarrow>
                  let w = (if v_Status v = ''running''
                           then addProxyRoute sh (v_ID v) newName (removeProxyRoute sh oldName w) else w)
                  in (Done, writelns [''  renamed '' @ oldName @ '' -> '' @ newName,
                        ''  new url: https://'' @ newName @ ''.'' @ gw_domain (sh_gw sh)] w)))
      | _ \<Rightarrow> (Failed (Msg ''usage: rename <old> <new>''), w))"

end
