(* ===== verification/Shell_Access.thy ===== *)
theory Shell_Access
  imports Shell_Core
begin

section \<open>Shell commands on accounts and access\<close>

text \<open>
  The commands \<^verbatim>\<open>help\<close>, \<^verbatim>\<open>ssh-key\<close>, \<^verbatim>\<open>share\<close> with its custom domains,
  \<^verbatim>\<open>llm-key\<close> and \<^verbatim>\<open>admin\<close> of \<^verbatim>\<open>internal/ssh/commands.go\<close>,
  \<^verbatim>\<open>browser\<close> (\<^verbatim>\<open>browser.go\<close>) and \<^verbatim>\<open>community\<close> (\<^verbatim>\<open>community.go\<close>).
\<close>

definition cmdHelp :: command_fun where
  "cmdHelp sh now args w =
     (Done, writelns
       (['''', ''  '' @ esc ''1'' @ ''=== USSYCODE COMMANDS ==='' @ esc ''0'', '''', ''  '' @ esc ''33'' @ ''BASICS'' @ esc ''0'',
        ''    help          show this help'', ''    whoami        show your info'', ''    exit          disconnect'', '''',
        ''  '' @ esc ''33'' @ ''VM LIFECYCLE'' @ esc ''0'', ''    new           create a new dev environment'',
        ''    ls            list your environments'', ''    rm <name>     delete an environment'',
        ''    start <name>  start a stopped environment'', ''    stop <name>   stop a running environment'',
        ''    restart <name> restart an environment'', ''    rename <old> <new>  rename an environment'',
        ''    cp <name> [new]     clone an environment'', ''    tag <name> <tag>    add a tag'',
        ''    tag -d <name> <tag> remove a tag'', '''', ''  '' @ esc ''33'' @ ''ACCESS'' @ esc ''0'',
        ''    ssh <name>    connect to an environment'', ''    share         share access with others'',
        ''    browser       open web dashboard (magic link)'', '''', ''  '' @ esc ''33'' @ ''IDENTITY'' @ esc ''0'',
        ''    ssh-key       manage your SSH keys'', ''    llm-key       manage LLM API keys'', '''',
        ''  '' @ esc ''33'' @ ''ARENA'' @ esc ''0'', ''    arena         CTF & agent competition'', '''',
        ''  '' @ esc ''33'' @ ''USSYVERSE'' @ esc ''0'', ''    community     ussyverse info, links & your stats'', '''',
        ''  '' @ esc ''33'' @ ''LEARN'' @ esc ''0'', ''    tutorial      interactive tutorial (10 lessons)'', ''''] @
        (if u_TrustLevel (sh_user sh) = ''admin'' then
          [''  '' @ esc ''33'' @ ''ADMIN'' @ esc ''0'', ''    admin         admin-only commands'', ''''] else []) @
        [''  '' @ esc ''33'' @ ''OPTIONS'' @ esc ''0'', ''    new --name=<n> --image=<img>'', ''    ls -l         long format'',
        ''    --json        machine-readable output (on most commands)'', '''']) w)"

subsection \<open>ssh-key\<close>

definition cmdSSHKeyHelp :: "world \<Rightarrow> outcome \<times> world" where
  "cmdSSHKeyHelp w =
     (Done, writelns
       ['''', ''  '' @ esc ''1'' @ ''ssh-key'' @ esc ''0'' @ '' -- manage your SSH keys'', '''',
        ''    ssh-key list          list your keys'', ''    ssh-key add           add a new key (paste authorized_keys format)'',
        ''    ssh-key remove <id>   remove a key by ID'', ''''] w)"

definition key_json :: "ssh_key \<Rightarrow> json" where
  "key_json k =
     JObj ([(''id'', JNum (k_ID k)), (''fingerprint'', JStr (k_Fingerprint k))] @
           (if k_Comment k \<noteq> '''' then [(''comment'', JStr (k_Comment k))] else []) @
           [(''created_at'', JStr (format_RFC3339 (k_CreatedAt k)))])"

definition key_row :: "string \<Rightarrow> string \<Rightarrow> string \<Rightarrow> string \<Rightarrow> string" where
  "key_row i fp comment added =
     ''  '' @ pad_right 4 i @ ''  '' @ pad_right 48 fp @ ''  '' @ pad_right 12 comment @ ''  '' @ added"

definition cmdSSHKeyList :: command_fun where
  "cmdSSHKeyList sh now args w =
     (case SSHKeysByUser (u_ID (sh_user sh)) (w_db w) of
        Inl e \<Rightarrow> (Failed (DbErr ''list keys'' e), w)
      | Inr keys \<Rightarrow>
        if fst (hasFlag args [''--json'']) then (Done, writeJSON (JArr (map key_json keys)) w)
        else if keys = [] then (Done, writeln ''  no ssh keys found.'' w)
        else
          (Done, writelns
             (['''', key_row ''ID'' ''FINGERPRINT'' ''COMMENT'' ''ADDED'',
               key_row (box_line 2) (box_line 11) (box_line 7) (box_line 5)] @
              map (\<lambda>k. key_row (dec (k_ID k)) (k_Fingerprint k) (k_Comment k) (relativeTime now (k_CreatedAt k))) keys @
              ['''']) w))"

definition cmdSSHKeyAdd :: command_fun where
  "cmdSSHKeyAdd sh now args w =
     (let uid = u_ID (sh_user sh);
          w = writelns [''  paste your public key (authorized_keys format):'', ''  (e.g. ssh-ed25519 AAAA... comment)'', ''''] w in
      case ReadLine w of
        (None, w) \<Rightarrow> (Failed (Msg ''read key: EOF''), w)
      | (Some line, w) \<Rightarrow>
        let line = TrimSpace line in
        if line = '''' then (Failed (Msg ''no key provided''), w)
        else case ot_ParseAuthorizedKey (gw_outside (sh_gw sh)) line of
          Inl e \<Rightarrow> (Failed (Msg (''invalid key format: '' @ e)), w)
        | Inr (fingerprint, comment) \<Rightarrow>
          (case SSHKeysByUser uid (w_db w) of
             Inl e \<Rightarrow> (Failed (DbErr ''check existing'' e), w)
           | Inr existingKeys \<Rightarrow>
             if list_ex (\<lambda>k. k_Fingerprint k = fingerprint) existingKeys
             then (Failed (Msg (''key already registered (fingerprint: '' @ fingerprint @ '')'')), w)
             else (case db_write (AddSSHKey now uid line fingerprint comment) w of
               (Inl e, w) \<Rightarrow> (Failed (DbErr ''add key'' e), w)
             | (Inr key, w) \<Rightarrow>
               (Done, writelns
                  ['''', ''  key added (id='' @ dec (k_ID key) @ '', fingerprint='' @ k_Fingerprint key @ '')'',
                   ''  you can now authenticate with this key.'', ''''] w))))"

definition cmdSSHKeyRemove :: command_fun where
  "cmdSSHKeyRemove sh now args w =
     (let uid = u_ID (sh_user sh) in
      case args of
        [] \<Rightarrow> (Failed (Msg ''usage: ssh-key remove <id>''), w)
      | arg # _ \<Rightarrow>
        (case Sscanf_d arg of
           None \<Rightarrow> (Failed (Msg (''invalid key ID '' @ go_quote arg)), w)
         | Some keyID \<Rightarrow>
           (case SSHKeysByUser uid (w_db w) of
              Inl e \<Rightarrow> (Failed (DbErr ''list keys'' e), w)
            | Inr keys \<Rightarrow>
              if \<not> list_ex (\<lambda>k. k_ID k = keyID) keys then (Failed (Msg (''key '' @ dec keyID @ '' not found'')), w)
              else case SSHKeyCountByUser uid (w_db w) of
                Inl e \<Rightarrow> (Failed (DbErr ''count keys'' e), w)
              | Inr count \<Rightarrow>
                if count \<le> 1 then (Failed (Msg ''can't remove your last SSH key (you'd be locked out)''), w)
                else (case db_write (DeleteSSHKey keyID) w of
                  (Inl e, w) \<Rightarrow> (Failed (DbErr ''delete key'' e), w)
                | (Inr _, w) \<Rightarrow> (Done, writeln (''  removed key '' @ dec keyID @ ''.'') w)))))"

definition cmdSSHKey :: command_fun where
  "cmdSSHKey sh now args w =
     (case args of
        [] \<Rightarrow> cmdSSHKeyHelp w
      | sub # rest \<Rightarrow>
        if sub = ''list'' \<or> sub = ''ls'' then cmdSSHKeyList sh now rest w
        else if sub = ''add'' then cmdSSHKeyAdd sh now rest w
        else if sub = ''remove'' \<or> sub = ''rm'' then cmdSSHKeyRemove sh now rest w
        else if sub = ''help'' then cmdSSHKeyHelp w
        else (Failed (Msg (''unknown ssh-key subcommand '' @ go_quote sub @ ''. try: ssh-key help'')), w))"

subsection \<open>share\<close>

definition cmdShareHelp :: "world \<Rightarrow> outcome \<times> world" where
  "cmdShareHelp w =
     (Done, writelns
       ['''', ''  '' @ esc ''1'' @ ''share'' @ esc ''0'' @ '' -- share access to your environments'', '''',
        ''    share add <vm> <handle>      share with a user by handle'',
        ''    share remove <vm> <handle>   revoke a user's access'', ''    share add-link <vm>          create a shareable link'',
        ''    share remove-link <vm> <token-or-url>  revoke a share link'',
        ''    share set-public <vm>        make HTTPS endpoint public'',
        ''    share set-private <vm>       make HTTPS endpoint private'',
        ''    share show <vm>              show share state for a VM'', '''', ''  '' @ esc ''1'' @ ''custom domains'' @ esc ''0'',
        ''    share cname <vm> <domain>         add a custom domain'',
        ''    share cname-verify <vm> <domain>  verify DNS ownership'',
        ''    share cname-rm <vm> <domain>      remove a custom domain'', ''''] w)"

text \<open>The VM and the user that \<^verbatim>\<open>share add\<close> and \<^verbatim>\<open>share remove\<close> name.\<close>

definition find_target :: "Shell \<Rightarrow> string \<Rightarrow> string \<Rightarrow> world \<Rightarrow> shell_error + vm \<times> user" where
  "find_target sh vmName handle w =
     (case find_vm ''lookup vm'' sh vmName w of
        Inl e \<Rightarrow> Inl e
      | Inr v \<Rightarrow>
        (case UserByHandle handle (w_db w) of
           Inl e \<Rightarrow> Inl (if e = ErrNoRows then Msg (''no user named '' @ go_quote handle) else DbErr ''lookup user'' e)
         | Inr target \<Rightarrow> Inr (v, target)))"

definition cmdShareAdd :: command_fun where
  "cmdShareAdd sh now args w =
     (case args of
        vmName # targetHandle # _ \<Rightarrow>
          (case find_target sh vmName targetHandle w of
             Inl e \<Rightarrow> (Failed e, w)
           | Inr (v, target) \<Rightarrow>
             if u_ID target = u_ID (sh_user sh) then (Failed (Msg ''you already own this VM''), w)
             else (case db_write (ShareVMWithUser now (v_ID v) (u_ID target)) w of
               (Inl e, w) \<Rightarrow> (Failed (DbErr ''share'' e), w)
             | (Inr _, w) \<Rightarrow> (Done, writeln (''  shared '' @ vmName @ '' with '' @ targetHandle) w)))
      | _ \<Rightarrow> (Failed (Msg ''usage: share add <vm> <handle>''), w))"

definition cmdShareRemove :: command_fun where
  "cmdShareRemove sh now args w =
     (case args of
        vmName # targetHandle # _ \<Rightarrow>
          (case find_target sh vmName targetHandle w of
             Inl e \<Rightarrow> (Failed e, w)
           | Inr (v, target) \<Rightarrow>
             (case db_write (RemoveShareByVMAndUser (v_ID v) (u_ID target)) w of
                (Inl e, w) \<Rightarrow> (Failed (DbErr ''remove share'' e), w)
              | (Inr _, w) \<Rightarrow> (Done, writeln (''  removed '' @ targetHandle @ [CHR 0x27] @ ''s access to '' @ vmName) w)))
      | _ \<Rightarrow> (Failed (Msg ''usage: share remove <vm> <handle>''), w))"

definition share_link_url :: "Shell \<Rightarrow> string \<Rightarrow> string \<Rightarrow> string" where
  "share_link_url sh vmName token = vm_url sh vmName @ ''/?ussy_share='' @ token"

definition cmdShareAddLink :: command_fun where
  "cmdShareAddLink sh now args w =
     (case args of
        [] \<Rightarrow> (Failed (Msg ''usage: share add-link <vm>''), w)
      | vmName # _ \<Rightarrow>
        (case find_vm ''lookup vm'' sh vmName w of
           Inl e \<Rightarrow> (Failed e, w)
         | Inr v \<Rightarrow>
           (case generateLinkToken sh w of
              (Inl e, w) \<Rightarrow> (Failed (Msg (''generate token: '' @ e)), w)
            | (Inr token, w) \<Rightarrow>
              (case db_write (ShareVMWithLink now (v_ID v) token) w of
                 (Inl e, w) \<Rightarrow> (Failed (DbErr ''create link share'' e), w)
               | (Inr _, w) \<Rightarrow>
                 (Done, writelns
                    ['''', ''  '' @ share_link_url sh vmName token, '''',
                     ''  opening the link redeems a share cookie for this VM.'', ''''] w)))))"

text \<open>\<^verbatim>\<open>strings.Index\<close> for a non-empty substring.\<close>

fun Index :: "string \<Rightarrow> string \<Rightarrow> nat option" where
  "Index [] sub = None"
| "Index (c # s) sub = (if HasPrefix (c # s) sub then Some 0 else map_option Suc (Index s sub))"

definition normalizeShareLinkToken :: "string \<Rightarrow> string" where
  "normalizeShareLinkToken input =
     (let input = TrimSpace input in
      if input = '''' then ''''
      else case Index input ''ussy_share='' of
        Some idx \<Rightarrow> TrimSpace (drop (idx + length ''ussy_share='') input)
      | None \<Rightarrow>
        (case LastIndex input ''/'' of
           Some idx \<Rightarrow>
             if Suc idx < length input \<and> Contains input ''://'' then TrimSpace (drop (Suc idx) input) else input
         | None \<Rightarrow> input))"

definition cmdShareRemoveLink :: command_fun where
  "cmdShareRemoveLink sh now args w =
     (case args of
        vmName # tokenOrURL # _ \<Rightarrow>
          let token = normalizeShareLinkToken tokenOrURL in
          if token = '''' then (Failed (Msg ''invalid share link token''), w)
          else case find_vm ''lookup vm'' sh vmName w of
            Inl e \<Rightarrow> (Failed e, w)
          | Inr v \<Rightarrow>
            (case db_write (RemoveShareLink (v_ID v) token) w of
               (Inl e, w) \<Rightarrow> (Failed (DbErr ''remove share link'' e), w)
             | (Inr _, w) \<Rightarrow> (Done, writeln (''  removed share link for '' @ vmName) w))
      | _ \<Rightarrow> (Failed (Msg ''usage: share remove-link <vm> <token-or-url>''), w))"

definition cmdShareSetPublic :: "bool \<Rightarrow> command_fun" where
  "cmdShareSetPublic public sh now args w =
     (case args of
        [] \<Rightarrow> (Failed (Msg (if public then ''usage: share set-public <vm>'' else ''usage: share set-private <vm>'')), w)
      | vmName # _ \<Rightarrow>
        (case find_vm ''lookup vm'' sh vmName w of
           Inl e \<Rightarrow> (Failed e, w)
         | Inr v \<Rightarrow>
           (case db_write (SetVMPublic now (v_ID v) public) w of
              (Inl e, w) \<Rightarrow> (Failed (DbErr ''set public'' e), w)
            | (Inr _, w) \<Rightarrow>
              (Done, writeln (if public then ''  '' @ vmName @ '' is now public at '' @ vm_url sh vmName @ ''/''
                              else ''  '' @ vmName @ '' is now private.'') w))))"

definition share_json :: "Shell \<Rightarrow> string \<Rightarrow> db \<Rightarrow> share \<Rightarrow> json" where
  "share_json sh vmName d s =
     JObj ([(''id'', JNum (s_ID s))] @
       (case s_SharedWith s of
          Some u \<Rightarrow>
            (''type'', JStr ''user'') #
            (case UserByID u d of
               Inl _ \<Rightarrow> []
             | Inr x \<Rightarrow> if u_Handle x \<noteq> '''' then [(''target'', JStr (u_Handle x))] else [])
        | None \<Rightarrow>
          (case s_LinkToken s of
             Some token \<Rightarrow> [(''type'', JStr ''link''), (''link'', JStr (share_link_url sh vmName token))]
           | None \<Rightarrow> [(''type'', JStr (if s_IsPublic s then ''public'' else ''''))])) @
       [(''created_at'', JStr (format_RFC3339 (s_CreatedAt s)))])"

definition share_lines :: "Shell \<Rightarrow> nanos \<Rightarrow> string \<Rightarrow> db \<Rightarrow> share \<Rightarrow> string list" where
  "share_lines sh now vmName d s =
     (let since = ''  (since '' @ relativeTime now (s_CreatedAt s) @ '')'' in
      case s_SharedWith s of
        Some u \<Rightarrow> (case UserByID u d of Inl _ \<Rightarrow> [] | Inr x \<Rightarrow> [''  [user]  '' @ u_Handle x @ since])
      | None \<Rightarrow>
        (case s_LinkToken s of
           Some token \<Rightarrow> [''  [link]  '' @ share_link_url sh vmName token @ since]
         | None \<Rightarrow> []))"

definition cmdShareList :: command_fun where
  "cmdShareList sh now args w =
     (case args of
        [] \<Rightarrow> (Failed (Msg ''usage: share list <vm>''), w)
      | vmName # rest \<Rightarrow>
        (case find_vm ''lookup vm'' sh vmName w of
           Inl e \<Rightarrow> (Failed e, w)
         | Inr v \<Rightarrow>
           (case SharesByVM (v_ID v) (w_db w) of
              Inl e \<Rightarrow> (Failed (DbErr ''list shares'' e), w)
            | Inr rows \<Rightarrow>
              let isPublic = or_false (IsVMPublic (v_ID v) (w_db w)) in
              if fst (hasFlag rest [''--json'']) then
                (Done, writeJSON (JObj [(''vm'', JStr vmName),
                   (''is_public'', JBool isPublic),
                   (''shares'', JArr (map (share_json sh vmName (w_db w)) rows))]) w)
              else
                (Done, writelns
                   (['''', ''  '' @ vmName @ '' is '' @ (if isPublic then colored ''32'' ''public'' else colored ''33'' ''private'')] @
                    (if rows = [] then [''  no shares.'']
                     else '''' # concat (map (share_lines sh now vmName (w_db w)) rows)) @ ['''']) w))))"

subsection \<open>share: custom domains\<close>

definition isValidDomain :: "string \<Rightarrow> bool" where
  "isValidDomain domain \<longleftrightarrow>
     3 \<le> length domain \<and> length domain \<le> 253 \<and> Contains domain ''.'' \<and>
     \<not> HasPrefix domain ''.'' \<and> \<not> HasSuffix domain ''.'' \<and> \<not> HasPrefix domain ''-'' \<and> \<not> HasSuffix domain ''-'' \<and>
     list_all (\<lambda>label. label \<noteq> [] \<and> length label \<le> 63 \<and> list_all (\<lambda>c. is_lower_digit c \<or> c = CHR ''-'') label)
       (Split domain CHR ''.'')"

definition txt_record :: "string \<Rightarrow> string \<Rightarrow> string" where
  "txt_record domain token = ''    _ussycode-verify.'' @ domain @ ''  TXT  '' @ token"

definition cmdShareCname :: command_fun where
  "cmdShareCname sh now args w =
     (case args of
        vmName # arg # _ \<Rightarrow>
          let domain = ToLower (TrimSpace arg) in
          if \<not> isValidDomain domain then (Failed (Msg (''invalid domain '' @ go_quote domain)), w)
          else case find_vm ''lookup vm'' sh vmName w of
            Inl e \<Rightarrow> (Failed e, w)
          | Inr v \<Rightarrow>
            (case GetCustomDomain domain (w_db w) of
               Inr c \<Rightarrow>
                 if cd_VMID c = v_ID v then
                   (if cd_Verified c
                    then (Failed (Msg (''domain '' @ domain @ '' is already verified for '' @ vmName)), w)
                    else (Done, writelns
                      ['''', ''  domain '' @ domain @ '' is already pending verification for '' @ vmName @ ''.'',
                       ''  add this DNS TXT record to verify:'', '''',
                       txt_record domain (case cd_VerificationToken c of None \<Rightarrow> '''' | Some t \<Rightarrow> t), '''',
                       ''  then run: share cname-verify '' @ vmName @ '' '' @ domain, ''''] w))
                 else (Failed (Msg (''domain '' @ domain @ '' is already registered to another VM'')), w)
             | Inl _ \<Rightarrow>
               (case generateLinkToken sh w of
                  (Inl e, w) \<Rightarrow> (Failed (Msg (''generate verification token: '' @ e)), w)
                | (Inr token, w) \<Rightarrow>
                  (case db_write (CreateCustomDomain now (v_ID v) domain token) w of
                     (Inl e, w) \<Rightarrow> (Failed (DbErr ''create custom domain'' e), w)
                   | (Inr _, w) \<Rightarrow>
                     (Done, writelns
                        ['''', ''  custom domain '' @ domain @ '' added for '' @ vmName @ ''.'', '''',
                         ''  to verify ownership, add this DNS TXT record:'', '''', txt_record domain token, '''',
                         ''  also add a CNAME record pointing to your VM:'', '''',
                         ''    '' @ domain @ ''  CNAME  '' @ vmName @ ''.'' @ gw_domain (sh_gw sh), '''',
                         ''  then run: share cname-verify '' @ vmName @ '' '' @ domain, ''''] w))))
      | _ \<Rightarrow> (Failed (Msg ''usage: share cname <vm> <domain>''), w))"

text \<open>The domain row that \<^verbatim>\<open>cname-verify\<close> and \<^verbatim>\<open>cname-rm\<close> work on.\<close>

definition find_domain :: "Shell \<Rightarrow> string \<Rightarrow> string \<Rightarrow> string \<Rightarrow> world \<Rightarrow> shell_error + vm \<times> custom_domain" where
  "find_domain sh vmName domain missing w =
     (case find_vm ''lookup vm'' sh vmName w of
        Inl e \<Rightarrow> Inl e
      | Inr v \<Rightarrow>
        (case GetCustomDomain domain (w_db w) of
           Inl e \<Rightarrow> Inl (if e = ErrNoRows then Msg missing else DbErr ''lookup custom domain'' e)
         | Inr c \<Rightarrow>
           if cd_VMID c \<noteq> v_ID v then Inl (Msg (''domain '' @ domain @ '' is not associated with '' @ vmName))
           else Inr (v, c)))"

definition cmdShareCnameVerify :: command_fun where
  "cmdShareCnameVerify sh now args w =
     (case args of
        vmName # arg # _ \<Rightarrow>
          let domain = ToLower (TrimSpace arg) in
          (case find_domain sh vmName domain
                  (''no custom domain '' @ go_quote domain @ '' found. add it with: share cname '' @ vmName @ '' '' @ domain) w of
             Inl e \<Rightarrow> (Failed e, w)
           | Inr (v, c) \<Rightarrow>
             if cd_Verified c then (Done, writeln (''  domain '' @ domain @ '' is already verified.'') w)
             else
               let verifyHost = ''_ussycode-verify.'' @ domain;
                   expectedToken = (case cd_VerificationToken c of None \<Rightarrow> '''' | Some t \<Rightarrow> t);
                   w = writeln (''  checking DNS TXT record at '' @ verifyHost @ ''...'') w in
               (case ot_LookupTXT (gw_outside (sh_gw sh)) now verifyHost of
                  Inl e \<Rightarrow>
                    (Failed (Msg (''DNS lookup failed for '' @ verifyHost @ '': '' @ e @ [CHR 0x0A] @
                       ''  make sure you added the TXT record and DNS has propagated'')), w)
                | Inr txtRecords \<Rightarrow>
                  if \<not> list_ex (\<lambda>txt. TrimSpace txt = expectedToken) txtRecords then
                    (Done, writelns
                       (['''', ''  verification failed: no matching TXT record found at '' @ verifyHost, '''',
                         ''  expected TXT value:'', ''    '' @ expectedToken, '''', ''  found:''] @
                        map (\<lambda>txt. ''    '' @ txt) txtRecords @
                        (if txtRecords = [] then [''    (none)''] else []) @
                        ['''', ''  DNS changes can take up to 48 hours to propagate. try again later.'', '''']) w)
                  else (case db_write (VerifyCustomDomain now domain) w of
                    (Inl e, w) \<Rightarrow> (Failed (DbErr ''verify custom domain'' e), w)
                  | (Inr _, w) \<Rightarrow>
                    let w = (case w_Proxy w of
                          None \<Rightarrow> w
                        | Some pm \<Rightarrow>
                          if v_Status v = ''running'' then
                            (case AddCustomDomain (ot_caddy (gw_outside (sh_gw sh))) domain vmName pm of
                               (Inl _, pm) \<Rightarrow>
                                 writeln ''  warning: proxy route creation failed (domain verified but routing may not work yet)''
                                   (w\<lparr>w_Proxy := Some pm\<rparr>)
                             | (Inr _, pm) \<Rightarrow> w\<lparr>w_Proxy := Some pm\<rparr>)
                          else w)
                    in (Done, writelns
                          ['''', ''  domain '' @ domain @ '' verified and active for '' @ vmName @ ''!'',
                           ''  https://'' @ domain @ '' is now live.'', ''''] w))))
      | _ \<Rightarrow> (Failed (Msg ''usage: share cname-verify <vm> <domain>''), w))"

definition cmdShareCnameRm :: command_fun where
  "cmdShareCnameRm sh now args w =
     (case args of
        vmName # arg # _ \<Rightarrow>
          let domain = ToLower (TrimSpace arg) in
          (case find_domain sh vmName domain
                  (''no custom domain '' @ go_quote domain @ '' found for '' @ vmName) w of
             Inl e \<Rightarrow> (Failed e, w)
           | Inr (v, c) \<Rightarrow>
             let w = (case w_Proxy w of
                   None \<Rightarrow> w
                 | Some pm \<Rightarrow>
                   if cd_Verified c
                   then w\<lparr>w_Proxy := Some (snd (RemoveCustomDomain (ot_caddy (gw_outside (sh_gw sh))) domain pm))\<rparr> else w)
             in (case db_write (DeleteCustomDomain domain) w of
                   (Inl e, w) \<Rightarrow> (Failed (DbErr ''delete custom domain'' e), w)
                 | (Inr _, w) \<Rightarrow> (Done, writeln (''  removed custom domain '' @ domain @ '' from '' @ vmName @ ''.'') w)))
      | _ \<Rightarrow> (Failed (Msg ''usage: share cname-rm <vm> <domain>''), w))"

definition cmdShare :: command_fun where
  "cmdShare sh now args w =
     (case args of
        [] \<Rightarrow> cmdShareHelp w
      | sub # rest \<Rightarrow>
        if sub = ''add'' then cmdShareAdd sh now rest w
        else if sub = ''remove'' \<or> sub = ''rm'' then cmdShareRemove sh now rest w
        else if sub = ''add-link'' then cmdShareAddLink sh now rest w
        else if sub = ''remove-link'' then cmdShareRemoveLink sh now rest w
        else if sub = ''set-public'' then cmdShareSetPublic True sh now rest w
        else if sub = ''set-private'' then cmdShareSetPublic False sh now rest w
        else if sub = ''show'' \<or> sub = ''list'' \<or> sub = ''ls'' then cmdShareList sh now rest w
        else if sub = ''cname'' then cmdShareCname sh now rest w
        else if sub = ''cname-verify'' then cmdShareCnameVerify sh now rest w
        else if sub = ''cname-rm'' then cmdShareCnameRm sh now rest w
        else if sub = ''help'' then cmdShareHelp w
        else (Failed (Msg (''unknown share subcommand '' @ go_quote sub @ ''. try: share help'')), w))"

subsection \<open>llm-key\<close>

definition cmdLLMKeyHelp :: "world \<Rightarrow> outcome \<times> world" where
  "cmdLLMKeyHelp w =
     (Done, writelns
       ['''', ''  '' @ esc ''1'' @ ''llm-key'' @ esc ''0'' @ '' -- manage your LLM API keys'', '''',
        ''    llm-key set <provider> <key>   store an API key'', ''    llm-key list                   show configured providers'',
        ''    llm-key rm <provider>          remove an API key'', '''', ''  supported providers: anthropic, openai, fireworks'',
        ''  self-hosted (ollama, vllm) don't need keys.'', ''''] w)"

text \<open>The nonce is drawn when the gateway comes to encrypt the key.\<close>

definition set_user_key :: "Shell \<Rightarrow> nanos \<Rightarrow> llm_gateway \<Rightarrow> string \<Rightarrow> string \<Rightarrow> world \<Rightarrow> (shell_error + unit) \<times> world" where
  "set_user_key sh now g provider key w =
     (let store = (\<lambda>nonce w. case db_write (SetUserKey now nonce (u_ID (sh_user sh)) provider key g) w of
                     (Inl e, w) \<Rightarrow> (Inl (DbErr ''store key'' e), w) | (Inr _, w) \<Rightarrow> (Inr (), w)) in
      if lg_encryptor g = None \<or> lg_providers g provider = None then store '''' w
      else case rand_read sh NonceSize w of
        (Inl e, w) \<Rightarrow> (Inl (Msg (''store key: encrypt key: generate nonce: '' @ e)), w)
      | (Inr nonce, w) \<Rightarrow> store nonce w)"

definition cmdLLMKeySet :: command_fun where
  "cmdLLMKeySet sh now args w =
     (case args of
        arg # key # _ \<Rightarrow>
          let provider = ToLower arg in
          if provider \<notin> {''anthropic'', ''openai'', ''fireworks''}
          then (Failed (Msg (''unknown BYOK provider '' @ go_quote provider @ ''. Supported: anthropic, openai, fireworks'')), w)
          else if key = '''' then (Failed (Msg ''API key must not be empty''), w)
          else (case gw_LLMGateway (sh_gw sh) of
            None \<Rightarrow> (Failed (Msg ''LLM gateway not configured on this server''), w)
          | Some g \<Rightarrow>
            (case set_user_key sh now g provider key w of
               (Inl e, w) \<Rightarrow> (Failed e, w)
             | (Inr _, w) \<Rightarrow>
               (Done, writelns [''  API key for '' @ provider @ '' stored successfully.'',
                                ''  Your VMs can now use /gateway/llm/'' @ provider] w)))
      | _ \<Rightarrow> (Failed (Msg ''usage: llm-key set <provider> <key>''), w))"

definition cmdLLMKeyList :: command_fun where
  "cmdLLMKeyList sh now args w =
     (case LLMKeyProvidersByUser (u_ID (sh_user sh)) (w_db w) of
        Inl e \<Rightarrow> (Failed (DbErr ''list keys'' e), w)
      | Inr providers \<Rightarrow>
        if providers = [] then
          (Done, writelns [''  no LLM API keys configured.'', ''  use 'llm-key set <provider> <key>' to add one.''] w)
        else
          (Done, writelns
             (['''', ''  configured LLM providers:'', ''''] @ map (\<lambda>p. ''    - '' @ p) providers @
              ['''', ''  (keys are stored encrypted; use 'llm-key rm <provider>' to remove)'', '''']) w))"

definition cmdLLMKeyRemove :: command_fun where
  "cmdLLMKeyRemove sh now args w =
     (case args of
        [] \<Rightarrow> (Failed (Msg ''usage: llm-key rm <provider>''), w)
      | arg # _ \<Rightarrow>
        let provider = ToLower arg in
        (case db_write (DeleteLLMKey (u_ID (sh_user sh)) provider) w of
           (Inl e, w) \<Rightarrow> (Failed (DbErr ''remove key'' e), w)
         | (Inr _, w) \<Rightarrow> (Done, writeln (''  removed API key for '' @ provider @ ''.'') w)))"

definition cmdLLMKey :: command_fun where
  "cmdLLMKey sh now args w =
     (case args of
        [] \<Rightarrow> cmdLLMKeyHelp w
      | sub # rest \<Rightarrow>
        if sub = ''set'' then cmdLLMKeySet sh now rest w
        else if sub = ''list'' \<or> sub = ''ls'' then cmdLLMKeyList sh now rest w
        else if sub = ''remove'' \<or> sub = ''rm'' then cmdLLMKeyRemove sh now rest w
        else if sub = ''help'' then cmdLLMKeyHelp w
        else (Failed (Msg (''unknown llm-key subcommand '' @ go_quote sub @ ''. try: llm-key help'')), w))"

subsection \<open>admin\<close>

definition cmdAdminHelp :: "world \<Rightarrow> outcome \<times> world" where
  "cmdAdminHelp w =
     (Done, writelns
       ['''', ''  '' @ esc ''1'' @ ''admin'' @ esc ''0'' @ '' -- admin-only commands'', '''',
        ''    admin set-trust <handle> <level>   set user trust level'', '''',
        ''  trust levels: newbie, citizen, operator, admin'', ''''] w)"

definition cmdAdminSetTrust :: command_fun where
  "cmdAdminSetTrust sh now args w =
     (case args of
        handle # arg # _ \<Rightarrow>
          let level = ToLower arg in
          if \<not> IsValidTrustLevel level
          then (Failed (Msg (''invalid trust level '' @ go_quote level @ ''. valid levels: newbie, citizen, operator, admin'')), w)
          else (case UserByHandle handle (w_db w) of
            Inl e \<Rightarrow> (Failed (if e = ErrNoRows then Msg (''no user named '' @ go_quote handle) else DbErr ''lookup user'' e), w)
          | Inr target \<Rightarrow>
            (case db_write (SetUserTrustLevel now (u_ID target) level) w of
               (Inl e, w) \<Rightarrow> (Failed (DbErr ''set trust level'' e), w)
             | (Inr _, w) \<Rightarrow> (Done, writeln (''  '' @ handle @ '': '' @ u_TrustLevel target @ '' -> '' @ level) w)))
      | _ \<Rightarrow> (Failed (Msg ''usage: admin set-trust <handle> <level>''), w))"

definition cmdAdmin :: command_fun where
  "cmdAdmin sh now args w =
     (if u_TrustLevel (sh_user sh) \<noteq> ''admin''
      then (Failed (Msg ''permission denied: admin commands require admin trust level''), w)
      else case args of
        [] \<Rightarrow> cmdAdminHelp w
      | sub # rest \<Rightarrow>
        if sub = ''set-trust'' then cmdAdminSetTrust sh now rest w
        else if sub = ''help'' then cmdAdminHelp w
        else (Failed (Msg (''unknown admin subcommand '' @ go_quote sub @ ''. try: admin help'')), w))"

subsection \<open>browser.go\<close>

definition generateMagicToken :: "Shell \<Rightarrow> world \<Rightarrow> (string + string) \<times> world" where
  "generateMagicToken sh w =
     (case rand_read sh 32 w of
        (Inl e, w) \<Rightarrow> (Inl (''read random bytes: '' @ e), w)
      | (Inr b, w) \<Rightarrow> (Inr (RawURL_encode b), w))"

text \<open>The characters U+2588 and U+2591.\<close>

definition full_block :: string where "full_block = [CHR 0xE2, CHR 0x96, CHR 0x88]"
definition light_shade :: string where "light_shade = [CHR 0xE2, CHR 0x96, CHR 0x91]"

definition renderASCIIQR :: "string \<Rightarrow> world \<Rightarrow> world" where
  "renderASCIIQR url w =
     (let width = max (length url + 6) 40;
          topBar = ''  '' @ concat (map (\<lambda>i. if i mod 2 = 0 then full_block else light_shade) [0..<width]) in
      writelns
        [''  '' @ colored ''1'' ''QR Code (simplified):'', '''', topBar,
         ''  '' @ full_block @ light_shade @ '' '' @ colored ''36'' url @ replicate (width - length url - 4) CHR '' '' @
           light_shade @ full_block,
         topBar, '''',
         ''  '' @ esc ''33'' @ ''Note: For a scannable QR code, use a QR generator with the URL above.'' @ esc ''0'',
        ''  '' @ esc ''33'' @ ''Full QR rendering is planned for a future release.'' @ esc ''0'', ''''] w)"

definition cmdBrowser :: command_fun where
  "cmdBrowser sh now args w =
     (case generateMagicToken sh w of
        (Inl e, w) \<Rightarrow> (Failed (Msg (''generate token: '' @ e)), w)
      | (Inr token, w) \<Rightarrow>
        (case db_write (CreateMagicToken (u_ID (sh_user sh)) token (now + 5 * minute)) w of
           (Inl e, w) \<Rightarrow> (Failed (DbErr ''store token'' e), w)
         | (Inr _, w) \<Rightarrow>
           let url = ''https://'' @ gw_domain (sh_gw sh) @ ''/__auth/magic/'' @ token;
               w = writelns
                 ['''', ''  '' @ colored ''1'' ''Browser Access'', '''', ''  Open this URL in your browser:'', '''',
                  ''    '' @ colored ''36'' url, '''',
                  ''  This link expires in 5 minutes and can only be used once.'', ''''] w
           in (Done, if hasArgFlag args ''--qr'' then renderASCIIQR url w else w)))"

subsection \<open>community.go\<close>

definition cmdCommunity :: command_fun where
  "cmdCommunity sh now args w =
     (let u = sh_user sh; d = w_db w;
          running = or_else 0 (RunningVMCountByUser (u_ID u) d); total = or_else 0 (VMCountByUser (u_ID u) d);
          arena_lines =
            (case GetArenaELO (u_ID u) d of
               Inl _ \<Rightarrow> [''  arena rating:  1200 (unranked)'', ''  arena record:  0W / 0L / 0D'']
             | Inr elo \<Rightarrow>
               let rank = or_else 0 (GetArenaRank (u_ID u) d) in
               [''  arena rating:  '' @ dec (ae_Rating elo) @
                  (if rank = 0 then '' (unranked)'' else '' (rank #'' @ dec rank @ '')''),
                ''  arena record:  '' @ dec (ae_Wins elo) @ ''W / '' @ dec (ae_Losses elo) @ ''L / '' @ dec (ae_Draws elo) @ ''D''])
      in (Done, writelns
            (['''',
        ''  '' @ esc ''35'' @ [CHR 0xE2, CHR 0x95, CHR 0x94, CHR 0xE2, CHR 0x95, CHR 0x90, CHR 0xE2, CHR 0x95, CHR 0x90, CHR 0xE2, CHR 0x95, CHR 0x90, CHR 0xE2, CHR 0x95, CHR 0x90, CHR 0xE2, CHR 0x95, CHR 0x90, CHR 0xE2, CHR 0x95, CHR 0x90, CHR 0xE2, CHR 0x95, CHR 0x90, CHR 0xE2, CHR 0x95, CHR 0x90, CHR 0xE2, CHR 0x95, CHR 0x90, CHR 0xE2, CHR 0x95, CHR 0x90, CHR 0xE2, CHR 0x95, CHR 0x90, CHR 0xE2, CHR 0x95, CHR 0x90, CHR 0xE2, CHR 0x95, CHR 0x90, CHR 0xE2, CHR 0x95, CHR 0x90, CHR 0xE2, CHR 0x95, CHR 0x90, CHR 0xE2, CHR 0x95, CHR 0x90, CHR 0xE2, CHR 0x95, CHR 0x90, CHR 0xE2, CHR 0x95, CHR 0x90, CHR 0xE2, CHR 0x95, CHR 0x90, CHR 0xE2, CHR 0x95, CHR 0x90, CHR 0xE2, CHR 0x95, CHR 0x90, CHR 0xE2, CHR 0x95, CHR 0x90, CHR 0xE2, CHR 0x95, CHR 0x90, CHR 0xE2, CHR 0x95, CHR 0x90, CHR 0xE2, CHR 0x95, CHR 0x90, CHR 0xE2, CHR 0x95, CHR 0x90, CHR 0xE2, CHR 0x95, CHR 0x90, CHR 0xE2, CHR 0x95, CHR 0x90, CHR 0xE2, CHR 0x95, CHR 0x90, CHR 0xE2, CHR 0x95, CHR 0x90, CHR 0xE2, CHR 0x95, CHR 0x90, CHR 0xE2, CHR 0x95, CHR 0x90, CHR 0xE2, CHR 0x95, CHR 0x90, CHR 0xE2, CHR 0x95, CHR 0x90, CHR 0xE2, CHR 0x95, CHR 0x90, CHR 0xE2, CHR 0x95, CHR 0x90, CHR 0xE2, CHR 0x95, CHR 0x90, CHR 0xE2, CHR 0x95, CHR 0x90, CHR 0xE2, CHR 0x95, CHR 0x90, CHR 0xE2, CHR 0x95, CHR 0x90, CHR 0xE2, CHR 0x95, CHR 0x90, CHR 0xE2, CHR 0x95, CHR 0x90, CHR 0xE2, CHR 0x95, CHR 0x90, CHR 0xE2, CHR 0x95, CHR 0x90, CHR 0xE2, CHR 0x95, CHR 0x90, CHR 0xE2, CHR 0x95, CHR 0x90, CHR 0xE2, CHR 0x95, CHR 0x90, CHR 0xE2, CHR 0x95, CHR 0x90, CHR 0xE2, CHR 0x95, CHR 0x90, CHR 0xE2, CHR 0x95, CHR 0x90, CHR 0xE2, CHR 0x95, CHR 0x90, CHR 0xE2, CHR 0x95, CHR 0x90, CHR 0xE2, CHR 0x95, CHR 0x90, CHR 0xE2, CHR 0x95, CHR 0x90, CHR 0xE2, CHR 0x95, CHR 0x97] @ esc ''0'',
        ''  '' @ esc ''35'' @ [CHR 0xE2, CHR 0x95, CHR 0x91] @ esc ''0'' @ ''                                                      '' @ esc ''35'' @ [CHR 0xE2, CHR 0x95, CHR 0x91] @ esc ''0'',
        ''  '' @ esc ''35'' @ [CHR 0xE2, CHR 0x95, CHR 0x91] @ esc ''0'' @ ''   '' @ esc ''1'' @ esc ''35'' @ ''welcome to the ussyverse'' @ esc ''0'' @ ''                           '' @ esc ''35'' @ [CHR 0xE2, CHR 0x95, CHR 0x91] @ esc ''0'',
        ''  '' @ esc ''35'' @ [CHR 0xE2, CHR 0x95, CHR 0x91] @ esc ''0'' @ ''                                                      '' @ esc ''35'' @ [CHR 0xE2, CHR 0x95, CHR 0x91] @ esc ''0'',
        ''  '' @ esc ''35'' @ [CHR 0xE2, CHR 0x95, CHR 0x91] @ esc ''0'' @ ''   the ussyverse is one developer's ever-expanding     '' @ esc ''35'' @ [CHR 0xE2, CHR 0x95, CHR 0x91] @ esc ''0'',
        ''  '' @ esc ''35'' @ [CHR 0xE2, CHR 0x95, CHR 0x91] @ esc ''0'' @ ''   universe of open-source experiments, built in       '' @ esc ''35'' @ [CHR 0xE2, CHR 0x95, CHR 0x91] @ esc ''0'',
        ''  '' @ esc ''35'' @ [CHR 0xE2, CHR 0x95, CHR 0x91] @ esc ''0'' @ ''   public with an absurd naming convention and a       '' @ esc ''35'' @ [CHR 0xE2, CHR 0x95, CHR 0x91] @ esc ''0'',
        ''  '' @ esc ''35'' @ [CHR 0xE2, CHR 0x95, CHR 0x91] @ esc ''0'' @ ''   genuine obsession with making AI agents that        '' @ esc ''35'' @ [CHR 0xE2, CHR 0x95, CHR 0x91] @ esc ''0'',
        ''  '' @ esc ''35'' @ [CHR 0xE2, CHR 0x95, CHR 0x91] @ esc ''0'' @ ''   actually work.                                      '' @ esc ''35'' @ [CHR 0xE2, CHR 0x95, CHR 0x91] @ esc ''0'',
        ''  '' @ esc ''35'' @ [CHR 0xE2, CHR 0x95, CHR 0x91] @ esc ''0'' @ ''                                                      '' @ esc ''35'' @ [CHR 0xE2, CHR 0x95, CHR 0x91] @ esc ''0'',
        ''  '' @ esc ''35'' @ [CHR 0xE2, CHR 0x95, CHR 0x91] @ esc ''0'' @ ''   created by '' @ esc ''1'' @ ''Kyle Durepos'' @ esc ''0'' @ '' & '' @ esc ''1'' @ ''shuv'' @ esc ''0'' @ ''                     '' @ esc ''35'' @ [CHR 0xE2, CHR 0x95, CHR 0x91] @ esc ''0'',
        ''  '' @ esc ''35'' @ [CHR 0xE2, CHR 0x95, CHR 0x91] @ esc ''0'' @ ''                                                      '' @ esc ''35'' @ [CHR 0xE2, CHR 0x95, CHR 0x91] @ esc ''0'',
        ''  '' @ esc ''35'' @ [CHR 0xE2, CHR 0x95, CHR 0x91] @ esc ''0'' @ ''   '' @ esc ''36'' @ ''https://ussy.host'' @ esc ''0'' @ ''                                  '' @ esc ''35'' @ [CHR 0xE2, CHR 0x95, CHR 0x91] @ esc ''0'',
        ''  '' @ esc ''35'' @ [CHR 0xE2, CHR 0x95, CHR 0x91] @ esc ''0'' @ ''   '' @ esc ''36'' @ ''https://discord.gg/6b2Ej3rS3q'' @ esc ''0'' @ ''                      '' @ esc ''35'' @ [CHR 0xE2, CHR 0x95, CHR 0x91] @ esc ''0'',
        ''  '' @ esc ''35'' @ [CHR 0xE2, CHR 0x95, CHR 0x91] @ esc ''0'' @ ''   '' @ esc ''36'' @ ''https://github.com/mojomast'' @ esc ''0'' @ ''                         '' @ esc ''35'' @ [CHR 0xE2, CHR 0x95, CHR 0x91] @ esc ''0'',
        ''  '' @ esc ''35'' @ [CHR 0xE2, CHR 0x95, CHR 0x91] @ esc ''0'' @ ''                                                      '' @ esc ''35'' @ [CHR 0xE2, CHR 0x95, CHR 0x91] @ esc ''0'',
        ''  '' @ esc ''35'' @ [CHR 0xE2, CHR 0x95, CHR 0x91] @ esc ''0'' @ ''   every project ships open source under MIT.          '' @ esc ''35'' @ [CHR 0xE2, CHR 0x95, CHR 0x91] @ esc ''0'',
        ''  '' @ esc ''35'' @ [CHR 0xE2, CHR 0x95, CHR 0x91] @ esc ''0'' @ ''                                                      '' @ esc ''35'' @ [CHR 0xE2, CHR 0x95, CHR 0x91] @ esc ''0'',
        ''  '' @ esc ''35'' @ [CHR 0xE2, CHR 0x95, CHR 0x9A, CHR 0xE2, CHR 0x95, CHR 0x90, CHR 0xE2, CHR 0x95, CHR 0x90, CHR 0xE2, CHR 0x95, CHR 0x90, CHR 0xE2, CHR 0x95, CHR 0x90, CHR 0xE2, CHR 0x95, CHR 0x90, CHR 0xE2, CHR 0x95, CHR 0x90, CHR 0xE2, CHR 0x95, CHR 0x90, CHR 0xE2, CHR 0x95, CHR 0x90, CHR 0xE2, CHR 0x95, CHR 0x90, CHR 0xE2, CHR 0x95, CHR 0x90, CHR 0xE2, CHR 0x95, CHR 0x90, CHR 0xE2, CHR 0x95, CHR 0x90, CHR 0xE2, CHR 0x95, CHR 0x90, CHR 0xE2, CHR 0x95, CHR 0x90, CHR 0xE2, CHR 0x95, CHR 0x90, CHR 0xE2, CHR 0x95, CHR 0x90, CHR 0xE2, CHR 0x95, CHR 0x90, CHR 0xE2, CHR 0x95, CHR 0x90, CHR 0xE2, CHR 0x95, CHR 0x90, CHR 0xE2, CHR 0x95, CHR 0x90, CHR 0xE2, CHR 0x95, CHR 0x90, CHR 0xE2, CHR 0x95, CHR 0x90, CHR 0xE2, CHR 0x95, CHR 0x90, CHR 0xE2, CHR 0x95, CHR 0x90, CHR 0xE2, CHR 0x95, CHR 0x90, CHR 0xE2, CHR 0x95, CHR 0x90, CHR 0xE2, CHR 0x95, CHR 0x90, CHR 0xE2, CHR 0x95, CHR 0x90, CHR 0xE2, CHR 0x95, CHR 0x90, CHR 0xE2, CHR 0x95, CHR 0x90, CHR 0xE2, CHR 0x95, CHR 0x90, CHR 0xE2, CHR 0x95, CHR 0x90, CHR 0xE2, CHR 0x95, CHR 0x90, CHR 0xE2, CHR 0x95, CHR 0x90, CHR 0xE2, CHR 0x95, CHR 0x90, CHR 0xE2, CHR 0x95, CHR 0x90, CHR 0xE2, CHR 0x95, CHR 0x90, CHR 0xE2, CHR 0x95, CHR 0x90, CHR 0xE2, CHR 0x95, CHR 0x90, CHR 0xE2, CHR 0x95, CHR 0x90, CHR 0xE2, CHR 0x95, CHR 0x90, CHR 0xE2, CHR 0x95, CHR 0x90, CHR 0xE2, CHR 0x95, CHR 0x90, CHR 0xE2, CHR 0x95, CHR 0x90, CHR 0xE2, CHR 0x95, CHR 0x90, CHR 0xE2, CHR 0x95, CHR 0x90, CHR 0xE2, CHR 0x95, CHR 0x90, CHR 0xE2, CHR 0x95, CHR 0x90, CHR 0xE2, CHR 0x95, CHR 0x90, CHR 0xE2, CHR 0x95, CHR 0x90, CHR 0xE2, CHR 0x95, CHR 0x90, CHR 0xE2, CHR 0x95, CHR 0x90, CHR 0xE2, CHR 0x95, CHR 0x90, CHR 0xE2, CHR 0x95, CHR 0x90, CHR 0xE2, CHR 0x95, CHR 0x9D] @ esc ''0'',
        '''', ''  '' @ esc ''1'' @ ''=== YOUR STATS ==='' @ esc ''0'', ''''] @
             [''  vms:           '' @ dec running @ '' running / '' @ dec total @ '' total''] @ arena_lines @
             [''  member since:  '' @ format_long_date (u_CreatedAt u), ''  trust level:   '' @ u_TrustLevel u, ''''] @
             [''  '' @ esc ''1'' @ ''=== USSYVERSE PROJECTS ==='' @ esc ''0'', '''',
        ''  '' @ esc ''33'' @ ''ussycode'' @ esc ''0'' @ ''        self-hosted dev environments (you are here)'',
        ''  '' @ esc ''33'' @ ''geoffrussy'' @ esc ''0'' @ ''      AI dev orchestrator'',
        ''  '' @ esc ''33'' @ ''battlebussy'' @ esc ''0'' @ ''     autonomous CTF & agent competition'',
        ''  '' @ esc ''33'' @ ''openclawssy'' @ esc ''0'' @ ''     security-first agent runtime'',
        ''  '' @ esc ''33'' @ ''ragussy'' @ esc ''0'' @ ''         self-hosted RAG chatbot'',
        ''  '' @ esc ''33'' @ ''swarmussy'' @ esc ''0'' @ ''       multi-agent orchestration'', '''',
        ''  try: '' @ esc ''36'' @ ''new --template=geoffrussy'' @ esc ''0'' @ '' to spin up an agent environment'', ''''] @
             [''  '' @ colored ''90'' ''built for the ussyverse. MIT licensed. ship it.'', '''']) w))"

end
