(* ===== verification/Shell_Arena.thy ===== *)
theory Shell_Arena
  imports Shell_Core Complex_Main
begin

section \<open>Shell commands of the arena\<close>

text \<open>
  \<^verbatim>\<open>internal/ssh/arena.go\<close>: matches, the leaderboard and the ELO ratings. Ratings are
  computed with real numbers where the code has \<^verbatim>\<open>float64\<close>. Scenario files, their JSON and the
  directory of templates are parameters of the gateway.
\<close>

definition cmdArenaHelp :: "world \<Rightarrow> outcome \<times> world" where
  "cmdArenaHelp w =
     (Done, writelns
       ['''', ''  '' @ esc ''1'' @ ''arena'' @ esc ''0'' @ '' -- CTF & agent competition'', '''',
        ''    arena create-match --agents=<n> --scenario=<name>'', ''                       create a new match'',
        ''    arena join <match-id>'', ''                       join an existing match'', ''    arena spectate <match-id>'',
        ''                       watch a match (read-only)'', ''    arena leaderboard  show ELO rankings'',
        ''    arena list         list active matches'', ''    arena history      show your past match results'', '''',
        ''  '' @ esc ''33'' @ ''scenarios:'' @ esc ''0'' @ '' web-exploit, code-review'', ''''] w)"

definition generateMatchID :: "Shell \<Rightarrow> world \<Rightarrow> (string + string) \<times> world" where
  "generateMatchID sh w =
     (case rand_read sh 6 w of (Inl e, w) \<Rightarrow> (Inl e, w) | (Inr b, w) \<Rightarrow> (Inr (''m-'' @ hex_string b), w))"

text \<open>The first file that can be read decides.\<close>

definition loadArenaScenario :: "outside \<Rightarrow> string \<Rightarrow> string + ArenaScenario" where
  "loadArenaScenario ot name =
     (let searchPaths = [Join [''templates'', ''arena'', name, ''scenario.json''],
                         Join [''/etc/ussycode/templates/arena'', name, ''scenario.json'']] in
      case List.map_filter (ot_ReadFile ot) searchPaths of
        [] \<Rightarrow> Inl (''scenario '' @ go_quote name @ '' not found'')
      | data # _ \<Rightarrow>
        (case ot_scenario_json ot data of
           Inl e \<Rightarrow> Inl (''parse scenario '' @ name @ '': '' @ e)
         | Inr sc \<Rightarrow> Inr sc))"

fun scenarios_in :: "outside \<Rightarrow> string list \<Rightarrow> string list" where
  "scenarios_in ot [] = []"
| "scenarios_in ot (dir # dirs) =
     (case ot_ReadDir ot dir of
        None \<Rightarrow> scenarios_in ot dirs
      | Some entries \<Rightarrow>
        let found = map fst (filter (\<lambda>(name, isDir). isDir \<and> ot_Stat ot (Join [dir, name, ''scenario.json''])) entries)
        in if found \<noteq> [] then found else scenarios_in ot dirs)"

definition listAvailableScenarios :: "outside \<Rightarrow> string list" where
  "listAvailableScenarios ot = scenarios_in ot [Join [''templates'', ''arena''], ''/etc/ussycode/templates/arena'']"

text \<open>The flags of \<^verbatim>\<open>create-match\<close>, from left to right; \<^const>\<open>None\<close> is a bad number of agents.\<close>

fun create_flags :: "string list \<Rightarrow> int \<Rightarrow> string \<Rightarrow> (int \<times> string) option" where
  "create_flags [] agents scenario = Some (agents, scenario)"
| "create_flags (a # args) agents scenario =
     (if HasPrefix a ''--agents='' then
        (case Sscanf_d (TrimPrefix a ''--agents='') of
           None \<Rightarrow> None
         | Some n \<Rightarrow> if n < 2 \<or> n > 10 then None else create_flags args n scenario)
      else if HasPrefix a ''--scenario='' then create_flags args agents (TrimPrefix a ''--scenario='')
      else create_flags args agents scenario)"

definition cmdArenaCreateMatch :: command_fun where
  "cmdArenaCreateMatch sh now args w =
     (let ot = gw_outside (sh_gw sh); uid = u_ID (sh_user sh) in
      case create_flags args 2 '''' of
        None \<Rightarrow> (Failed (Msg ''--agents must be between 2 and 10''), w)
      | Some (agents, scenario) \<Rightarrow>
        if scenario = '''' then
          (Failed (Msg (''usage: arena create-match --scenario=<name> [--agents=<n>]'' @ [CHR 0x0A] @
             ''  available scenarios: '' @ Join_strings (listAvailableScenarios ot) '', '')), w)
        else case loadArenaScenario ot scenario of
          Inl e \<Rightarrow> (Failed (Msg (''load scenario: '' @ e)), w)
        | Inr sc \<Rightarrow>
          let agents = (if as_MaxAgents sc > 0 \<and> agents > as_MaxAgents sc then as_MaxAgents sc else agents) in
          (case generateMatchID sh w of
             (Inl e, w) \<Rightarrow> (Failed (Msg (''generate match ID: '' @ e)), w)
           | (Inr matchID, w) \<Rightarrow>
             (case db_write (CreateArenaMatch now matchID scenario agents uid) w of
                (Inl e, w) \<Rightarrow> (Failed (DbErr ''create match'' e), w)
              | (Inr m, w) \<Rightarrow>
                (case db_write (JoinArenaMatch now matchID uid) w of
                   (Inl e, w) \<Rightarrow> (Failed (DbErr ''auto-join match'' e), w)
                 | (Inr _, w) \<Rightarrow>
                   (Done, writelns
                      ['''', ''  '' @ colored ''32'' ''match created!'', '''', ''  match id:  '' @ am_MatchID m,
                       ''  scenario:  '' @ as_Name sc @ '' ('' @ as_Description sc @ '')'',
                       ''  agents:    1/'' @ dec agents @ '' (waiting for opponents)'',
                       ''  duration:  '' @ dec (as_DurationMinutes sc) @ '' min'', '''',
                       ''  share this to invite others:'', ''    arena join '' @ am_MatchID m, ''''] w)))))"

text \<open>The checks of \<^verbatim>\<open>join\<close>: the match and the number of its participants.\<close>

definition joinable :: "Shell \<Rightarrow> string \<Rightarrow> db \<Rightarrow> shell_error + arena_match \<times> int" where
  "joinable sh matchID d =
     (case GetArenaMatch matchID d of
        Inl e \<Rightarrow> Inl (if e = ErrNoRows then Msg (''match '' @ go_quote matchID @ '' not found'') else DbErr ''lookup match'' e)
      | Inr m \<Rightarrow>
        if am_Status m \<noteq> ''waiting''
        then Inl (Msg (''match '' @ matchID @ '' is '' @ am_Status m @ '' (can only join 'waiting' matches)''))
        else (case IsArenaParticipant matchID (u_ID (sh_user sh)) d of
          Inl e \<Rightarrow> Inl (DbErr ''check participation'' e)
        | Inr already \<Rightarrow>
          if already then Inl (Msg (''you already joined match '' @ matchID))
          else (case ArenaParticipantCount matchID d of
            Inl e \<Rightarrow> Inl (DbErr ''count participants'' e)
          | Inr count \<Rightarrow>
            if count \<ge> am_MaxAgents m
            then Inl (Msg (''match '' @ matchID @ '' is full ('' @ dec count @ ''/'' @ dec (am_MaxAgents m) @ '' agents)''))
            else Inr (m, count))))"

definition cmdArenaJoin :: command_fun where
  "cmdArenaJoin sh now args w =
     (case args of
        [] \<Rightarrow> (Failed (Msg ''usage: arena join <match-id>''), w)
      | matchID # _ \<Rightarrow>
        (case joinable sh matchID (w_db w) of
           Inl e \<Rightarrow> (Failed e, w)
         | Inr (m, count) \<Rightarrow>
           (case db_write (JoinArenaMatch now matchID (u_ID (sh_user sh))) w of
              (Inl e, w) \<Rightarrow> (Failed (DbErr ''join match'' e), w)
            | (Inr _, w) \<Rightarrow>
              let count = count + 1; missing = am_MaxAgents m - count;
                  w = writelns
                    ['''', ''  '' @ colored ''32'' (''joined match '' @ matchID @ ''!''), ''  scenario:  '' @ am_Scenario m,
                     ''  agents:    '' @ dec count @ ''/'' @ dec (am_MaxAgents m)] w in
              if count \<ge> am_MaxAgents m then
                (Done, writeln '''' (snd (db_write (UpdateArenaMatchStatus now matchID ''running'')
                   (writeln (''  '' @ colored ''33'' ''match is full -- starting soon!'') w))))
              else
                (Done, writelns [''  waiting for '' @ dec missing @ '' more agent'' @ plural missing @ ''...'', ''''] w))))"

definition colorMatchStatus :: "string \<Rightarrow> string" where
  "colorMatchStatus status =
     (if status = ''waiting'' then colored ''33'' status else if status = ''running'' then colored ''32'' status
      else if status = ''completed'' then colored ''36'' status else if status = ''cancelled'' then colored ''31'' status
      else status)"

definition colorParticipantStatus :: "string \<Rightarrow> string" where
  "colorParticipantStatus status =
     (if status = ''joined'' then colored ''33'' status else if status = ''ready'' then colored ''36'' status
      else if status = ''playing'' then colored ''32'' status else if status = ''finished'' then colored ''35'' status
      else if status = ''disconnected'' then colored ''31'' status else status)"

definition handle_or_unknown :: "int \<Rightarrow> db \<Rightarrow> string" where
  "handle_or_unknown uid d = (case UserByID uid d of Inl _ \<Rightarrow> ''unknown'' | Inr u \<Rightarrow> u_Handle u)"

definition agent_row :: "string \<Rightarrow> string \<Rightarrow> string \<Rightarrow> string" where
  "agent_row agent status score = ''  '' @ pad_right 16 agent @ '' '' @ pad_right 10 status @ '' '' @ pad_left 6 score"

definition cmdArenaSpectate :: command_fun where
  "cmdArenaSpectate sh now args w =
     (case args of
        [] \<Rightarrow> (Failed (Msg ''usage: arena spectate <match-id>''), w)
      | matchID # _ \<Rightarrow>
        (case GetArenaMatch matchID (w_db w) of
           Inl e \<Rightarrow>
             (Failed (if e = ErrNoRows then Msg (''match '' @ go_quote matchID @ '' not found'') else DbErr ''lookup match'' e), w)
         | Inr m \<Rightarrow>
           (case ListArenaParticipants matchID (w_db w) of
              Inl e \<Rightarrow> (Failed (DbErr ''list participants'' e), w)
            | Inr ps \<Rightarrow>
              (Done, writelns
                 (['''', ''  '' @ colored ''1'' (''=== SPECTATING: '' @ matchID @ '' ===''), '''',
                   ''  scenario: '' @ am_Scenario m, ''  status:   '' @ colorMatchStatus (am_Status m), ''''] @
                  (if ps = [] then [''  no participants yet.'']
                   else [agent_row ''AGENT'' ''STATUS'' ''SCORE'', agent_row (box_line 5) (box_line 6) (box_line 5)] @
                     map (\<lambda>p. agent_row (handle_or_unknown (ap_UserID p) (w_db w)) (colorParticipantStatus (ap_Status p))
                                (dec (ap_Score p))) ps) @
                  ['''', ''  (spectate mode is read-only)'', '''']) w))))"

text \<open>\<^verbatim>\<open>json.Marshal\<close> of the structs; a nil slice is \<^verbatim>\<open>null\<close>, a missing time the zero time.\<close>

definition time_json :: "sqlite_time \<Rightarrow> json" where
  "time_json t = JStr (case t of None \<Rightarrow> ''0001-01-01T00:00:00Z'' | Some s \<Rightarrow> format_RFC3339 s)"

definition slice_json :: "json list \<Rightarrow> json" where "slice_json js = (if js = [] then JNull else JArr js)"

definition elo_json :: "arena_elo \<Rightarrow> json" where
  "elo_json e =
     JObj [(''UserID'', JNum (ae_UserID e)), (''Rating'', JNum (ae_Rating e)), (''Wins'', JNum (ae_Wins e)),
           (''Losses'', JNum (ae_Losses e)), (''Draws'', JNum (ae_Draws e)), (''LastMatchAt'', time_json (ae_LastMatchAt e))]"

definition match_json :: "arena_match \<Rightarrow> json" where
  "match_json m =
     JObj [(''ID'', JNum (am_ID m)), (''MatchID'', JStr (am_MatchID m)), (''Scenario'', JStr (am_Scenario m)),
           (''Status'', JStr (am_Status m)), (''MaxAgents'', JNum (am_MaxAgents m)), (''CreatedBy'', JNum (am_CreatedBy m)),
           (''StartedAt'', time_json (am_StartedAt m)), (''CompletedAt'', time_json (am_CompletedAt m)),
           (''CreatedAt'', time_json (Some (am_CreatedAt m)))]"

definition board_row :: "string list \<Rightarrow> string" where
  "board_row xs =
     ''  '' @ pad_right 4 (xs ! 0) @ ''  '' @ pad_right 16 (xs ! 1) @ ''  '' @ pad_left 6 (xs ! 2) @ ''  '' @
     pad_left 4 (xs ! 3) @ ''  '' @ pad_left 4 (xs ! 4) @ ''  '' @ pad_left 4 (xs ! 5)"

definition rank_str :: "nat \<Rightarrow> string" where
  "rank_str i =
     (if i = 0 then colored ''33'' ''#1'' else if i = 1 then colored ''37'' ''#2'' else if i = 2 then colored ''31'' ''#3''
      else ''#'' @ dec (int i + 1))"

definition cmdArenaLeaderboard :: command_fun where
  "cmdArenaLeaderboard sh now args w =
     (case GetArenaLeaderboard 25 (w_db w) of
        Inl e \<Rightarrow> (Failed (DbErr ''get leaderboard'' e), w)
      | Inr entries \<Rightarrow>
        if fst (hasFlag args [''--json'']) then (Done, writeJSON (slice_json (map elo_json entries)) w)
        else
          (Done, writelns
             (['''', ''  '' @ colored ''1'' ''=== ARENA LEADERBOARD ==='', ''''] @
              (if entries = [] then
                 [''  no matches played yet. be the first!'', ''  type 'arena create-match --scenario=web-exploit' to start.'']
               else
                 [board_row [''RANK'', ''PLAYER'', ''ELO'', ''W'', ''L'', ''D''],
                  board_row [box_line 4, box_line 6, box_line 3, box_line 1, box_line 1, box_line 1]] @
                 map (\<lambda>(i, e). board_row [rank_str i, handle_or_unknown (ae_UserID e) (w_db w), dec (ae_Rating e),
                                         dec (ae_Wins e), dec (ae_Losses e), dec (ae_Draws e)])
                   (enumerate 0 entries)) @ ['''']) w))"

definition match_row :: "string \<Rightarrow> string \<Rightarrow> string \<Rightarrow> string" where
  "match_row mid scenario status = ''  '' @ pad_right 14 mid @ ''  '' @ pad_right 14 scenario @ ''  '' @ pad_right 10 status @ ''  ''"

definition cmdArenaList :: command_fun where
  "cmdArenaList sh now args w =
     (case ListArenaMatches (w_db w) of
        Inl e \<Rightarrow> (Failed (DbErr ''list matches'' e), w)
      | Inr ms \<Rightarrow>
        if fst (hasFlag args [''--json'']) then (Done, writeJSON (slice_json (map match_json ms)) w)
        else
          (Done, writelns
             (['''', ''  '' @ colored ''1'' ''=== ACTIVE MATCHES ==='', ''''] @
              (if ms = [] then
                 [''  no active matches. create one:'', ''    arena create-match --scenario=web-exploit'']
               else
                 [match_row ''MATCH ID'' ''SCENARIO'' ''STATUS'' @ pad_left 7 ''AGENTS'' @ ''  CREATED'',
                  match_row (box_line 8) (box_line 8) (box_line 6) @ pad_left 7 (box_line 6) @ ''  '' @ box_line 7] @
                 map (\<lambda>m. match_row (am_MatchID m) (am_Scenario m) (colorMatchStatus (am_Status m)) @
                          pad_left 3 (dec (or_else 0 (ArenaParticipantCount (am_MatchID m) (w_db w)))) @ ''/'' @
                          pad_right 3 (dec (am_MaxAgents m)) @ ''  '' @ relativeTime now (am_CreatedAt m)) ms) @ ['''']) w))"

definition cmdArenaHistory :: command_fun where
  "cmdArenaHistory sh now args w =
     (case ListArenaMatchHistory (u_ID (sh_user sh)) (w_db w) of
        Inl e \<Rightarrow> (Failed (DbErr ''list history'' e), w)
      | Inr ms \<Rightarrow>
        if fst (hasFlag args [''--json'']) then (Done, writeJSON (slice_json (map match_json ms)) w)
        else
          (Done, writelns
             (['''', ''  '' @ colored ''1'' ''=== MATCH HISTORY ==='', ''''] @
              (if ms = [] then [''  no match history yet.'']
               else
                 [match_row ''MATCH ID'' ''SCENARIO'' ''RESULT'' @ ''PLAYED'',
                  match_row (box_line 8) (box_line 8) (box_line 6) @ box_line 6] @
                 map (\<lambda>m. match_row (am_MatchID m) (am_Scenario m) (colorMatchStatus (am_Status m)) @
                          relativeTime now (am_CreatedAt m)) ms) @ ['''']) w))"

definition cmdArena :: command_fun where
  "cmdArena sh now args w =
     (case args of
        [] \<Rightarrow> cmdArenaHelp w
      | sub # rest \<Rightarrow>
        if sub = ''create-match'' then cmdArenaCreateMatch sh now rest w
        else if sub = ''join'' then cmdArenaJoin sh now rest w
        else if sub = ''spectate'' then cmdArenaSpectate sh now rest w
        else if sub = ''leaderboard'' then cmdArenaLeaderboard sh now rest w
        else if sub = ''list'' then cmdArenaList sh now rest w
        else if sub = ''history'' then cmdArenaHistory sh now rest w
        else if sub = ''help'' then cmdArenaHelp w
        else (Failed (Msg (''unknown arena subcommand '' @ go_quote sub @ ''. try: arena help'')), w))"

subsection \<open>ELO\<close>

text \<open>\<^verbatim>\<open>math.Round\<close>: half away from zero.\<close>

definition Round :: "real \<Rightarrow> int" where
  "Round x = (if x < 0 then - \<lfloor>1 / 2 - x\<rfloor> else \<lfloor>x + 1 / 2\<rfloor>)"

definition eloKFactor :: real where "eloKFactor = 32"

definition expected_score :: "int \<Rightarrow> int \<Rightarrow> real" where
  "expected_score ratingA ratingB = 1 / (1 + 10 powr (real_of_int (ratingB - ratingA) / 400))"

definition CalculateELO :: "int \<Rightarrow> int \<Rightarrow> real \<Rightarrow> int \<times> int" where
  "CalculateELO ratingA ratingB result =
     (let newA = real_of_int ratingA + eloKFactor * (result - expected_score ratingA ratingB);
          newB = real_of_int ratingB + eloKFactor * ((1 - result) - expected_score ratingB ratingA)
      in (Round newA, Round newB))"

text \<open>A draw of all: the counters of draws. An error of one participant is only logged.\<close>

definition count_draw :: "nanos \<Rightarrow> arena_participant \<Rightarrow> db \<Rightarrow> db" where
  "count_draw now p d =
     (case GetArenaELO (ap_UserID p) d of
        Inl _ \<Rightarrow> d
      | Inr elo \<Rightarrow> snd (UpdateArenaELO now (ap_UserID p) (ae_Rating elo) (ae_Wins elo) (ae_Losses elo) (ae_Draws elo + 1) d))"

text \<open>The winner against one participant: the winner's rating so far, and the database.\<close>

definition beat :: "nanos \<Rightarrow> arena_participant \<Rightarrow> arena_participant \<Rightarrow> int \<times> db \<Rightarrow> int \<times> db" where
  "beat now winner loser s =
     (case s of (rating, d) \<Rightarrow>
        if ap_Score loser = ap_Score winner then s
        else case GetArenaELO (ap_UserID loser) d of
          Inl _ \<Rightarrow> s
        | Inr elo \<Rightarrow>
          (case CalculateELO rating (ae_Rating elo) 1 of
             (newWinner, newLoser) \<Rightarrow>
               (newWinner, snd (UpdateArenaELO now (ap_UserID loser) newLoser (ae_Wins elo) (ae_Losses elo + 1) (ae_Draws elo) d))))"

definition UpdateELOAfterMatch :: "nanos \<Rightarrow> string \<Rightarrow> db \<Rightarrow> shell_error option \<times> db" where
  "UpdateELOAfterMatch now matchID d =
     (case ListArenaParticipants matchID d of
        Inl e \<Rightarrow> (Some (DbErr ''list participants'' e), d)
      | Inr ps \<Rightarrow>
        (case ps of
           winner # p # others \<Rightarrow>
             let losers = p # others in
             if list_all (\<lambda>p. ap_Score p = ap_Score winner) losers then (None, fold (count_draw now) ps d)
             else (case GetArenaELO (ap_UserID winner) d of
               Inl e \<Rightarrow> (Some (DbErr ''get winner ELO'' e), d)
             | Inr elo \<Rightarrow>
               (case fold (beat now winner) losers (ae_Rating elo, d) of
                  (rating, d) \<Rightarrow>
                    (case UpdateArenaELO now (ap_UserID winner) rating (ae_Wins elo + 1) (ae_Losses elo) (ae_Draws elo) d of
                       (Inl e, d) \<Rightarrow> (Some (DbErr ''update winner ELO'' e), d)
                     | (Inr _, d) \<Rightarrow> (None, d))))
         | _ \<Rightarrow> (None, d)))"

end
