(* ===== verification/Shell_Tutorial.thy ===== *)
theory Shell_Tutorial
  imports Shell_Vms Shell_Access Shell_Arena
begin

section \<open>The tutorial, and the table of commands\<close>

text \<open>
  \<^verbatim>\<open>internal/ssh/tutorial.go\<close>, which runs other commands through
  \<^verbatim>\<open>dispatchCommand\<close>, and with it the \<^verbatim>\<open>commands\<close> map. Only lines that match the
  command of a lesson are dispatched, so \<open>base_commands\<close>, the map without \<^verbatim>\<open>tutorial\<close>, is all
  the tutorial can reach (\<open>tutorial_reaches_base\<close>).
\<close>

subsection \<open>The commands map\<close>

definition base_commands :: "(string \<times> command_fun) list" where
  "base_commands =
     [(''help'', cmdHelp), (''whoami'', cmdWhoami), (''ls'', cmdLs), (''new'', cmdNew), (''rm'', cmdRm),
      (''ssh'', cmdSSH), (''stop'', cmdStop), (''restart'', cmdRestart), (''tag'', cmdTag), (''rename'', cmdRename),
      (''cp'', cmdCp), (''start'', cmdStart), (''ssh-key'', cmdSSHKey), (''share'', cmdShare), (''admin'', cmdAdmin),
      (''llm-key'', cmdLLMKey), (''arena'', cmdArena), (''browser'', cmdBrowser), (''community'', cmdCommunity)]"

definition dispatch_in :: "(string \<times> command_fun) list \<Rightarrow> Shell \<Rightarrow> nanos \<Rightarrow> string \<Rightarrow> world \<Rightarrow> outcome \<times> world" where
  "dispatch_in cmds sh now line w =
     (case Fields (TrimSpace line) of
        [] \<Rightarrow> (Done, w)
      | cmd # args \<Rightarrow>
        (case map_of cmds cmd of
           None \<Rightarrow> (Failed (Msg (''unknown command: '' @ cmd)), w)
         | Some handler \<Rightarrow> handler sh now args w))"

subsection \<open>Lessons\<close>

record Lesson =
  le_Number :: int
  le_Title :: string
  le_Explanation :: string
  le_Command :: string
  le_Hint :: string
  le_Simulate :: bool

definition tutorialLessons :: "Lesson list" where
  "tutorialLessons =
     [\<lparr>le_Number = 1, le_Title = ''Create Your First VM'',
        le_Explanation = Join_strings
          [''  Your dev environment lives in a lightweight VM (virtual machine).'',
           ''  Let's create one now! The 'new' command spins up a fresh Ubuntu'', ''  environment in seconds.'', '''',
           ''  Try it:''] [CHR 0x0A],
        le_Command = ''new --name=mybox'', le_Hint = ''Type: new --name=mybox'', le_Simulate = False\<rparr>,
      \<lparr>le_Number = 2, le_Title = ''List Your VMs'',
        le_Explanation = Join_strings
          [''  Now let's see your environments. The 'ls' command shows all your'',
           ''  VMs with their status, image, and when they were created.'', '''', ''  Try it:''] [CHR 0x0A],
        le_Command = ''ls'', le_Hint = ''Type: ls'', le_Simulate = False\<rparr>,
      \<lparr>le_Number = 3, le_Title = ''Connect to Your VM'',
        le_Explanation = Join_strings
          [''  To get a shell inside your VM, use the 'ssh' command followed'',
           ''  by the VM name. This drops you into a full Linux environment.'', '''', ''  Try it:''] [CHR 0x0A],
        le_Command = ''ssh mybox'', le_Hint = ''Type: ssh mybox'', le_Simulate = False\<rparr>,
      \<lparr>le_Number = 4, le_Title = ''Linux Basics'',
        le_Explanation = Join_strings
          [''  Inside your VM, you have a full Ubuntu environment. Here are'',
           ''  the essential commands you'll use every day:'', '''', ''    ls          list files and directories'',
           ''    cd <dir>    change directory'', ''    cat <file>  display file contents'',
           ''    nano <file> edit a file (simple editor)'', ''    mkdir <dir> create a directory'',
           ''    rm <file>   remove a file'', '''', ''  When you're done exploring, type 'exit' to return to the'',
           ''  ussycode shell. Press ENTER to continue.''] [CHR 0x0A],
        le_Command = '''', le_Hint = '''', le_Simulate = True\<rparr>,
      \<lparr>le_Number = 5, le_Title = ''Run a Web Server'',
        le_Explanation = Join_strings
          [''  Your VM can run web servers! Inside the VM, try:'', '''', ''    python3 -m http.server 8080'', '''',
           ''  This starts a simple HTTP server on port 8080. Your VM's'',
           ''  web traffic is automatically available via HTTPS at:'', '''', ''    https://mybox.<your-domain>/'', '''',
           ''  Press ENTER to continue.''] [CHR 0x0A],
        le_Command = '''', le_Hint = '''', le_Simulate = True\<rparr>,
      \<lparr>le_Number = 6, le_Title = ''Access via HTTPS'',
        le_Explanation = Join_strings
          [''  Every VM gets a unique HTTPS URL based on its name:'', '''', ''    https://<vm-name>.ussy.host/'', '''',
           ''  Port 8080 inside the VM is proxied automatically. If your'', ''  VM is named \"mybox\", your URL is:'', '''',
           ''    https://mybox.ussy.host/'', '''', ''  By default, the URL is private (only you can access it).'',
           ''  We'll cover sharing in lesson 9.'', '''', ''  Press ENTER to continue.''] [CHR 0x0A],
        le_Command = '''', le_Hint = '''', le_Simulate = True\<rparr>,
      \<lparr>le_Number = 7, le_Title = ''Install Packages'',
        le_Explanation = Join_strings
          [''  Inside your VM, you can install any package with apt:'', '''', ''    sudo apt update'',
           ''    sudo apt install -y nodejs npm python3-pip git curl'', '''',
           ''  Your VM has full root access. Install whatever you need for'',
           ''  your project -- compilers, databases, tools, frameworks.'', '''', ''  Press ENTER to continue.''] [CHR 0x0A],
        le_Command = '''', le_Hint = '''', le_Simulate = True\<rparr>,
      \<lparr>le_Number = 8, le_Title = ''Use Git'',
        le_Explanation = Join_strings
          [''  Git is pre-installed in your VM. Common workflows:'', '''',
           ''    git clone https://github.com/you/repo.git'', ''    cd repo'', ''    # make changes...'',
           ''    git add .'', ''    git commit -m \"my changes\"'', ''    git push'', '''',
           ''  Tip: Add your SSH key to GitHub/GitLab so you can push'', ''  without entering credentials each time.'',
           '''', ''  Press ENTER to continue.''] [CHR 0x0A],
        le_Command = '''', le_Hint = '''', le_Simulate = True\<rparr>,
      \<lparr>le_Number = 9, le_Title = ''Share Your Work'',
        le_Explanation = Join_strings
          [''  Make your VM's web endpoint publicly accessible so others'',
           ''  can see your work. The 'share set-public' command opens the'', ''  HTTPS URL to anyone.'', '''',
           ''  Try it:''] [CHR 0x0A],
        le_Command = ''share set-public mybox'', le_Hint = ''Type: share set-public mybox'', le_Simulate = False\<rparr>,
      \<lparr>le_Number = 10, le_Title = ''Clean Up'',
        le_Explanation = Join_strings
          [''  When you're done with a VM, remove it with 'rm'. This frees'',
           ''  up resources. Don't worry -- you can always create a new one!'', '''',
           ''  To complete the tutorial, you would normally type:'', ''    rm mybox'', '''',
           ''  But we'll skip the confirmation for now and just mark this'', ''  lesson complete.''] [CHR 0x0A],
        le_Command = '''', le_Hint = '''', le_Simulate = True\<rparr>]"

definition validateTutorialCommand :: "string \<Rightarrow> string \<Rightarrow> bool" where
  "validateTutorialCommand input expected =
     list_all2 EqualFold (Fields (TrimSpace input)) (Fields (TrimSpace expected))"

definition completed_lessons :: "Shell \<Rightarrow> world \<Rightarrow> db_error + int list" where
  "completed_lessons sh w =
     (case GetTutorialProgress (u_ID (sh_user sh)) (w_db w) of
        Inl e \<Rightarrow> Inl e | Inr progress \<Rightarrow> Inr (map tp_LessonNumber progress))"

text \<open>How a lesson ends: the tutorial ends too, or it goes on with the next lesson.\<close>

datatype lesson_end = Ended outcome | Advance

text \<open>\<^verbatim>\<open>CompleteTutorialLesson\<close> with what is printed then.\<close>

definition mark_complete :: "Shell \<Rightarrow> nanos \<Rightarrow> Lesson \<Rightarrow> string list \<Rightarrow> world \<Rightarrow> lesson_end \<times> world" where
  "mark_complete sh now lesson msgs w =
     (case db_write (CompleteTutorialLesson now (u_ID (sh_user sh)) (le_Number lesson)) w of
        (Inl e, w) \<Rightarrow> (Ended (Failed (DbErr ''save progress'' e)), w)
      | (Inr _, w) \<Rightarrow> (Advance, writelns msgs w))"

definition complete_msg :: "Lesson \<Rightarrow> string" where
  "complete_msg lesson =
     ''  '' @ esc ''32'' @ check_mark @ '' Lesson '' @ dec (le_Number lesson) @ '' complete!'' @ esc ''0''"

text \<open>The loop over at most ten attempts.\<close>

fun attempts_loop :: "Shell \<Rightarrow> nanos \<Rightarrow> Lesson \<Rightarrow> nat \<Rightarrow> world \<Rightarrow> lesson_end \<times> world" where
  "attempts_loop sh now lesson 0 w =
     (Ended Done, writeln ''  too many attempts. type 'tutorial' to try again later.'' w)"
| "attempts_loop sh now lesson (Suc n) w =
     (case ReadLine (writef (''  '' @ colored ''35'' ''tutorial>'' @ '' '') w) of
        (None, w) \<Rightarrow> (Ended Done, w)
      | (Some line, w) \<Rightarrow>
        let line = TrimSpace line in
        if line = '''' then attempts_loop sh now lesson n w
        else if line = ''quit'' \<or> line = ''exit'' then
          (Ended Done, writeln ''  exiting tutorial. type 'tutorial' to resume later.'' w)
        else if line = ''skip'' then
          mark_complete sh now lesson
            [''  '' @ esc ''33'' @ [CHR 0xE2, CHR 0x8F, CHR 0xAD] @ '' Lesson '' @ dec (le_Number lesson) @ '' skipped.'' @ esc ''0''] w
        else if line = ''hint'' then
          attempts_loop sh now lesson n
            (if le_Hint lesson \<noteq> ''''
             then writeln (''  '' @ esc ''33'' @ [CHR 0xF0, CHR 0x9F, CHR 0x92, CHR 0xA1] @ '' '' @ le_Hint lesson @ esc ''0'') w
             else w)
        else if validateTutorialCommand line (le_Command lesson) then
          (case dispatch_in base_commands sh now line w of
             (Panicked p, w) \<Rightarrow> (Ended (Panicked p), w)
           | (Failed e, w) \<Rightarrow>
             mark_complete sh now lesson ['''', complete_msg lesson, '''']
               (writeln (''  '' @ colored ''33'' (''note: '' @ err_text sh e @ '' (that's ok for the tutorial)'')) w)
           | (Done, w) \<Rightarrow> mark_complete sh now lesson ['''', complete_msg lesson, ''''] w)
        else
          attempts_loop sh now lesson n
            (writeln (''  '' @ colored ''31'' ''not quite.'' @ '' try: '' @ le_Command lesson @ '' (or type 'hint' for help)'') w))"

definition one_lesson :: "Shell \<Rightarrow> nanos \<Rightarrow> Lesson \<Rightarrow> int list \<Rightarrow> world \<Rightarrow> lesson_end \<times> world" where
  "one_lesson sh now lesson completed w =
     (let w = writelns
            (['''',
              ''  '' @ esc ''1'' @ esc ''35'' @ box_line 2 @ '' Lesson '' @ dec (le_Number lesson) @ ''/'' @
                dec (int (length tutorialLessons)) @ '': '' @ le_Title lesson @ '' '' @ box_line 2 @ esc ''0'', ''''] @
             (if le_Number lesson \<in> set completed
              then [''  '' @ colored ''32'' (check_mark @ '' already completed''), ''''] else []) @
             [le_Explanation lesson, '''']) w
      in if le_Simulate lesson then
           mark_complete sh now lesson [complete_msg lesson, '''']
             (snd (ReadLine (writef (''  '' @ colored ''33'' ''[press ENTER to continue]'' @ '' '') w)))
         else
           attempts_loop sh now lesson 10
             (writelns
               [''  '' @ esc ''36'' @ [CHR 0xE2, CHR 0x86, CHR 0x92] @ '' '' @ le_Command lesson @ esc ''0'', '''',
                ''  type the command below (or 'skip' to skip, 'quit' to exit tutorial):'', ''''] w))"

text \<open>\<^verbatim>\<open>runLesson\<close> and \<^verbatim>\<open>advanceToNext\<close>: the lessons from the current one on.\<close>

fun run_lessons :: "Shell \<Rightarrow> nanos \<Rightarrow> Lesson list \<Rightarrow> int list \<Rightarrow> world \<Rightarrow> outcome \<times> world" where
  "run_lessons sh now [] completed w = (Done, w)"
| "run_lessons sh now (lesson # rest) completed w =
     (case one_lesson sh now lesson completed w of
        (Ended r, w) \<Rightarrow> (r, w)
      | (Advance, w) \<Rightarrow>
        if rest = [] then
          (Done, writelns
             [''  '' @ esc ''32'' @ ''=== TUTORIAL COMPLETE! ==='' @ esc ''0'',
        ''  you're ready to build. type 'help' for all commands.'', ''''] w)
        else
          (case ReadLine (writef (''  continue to lesson '' @ dec (le_Number lesson + 1) @ ''? [Y/n] '') w) of
             (None, w) \<Rightarrow> (Done, w)
           | (Some line, w) \<Rightarrow>
             if TrimSpace (ToLower line) \<in> {'''', ''y'', ''yes''}
             then run_lessons sh now rest (or_else [] (completed_lessons sh w)) w
             else (Done, writeln ''  type 'tutorial' to resume later.'' w)))"

text \<open>The last \<^verbatim>\<open>--lesson\<close> flag; \<^const>\<open>None\<close> is a bad number.\<close>

fun lesson_flag :: "string list \<Rightarrow> int \<Rightarrow> int option" where
  "lesson_flag [] target = Some target"
| "lesson_flag (a # args) target =
     (if HasPrefix a ''--lesson='' then
        (case Atoi (TrimPrefix a ''--lesson='') of
           None \<Rightarrow> None
         | Some n \<Rightarrow> if n < 1 \<or> n > int (length tutorialLessons) then None else lesson_flag args n)
      else lesson_flag args target)"

definition cmdTutorial :: command_fun where
  "cmdTutorial sh now args w =
     (if hasArgFlag args ''--reset'' then
        (case db_write (ResetTutorialProgress (u_ID (sh_user sh))) w of
           (Inl e, w) \<Rightarrow> (Failed (DbErr ''reset tutorial'' e), w)
         | (Inr _, w) \<Rightarrow> (Done, writeln ''  tutorial progress reset. type 'tutorial' to start over.'' w))
      else case lesson_flag args 0 of
        None \<Rightarrow> (Failed (Msg (''invalid lesson number (must be 1-'' @ dec (int (length tutorialLessons)) @ '')'')), w)
      | Some target \<Rightarrow>
        (case completed_lessons sh w of
           Inl e \<Rightarrow> (Failed (DbErr ''load tutorial progress'' e), w)
         | Inr completed \<Rightarrow>
           let lessons = (if target > 0 then drop (nat (target - 1)) tutorialLessons
                 else dropWhile (\<lambda>l. le_Number l \<in> set completed) tutorialLessons) in
           if lessons = [] then
             (Done, writelns
                ['''', ''  '' @ colored ''32'' ''=== TUTORIAL COMPLETE ==='', '''',
                 ''  you've finished all '' @ dec (int (length tutorialLessons)) @ '' lessons!'',
                 ''  you're ready to build. here are some next steps:'', '''',
        ''    doc getting-started    read the full quickstart guide'', ''    projects               browse project templates'',
        ''    new --name=myproject   create a new environment'', '''', ''  type 'tutorial --reset' to replay the tutorial.'', ''''] w)
           else run_lessons sh now lessons completed w))"

text \<open>The whole map, which \<^verbatim>\<open>init\<close> functions complete.\<close>

definition commands :: "(string \<times> command_fun) list" where
  "commands = (''tutorial'', cmdTutorial) # base_commands"

definition dispatchCommand :: "Shell \<Rightarrow> nanos \<Rightarrow> string \<Rightarrow> world \<Rightarrow> outcome \<times> world" where
  "dispatchCommand sh now line w = dispatch_in commands sh now line w"

end
