(* ===== verification/Shell_Session.thy ===== *)
theory Shell_Session
  imports Shell_Tutorial Mesh_Allocator
begin

section \<open>Connections, registration and sessions of the SSH gateway\<close>

text \<open>
  \<^verbatim>\<open>internal/ssh/gateway.go\<close> (the host key, public key authentication, sessions),
  \<^verbatim>\<open>register.go\<close>, the loop of \<^verbatim>\<open>shell.go\<close> and \<^verbatim>\<open>executor.go\<close>. A
  connection has one context: each key the client offers runs \<^verbatim>\<open>publicKeyHandler\<close> on it, before a
  signature is checked. The loop of the shell has fuel: one round for each line of input, and one more,
  is enough (\<open>repl_returns\<close>). \<open>clock n\<close> is the time at which a command runs with \<open>n\<close> lines of input left.
\<close>

subsection \<open>The host key\<close>

text \<open>The file, key parsing and generation are parameters; \<^term>\<open>None\<close> is a file that does not exist.\<close>

record 'k key_env =
  ke_ReadFile :: "string + string option"
  ke_ParsePrivateKey :: "string \<Rightarrow> string + 'k"
  ke_GenerateKey :: "string + 'k"
  ke_MarshalPrivateKey :: "'k \<Rightarrow> string + string"
  ke_WriteFile :: "string option"

text \<open>The result, and the text written to the key file with mode 0600.\<close>

definition loadOrGenerateHostKey :: "'k key_env \<Rightarrow> (string + 'k) \<times> string option" where
  "loadOrGenerateHostKey env =
     (case ke_ReadFile env of
        Inl e \<Rightarrow> (Inl (''read host key: '' @ e), None)
      | Inr (Some data) \<Rightarrow>
        (case ke_ParsePrivateKey env data of
           Inl e \<Rightarrow> (Inl (''parse host key: '' @ e), None) | Inr signer \<Rightarrow> (Inr signer, None))
      | Inr None \<Rightarrow>
        (case ke_GenerateKey env of
           Inl e \<Rightarrow> (Inl (''generate key: '' @ e), None)
         | Inr privateKey \<Rightarrow>
           (case ke_MarshalPrivateKey env privateKey of
              Inl e \<Rightarrow> (Inl (''marshal private key: '' @ e), None)
            | Inr pemData \<Rightarrow>
              (case ke_WriteFile env of
                 Some e \<Rightarrow> (Inl (''write host key: '' @ e), None)
               | None \<Rightarrow> (Inr privateKey, Some pemData)))))"

subsection \<open>Authentication\<close>

definition isTailscaleIP :: "string \<Rightarrow> bool" where
  "isTailscaleIP ip =
     (case (parse_ipv4 ip, ParseCIDR ''100.64.0.0/10'') of
        (Some a, Some net) \<Rightarrow> a AND CIDRMask (in_Bits net) = in_IP net
      | _ \<Rightarrow> False)"

definition checkRoutussyFingerprint :: "gateway \<Rightarrow> nanos \<Rightarrow> string \<Rightarrow> bool" where
  "checkRoutussyFingerprint g now fingerprint =
     (let ot = gw_outside g in
      if \<not> ot_url_ok ot (user_url g fingerprint) then False
      else case ot_Get ot now (user_url g fingerprint) (routussy_headers g) of
        Inl _ \<Rightarrow> True
      | Inr (status, body) \<Rightarrow> status \<noteq> 404)"

text \<open>What the context of a connection carries.\<close>

record conn_ctx =
  cx_User :: "user option"
  cx_Fingerprint :: string
  cx_PublicKey :: "string option"   \<comment> \<open>\<^verbatim>\<open>MarshalAuthorizedKey\<close> of the key\<close>

definition no_ctx :: conn_ctx where
  "no_ctx = \<lparr>cx_User = None, cx_Fingerprint = '''', cx_PublicKey = None\<rparr>"

definition publicKeyHandler ::
  "gateway \<Rightarrow> nanos \<Rightarrow> db \<Rightarrow> string \<Rightarrow> string \<times> string \<Rightarrow> conn_ctx \<Rightarrow> bool \<times> conn_ctx" where
  "publicKeyHandler g now d remoteIP key ctx =
     (case key of (fingerprint, authorized) \<Rightarrow>
        let found = UserByFingerprint fingerprint d;
            ctx = (case found of Inl _ \<Rightarrow> ctx | Inr user \<Rightarrow> ctx\<lparr>cx_User := Some user\<rparr>);
            ctx = ctx\<lparr>cx_Fingerprint := fingerprint, cx_PublicKey := Some authorized\<rparr>
        in if gw_RoutussyURL g \<noteq> '''' \<and> \<not> isTailscaleIP remoteIP then
             (case found of Inr _ \<Rightarrow> (True, ctx) | Inl _ \<Rightarrow> (checkRoutussyFingerprint g now fingerprint, ctx))
           else (True, ctx))"

text \<open>The keys a client offers in one connection, in order.\<close>

definition offer_keys ::
  "gateway \<Rightarrow> nanos \<Rightarrow> db \<Rightarrow> string \<Rightarrow> (string \<times> string) list \<Rightarrow> conn_ctx \<Rightarrow> conn_ctx" where
  "offer_keys g now d remoteIP keys ctx =
     fold (\<lambda>key ctx. snd (publicKeyHandler g now d remoteIP key ctx)) keys ctx"

subsection \<open>Registration\<close>

definition validHandle :: "string \<Rightarrow> bool" where "validHandle s = label_match 2 20 s"

text \<open>Creating the account: the user first, then the key.\<close>

definition create_account :: "nanos \<Rightarrow> conn_ctx \<Rightarrow> string \<Rightarrow> world \<Rightarrow> (shell_error + user) \<times> world" where
  "create_account now ctx handle w =
     (case cx_PublicKey ctx of
        None \<Rightarrow> (Inl (Msg ''no public key in session context''), w)
      | Some pubKey \<Rightarrow>
        if cx_Fingerprint ctx = '''' then (Inl (Msg ''no public key in session context''), w)
        else case db_write (CreateUser now handle) w of
          (Inl e, w) \<Rightarrow> (Inl (DbErr ''create user'' e), w)
        | (Inr user, w) \<Rightarrow>
          (case db_write (AddSSHKey now (u_ID user) (TrimSpace pubKey) (cx_Fingerprint ctx) '''') w of
             (Inl e, w) \<Rightarrow> (Inl (DbErr ''add ssh key'' e), w)
           | (Inr _, w) \<Rightarrow> (Inr user, writelns ['''', ''  welcome, '' @ u_Handle user @ ''. you're in.'', ''''] w)))"

text \<open>The loop over at most five handles; \<^term>\<open>Inr None\<close> is a cancelled registration.\<close>

fun handle_loop :: "nanos \<Rightarrow> conn_ctx \<Rightarrow> nat \<Rightarrow> world \<Rightarrow> (shell_error + user option) \<times> world" where
  "handle_loop now ctx 0 w = (Inr None, writeln ''  too many attempts. try again later.'' w)"
| "handle_loop now ctx (Suc n) w =
     (case ReadLine w of
        (None, w) \<Rightarrow> (Inr None, w)
      | (Some line, w) \<Rightarrow>
        let handle = TrimSpace (ToLower line) in
        if handle = '''' then handle_loop now ctx n (writeln ''  handle can't be empty. try again.'' w)
        else if \<not> validHandle handle then
          handle_loop now ctx n (writelns
            [''  handle must be 2-20 chars: lowercase letters, numbers, hyphens.'',
             ''  must start with a letter and end with a letter or number.''] w)
        else (case HandleExists handle (w_db w) of
          Inl e \<Rightarrow> (Inl (DbErr ''check handle'' e), w)
        | Inr exists \<Rightarrow>
          if exists then handle_loop now ctx n (writeln (''  '' @ go_quote handle @ '' is taken. try another.'') w)
          else (case create_account now ctx handle w of
            (Inl e, w) \<Rightarrow> (Inl e, w) | (Inr user, w) \<Rightarrow> (Inr (Some user), w))))"

definition handleRegistration :: "nanos \<Rightarrow> conn_ctx \<Rightarrow> world \<Rightarrow> (shell_error + user option) \<times> world" where
  "handleRegistration now ctx w =
     handle_loop now ctx 5 (writelns
       ['''',
        ''  '' @ esc ''35'' @ [CHR 0xE2, CHR 0x95, CHR 0x94, CHR 0xE2, CHR 0x95, CHR 0x90, CHR 0xE2, CHR 0x95, CHR 0x90, CHR 0xE2, CHR 0x95, CHR 0x90, CHR 0xE2, CHR 0x95, CHR 0x90, CHR 0xE2, CHR 0x95, CHR 0x90, CHR 0xE2, CHR 0x95, CHR 0x90, CHR 0xE2, CHR 0x95, CHR 0x90, CHR 0xE2, CHR 0x95, CHR 0x90, CHR 0xE2, CHR 0x95, CHR 0x90, CHR 0xE2, CHR 0x95, CHR 0x90, CHR 0xE2, CHR 0x95, CHR 0x90, CHR 0xE2, CHR 0x95, CHR 0x90, CHR 0xE2, CHR 0x95, CHR 0x90, CHR 0xE2, CHR 0x95, CHR 0x90, CHR 0xE2, CHR 0x95, CHR 0x90, CHR 0xE2, CHR 0x95, CHR 0x90, CHR 0xE2, CHR 0x95, CHR 0x90, CHR 0xE2, CHR 0x95, CHR 0x90, CHR 0xE2, CHR 0x95, CHR 0x90, CHR 0xE2, CHR 0x95, CHR 0x90, CHR 0xE2, CHR 0x95, CHR 0x90, CHR 0xE2, CHR 0x95, CHR 0x90, CHR 0xE2, CHR 0x95, CHR 0x90, CHR 0xE2, CHR 0x95, CHR 0x90, CHR 0xE2, CHR 0x95, CHR 0x90, CHR 0xE2, CHR 0x95, CHR 0x90, CHR 0xE2, CHR 0x95, CHR 0x90, CHR 0xE2, CHR 0x95, CHR 0x90, CHR 0xE2, CHR 0x95, CHR 0x90, CHR 0xE2, CHR 0x95, CHR 0x90, CHR 0xE2, CHR 0x95, CHR 0x90, CHR 0xE2, CHR 0x95, CHR 0x90, CHR 0xE2, CHR 0x95, CHR 0x90, CHR 0xE2, CHR 0x95, CHR 0x90, CHR 0xE2, CHR 0x95, CHR 0x90, CHR 0xE2, CHR 0x95, CHR 0x90, CHR 0xE2, CHR 0x95, CHR 0x90, CHR 0xE2, CHR 0x95, CHR 0x90, CHR 0xE2, CHR 0x95, CHR 0x90, CHR 0xE2, CHR 0x95, CHR 0x90, CHR 0xE2, CHR 0x95, CHR 0x90, CHR 0xE2, CHR 0x95, CHR 0x90, CHR 0xE2, CHR 0x95, CHR 0x97] @ esc ''0'',
        ''  '' @ esc ''35'' @ [CHR 0xE2, CHR 0x95, CHR 0x91] @ esc ''0'' @ ''          welcome to the ussyverse        '' @ esc ''35'' @ [CHR 0xE2, CHR 0x95, CHR 0x91] @ esc ''0'',
        ''  '' @ esc ''35'' @ [CHR 0xE2, CHR 0x95, CHR 0x91] @ esc ''0'' @ ''                                          '' @ esc ''35'' @ [CHR 0xE2, CHR 0x95, CHR 0x91] @ esc ''0'',
        ''  '' @ esc ''35'' @ [CHR 0xE2, CHR 0x95, CHR 0x91] @ esc ''0'' @ ''   looks like you're new here.            '' @ esc ''35'' @ [CHR 0xE2, CHR 0x95, CHR 0x91] @ esc ''0'',
        ''  '' @ esc ''35'' @ [CHR 0xE2, CHR 0x95, CHR 0x91] @ esc ''0'' @ ''                                          '' @ esc ''35'' @ [CHR 0xE2, CHR 0x95, CHR 0x91] @ esc ''0'',
        ''  '' @ esc ''35'' @ [CHR 0xE2, CHR 0x95, CHR 0x91] @ esc ''0'' @ ''   your ssh key is your identity.         '' @ esc ''35'' @ [CHR 0xE2, CHR 0x95, CHR 0x91] @ esc ''0'',
        ''  '' @ esc ''35'' @ [CHR 0xE2, CHR 0x95, CHR 0x91] @ esc ''0'' @ ''   no passwords. no email. just keys.     '' @ esc ''35'' @ [CHR 0xE2, CHR 0x95, CHR 0x91] @ esc ''0'',
        ''  '' @ esc ''35'' @ [CHR 0xE2, CHR 0x95, CHR 0x91] @ esc ''0'' @ ''                                          '' @ esc ''35'' @ [CHR 0xE2, CHR 0x95, CHR 0x91] @ esc ''0'',
        ''  '' @ esc ''35'' @ [CHR 0xE2, CHR 0x95, CHR 0x91] @ esc ''0'' @ ''   pick a handle:                         '' @ esc ''35'' @ [CHR 0xE2, CHR 0x95, CHR 0x91] @ esc ''0'',
        ''  '' @ esc ''35'' @ [CHR 0xE2, CHR 0x95, CHR 0x9A, CHR 0xE2, CHR 0x95, CHR 0x90, CHR 0xE2, CHR 0x95, CHR 0x90, CHR 0xE2, CHR 0x95, CHR 0x90, CHR 0xE2, CHR 0x95, CHR 0x90, CHR 0xE2, CHR 0x95, CHR 0x90, CHR 0xE2, CHR 0x95, CHR 0x90, CHR 0xE2, CHR 0x95, CHR 0x90, CHR 0xE2, CHR 0x95, CHR 0x90, CHR 0xE2, CHR 0x95, CHR 0x90, CHR 0xE2, CHR 0x95, CHR 0x90, CHR 0xE2, CHR 0x95, CHR 0x90, CHR 0xE2, CHR 0x95, CHR 0x90, CHR 0xE2, CHR 0x95, CHR 0x90, CHR 0xE2, CHR 0x95, CHR 0x90, CHR 0xE2, CHR 0x95, CHR 0x90, CHR 0xE2, CHR 0x95, CHR 0x90, CHR 0xE2, CHR 0x95, CHR 0x90, CHR 0xE2, CHR 0x95, CHR 0x90, CHR 0xE2, CHR 0x95, CHR 0x90, CHR 0xE2, CHR 0x95, CHR 0x90, CHR 0xE2, CHR 0x95, CHR 0x90, CHR 0xE2, CHR 0x95, CHR 0x90, CHR 0xE2, CHR 0x95, CHR 0x90, CHR 0xE2, CHR 0x95, CHR 0x90, CHR 0xE2, CHR 0x95, CHR 0x90, CHR 0xE2, CHR 0x95, CHR 0x90, CHR 0xE2, CHR 0x95, CHR 0x90, CHR 0xE2, CHR 0x95, CHR 0x90, CHR 0xE2, CHR 0x95, CHR 0x90, CHR 0xE2, CHR 0x95, CHR 0x90, CHR 0xE2, CHR 0x95, CHR 0x90, CHR 0xE2, CHR 0x95, CHR 0x90, CHR 0xE2, CHR 0x95, CHR 0x90, CHR 0xE2, CHR 0x95, CHR 0x90, CHR 0xE2, CHR 0x95, CHR 0x90, CHR 0xE2, CHR 0x95, CHR 0x90, CHR 0xE2, CHR 0x95, CHR 0x90, CHR 0xE2, CHR 0x95, CHR 0x90, CHR 0xE2, CHR 0x95, CHR 0x90, CHR 0xE2, CHR 0x95, CHR 0x90, CHR 0xE2, CHR 0x95, CHR 0x90, CHR 0xE2, CHR 0x95, CHR 0x90, CHR 0xE2, CHR 0x95, CHR 0x9D] @ esc ''0'',
        ''''] w)"

subsection \<open>The shell\<close>

definition printWelcome :: "Shell \<Rightarrow> world \<Rightarrow> world" where
  "printWelcome sh w =
     (let running = or_else 0 (RunningVMCountByUser (u_ID (sh_user sh)) (w_db w));
          total = or_else 0 (VMCountByUser (u_ID (sh_user sh)) (w_db w)) in
      writelns
        ['''',
         ''  '' @ colored ''35'' ''~ ussycode ~'' @ ''  '' @ colored ''90'' ''part of the ussyverse  |  https://ussy.host'',
         '''', ''  welcome back, '' @ colored ''1'' (u_Handle (sh_user sh)) @ ''.'',
         (if running > 0 then
            ''  you have '' @ dec running @ '' vm'' @ plural running @ '' running ('' @ dec total @
            '' total). type 'ls' to see them.''
          else if total > 0 then ''  you have '' @ dec total @ '' vm'' @ plural total @ ''. type 'ls' to see them.''
          else ''  you have no vms yet. type 'new' to create one.''),
         ''  type 'help' for commands. type 'community' for links & stats.'', ''''] w)"

datatype session_end = Closed | Crashed string

text \<open>One line of the loop: \<^term>\<open>None\<close> goes on.\<close>

definition run_line :: "Shell \<Rightarrow> nanos \<Rightarrow> string \<Rightarrow> world \<Rightarrow> session_end option \<times> world" where
  "run_line sh now line w =
     (case Fields (TrimSpace line) of
        [] \<Rightarrow> (None, w)
      | cmd # args \<Rightarrow>
        if cmd = ''exit'' \<or> cmd = ''quit'' then (Some Closed, writeln ''goodbye.'' w)
        else (case map_of commands cmd of
          None \<Rightarrow> (None, writeln (''unknown command: '' @ cmd @ ''. type 'help' for commands.'') w)
        | Some handler \<Rightarrow>
          (case handler sh now args w of
             (Done, w) \<Rightarrow> (None, w)
           | (Failed e, w) \<Rightarrow> (None, writeln (''error: '' @ err_text sh e) w)
           | (Panicked p, w) \<Rightarrow> (Some (Crashed p), w))))"

fun repl :: "nat \<Rightarrow> Shell \<Rightarrow> (nat \<Rightarrow> nanos) \<Rightarrow> world \<Rightarrow> (session_end \<times> world) option" where
  "repl 0 sh clock w = None"
| "repl (Suc fuel) sh clock w =
     (case ReadLine w of
        (None, w) \<Rightarrow> Some (Closed, writeln ([CHR 0x0A] @ ''goodbye.'') w)
      | (Some line, w) \<Rightarrow>
        (case run_line sh (clock (length (w_in w))) line w of
           (Some r, w) \<Rightarrow> Some (r, w)
         | (None, w) \<Rightarrow> repl fuel sh clock w))"

definition Run :: "Shell \<Rightarrow> (nat \<Rightarrow> nanos) \<Rightarrow> world \<Rightarrow> (session_end \<times> world) option" where
  "Run sh clock w = (let w = printWelcome sh w in repl (Suc (length (w_in w))) sh clock w)"

text \<open>A single command, as in \<^verbatim>\<open>ssh ussy.host ls\<close>.\<close>

definition execCommand :: "Shell \<Rightarrow> nanos \<Rightarrow> string list \<Rightarrow> world \<Rightarrow> session_end \<times> world" where
  "execCommand sh now cmd w =
     (case cmd of
        [] \<Rightarrow> (Closed, w)
      | name # args \<Rightarrow>
        (case map_of commands name of
           None \<Rightarrow> (Closed, writeln (''unknown command: '' @ name) w)
         | Some handler \<Rightarrow>
           (case handler sh now args w of
              (Done, w) \<Rightarrow> (Closed, w)
            | (Failed e, w) \<Rightarrow> (Closed, writeln (''error: '' @ err_text sh e) w)
            | (Panicked p, w) \<Rightarrow> (Crashed p, w))))"

definition crlf :: string where "crlf = [CHR 0x0D, CHR 0x0A]"

definition sessionHandler ::
  "gateway \<Rightarrow> (nat \<Rightarrow> nanos) \<Rightarrow> conn_ctx \<Rightarrow> string list \<Rightarrow> world \<Rightarrow> (session_end \<times> world) option" where
  "sessionHandler g clock ctx cmd w =
     (let serve = (\<lambda>user w.
            let sh = \<lparr>sh_gw = g, sh_session = Some (cx_Fingerprint ctx), sh_user = user\<rparr> in
            if cmd \<noteq> [] then Some (execCommand sh (clock (length (w_in w))) cmd w) else Run sh clock w) in
      case cx_User ctx of
        Some user \<Rightarrow> serve user w
      | None \<Rightarrow>
        (case handleRegistration (clock (length (w_in w))) ctx w of
           (Inl e, w) \<Rightarrow>
             Some (Closed, writef (crlf @ ''error during registration: '' @
               (case e of Msg m \<Rightarrow> m | DbErr what d \<Rightarrow> what @ '': '' @ ot_db_text (gw_outside g) d) @ crlf) w)
         | (Inr None, w) \<Rightarrow> Some (Closed, writef (crlf @ ''goodbye.'' @ crlf) w)
         | (Inr (Some user), w) \<Rightarrow> serve user w))"

subsection \<open>The executor of the HTTPS API\<close>

text \<open>
  \<^verbatim>\<open>Execute\<close> runs a command on a terminal over a buffer. A command that asks for input reads
  from that buffer what it has written itself: \<open>echo\<close>, whatever those lines are. \<open>render\<close> is what is
  left in the buffer.
\<close>

datatype exec_end = Exec string int "shell_error option" | ExecPanic string

definition APIExecutor_Execute ::
  "gateway \<Rightarrow> (shown list \<Rightarrow> string) \<Rightarrow> string list \<Rightarrow> nanos \<Rightarrow> user \<Rightarrow> string \<Rightarrow> string list \<Rightarrow> world \<Rightarrow> exec_end \<times> world" where
  "APIExecutor_Execute g render echo now user command args w =
     (if TrimSpace command = '''' then (Exec '''' 1 (Some (Msg ''empty command'')), w)
      else if command = ''ssh'' then
        (Exec '''' 1 (Some (Msg (''command '' @ go_quote command @ '' is interactive-only over SSH''))), w)
      else case map_of commands command of
        None \<Rightarrow> (Exec '''' 127 (Some (Msg (''unknown command: '' @ command))), w)
      | Some handler \<Rightarrow>
        let sh = \<lparr>sh_gw = g, sh_session = None, sh_user = user\<rparr>;
            (r, w) = handler sh now args (w\<lparr>w_in := echo, w_out := []\<rparr>);
            text = TrimSpace (render (w_out w))
        in (case r of
              Done \<Rightarrow> (Exec text 0 None, w)
            | Failed e \<Rightarrow> (Exec text 1 (Some e), w)
            | Panicked p \<Rightarrow> (ExecPanic p, w)))"

end
