(* ===== verification/Shell_Policy.thy ===== *)
theory Shell_Policy
  imports Shell_Session
begin

section \<open>What a user may do to the host, and the steps that stay within it\<close>

text \<open>
  An abstract specification of the SSH gateway: which operations of the database and of the VM manager
  a user may cause, by the rows they own, the limits of their trust level and the seats of a match
  (\<open>may_db\<close>, \<open>may_manage\<close>), and the relation \<open>acts\<close> of the hosts that such operations reach. The
  specification names no command. That every command stays within it is in \<open>Shell_Refinement\<close>; here is
  what follows for any such run: the invariant of the database, other users' data, VM quotas, names and
  match seats.
\<close>

subsection \<open>The permissions\<close>

definition owns :: "int \<Rightarrow> int \<Rightarrow> db \<Rightarrow> bool" where
  "owns u v d = list_ex (\<lambda>r. v_ID r = v \<and> v_UserID r = u) (vms (tables d))"

definition owns_domain :: "int \<Rightarrow> string \<Rightarrow> db \<Rightarrow> bool" where
  "owns_domain u name d = list_ex (\<lambda>c. cd_Domain c = name \<and> owns u (cd_VMID c) d) (domains (tables d))"

definition vm_count :: "int \<Rightarrow> db \<Rightarrow> int" where
  "vm_count u d = int (length (sql_select (\<lambda>v. v_UserID v = u) (vms (tables d))))"

definition key_count :: "int \<Rightarrow> db \<Rightarrow> int" where
  "key_count u d = int (length (sql_select (\<lambda>k. k_UserID k = u) (ssh_keys (tables d))))"

definition seats_taken :: "string \<Rightarrow> db \<Rightarrow> int" where
  "seats_taken m d = int (length (sql_select (\<lambda>p. ap_MatchID p = m) (participants (tables d))))"

definition vm_limit :: "user \<Rightarrow> int" where "vm_limit u = tl_VMLimit (GetTrustLimits (u_TrustLevel u))"

fun may_account :: "user \<Rightarrow> db \<Rightarrow> account_op \<Rightarrow> bool" where
  "may_account u d (OpAddSSHKey i key fp c) \<longleftrightarrow> i = u_ID u"
| "may_account u d (OpDeleteSSHKey k) \<longleftrightarrow>
     list_ex (\<lambda>r. k_ID r = k \<and> k_UserID r = u_ID u) (ssh_keys (tables d)) \<and> key_count (u_ID u) d > 1"
| "may_account u d (OpSetUserTrustLevel i level) \<longleftrightarrow> u_TrustLevel u = ''admin''"
| "may_account u d (OpCompleteTutorialLesson i n) \<longleftrightarrow> i = u_ID u"
| "may_account u d (OpResetTutorialProgress i) \<longleftrightarrow> i = u_ID u"
| "may_account u d _ \<longleftrightarrow> False"

fun may_vm :: "user \<Rightarrow> db \<Rightarrow> vm_op \<Rightarrow> bool" where
  "may_vm u d (OpCreateVM i name img vcpu mem disk) \<longleftrightarrow>
     i = u_ID u \<and> validName name \<and> (vm_limit u < 0 \<or> vm_count (u_ID u) d < vm_limit u)"
| "may_vm u d (OpUpdateVMStatus v status tap ip mac pid) \<longleftrightarrow> owns (u_ID u) v d \<and> ip = None"
| "may_vm u d (OpDeleteVM v) \<longleftrightarrow> owns (u_ID u) v d"
| "may_vm u d (OpRenameVM v name) \<longleftrightarrow> owns (u_ID u) v d \<and> validName name"
| "may_vm u d (OpAddTag v tag) \<longleftrightarrow> owns (u_ID u) v d"
| "may_vm u d (OpRemoveTag v tag) \<longleftrightarrow> owns (u_ID u) v d"
| "may_vm u d (OpCreateCustomDomain v name token) \<longleftrightarrow> owns (u_ID u) v d \<and> isValidDomain name"
| "may_vm u d (OpVerifyCustomDomain name) \<longleftrightarrow> owns_domain (u_ID u) name d"
| "may_vm u d (OpDeleteCustomDomain name) \<longleftrightarrow> owns_domain (u_ID u) name d"

fun may_share :: "user \<Rightarrow> db \<Rightarrow> share_op \<Rightarrow> bool" where
  "may_share u d (OpShareVMWithUser v i) \<longleftrightarrow> owns (u_ID u) v d \<and> i \<noteq> u_ID u"
| "may_share u d (OpShareVMWithLink v token) \<longleftrightarrow> owns (u_ID u) v d"
| "may_share u d (OpRemoveShare i) \<longleftrightarrow> False"
| "may_share u d (OpRemoveShareByVMAndUser v i) \<longleftrightarrow> owns (u_ID u) v d"
| "may_share u d (OpRemoveShareLink v token) \<longleftrightarrow> owns (u_ID u) v d"
| "may_share u d (OpSetVMPublic v b) \<longleftrightarrow> owns (u_ID u) v d"

fun may_token :: "user \<Rightarrow> db \<Rightarrow> token_op \<Rightarrow> bool" where
  "may_token u d (OpCreateMagicToken i token expires) \<longleftrightarrow> i = u_ID u"
| "may_token u d _ \<longleftrightarrow> False"

fun may_llm :: "user \<Rightarrow> db \<Rightarrow> llm_op \<Rightarrow> bool" where
  "may_llm u d (OpSetLLMKey i provider key) \<longleftrightarrow> i = u_ID u"
| "may_llm u d (OpDeleteLLMKey i provider) \<longleftrightarrow> i = u_ID u"
| "may_llm u d (OpIncrementLLMUsage i provider n t) \<longleftrightarrow> False"

text \<open>A seat may be taken while the match waits and has one; a match starts when it is full.\<close>

fun may_arena :: "user \<Rightarrow> db \<Rightarrow> arena_op \<Rightarrow> bool" where
  "may_arena u d (OpCreateArenaMatch m scenario n i) \<longleftrightarrow> i = u_ID u \<and> 1 \<le> n \<and> n \<le> 10"
| "may_arena u d (OpJoinArenaMatch m i) \<longleftrightarrow>
     i = u_ID u \<and>
     list_ex (\<lambda>r. am_MatchID r = m \<and> am_Status r = ''waiting'' \<and> seats_taken m d < am_MaxAgents r) (matches (tables d))"
| "may_arena u d (OpUpdateArenaMatchStatus m status) \<longleftrightarrow>
     status = ''running'' \<and>
     list_ex (\<lambda>r. am_MatchID r = m \<and> am_Status r = ''waiting'' \<and> seats_taken m d = am_MaxAgents r) (matches (tables d))"
| "may_arena u d _ \<longleftrightarrow> False"

primrec may_db :: "user \<Rightarrow> db \<Rightarrow> db_op \<Rightarrow> bool" where
  "may_db u d (Account op) = may_account u d op"
| "may_db u d (Machine op) = may_vm u d op"
| "may_db u d (Sharing op) = may_share u d op"
| "may_db u d (Tok op) = may_token u d op"
| "may_db u d (Llm op) = may_llm u d op"
| "may_db u d (Arena op) = may_arena u d op"

fun may_manage :: "user \<Rightarrow> db \<Rightarrow> host_op \<Rightarrow> bool" where
  "may_manage u d (HCreateAndStart v name img vcpu mem keys) \<longleftrightarrow> owns (u_ID u) v d"
| "may_manage u d (HStart v name vcpu mem keys) \<longleftrightarrow> owns (u_ID u) v d"
| "may_manage u d (HStop v) \<longleftrightarrow> owns (u_ID u) v d"
| "may_manage u d (HDestroy v) \<longleftrightarrow> owns (u_ID u) v d"
| "may_manage u d (HCloneDisks s v) \<longleftrightarrow> owns (u_ID u) s d \<and> owns (u_ID u) v d"
| "may_manage u d HShutdownAll \<longleftrightarrow> False"
| "may_manage u d (HDb op) \<longleftrightarrow> may_db u d op"

text \<open>The hosts a user reaches; the manager acts only where the gateway has one.\<close>

inductive acts :: "gateway \<Rightarrow> user \<Rightarrow> vm_host \<Rightarrow> vm_host \<Rightarrow> bool" for g u h where
  acts_refl: "acts g u h h"
| acts_db: "acts g u h h' \<Longrightarrow> may_db u (vh_db h') op \<Longrightarrow> acts g u h (h'\<lparr>vh_db := run_op now op (vh_db h')\<rparr>)"
| acts_vm: "acts g u h h' \<Longrightarrow> gw_VM g = Some env \<Longrightarrow> may_manage u (vh_db h') op \<Longrightarrow>
     acts g u h (run_host_op env now op h')"

text \<open>What a command does to the world: permitted steps, and input that never grows.\<close>

definition permitted :: "Shell \<Rightarrow> world \<Rightarrow> world \<Rightarrow> bool" where
  "permitted sh w w' \<longleftrightarrow> acts (sh_gw sh) (sh_user sh) (w_host w) (w_host w') \<and> length (w_in w') \<le> length (w_in w)"

lemma acts_trans:
  assumes "acts g u h h'" "acts g u h' h''"
  shows "acts g u h h''"
  using assms(2,1) by (induction rule: acts.induct) (auto intro: acts.intros)

lemma permitted_trans: "permitted sh w w' \<Longrightarrow> permitted sh w' w'' \<Longrightarrow> permitted sh w w''"
  by (auto simp: permitted_def intro: acts_trans)

lemma permitted_refl [simp]: "permitted sh w w"
  by (simp add: permitted_def acts_refl)

subsection \<open>What the manager does to the database\<close>

text \<open>
  The manager's operations on one VM change the database by that VM's status, or delete its row, and the
  running machines by that VM's.
\<close>

inductive touches :: "int \<Rightarrow> db \<Rightarrow> db \<Rightarrow> bool" for v d where
  touches_refl: "touches v d d"
| touches_status: "touches v d d' \<Longrightarrow> touches v d (snd (UpdateVMStatus now v status tap ip mac pid d'))"
| touches_delete: "touches v d d' \<Longrightarrow> touches v d (snd (DeleteVM v d'))"

definition tends :: "int \<Rightarrow> vm_host \<Rightarrow> vm_host \<Rightarrow> bool" where
  "tends v h h' \<longleftrightarrow> touches v (vh_db h) (vh_db h') \<and>
     (\<forall>i. i \<noteq> v \<longrightarrow> map_of (vh_running h') i = map_of (vh_running h) i)"

lemma touches_trans: "touches v d' d'' \<Longrightarrow> touches v d d' \<Longrightarrow> touches v d d''"
  by (induction rule: touches.induct) (auto intro: touches.intros)

lemma tends_trans: "tends v h h' \<Longrightarrow> tends v h' h'' \<Longrightarrow> tends v h h''"
  by (auto simp: tends_def intro: touches_trans)

lemma tends_same: "vh_db h' = vh_db h \<Longrightarrow> vh_running h' = vh_running h \<Longrightarrow> tends v h h'"
  by (simp add: tends_def touches_refl)

lemma tends_status: "tends v h (set_status now v status h)"
  by (simp add: tends_def set_status_def touches_status touches_refl)

lemma tends_status_row:
  "UpdateVMStatus now v status tap ip mac pid (vh_db h) = (r, d) \<Longrightarrow> tends v h (h\<lparr>vh_db := d\<rparr>)"
  using touches_status [OF touches_refl [of v "vh_db h"], of now status tap ip mac pid] by (simp add: tends_def)

lemma tends_fail: "tends v h h' \<Longrightarrow> tends v h (snd (fail_vm now v e h'))"
  by (auto simp: fail_vm_def intro: tends_trans tends_status)

lemma tends_boot: "tends v h (snd (boot_vm env now v name vcpu mem h))"
proof (cases "boot_vm env now v name vcpu mem h")
  case (Pair err h')
  then have "tends v h h'"
  proof (cases rule: boot_vm_cases)
    case (failed e h1)
    then show ?thesis by (auto simp: same_vms_def intro: tends_trans [OF tends_same tends_status])
  next
    case (booted nc fcVM h1)
    then show ?thesis
      by (auto simp: track_vm_def same_vms_def tends_def update_conv' touches_status touches_refl)
  qed
  then show ?thesis using Pair by simp
qed

lemma tends_seed: "seed_vm env v keys h = (r, h') \<Longrightarrow> tends w h h'"
  by (auto dest!: seed_vm_frame intro: tends_same)

lemma tends_data_disk: "ensure_data_disk env v h = (r, h') \<Longrightarrow> tends w h h'"
  by (auto dest!: ensure_data_disk_frame intro: tends_same)

lemma tends_files: "tends v h (h'\<lparr>vh_files := files\<rparr>) \<longleftrightarrow> tends v h h'"
  by (simp add: tends_def)

lemma CreateAndStart_tends: "tends v h (snd (CreateAndStart env now v name img vcpu mem keys h))"
proof (cases "UpdateVMStatus now v ''creating'' None None None None (vh_db h)")
  case (Pair r d)
  note start = tends_status_row [OF Pair]
  have seeded: "tends v h h'" if "seed_vm env v keys (h\<lparr>vh_db := d, vh_files := files\<rparr>) = (e, h')" for files e h'
    by (rule tends_trans [OF _ tends_seed [OF that]]) (use start in \<open>simp add: tends_files\<close>)
  have disk: "tends v h h''"
    if "seed_vm env v keys (h\<lparr>vh_db := d, vh_files := files\<rparr>) = (e, h')" "ensure_data_disk env v h' = (e', h'')"
    for files e h' e' h'' by (rule tends_trans [OF seeded [OF that(1)] tends_data_disk [OF that(2)]])
  show ?thesis using start
    by (simp add: CreateAndStart_def Pair Let_def tends_files tends_fail seeded disk tends_trans [OF _ tends_boot]
        split: prod.split sum.split option.split unit.split)
qed

lemma Start_tends: "tends v h (snd (Start env now v name vcpu mem keys h))"
proof (cases "seed_vm env v keys h")
  case (Pair r h')
  note seeded = tends_seed [OF Pair, of v]
  have "tends v h (h'\<lparr>vh_db := d\<rparr>)" if "UpdateVMStatus now v ''creating'' None None None None (vh_db h') = (r, d)" for r d
    by (rule tends_trans [OF seeded tends_status_row [OF that]])
  then show ?thesis using seeded
    by (simp add: Start_def Pair Let_def tends_same tends_fail tends_trans [OF _ tends_boot]
        split: prod.split sum.split option.split unit.split)
qed

lemma Stop_tends: "tends v h (snd (Stop env now v h))"
  by (simp add: Stop_def Let_def tends_def set_status_def delete_conv' touches_refl touches_status split: option.split)

lemma Destroy_tends: "tends v h (snd (Destroy env now v h))"
proof -
  define h1 where "h1 = (if map_of (vh_running h) v \<noteq> None then snd (Stop env now v h) else h)"
  have h1: "tends v h h1" unfolding h1_def by (simp add: Stop_tends tends_same)
  have "tends v h (h1\<lparr>vh_files := files, vh_db := d\<rparr>)" if "DeleteVM v (vh_db h1) = (r, d)" for files r d
    using h1 touches_delete [of v "vh_db h" "vh_db h1"] that by (simp add: tends_def)
  then show ?thesis unfolding Destroy_def Let_def h1_def [symmetric]
    by (simp split: prod.split sum.split unit.split)
qed

lemma manage_tends:
  assumes "may_manage u (vh_db h) op"
  obtains (vm) v where "owns (u_ID u) v (vh_db h)" "tends v h (run_host_op env now op h)"
    | (db) dop where "op = HDb dop" "may_db u (vh_db h) dop"
  using assms
proof (cases op)
  case (HCloneDisks s v)
  then show ?thesis using assms vm [of v] CloneDisks_frame [of env s v h] by (simp add: tends_same)
qed (use assms vm db CreateAndStart_tends Start_tends Stop_tends Destroy_tends in auto)

text \<open>Induction over a run, for a predicate on the database.\<close>

lemma acts_db_induct:
  assumes run: "acts g u h h'" and start: "P (vh_db h)"
    and op: "\<And>d now op. P d \<Longrightarrow> may_db u d op \<Longrightarrow> P (run_op now op d)"
    and touch: "\<And>d d' v. P d \<Longrightarrow> owns (u_ID u) v d \<Longrightarrow> touches v d d' \<Longrightarrow> P d'"
  shows "P (vh_db h')"
  using run
proof (induction rule: acts.induct)
  case acts_refl
  show ?case by (rule start)
next
  case (acts_db h' op now)
  then show ?case using op by simp
next
  case (acts_vm h' env op now)
  from acts_vm.hyps(3) show ?case
  proof (cases rule: manage_tends [where env = env and now = now])
    case (vm v)
    then show ?thesis using acts_vm.IH touch by (auto simp: tends_def)
  next
    case (db dop)
    then show ?thesis using acts_vm.IH op by simp
  qed
qed

end
