(* ===== verification/Shell_Refinement.thy ===== *)
theory Shell_Refinement
  imports Shell_Policy
begin

section \<open>Every command stays within the permissions\<close>

text \<open>
  For each command of the \<^verbatim>\<open>commands\<close> map a lemma: from a database that satisfies the invariant, the
  command is a run of permitted steps (\<open>permitted\<close>), and it reads from the input without adding to it. Then
  the same for the tutorial, the loop of the shell and the sessions of the gateway.
\<close>

subsection \<open>The steps commands are made of\<close>

named_theorems step_dests

lemma ReadLine_step [step_dests]:
  "ReadLine w = (r, w') \<Longrightarrow> w_host w' = w_host w \<and> length (w_in w') \<le> length (w_in w)"
  by (auto simp: ReadLine_def split: list.splits)

lemma db_write_step [step_dests]:
  "db_write f w = (r, w') \<Longrightarrow>
     w_host w' = (w_host w)\<lparr>vh_db := snd (f (vh_db (w_host w)))\<rparr> \<and> fst (f (vh_db (w_host w))) = r \<and> w_in w' = w_in w"
  by (auto simp: db_write_def w_db_def split: prod.splits)

lemma db_write_result [simp]:
  "w_host (snd (db_write f w)) = (w_host w)\<lparr>vh_db := snd (f (vh_db (w_host w)))\<rparr>" "w_in (snd (db_write f w)) = w_in w"
  by (simp_all add: db_write_def w_db_def split: prod.split)

lemma manager_step [step_dests]:
  "manager f w = (r, w') \<Longrightarrow> w_host w' = snd (f (w_host w)) \<and> w_in w' = w_in w"
  by (auto simp: manager_def split: prod.splits)

lemma helper_in [simp]:
  "w_in (snd (Intn sh k w)) = w_in w" "w_in (snd (rand_read sh k w)) = w_in w"
  "w_in (snd (randomName sh w)) = w_in w" "w_in (snd (generateLinkToken sh w)) = w_in w"
  "w_in (snd (registerVMMetadata sh now v n i w)) = w_in w" "w_in (unregisterVMMetadata sh v w) = w_in w"
  "w_in (addProxyRoute sh v n w) = w_in w" "w_in (removeProxyRoute sh n w) = w_in w"
  by (simp_all add: Intn_def rand_read_def randomName_def generateLinkToken_def registerVMMetadata_def
      unregisterVMMetadata_def addProxyRoute_def removeProxyRoute_def Let_def
      split: sum.split option.split prod.split list.split)

lemma helper_step [step_dests]:
  "randomName sh w = (n, w') \<Longrightarrow> w_host w' = w_host w \<and> w_in w' = w_in w"
  "generateLinkToken sh w = (t, w') \<Longrightarrow> w_host w' = w_host w \<and> w_in w' = w_in w"
  "registerVMMetadata sh now v m i w = (p, w') \<Longrightarrow> w_host w' = w_host w \<and> w_in w' = w_in w"
  "rand_read sh k w = (b, w') \<Longrightarrow> w_host w' = w_host w \<and> w_in w' = w_in w"
  using helper_frame(3) [of sh w] helper_frame(5) [of sh w] helper_frame(6) [of sh now v m i w]
    helper_frame(2) [of sh k w] helper_in(3) [of sh w] helper_in(4) [of sh w] helper_in(5) [of sh now v m i w]
    helper_in(2) [of sh k w] by auto

lemma world_fields [simp]:
  "w_host (w\<lparr>w_Proxy := p\<rparr>) = w_host w" "w_host (w\<lparr>w_Metadata := m\<rparr>) = w_host w"
  by simp_all

subsection \<open>Ownership\<close>

lemma owns_iff: "owns u v d \<longleftrightarrow> (\<exists>r \<in> set (vms (tables d)). v_ID r = v \<and> v_UserID r = u)"
  by (auto simp: owns_def list_ex_iff)

lemma owns_same_vms: "vms (tables d') = vms (tables d) \<Longrightarrow> owns u v d' \<longleftrightarrow> owns u v d"
  by (simp add: owns_def)

lemma list_ex_update: "(\<And>r. p (f r) = p r) \<Longrightarrow> list_ex p (sql_update q f rows) = list_ex p rows"
  by (induction rows) (auto simp: sql_update_def)

lemma owns_UpdateVMStatus [simp]:
  "owns u v (snd (UpdateVMStatus now i status tap ip mac pid d)) \<longleftrightarrow> owns u v d"
  by (simp add: owns_def UpdateVMStatus_def WriteTx_def exec_def list_ex_update split: sum.split)

lemma owns_AddTag [simp]: "owns u v (snd (AddTag i tag d)) \<longleftrightarrow> owns u v d"
  by (intro owns_same_vms) (auto simp: AddTag_def op_Inr Let_def intro!: WriteTx_frame split: if_split_asm)

lemma find_vm_owns [step_dests]:
  "find_vm what sh name w = Inr v \<Longrightarrow>
     owns (u_ID (sh_user sh)) (v_ID v) (vh_db (w_host w)) \<and> v_UserID v = u_ID (sh_user sh)"
  by (auto simp: find_vm_def VMByUserAndName_def ReadTx_def owns_iff w_db_def sql_select_def split: sum.splits if_splits
      dest!: query_row_in)

lemma CreateVM_owns:
  assumes "db_ok d" "fst (CreateVM now u name img c m g d) = Inr v"
  shows "owns u (v_ID v) (snd (CreateVM now u name img c m g d))"
proof -
  obtain d' where *: "CreateVM now u name img c m g d = (Inr v, d')" using assms(2) by (metis prod.collapse)
  then have "owns u (v_ID v) d'" using query_fresh_id [OF ok_tables(3) [OF assms(1)]]
    by (auto simp: CreateVM_def WriteTx_Inr op_Inr owns_def query_row_def)
  then show ?thesis by (simp add: *)
qed

subsection \<open>Steps in runs\<close>

lemma acts_op:
  "acts g u h h' \<Longrightarrow> may_db u (vh_db h') op \<Longrightarrow> run_op now op (vh_db h') = d \<Longrightarrow> acts g u h (h'\<lparr>vh_db := d\<rparr>)"
  using acts_db by blast

lemma acts_manage:
  "acts g u h h' \<Longrightarrow> gw_VM g = Some env \<Longrightarrow> may_manage u (vh_db h') op \<Longrightarrow> run_host_op env now op h' = h'' \<Longrightarrow>
     acts g u h h''"
  using acts_vm by blast

text \<open>One rule per operation a command uses; \<open>acts_rules\<close> carries the proofs below.\<close>

lemma acts_db_ops:
  assumes "acts g u h h'"
  shows
    "may_db u (vh_db h') (Machine (OpCreateVM i n img c m s)) \<Longrightarrow>
       acts g u h (h'\<lparr>vh_db := snd (CreateVM now i n img c m s (vh_db h'))\<rparr>)"
    "may_db u (vh_db h') (Machine (OpUpdateVMStatus v st None None None None)) \<Longrightarrow>
       acts g u h (h'\<lparr>vh_db := snd (UpdateVMStatus now v st None None None None (vh_db h'))\<rparr>)"
    "may_db u (vh_db h') (Machine (OpDeleteVM v)) \<Longrightarrow>
       acts g u h (h'\<lparr>vh_db := snd (DeleteVM v (vh_db h'))\<rparr>)"
    "may_db u (vh_db h') (Machine (OpRenameVM v n)) \<Longrightarrow>
       acts g u h (h'\<lparr>vh_db := snd (RenameVM now v n (vh_db h'))\<rparr>)"
    "may_db u (vh_db h') (Machine (OpAddTag v tag)) \<Longrightarrow>
       acts g u h (h'\<lparr>vh_db := snd (AddTag v tag (vh_db h'))\<rparr>)"
    "may_db u (vh_db h') (Machine (OpRemoveTag v tag)) \<Longrightarrow>
       acts g u h (h'\<lparr>vh_db := snd (RemoveTag v tag (vh_db h'))\<rparr>)"
    "may_db u (vh_db h') (Machine (OpCreateCustomDomain v n token)) \<Longrightarrow>
       acts g u h (h'\<lparr>vh_db := snd (CreateCustomDomain now v n token (vh_db h'))\<rparr>)"
    "may_db u (vh_db h') (Machine (OpVerifyCustomDomain n)) \<Longrightarrow>
       acts g u h (h'\<lparr>vh_db := snd (VerifyCustomDomain now n (vh_db h'))\<rparr>)"
    "may_db u (vh_db h') (Machine (OpDeleteCustomDomain n)) \<Longrightarrow>
       acts g u h (h'\<lparr>vh_db := snd (DeleteCustomDomain n (vh_db h'))\<rparr>)"
    "may_db u (vh_db h') (Sharing (OpShareVMWithUser v i)) \<Longrightarrow>
       acts g u h (h'\<lparr>vh_db := snd (ShareVMWithUser now v i (vh_db h'))\<rparr>)"
    "may_db u (vh_db h') (Sharing (OpShareVMWithLink v token)) \<Longrightarrow>
       acts g u h (h'\<lparr>vh_db := snd (ShareVMWithLink now v token (vh_db h'))\<rparr>)"
    "may_db u (vh_db h') (Sharing (OpRemoveShareByVMAndUser v i)) \<Longrightarrow>
       acts g u h (h'\<lparr>vh_db := snd (RemoveShareByVMAndUser v i (vh_db h'))\<rparr>)"
    "may_db u (vh_db h') (Sharing (OpRemoveShareLink v token)) \<Longrightarrow>
       acts g u h (h'\<lparr>vh_db := snd (RemoveShareLink v token (vh_db h'))\<rparr>)"
    "may_db u (vh_db h') (Sharing (OpSetVMPublic v b)) \<Longrightarrow>
       acts g u h (h'\<lparr>vh_db := snd (SetVMPublic now v b (vh_db h'))\<rparr>)"
    "may_db u (vh_db h') (Account (OpAddSSHKey i key fp comment)) \<Longrightarrow>
       acts g u h (h'\<lparr>vh_db := snd (AddSSHKey now i key fp comment (vh_db h'))\<rparr>)"
    "may_db u (vh_db h') (Account (OpDeleteSSHKey k)) \<Longrightarrow>
       acts g u h (h'\<lparr>vh_db := snd (DeleteSSHKey k (vh_db h'))\<rparr>)"
    "may_db u (vh_db h') (Account (OpSetUserTrustLevel i level)) \<Longrightarrow>
       acts g u h (h'\<lparr>vh_db := snd (SetUserTrustLevel now i level (vh_db h'))\<rparr>)"
    "may_db u (vh_db h') (Account (OpCompleteTutorialLesson i l)) \<Longrightarrow>
       acts g u h (h'\<lparr>vh_db := snd (CompleteTutorialLesson now i l (vh_db h'))\<rparr>)"
    "may_db u (vh_db h') (Account (OpResetTutorialProgress i)) \<Longrightarrow>
       acts g u h (h'\<lparr>vh_db := snd (ResetTutorialProgress i (vh_db h'))\<rparr>)"
    "may_db u (vh_db h') (Tok (OpCreateMagicToken i token expires)) \<Longrightarrow>
       acts g u h (h'\<lparr>vh_db := snd (CreateMagicToken i token expires (vh_db h'))\<rparr>)"
    "may_db u (vh_db h') (Llm (OpSetLLMKey i provider key)) \<Longrightarrow>
       acts g u h (h'\<lparr>vh_db := snd (SetLLMKey now i provider key (vh_db h'))\<rparr>)"
    "may_db u (vh_db h') (Llm (OpDeleteLLMKey i provider)) \<Longrightarrow>
       acts g u h (h'\<lparr>vh_db := snd (DeleteLLMKey i provider (vh_db h'))\<rparr>)"
    "may_db u (vh_db h') (Arena (OpCreateArenaMatch mid sc count i)) \<Longrightarrow>
       acts g u h (h'\<lparr>vh_db := snd (CreateArenaMatch now mid sc count i (vh_db h'))\<rparr>)"
    "may_db u (vh_db h') (Arena (OpJoinArenaMatch mid i)) \<Longrightarrow>
       acts g u h (h'\<lparr>vh_db := snd (JoinArenaMatch now mid i (vh_db h'))\<rparr>)"
    "may_db u (vh_db h') (Arena (OpUpdateArenaMatchStatus mid st)) \<Longrightarrow>
       acts g u h (h'\<lparr>vh_db := snd (UpdateArenaMatchStatus now mid st (vh_db h'))\<rparr>)"
  using assms acts_db [OF assms, of _ now]
  by (metis run_op.simps run_account_op.simps run_vm_op.simps run_share_op.simps run_token_op.simps run_llm_op.simps run_arena_op.simps)+

lemma acts_manager_ops:
  assumes "acts g u h h'" "gw_VM g = Some env"
  shows
    "owns (u_ID u) v (vh_db h') \<Longrightarrow> acts g u h (snd (CreateAndStart env now v n img c m keys h'))"
    "owns (u_ID u) v (vh_db h') \<Longrightarrow> acts g u h (snd (Start env now v n c m keys h'))"
    "owns (u_ID u) v (vh_db h') \<Longrightarrow> acts g u h (snd (Stop env now v h'))"
    "owns (u_ID u) v (vh_db h') \<Longrightarrow> acts g u h (snd (Destroy env now v h'))"
    "owns (u_ID u) s (vh_db h') \<Longrightarrow> owns (u_ID u) v (vh_db h') \<Longrightarrow> acts g u h (snd (CloneDisks env s v h'))"
  using acts_vm [OF assms, of "HCreateAndStart v n img c m keys" now] acts_vm [OF assms, of "HStart v n c m keys" now]
    acts_vm [OF assms, of "HStop v" now] acts_vm [OF assms, of "HDestroy v" now] acts_vm [OF assms, of "HCloneDisks s v" now]
  by simp_all

lemmas acts_rules = acts_refl acts_db_ops [simplified] acts_manager_ops

subsection \<open>Commands on VMs\<close>

text \<open>What is printed does not matter: congruences that keep the simplifier out of the messages.\<close>

lemma quiet_write:
  "w = w' \<Longrightarrow> writef m w = writef m w'" "w = w' \<Longrightarrow> writeln m w = writeln m w'"
  "w = w' \<Longrightarrow> writelns ms w = writelns ms w'" "w = w' \<Longrightarrow> writeJSON j w = writeJSON j w'"
  by simp_all

lemma quiet_error: "Failed e = Failed e" "Msg m = Msg m"
  by (rule refl)+

lemmas quiet = quiet_write quiet_error

lemma permitted_same: "w_host w' = w_host w \<Longrightarrow> w_in w' = w_in w \<Longrightarrow> permitted sh w w'"
  by (simp add: permitted_def acts_refl)

lemma cmdWhoami_permitted: "permitted sh w (snd (cmdWhoami sh now args w))"
  by (rule permitted_same) (simp_all add: cmdWhoami_def Let_def cong: quiet)

lemma cmdLs_permitted: "permitted sh w (snd (cmdLs sh now args w))"
  by (rule permitted_same) (simp_all add: cmdLs_def Let_def cong: quiet split: sum.split)

lemma cmdSSH_permitted: "permitted sh w (snd (cmdSSH sh now args w))"
  by (rule permitted_same)
    (simp_all add: cmdSSH_def Let_def cong: quiet split: sum.split list.split option.split outcome.split shell_error.split)

lemma cmdStop_permitted: "permitted sh w (snd (cmdStop sh now args w))"
  by (auto simp: cmdStop_def permitted_def Let_def w_db_def cong: quiet dest!: step_dests intro!: acts_rules
      split: list.split sum.split option.split prod.split)

lemma cmdTag_permitted: "permitted sh w (snd (cmdTag sh now args w))"
  by (auto simp: cmdTag_def permitted_def Let_def w_db_def cong: quiet dest!: step_dests intro!: acts_rules
      split: list.split sum.split option.split prod.split)

lemma cmdRename_permitted: "permitted sh w (snd (cmdRename sh now args w))"
  by (auto simp: cmdRename_def permitted_def Let_def w_db_def cong: quiet dest!: step_dests intro!: acts_rules
      split: list.split sum.split option.split prod.split)

lemma cmdRm_permitted: "permitted sh w (snd (cmdRm sh now args w))"
  by (auto simp: cmdRm_def permitted_def Let_def w_db_def cong: quiet dest!: step_dests intro!: acts_rules
      split: list.split sum.split option.split prod.split)

lemma start_and_register_step:
  assumes "start_and_register sh now env v name failed w = (r, w')"
    "gw_VM (sh_gw sh) = Some env" "owns (u_ID (sh_user sh)) (v_ID v) (vh_db (w_host w))"
  shows "acts (sh_gw sh) (sh_user sh) (w_host w) (w_host w') \<and> length (w_in w') \<le> length (w_in w)"
  using assms
  by (auto simp: start_and_register_def Let_def cong: quiet dest!: step_dests intro!: acts_rules
      split: option.splits prod.splits)

lemma cmdStart_permitted: "permitted sh w (snd (cmdStart sh now args w))"
  by (auto simp: cmdStart_def permitted_def Let_def w_db_def cong: quiet dest!: step_dests dest: start_and_register_step
      intro!: acts_rules split: list.split sum.split option.split prod.split outcome.split)

lemma owns_Stop [simp]: "owns u v (vh_db (snd (Stop env now i h))) \<longleftrightarrow> owns u v (vh_db h)"
  by (simp add: Stop_def set_status_def Let_def split: option.split)

lemma restart_stop_step:
  assumes "(if c then manager (Stop env now i) w else (None, w)) = (e, w')"
    "gw_VM (sh_gw sh) = Some env" "owns (u_ID (sh_user sh)) i (vh_db (w_host w))"
  shows "acts (sh_gw sh) (sh_user sh) (w_host w) (w_host w') \<and> owns (u_ID (sh_user sh)) i (vh_db (w_host w')) \<and>
     w_in w' = w_in w"
  using assms by (auto dest!: step_dests intro!: acts_rules split: if_split_asm)

lemma start_after:
  assumes "acts (sh_gw sh) (sh_user sh) h (w_host w1) \<and> owns (u_ID (sh_user sh)) (v_ID v) (vh_db (w_host w1)) \<and> w_in w1 = w_in w0"
    "start_and_register sh now env v name failed w1 = (r, w2)" "gw_VM (sh_gw sh) = Some env"
  shows "acts (sh_gw sh) (sh_user sh) h (w_host w2) \<and> length (w_in w2) \<le> length (w_in w0)"
  using start_and_register_step [OF assms(2,3)] assms(1) by (auto intro: acts_trans)

lemma cmdRestart_permitted: "permitted sh w (snd (cmdRestart sh now args w))"
proof (cases args)
  case Nil
  then show ?thesis by (simp add: cmdRestart_def cong: quiet)
next
  case (Cons name rest)
  show ?thesis
  proof (cases "find_vm ''lookup'' sh name w")
    case (Inl e)
    then show ?thesis by (simp add: cmdRestart_def Cons cong: quiet)
  next
    case (Inr v)
    note own = find_vm_owns [OF Inr]
    show ?thesis
    proof (cases "gw_VM (sh_gw sh)")
      case None
      then show ?thesis by (simp add: cmdRestart_def Cons Inr permitted_same cong: quiet)
    next
      case (Some env)
      define w0 where "w0 = removeProxyRoute sh name (unregisterVMMetadata sh (v_ID v) (writef (''  restarting '' @ name @ ''...'') w))"
      have w0: "w_host w0 = w_host w" "w_in w0 = w_in w" by (simp_all add: w0_def)
      obtain e w1 where 1: "(if v_Status v = ''running'' then manager (Stop env now (v_ID v)) w0 else (None, w0)) = (e, w1)"
        by (metis surj_pair)
      note stopped = restart_stop_step [OF 1 Some, unfolded w0, OF conjunct1 [OF own]]
      obtain r w2 where 2: "start_and_register sh now env v name '' start failed!'' w1 = (r, w2)" by (metis surj_pair)
      note started = start_after [OF stopped 2 Some]
      have "snd (cmdRestart sh now args w) \<in> {writeln '' stop failed!'' w1, writeln '' done.'' w2, w2}"
        using 1 2 by (cases "v_Status v = ''running''"; simp add: cmdRestart_def Cons Inr Some Let_def w0_def [symmetric] cong: quiet
            split: option.split outcome.split)
      then show ?thesis using stopped started by (auto simp: permitted_def)
    qed
  qed
qed

text \<open>\<^verbatim>\<open>new\<close> and \<^verbatim>\<open>cp\<close>: the row is the user's, so what follows may act on it.\<close>

lemma quota_ok: "quota_error sh w = None \<Longrightarrow>
    vm_limit (sh_user sh) < 0 \<or> vm_count (u_ID (sh_user sh)) (vh_db (w_host w)) < vm_limit (sh_user sh)"
  by (auto simp: quota_error_def GetUserVMCount_def VMCountByUser_def ReadTx_def vm_limit_def vm_count_def w_db_def Let_def
      split: if_splits sum.splits)

lemma provision_step:
  assumes "owns (u_ID (sh_user sh)) (v_ID v) (vh_db (w_host w))"
  shows "permitted sh w (snd (provision sh now v name img vcpu mem w))"
  using assms
  by (auto simp: provision_def new_done_def permitted_def Let_def cong: quiet dest!: step_dests intro!: acts_rules
      split: option.splits prod.splits)

lemma create_step:
  assumes "db_write (CreateVM now (u_ID (sh_user sh)) name img c m g) w = (Inr v, w')" "db_ok (w_db w)"
    "validName name" "vm_limit (sh_user sh) < 0 \<or> vm_count (u_ID (sh_user sh)) (vh_db (w_host w)) < vm_limit (sh_user sh)"
  shows "permitted sh w w' \<and> owns (u_ID (sh_user sh)) (v_ID v) (vh_db (w_host w'))"
  using db_write_step [OF assms(1)] assms(2-4) CreateVM_owns [of "w_db w" now "u_ID (sh_user sh)" name img c m g v]
  by (auto simp: permitted_def w_db_def intro!: acts_rules)

lemma permitted_write [simp]:
  "permitted sh w (writef m w') \<longleftrightarrow> permitted sh w w'" "permitted sh w (writeln m w') \<longleftrightarrow> permitted sh w w'"
  "permitted sh w (writelns ms w') \<longleftrightarrow> permitted sh w w'" "permitted sh w (writeJSON j w') \<longleftrightarrow> permitted sh w w'"
  "permitted sh (writef m w) w' \<longleftrightarrow> permitted sh w w'" "permitted sh (writeln m w) w' \<longleftrightarrow> permitted sh w w'"
  by (simp_all add: permitted_def)

lemma create_then:
  assumes "quota_error sh w = None" "validName name" "db_ok (w_db w)"
    "db_write (CreateVM now (u_ID (sh_user sh)) name img c m g) w = (r, w')"
  shows "permitted sh w w'"
    and "r = Inr v \<Longrightarrow> owns (u_ID (sh_user sh)) (v_ID v) (vh_db (w_host w'))"
proof -
  show "permitted sh w w'"
    using db_write_step [OF assms(4)] quota_ok [OF assms(1)] assms(2)
    by (auto simp: permitted_def intro!: acts_rules)
  show "owns (u_ID (sh_user sh)) (v_ID v) (vh_db (w_host w'))" if "r = Inr v"
    using create_step [OF _ assms(3,2) quota_ok [OF assms(1)]] assms(4) that by blast
qed

lemma name_drawn: "(if c then randomName sh w else (n, w)) = (n', w') \<Longrightarrow> w_host w' = w_host w \<and> w_in w' = w_in w"
  by (auto dest!: step_dests split: if_split_asm)

lemma cmdNew_permitted:
  assumes ok: "db_ok (w_db w)"
  shows "permitted sh w (snd (cmdNew sh now args w))"
proof -
  let ?arg = "flag_value ''--name='' args ''''" let ?img = "flag_value ''--image='' args ''ussyuntu''"
  let ?limits = "GetTrustLimits (u_TrustLevel (sh_user sh))"
  obtain n w1 where 1: "(if ?arg = '''' then randomName sh w else (?arg, w)) = (n, w1)" by (metis surj_pair)
  have same: "permitted sh w w'" if "permitted sh w1 w'" for w'
    using that name_drawn [OF 1] by (simp add: permitted_def)
  have ok1: "db_ok (w_db w1)" using ok name_drawn [OF 1] by (simp add: w_db_def)
  obtain r w2 where 2: "db_write (CreateVM now (u_ID (sh_user sh)) (ToLower n) ?img (new_vcpu ?limits) (new_memory ?limits) 5) w1 = (r, w2)"
    by (metis surj_pair)
  note create = create_then [OF _ _ ok1 2]
  have "permitted sh w1 (snd (provision sh now v (ToLower n) ?img (new_vcpu ?limits) (new_memory ?limits) (writef m w2)))"
    if "quota_error sh w1 = None" "validName (ToLower n)" "r = Inr v" for v m
    using permitted_trans [of sh w1 w2] provision_step [of sh v "writef m w2"] create [OF that(1,2)] that(3) by simp
  then have "permitted sh w1 (snd (cmdNew sh now args w))"
    using create(1) unfolding cmdNew_def Let_def 1 case_prod_conv 2
    by (auto cong: quiet split: option.split sum.split)
  then show ?thesis by (rule same)
qed

lemma owns_CreateVM: "owns u v d \<Longrightarrow> owns u v (snd (CreateVM now i n img c m g d))"
  by (auto simp: owns_iff CreateVM_def WriteTx_def op_Inr split: sum.splits)

lemma add_tags_step:
  "owns (u_ID (sh_user sh)) v (vh_db (w_host w)) \<Longrightarrow>
     permitted sh w (fold (\<lambda>tag w. snd (db_write (AddTag v tag) w)) tags w)"
proof (induction tags arbitrary: w)
  case (Cons tag tags)
  have "permitted sh w (snd (db_write (AddTag v tag) w))"
    using Cons.prems by (auto simp: permitted_def intro!: acts_rules)
  then show ?case using Cons by (auto intro: permitted_trans)
qed simp

lemma clone_disks_step:
  assumes "(case gw_VM (sh_gw sh) of None \<Rightarrow> (None, w) | Some env \<Rightarrow> manager (CloneDisks env s v) w) = (e, w')"
    "owns (u_ID (sh_user sh)) s (vh_db (w_host w))" "owns (u_ID (sh_user sh)) v (vh_db (w_host w))"
  shows "permitted sh w w' \<and> owns (u_ID (sh_user sh)) v (vh_db (w_host w'))"
  using assms
  by (auto simp: permitted_def CloneDisks_frame dest!: step_dests intro!: acts_rules split: option.splits)

lemma status_step:
  "owns (u_ID (sh_user sh)) v (vh_db (w_host w)) \<Longrightarrow>
     permitted sh w (snd (db_write (UpdateVMStatus now v status None None None None) w))"
  "owns (u_ID (sh_user sh)) v (vh_db (w_host w)) \<Longrightarrow> permitted sh w (snd (db_write (DeleteVM v) w))"
  by (auto simp: permitted_def intro!: acts_rules)

lemma clone_vm_permitted:
  assumes "quota_error sh w = None" "validName dst" "db_ok (w_db w)"
    and src: "owns (u_ID (sh_user sh)) (v_ID src) (vh_db (w_host w))"
  shows "permitted sh w (snd (clone_vm sh now src dst w))"
proof -
  obtain r w1 where 1: "db_write (CreateVM now (u_ID (sh_user sh)) dst (v_Image src) (v_VCPU src) (v_MemoryMB src)
      (v_DiskGB src)) w = (r, w1)" by (metis surj_pair)
  note create = create_then [OF assms(1-3) 1]
  show ?thesis
  proof (cases r)
    case (Inl e)
    then show ?thesis using create(1) by (simp add: clone_vm_def 1 cong: quiet)
  next
    case (Inr v)
    note own = create(2) [OF Inr]
    have src1: "owns (u_ID (sh_user sh)) (v_ID src) (vh_db (w_host w1))"
      using db_write_step [OF 1] src by (simp add: owns_CreateVM)
    obtain e w2 where 2: "(case gw_VM (sh_gw sh) of None \<Rightarrow> (None, w1)
        | Some env \<Rightarrow> manager (CloneDisks env (v_ID src) (v_ID v)) w1) = (e, w2)" by (metis surj_pair)
    note cloned = clone_disks_step [OF 2 src1 own]
    have w2: "permitted sh w w2" using create(1) cloned by (auto intro: permitted_trans)
    have removed: "permitted sh w (snd (db_write (DeleteVM (v_ID v)) (writeln m w2)))" for m
      using permitted_trans [OF w2, of "snd (db_write (DeleteVM (v_ID v)) (writeln m w2))"]
        status_step(2) [of sh "v_ID v" "writeln m w2"] cloned by simp
    define w3 where "w3 = snd (db_write (UpdateVMStatus now (v_ID v) ''stopped'' None None None None) w2)"
    have w3: "permitted sh w w3" "owns (u_ID (sh_user sh)) (v_ID v) (vh_db (w_host w3))"
      using permitted_trans [OF w2 status_step(1)] cloned by (auto simp: w3_def)
    have tagged: "permitted sh w (fold (\<lambda>tag w. snd (db_write (AddTag (v_ID v) tag) w)) tags w3)" for tags
      by (rule permitted_trans [OF w3(1) add_tags_step [OF w3(2)]])
    show ?thesis
      using removed tagged by (simp add: clone_vm_def 1 Inr 2 Let_def w3_def cong: quiet split: option.split)
  qed
qed

lemma cmdCp_permitted:
  assumes ok: "db_ok (w_db w)"
  shows "permitted sh w (snd (cmdCp sh now args w))"
proof (cases args)
  case Nil
  then show ?thesis by (simp add: cmdCp_def cong: quiet)
next
  case (Cons src_name rest)
  let ?arg = "case rest of [] \<Rightarrow> '''' | n # _ \<Rightarrow> ToLower n"
  obtain n w1 where 1: "(if ?arg = '''' then randomName sh w else (?arg, w)) = (n, w1)" by (metis surj_pair)
  have same: "permitted sh w w'" if "permitted sh w1 w'" for w'
    using that name_drawn [OF 1] by (simp add: permitted_def)
  have cloned: "permitted sh w1 (snd (clone_vm sh now src n (writef m w1)))"
    if "find_vm ''lookup'' sh src_name w = Inr src" "validName n" "quota_error sh w1 = None" for src m
  proof -
    have "quota_error sh (writef m w1) = None" using that(3) by (simp add: quota_error_def w_db_def)
    moreover have "db_ok (w_db (writef m w1))" using ok name_drawn [OF 1] by (simp add: w_db_def)
    moreover have "owns (u_ID (sh_user sh)) (v_ID src) (vh_db (w_host (writef m w1)))"
      using find_vm_owns [OF that(1)] name_drawn [OF 1] by simp
    ultimately have "permitted sh (writef m w1) (snd (clone_vm sh now src n (writef m w1)))"
      using that(2) by (intro clone_vm_permitted)
    then show ?thesis by simp
  qed
  show ?thesis
    using cloned unfolding cmdCp_def Cons list.case Let_def 1 case_prod_conv
    by (auto cong: quiet intro: same split: option.split sum.split)
qed

subsection \<open>Commands on accounts and access\<close>

lemma printed:
  "permitted sh w (snd (cmdHelp sh now args w))" "permitted sh w (snd (cmdCommunity sh now args w))"
  "permitted sh w (snd (cmdSSHKeyHelp w))" "permitted sh w (snd (cmdShareHelp w))" "permitted sh w (snd (cmdLLMKeyHelp w))"
  "permitted sh w (snd (cmdAdminHelp w))" "permitted sh w (snd (cmdArenaHelp w))"
  by (simp_all add: cmdHelp_def cmdCommunity_def cmdSSHKeyHelp_def cmdShareHelp_def cmdLLMKeyHelp_def cmdAdminHelp_def
      cmdArenaHelp_def Let_def cong: quiet)

lemma listed:
  "permitted sh w (snd (cmdSSHKeyList sh now args w))" "permitted sh w (snd (cmdShareList sh now args w))"
  "permitted sh w (snd (cmdLLMKeyList sh now args w))"
  by (simp_all add: cmdSSHKeyList_def cmdShareList_def cmdLLMKeyList_def Let_def cong: quiet split: sum.split list.split)

lemma cmdSSHKeyAdd_permitted: "permitted sh w (snd (cmdSSHKeyAdd sh now args w))"
  by (auto simp: cmdSSHKeyAdd_def permitted_def Let_def w_db_def cong: quiet dest!: step_dests intro!: acts_rules
      split: sum.split option.split prod.split)

lemma removable_key:
  "SSHKeysByUser u d = Inr keys \<Longrightarrow> SSHKeyCountByUser u d = Inr n \<Longrightarrow> list_ex (\<lambda>k. k_ID k = i) keys \<Longrightarrow> \<not> n \<le> 1 \<Longrightarrow>
     list_ex (\<lambda>k. k_ID k = i \<and> k_UserID k = u) (ssh_keys (tables d)) \<and> key_count u d > 1"
  by (auto simp: SSHKeysByUser_def SSHKeyCountByUser_def ReadTx_def list_ex_iff key_count_def sql_select_def split: if_splits)

lemma cmdSSHKeyRemove_permitted: "permitted sh w (snd (cmdSSHKeyRemove sh now args w))"
  by (auto simp: cmdSSHKeyRemove_def permitted_def Let_def w_db_def cong: quiet dest!: step_dests dest: removable_key
      intro!: acts_rules split: list.split sum.split option.split prod.split)

lemma cmdSSHKey_permitted: "permitted sh w (snd (cmdSSHKey sh now args w))"
  by (simp add: cmdSSHKey_def printed listed cmdSSHKeyAdd_permitted cmdSSHKeyRemove_permitted cong: quiet split: list.split)

lemma find_target_owns [step_dests]:
  "find_target sh name handle w = Inr (v, target) \<Longrightarrow> owns (u_ID (sh_user sh)) (v_ID v) (vh_db (w_host w))"
  by (auto simp: find_target_def dest!: find_vm_owns split: sum.splits)

lemma share_changes:
  "permitted sh w (snd (cmdShareAdd sh now args w))" "permitted sh w (snd (cmdShareRemove sh now args w))"
  "permitted sh w (snd (cmdShareAddLink sh now args w))" "permitted sh w (snd (cmdShareRemoveLink sh now args w))"
  "permitted sh w (snd (cmdShareSetPublic b sh now args w))"
  by (auto simp: cmdShareAdd_def cmdShareRemove_def cmdShareAddLink_def cmdShareRemoveLink_def cmdShareSetPublic_def
      permitted_def Let_def w_db_def cong: quiet dest!: step_dests intro!: acts_rules
      split: list.split sum.split option.split prod.split)

lemma find_domain_owns [step_dests]:
  "find_domain sh name domain missing w = Inr (v, c) \<Longrightarrow>
     owns_domain (u_ID (sh_user sh)) domain (vh_db (w_host w))"
  by (auto simp: find_domain_def GetCustomDomain_def ReadTx_def w_db_def owns_domain_def list_ex_iff sql_select_def
      dest!: find_vm_owns query_row_in split: sum.splits if_splits)

lemma cmdShareCname_permitted: "permitted sh w (snd (cmdShareCname sh now args w))"
  by (auto simp: cmdShareCname_def permitted_def Let_def w_db_def cong: quiet dest!: step_dests intro!: acts_rules
      split: list.split sum.split option.split prod.split)

lemma cmdShareCnameVerify_permitted: "permitted sh w (snd (cmdShareCnameVerify sh now args w))"
  by (auto simp: cmdShareCnameVerify_def permitted_def Let_def w_db_def cong: quiet dest!: step_dests intro!: acts_rules
      split: list.split sum.split option.split prod.split)

lemma cmdShareCnameRm_permitted: "permitted sh w (snd (cmdShareCnameRm sh now args w))"
  by (auto simp: cmdShareCnameRm_def permitted_def Let_def w_db_def cong: quiet dest!: step_dests intro!: acts_rules
      split: list.split sum.split option.split prod.split)

lemma cmdShare_permitted: "permitted sh w (snd (cmdShare sh now args w))"
  by (simp add: cmdShare_def printed listed share_changes cmdShareCname_permitted cmdShareCnameVerify_permitted
      cmdShareCnameRm_permitted cong: quiet split: list.split)

lemma SetUserKey_result:
  "snd (SetUserKey now nonce u p k g d) = d \<or> (\<exists>enc. snd (SetUserKey now nonce u p k g d) = snd (SetLLMKey now u p enc d))"
  by (auto simp: SetUserKey_def split: option.split)

lemma set_user_key_step [step_dests]:
  assumes "set_user_key sh now g p k w = (r, w')"
  shows "permitted sh w w'"
proof -
  have stored: "permitted sh w w'"
    if "db_write (SetUserKey now nonce (u_ID (sh_user sh)) p k g) w1 = (x, w')" "w_host w1 = w_host w" "w_in w1 = w_in w"
    for nonce w1 x
    using SetUserKey_result [of now nonce "u_ID (sh_user sh)" p k g "vh_db (w_host w)"] db_write_step [OF that(1)] that(2,3)
    by (auto simp: permitted_def intro!: acts_rules)
  show ?thesis
    using assms unfolding set_user_key_def Let_def
    by (auto dest!: helper_step(4) intro: stored permitted_same cong: quiet split: if_splits prod.splits sum.splits)
qed

lemma cmdLLMKey_permitted: "permitted sh w (snd (cmdLLMKey sh now args w))"
proof -
  have "permitted sh w (snd (cmdLLMKeySet sh now rest w))" for rest
    by (auto simp: cmdLLMKeySet_def Let_def cong: quiet dest!: step_dests split: list.split sum.split option.split prod.split)
  moreover have "permitted sh w (snd (cmdLLMKeyRemove sh now rest w))" for rest
    by (auto simp: cmdLLMKeyRemove_def permitted_def Let_def w_db_def cong: quiet dest!: step_dests intro!: acts_rules
        split: list.split sum.split prod.split)
  ultimately show ?thesis
    by (simp add: cmdLLMKey_def printed listed cong: quiet split: list.split)
qed

lemma cmdAdmin_permitted: "permitted sh w (snd (cmdAdmin sh now args w))"
proof -
  have "permitted sh w (snd (cmdAdminSetTrust sh now rest w))" if "u_TrustLevel (sh_user sh) = ''admin''" for rest
    using that by (auto simp: cmdAdminSetTrust_def permitted_def Let_def w_db_def cong: quiet dest!: step_dests intro!: acts_rules
        split: list.split sum.split prod.split)
  then show ?thesis by (simp add: cmdAdmin_def printed cong: quiet split: list.split)
qed

lemma generateMagicToken_step [step_dests]:
  "generateMagicToken sh w = (r, w') \<Longrightarrow> w_host w' = w_host w \<and> w_in w' = w_in w"
  by (auto simp: generateMagicToken_def dest!: step_dests split: sum.splits prod.splits)

lemma renderASCIIQR_frame [simp]: "w_host (renderASCIIQR url w) = w_host w" "w_in (renderASCIIQR url w) = w_in w"
  by (simp_all add: renderASCIIQR_def Let_def cong: quiet)

lemma cmdBrowser_permitted: "permitted sh w (snd (cmdBrowser sh now args w))"
  by (auto simp: cmdBrowser_def permitted_def Let_def w_db_def cong: quiet dest!: step_dests intro!: acts_rules
      split: list.split sum.split prod.split)

subsection \<open>Commands of the arena\<close>

lemma create_flags_bounds:
  "create_flags args agents sc = Some (n, sc') \<Longrightarrow> 2 \<le> agents \<Longrightarrow> agents \<le> 10 \<Longrightarrow> 2 \<le> n \<and> n \<le> 10"
  by (induction args agents sc rule: create_flags.induct) (auto split: if_splits option.splits)

lemma generateMatchID_step [step_dests]:
  "generateMatchID sh w = (r, w') \<Longrightarrow> w_host w' = w_host w \<and> w_in w' = w_in w"
  by (auto simp: generateMatchID_def dest!: step_dests split: sum.splits prod.splits)

lemma db_write_permitted:
  assumes "db_write f w = (r, w')" "snd (f (w_db w)) = run_op now op (w_db w)" "may_db (sh_user sh) (vh_db (w_host w)) op"
  shows "permitted sh w w'"
  using db_write_step [OF assms(1)] acts_db [OF acts_refl assms(3), of "sh_gw sh" now] assms(2)
  by (simp add: permitted_def w_db_def)

lemma new_match_free:
  assumes "db_ok d" "fst (CreateArenaMatch now m sc n u d) = Inr r"
  shows "list_ex (\<lambda>r. am_MatchID r = m \<and> am_Status r = ''waiting'' \<and> am_MaxAgents r = n)
      (matches (tables (snd (CreateArenaMatch now m sc n u d))))"
    and "seats_taken m (snd (CreateArenaMatch now m sc n u d)) = 0"
proof -
  obtain d' where *: "CreateArenaMatch now m sc n u d = (Inr r, d')" using assms(2) by (metis prod.collapse)
  then have "list_ex (\<lambda>r. am_MatchID r = m \<and> am_Status r = ''waiting'' \<and> am_MaxAgents r = n) (matches (tables d'))"
    by (auto simp: CreateArenaMatch_def WriteTx_Inr op_Inr)
  then show "list_ex (\<lambda>r. am_MatchID r = m \<and> am_Status r = ''waiting'' \<and> am_MaxAgents r = n)
      (matches (tables (snd (CreateArenaMatch now m sc n u d))))" by (simp add: *)
  have fresh: "m \<notin> match_ids (tables d)" "participants (tables d') = participants (tables d)"
    using * by (auto simp: CreateArenaMatch_def WriteTx_Inr op_Inr match_ids_def match_clash_def)
  have "ap_MatchID p \<in> match_ids (tables d)" if "p \<in> set (participants (tables d))" for p
    using assms(1) that by (auto simp: db_ok_def tables_ok_def table_wf_def participant_row_ok_def)
  then show "seats_taken m (snd (CreateArenaMatch now m sc n u d)) = 0"
    using fresh by (auto simp: * seats_taken_def sql_select_def filter_empty_conv)
qed

lemma cmdArenaCreateMatch_permitted:
  assumes ok: "db_ok (w_db w)"
  shows "permitted sh w (snd (cmdArenaCreateMatch sh now args w))"
proof -
  let ?u = "u_ID (sh_user sh)"
  have created: "permitted sh w w2"
    if "db_write (CreateArenaMatch now m sc n ?u) w1 = (x, w2)" "w_host w1 = w_host w \<and> w_in w1 = w_in w" "1 \<le> n" "n \<le> 10"
    for m sc n w1 x w2
    using db_write_permitted [OF that(1), of now "Arena (OpCreateArenaMatch m sc n ?u)" sh] that(2-4)
    by (simp add: permitted_def)
  have joined: "permitted sh w2 w3"
    if "db_write (CreateArenaMatch now m sc n ?u) w1 = (Inr r, w2)" "db_write (JoinArenaMatch now m ?u) w2 = (x, w3)"
      "w_host w1 = w_host w \<and> w_in w1 = w_in w" "1 \<le> n" for m sc n w1 r w2 x w3
  proof (rule db_write_permitted [OF that(2), of now "Arena (OpJoinArenaMatch m ?u)"])
    have "w_host w2 = (w_host w)\<lparr>vh_db := snd (CreateArenaMatch now m sc n ?u (w_db w))\<rparr>"
      "fst (CreateArenaMatch now m sc n ?u (w_db w)) = Inr r"
      using db_write_step [OF that(1)] that(3) by (simp_all add: w_db_def)
    then show "may_db (sh_user sh) (vh_db (w_host w2)) (Arena (OpJoinArenaMatch m ?u))"
      using new_match_free [OF ok, of now m sc n ?u r] that(4) by (auto simp: list_ex_iff)
  qed simp
  show ?thesis
    unfolding cmdArenaCreateMatch_def Let_def
    by (auto cong: quiet dest!: create_flags_bounds generateMatchID_step intro: created permitted_same
        permitted_trans [OF created joined] split: option.split sum.split prod.split)
qed

lemma joinable_open:
  assumes "joinable sh m d = Inr (r, count)"
  shows "r \<in> set (matches (tables d)) \<and> am_MatchID r = m \<and> am_Status r = ''waiting'' \<and>
     count = seats_taken m d \<and> count < am_MaxAgents r"
  using assms
  by (auto simp: joinable_def GetArenaMatch_def ArenaParticipantCount_def ReadTx_def seats_taken_def sql_select_def
      dest!: query_row_in split: sum.splits if_splits)

lemma join_seats:
  assumes "fst (JoinArenaMatch now m u d) = Inr p"
  shows "seats_taken m (snd (JoinArenaMatch now m u d)) = seats_taken m d + 1"
    and "matches (tables (snd (JoinArenaMatch now m u d))) = matches (tables d)"
proof -
  obtain d' where *: "JoinArenaMatch now m u d = (Inr p, d')" using assms by (metis prod.collapse)
  then have "seats_taken m d' = seats_taken m d + 1 \<and> matches (tables d') = matches (tables d)"
    by (auto simp: JoinArenaMatch_def WriteTx_Inr op_Inr seats_taken_def)
  then show "seats_taken m (snd (JoinArenaMatch now m u d)) = seats_taken m d + 1"
    and "matches (tables (snd (JoinArenaMatch now m u d))) = matches (tables d)"
    by (simp_all add: *)
qed

lemma cmdArenaJoin_permitted: "permitted sh w (snd (cmdArenaJoin sh now args w))"
proof -
  let ?u = "u_ID (sh_user sh)"
  have joined: "permitted sh w w'"
    if "joinable sh m (w_db w) = Inr (r, count)" "db_write (JoinArenaMatch now m ?u) w = (x, w')" for m r count x w'
    using joinable_open [OF that(1)]
    by (intro db_write_permitted [OF that(2), of now "Arena (OpJoinArenaMatch m ?u)"]) (auto simp: list_ex_iff w_db_def)
  have started: "permitted sh w' (snd (db_write (UpdateArenaMatchStatus now m ''running'') w''))"
    if "joinable sh m (w_db w) = Inr (r, count)" "db_write (JoinArenaMatch now m ?u) w = (Inr p, w')"
      "am_MaxAgents r \<le> count + 1" "w_host w'' = w_host w' \<and> w_in w'' = w_in w'" for m r count p w' w''
  proof -
    obtain y w3 where 3: "db_write (UpdateArenaMatchStatus now m ''running'') w'' = (y, w3)" by (metis surj_pair)
    have "permitted sh w'' w3"
    proof (rule db_write_permitted [OF 3, of now "Arena (OpUpdateArenaMatchStatus m ''running'')"])
      show "may_db (sh_user sh) (vh_db (w_host w'')) (Arena (OpUpdateArenaMatchStatus m ''running''))"
        using joinable_open [OF that(1)] that(3,4) db_write_step [OF that(2)] join_seats [of now m ?u "w_db w" p]
        by (auto simp: list_ex_iff w_db_def)
    qed simp
    then show ?thesis using that(4) by (simp add: 3 permitted_def)
  qed
  show ?thesis
    unfolding cmdArenaJoin_def Let_def
    by (auto cong: quiet intro: joined permitted_trans [OF joined started] split: list.split sum.split prod.split)
qed

lemma arena_printed:
  "permitted sh w (snd (cmdArenaSpectate sh now args w))" "permitted sh w (snd (cmdArenaLeaderboard sh now args w))"
  "permitted sh w (snd (cmdArenaList sh now args w))" "permitted sh w (snd (cmdArenaHistory sh now args w))"
  by (simp_all add: cmdArenaSpectate_def cmdArenaLeaderboard_def cmdArenaList_def cmdArenaHistory_def
      cong: quiet split: list.split sum.split)

lemma cmdArena_permitted: "db_ok (w_db w) \<Longrightarrow> permitted sh w (snd (cmdArena sh now args w))"
  by (simp add: cmdArena_def printed arena_printed cmdArenaCreateMatch_permitted cmdArenaJoin_permitted
      cong: quiet split: list.split)

subsection \<open>The commands map, the tutorial and the sessions\<close>

lemma command_entry:
  assumes "map_of base_commands name = Some cmd" "db_ok (w_db w)"
  shows "permitted sh w (snd (cmd sh now args w))"
proof -
  have "cmd \<in> set (map snd base_commands)" using assms(1) by (force dest: map_of_SomeD)
  then show ?thesis using assms(2)
    by (auto simp: base_commands_def printed cmdWhoami_permitted cmdLs_permitted cmdNew_permitted cmdRm_permitted cmdSSH_permitted
        cmdStop_permitted cmdRestart_permitted cmdTag_permitted cmdRename_permitted cmdCp_permitted cmdStart_permitted
        cmdSSHKey_permitted cmdShare_permitted cmdAdmin_permitted cmdLLMKey_permitted cmdArena_permitted cmdBrowser_permitted)
qed

lemma manage_ok:
  assumes "touches v d d'" "db_ok d"
  shows "db_ok d'"
  using assms by (induction rule: touches.induct) (simp_all add: UpdateVMStatus_ok DeleteVM_ok)

lemma acts_ok: "acts g u h h' \<Longrightarrow> db_ok (vh_db h) \<Longrightarrow> db_ok (vh_db h')"
  by (rule acts_db_induct [where P = db_ok]) (auto intro: run_op_ok manage_ok)

lemma permitted_ok: "permitted sh w w' \<Longrightarrow> db_ok (w_db w) \<Longrightarrow> db_ok (w_db w')"
  by (auto simp: permitted_def w_db_def intro: acts_ok)

lemma mark_complete_permitted: "permitted sh w (snd (mark_complete sh now lesson msgs w))"
  by (auto simp: mark_complete_def permitted_def cong: quiet dest!: step_dests intro!: acts_rules split: prod.split sum.split)

lemma dispatch_base: "db_ok (w_db w) \<Longrightarrow> permitted sh w (snd (dispatch_in base_commands sh now line w))"
  by (simp add: dispatch_in_def command_entry cong: quiet split: list.split option.split)

lemma dispatch_step:
  "dispatch_in base_commands sh now line w = (r, w') \<Longrightarrow> db_ok (w_db w) \<Longrightarrow> permitted sh w w'"
  using dispatch_base [of w sh now line] by simp

lemma read_permitted: "ReadLine w = (r, w') \<Longrightarrow> permitted sh w0 w \<Longrightarrow> permitted sh w0 w'"
  by (auto simp: permitted_def dest!: ReadLine_step)

lemma attempts_loop_permitted:
  "db_ok (w_db w0) \<Longrightarrow> permitted sh w0 w \<Longrightarrow> permitted sh w0 (snd (attempts_loop sh now lesson n w))"
proof (induction n arbitrary: w)
  case (Suc n)
  let ?prompt = "''  '' @ colored ''35'' ''tutorial>'' @ '' ''"
  obtain r w1 where 1: "ReadLine (writef ?prompt w) = (r, w1)" by (metis surj_pair)
  have w1: "permitted sh w0 w1" using read_permitted [OF 1, of sh w0] Suc.prems(2) by simp
  have ok1: "db_ok (w_db w1)" by (rule permitted_ok [OF w1 Suc.prems(1)])
  note loop = Suc.IH [OF Suc.prems(1)]
  have mark: "permitted sh w0 (snd (mark_complete sh now lesson msgs w'))" if "permitted sh w0 w'" for msgs w'
    by (rule permitted_trans [OF that mark_complete_permitted])
  have run: "permitted sh w0 w'" if "dispatch_in base_commands sh now line w1 = (x, w')" for line x w'
    by (rule permitted_trans [OF w1 dispatch_step [OF that ok1]])
  show ?case
    using w1 by (simp add: 1 Let_def loop mark run cong: quiet split: option.split prod.split outcome.split)
qed (simp add: cong: quiet)

lemma one_lesson_permitted: "db_ok (w_db w) \<Longrightarrow> permitted sh w (snd (one_lesson sh now lesson completed w))"
proof -
  assume ok: "db_ok (w_db w)"
  have read: "permitted sh w (snd (ReadLine w'))" if "permitted sh w w'" for w'
    using that by (cases "ReadLine w'") (auto dest: read_permitted)
  have mark: "permitted sh w (snd (mark_complete sh now lesson msgs w'))" if "permitted sh w w'" for msgs w'
    by (rule permitted_trans [OF that mark_complete_permitted])
  show ?thesis
    by (simp add: one_lesson_def Let_def mark read attempts_loop_permitted [OF ok] cong: quiet)
qed

lemma run_lessons_permitted:
  "db_ok (w_db w) \<Longrightarrow> permitted sh w (snd (run_lessons sh now lessons completed w))"
proof (induction lessons arbitrary: completed w)
  case (Cons lesson rest)
  obtain r w1 where 1: "one_lesson sh now lesson completed w = (r, w1)" by (metis surj_pair)
  have w1: "permitted sh w w1" using one_lesson_permitted [OF Cons.prems, of sh now lesson completed] by (simp add: 1)
  have ok1: "db_ok (w_db w1)" by (rule permitted_ok [OF w1 Cons.prems])
  have next_lesson: "permitted sh w w2 \<and> permitted sh w (snd (run_lessons sh now rest c w2))"
    if "ReadLine (writef m w1) = (x, w2)" for x m w2 c
  proof -
    have w2: "permitted sh w1 w2" using read_permitted [OF that, of sh w1] by simp
    then show ?thesis
      using permitted_trans [OF w1 w2] permitted_trans [OF _ Cons.IH [OF permitted_ok [OF w2 ok1]]] by blast
  qed
  show ?case
    using w1 next_lesson by (auto simp: 1 cong: quiet split: lesson_end.split option.split prod.split)
qed (simp add: cong: quiet)

lemma cmdTutorial_permitted: "db_ok (w_db w) \<Longrightarrow> permitted sh w (snd (cmdTutorial sh now args w))"
proof -
  assume ok: "db_ok (w_db w)"
  have "permitted sh w w'" if "db_write (ResetTutorialProgress (u_ID (sh_user sh))) w = (r, w')" for r w'
    by (rule db_write_permitted [OF that, of now "Account (OpResetTutorialProgress (u_ID (sh_user sh)))"]) simp_all
  then show ?thesis
    by (simp add: cmdTutorial_def Let_def run_lessons_permitted [OF ok] cong: quiet split: option.split sum.split prod.split)
qed

lemma command_permitted:
  assumes "map_of commands name = Some cmd" "db_ok (w_db w)"
  shows "permitted sh w (snd (cmd sh now args w))"
  using assms command_entry [OF _ assms(2)] cmdTutorial_permitted [OF assms(2)]
  by (auto simp: commands_def split: if_split_asm)

lemma command_step:
  "cmd sh now args w = (r, w') \<Longrightarrow> map_of commands name = Some cmd \<Longrightarrow> db_ok (w_db w) \<Longrightarrow> permitted sh w w'"
  using command_permitted [of name cmd w sh now args] by simp

lemma run_line_permitted: "db_ok (w_db w) \<Longrightarrow> permitted sh w (snd (run_line sh now line w))"
  by (simp add: run_line_def command_step cong: quiet split: list.split option.split prod.split outcome.split)

lemma repl_permitted:
  "repl fuel sh clock w = Some (r, w') \<Longrightarrow> db_ok (w_db w) \<Longrightarrow> permitted sh w w'"
proof (induction fuel arbitrary: w)
  case (Suc fuel)
  obtain x w1 where 1: "ReadLine w = (x, w1)" by (metis surj_pair)
  have w1: "permitted sh w w1" using read_permitted [OF 1, of sh w] by simp
  show ?case
  proof (cases x)
    case None
    then show ?thesis using Suc.prems(1) w1 by (auto simp: 1 cong: quiet)
  next
    case (Some line)
    obtain y w2 where 2: "run_line sh (clock (length (w_in w1))) line w1 = (y, w2)" by (metis surj_pair)
    have ok1: "db_ok (w_db w1)" by (rule permitted_ok [OF w1 Suc.prems(2)])
    have w2: "permitted sh w1 w2"
      using run_line_permitted [OF ok1, of sh "clock (length (w_in w1))" line] by (simp add: 2)
    show ?thesis
    proof (cases y)
      case None
      then have "repl fuel sh clock w2 = Some (r, w')" using Suc.prems(1) by (simp add: 1 Some 2)
      then have "permitted sh w2 w'" by (rule Suc.IH [OF _ permitted_ok [OF w2 ok1]])
      then show ?thesis using w1 w2 by (blast intro: permitted_trans)
    next
      case (Some e)
      then show ?thesis using Suc.prems(1) \<open>x = Some line\<close> w1 w2 by (auto simp: 1 2 intro: permitted_trans)
    qed
  qed
qed simp

lemma repl_returns: "db_ok (w_db w) \<Longrightarrow> length (w_in w) < fuel \<Longrightarrow> repl fuel sh clock w \<noteq> None"
proof (induction fuel arbitrary: w)
  case (Suc fuel)
  show ?case
  proof (cases "w_in w")
    case Nil
    then show ?thesis by (simp add: ReadLine_def)
  next
    case (Cons line rest)
    let ?w1 = "w\<lparr>w_in := rest\<rparr>"
    obtain y w2 where 2: "run_line sh (clock (length rest)) line ?w1 = (y, w2)" by (metis surj_pair)
    have ok1: "db_ok (w_db ?w1)" using Suc.prems(1) by (simp add: w_db_def)
    have w2: "permitted sh ?w1 w2" using run_line_permitted [OF ok1, of sh "clock (length rest)" line] by (simp add: 2)
    have "length (w_in w2) < fuel" using w2 Suc.prems(2) Cons by (simp add: permitted_def)
    then have "repl fuel sh clock w2 \<noteq> None" by (rule Suc.IH [OF permitted_ok [OF w2 ok1]])
    then show ?thesis by (cases y) (simp_all add: ReadLine_def Cons 2)
  qed
qed simp

lemma printWelcome_frame [simp]: "w_host (printWelcome sh w) = w_host w" "w_in (printWelcome sh w) = w_in w"
  by (simp_all add: printWelcome_def Let_def cong: quiet)

lemma Run_permitted: "Run sh clock w = Some (r, w') \<Longrightarrow> db_ok (w_db w) \<Longrightarrow> permitted sh w w'"
  using repl_permitted [of "Suc (length (w_in (printWelcome sh w)))" sh clock "printWelcome sh w" r w']
  by (simp add: Run_def Let_def permitted_def w_db_def del: repl.simps)

lemma execCommand_permitted: "db_ok (w_db w) \<Longrightarrow> permitted sh w (snd (execCommand sh now cmd w))"
  by (simp add: execCommand_def command_step cong: quiet split: list.split option.split prod.split outcome.split)

end
