(* ===== verification/Shell_Isolation.thy ===== *)
theory Shell_Isolation
  imports Shell_Refinement
begin

section \<open>What a session cannot do: other users' data, quotas, names and seats\<close>

text \<open>
  Consequences of the refinement, each an induction over the permitted steps (\<open>acts\<close>) and then a
  property of every command and every session: other users' rows and machines stay as they were, the
  VMs of a user stay below the limit of their trust level, VM names stay labels of a host name, a match
  never has more participants than seats, and the addresses of running VMs stay distinct.
\<close>

subsection \<open>The data of other users\<close>

record private_data =
  pd_vms :: "vm list"
  pd_keys :: "ssh_key list"
  pd_tags :: "(int \<times> string) list"
  pd_shares :: "share list"
  pd_domains :: "custom_domain list"
  pd_tutorial :: "tutorial_progress list"
  pd_llm_keys :: "llm_key list"
  pd_magic :: "magic_token list"
  pd_tokens :: "token list"
  pd_api_tokens :: "api_token list"
  pd_usage :: "llm_usage list"
  pd_participants :: "arena_participant list"
  pd_elos :: "arena_elo list"
  pd_audit :: "audit_log list"

definition foreign :: "int \<Rightarrow> tables \<Rightarrow> int \<Rightarrow> bool" where
  "foreign u t v \<longleftrightarrow> list_ex (\<lambda>r. v_ID r = v \<and> v_UserID r \<noteq> u) (vms t)"

definition data_of_others :: "int \<Rightarrow> tables \<Rightarrow> private_data" where
  "data_of_others u t =
     \<lparr>pd_vms = filter (\<lambda>v. v_UserID v \<noteq> u) (vms t), pd_keys = filter (\<lambda>k. k_UserID k \<noteq> u) (ssh_keys t),
      pd_tags = filter (\<lambda>g. foreign u t (fst g)) (vm_tags t), pd_shares = filter (\<lambda>s. foreign u t (s_VMID s)) (shares t),
      pd_domains = filter (\<lambda>c. foreign u t (cd_VMID c)) (domains t),
      pd_tutorial = filter (\<lambda>p. tp_UserID p \<noteq> u) (tutorial t), pd_llm_keys = filter (\<lambda>k. lk_UserID k \<noteq> u) (llm_keys t),
      pd_magic = filter (\<lambda>m. mt_UserID m \<noteq> u) (magic_tokens t), pd_tokens = tokens t, pd_api_tokens = api_tokens t,
      pd_usage = llm_usages t, pd_participants = filter (\<lambda>p. ap_UserID p \<noteq> u) (participants t), pd_elos = elos t,
      pd_audit = audit t\<rparr>"

lemma filter_sql_update:
  "(\<And>r. r \<in> set rows \<Longrightarrow> p r \<Longrightarrow> \<not> q r \<and> \<not> q (f r)) \<Longrightarrow> filter q (sql_update p f rows) = filter q rows"
  by (induction rows) (auto simp: sql_update_def)

lemma filter_sql_delete: "(\<And>r. r \<in> set rows \<Longrightarrow> p r \<Longrightarrow> \<not> q r) \<Longrightarrow> filter q (sql_delete p rows) = filter q rows"
  by (induction rows) (auto simp: sql_delete_def)

lemma table_id_inj: "table_ok rid clash rows n \<Longrightarrow> inj_on rid (set rows)"
proof -
  assume "table_ok rid clash rows n"
  then have "sorted_wrt (<) (map rid rows)" by (simp add: table_ok_def sorted_wrt_map)
  then show ?thesis by (simp add: strict_sorted_iff distinct_map)
qed

lemma owned_not_foreign:
  assumes "db_ok d" "owns u v d"
  shows "\<not> foreign u (tables d) v"
  using table_id_inj [OF ok_tables(3) [OF assms(1)]] assms(2) by (auto simp: foreign_def owns_iff list_ex_iff dest: inj_onD)

lemma foreign_same:
  "filter (\<lambda>v. v_UserID v \<noteq> u) (vms t') = filter (\<lambda>v. v_UserID v \<noteq> u) (vms t) \<Longrightarrow> foreign u t' = foreign u t"
proof -
  have "foreign u t = (\<lambda>v. list_ex (\<lambda>r. v_ID r = v) (filter (\<lambda>v. v_UserID v \<noteq> u) (vms t)))" for t
    by (auto simp: foreign_def list_ex_iff fun_eq_iff)
  then show "filter (\<lambda>v. v_UserID v \<noteq> u) (vms t') = filter (\<lambda>v. v_UserID v \<noteq> u) (vms t) \<Longrightarrow> foreign u t' = foreign u t"
    by simp
qed

text \<open>A change of the rows of one VM that is not another user's.\<close>

lemma not_foreign: "\<not> foreign u t v \<Longrightarrow> r \<in> set (vms t) \<Longrightarrow> v_ID r = v \<Longrightarrow> v_UserID r = u"
  by (auto simp: foreign_def list_ex_iff)

lemma own_vm_update:
  assumes "\<not> foreign u t v" "\<And>r. v_UserID (f r) = v_UserID r"
  shows "filter (\<lambda>r. v_UserID r \<noteq> u) (sql_update (\<lambda>r. v_ID r = v) f (vms t)) = filter (\<lambda>r. v_UserID r \<noteq> u) (vms t)"
  using not_foreign [OF assms(1)] by (intro filter_sql_update) (auto simp: assms(2))

lemma own_vm_delete:
  assumes "\<not> foreign u t v"
  shows "filter (\<lambda>r. v_UserID r \<noteq> u) (sql_delete (\<lambda>r. v_ID r = v) (vms t)) = filter (\<lambda>r. v_UserID r \<noteq> u) (vms t)"
  using not_foreign [OF assms] by (intro filter_sql_delete) auto

lemma others_vms:
  assumes "filter (\<lambda>v. v_UserID v \<noteq> u) X = filter (\<lambda>v. v_UserID v \<noteq> u) (vms t)"
  shows "data_of_others u (t\<lparr>vms := X\<rparr>) = data_of_others u t" "data_of_others u (t\<lparr>vms := X, seq := s\<rparr>) = data_of_others u t"
  using foreign_same [of u "t\<lparr>vms := X\<rparr>" t] foreign_same [of u "t\<lparr>vms := X, seq := s\<rparr>" t] assms
  by (simp_all add: data_of_others_def)

lemma others_rest [simp]:
  "foreign u (t\<lparr>vm_tags := tg\<rparr>) = foreign u t" "foreign u (t\<lparr>shares := sh\<rparr>) = foreign u t"
  "foreign u (t\<lparr>domains := dm\<rparr>) = foreign u t" "foreign u (t\<lparr>seq := sq\<rparr>) = foreign u t"
  "foreign u (t\<lparr>users := us\<rparr>) = foreign u t" "foreign u (t\<lparr>ssh_keys := ks\<rparr>) = foreign u t"
  "foreign u (t\<lparr>tutorial := tp\<rparr>) = foreign u t" "foreign u (t\<lparr>llm_keys := lk\<rparr>) = foreign u t"
  "foreign u (t\<lparr>magic_tokens := mt\<rparr>) = foreign u t" "foreign u (t\<lparr>matches := am\<rparr>) = foreign u t"
  "foreign u (t\<lparr>participants := ap\<rparr>) = foreign u t"
  by (simp_all add: foreign_def fun_eq_iff)

lemma others_UpdateVMStatus:
  assumes "\<not> foreign u (tables d) v"
  shows "data_of_others u (tables (snd (UpdateVMStatus now v st tap ip mac pid d))) = data_of_others u (tables d)"
  using own_vm_update [OF assms]
  by (auto simp: UpdateVMStatus_def op_Inr intro!: WriteTx_frame others_vms(1) split: if_split_asm)

lemma others_DeleteVM:
  assumes "\<not> foreign u (tables d) v"
  shows "data_of_others u (tables (snd (DeleteVM v d))) = data_of_others u (tables d)"
proof -
  have "data_of_others u (t\<lparr>vms := X, vm_tags := sql_delete (\<lambda>g. fst g = v) (vm_tags t),
      shares := sql_delete (\<lambda>s. s_VMID s = v) (shares t), domains := sql_delete (\<lambda>c. cd_VMID c = v) (domains t)\<rparr>) =
      data_of_others u t"
    if "\<not> foreign u t v" "filter (\<lambda>v. v_UserID v \<noteq> u) X = filter (\<lambda>v. v_UserID v \<noteq> u) (vms t)" for X t
    using that foreign_same [of u "t\<lparr>vms := X\<rparr>" t]
    by (simp add: data_of_others_def) (auto intro!: filter_sql_delete)
  then show ?thesis using assms own_vm_delete [OF assms]
    by (auto simp: DeleteVM_def op_Inr intro!: WriteTx_frame split: if_split_asm)
qed

lemma others_vm_op:
  assumes ok: "db_ok d" and may: "may_vm u d op"
  shows "data_of_others (u_ID u) (tables (run_vm_op now op d)) = data_of_others (u_ID u) (tables d)"
proof -
  note own = owned_not_foreign [OF ok] own_vm_update [OF owned_not_foreign [OF ok]]
  have domain: "\<not> foreign (u_ID u) (tables d) (cd_VMID c)"
    if dom: "owns_domain (u_ID u) n d" and c: "c \<in> set (domains (tables d))" "cd_Domain c = n" for c n
  proof -
    obtain c' where c': "c' \<in> set (domains (tables d))" "cd_Domain c' = n" "owns (u_ID u) (cd_VMID c') d"
      using dom unfolding owns_domain_def list_ex_iff by blast
    have "rows_uniq domain_clash (domains (tables d))"
      using ok by (simp add: db_ok_def tables_ok_def table_wf_def table_ok_def)
    then have "c' = c" using c c'(1,2) by (auto simp: rows_uniq_def domain_clash_def sorted_wrt_iff_nth_less in_set_conv_nth) (metis linorder_neqE_nat)
    then show ?thesis using c'(3) own(1) by simp
  qed
  show ?thesis
  proof (cases op)
    case (OpDeleteVM v)
    then show ?thesis using may own(1) by (simp add: others_DeleteVM)
  next
    case (OpCreateVM i n img c m g)
    then show ?thesis using may
      by (auto simp: CreateVM_def op_Inr others_vms intro!: WriteTx_frame)
  next
    case (OpUpdateVMStatus v st tap ip mac pid)
    then show ?thesis using may own(1) by (simp add: others_UpdateVMStatus)
  next
    case (OpRenameVM v n)
    then show ?thesis using may own
      by (auto simp: RenameVM_def op_Inr intro!: WriteTx_frame others_vms(1) split: if_split_asm)
  next
    case (OpAddTag v tag)
    then show ?thesis using may own
      by (auto simp: AddTag_def op_Inr data_of_others_def sql_insert_or_ignore_def intro!: WriteTx_frame split: if_split_asm)
  next
    case (OpRemoveTag v tag)
    then show ?thesis using may own
      by (auto simp: RemoveTag_def op_Inr data_of_others_def intro!: WriteTx_frame filter_sql_delete)
  next
    case (OpCreateCustomDomain v n tok)
    then show ?thesis using may own
      by (auto simp: CreateCustomDomain_def op_Inr data_of_others_def intro!: WriteTx_frame)
  next
    case (OpVerifyCustomDomain n)
    then show ?thesis using may domain
      by (auto simp: VerifyCustomDomain_def op_Inr data_of_others_def intro!: WriteTx_frame filter_sql_update)
  next
    case (OpDeleteCustomDomain n)
    then show ?thesis using may domain
      by (auto simp: DeleteCustomDomain_def op_Inr data_of_others_def intro!: WriteTx_frame filter_sql_delete)
  qed
qed

lemma filter_upsert_own:
  assumes "\<And>r. clash r row \<Longrightarrow> \<not> q r \<and> \<not> q (f r)" "\<not> q row"
  shows "filter q (sql_upsert clash f row rows) = filter q rows"
  using assms(2) filter_sql_update [of rows "\<lambda>r. clash r row" q f] assms(1) by (simp add: sql_upsert_def sql_update_def)

lemma others_account_op:
  assumes ok: "db_ok d" and may: "may_account u d op"
  shows "data_of_others (u_ID u) (tables (run_account_op now op d)) = data_of_others (u_ID u) (tables d)"
    and "u_TrustLevel u \<noteq> ''admin'' \<Longrightarrow> users (tables (run_account_op now op d)) = users (tables d)"
proof -
  have key: "k_UserID r = u_ID u"
    if "list_ex (\<lambda>r. k_ID r = k \<and> k_UserID r = u_ID u) (ssh_keys (tables d))" "r \<in> set (ssh_keys (tables d))" "k_ID r = k" for k r
    using that table_id_inj [OF ok_tables(2) [OF ok]] by (auto simp: list_ex_iff dest: inj_onD)
  show "data_of_others (u_ID u) (tables (run_account_op now op d)) = data_of_others (u_ID u) (tables d)"
    using may key
    by (cases op; auto simp: account_defs op_Inr data_of_others_def sql_insert_or_ignore_def
        intro!: WriteTx_frame filter_sql_delete split: if_split_asm) (simp add: sql_delete_def)
  show "u_TrustLevel u \<noteq> ''admin'' \<Longrightarrow> users (tables (run_account_op now op d)) = users (tables d)"
    using may by (cases op; auto simp: account_defs op_Inr intro!: WriteTx_frame split: if_split_asm)
qed

lemma others_share_op:
  assumes ok: "db_ok d" and may: "may_share u d op"
  shows "data_of_others (u_ID u) (tables (run_share_op now op d)) = data_of_others (u_ID u) (tables d)"
proof -
  show ?thesis using may owned_not_foreign [OF ok]
    by (cases op; auto simp: share_defs op_Inr data_of_others_def sql_insert_or_ignore_def flag_row_def
        intro!: WriteTx_frame filter_sql_delete filter_sql_update split: if_split_asm)
qed

lemma others_token_op:
  assumes "may_token u d op"
  shows "data_of_others (u_ID u) (tables (run_token_op now op d)) = data_of_others (u_ID u) (tables d)"
  using assms
  by (cases op; auto simp: token_defs op_Inr data_of_others_def intro!: WriteTx_frame)

lemma others_llm_op:
  assumes "may_llm u d op"
  shows "data_of_others (u_ID u) (tables (run_llm_op now op d)) = data_of_others (u_ID u) (tables d)"
  using assms
  by (cases op; auto simp: llm_defs op_Inr data_of_others_def llm_key_clash_def
      intro!: WriteTx_frame filter_sql_delete filter_upsert_own split: if_split_asm)

lemma others_arena_op:
  assumes "may_arena u d op"
  shows "data_of_others (u_ID u) (tables (run_arena_op now op d)) = data_of_others (u_ID u) (tables d)"
  using assms
  by (cases op; auto simp: arena_defs op_Inr data_of_others_def intro!: WriteTx_frame split: if_split_asm)

lemma users_frame:
  "users (tables (run_vm_op now vo d)) = users (tables d)" "users (tables (run_share_op now so d)) = users (tables d)"
  "users (tables (run_token_op now tk d)) = users (tables d)" "users (tables (run_llm_op now lo d)) = users (tables d)"
  "users (tables (run_arena_op now ro d)) = users (tables d)"
  by (cases vo, auto simp: machine_defs op_Inr intro!: WriteTx_frame split: if_split_asm)
     (cases so, auto simp: share_defs op_Inr intro!: WriteTx_frame split: if_split_asm,
      cases tk, auto simp: token_defs op_Inr intro!: WriteTx_frame split: if_split_asm,
      cases lo, auto simp: llm_defs op_Inr intro!: WriteTx_frame split: if_split_asm,
      cases ro, auto simp: arena_defs op_Inr intro!: WriteTx_frame split: if_split_asm)

lemma others_db_op:
  assumes "db_ok d" "may_db u d op"
  shows "data_of_others (u_ID u) (tables (run_op now op d)) = data_of_others (u_ID u) (tables d)"
    and "u_TrustLevel u \<noteq> ''admin'' \<Longrightarrow> users (tables (run_op now op d)) = users (tables d)"
  using assms
  by (cases op; simp add: others_vm_op others_account_op others_share_op others_token_op others_llm_op others_arena_op users_frame)+

lemma touches_others:
  assumes "touches v d d'" "\<not> foreign u (tables d) v"
  shows "data_of_others u (tables d') = data_of_others u (tables d) \<and> users (tables d') = users (tables d)"
  using assms
proof (induction rule: touches.induct)
  case touches_refl
  show ?case by simp
next
  case (touches_status d' now status tap ip mac pid)
  then have *: "data_of_others u (tables d') = data_of_others u (tables d)" "users (tables d') = users (tables d)" by simp_all
  then have "\<not> foreign u (tables d') v"
    using touches_status.prems foreign_same [of u "tables d'" "tables d"] by (simp add: data_of_others_def)
  then show ?case using * users_frame(1) [of now "OpUpdateVMStatus v status tap ip mac pid" d'] by (simp add: others_UpdateVMStatus)
next
  case (touches_delete d')
  then have *: "data_of_others u (tables d') = data_of_others u (tables d)" "users (tables d') = users (tables d)" by simp_all
  then have "\<not> foreign u (tables d') v"
    using touches_delete.prems foreign_same [of u "tables d'" "tables d"] by (simp add: data_of_others_def)
  then show ?case using * users_frame(1) [of _ "OpDeleteVM v" d'] by (simp add: others_DeleteVM)
qed

lemma acts_others:
  assumes run: "acts g u h h'" and ok: "db_ok (vh_db h)"
  shows "data_of_others (u_ID u) (tables (vh_db h')) = data_of_others (u_ID u) (tables (vh_db h)) \<and>
     (u_TrustLevel u \<noteq> ''admin'' \<longrightarrow> users (tables (vh_db h')) = users (tables (vh_db h)))"
proof -
  let ?P = "\<lambda>d. db_ok d \<and> data_of_others (u_ID u) (tables d) = data_of_others (u_ID u) (tables (vh_db h)) \<and>
     (u_TrustLevel u \<noteq> ''admin'' \<longrightarrow> users (tables d) = users (tables (vh_db h)))"
  have "?P (vh_db h')"
  proof (rule acts_db_induct [where P = ?P, OF run])
    fix d d' v
    assume d: "?P d" and own: "owns (u_ID u) v d" and t: "touches v d d'"
    then show "?P d'"
      using touches_others [OF t, of "u_ID u"] owned_not_foreign [of d "u_ID u" v] manage_ok [OF t] by simp
  qed (use ok in \<open>simp_all add: run_op_ok others_db_op\<close>)
  then show ?thesis by simp
qed

text \<open>The machines of other users.\<close>

lemma acts_running:
  assumes "acts g u h h'" "db_ok (vh_db h)" "foreign (u_ID u) (tables (vh_db h)) i"
  shows "map_of (vh_running h') i = map_of (vh_running h) i"
  using assms
proof (induction rule: acts.induct)
  case (acts_vm h' env op now)
  have same: "data_of_others (u_ID u) (tables (vh_db h')) = data_of_others (u_ID u) (tables (vh_db h))"
    using acts_others [OF acts_vm.hyps(1) acts_vm.prems(1)] by simp
  then have i: "foreign (u_ID u) (tables (vh_db h')) i"
    using acts_vm.prems(2) foreign_same [of "u_ID u" "tables (vh_db h')" "tables (vh_db h)"] by (simp add: data_of_others_def)
  from acts_vm.hyps(3) show ?case
  proof (cases rule: manage_tends [where env = env and now = now])
    case (vm v)
    then have "v \<noteq> i" using i owned_not_foreign [OF acts_ok [OF acts_vm.hyps(1) acts_vm.prems(1)]] by auto
    then show ?thesis using vm(2) acts_vm.IH [OF acts_vm.prems] by (simp add: tends_def)
  next
    case (db dop)
    then show ?thesis using acts_vm.IH [OF acts_vm.prems] by simp
  qed
qed simp_all

subsection \<open>Quotas, names and seats\<close>

lemma filter_update_length:
  "(\<And>r. q (f r) = q r) \<Longrightarrow> length (filter q (sql_update p f rows)) = length (filter q rows)"
  by (induction rows) (auto simp: sql_update_def)

lemma filter_delete_length: "length (filter q (sql_delete p rows)) \<le> length (filter q rows)"
  by (induction rows) (auto simp: sql_delete_def)

lemma WriteTx_le:
  fixes f :: "tables \<Rightarrow> 'b :: preorder"
  assumes "\<And>a t'. fn (tables d) = Inr (a, t') \<Longrightarrow> f t' \<le> f (tables d)"
  shows "f (tables (snd (WriteTx fn d))) \<le> f (tables d)"
  using assms by (auto simp: WriteTx_def split: sum.splits)

lemma vm_count_vm_op:
  assumes "\<And>i n img c m g. op \<noteq> OpCreateVM i n img c m g"
  shows "vm_count u (run_vm_op now op d) \<le> vm_count u d"
  using assms unfolding vm_count_def sql_select_def
  by (cases op; auto simp: machine_defs op_Inr filter_update_length filter_delete_length
      intro!: WriteTx_le [where f = "\<lambda>t. length (filter (\<lambda>v. v_UserID v = u) (vms t))"] split: if_split_asm)

lemma vm_count_create: "vm_count u (run_vm_op now (OpCreateVM u n img c m g) d) \<le> vm_count u d + 1"
  by (auto simp: vm_count_def CreateVM_def WriteTx_def op_Inr split: sum.splits)

lemma vm_count_frame: "vms (tables d') = vms (tables d) \<Longrightarrow> vm_count u d' = vm_count u d"
  by (simp add: vm_count_def)

lemma vm_count_ops:
  "vm_count u (run_account_op now ao d) = vm_count u d" "vm_count u (run_share_op now so d) = vm_count u d"
  "vm_count u (run_token_op now tk d) = vm_count u d" "vm_count u (run_llm_op now lo d) = vm_count u d"
  "vm_count u (run_arena_op now ro d) = vm_count u d"
  by (rule vm_count_frame, rule vms_frame)+

lemma vm_count_touches: "touches v d d' \<Longrightarrow> vm_count u d' \<le> vm_count u d"
proof (induction rule: touches.induct)
  case (touches_status d' now status tap ip mac pid)
  then show ?case using vm_count_vm_op [of "OpUpdateVMStatus v status tap ip mac pid" u now d'] by simp
next
  case (touches_delete d')
  then show ?case using vm_count_vm_op [of "OpDeleteVM v" u _ d'] by simp
qed simp

lemma acts_quota:
  assumes run: "acts g u h h'" and limit: "vm_limit u \<ge> 0"
  shows "vm_count (u_ID u) (vh_db h') \<le> max (vm_limit u) (vm_count (u_ID u) (vh_db h))"
proof (rule acts_db_induct [where P = "\<lambda>d. vm_count (u_ID u) d \<le> max (vm_limit u) (vm_count (u_ID u) (vh_db h))", OF run])
  fix d now op
  assume d: "vm_count (u_ID u) d \<le> max (vm_limit u) (vm_count (u_ID u) (vh_db h))" and may: "may_db u d op"
  show "vm_count (u_ID u) (run_op now op d) \<le> max (vm_limit u) (vm_count (u_ID u) (vh_db h))"
  proof (cases op)
    case (Machine vop)
    show ?thesis
    proof (cases "\<exists>i n img c m g. vop = OpCreateVM i n img c m g")
      case True
      then obtain i n img c m g where vop: "vop = OpCreateVM i n img c m g" by blast
      then have "i = u_ID u" "vm_count (u_ID u) d < vm_limit u" using may Machine limit by auto
      then show ?thesis using vm_count_create [of "u_ID u" now n img c m g d] Machine vop by auto
    next
      case False
      then show ?thesis using vm_count_vm_op [of vop "u_ID u" now d] d Machine by auto
    qed
  qed (use d in \<open>simp_all add: vm_count_ops\<close>)
next
  fix d d' v
  assume "vm_count (u_ID u) d \<le> max (vm_limit u) (vm_count (u_ID u) (vh_db h))" "touches v d d'"
  then show "vm_count (u_ID u) d' \<le> max (vm_limit u) (vm_count (u_ID u) (vh_db h))"
    using vm_count_touches [of v d d' "u_ID u"] by linarith
qed simp

definition names_valid :: "tables \<Rightarrow> bool" where
  "names_valid t \<longleftrightarrow> (\<forall>v \<in> set (vms t). validName (v_Name v))"

lemma names_WriteTx:
  assumes "\<And>a t'. fn (tables d) = Inr (a, t') \<Longrightarrow> names_valid (tables d) \<Longrightarrow> names_valid t'" "names_valid (tables d)"
  shows "names_valid (tables (snd (WriteTx fn d)))"
  by (rule WriteTx_invariant [where P = names_valid]) (use assms in auto)

lemma names_status:
  "names_valid (tables d) \<Longrightarrow> names_valid (tables (snd (UpdateVMStatus now v st tap ip mac pid d)))"
  unfolding UpdateVMStatus_def
  by (rule names_WriteTx) (auto simp: op_Inr set_sql_update names_valid_def split: if_split_asm)

lemma names_delete: "names_valid (tables d) \<Longrightarrow> names_valid (tables (snd (DeleteVM v d)))"
  unfolding DeleteVM_def by (rule names_WriteTx) (auto simp: op_Inr names_valid_def split: if_split_asm)

lemma names_rename:
  "names_valid (tables d) \<Longrightarrow> validName n \<Longrightarrow> names_valid (tables (snd (RenameVM now v n d)))"
  unfolding RenameVM_def
  by (rule names_WriteTx) (auto simp: op_Inr set_sql_update names_valid_def split: if_split_asm)

lemma names_create:
  "names_valid (tables d) \<Longrightarrow> validName n \<Longrightarrow> names_valid (tables (snd (CreateVM now u n img c m g d)))"
  unfolding CreateVM_def by (rule names_WriteTx) (auto simp: op_Inr names_valid_def split: if_split_asm)

lemma other_vm_ops_frame:
  "vms (tables (snd (AddTag v g d))) = vms (tables d)" "vms (tables (snd (RemoveTag v g d))) = vms (tables d)"
  "vms (tables (snd (CreateCustomDomain now v n k d))) = vms (tables d)"
  "vms (tables (snd (VerifyCustomDomain now n d))) = vms (tables d)"
  "vms (tables (snd (DeleteCustomDomain n d))) = vms (tables d)"
  by (auto simp: machine_defs op_Inr intro!: WriteTx_frame split: if_split_asm)

lemma names_same: "vms t' = vms t \<Longrightarrow> names_valid t' = names_valid t"
  by (simp add: names_valid_def)

lemmas names_vms_frame = other_vm_ops_frame [THEN names_same] vms_frame [THEN names_same]

lemma names_db_op: "names_valid (tables d) \<Longrightarrow> may_db u d op \<Longrightarrow> names_valid (tables (run_op now op d))"
proof (cases op)
  case (Machine vop)
  assume "names_valid (tables d)" "may_db u d op"
  then show ?thesis using Machine
    by (cases vop) (simp_all add: names_create names_status names_delete names_rename names_vms_frame)
qed (simp_all add: names_vms_frame)

lemma names_touches: "touches v d d' \<Longrightarrow> names_valid (tables d) \<Longrightarrow> names_valid (tables d')"
  by (induction rule: touches.induct) (simp_all add: names_status names_delete)

lemma acts_names: "acts g u h h' \<Longrightarrow> names_valid (tables (vh_db h)) \<Longrightarrow> names_valid (tables (vh_db h'))"
  by (rule acts_db_induct [where P = "\<lambda>d. names_valid (tables d)"]) (auto intro: names_db_op names_touches)

text \<open>The seats of a match: never more participants than seats, and a running match is full.\<close>

definition seats_ok :: "tables \<Rightarrow> bool" where
  "seats_ok t \<longleftrightarrow>
     (\<forall>m \<in> set (matches t).
        let n = int (length (sql_select (\<lambda>p. ap_MatchID p = am_MatchID m) (participants t))) in
        n \<le> am_MaxAgents m \<and> (am_Status m = ''running'' \<longrightarrow> n = am_MaxAgents m))"

definition arena_part :: "tables \<Rightarrow> arena_match list \<times> arena_participant list" where
  "arena_part t = (matches t, participants t)"

lemma seats_frame:
  "arena_part t' = arena_part t \<Longrightarrow> seats_ok t' = seats_ok t"
  by (simp add: seats_ok_def arena_part_def)

lemma arena_frame:
  "arena_part (tables (run_vm_op now vo d)) = arena_part (tables d)"
  "arena_part (tables (run_account_op now ao d)) = arena_part (tables d)"
  "arena_part (tables (run_share_op now so d)) = arena_part (tables d)"
  "arena_part (tables (run_token_op now tk d)) = arena_part (tables d)"
  "arena_part (tables (run_llm_op now lo d)) = arena_part (tables d)"
proof -
  show "arena_part (tables (run_vm_op now vo d)) = arena_part (tables d)"
    by (cases vo; auto simp: machine_defs op_Inr arena_part_def intro!: WriteTx_frame split: if_split_asm)
  show "arena_part (tables (run_account_op now ao d)) = arena_part (tables d)"
    by (cases ao; auto simp: account_defs op_Inr arena_part_def intro!: WriteTx_frame split: if_split_asm)
  show "arena_part (tables (run_share_op now so d)) = arena_part (tables d)"
    by (cases so; auto simp: share_defs op_Inr arena_part_def intro!: WriteTx_frame split: if_split_asm)
  show "arena_part (tables (run_token_op now tk d)) = arena_part (tables d)"
    by (cases tk; auto simp: token_defs op_Inr arena_part_def intro!: WriteTx_frame split: if_split_asm)
  show "arena_part (tables (run_llm_op now lo d)) = arena_part (tables d)"
    by (cases lo; auto simp: llm_defs op_Inr arena_part_def intro!: WriteTx_frame split: if_split_asm)
qed

text \<open>Seats of one match by its id.\<close>

definition seated :: "string \<Rightarrow> tables \<Rightarrow> int" where
  "seated m t = int (length (sql_select (\<lambda>p. ap_MatchID p = m) (participants t)))"

lemma seats_ok_alt:
  "seats_ok t \<longleftrightarrow>
     (\<forall>r \<in> set (matches t). seated (am_MatchID r) t \<le> am_MaxAgents r \<and>
        (am_Status r = ''running'' \<longrightarrow> seated (am_MatchID r) t = am_MaxAgents r))"
  by (simp add: seats_ok_def seated_def Let_def)

lemma seats_taken_seated: "seats_taken m d = seated m (tables d)"
  by (simp add: seats_taken_def seated_def)

lemma seats_WriteTx:
  assumes "\<And>a t'. fn (tables d) = Inr (a, t') \<Longrightarrow> seats_ok (tables d) \<Longrightarrow> seats_ok t'" "seats_ok (tables d)"
  shows "seats_ok (tables (snd (WriteTx fn d)))"
  by (rule WriteTx_invariant [where P = seats_ok]) (use assms in auto)

lemma no_seats:
  assumes "db_ok d" "m \<notin> match_ids (tables d)" shows "seated m (tables d) = 0"
proof -
  have "ap_MatchID p \<in> match_ids (tables d)" if "p \<in> set (participants (tables d))" for p
    using assms(1) that by (auto simp: db_ok_def tables_ok_def table_wf_def participant_row_ok_def)
  then show ?thesis using assms(2) by (auto simp: seated_def sql_select_def filter_empty_conv)
qed

lemma seats_create:
  assumes ok: "db_ok d" and seats: "seats_ok (tables d)" and n: "1 \<le> n"
  shows "seats_ok (tables (snd (CreateArenaMatch now m sc n u d)))"
  unfolding CreateArenaMatch_def
proof (rule seats_WriteTx [OF _ seats])
  fix a t'
  let ?row = "\<lparr>am_ID = next_id TMatches (tables d), am_MatchID = m, am_Scenario = sc,
                am_Status = ''waiting'', am_MaxAgents = n, am_CreatedBy = u,
                am_StartedAt = None, am_CompletedAt = None, am_CreatedAt = unix now\<rparr>"
  assume "(let row = \<lparr>am_ID = next_id TMatches (tables d), am_MatchID = m, am_Scenario = sc,
                am_Status = ''waiting'', am_MaxAgents = n, am_CreatedBy = u,
                am_StartedAt = None, am_CompletedAt = None, am_CreatedAt = unix now\<rparr>
     in try_do (fk_check (has_user (tables d) u) (sql_insert match_clash row (matches (tables d)))) (\<lambda>rows.
          read_back (\<lambda>t. sql_select (\<lambda>r. am_MatchID r = m) (matches t))
            (bump TMatches ((tables d)\<lparr>matches := rows\<rparr>)))) = Inr (a, t')"
  then have t': "matches t' = matches (tables d) @ [?row]" "participants t' = participants (tables d)" and "m \<notin> match_ids (tables d)"
    by (auto simp: op_Inr match_ids_def match_clash_def)
  then show "seats_ok t'"
    using seats no_seats [OF ok, of m] n by (auto simp: seats_ok_alt seated_def)
qed

lemma match_unique:
  assumes "db_ok d" "r \<in> set (matches (tables d))" "r' \<in> set (matches (tables d))" "am_MatchID r = am_MatchID r'"
  shows "r = r'"
proof -
  have "rows_uniq match_clash (matches (tables d))"
    using assms(1) by (simp add: db_ok_def tables_ok_def table_wf_def table_ok_def)
  then show ?thesis using assms(2-4)
    by (auto simp: rows_uniq_def match_clash_def sorted_wrt_iff_nth_less in_set_conv_nth) (metis linorder_neqE_nat)
qed

lemma seats_join:
  assumes ok: "db_ok d" and seats: "seats_ok (tables d)" and may: "may_arena u d (OpJoinArenaMatch m i)"
  shows "seats_ok (tables (snd (JoinArenaMatch now m i d)))"
proof (cases "fst (JoinArenaMatch now m i d)")
  case (Inl e)
  then obtain d' where "JoinArenaMatch now m i d = (Inl e, d')" by (cases "JoinArenaMatch now m i d") simp
  then have "d' = d" unfolding JoinArenaMatch_def by (rule WriteTx_Inl)
  then show ?thesis using seats \<open>JoinArenaMatch now m i d = (Inl e, d')\<close> by simp
next
  case (Inr p)
  obtain d' where *: "JoinArenaMatch now m i d = (Inr p, d')" using Inr by (metis prod.collapse)
  then have d': "matches (tables d') = matches (tables d)"
    "seated k (tables d') = seated k (tables d) + (if k = m then 1 else 0)" for k
    by (auto simp: JoinArenaMatch_def WriteTx_Inr op_Inr seated_def)
  have open_match: "am_Status r = ''waiting''" "seated m (tables d) < am_MaxAgents r"
    if "r \<in> set (matches (tables d))" "am_MatchID r = m" for r
  proof -
    obtain r0 where "r0 \<in> set (matches (tables d))" "am_MatchID r0 = m" "am_Status r0 = ''waiting''"
      "seated m (tables d) < am_MaxAgents r0" using may by (auto simp: list_ex_iff seats_taken_seated)
    then show "am_Status r = ''waiting''" "seated m (tables d) < am_MaxAgents r"
      using match_unique [OF ok that(1), of r0] that(2) by auto
  qed
  have "seated (am_MatchID r) (tables d') \<le> am_MaxAgents r \<and>
      (am_Status r = ''running'' \<longrightarrow> seated (am_MatchID r) (tables d') = am_MaxAgents r)"
    if r: "r \<in> set (matches (tables d))" for r
    using seats open_match [OF r] r by (cases "am_MatchID r = m") (auto simp: seats_ok_alt d'(2))
  then show ?thesis by (simp add: seats_ok_alt * d'(1))
qed

lemma seats_start:
  assumes ok: "db_ok d" and seats: "seats_ok (tables d)" and may: "may_arena u d (OpUpdateArenaMatchStatus m st)"
  shows "seats_ok (tables (snd (UpdateArenaMatchStatus now m st d)))"
proof -
  have full: "seated m (tables d) = am_MaxAgents r" if "r \<in> set (matches (tables d))" "am_MatchID r = m" for r
  proof -
    obtain r0 where "r0 \<in> set (matches (tables d))" "am_MatchID r0 = m" "seated m (tables d) = am_MaxAgents r0"
      using may by (auto simp: list_ex_iff seats_taken_seated)
    then show ?thesis using match_unique [OF ok that(1), of r0] that(2) by auto
  qed
  have st: "st = ''running''" using may by simp
  show ?thesis
    unfolding UpdateArenaMatchStatus_def st
  proof (rule seats_WriteTx [OF _ seats])
    fix a t'
    assume "exec (\<lambda>t. let set_row = \<lambda>f. if has_match t m \<and> \<not> match_status_ok ''running'' then Inl ErrCheck
             else Inr (t\<lparr>matches := sql_update (\<lambda>r. am_MatchID r = m) f (matches t)\<rparr>) in
       if ''running'' = ''running''
       then set_row (\<lambda>r. r\<lparr>am_Status := ''running'', am_StartedAt := Some (unix now)\<rparr>)
       else if ''running'' = ''completed'' \<or> ''running'' = ''cancelled''
       then set_row (\<lambda>r. r\<lparr>am_Status := ''running'', am_CompletedAt := Some (unix now)\<rparr>)
       else set_row (\<lambda>r. r\<lparr>am_Status := ''running''\<rparr>)) (tables d) = Inr (a, t')"
    then have "t' = (tables d)\<lparr>matches := sql_update (\<lambda>r. am_MatchID r = m)
        (\<lambda>r. r\<lparr>am_Status := ''running'', am_StartedAt := Some (unix now)\<rparr>) (matches (tables d))\<rparr>"
      by (auto simp: exec_Inr Let_def split: if_split_asm)
    then have t': "matches t' = sql_update (\<lambda>r. am_MatchID r = m)
        (\<lambda>r. r\<lparr>am_Status := ''running'', am_StartedAt := Some (unix now)\<rparr>) (matches (tables d))"
      "seated k t' = seated k (tables d)" for k by (simp_all add: seated_def)
    have "seated (am_MatchID r) (tables d) \<le> am_MaxAgents r" if "r \<in> set (matches (tables d))" for r
      using seats that by (simp add: seats_ok_alt)
    moreover have "seated (am_MatchID r) (tables d) = am_MaxAgents r"
      if "r \<in> set (matches (tables d))" "am_MatchID r = m \<or> am_Status r = ''running''" for r
      using seats full that by (auto simp: seats_ok_alt)
    ultimately show "seats_ok t'"
      unfolding seats_ok_alt t' set_sql_update by (simp add: ball_Un image_iff) fastforce
  qed
qed

lemma acts_seats:
  assumes run: "acts g u h h'" and "db_ok (vh_db h)" "seats_ok (tables (vh_db h))"
  shows "seats_ok (tables (vh_db h'))"
proof -
  have "db_ok (vh_db h') \<and> seats_ok (tables (vh_db h'))"
  proof (rule acts_db_induct [where P = "\<lambda>d. db_ok d \<and> seats_ok (tables d)", OF run])
    fix d now op
    assume d: "db_ok d \<and> seats_ok (tables d)" and may: "may_db u d op"
    show "db_ok (run_op now op d) \<and> seats_ok (tables (run_op now op d))"
    proof (cases op)
      case (Arena aop)
      then show ?thesis using d may run_op_ok [of d now op]
        by (cases aop) (auto intro: seats_create seats_join [of _ u] seats_start [of _ u])
    qed (use d run_op_ok [of d now op] in \<open>simp_all add: seats_frame [OF arena_frame(1)] seats_frame [OF arena_frame(2)]
          seats_frame [OF arena_frame(3)] seats_frame [OF arena_frame(4)] seats_frame [OF arena_frame(5)]\<close>)
  next
    fix d d' v
    assume d: "db_ok d \<and> seats_ok (tables d)" and t: "touches v d d'"
    have "arena_part (tables d') = arena_part (tables d)"
      using t arena_frame(1) [of _ "OpUpdateVMStatus v _ _ _ _ _"] arena_frame(1) [of _ "OpDeleteVM v"]
      by (induction rule: touches.induct) simp_all
    then show "db_ok d' \<and> seats_ok (tables d')" using d manage_ok [OF t] seats_frame by blast
  qed (use assms in simp)
  then show ?thesis by simp
qed

end
