(* ===== verification/Shell_Properties.thy ===== *)
theory Shell_Properties
  imports Shell_Isolation
begin

section \<open>Properties of the SSH gateway\<close>

text \<open>
  Sessions, registration, authentication and single commands. A session of a known user is a run of
  permitted steps (\<open>session_acts\<close>), from which the isolation, quota, name, seat and address properties
  follow; a session of an unknown user registers first.
\<close>

lemma session_acts:
  assumes "sessionHandler g clock ctx cmd w = Some (e, w')" "cx_User ctx = Some u" "db_ok (w_db w)"
  shows "acts g u (w_host w) (w_host w')"
proof -
  let ?sh = "\<lparr>sh_gw = g, sh_session = Some (cx_Fingerprint ctx), sh_user = u\<rparr>"
  have "permitted ?sh w w'"
  proof (cases "cmd = []")
    case True
    then show ?thesis using assms Run_permitted [of ?sh clock w e w'] by (simp add: sessionHandler_def Let_def)
  next
    case False
    then have "w' = snd (execCommand ?sh (clock (length (w_in w))) cmd w)"
      using assms by (simp add: sessionHandler_def Let_def)
    then show ?thesis using execCommand_permitted [OF assms(3), of ?sh "clock (length (w_in w))" cmd] by simp
  qed
  then show ?thesis by (simp add: permitted_def)
qed

lemma may_no_address:
  assumes "may_manage u d op"
  shows "\<not> sets_address op"
proof (cases op)
  case (HDb x)
  show ?thesis
  proof (cases x)
    case (Machine y)
    then show ?thesis using assms HDb by (cases y) simp_all
  qed (use HDb in simp_all)
qed simp_all

lemma acts_host_inv:
  assumes "acts g u h h'" "host_inv start n h"
  shows "\<exists>m \<ge> n. host_inv start m h'"
  using assms(1)
proof (induction rule: acts.induct)
  case acts_refl
  show ?case using assms(2) by blast
next
  case (acts_db h' op now)
  then obtain m where m: "n \<le> m" "host_inv start m h'" by blast
  have "\<not> sets_address (HDb op)" by (rule may_no_address [of u "vh_db h'"]) (simp add: acts_db.hyps(2))
  from run_host_op_inv [OF m(2) this, of undefined now]
  obtain k where "m \<le> k" "host_inv start k (h'\<lparr>vh_db := run_op now op (vh_db h')\<rparr>)" unfolding grows_def by auto
  then show ?case using m(1) order_trans by blast
next
  case (acts_vm h' env op now)
  then obtain m where m: "n \<le> m" "host_inv start m h'" by blast
  from run_host_op_inv [OF m(2) may_no_address [OF acts_vm.hyps(3)], of env now]
  obtain k where "m \<le> k" "host_inv start k (run_host_op env now op h')" unfolding grows_def by auto
  then show ?case using m(1) order_trans by blast
qed

subsection \<open>Samples for the witnesses\<close>

definition sample_outside :: outside where
  "sample_outside =
     \<lparr>ot_caddy = \<lparr>ce_url_ok = \<lambda>_. True, ce_Do = \<lambda>_ _. Inl ''refused''\<rparr>, ot_random = (\<lambda>n. n),
      ot_rand_bytes = (\<lambda>n k. Inr (replicate k CHR ''r'')),
      ot_ParseAuthorizedKey = (\<lambda>_. Inl ''no key''), ot_LookupTXT = (\<lambda>_ _. Inl ''no such host''), ot_url_ok = (\<lambda>_. True),
      ot_QueryEscape = (\<lambda>s. s), ot_Get = (\<lambda>_ _ _. Inl ''refused''), ot_user_json = (\<lambda>_. Inl ''bad''),
      ot_ssh = (\<lambda>_ _. SshExited), ot_ReadFile = (\<lambda>_. None), ot_db_text = (\<lambda>_. ''error''), ot_Stat = (\<lambda>_. False),
      ot_scenario_json = (\<lambda>_. Inl ''bad''), ot_ReadDir = (\<lambda>_. None)\<rparr>"

definition sample_gateway :: gateway where
  "sample_gateway =
     \<lparr>gw_outside = sample_outside, gw_VM = Some good_env, gw_LLMGateway = None, gw_hostKeyPath = ''key'',
      gw_hostPublicKey = ''ssh-ed25519 AAAA'', gw_domain = ''ussy.host'', gw_RoutussyURL = '''', gw_RoutussyInternalKey = ''''\<rparr>"

definition sample_user :: user where
  "sample_user = \<lparr>u_ID = 1, u_Handle = ''ada'', u_Email = '''', u_TrustLevel = ''newbie'', u_CreatedAt = 0, u_UpdatedAt = 0\<rparr>"

definition sample_world :: world where
  "sample_world = \<lparr>w_host = good_host, w_Metadata = None, w_Proxy = None, w_draws = 0, w_in = [], w_out = []\<rparr>"

definition sample_ctx :: conn_ctx where
  "sample_ctx = \<lparr>cx_User = Some sample_user, cx_Fingerprint = ''SHA256:a'', cx_PublicKey = Some ''ssh-ed25519 BBBB''\<rparr>"

lemma sample_db_world: "w_db sample_world = sample_db"
  by (simp add: w_db_def sample_world_def good_host_def fresh_host_def)

lemma sample_world_ok: "db_ok (w_db sample_world)"
  by (simp add: sample_db_world sample_db_ok)

text \<open>The session of the witnesses: \<^verbatim>\<open>ssh ussy.host tag web prod\<close>.\<close>

definition tag_session :: "session_end \<times> world" where
  "tag_session = execCommand \<lparr>sh_gw = sample_gateway, sh_session = Some ''SHA256:a'', sh_user = sample_user\<rparr> 0
     [''tag'', ''web'', ''prod''] sample_world"

lemma tag_session_eq:
  "sessionHandler sample_gateway (\<lambda>_. 0) sample_ctx [''tag'', ''web'', ''prod''] sample_world = Some (fst tag_session, snd tag_session)"
  by (simp add: sessionHandler_def sample_ctx_def tag_session_def Let_def)

lemma tag_session_tagged: "vm_tags (tables (w_db (snd tag_session))) = [(1, ''prod'')]"
  by code_simp

subsection \<open>Sessions of a known user\<close>

text \<open>C5. Whatever the arguments, a command of the \<^verbatim>\<open>commands\<close> map changes the host only by steps the
permissions allow its user: operations on rows the user owns, new VMs within the quota and with a valid
name, the trust level only by an administrator, seats only in a waiting match with a free one, and the VM
manager only on the user's own VMs.\<close>

theorem commands_stay_permitted:
  assumes "map_of commands name = Some cmd" "db_ok (w_db w)"
  shows "acts (sh_gw sh) (sh_user sh) (w_host w) (w_host (snd (cmd sh now args w)))"
  using command_permitted [OF assms] by (simp add: permitted_def)

theorem commands_stay_permitted_witness:
  "acts sample_gateway sample_user good_host
     (w_host (snd (cmdTag \<lparr>sh_gw = sample_gateway, sh_session = None, sh_user = sample_user\<rparr> 0 [''web'', ''prod''] sample_world)))"
proof -
  have "map_of commands ''tag'' = Some cmdTag" by (simp add: commands_def base_commands_def)
  from commands_stay_permitted [OF this sample_world_ok,
      of "\<lparr>sh_gw = sample_gateway, sh_session = None, sh_user = sample_user\<rparr>" 0 "[''web'', ''prod'']"]
  show ?thesis by (simp add: sample_world_def)
qed







text \<open>Whatever sessions do in the arena, no match has more participants than seats, and a match runs
only when all its seats are taken.\<close>

theorem session_seats:
  assumes "sessionHandler g clock ctx cmd w = Some (e, w')" "cx_User ctx = Some u" "db_ok (w_db w)"
    "seats_ok (tables (w_db w))"
  shows "seats_ok (tables (w_db w'))"
  using acts_seats [OF session_acts [OF assms(1-3)]] assms(3,4) by (simp add: w_db_def)

theorem session_seats_witness: "seats_ok (tables (w_db (snd tag_session)))"
proof -
  have "seats_ok (tables (w_db sample_world))" unfolding sample_db_world by code_simp
  then show ?thesis using session_seats [OF tag_session_eq _ sample_world_ok, of sample_user] by (simp add: sample_ctx_def)
qed

text \<open>The addresses of running VMs stay distinct and agree with the database through any session: a
session preserves the invariant of the VM manager, which only the number of allocations outgrows.\<close>

theorem session_addresses:
  assumes "sessionHandler g clock ctx cmd w = Some (e, w')" "cx_User ctx = Some u" "db_ok (w_db w)"
    "host_inv start n (w_host w)"
  shows "\<exists>m \<ge> n. host_inv start m (w_host w')"
  by (rule acts_host_inv [OF session_acts [OF assms(1-3)] assms(4)])

theorem session_addresses_witness: "\<exists>m. host_inv 0x0A000002 m (w_host (snd tag_session))"
proof -
  have "no_address sample_db" by code_simp
  then have "host_inv (nm_nextIP good_net) 0 (w_host sample_world)"
    unfolding sample_world_def good_host_def by (simp add: fresh_host_inv sample_db_eval)
  then have "host_inv 0x0A000002 0 (w_host sample_world)" by (simp add: good_net_def)
  from session_addresses [OF tag_session_eq _ sample_world_ok this, of sample_user]
  show ?thesis by (auto simp: sample_ctx_def)
qed

end
