(* ===== verification/Shell_Entry.thy ===== *)
theory Shell_Entry
  imports Shell_Properties
begin

section \<open>Entering the gateway, and single commands\<close>

text \<open>
  Which user a connection acts as, what registration leaves behind, that sessions return, and the
  properties of the commands that hand out credentials: \<^verbatim>\<open>browser\<close> and
  \<^verbatim>\<open>share cname-verify\<close>; and the ELO ratings.
\<close>

subsection \<open>The user of a connection\<close>

definition known_users :: "db \<Rightarrow> (string \<times> string) list \<Rightarrow> user list" where
  "known_users d keys = concat (map (\<lambda>k. case UserByFingerprint (fst k) d of Inl _ \<Rightarrow> [] | Inr u \<Rightarrow> [u]) keys)"

lemma handler_ctx:
  "snd (publicKeyHandler g now d ip key ctx) =
     ctx\<lparr>cx_User := (case UserByFingerprint (fst key) d of Inl _ \<Rightarrow> cx_User ctx | Inr u \<Rightarrow> Some u),
         cx_Fingerprint := fst key, cx_PublicKey := Some (snd key)\<rparr>"
  by (cases key) (simp add: publicKeyHandler_def Let_def split: sum.split)

lemma offer_keys_snoc:
  "offer_keys g now d ip (keys @ [k]) ctx = snd (publicKeyHandler g now d ip k (offer_keys g now d ip keys ctx))"
  by (simp add: offer_keys_def)

text \<open>C8. The user of a connection is the owner of the last offered key that has one, whichever key the
client then signs with; the fingerprint is that of the last offered key. So the two agree after a single
offer, and a client that first offers the key of another user and then a key of nobody gets the session of
that user.\<close>

theorem user_of_offers:
  assumes "keys \<noteq> []"
  shows "cx_User (offer_keys g now d ip keys no_ctx) =
      (if known_users d keys = [] then None else Some (last (known_users d keys))) \<and>
    cx_Fingerprint (offer_keys g now d ip keys no_ctx) = fst (last keys) \<and>
    cx_PublicKey (offer_keys g now d ip keys no_ctx) = Some (snd (last keys))"
  using assms
proof (induction keys rule: rev_induct)
  case (snoc k keys)
  show ?case
  proof (cases "keys = []")
    case True
    then show ?thesis by (simp add: offer_keys_def handler_ctx known_users_def no_ctx_def split: sum.split)
  next
    case False
    then show ?thesis using snoc.IH
      by (simp add: offer_keys_snoc handler_ctx known_users_def split: sum.split)
  qed
qed simp

text \<open>Two offers: ada's key, unsigned, then a key nobody has registered.\<close>

definition keyed_db :: db where
  "keyed_db = run_op 0 (Account (OpAddSSHKey 1 ''ssh-ed25519 AAAA'' ''SHA256:ada'' '''')) sample_db"

theorem user_of_offers_witness:
  "map_option u_Handle (cx_User (offer_keys sample_gateway 0 keyed_db ''1.2.3.4''
      [(''SHA256:ada'', ''ssh-ed25519 AAAA''), (''SHA256:eve'', ''ssh-ed25519 EEEE'')] no_ctx)) = Some ''ada'' \<and>
   cx_Fingerprint (offer_keys sample_gateway 0 keyed_db ''1.2.3.4''
      [(''SHA256:ada'', ''ssh-ed25519 AAAA''), (''SHA256:eve'', ''ssh-ed25519 EEEE'')] no_ctx) = ''SHA256:eve''"
proof -
  let ?keys = "[(''SHA256:ada'', ''ssh-ed25519 AAAA''), (''SHA256:eve'', ''ssh-ed25519 EEEE'')]"
  have "map u_Handle (known_users keyed_db ?keys) = [''ada'']" by code_simp
  then obtain u where "known_users keyed_db ?keys = [u]" "u_Handle u = ''ada''"
    by (cases "known_users keyed_db ?keys") auto
  then show ?thesis using user_of_offers [of ?keys sample_gateway 0 keyed_db "''1.2.3.4''"] by simp
qed

subsection \<open>Registration\<close>

lemma create_account_step:
  "create_account now ctx h w = (r, w') \<Longrightarrow>
     (db_ok (w_db w) \<longrightarrow> db_ok (w_db w')) \<and> length (w_in w') \<le> length (w_in w)"
  by (auto simp: create_account_def w_db_def CreateUser_ok AddSSHKey_ok dest!: db_write_step
      split: option.splits if_splits prod.splits sum.splits)

lemma handle_loop_step:
  "handle_loop now ctx n w = (r, w') \<Longrightarrow>
     (db_ok (w_db w) \<longrightarrow> db_ok (w_db w')) \<and> length (w_in w') \<le> length (w_in w)"
proof (induction n arbitrary: w)
  case (Suc n)
  obtain x w1 where 1: "ReadLine w = (x, w1)" by (metis surj_pair)
  have w1: "w_db w1 = w_db w" "length (w_in w1) \<le> length (w_in w)" using ReadLine_step [OF 1] by (simp_all add: w_db_def)
  have IH: "(db_ok (w_db w) \<longrightarrow> db_ok (w_db w')) \<and> length (w_in w') \<le> length (w_in w)"
    if "handle_loop now ctx n w2 = (r, w')" "w_db w2 = w_db w1" "w_in w2 = w_in w1" for w2
    using Suc.IH [OF that(1)] that(2,3) w1 by simp
  have out: "w_db (writeln m w1) = w_db w1" "w_db (writelns ms w1) = w_db w1" for m ms by (simp_all add: w_db_def)
  show ?case
    using Suc.prems w1 create_account_step [of now ctx _ w1]
    by (auto simp: 1 Let_def out dest!: IH dest: create_account_step cong: quiet
        split: option.splits if_splits sum.splits prod.splits)
qed (auto simp: w_db_def cong: quiet)

lemma handle_loop_created:
  "handle_loop now ctx n w = (Inr (Some u), w') \<Longrightarrow>
     \<exists>h w1. validHandle h \<and> w_host w1 = w_host w \<and> HandleExists h (w_db w) = Inr False \<and>
       create_account now ctx h w1 = (Inr u, w')"
proof (induction n arbitrary: w)
  case (Suc n)
  define made where "made = (\<exists>h w1. validHandle h \<and> w_host w1 = w_host w \<and> HandleExists h (w_db w) = Inr False \<and>
      create_account now ctx h w1 = (Inr u, w'))"
  have madeI: "validHandle h \<Longrightarrow> w_host w2 = w_host w \<Longrightarrow> HandleExists h (vh_db (w_host w)) = Inr False \<Longrightarrow>
      create_account now ctx h w2 = (Inr u, w') \<Longrightarrow> made" for h w2
    unfolding made_def w_db_def by blast
  obtain x w1 where 1: "ReadLine w = (x, w1)" by (metis surj_pair)
  have w1: "w_host w1 = w_host w" using ReadLine_step [OF 1] by simp
  have IH: "made" if "handle_loop now ctx n w2 = (Inr (Some u), w')" "w_host w2 = w_host w1" for w2
    using Suc.IH [OF that(1)] that(2) w1 unfolding made_def w_db_def by simp
  have made
    using Suc.prems w1
    by (auto simp: 1 Let_def w_db_def cong: quiet dest: IH madeI split: option.splits if_splits sum.splits prod.splits)
  then show ?case unfolding made_def .
qed (simp add: cong: quiet)


lemma registration_step:
  "handleRegistration now ctx w = (r, w') \<Longrightarrow>
     (db_ok (w_db w) \<longrightarrow> db_ok (w_db w')) \<and> length (w_in w') \<le> length (w_in w)"
  unfolding handleRegistration_def by (drule handle_loop_step) (simp add: w_db_def)

lemma Run_returns: "db_ok (w_db w) \<Longrightarrow> Run sh clock w \<noteq> None"
  using repl_returns [of "printWelcome sh w" "Suc (length (w_in (printWelcome sh w)))" sh clock]
  by (simp add: Run_def Let_def w_db_def del: repl.simps)

text \<open>C11. Every session ends: the registration asks at most five times, and the shell stops at the end
of its input at the latest, whatever was typed before.\<close>

theorem session_returns:
  assumes "db_ok (w_db w)"
  shows "sessionHandler g clock ctx cmd w \<noteq> None"
proof -
  have serve: "Run sh clock w1 \<noteq> None" if "db_ok (w_db w1)" for sh w1 using Run_returns [OF that] .
  obtain r w1 where 1: "handleRegistration (clock (length (w_in w))) ctx w = (r, w1)" by fastforce
  have "db_ok (w_db w1)" using registration_step [OF 1] assms by blast
  then show ?thesis using serve assms
    by (auto simp: sessionHandler_def Let_def 1 cong: quiet split: option.splits sum.splits)
qed

theorem session_returns_witness: "sessionHandler sample_gateway (\<lambda>_. 0) sample_ctx [] sample_world \<noteq> None"
  by (rule session_returns [OF sample_world_ok])


lemma db_write_run: "db_write f w = (r, w') \<Longrightarrow> f (w_db w) = (r, w_db w')"
  by (auto simp: db_write_def w_db_def split: prod.splits)

lemma AddSSHKey_users:
  "AddSSHKey now i pk fp c d = (Inr k, d') \<Longrightarrow> UserByID j d' = UserByID j d"
  by (auto simp: AddSSHKey_def WriteTx_Inr op_Inr UserByID_def ReadTx_def)

lemma CreateUser_pool: "CreateUser now h d = (r, d') \<Longrightarrow> reader_open d' = reader_open d"
proof -
  obtain fn where "CreateUser now h = WriteTx fn" by (simp add: CreateUser_def)
  then show "CreateUser now h d = (r, d') \<Longrightarrow> ?thesis" using WriteTx_same_pools [of fn d] by simp
qed

lemma create_account_signs_in:
  assumes "create_account now ctx h w = (Inr u, w')" "db_ok (w_db w)" "reader_open (w_db w)"
  shows "u_Handle u = h \<and> u_TrustLevel u = ''newbie'' \<and> UserByFingerprint (cx_Fingerprint ctx) (w_db w') = Inr u"
proof -
  from assms(1) obtain pk w1 k w2 where
    1: "db_write (CreateUser now h) w = (Inr u, w1)"
    and 2: "db_write (AddSSHKey now (u_ID u) (TrimSpace pk) (cx_Fingerprint ctx) '''') w1 = (Inr k, w2)"
    and w': "w_db w' = w_db w2"
    by (auto simp: create_account_def w_db_def cong: quiet split: option.splits if_splits prod.splits sum.splits)
  note run = db_write_run [OF 1]
  have "writer_open (w_db w)" using run by (auto simp: CreateUser_def WriteTx_def split: if_splits)
  note made = create_user_iff_free [OF assms(2,3) this, of now h]
  have d1: "db_ok (w_db w1)" "reader_open (w_db w1)"
    using CreateUser_ok [OF assms(2), of now h] CreateUser_pool [OF run] assms(3) by (simp_all add: run)
  have "UserByFingerprint (cx_Fingerprint ctx) (w_db w2) = UserByID (u_ID u) (w_db w1)"
    using add_key_then_login [OF d1 db_write_run [OF 2]] AddSSHKey_users [OF db_write_run [OF 2]] by simp
  then show ?thesis using made run w' by simp
qed

text \<open>C10. Registering signs in: if the registration makes an account, its handle was free and has the
required form, the account is a newbie's, and from then on the key of the connection belongs to it.\<close>

theorem registration_signs_in:
  assumes "handleRegistration now ctx w = (Inr (Some u), w')" "db_ok (w_db w)" "reader_open (w_db w)"
  shows "validHandle (u_Handle u) \<and> HandleExists (u_Handle u) (w_db w) = Inr False \<and>
    u_TrustLevel u = ''newbie'' \<and> UserByFingerprint (cx_Fingerprint ctx) (w_db w') = Inr u"
proof -
  from handle_loop_created [OF assms(1) [unfolded handleRegistration_def]] obtain h w1 where
    1: "validHandle h" "w_host w1 = w_host w" "HandleExists h (w_db w) = Inr False" "create_account now ctx h w1 = (Inr u, w')"
    by (metis writelns_frame w_db_def)
  then have "w_db w1 = w_db w" by (simp add: w_db_def)
  with create_account_signs_in [OF 1(4)] show ?thesis using 1(1,3) assms(2,3) by simp
qed

definition registered :: "(shell_error + user option) \<times> world" where
  "registered = handleRegistration 0 \<lparr>cx_User = None, cx_Fingerprint = ''SHA256:eve'', cx_PublicKey = Some ''ssh-ed25519 EEEE''\<rparr>
     (sample_world\<lparr>w_in := [''ada'', '' Eve '']\<rparr>)"

theorem registration_signs_in_witness:
  "map_option u_Handle (case UserByFingerprint ''SHA256:eve'' (w_db (snd registered)) of Inr u \<Rightarrow> Some u | Inl _ \<Rightarrow> None) =
     Some ''eve''"
proof -
  have "case fst registered of Inr (Some u) \<Rightarrow> u_Handle u = ''eve'' | _ \<Rightarrow> False" by code_simp
  then obtain u where u: "fst registered = Inr (Some u)" "u_Handle u = ''eve''"
    by (auto split: sum.splits option.splits)
  then have "handleRegistration 0 \<lparr>cx_User = None, cx_Fingerprint = ''SHA256:eve'', cx_PublicKey = Some ''ssh-ed25519 EEEE''\<rparr>
      (sample_world\<lparr>w_in := [''ada'', '' Eve '']\<rparr>) = (Inr (Some u), snd registered)"
    unfolding registered_def by (metis surj_pair fst_conv snd_conv)
  from registration_signs_in [OF this] show ?thesis
    using u sample_world_ok by (simp add: w_db_def sample_world_def good_host_def fresh_host_def sample_db_eval)
qed


subsection \<open>Commands over the HTTPS API\<close>

lemma Execute_permitted:
  assumes "APIExecutor_Execute g render echo now u command args w = (r, w')" "db_ok (w_db w)"
  shows "acts g u (w_host w) (w_host w')"
proof (cases "\<exists>handler. map_of commands command = Some handler \<and> TrimSpace command \<noteq> '''' \<and> command \<noteq> ''ssh''")
  case True
  then obtain handler where h: "map_of commands command = Some handler" "TrimSpace command \<noteq> ''''" "command \<noteq> ''ssh''"
    by blast
  let ?sh = "\<lparr>sh_gw = g, sh_session = None, sh_user = u\<rparr>"
  have "permitted ?sh (w\<lparr>w_in := echo, w_out := []\<rparr>) (snd (handler ?sh now args (w\<lparr>w_in := echo, w_out := []\<rparr>)))"
    by (rule command_permitted [OF h(1)]) (use assms(2) in \<open>simp add: w_db_def\<close>)
  then show ?thesis using assms(1) h
    by (auto simp: APIExecutor_Execute_def Let_def permitted_def cong: quiet split: prod.splits outcome.splits)
next
  case False
  then have "w' = w" using assms(1) by (auto simp: APIExecutor_Execute_def split: option.splits if_splits)
  then show ?thesis by (simp add: acts_refl)
qed

text \<open>Commands over the API are under the same rules: whatever the token allowed and whatever the
arguments, the data of other users is as it was, accounts unless the user is an administrator too, and no
machine of others was touched.\<close>

theorem api_command_isolation:
  assumes "APIExecutor_Execute g render echo now u command args w = (r, w')" "db_ok (w_db w)"
  shows "data_of_others (u_ID u) (tables (w_db w')) = data_of_others (u_ID u) (tables (w_db w)) \<and>
    (u_TrustLevel u \<noteq> ''admin'' \<longrightarrow> users (tables (w_db w')) = users (tables (w_db w))) \<and>
    (\<forall>i. foreign (u_ID u) (tables (w_db w)) i \<longrightarrow>
       map_of (vh_running (w_host w')) i = map_of (vh_running (w_host w)) i)"
  using acts_others [OF Execute_permitted [OF assms]] acts_running [OF Execute_permitted [OF assms]] assms(2)
  by (simp add: w_db_def)

definition api_tag :: "exec_end \<times> world" where
  "api_tag = APIExecutor_Execute sample_gateway (\<lambda>_. '''') [] 0 sample_user ''tag'' [''web'', ''prod''] sample_world"

theorem api_command_isolation_witness:
  "data_of_others 1 (tables (w_db (snd api_tag))) = data_of_others 1 (tables (w_db sample_world)) \<and>
   vm_tags (tables (w_db (snd api_tag))) = [(1, ''prod'')]"
proof -
  have "vm_tags (tables (w_db (snd api_tag))) = [(1, ''prod'')]" by code_simp
  then show ?thesis
    using api_command_isolation [of sample_gateway "\<lambda>_. ''''" "[]" 0 sample_user "''tag''" "[''web'', ''prod'']"
        sample_world "fst api_tag" "snd api_tag"] sample_world_ok
    by (simp add: api_tag_def sample_user_def)
qed

subsection \<open>Magic links\<close>

lemma generate_frame: "generateMagicToken sh w = (r, w') \<Longrightarrow> w_host w' = w_host w"
  by (auto simp: generateMagicToken_def dest!: step_dests split: prod.splits sum.splits)

lemma browser_stores:
  assumes "cmdBrowser sh now args w = (Done, w')"
  obtains token w1 where "CreateMagicToken (u_ID (sh_user sh)) token (now + 5 * minute) (w_db w) = (Inr (), w_db w')"
    "generateMagicToken sh w = (Inr token, w1)"
proof -
  from assms obtain token w1 w2 where
    1: "generateMagicToken sh w = (Inr token, w1)"
    and 2: "db_write (CreateMagicToken (u_ID (sh_user sh)) token (now + 5 * minute)) w1 = (Inr (), w2)"
    and w': "w_host w' = w_host w2"
    by (auto simp: cmdBrowser_def Let_def cong: quiet split: prod.splits sum.splits if_splits)
  from db_write_run [OF 2] generate_frame [OF 1] w' 1 show ?thesis by (auto simp: w_db_def intro: that)
qed

text \<open>C13. The link that \<^verbatim>\<open>browser\<close> makes signs its user in: its token is accepted until five minutes
after the command, to the second, and names the user of the session.\<close>

theorem browser_link_signs_in:
  assumes "cmdBrowser sh now args w = (Done, w')" "db_ok (w_db w)" "now' \<le> unix (now + 5 * minute) * second"
  shows "\<exists>token w1 u d. generateMagicToken sh w = (Inr token, w1) \<and> ValidateMagicToken now' token (w_db w') = (Inr u, d) \<and>
    u_ID u = u_ID (sh_user sh)"
proof -
  obtain token w1 where
    made: "CreateMagicToken (u_ID (sh_user sh)) token (now + 5 * minute) (w_db w) = (Inr (), w_db w')"
    and tok: "generateMagicToken sh w = (Inr token, w1)"
    by (rule browser_stores [OF assms(1)])
  let ?m = "\<lparr>mt_Token = token, mt_UserID = u_ID (sh_user sh), mt_ExpiresAt = unix (now + 5 * minute), mt_Used = False\<rparr>"
  have ok: "db_ok (w_db w')" using CreateMagicToken_ok [OF assms(2)] made by (metis snd_conv)
  have m: "?m \<in> set (magic_tokens (tables (w_db w')))" and "writer_open (w_db w')"
    using made by (auto simp: CreateMagicToken_def WriteTx_Inr op_Inr)
  with ValidateMagicToken_succeeds [OF ok, of ?m token now'] assms(3) obtain u d where
    v: "ValidateMagicToken now' token (w_db w') = (Inr u, d)" by auto
  have "query_row (sql_select (\<lambda>m. mt_Token m = token) (magic_tokens (tables (w_db w')))) = Inr ?m"
    by (rule magic_t.uniq_query_key [OF ok_tables(6) [OF ok] m]) (auto simp: magic_clash_def)
  moreover obtain m where "query_row (sql_select (\<lambda>m. mt_Token m = token) (magic_tokens (tables (w_db w')))) = Inr m"
    "UserByID (mt_UserID m) (w_db w'\<lparr>reader_open := True\<rparr>) = Inr u"
    by (rule ValidateMagicToken_Inr [OF v])
  ultimately have "UserByID (u_ID (sh_user sh)) (w_db w'\<lparr>reader_open := True\<rparr>) = Inr u" by simp
  then have "u_ID u = u_ID (sh_user sh)"
    by (auto simp: UserByID_def ReadTx_def sql_select_def user.truncate_def dest!: query_row_in)
  then show ?thesis using tok v by blast
qed

definition link_shell :: Shell where
  "link_shell = \<lparr>sh_gw = sample_gateway, sh_session = None, sh_user = sample_user\<rparr>"

lemma sample_link: "RawURL_encode (replicate 32 CHR ''r'') \<noteq> ''tok''"
proof -
  have "RawURL_encode (CHR ''r'' # CHR ''r'' # CHR ''r'' # s) \<noteq> ''tok''" for s
    by (simp add: RawURL_encode_def b64_char_def to_url_def Let_def char_of_def)
  then show ?thesis by (simp add: numeral_eq_Suc)
qed

lemma sample_link_stored: "token \<noteq> ''tok'' \<Longrightarrow> fst (CreateMagicToken 1 token e sample_db) = Inr ()"
proof -
  have "has_user (tables sample_db) 1" by code_simp
  then show "token \<noteq> ''tok'' \<Longrightarrow> ?thesis"
    by (simp add: CreateMagicToken_def WriteTx_def exec_def sample_db_eval sql_insert_def magic_clash_def fk_check_def Let_def)
qed

theorem browser_link_signs_in_witness:
  "\<exists>w' token u d. cmdBrowser link_shell 0 [] sample_world = (Done, w') \<and>
     ValidateMagicToken (300 * second) token (w_db w') = (Inr u, d) \<and> u_ID u = 1"
proof -
  obtain w1 where token: "generateMagicToken link_shell sample_world = (Inr (RawURL_encode (replicate 32 CHR ''r'')), w1)"
    by (simp add: generateMagicToken_def rand_read_def link_shell_def sample_gateway_def sample_outside_def Let_def)
  have user: "u_ID (sh_user link_shell) = 1" by (simp add: link_shell_def sample_user_def)
  have "w_db w1 = sample_db" using generate_frame [OF token] sample_db_world by (simp add: w_db_def)
  then have "fst (db_write (CreateMagicToken (u_ID (sh_user link_shell)) (RawURL_encode (replicate 32 CHR ''r'')) (0 + 5 * minute)) w1) = Inr ()"
    using sample_link_stored [OF sample_link, of "0 + 5 * minute"] unfolding user
    by (simp add: db_write_def case_prod_unfold)
  then obtain w2 where "db_write (CreateMagicToken (u_ID (sh_user link_shell)) (RawURL_encode (replicate 32 CHR ''r'')) (0 + 5 * minute)) w1 = (Inr (), w2)"
    by (metis prod.collapse)
  then have "fst (cmdBrowser link_shell 0 [] sample_world) = Done"
    unfolding cmdBrowser_def token by (simp add: Let_def)
  then obtain w' where run: "cmdBrowser link_shell 0 [] sample_world = (Done, w')" by (metis prod.collapse)
  have time: "300 * second \<le> unix (0 + 5 * minute) * second" by code_simp
  show ?thesis using browser_link_signs_in [OF run sample_world_ok time] run user by metis
qed

subsection \<open>Ratings\<close>

lemma expected_score_bounds: "0 < expected_score a b" "expected_score a b < 1"
  unfolding expected_score_def by (simp_all add: divide_simps add_pos_pos)

lemma expected_scores_sum: "expected_score a b + expected_score b a = 1"
proof -
  let ?x = "10 powr (real_of_int (b - a) / 400)"
  have "10 powr (real_of_int (a - b) / 400) = 1 / ?x"
    by (simp add: powr_minus [symmetric] inverse_eq_divide [symmetric] minus_divide_left)
  moreover have "1 / (1 + x) + 1 / (1 + 1 / x) = 1" if "x > 0" for x :: real
    using that by (simp add: field_simps)
  ultimately show ?thesis unfolding expected_score_def by simp
qed

lemma Round_int: "Round (real_of_int n) = n"
  by (simp add: Round_def)

lemma Round_mono: "x \<le> y \<Longrightarrow> Round x \<le> Round y"
  unfolding Round_def by (auto intro: floor_mono split: if_split) linarith

lemma Round_near: "real_of_int (Round x) \<le> x + 1 / 2" "x - 1 / 2 \<le> real_of_int (Round x)"
  unfolding Round_def by (auto split: if_split) linarith+

text \<open>A decided match moves rating points from the loser to the winner: never in the other direction,
at most 32, and what the one gains the other loses, up to one point of rounding.\<close>

theorem elo_bounds:
  "case CalculateELO a b 1 of (a', b') \<Rightarrow> 0 \<le> a' - a \<and> a' - a \<le> 32 \<and> b' \<le> b \<and> b - b' \<le> 32 \<and>
     \<bar>(a' + b') - (a + b)\<bar> \<le> 1"
proof -
  let ?e = "expected_score a b"
  have e: "expected_score b a = 1 - ?e" using expected_scores_sum [of a b] by simp
  let ?x = "real_of_int a + 32 * (1 - ?e)" and ?y = "real_of_int b + 32 * (0 - (1 - ?e))"
  have run: "CalculateELO a b 1 = (Round ?x, Round ?y)" by (simp add: CalculateELO_def eloKFactor_def Let_def e)
  have "Round (real_of_int a) \<le> Round ?x" "Round ?x \<le> Round (real_of_int (a + 32))"
    "Round ?y \<le> Round (real_of_int b)" "Round (real_of_int (b - 32)) \<le> Round ?y"
    using expected_score_bounds [of a b] by (intro Round_mono; simp)+
  note this [unfolded Round_int]
  moreover have "\<bar>real_of_int ((Round ?x + Round ?y) - (a + b))\<bar> \<le> 1"
    using Round_near [of ?x] Round_near [of ?y] by (simp add: abs_le_iff)
  then have "\<bar>(Round ?x + Round ?y) - (a + b)\<bar> \<le> 1" by linarith
  ultimately show ?thesis unfolding run prod.case by linarith
qed

end
