(* ===== verification/Api_Handler.thy ===== *)
theory Api_Handler
  imports Db_Properties Rate_Limits
begin

section \<open>The HTTPS API\<close>

text \<open>
  \<^verbatim>\<open>internal/api/handler.go\<close>: Bearer authentication with stateless (\<^verbatim>\<open>usy0.\<close>) and
  stored (\<^verbatim>\<open>usy1.\<close>) tokens, and the whole of \<^verbatim>\<open>POST /exec\<close>. What is not in the repository
  is a field of \<open>api_env\<close>: the base64, JSON and SSH wire decoders, signature verification and
  fingerprints, the key resolver and the command executor (each \<^verbatim>\<open>None\<close> when nil). The
  executor has a state of its own, so that an execution is visible. A response is \<^term>\<open>None\<close>
  when the Go code would panic. \<^verbatim>\<open>TouchAPIToken\<close>, started in a goroutine, is performed in place.
\<close>

record token_permissions =
  p_Exp :: int
  p_Nbf :: int
  p_Cmds :: "string list"
  p_Ctx :: string

datatype exec_result = ExecDone string int | ExecFailed string | ExecTimedOut string

record ('key, 'sig, 'x) api_env =
  b64_decode :: "string \<Rightarrow> string option"
  perms_unmarshal :: "string \<Rightarrow> token_permissions option"
  sig_unmarshal :: "string \<Rightarrow> 'sig option"
  key_verify :: "'key \<Rightarrow> string \<Rightarrow> 'sig \<Rightarrow> bool"
  key_fingerprint :: "'key \<Rightarrow> string"
  keyResolver :: "(int \<Rightarrow> 'key list option) option"
  command_unmarshal :: "string \<Rightarrow> string + string"
  executor :: "('x \<Rightarrow> user \<Rightarrow> string \<Rightarrow> string list \<Rightarrow> exec_result \<times> 'x) option"

type_synonym auth_ok = "user \<times> token_permissions option \<times> string"

text \<open>The first key that verifies the payload.\<close>

fun first_verifying :: "('key \<Rightarrow> bool) \<Rightarrow> 'key list \<Rightarrow> 'key option" where
  "first_verifying ok [] = None"
| "first_verifying ok (k # ks) = (if ok k then Some k else first_verifying ok ks)"

definition authenticateStateless ::
  "('key, 'sig, 'x) api_env \<Rightarrow> nanos \<Rightarrow> string \<Rightarrow> db \<Rightarrow> string + auth_ok" where
  "authenticateStateless env now token d =
     (let parts = SplitN2 (TrimPrefix token ''usy0.'') CHR ''.'' in
      if length parts \<noteq> 2 then Inl ''invalid usy0 token format''
      else case b64_decode env (parts ! 0) of None \<Rightarrow> Inl ''invalid token payload encoding''
      | Some permsJSON \<Rightarrow>
      (case perms_unmarshal env permsJSON of None \<Rightarrow> Inl ''invalid token permissions''
      | Some perms \<Rightarrow>
         if unix now < p_Nbf perms then Inl ''token not yet valid''
         else if unix now > p_Exp perms then Inl ''token expired''
         else case b64_decode env (parts ! 1) of None \<Rightarrow> Inl ''invalid token signature encoding''
      | Some sigBytes \<Rightarrow>
      (case sig_unmarshal env sigBytes of None \<Rightarrow> Inl ''invalid token signature''
      | Some sig \<Rightarrow>
         if p_Ctx perms = '''' then Inl ''usy0 token missing ctx (user handle)''
         else case UserByHandle (p_Ctx perms) d of Inl _ \<Rightarrow> Inl ''unknown user''
      | Inr user \<Rightarrow>
      (case keyResolver env of None \<Rightarrow> Inl ''stateless token verification unavailable''
      | Some resolve \<Rightarrow>
      (case resolve (u_ID user) of None \<Rightarrow> Inl ''failed to resolve keys''
      | Some keys \<Rightarrow>
      (case first_verifying (\<lambda>k. key_verify env k permsJSON sig) keys of
         None \<Rightarrow> Inl ''signature verification failed''
       | Some key \<Rightarrow> Inr (user, Some perms, key_fingerprint env key)))))))"

text \<open>A stored token whose \<open>full_token\<close> is not valid JSON carries no restriction.\<close>

definition short_token_perms ::
  "('key, 'sig, 'x) api_env \<Rightarrow> nanos \<Rightarrow> string \<Rightarrow> string + token_permissions option" where
  "short_token_perms env now full =
     (if full = '''' then Inr None
      else case perms_unmarshal env full of
        None \<Rightarrow> Inr None
      | Some p \<Rightarrow> if p_Exp p > 0 \<and> unix now > p_Exp p then Inl ''token expired'' else Inr (Some p))"

definition authenticateShortToken ::
  "('key, 'sig, 'x) api_env \<Rightarrow> nanos \<Rightarrow> string \<Rightarrow> db \<Rightarrow> (string + auth_ok) \<times> db" where
  "authenticateShortToken env now token d =
     (let tokenID = TrimPrefix token ''usy1.'' in
      if tokenID = '''' then (Inl ''empty token ID'', d)
      else case APITokenByID tokenID d of Inl _ \<Rightarrow> (Inl ''invalid token'', d)
      | Inr apiToken \<Rightarrow>
         if at_Revoked apiToken then (Inl ''token revoked'', d)
         else case short_token_perms env now (at_FullToken apiToken) of Inl e \<Rightarrow> (Inl e, d)
      | Inr perms \<Rightarrow>
      (case UserByID (at_UserID apiToken) d of Inl _ \<Rightarrow> (Inl ''user not found'', d)
      | Inr user \<Rightarrow>
         let fingerprint = (case FingerprintByUser (u_ID user) d of Inl _ \<Rightarrow> '''' | Inr fp \<Rightarrow> fp)
         in (Inr (user, perms, fingerprint), snd (TouchAPIToken now tokenID d))))"

definition authenticate ::
  "('key, 'sig, 'x) api_env \<Rightarrow> nanos \<Rightarrow> string \<Rightarrow> db \<Rightarrow> (string + auth_ok) \<times> db" where
  "authenticate env now authHeader d =
     (if authHeader = '''' then (Inl ''missing Authorization header'', d)
      else if \<not> HasPrefix authHeader ''Bearer '' then
        (Inl ''invalid authorization scheme (expected Bearer)'', d)
      else
        let token = TrimPrefix authHeader ''Bearer '' in
        if HasPrefix token ''usy0.'' then (authenticateStateless env now token d, d)
        else if HasPrefix token ''usy1.'' then authenticateShortToken env now token d
        else (Inl ''unrecognized token format'', d))"

text \<open>A request: the headers the handler reads and the body, \<^term>\<open>None\<close> if reading it fails.\<close>

record http_request =
  rq_Authorization :: string
  rq_ContentType :: string
  rq_Body :: "string option"

text \<open>\<^verbatim>\<open>LimitReader\<close> passes on one byte more than the limit, enough to see the excess.\<close>

definition maxBody :: int where "maxBody = 64 * 1024"

definition readCommand :: "('key, 'sig, 'x) api_env \<Rightarrow> http_request \<Rightarrow> string + string" where
  "readCommand env r =
     (case rq_Body r of None \<Rightarrow> Inl ''failed to read request body''
      | Some body \<Rightarrow>
        let ct = rq_ContentType r in
        if int (length body) > maxBody then Inl ''request body too large (max 64KB)''
        else if HasPrefix ct ''application/json'' then
          (case command_unmarshal env body of
             Inl err \<Rightarrow> Inl (''invalid JSON: '' @ err)
           | Inr command \<Rightarrow> Inr (TrimSpace command))
        else if HasPrefix ct ''text/plain'' \<or> ct = '''' then Inr (TrimSpace body)
        else Inl (''unsupported Content-Type '' @ go_quote ct @ '' (use application/json or text/plain)''))"

datatype api_body = ErrorBody string | ExecBody string int

record api_response =
  rs_status :: int
  rs_body :: api_body
  rs_retry_after :: "int option"

definition writeError :: "string \<Rightarrow> int \<Rightarrow> api_response" where
  "writeError message code = \<lparr>rs_status = code, rs_body = ErrorBody message, rs_retry_after = None\<rparr>"

record 'x api_state =
  h_db :: db
  h_limiter :: rate_limiter
  h_exec :: 'x

text \<open>\<^verbatim>\<open>%.0f\<close> rounds to the nearest integer, halves to the even one.\<close>

definition round_even :: "rat \<Rightarrow> int" where
  "round_even x = (let n = \<lfloor>x\<rfloor>; f = x - of_int n in
     if f < 1/2 then n else if f > 1/2 then n + 1 else if even n then n else n + 1)"

text \<open>After authentication and the rate limit: read, check and run the command.\<close>

definition exec_command ::
  "('key, 'sig, 'x) api_env \<Rightarrow> http_request \<Rightarrow> user \<Rightarrow> token_permissions option \<Rightarrow> 'x \<Rightarrow>
   api_response option \<times> 'x" where
  "exec_command env r user perms x =
     (case executor env of
        None \<Rightarrow> (Some (writeError ''API executor unavailable'' 503), x)
      | Some execute \<Rightarrow>
     (case readCommand env r of
        Inl err \<Rightarrow> (Some (writeError err 400), x)
      | Inr command \<Rightarrow>
        if command = '''' then (Some (writeError ''empty command'' 400), x)
        else case Fields command of
          [] \<Rightarrow> (None, x)
        | cmdName # cmdArgs \<Rightarrow>
          if (case perms of None \<Rightarrow> False
              | Some p \<Rightarrow> length (p_Cmds p) > 0 \<and> \<not> list_ex (\<lambda>c. c = cmdName) (p_Cmds p))
          then (Some (writeError (''command '' @ go_quote cmdName @ '' not permitted by token'') 403), x)
          else case execute x user cmdName cmdArgs of
            (ExecTimedOut _, x') \<Rightarrow> (Some (writeError ''command timed out'' 504), x')
          | (ExecFailed err, x') \<Rightarrow> (Some (writeError (''command failed: '' @ err) 422), x')
          | (ExecDone output exitCode, x') \<Rightarrow>
              (Some \<lparr>rs_status = 200, rs_body = ExecBody output exitCode, rs_retry_after = None\<rparr>, x')))"

definition handleExec ::
  "('key, 'sig, 'x) api_env \<Rightarrow> nanos \<Rightarrow> http_request \<Rightarrow> 'x api_state \<Rightarrow>
   api_response option \<times> 'x api_state" where
  "handleExec env now r st =
     (case authenticate env now (rq_Authorization r) (h_db st) of
        (Inl err, d) \<Rightarrow> (Some (writeError (''unauthorized: '' @ err) 401), st\<lparr>h_db := d\<rparr>)
      | (Inr (user, perms, fingerprint), d) \<Rightarrow>
        let (allowed, lim) = (if fingerprint \<noteq> '''' then Allow now fingerprint (h_limiter st)
                              else (True, h_limiter st)) in
        if \<not> allowed then
          let (wait, lim) = RetryAfter now fingerprint lim in
          (Some (writeError ''rate limit exceeded'' 429\<lparr>rs_retry_after := Some (round_even (secs wait + 1))\<rparr>),
           st\<lparr>h_db := d, h_limiter := lim\<rparr>)
        else
          let (resp, x) = exec_command env r user perms (h_exec st) in
          (resp, st\<lparr>h_db := d, h_limiter := lim, h_exec := x\<rparr>))"

subsection \<open>Lemmas\<close>

lemma first_verifying_Some:
  "first_verifying ok ks = Some k \<Longrightarrow> k \<in> set ks \<and> ok k"
  by (induction ks) (auto split: if_splits)

lemma exec_command_total: "fst (exec_command env r user perms x) \<noteq> None"
proof -
  have "Fields c \<noteq> []" if "readCommand env r = Inr c" "c \<noteq> ''''" for c
    using that by (auto simp: readCommand_def Let_def Fields_nonempty split: option.splits sum.splits if_splits)
  then show ?thesis
    by (auto simp: exec_command_def split: option.split sum.split list.split prod.split exec_result.split)
qed

text \<open>When the executor runs at all, it runs one permitted command.\<close>

lemma exec_command_runs:
  assumes "snd (exec_command env r user perms x) \<noteq> x"
  obtains execute c name args where "executor env = Some execute" "readCommand env r = Inr c"
    "Fields c = name # args" "snd (exec_command env r user perms x) = snd (execute x user name args)"
    "\<And>p. perms = Some p \<Longrightarrow> p_Cmds p \<noteq> [] \<Longrightarrow> name \<in> set (p_Cmds p)"
  using assms
  by (auto simp: exec_command_def list_ex_iff
      split: option.splits sum.splits list.splits prod.splits exec_result.splits if_splits)

definition token_dead :: "string \<Rightarrow> tables \<Rightarrow> bool" where
  "token_dead k t \<longleftrightarrow> (\<forall>a \<in> set (api_tokens t). at_TokenID a = k \<longrightarrow> at_Revoked a)"

lemma api_tokens_frame:
  "api_tokens (tables (run_account_op now ao d)) = api_tokens (tables d)"
  "api_tokens (tables (run_vm_op now vo d)) = api_tokens (tables d)"
  "api_tokens (tables (run_share_op now so d)) = api_tokens (tables d)"
  "api_tokens (tables (run_llm_op now lo d)) = api_tokens (tables d)"
  "api_tokens (tables (run_arena_op now ro d)) = api_tokens (tables d)"
  by (cases ao, auto simp: account_defs op_Inr intro!: WriteTx_frame split: if_split_asm)
     (cases vo, auto simp: machine_defs op_Inr intro!: WriteTx_frame split: if_split_asm,
      cases so, auto simp: share_defs op_Inr intro!: WriteTx_frame split: if_split_asm,
      cases lo, auto simp: llm_defs op_Inr intro!: WriteTx_frame split: if_split_asm,
      cases ro, auto simp: arena_defs op_Inr intro!: WriteTx_frame split: if_split_asm)

lemma token_dead_token_op:
  assumes "token_dead k (tables d)" and "\<And>u f x'. x \<noteq> OpCreateAPIToken k u f x'"
  shows "token_dead k (tables (run_token_op now x d))"
  using assms
  apply (cases x)
  apply (simp_all add: token_defs)
  apply (erule WriteTx_invariant [where P = "token_dead k", rotated], (auto simp: op_Inr token_dead_def set_sql_update split: if_split_asm)[])+
  done

lemma token_dead_step:
  assumes "token_dead k (tables d)" and "\<And>u f x. op \<noteq> Tok (OpCreateAPIToken k u f x)"
  shows "token_dead k (tables (run_op now op d))"
  using assms
  by (cases op) (simp_all add: token_dead_token_op, simp_all add: token_dead_def api_tokens_frame)

lemma token_dead_steps:
  assumes "token_dead k (tables d)"
    and "\<And>t u f x. (t, Tok (OpCreateAPIToken k u f x)) \<notin> set ops"
  shows "token_dead k (tables (run_ops ops d))"
  using assms
proof (induction ops arbitrary: d)
  case (Cons y ops)
  have "token_dead k (tables (run_op (fst y) (snd y) d))"
    by (rule token_dead_step [OF Cons.prems(1)])
       (use Cons.prems(2) in \<open>metis list.set_intros(1) prod.collapse\<close>)
  then show ?case using Cons.IH Cons.prems(2) by (metis list.set_intros(2) run_ops_simps(2))
qed simp

lemma dead_token_rejected:
  assumes "token_dead k (tables d)"
  shows "\<exists>e. authenticateShortToken env now (''usy1.'' @ k) d = (Inl e, d)"
proof (cases "APITokenByID k d")
  case (Inr a)
  then have "a \<in> set (api_tokens (tables d))" "at_TokenID a = k"
    by (auto simp: APITokenByID_def ReadTx_Inr dest!: query_row_in)
  then have "at_Revoked a" using assms by (simp add: token_dead_def)
  with Inr show ?thesis
    unfolding authenticateShortToken_def Let_def TrimPrefix_append by (cases "k = ''''") simp_all
qed (unfold authenticateShortToken_def Let_def TrimPrefix_append, cases "k = ''''", simp_all)

lemma RevokeAPIToken_dead:
  assumes "RevokeAPIToken k d = (Inr (), d')"
  shows "token_dead k (tables d')"
proof -
  have "api_tokens (tables d') = sql_update (\<lambda>a. at_TokenID a = k) (\<lambda>a. a\<lparr>at_Revoked := True\<rparr>)
      (api_tokens (tables d))"
    using assms unfolding RevokeAPIToken_def WriteTx_Inr exec_Inr by auto
  then show ?thesis by (simp only: token_dead_def set_sql_update ball_simps) simp
qed

lemma UserByHandle_handle:
  assumes "UserByHandle h d = Inr u"
  shows "u_Handle u = h"
proof -
  have "u \<in> set (map user.truncate (sql_select (\<lambda>u. u_Handle u = h) (users (tables d))))"
    by (rule query_row_in) (use assms in \<open>simp add: UserByHandle_def ReadTx_Inr\<close>)
  then obtain v where "v \<in> set (sql_select (\<lambda>u. u_Handle u = h) (users (tables d)))" "u = user.truncate v"
    unfolding set_map by blast
  then show ?thesis by (simp add: user.truncate_def)
qed

text \<open>\<^verbatim>\<open>GET /health\<close> and \<^verbatim>\<open>GET /version\<close>: the status and the fields of the object. \<open>Format\<close>
prints a time as RFC 3339, \<open>build\<close> is the version of Go if the build recorded one.\<close>

definition handleHealth :: "(nanos \<Rightarrow> string) \<Rightarrow> nanos \<Rightarrow> int \<times> (string \<times> string) list" where
  "handleHealth Format now = (200, [(''status'', ''ok''), (''time'', Format now)])"

definition handleVersion :: "string \<Rightarrow> string option \<Rightarrow> int \<times> (string \<times> string) list" where
  "handleVersion Version build =
     (200, (''version'', Version) # (case build of Some GoVersion \<Rightarrow> [(''go'', GoVersion)] | None \<Rightarrow> []))"

text \<open>An environment for the witnesses: a signature is the key followed by the payload.\<close>

definition sample_env :: "(string, string, (string \<times> string list) list) api_env" where
  "sample_env = \<lparr>b64_decode = Some,
     perms_unmarshal = (\<lambda>j. Some \<lparr>p_Exp = 100, p_Nbf = 0, p_Cmds = [''ls''], p_Ctx = j\<rparr>),
     sig_unmarshal = Some, key_verify = (\<lambda>k m s. s = k @ m), key_fingerprint = (\<lambda>k. k),
     keyResolver = Some (\<lambda>i. Some [''K'']), command_unmarshal = Inr,
     executor = Some (\<lambda>log u c as. (ExecDone ''done'' 0, (c, as) # log))\<rparr>"

definition sample_api_state :: "(string \<times> string list) list api_state" where
  "sample_api_state = \<lparr>h_db = sample_db, h_limiter = NewRateLimiter 60 10, h_exec = []\<rparr>"

definition sample_request :: http_request where
  "sample_request = \<lparr>rq_Authorization = ''Bearer usy0.ada.Kada'', rq_ContentType = '''', rq_Body = Some ''ls -a ''\<rparr>"

subsection \<open>Properties\<close>

text \<open>\<^verbatim>\<open>POST /exec\<close> always answers: in particular \<^verbatim>\<open>parts[0]\<close> of the split command is never
out of range, whatever the body and whatever the decoders return.\<close>

theorem exec_never_panics: "\<exists>resp. fst (handleExec env now r st) = Some resp"
  using exec_command_total [of env r]
  by (auto simp: handleExec_def Let_def split: prod.split sum.split) (metis fst_conv)+

text \<open>C6. The executor runs only for an authenticated request within its rate limit, once, with the
words of the request's command, and only with a command the token permits.\<close>

theorem exec_only_authorized:
  assumes "h_exec (snd (handleExec env now r st)) \<noteq> h_exec st"
  shows "\<exists>user perms fp d execute c name args.
    authenticate env now (rq_Authorization r) (h_db st) = (Inr (user, perms, fp), d) \<and>
    (fp \<noteq> '''' \<longrightarrow> fst (Allow now fp (h_limiter st))) \<and>
    executor env = Some execute \<and> readCommand env r = Inr c \<and> Fields c = name # args \<and>
    h_exec (snd (handleExec env now r st)) = snd (execute (h_exec st) user name args) \<and>
    (\<forall>p. perms = Some p \<and> p_Cmds p \<noteq> [] \<longrightarrow> name \<in> set (p_Cmds p))"
proof (cases "authenticate env now (rq_Authorization r) (h_db st)")
  case (Pair res d)
  show ?thesis
  proof (cases res)
    case (Inl e)
    with Pair assms show ?thesis by (simp add: handleExec_def)
  next
    case (Inr a)
    obtain user perms fp where a: "a = (user, perms, fp)" by (cases a)
    have ok: "fp \<noteq> '''' \<longrightarrow> fst (Allow now fp (h_limiter st))"
      using assms Pair Inr a by (auto simp: handleExec_def Let_def split: prod.splits if_splits)
    then have h: "h_exec (snd (handleExec env now r st)) = snd (exec_command env r user perms (h_exec st))"
      using Pair Inr a by (auto simp: handleExec_def Let_def split: prod.splits if_splits)
    with assms have "snd (exec_command env r user perms (h_exec st)) \<noteq> h_exec st" by simp
    then show ?thesis
    proof (rule exec_command_runs)
      fix execute c name args
      assume "executor env = Some execute" "readCommand env r = Inr c" "Fields c = name # args"
        "snd (exec_command env r user perms (h_exec st)) = snd (execute (h_exec st) user name args)"
        "\<And>p. perms = Some p \<Longrightarrow> p_Cmds p \<noteq> [] \<Longrightarrow> name \<in> set (p_Cmds p)"
      then show ?thesis using Pair Inr a ok h by fastforce
    qed
  qed
qed

theorem exec_only_authorized_witness:
  "h_exec (snd (handleExec sample_env second sample_request sample_api_state)) = [(''ls'', [''-a''])] \<and>
   (\<exists>user perms fp d. authenticate sample_env second (rq_Authorization sample_request)
      (h_db sample_api_state) = (Inr (user, perms, fp), d))"
proof
  show e: "h_exec (snd (handleExec sample_env second sample_request sample_api_state)) = [(''ls'', [''-a''])]"
    by code_simp
  have "h_exec sample_api_state = []" by (simp add: sample_api_state_def)
  with e have "h_exec (snd (handleExec sample_env second sample_request sample_api_state)) \<noteq> h_exec sample_api_state"
    by simp
  from exec_only_authorized [OF this] show "\<exists>user perms fp d. authenticate sample_env second
      (rq_Authorization sample_request) (h_db sample_api_state) = (Inr (user, perms, fp), d)"
    by blast
qed



text \<open>C37. A revoked API token stays refused at every later time and after any further operations,
unless one of them creates a token with the same id.\<close>

theorem revoked_token_refused:
  assumes "RevokeAPIToken k d = (Inr (), d1)"
    and "\<And>t u f x. (t, Tok (OpCreateAPIToken k u f x)) \<notin> set ops"
  shows "\<exists>e. authenticateShortToken env now (''usy1.'' @ k) (run_ops ops d1) = (Inl e, run_ops ops d1)"
  by (rule dead_token_rejected [OF token_dead_steps [OF RevokeAPIToken_dead [OF assms(1)]]])
     (rule assms(2))

theorem revoked_token_refused_witness:
  "\<exists>d1 e. RevokeAPIToken ''abc'' (run_ops [(0, Tok (OpCreateAPIToken ''abc'' 1 '''' ''ci''))] sample_db) = (Inr (), d1) \<and>
     authenticateShortToken sample_env second (''usy1.'' @ ''abc'') (run_ops [(0, Tok (OpTouchAPIToken ''abc''))] d1)
       = (Inl e, run_ops [(0, Tok (OpTouchAPIToken ''abc''))] d1)"
proof -
  let ?d = "run_ops [(0, Tok (OpCreateAPIToken ''abc'' 1 '''' ''ci''))] sample_db"
  have r: "RevokeAPIToken ''abc'' ?d = (Inr (), snd (RevokeAPIToken ''abc'' ?d))"
    by (rule Inr_unit_snd) code_simp
  have "\<exists>e. authenticateShortToken sample_env second (''usy1.'' @ ''abc'')
      (run_ops [(0, Tok (OpTouchAPIToken ''abc''))] (snd (RevokeAPIToken ''abc'' ?d)))
      = (Inl e, run_ops [(0, Tok (OpTouchAPIToken ''abc''))] (snd (RevokeAPIToken ''abc'' ?d)))"
    by (rule revoked_token_refused [OF r]) simp
  with r show ?thesis by blast
qed

end
