(* ===== verification/Admin_Panel.thy ===== *)
theory Admin_Panel
  imports Db_Frames Vm_Manager Go_Base64 Go_Format "HOL-Library.AList"
begin

section \<open>The admin panel\<close>

text \<open>
  \<^verbatim>\<open>internal/admin/admin.go\<close>: the sessions of the panel, the magic links that open them, and the
  pages. A request carries what net/http has parsed: the method, the decoded segments of the cleaned path
  (the last one empty for a trailing slash), cookies, query and form values. A page is the data handed to its
  template (of the owner of a VM the id and handle, which it shows); the HTML templates are not modelled.
\<close>

subsection \<open>Sessions\<close>

record admin_session =
  sn_UserID :: int
  sn_Handle :: string
  sn_ExpiresAt :: nanos

type_synonym session_store = "(string \<times> admin_session) list"

text \<open>\<open>random\<close> is the outcome of reading 32 random bytes.\<close>

definition session_Create ::
  "nanos \<Rightarrow> string + string \<Rightarrow> int \<Rightarrow> string \<Rightarrow> nanos \<Rightarrow> session_store \<Rightarrow> (string + string) \<times> session_store" where
  "session_Create now random userID handle ttl s =
     (case random of
        Inl e \<Rightarrow> (Inl (''generate session ID: '' @ e), s)
      | Inr b \<Rightarrow>
        let sid = hex_string b in
        (Inr sid, AList.update sid \<lparr>sn_UserID = userID, sn_Handle = handle, sn_ExpiresAt = now + ttl\<rparr> s))"

definition session_Get :: "nanos \<Rightarrow> string \<Rightarrow> session_store \<Rightarrow> admin_session option" where
  "session_Get now sid s =
     (case map_of s sid of
        None \<Rightarrow> None
      | Some sess \<Rightarrow> if now > sn_ExpiresAt sess then None else Some sess)"

definition session_Delete :: "string \<Rightarrow> session_store \<Rightarrow> session_store" where
  "session_Delete sid s = AList.delete sid s"

definition session_CleanExpired :: "nanos \<Rightarrow> session_store \<Rightarrow> session_store" where
  "session_CleanExpired now s = filter (\<lambda>(_, sess). \<not> now > sn_ExpiresAt sess) s"

subsection \<open>Requests and responses\<close>

record admin_request =
  rq_Method :: string
  rq_Path :: "string list"
  rq_Cookies :: "(string \<times> string) list"
  rq_Query :: "(string \<times> string) list"
  rq_Form :: "(string \<times> string) list option"   \<comment> \<open>\<^term>\<open>None\<close>: \<^verbatim>\<open>ParseForm\<close> fails\<close>

definition first_value :: "string \<Rightarrow> (string \<times> string) list \<Rightarrow> string" where
  "first_value k vs = (case map_of vs k of None \<Rightarrow> '''' | Some v \<Rightarrow> v)"

record DashboardStats =
  ds_TotalUsers :: int
  ds_TotalVMs :: int
  ds_RunningVMs :: int
  ds_StoppedVMs :: int
  ds_ErrorVMs :: int
  ds_TotalShares :: int
  ds_TotalAPITokens :: int
  ds_RecentUsers :: "user list"

record UserRow = user +
  ur_VMCount :: int
  ur_KeyCount :: int

record VMRow = vm +
  vr_OwnerHandle :: string

datatype admin_page =
    NoPage
  | ErrorText string
  | LoginPage string
  | DashboardPage admin_session DashboardStats string
  | UsersPage admin_session "UserRow list" string
  | UserPage admin_session user "vm list" "ssh_key list" "string list" string string string
  | VMsPage admin_session "VMRow list" string
  | VMPage admin_session vm "int \<times> string" "string list" "share list" string
  | NodesPage admin_session string
  | CssPage string

record admin_response =
  rs_Status :: int
  rs_Location :: "string option"
  rs_Cookie :: "(string \<times> int) option"   \<comment> \<open>value and \<^verbatim>\<open>MaxAge\<close> of the session cookie\<close>
  rs_Page :: admin_page

definition admin_error :: "string \<Rightarrow> int \<Rightarrow> admin_response" where
  "admin_error msg code = \<lparr>rs_Status = code, rs_Location = None, rs_Cookie = None, rs_Page = ErrorText msg\<rparr>"

definition see_other :: "string \<Rightarrow> admin_response" where
  "see_other loc = \<lparr>rs_Status = 303, rs_Location = Some loc, rs_Cookie = None, rs_Page = NoPage\<rparr>"

definition admin_render :: "admin_page \<Rightarrow> admin_response" where
  "admin_render p = \<lparr>rs_Status = 200, rs_Location = None, rs_Cookie = None, rs_Page = p\<rparr>"

record admin_panel =
  pn_sessions :: session_store
  pn_domain :: string
  pn_css :: "string option"   \<comment> \<open>\<^verbatim>\<open>style.css\<close> of the embedded files\<close>

text \<open>\<^verbatim>\<open>NewHandler\<close>: the configuration, the outcomes of parsing the templates and of opening
the static files.\<close>

definition NewHandler :: "string option \<Rightarrow> string option \<Rightarrow> string + string option \<Rightarrow> string + admin_panel" where
  "NewHandler cfg templates static =
     (let domain = (case cfg of None \<Rightarrow> '''' | Some d \<Rightarrow> d);
          domain = (if domain = '''' then ''ussy.host'' else domain) in
      case templates of
        Some e \<Rightarrow> Inl (''parse templates: '' @ e)
      | None \<Rightarrow>
        (case static of
           Inl e \<Rightarrow> Inl (''static sub-fs: '' @ e)
         | Inr css \<Rightarrow> Inr \<lparr>pn_sessions = [], pn_domain = domain, pn_css = css\<rparr>))"

definition sessionCookieName :: string where "sessionCookieName = ''ussy_admin_session''"
definition sessionTTL :: nanos where "sessionTTL = 24 * hour"

text \<open>The session of a request, or the redirect to the login page.\<close>

definition requireAuth :: "nanos \<Rightarrow> admin_request \<Rightarrow> admin_panel \<Rightarrow> admin_response + admin_session" where
  "requireAuth now rq pn =
     (case map_of (rq_Cookies rq) sessionCookieName of
        None \<Rightarrow> Inl (see_other ''/admin/login'')
      | Some sid \<Rightarrow>
        (case session_Get now sid (pn_sessions pn) of
           None \<Rightarrow> Inl ((see_other ''/admin/login'')\<lparr>rs_Cookie := Some ('''', -1)\<rparr>)
         | Some sess \<Rightarrow> Inr sess))"

subsection \<open>Signing in and out\<close>

definition panel_role :: "string \<Rightarrow> bool" where
  "panel_role level \<longleftrightarrow> level = ''operator'' \<or> level = ''admin''"

text \<open>The session of a user who may use the panel.\<close>

definition open_session :: "nanos \<Rightarrow> string + string \<Rightarrow> user \<Rightarrow> admin_panel \<Rightarrow> admin_response \<times> admin_panel" where
  "open_session now random user pn =
     (case session_Create now random (u_ID user) (u_Handle user) sessionTTL (pn_sessions pn) of
        (Inl _, s) \<Rightarrow> (admin_error ''internal error'' 500, pn\<lparr>pn_sessions := s\<rparr>)
      | (Inr sessionID, s) \<Rightarrow>
        ((see_other ''/admin/'')\<lparr>rs_Cookie := Some (sessionID, sessionTTL div second)\<rparr>, pn\<lparr>pn_sessions := s\<rparr>))"

definition handleLoginCallback ::
  "nanos \<Rightarrow> string + string \<Rightarrow> admin_request \<Rightarrow> admin_panel \<times> db \<Rightarrow> admin_response \<times> admin_panel \<times> db" where
  "handleLoginCallback now random rq s =
     (case s of (pn, d) \<Rightarrow>
        let token = first_value ''token'' (rq_Query rq) in
        if token = '''' then (see_other ''/admin/login?error=missing+token'', pn, d)
        else case ValidateMagicToken now token d of
          (Inl _, d) \<Rightarrow> (see_other ''/admin/login?error=invalid+or+expired+token'', pn, d)
        | (Inr user, d) \<Rightarrow>
          if \<not> panel_role (u_TrustLevel user) then (see_other ''/admin/login?error=insufficient+permissions'', pn, d)
          else (case open_session now random user pn of (r, pn) \<Rightarrow> (r, pn, d)))"

text \<open>The first running VM, else the most recent one.\<close>

definition landing_vm :: "vm list \<Rightarrow> vm option" where
  "landing_vm vs =
     (case filter (\<lambda>v. v_Status v = ''running'') vs of
        v # _ \<Rightarrow> Some v
      | [] \<Rightarrow> (case vs of [] \<Rightarrow> None | v # _ \<Rightarrow> Some v))"

definition HandleMagicLink ::
  "nanos \<Rightarrow> string + string \<Rightarrow> string \<Rightarrow> admin_panel \<times> db \<Rightarrow> admin_response \<times> admin_panel \<times> db" where
  "HandleMagicLink now random token s =
     (case s of (pn, d) \<Rightarrow>
        if token = '''' then (admin_error ''missing token'' 400, pn, d)
        else case ValidateMagicToken now token d of
          (Inl _, d) \<Rightarrow> (see_other ''/admin/login?error=invalid+or+expired+token'', pn, d)
        | (Inr user, d) \<Rightarrow>
          if panel_role (u_TrustLevel user) then (case open_session now random user pn of (r, pn) \<Rightarrow> (r, pn, d))
          else (case VMsByUser (u_ID user) d of
            Inl _ \<Rightarrow> (see_other ''/'', pn, d)
          | Inr vs \<Rightarrow>
            (case landing_vm vs of
               None \<Rightarrow> (see_other ''/'', pn, d)
             | Some v \<Rightarrow> (see_other (''https://'' @ v_Name v @ ''.'' @ pn_domain pn), pn, d))))"

definition handleLogout :: "admin_request \<Rightarrow> admin_panel \<Rightarrow> admin_response \<times> admin_panel" where
  "handleLogout rq pn =
     ((see_other ''/admin/login'')\<lparr>rs_Cookie := Some ('''', -1)\<rparr>,
      case map_of (rq_Cookies rq) sessionCookieName of
        None \<Rightarrow> pn
      | Some sid \<Rightarrow> pn\<lparr>pn_sessions := session_Delete sid (pn_sessions pn)\<rparr>)"

subsection \<open>Queries of the panel\<close>

definition listRecentUsers :: "nat \<Rightarrow> db \<Rightarrow> db_error + user list" where
  "listRecentUsers limit = ReadTx (\<lambda>t. Inr (take limit (order_by_desc u_CreatedAt (map user.truncate (users t)))))"

definition count_rows :: "('r \<Rightarrow> bool) \<Rightarrow> 'r list \<Rightarrow> int" where
  "count_rows p rows = int (length (sql_select p rows))"

text \<open>The counts, and the five most recent users; failing to list these is only logged.\<close>

definition getDashboardStats :: "db \<Rightarrow> db_error + DashboardStats" where
  "getDashboardStats d =
     (let recent = (case listRecentUsers 5 d of Inl _ \<Rightarrow> [] | Inr us \<Rightarrow> us) in
      ReadTx (\<lambda>t. Inr
        \<lparr>ds_TotalUsers = count_rows (\<lambda>_. True) (users t), ds_TotalVMs = count_rows (\<lambda>_. True) (vms t),
         ds_RunningVMs = count_rows (\<lambda>v. v_Status v = ''running'') (vms t),
         ds_StoppedVMs = count_rows (\<lambda>v. v_Status v = ''stopped'') (vms t),
         ds_ErrorVMs = count_rows (\<lambda>v. v_Status v = ''error'') (vms t),
         ds_TotalShares = count_rows (\<lambda>_. True) (shares t),
         ds_TotalAPITokens = count_rows (\<lambda>a. \<not> at_Revoked a) (api_tokens t),
         ds_RecentUsers = recent\<rparr>) d)"

definition listUsers :: "db \<Rightarrow> db_error + UserRow list" where
  "listUsers = ReadTx (\<lambda>t. Inr (map (\<lambda>u. user.extend (user.truncate u)
       (UserRow.fields (count_rows (\<lambda>v. v_UserID v = u_ID u) (vms t)) (count_rows (\<lambda>k. k_UserID k = u_ID u) (ssh_keys t))))
     (order_by_desc u_CreatedAt (users t))))"

definition owner_handle :: "tables \<Rightarrow> int \<Rightarrow> string" where
  "owner_handle t userID =
     (case sql_select (\<lambda>u. u_ID u = userID) (users t) of [] \<Rightarrow> ''unknown'' | u # _ \<Rightarrow> u_Handle u)"

definition listAllVMs :: "db \<Rightarrow> db_error + VMRow list" where
  "listAllVMs = ReadTx (\<lambda>t. Inr (map (\<lambda>v. vm.extend v (VMRow.fields (owner_handle t (v_UserID v))))
     (order_by_desc v_CreatedAt (vms t))))"

definition getVMByID :: "int \<Rightarrow> db \<Rightarrow> db_error + vm" where
  "getVMByID i = ReadTx (\<lambda>t. query_row (sql_select (\<lambda>v. v_ID v = i) (vms t)))"

subsection \<open>Pages\<close>

definition or_empty :: "'e + 'a list \<Rightarrow> 'a list" where
  "or_empty r = (case r of Inl _ \<Rightarrow> [] | Inr xs \<Rightarrow> xs)"

definition handleDashboard :: "admin_session \<Rightarrow> admin_panel \<Rightarrow> db \<Rightarrow> admin_response" where
  "handleDashboard sess pn d =
     (case getDashboardStats d of
        Inl _ \<Rightarrow> admin_error ''internal error'' 500
      | Inr stats \<Rightarrow> admin_render (DashboardPage sess stats (pn_domain pn)))"

definition handleUsers :: "admin_session \<Rightarrow> admin_panel \<Rightarrow> db \<Rightarrow> admin_response" where
  "handleUsers sess pn d =
     (case listUsers d of
        Inl _ \<Rightarrow> admin_error ''internal error'' 500
      | Inr us \<Rightarrow> admin_render (UsersPage sess us (pn_domain pn)))"

definition handleUserDetail :: "admin_session \<Rightarrow> string \<Rightarrow> admin_request \<Rightarrow> admin_panel \<Rightarrow> db \<Rightarrow> admin_response" where
  "handleUserDetail sess idStr rq pn d =
     (case Atoi idStr of
        None \<Rightarrow> admin_error ''invalid user ID'' 400
      | Some i \<Rightarrow>
        (case UserByID i d of
           Inl _ \<Rightarrow> admin_error ''user not found'' 404
         | Inr user \<Rightarrow>
           admin_render (UserPage sess user (or_empty (VMsByUser i d)) (or_empty (SSHKeysByUser i d))
             [''newbie'', ''citizen'', ''operator'', ''admin''] (pn_domain pn)
             (first_value ''success'' (rq_Query rq)) (first_value ''error'' (rq_Query rq)))))"

text \<open>\<^verbatim>\<open>FormValue\<close>: a form value, else one of the query. The audit entry may fail.\<close>

definition form_value :: "string \<Rightarrow> (string \<times> string) list \<Rightarrow> admin_request \<Rightarrow> string" where
  "form_value k form rq = first_value k (form @ rq_Query rq)"

definition handleSetTrustLevel ::
  "nanos \<Rightarrow> admin_session \<Rightarrow> string \<Rightarrow> admin_request \<Rightarrow> db \<Rightarrow> admin_response \<times> db" where
  "handleSetTrustLevel now sess idStr rq d =
     (case Atoi idStr of
        None \<Rightarrow> (admin_error ''invalid user ID'' 400, d)
      | Some i \<Rightarrow>
        (case rq_Form rq of
           None \<Rightarrow> (admin_error ''invalid form'' 400, d)
         | Some form \<Rightarrow>
           let newLevel = form_value ''trust_level'' form rq; page = ''/admin/users/'' @ dec i in
           if \<not> list_ex (\<lambda>l. l = newLevel) [''newbie'', ''citizen'', ''operator'', ''admin'']
           then (see_other (page @ ''?error=invalid+trust+level''), d)
           else (case SetUserTrustLevel now i newLevel d of
             (Inl _, d) \<Rightarrow> (see_other (page @ ''?error=failed+to+update''), d)
           | (Inr _, d) \<Rightarrow>
             (see_other (page @ ''?success=trust+level+updated''),
              snd (CreateAuditLog now (Some (sn_UserID sess)) ''admin.user.trust_level.set'' ''user'' (Some (dec i))
                (Some (''trust_level='' @ newLevel)) d)))))"

definition handleVMs :: "admin_session \<Rightarrow> admin_panel \<Rightarrow> db \<Rightarrow> admin_response" where
  "handleVMs sess pn d =
     (case listAllVMs d of
        Inl _ \<Rightarrow> admin_error ''internal error'' 500
      | Inr vs \<Rightarrow> admin_render (VMsPage sess vs (pn_domain pn)))"

definition handleVMDetail :: "admin_session \<Rightarrow> string \<Rightarrow> admin_panel \<Rightarrow> db \<Rightarrow> admin_response" where
  "handleVMDetail sess idStr pn d =
     (case Atoi idStr of
        None \<Rightarrow> admin_error ''invalid VM ID'' 400
      | Some i \<Rightarrow>
        (case getVMByID i d of
           Inl _ \<Rightarrow> admin_error ''VM not found'' 404
         | Inr v \<Rightarrow>
           admin_render (VMPage sess v (case UserByID (v_UserID v) d of Inl _ \<Rightarrow> (0, ''unknown'') | Inr u \<Rightarrow> (u_ID u, u_Handle u))
             (or_empty (TagsByVM i d)) (or_empty (SharesByVM i d)) (pn_domain pn))))"

definition handleNodes :: "admin_session \<Rightarrow> admin_panel \<Rightarrow> admin_response" where
  "handleNodes sess pn = admin_render (NodesPage sess (pn_domain pn))"

definition handleCSS :: "admin_panel \<Rightarrow> admin_response" where
  "handleCSS pn =
     (case pn_css pn of None \<Rightarrow> admin_error ''404 page not found'' 404 | Some data \<Rightarrow> admin_render (CssPage data))"

subsection \<open>Routing\<close>

text \<open>
  The patterns of \<^verbatim>\<open>Routes\<close>. A pattern for GET matches HEAD too; \<^verbatim>\<open>/admin/\<close> matches every
  path below it; the most specific pattern wins; a wildcard does not match an empty segment; a path without a
  slash that a pattern has with one is redirected (its query is left out here); a path that only other methods match is answered 405.
\<close>

datatype admin_route =
    Dashboard | LoginForm | LoginCallback | Logout | UserList | UserDetail string | SetTrust string
  | VMList | VMDetail string | NodeList | Stylesheet | MagicLink string | AddSlash | NotAllowed | NotFound

definition get_route :: "string list \<Rightarrow> admin_route" where
  "get_route p =
     (case p of
        [a, b] \<Rightarrow>
          if a \<noteq> ''admin'' then NotFound
          else if b = ''login'' then LoginForm else if b = ''users'' then UserList else if b = ''vms'' then VMList
          else if b = ''nodes'' then NodeList else Dashboard
      | [a, b, c] \<Rightarrow>
          if a = ''__auth'' \<and> b = ''magic'' \<and> c \<noteq> '''' then MagicLink c
          else if a \<noteq> ''admin'' then NotFound
          else if b = ''login'' \<and> c = ''callback'' then LoginCallback
          else if b = ''users'' \<and> c \<noteq> '''' then UserDetail c
          else if b = ''vms'' \<and> c \<noteq> '''' then VMDetail c
          else if b = ''static'' \<and> c = ''style.css'' then Stylesheet
          else Dashboard
      | [a] \<Rightarrow> if a = ''admin'' then AddSlash else NotFound
      | a # _ \<Rightarrow> if a = ''admin'' then Dashboard else NotFound
      | [] \<Rightarrow> NotFound)"

definition post_route :: "string list \<Rightarrow> admin_route option" where
  "post_route p =
     (case p of
        [a, b] \<Rightarrow> if a = ''admin'' \<and> b = ''logout'' then Some Logout else None
      | [a, b, c, e] \<Rightarrow> if a = ''admin'' \<and> b = ''users'' \<and> c \<noteq> '''' \<and> e = ''trust'' then Some (SetTrust c) else None
      | _ \<Rightarrow> None)"

definition admin_route_of :: "string \<Rightarrow> string list \<Rightarrow> admin_route" where
  "admin_route_of meth p =
     (if meth = ''GET'' \<or> meth = ''HEAD'' then get_route p
      else case (if meth = ''POST'' then post_route p else None) of
        Some r \<Rightarrow> r
      | None \<Rightarrow> if get_route p = NotFound \<and> post_route p = None then NotFound else NotAllowed)"

definition admin_serve ::
  "nanos \<Rightarrow> string + string \<Rightarrow> admin_request \<Rightarrow> admin_panel \<times> db \<Rightarrow> admin_response \<times> admin_panel \<times> db" where
  "admin_serve now random rq s =
     (case s of (pn, d) \<Rightarrow>
        let page = (\<lambda>h. case requireAuth now rq pn of Inl r \<Rightarrow> (r, pn, d) | Inr sess \<Rightarrow> (h sess, pn, d)) in
        case admin_route_of (rq_Method rq) (rq_Path rq) of
          Dashboard \<Rightarrow> page (\<lambda>sess. handleDashboard sess pn d)
        | LoginForm \<Rightarrow> (admin_render (LoginPage (first_value ''error'' (rq_Query rq))), pn, d)
        | LoginCallback \<Rightarrow> handleLoginCallback now random rq (pn, d)
        | Logout \<Rightarrow> (case handleLogout rq pn of (r, pn) \<Rightarrow> (r, pn, d))
        | UserList \<Rightarrow> page (\<lambda>sess. handleUsers sess pn d)
        | UserDetail i \<Rightarrow> page (\<lambda>sess. handleUserDetail sess i rq pn d)
        | SetTrust i \<Rightarrow>
            (case requireAuth now rq pn of
               Inl r \<Rightarrow> (r, pn, d)
             | Inr sess \<Rightarrow> (case handleSetTrustLevel now sess i rq d of (r, d) \<Rightarrow> (r, pn, d)))
        | VMList \<Rightarrow> page (\<lambda>sess. handleVMs sess pn d)
        | VMDetail i \<Rightarrow> page (\<lambda>sess. handleVMDetail sess i pn d)
        | NodeList \<Rightarrow> page (\<lambda>sess. handleNodes sess pn)
        | Stylesheet \<Rightarrow> (handleCSS pn, pn, d)
        | MagicLink token \<Rightarrow> HandleMagicLink now random token (pn, d)
        | AddSlash \<Rightarrow> ((see_other ''/admin/'')\<lparr>rs_Status := 301\<rparr>, pn, d)
        | NotAllowed \<Rightarrow> (admin_error ''Method Not Allowed'' 405, pn, d)
        | NotFound \<Rightarrow> (admin_error ''404 page not found'' 404, pn, d))"

subsection \<open>Helpers of the templates\<close>

definition timeAgo :: "nanos \<Rightarrow> sqlite_time \<Rightarrow> string" where
  "timeAgo now st =
     (case st of
        None \<Rightarrow> ''never''
      | Some t \<Rightarrow>
        let d = now - t * second in
        if d < minute then ''just now''
        else if d < hour then
          (if d div minute = 1 then ''1 minute ago'' else dec (d div minute) @ '' minutes ago'')
        else if d < 24 * hour then
          (if d div hour = 1 then ''1 hour ago'' else dec (d div hour) @ '' hours ago'')
        else if d < 30 * 24 * hour then
          (if d div hour div 24 = 1 then ''1 day ago'' else dec (d div hour div 24) @ '' days ago'')
        else format_date t)"

definition trustBadge :: "string \<Rightarrow> string" where
  "trustBadge level =
     (if level = ''admin'' then ''badge-admin'' else if level = ''operator'' then ''badge-operator''
      else if level = ''citizen'' then ''badge-citizen'' else ''badge-newbie'')"

definition statusBadge :: "string \<Rightarrow> string" where
  "statusBadge status =
     (if status = ''running'' then ''badge-running'' else if status = ''stopped'' then ''badge-stopped''
      else if status = ''creating'' then ''badge-creating'' else if status = ''error'' then ''badge-error''
      else ''badge-unknown'')"

definition tmpl_truncate :: "string \<Rightarrow> nat \<Rightarrow> string" where
  "tmpl_truncate s n = (if length s \<le> n then s else take n s @ ''...'')"

end
