(* ===== verification/Smtp_Server.thy ===== *)
theory Smtp_Server
  imports Rate_Limits Go_Files
begin

section \<open>The inbound SMTP server\<close>

text \<open>
  \<^verbatim>\<open>internal/gateway/email.go\<close>: the session commands of one connection and the delivery to a
  VM's Maildir. A connection is the list of the lines its client sends, each with the time it is read;
  reading past the last line is the read error that ends the session. The server's state is the table
  of hourly counters (\<^theory_text>\<open>checkVMRate\<close> of the rate limiters), the file system and the number of
  file names drawn so far. Which calls of package \<^verbatim>\<open>os\<close> fail, and the random part of a file name,
  are parameters; a failed call leaves the file system unchanged. The five-minute deadline of the
  connection is a read error, so it is a shorter list of lines.
\<close>

record SMTPConfig =
  sc_Domain :: string
  sc_RootfsDir :: string
  sc_MaxUnread :: int
  sc_RatePerHourPerVM :: int
  sc_Hostname :: string

record smtp_env =
  se_cfg :: SMTPConfig
  se_os_error :: "string \<Rightarrow> string \<Rightarrow> string option"   \<comment> \<open>by system call and path\<close>
  se_rand_hex :: "nat \<Rightarrow> string"

record smtp_server =
  sm_rates :: "string \<Rightarrow> emailRateBucket option"
  sm_files :: files
  sm_drawn :: nat

record smtpSession =
  ss_heloName :: string
  ss_mailFrom :: string
  ss_rcptTo :: "string list"
  ss_vmName :: string

definition NewSMTPServer :: "SMTPConfig \<Rightarrow> SMTPConfig" where
  "NewSMTPServer cfg =
     cfg\<lparr>sc_MaxUnread := (if sc_MaxUnread cfg \<le> 0 then 1000 else sc_MaxUnread cfg),
         sc_RatePerHourPerVM := norm_rate 100 (sc_RatePerHourPerVM cfg),
         sc_Hostname := (if sc_Hostname cfg = '''' then ''localhost'' else sc_Hostname cfg)\<rparr>"

definition CRLF :: string where "CRLF = [CHR 13, CHR 10]"

text \<open>\<^verbatim>\<open>readLine\<close>, the bytes before the line feed given.\<close>

definition readLine :: "string \<Rightarrow> string" where
  "readLine raw = TrimRight (\<lambda>c. c = CHR 13 \<or> c = CHR 10) raw"

definition parseSMTPCommand :: "string \<Rightarrow> string \<times> string" where
  "parseSMTPCommand line =
     (let parts = SplitN2 (TrimSpace line) CHR '' ''
      in (ToUpper (parts ! 0), if length parts > 1 then parts ! 1 else ''''))"

definition extractAngleBracketAddr :: "string \<Rightarrow> string" where
  "extractAngleBracketAddr s =
     (let s = TrimSpace s;
          s = (if HasPrefix s ''<'' \<and> HasSuffix s ''>'' then butlast (tl s) else s)
      in TrimSpace s)"

definition extractVMFromAddress :: "SMTPConfig \<Rightarrow> string \<Rightarrow> string option" where
  "extractVMFromAddress cfg addr =
     (let parts = SplitN2 addr CHR ''@'' in
      if length parts \<noteq> 2 then None
      else
        let host = ToLower (parts ! 1); suff = ''.'' @ ToLower (sc_Domain cfg) in
        if \<not> HasSuffix host suff then None
        else
          let vmName = TrimSuffix host suff in
          if vmName = '''' \<or> Contains vmName ''.'' then None else Some vmName)"

definition handleHELO :: "SMTPConfig \<Rightarrow> string \<Rightarrow> smtpSession \<Rightarrow> string list \<times> smtpSession" where
  "handleHELO cfg arg s =
     ([''250 '' @ sc_Hostname cfg @ '' Hello '' @ arg], s\<lparr>ss_heloName := arg\<rparr>)"

definition handleEHLO :: "SMTPConfig \<Rightarrow> string \<Rightarrow> smtpSession \<Rightarrow> string list \<times> smtpSession" where
  "handleEHLO cfg arg s =
     ([''250-'' @ sc_Hostname cfg @ '' Hello '' @ arg, ''250-SIZE 10485760'', ''250-8BITMIME'', ''250 OK''],
      s\<lparr>ss_heloName := arg\<rparr>)"

definition handleMAIL :: "string \<Rightarrow> smtpSession \<Rightarrow> string list \<times> smtpSession" where
  "handleMAIL arg s =
     (if \<not> HasPrefix (ToUpper arg) ''FROM:'' then ([''501 Syntax: MAIL FROM:<address>''], s)
      else ([''250 OK''], s\<lparr>ss_mailFrom := extractAngleBracketAddr (drop 5 arg), ss_rcptTo := [], ss_vmName := ''''\<rparr>))"

definition handleRCPT :: "SMTPConfig \<Rightarrow> string \<Rightarrow> smtpSession \<Rightarrow> string list \<times> smtpSession" where
  "handleRCPT cfg arg s =
     (if ss_mailFrom s = '''' then ([''503 Need MAIL command first''], s)
      else if \<not> HasPrefix (ToUpper arg) ''TO:'' then ([''501 Syntax: RCPT TO:<address>''], s)
      else
        let addr = extractAngleBracketAddr (drop 3 arg) in
        if addr = '''' then ([''501 Syntax: RCPT TO:<address>''], s)
        else case extractVMFromAddress cfg addr of
          None \<Rightarrow> ([''550 No such user - we only accept mail for *@<vm>.'' @ sc_Domain cfg], s)
        | Some vmName \<Rightarrow>
          ([''250 OK''], s\<lparr>ss_vmName := (if ss_vmName s = '''' then vmName else ss_vmName s),
                           ss_rcptTo := ss_rcptTo s @ [addr]\<rparr>))"

definition handleRSET :: "smtpSession \<Rightarrow> string list \<times> smtpSession" where
  "handleRSET s = ([''250 OK''], s\<lparr>ss_mailFrom := '''', ss_rcptTo := [], ss_vmName := ''''\<rparr>)"

subsection \<open>Delivery\<close>

definition maildir :: "SMTPConfig \<Rightarrow> string \<Rightarrow> string \<Rightarrow> string" where
  "maildir cfg vmName sub = Join [sc_RootfsDir cfg, vmName, ''home'', ''ussycode'', ''Maildir'', sub]"

definition maildir_file :: "SMTPConfig \<Rightarrow> string \<Rightarrow> string \<Rightarrow> string \<Rightarrow> string" where
  "maildir_file cfg vmName sub filename = Join [maildir cfg vmName sub, filename]"

definition generateMaildirFilename :: "smtp_env \<Rightarrow> nanos \<Rightarrow> nat \<Rightarrow> string" where
  "generateMaildirFilename env now k = dec now @ ''.'' @ se_rand_hex env k @ ''.ussyco.de''"

text \<open>The envelope headers and the body.\<close>

definition maildir_message :: "string \<Rightarrow> string \<Rightarrow> string list \<Rightarrow> string \<Rightarrow> string" where
  "maildir_message vmName from rcptTo body =
     ''Return-Path: <'' @ from @ ''>'' @ CRLF @
     ''Delivered-To: '' @ Join_strings rcptTo '', '' @ CRLF @
     ''X-Ussycode-VM: '' @ vmName @ CRLF @ body"

definition countFilesInDir :: "smtp_env \<Rightarrow> string \<Rightarrow> files \<Rightarrow> string + int" where
  "countFilesInDir env dir fs =
     (case se_os_error env ''readdir'' dir of Some e \<Rightarrow> Inl e | None \<Rightarrow> Inr (int (count_in_dir dir fs)))"

fun mkdir_all :: "smtp_env \<Rightarrow> string \<Rightarrow> string list \<Rightarrow> string option" where
  "mkdir_all env vmName [] = None"
| "mkdir_all env vmName (sub # subs) =
     (case se_os_error env ''mkdir'' (maildir (se_cfg env) vmName sub) of
        Some e \<Rightarrow> Some (''create maildir '' @ sub @ '': '' @ e)
      | None \<Rightarrow> mkdir_all env vmName subs)"

text \<open>Written to \<^verbatim>\<open>tmp\<close>, then renamed into \<^verbatim>\<open>new\<close>; a failed rename removes the file.\<close>

definition write_and_rename :: "smtp_env \<Rightarrow> string \<Rightarrow> string \<Rightarrow> string \<Rightarrow> files \<Rightarrow> (string + unit) \<times> files" where
  "write_and_rename env tmpPath newPath msg fs =
     (case se_os_error env ''write'' tmpPath of
        Some e \<Rightarrow> (Inl (''write tmp: '' @ e), fs)
      | None \<Rightarrow>
        let fs = AList.update tmpPath msg fs in
        (case se_os_error env ''rename'' newPath of
           Some e \<Rightarrow> (Inl (''rename to new: '' @ e), AList.delete tmpPath fs)
         | None \<Rightarrow> (Inr (), AList.update newPath msg (AList.delete tmpPath fs))))"

definition deliverToMaildir ::
  "smtp_env \<Rightarrow> nanos \<Rightarrow> string \<Rightarrow> string \<Rightarrow> string list \<Rightarrow> string \<Rightarrow> smtp_server \<Rightarrow>
   (string + unit) \<times> smtp_server" where
  "deliverToMaildir env now vmName from rcptTo body srv =
     (let cfg = se_cfg env;
          (allowed, rates) = checkVMRate (sc_RatePerHourPerVM cfg) now vmName (sm_rates srv);
          srv = srv\<lparr>sm_rates := rates\<rparr>
      in if \<not> allowed then
        (Inl (''rate limit exceeded for VM '' @ vmName @ '' (max '' @ dec (sc_RatePerHourPerVM cfg) @ ''/hour)''), srv)
      else
        case countFilesInDir env (maildir cfg vmName ''new'') (sm_files srv) of
          Inl e \<Rightarrow> (Inl (''check unread: '' @ e), srv)
        | Inr unreadCount \<Rightarrow>
          if unreadCount \<ge> sc_MaxUnread cfg then
            (Inl (''mailbox full for VM '' @ vmName @ '' ('' @ dec unreadCount @ '' unread, max '' @
                  dec (sc_MaxUnread cfg) @ '')''), srv)
          else case mkdir_all env vmName [''new'', ''cur'', ''tmp''] of
            Some e \<Rightarrow> (Inl e, srv)
          | None \<Rightarrow>
            let filename = generateMaildirFilename env now (sm_drawn srv);
                srv = srv\<lparr>sm_drawn := sm_drawn srv + 1\<rparr>;
                (res, fs) = write_and_rename env (maildir_file cfg vmName ''tmp'' filename)
                  (maildir_file cfg vmName ''new'' filename)
                  (maildir_message vmName from rcptTo body) (sm_files srv)
            in (res, srv\<lparr>sm_files := fs\<rparr>))"

subsection \<open>Connections\<close>

text \<open>The body up to the line with a single dot, with the time that line is read and the lines after it.\<close>

fun read_data :: "(nanos \<times> string) list \<Rightarrow> string \<Rightarrow> (nanos \<times> string \<times> (nanos \<times> string) list) option" where
  "read_data [] body = None"
| "read_data ((t, raw) # input) body =
     (let line = readLine raw in
      if line = ''.'' then Some (t, body, input)
      else read_data input (body @ (if HasPrefix line ''..'' then tl line else line) @ CRLF))"

definition handleDATA ::
  "smtp_env \<Rightarrow> (nanos \<times> string) list \<Rightarrow> smtpSession \<Rightarrow> smtp_server \<Rightarrow>
   string list \<times> smtp_server \<times> (nanos \<times> string) list" where
  "handleDATA env input s srv =
     (if ss_rcptTo s = [] then ([''503 Need RCPT command first''], srv, input)
      else
        let start = ''354 Start mail input; end with <CRLF>.<CRLF>'' in
        case read_data input '''' of
          None \<Rightarrow> ([start], srv, [])
        | Some (now, body, rest) \<Rightarrow>
          (case deliverToMaildir env now (ss_vmName s) (ss_mailFrom s) (ss_rcptTo s) body srv of
             (Inl err, srv) \<Rightarrow> ([start, ''452 '' @ err], srv, rest)
           | (Inr _, srv) \<Rightarrow> ([start, ''250 OK: message delivered''], srv, rest)))"

text \<open>The commands other than \<^verbatim>\<open>DATA\<close> and \<^verbatim>\<open>QUIT\<close>.\<close>

definition session_command :: "SMTPConfig \<Rightarrow> string \<Rightarrow> string \<Rightarrow> smtpSession \<Rightarrow> string list \<times> smtpSession" where
  "session_command cfg cmd arg s =
     (if cmd = ''HELO'' then handleHELO cfg arg s
      else if cmd = ''EHLO'' then handleEHLO cfg arg s
      else if cmd = ''MAIL'' then handleMAIL arg s
      else if cmd = ''RCPT'' then handleRCPT cfg arg s
      else if cmd = ''RSET'' then handleRSET s
      else if cmd = ''NOOP'' then ([''250 OK''], s)
      else ([''502 Command not recognized''], s))"

lemma read_data_shorter: "read_data input body = Some (t, b, rest) \<Longrightarrow> length rest < length input"
  by (induction input body rule: read_data.induct) (auto simp: Let_def split: if_split_asm)

lemma handleDATA_shorter: "handleDATA env input s srv = (out, srv', rest) \<Longrightarrow> length rest \<le> length input"
  by (auto simp: handleDATA_def Let_def dest: read_data_shorter split: if_splits option.splits prod.splits sum.splits)

function session_loop ::
  "smtp_env \<Rightarrow> (nanos \<times> string) list \<Rightarrow> smtpSession \<Rightarrow> smtp_server \<Rightarrow> string list \<times> smtp_server" where
  "session_loop env [] s srv = ([], srv)"
| "session_loop env ((t, raw) # input) s srv =
     (let (cmd, arg) = parseSMTPCommand (readLine raw) in
      if cmd = ''QUIT'' then ([''221 Bye''], srv)
      else if cmd = ''DATA'' then
        let (out, srv, rest) = handleDATA env input s srv;
            (out', srv) = session_loop env rest s srv
        in (out @ out', srv)
      else
        let (out, s) = session_command (se_cfg env) cmd arg s;
            (out', srv) = session_loop env input s srv
        in (out @ out', srv))"
  by pat_completeness auto
termination
  by (relation "measure (\<lambda>(_, input, _). length input)") (auto dest: handleDATA_shorter [OF sym])

definition handleConn :: "smtp_env \<Rightarrow> (nanos \<times> string) list \<Rightarrow> smtp_server \<Rightarrow> string list \<times> smtp_server" where
  "handleConn env input srv =
     (let greeting = ''220 '' @ sc_Hostname (se_cfg env) @ '' ESMTP ussycode'';
          (out, srv) = session_loop env input
            \<lparr>ss_heloName = '''', ss_mailFrom = '''', ss_rcptTo = [], ss_vmName = ''''\<rparr> srv
      in (greeting # out, srv))"

subsection \<open>Lemmas\<close>

lemma extractVMFromAddress_Some:
  "extractVMFromAddress cfg addr = Some vm \<Longrightarrow> vm \<noteq> '''' \<and> CHR ''.'' \<notin> set vm"
  by (auto simp: extractVMFromAddress_def Let_def Contains_char split: if_splits)

text \<open>Sessions that can deliver: every recipient is in the domain, the first one names the VM.\<close>

definition sess_ok :: "SMTPConfig \<Rightarrow> smtpSession \<Rightarrow> bool" where
  "sess_ok cfg s \<longleftrightarrow>
     (ss_rcptTo s = [] \<longleftrightarrow> ss_vmName s = '''') \<and> (ss_rcptTo s \<noteq> [] \<longrightarrow> ss_mailFrom s \<noteq> '''') \<and>
     (\<forall>a \<in> set (ss_rcptTo s). extractVMFromAddress cfg a \<noteq> None) \<and>
     (ss_rcptTo s \<noteq> [] \<longrightarrow> extractVMFromAddress cfg (hd (ss_rcptTo s)) = Some (ss_vmName s))"

lemma sess_ok_fresh: "ss_rcptTo s = [] \<Longrightarrow> ss_vmName s = '''' \<Longrightarrow> sess_ok cfg s"
  by (simp add: sess_ok_def)

lemma handleRCPT_ok: "sess_ok cfg s \<Longrightarrow> sess_ok cfg (snd (handleRCPT cfg arg s))"
proof -
  assume s: "sess_ok cfg s"
  have "sess_ok cfg (s\<lparr>ss_vmName := (if ss_vmName s = '''' then vm else ss_vmName s), ss_rcptTo := ss_rcptTo s @ [a]\<rparr>)"
    if vm: "extractVMFromAddress cfg a = Some vm" and m: "ss_mailFrom s \<noteq> ''''" for a vm
    using s vm m extractVMFromAddress_Some [OF vm] by (cases "ss_rcptTo s = []") (simp_all add: sess_ok_def hd_append)
  with s show ?thesis by (simp add: handleRCPT_def Let_def split: option.split)
qed

lemma session_command_ok: "sess_ok cfg s \<Longrightarrow> sess_ok cfg (snd (session_command cfg cmd arg s))"
proof -
  assume s: "sess_ok cfg s"
  then have "sess_ok cfg (snd (handleHELO cfg arg s))" "sess_ok cfg (snd (handleEHLO cfg arg s))"
    by (simp_all add: handleHELO_def handleEHLO_def sess_ok_def)
  moreover have "sess_ok cfg (snd (handleMAIL arg s))" "sess_ok cfg (snd (handleRSET s))"
    using s by (simp_all add: handleMAIL_def handleRSET_def sess_ok_fresh)
  ultimately show ?thesis using s by (simp add: session_command_def handleRCPT_ok)
qed

text \<open>What every delivery of a session preserves, a whole connection preserves.\<close>

lemma session_loop_invariant:
  assumes "sess_ok (se_cfg env) s" "P srv"
    and "\<And>s input srv. sess_ok (se_cfg env) s \<Longrightarrow> P srv \<Longrightarrow> P (fst (snd (handleDATA env input s srv)))"
  shows "P (snd (session_loop env input s srv))"
  using assms
proof (induction env input s srv rule: session_loop.induct)
  case (2 env t raw input s srv)
  obtain cmd arg where p: "parseSMTPCommand (readLine raw) = (cmd, arg)" by fastforce
  obtain out srv1 rest where h: "handleDATA env input s srv = (out, srv1, rest)" by (metis prod_cases3)
  obtain out2 s2 where c: "session_command (se_cfg env) cmd arg s = (out2, s2)" by fastforce
  show ?case
  proof (cases "cmd = ''QUIT''")
    case False
    show ?thesis
    proof (cases "cmd = ''DATA''")
      case True
      have "P srv1" using 2(5) [OF 2(3,4), of input] h by simp
      then show ?thesis
        using 2(1) [OF p [symmetric] refl False True h [symmetric] refl refl 2(3) \<open>P srv1\<close> 2(5)] p False True h
        by (simp add: Let_def case_prod_beta)
    next
      case no_data: False
      have "sess_ok (se_cfg env) s2" using session_command_ok [OF 2(3)] c by (metis snd_conv)
      then show ?thesis
        using 2(2) [OF p [symmetric] refl False no_data c [symmetric] refl \<open>sess_ok (se_cfg env) s2\<close> 2(4) 2(5)] p False no_data c
        by (simp add: Let_def case_prod_beta)
    qed
  qed (use 2 p in simp)
qed simp

lemma handleConn_invariant:
  assumes "P srv"
    and "\<And>s input srv. sess_ok (se_cfg env) s \<Longrightarrow> P srv \<Longrightarrow> P (fst (snd (handleDATA env input s srv)))"
  shows "P (snd (handleConn env input srv))"
  using session_loop_invariant [where P = P, OF _ assms, of
      "\<lparr>ss_heloName = '''', ss_mailFrom = '''', ss_rcptTo = [], ss_vmName = ''''\<rparr>" input]
  by (simp add: handleConn_def sess_ok_def case_prod_beta)

text \<open>A \<^verbatim>\<open>DATA\<close> command either leaves the files alone or goes through \<open>write_and_rename\<close>,
after the mailbox was found below its limit.\<close>

lemma handleDATA_files:
  obtains (same) "sm_files (fst (snd (handleDATA env input s srv))) = sm_files srv"
  | (written) now msg filename where
      "ss_rcptTo s \<noteq> []"
      "filename = generateMaildirFilename env now (sm_drawn srv)"
      "int (count_in_dir (maildir (se_cfg env) (ss_vmName s) ''new'') (sm_files srv)) < sc_MaxUnread (se_cfg env)"
      "sm_files (fst (snd (handleDATA env input s srv))) =
        snd (write_and_rename env (maildir_file (se_cfg env) (ss_vmName s) ''tmp'' filename)
          (maildir_file (se_cfg env) (ss_vmName s) ''new'' filename) msg (sm_files srv))"
proof (cases "sm_files (fst (snd (handleDATA env input s srv))) = sm_files srv")
  case False
  then show ?thesis
    by (auto simp: handleDATA_def deliverToMaildir_def countFilesInDir_def Let_def case_prod_beta
        intro!: written [OF _ refl] split: if_splits option.splits sum.splits)
qed (rule same)

text \<open>Delivery paths of a server with an absolute root directory.\<close>

definition path_env :: "smtp_env \<Rightarrow> bool" where
  "path_env env \<longleftrightarrow> is_rooted (sc_RootfsDir (se_cfg env)) \<and> (\<forall>k. CHR ''/'' \<notin> set (se_rand_hex env k))"

lemma plain_consts: "plain_name ''home''" "plain_name ''ussycode''" "plain_name ''Maildir''"
  "plain_name ''new''" "plain_name ''tmp''"
  by (simp_all add: plain_name_def)

lemma maildir_elems:
  assumes "is_rooted (sc_RootfsDir cfg)" "CHR ''.'' \<notin> set vm" "plain_name sub"
  shows "path_elems (maildir cfg vm sub) = path_elems (sc_RootfsDir cfg) @
      filter (\<lambda>e. e \<noteq> '''') (Split vm CHR ''/'') @ [''home'', ''ussycode'', ''Maildir'', sub]"
    and "is_rooted (maildir cfg vm sub)"
    and "maildir cfg vm sub = ''/'' @ Join_strings (path_elems (maildir cfg vm sub)) ''/''"
proof -
  have vm: "e = '''' \<or> plain_name e" if "e \<in> set (Split vm CHR ''/'')" for e
    using Split_parts [OF that] assms(2) by (auto simp: plain_name_def)
  have sub: "Split sub CHR ''/'' = [sub]" "sub \<noteq> ''''"
    using assms(3) by (simp_all add: plain_name_def Split_plain)
  have ok: "e = '''' \<or> plain_name e"
    if "p \<in> set [vm, ''home'', ''ussycode'', ''Maildir'', sub]" "e \<in> set (Split p CHR ''/'')" for p e
    using that vm sub assms(3) plain_consts by (auto simp: Split_plain)
  note j = Join_rooted [OF assms(1) _ ok, of "[vm, ''home'', ''ussycode'', ''Maildir'', sub]"]
  show "path_elems (maildir cfg vm sub) = path_elems (sc_RootfsDir cfg) @
      filter (\<lambda>e. e \<noteq> '''') (Split vm CHR ''/'') @ [''home'', ''ussycode'', ''Maildir'', sub]"
    unfolding maildir_def using j(1) sub by (simp add: Split_plain)
  show "is_rooted (maildir cfg vm sub)" unfolding maildir_def using j(4) by simp
  show "maildir cfg vm sub = ''/'' @ Join_strings (path_elems (maildir cfg vm sub)) ''/''"
    unfolding maildir_def using j(2) by simp
qed

lemma maildir_file_eq:
  assumes "is_rooted (sc_RootfsDir cfg)" "CHR ''.'' \<notin> set vm" "plain_name sub" "plain_name f"
  shows "maildir_file cfg vm sub f = maildir cfg vm sub @ ''/'' @ f"
    and "path_elems (maildir_file cfg vm sub f) = path_elems (maildir cfg vm sub) @ [f]"
proof -
  note m = maildir_elems [OF assms(1-3)]
  have f: "Split f CHR ''/'' = [f]" "f \<noteq> ''''" using assms(4) by (simp_all add: plain_name_def Split_plain)
  note j = Join_rooted [OF m(2), of "[f]"]
  show e: "path_elems (maildir_file cfg vm sub f) = path_elems (maildir cfg vm sub) @ [f]"
    unfolding maildir_file_def using j(1) f assms(4) by simp
  have "maildir_file cfg vm sub f = ''/'' @ Join_strings (path_elems (maildir cfg vm sub) @ [f]) ''/''"
    using j(2) f assms(4) e unfolding maildir_file_def by simp
  also have "\<dots> = (''/'' @ Join_strings (path_elems (maildir cfg vm sub)) ''/'') @ ''/'' @ f"
    using m(1) by (subst Join_strings_snoc) simp_all
  finally show "maildir_file cfg vm sub f = maildir cfg vm sub @ ''/'' @ f" using m(3) by simp
qed

lemma maildir_sub_inj:
  assumes "is_rooted (sc_RootfsDir cfg)" "CHR ''.'' \<notin> set vm" "CHR ''.'' \<notin> set vm'" "plain_name sub" "plain_name sub'"
    and "maildir cfg vm sub = maildir cfg vm' sub'"
  shows "sub = sub'"
  using maildir_elems(1) [OF assms(1,2,4)] maildir_elems(1) [OF assms(1,3,5)] assms(6) by simp

lemma filename_plain: "path_env env \<Longrightarrow> plain_name (generateMaildirFilename env now k)"
  by (auto simp: plain_name_def generateMaildirFilename_def path_env_def)

lemma write_and_rename_count:
  assumes "\<not> in_dir dir tmp"
  shows "count_in_dir dir (snd (write_and_rename env tmp new msg fs)) \<le>
    count_in_dir dir fs + (if in_dir dir new then 1 else 0)"
proof -
  have t: "count_in_dir dir (AList.update tmp msg fs) \<le> count_in_dir dir fs"
    using count_update [of dir tmp msg fs] assms by simp
  let ?fs = "AList.delete tmp (AList.update tmp msg fs)"
  have d: "count_in_dir dir ?fs \<le> count_in_dir dir fs"
    using count_delete [of dir tmp "AList.update tmp msg fs"] t by linarith
  have "count_in_dir dir (AList.update new msg ?fs) \<le> count_in_dir dir fs + (if in_dir dir new then 1 else 0)"
    using count_update [of dir new msg ?fs] d by (simp split: if_splits)
  with d show ?thesis by (auto simp: write_and_rename_def Let_def split: option.split if_splits)
qed

lemma write_and_rename_other:
  "p \<noteq> tmp \<Longrightarrow> p \<noteq> new \<Longrightarrow> map_of (snd (write_and_rename env tmp new msg fs)) p = map_of fs p"
  by (simp add: write_and_rename_def Let_def update_conv' delete_conv' split: option.split)

lemma sess_ok_vm: "sess_ok cfg s \<Longrightarrow> ss_rcptTo s \<noteq> [] \<Longrightarrow>
    extractVMFromAddress cfg (hd (ss_rcptTo s)) = Some (ss_vmName s) \<and> CHR ''.'' \<notin> set (ss_vmName s)"
  using extractVMFromAddress_Some by (fastforce simp: sess_ok_def)

text \<open>What a client does to the lines of a message before it sends them.\<close>

definition dot_stuff :: "string \<Rightarrow> string" where
  "dot_stuff l = (if HasPrefix l ''.'' then CHR ''.'' # l else l)"

lemma readLine_sent: "CHR 13 \<notin> set x \<Longrightarrow> CHR 10 \<notin> set x \<Longrightarrow> readLine (x @ [CHR 13]) = x"
proof -
  assume a: "CHR 13 \<notin> set x" "CHR 10 \<notin> set x"
  have "dropWhile (\<lambda>c. c = CHR 13 \<or> c = CHR 10) (rev x) = rev x"
    unfolding dropWhile_eq_self_iff using a hd_in_set [of "rev x"] by auto
  then show ?thesis by (simp add: readLine_def TrimRight_def)
qed

lemma read_data_sent:
  assumes "\<And>t l. (t, l) \<in> set ls \<Longrightarrow> CHR 13 \<notin> set l \<and> CHR 10 \<notin> set l"
  shows "read_data (map (\<lambda>(t, l). (t, dot_stuff l @ [CHR 13])) ls @ (now, [CHR ''.'', CHR 13]) # rest) body =
    Some (now, body @ concat (map (\<lambda>(t, l). l @ CRLF) ls), rest)"
  using assms
proof (induction ls arbitrary: body)
  case Nil
  have "readLine [CHR ''.'', CHR 13] = ''.''" by code_simp
  then show ?case by simp
next
  case (Cons x ls)
  obtain t l where x: "x = (t, l)" by (cases x)
  with Cons.prems have l: "CHR 13 \<notin> set l" "CHR 10 \<notin> set l" by auto
  then have "CHR 13 \<notin> set (dot_stuff l) \<and> CHR 10 \<notin> set (dot_stuff l)" by (auto simp: dot_stuff_def)
  then have r: "readLine (dot_stuff l @ [CHR 13]) = dot_stuff l" by (simp add: readLine_sent)
  have "dot_stuff l \<noteq> ''.''" and u: "(if HasPrefix (dot_stuff l) ''..'' then tl (dot_stuff l) else dot_stuff l) = l"
    by (cases l; auto simp: dot_stuff_def HasPrefix_def)+
  have "read_data (map (\<lambda>(t, l). (t, dot_stuff l @ [CHR 13])) ls @ (now, [CHR ''.'', CHR 13]) # rest) (body @ l @ CRLF) =
      Some (now, (body @ l @ CRLF) @ concat (map (\<lambda>(t, l). l @ CRLF) ls), rest)"
    using Cons.prems by (intro Cons.IH) auto
  then show ?case using x r u \<open>dot_stuff l \<noteq> ''.''\<close> by (simp add: Let_def)
qed

subsection \<open>Properties\<close>

text \<open>C28. A message the client sends with its leading dots doubled arrives as it was written: with the
VM under its hourly and mailbox limits and no failing system call, \<^verbatim>\<open>DATA\<close> stores the
envelope headers and the original lines as one new file of the VM's Maildir, touches no other
file besides the temporary one, and leaves the lines after the final dot to the session.\<close>

theorem smtp_message_roundtrip:
  fixes env :: smtp_env
  defines "cfg \<equiv> se_cfg env"
  assumes "ss_rcptTo s \<noteq> []" "\<And>t l. (t, l) \<in> set ls \<Longrightarrow> CHR 13 \<notin> set l \<and> CHR 10 \<notin> set l"
    and "\<And>call p. se_os_error env call p = None"
    and "checkVMRate (sc_RatePerHourPerVM cfg) now (ss_vmName s) (sm_rates srv) = (True, rates)"
    and "int (count_in_dir (maildir cfg (ss_vmName s) ''new'') (sm_files srv)) < sc_MaxUnread cfg"
  shows "\<exists>srv'. handleDATA env (map (\<lambda>(t, l). (t, dot_stuff l @ [CHR 13])) ls @ (now, [CHR ''.'', CHR 13]) # rest) s srv =
      ([''354 Start mail input; end with <CRLF>.<CRLF>'', ''250 OK: message delivered''], srv', rest) \<and>
    sm_rates srv' = rates \<and>
    map_of (sm_files srv') (maildir_file cfg (ss_vmName s) ''new'' (generateMaildirFilename env now (sm_drawn srv))) =
      Some (maildir_message (ss_vmName s) (ss_mailFrom s) (ss_rcptTo s) (concat (map (\<lambda>(t, l). l @ CRLF) ls))) \<and>
    (\<forall>p. p \<notin> {maildir_file cfg (ss_vmName s) sub (generateMaildirFilename env now (sm_drawn srv)) | sub. sub \<in> {''new'', ''tmp''}} \<longrightarrow>
      map_of (sm_files srv') p = map_of (sm_files srv) p)"
proof -
  let ?f = "generateMaildirFilename env now (sm_drawn srv)"
  let ?tmp = "maildir_file cfg (ss_vmName s) ''tmp'' ?f" and ?new = "maildir_file cfg (ss_vmName s) ''new'' ?f"
  let ?msg = "maildir_message (ss_vmName s) (ss_mailFrom s) (ss_rcptTo s) (concat (map (\<lambda>(t, l). l @ CRLF) ls))"
  have mk: "mkdir_all env vm subs = None" for vm subs by (induction subs) (simp_all add: assms(4))
  have w: "write_and_rename env ?tmp ?new ?msg (sm_files srv) =
      (Inr (), AList.update ?new ?msg (AList.delete ?tmp (AList.update ?tmp ?msg (sm_files srv))))"
    by (simp add: write_and_rename_def assms(4))
  have "handleDATA env (map (\<lambda>(t, l). (t, dot_stuff l @ [CHR 13])) ls @ (now, [CHR ''.'', CHR 13]) # rest) s srv =
      ([''354 Start mail input; end with <CRLF>.<CRLF>'', ''250 OK: message delivered''],
       srv\<lparr>sm_rates := rates, sm_drawn := sm_drawn srv + 1,
           sm_files := snd (write_and_rename env ?tmp ?new ?msg (sm_files srv))\<rparr>, rest)"
    using assms(2,4,5,6) read_data_sent [OF assms(3), where body = "''''"] w
    by (simp add: handleDATA_def deliverToMaildir_def countFilesInDir_def mk Let_def cfg_def)
  moreover have "map_of (snd (write_and_rename env ?tmp ?new ?msg (sm_files srv))) ?new = Some ?msg"
    unfolding w by (simp add: update_conv')
  moreover have "\<forall>p. p \<notin> {maildir_file cfg (ss_vmName s) sub ?f | sub. sub \<in> {''new'', ''tmp''}} \<longrightarrow>
      map_of (snd (write_and_rename env ?tmp ?new ?msg (sm_files srv))) p = map_of (sm_files srv) p"
    by (intro allI impI write_and_rename_other) blast+
  ultimately show ?thesis by auto
qed

text \<open>Mail only ever reaches the Maildir of a VM: whatever lines a client sends, every file that
a connection creates, changes or removes lies in \<^verbatim>\<open>new\<close> or \<^verbatim>\<open>tmp\<close> of the Maildir below the
server's root directory that some address of the mail domain names; no recipient, sender or file
name can leave that directory.\<close>

theorem smtp_files_confined:
  assumes "path_env env"
    and "map_of (sm_files (snd (handleConn env input srv))) p \<noteq> map_of (sm_files srv) p"
  shows "\<exists>addr vm sub name. extractVMFromAddress (se_cfg env) addr = Some vm \<and> sub \<in> {''new'', ''tmp''} \<and>
    path_elems p = path_elems (sc_RootfsDir (se_cfg env)) @ filter (\<lambda>e. e \<noteq> '''') (Split vm CHR ''/'') @
      [''home'', ''ussycode'', ''Maildir'', sub, name]"
proof -
  let ?good = "\<lambda>p. \<exists>addr vm sub name. extractVMFromAddress (se_cfg env) addr = Some vm \<and> sub \<in> {''new'', ''tmp''} \<and>
    path_elems p = path_elems (sc_RootfsDir (se_cfg env)) @ filter (\<lambda>e. e \<noteq> '''') (Split vm CHR ''/'') @
      [''home'', ''ussycode'', ''Maildir'', sub, name]"
  have rooted: "is_rooted (sc_RootfsDir (se_cfg env))" using assms(1) by (simp add: path_env_def)
  have "\<forall>p. map_of (sm_files (snd (handleConn env input srv))) p = map_of (sm_files srv) p \<or> ?good p"
  proof (rule handleConn_invariant)
    fix s input' and srv' :: smtp_server
    assume s: "sess_ok (se_cfg env) s" and inv: "\<forall>p. map_of (sm_files srv') p = map_of (sm_files srv) p \<or> ?good p"
    show "\<forall>p. map_of (sm_files (fst (snd (handleDATA env input' s srv')))) p = map_of (sm_files srv) p \<or> ?good p"
    proof (rule handleDATA_files [of env input' s srv'])
      fix now msg f
      let ?file = "\<lambda>sub. maildir_file (se_cfg env) (ss_vmName s) sub f"
      assume w: "ss_rcptTo s \<noteq> []" "f = generateMaildirFilename env now (sm_drawn srv')"
        "sm_files (fst (snd (handleDATA env input' s srv'))) =
          snd (write_and_rename env (?file ''tmp'') (?file ''new'') msg (sm_files srv'))"
      note vm = sess_ok_vm [OF s w(1)]
      have elems: "path_elems (?file sub) = path_elems (sc_RootfsDir (se_cfg env)) @
          filter (\<lambda>e. e \<noteq> '''') (Split (ss_vmName s) CHR ''/'') @ [''home'', ''ussycode'', ''Maildir'', sub, f]"
        if "plain_name sub" for sub
        using maildir_file_eq(2) [OF rooted _ that filename_plain [OF assms(1)]]
          maildir_elems(1) [OF rooted _ that] vm w(2) by simp
      have "?good (?file ''tmp'')" "?good (?file ''new'')"
        using vm elems [OF plain_consts(5)] elems [OF plain_consts(4)] by blast+
      then show ?thesis using inv w(3) write_and_rename_other by metis
    qed (use inv in simp)
  qed simp
  with assms(2) show ?thesis by blast
qed

text \<open>A mailbox never grows beyond the configured number of unread files: the bound holds after
every connection if it held before, also when other VM names lead to the same directory.\<close>

theorem mailbox_bounded:
  assumes "path_env env" "CHR ''.'' \<notin> set vm"
    and "int (count_in_dir (maildir (se_cfg env) vm ''new'') (sm_files srv)) \<le> sc_MaxUnread (se_cfg env)"
  shows "int (count_in_dir (maildir (se_cfg env) vm ''new'') (sm_files (snd (handleConn env input srv))))
    \<le> sc_MaxUnread (se_cfg env)"
proof (rule handleConn_invariant [where P = "\<lambda>srv. int (count_in_dir (maildir (se_cfg env) vm ''new'') (sm_files srv))
    \<le> sc_MaxUnread (se_cfg env)"])
  fix s input' and srv' :: smtp_server
  let ?dir = "\<lambda>v. maildir (se_cfg env) v ''new''"
  assume s: "sess_ok (se_cfg env) s"
    and inv: "int (count_in_dir (?dir vm) (sm_files srv')) \<le> sc_MaxUnread (se_cfg env)"
  have rooted: "is_rooted (sc_RootfsDir (se_cfg env))" using assms(1) by (simp add: path_env_def)
  show "int (count_in_dir (?dir vm) (sm_files (fst (snd (handleDATA env input' s srv'))))) \<le> sc_MaxUnread (se_cfg env)"
  proof (rule handleDATA_files [of env input' s srv'])
    fix now msg f
    let ?v = "ss_vmName s"
    assume w: "ss_rcptTo s \<noteq> []" "f = generateMaildirFilename env now (sm_drawn srv')"
      "int (count_in_dir (?dir ?v) (sm_files srv')) < sc_MaxUnread (se_cfg env)"
      "sm_files (fst (snd (handleDATA env input' s srv'))) =
        snd (write_and_rename env (maildir_file (se_cfg env) ?v ''tmp'' f) (maildir_file (se_cfg env) ?v ''new'' f) msg (sm_files srv'))"
    have v: "CHR ''.'' \<notin> set ?v" using sess_ok_vm [OF s w(1)] by blast
    have f: "plain_name f" unfolding w(2) by (rule filename_plain [OF assms(1)])
    have "maildir (se_cfg env) ?v ''tmp'' \<noteq> ?dir vm"
      using maildir_sub_inj [OF rooted v assms(2) plain_consts(5,4)] by auto
    then have tmp: "\<not> in_dir (?dir vm) (maildir_file (se_cfg env) ?v ''tmp'' f)"
      using maildir_file_eq(1) [OF rooted v plain_consts(5) f] in_dir_iff [OF f] by metis
    have new: "in_dir (?dir vm) (maildir_file (se_cfg env) ?v ''new'' f) \<longleftrightarrow> ?dir vm = ?dir ?v"
      using maildir_file_eq(1) [OF rooted v plain_consts(4) f] in_dir_iff [OF f] by metis
    show ?thesis
      using write_and_rename_count [OF tmp, of env "maildir_file (se_cfg env) ?v ''new'' f" msg "sm_files srv'"]
        new w(3,4) inv by (auto split: if_splits)
  qed (use inv in simp)
qed (rule assms(3))

subsection \<open>A concrete server\<close>

definition sample_smtp :: smtp_env where
  "sample_smtp = \<lparr>se_cfg = NewSMTPServer \<lparr>sc_Domain = ''ussy.host'', sc_RootfsDir = ''/disks'', sc_MaxUnread = 2,
     sc_RatePerHourPerVM = 1, sc_Hostname = ''mx''\<rparr>, se_os_error = (\<lambda>_ _. None), se_rand_hex = dec_nat\<rparr>"

definition fresh_server :: smtp_server where
  "fresh_server = \<lparr>sm_rates = (\<lambda>_. None), sm_files = [], sm_drawn = 0\<rparr>"

definition mail_to :: "string \<Rightarrow> (nanos \<times> string) list" where
  "mail_to rcpt = [(0, ''MAIL FROM:<a@b.c>''), (0, ''RCPT TO:<'' @ rcpt @ ''>''), (0, ''DATA''), (0, ''hi''), (0, ''.'')]"

lemma dec_nat_no_slash: "CHR ''/'' \<notin> set (dec_nat k)"
  using dec_no_sep(2) [of "int k"] by (simp add: dec_def)

lemma sample_smtp_path_env: "path_env sample_smtp"
  by (simp add: path_env_def sample_smtp_def NewSMTPServer_def is_rooted_def HasPrefix_def dec_nat_no_slash)

theorem smtp_message_roundtrip_witness:
  "\<exists>srv'. handleDATA sample_smtp [(0, ''..hi'' @ [CHR 13]), (0, [CHR ''.'', CHR 13])]
      \<lparr>ss_heloName = '''', ss_mailFrom = ''a@b.c'', ss_rcptTo = [''x@web.ussy.host''], ss_vmName = ''web''\<rparr> fresh_server =
    ([''354 Start mail input; end with <CRLF>.<CRLF>'', ''250 OK: message delivered''], srv', []) \<and>
   map_of (sm_files srv') (maildir_file (se_cfg sample_smtp) ''web'' ''new'' (generateMaildirFilename sample_smtp 0 0)) =
     Some (maildir_message ''web'' ''a@b.c'' [''x@web.ussy.host''] (''.hi'' @ CRLF))"
proof -
  have 1: "checkVMRate (sc_RatePerHourPerVM (se_cfg sample_smtp)) 0 ''web'' (sm_rates fresh_server) =
      (True, (sm_rates fresh_server)(''web'' \<mapsto> \<lparr>er_count = 1, er_windowAt = 0\<rparr>))"
    by (simp add: checkVMRate_def fresh_server_def Let_def trunc_hour_def)
  have 2: "count_in_dir (maildir (se_cfg sample_smtp) ''web'' ''new'') (sm_files fresh_server) = 0"
    "sc_MaxUnread (se_cfg sample_smtp) = 2" "\<And>call p. se_os_error sample_smtp call p = None"
    by (simp_all add: fresh_server_def count_in_dir_def sample_smtp_def NewSMTPServer_def)
  have 3: "dot_stuff ''.hi'' = ''..hi''" by code_simp
  show ?thesis
    using smtp_message_roundtrip [of "\<lparr>ss_heloName = '''', ss_mailFrom = ''a@b.c'', ss_rcptTo = [''x@web.ussy.host''],
        ss_vmName = ''web''\<rparr>" "[(0, ''.hi'')]" sample_smtp 0 fresh_server _ "[]"] 1 2 3
    by (simp add: fresh_server_def) blast
qed

theorem smtp_files_confined_witness:
  "\<exists>p vm. map_of (sm_files (snd (handleConn sample_smtp (mail_to ''x@Web.ussy.host'') fresh_server))) p \<noteq> None \<and>
     path_elems p \<noteq> [] \<and> take 1 (path_elems p) = [''disks'']"
proof -
  let ?fs = "sm_files (snd (handleConn sample_smtp (mail_to ''x@Web.ussy.host'') fresh_server))"
  let ?p = "''/disks/web/home/ussycode/Maildir/new/0.0.ussyco.de''"
  have "map fst ?fs = [?p]" by code_simp
  then have m: "map_of ?fs ?p \<noteq> None" by (cases ?fs) auto
  then have "map_of ?fs ?p \<noteq> map_of (sm_files fresh_server) ?p" by (simp add: fresh_server_def)
  moreover have "path_elems (sc_RootfsDir (se_cfg sample_smtp)) = [''disks'']" by code_simp
  ultimately show ?thesis using smtp_files_confined [OF sample_smtp_path_env, of _ _ ?p] m by fastforce
qed

theorem mailbox_bounded_witness:
  "count_in_dir (maildir (se_cfg sample_smtp) ''web'' ''new'')
     (sm_files (snd (handleConn sample_smtp (mail_to ''x@web.ussy.host'') fresh_server))) \<le> 2"
proof -
  have "int (count_in_dir (maildir (se_cfg sample_smtp) ''web'' ''new'') (sm_files fresh_server))
      \<le> sc_MaxUnread (se_cfg sample_smtp)" "sc_MaxUnread (se_cfg sample_smtp) = 2"
    by (simp_all add: fresh_server_def count_in_dir_def sample_smtp_def NewSMTPServer_def)
  with mailbox_bounded [OF sample_smtp_path_env _ this(1)] show ?thesis by simp
qed

text \<open>The hourly limit is per name, not per mailbox: with a limit of one message an hour, a second one
addressed to \<open>web/\<close> is delivered to the mailbox of \<open>web\<close>.\<close>

theorem rate_limit_alias:
  "map fst (sm_files (snd (handleConn sample_smtp (mail_to ''x@web.ussy.host'' @ mail_to ''x@web/.ussy.host'') fresh_server))) =
     [''/disks/web/home/ussycode/Maildir/new/0.0.ussyco.de'', ''/disks/web/home/ussycode/Maildir/new/0.1.ussyco.de'']"
  by code_simp

end
