(* ===== verification/Server_Main.thy ===== *)
theory Server_Main
  imports Server_Config Shell_Entry Api_Handler Admin_Panel Smtp_Server
begin

section \<open>The server process\<close>

text \<open>
  \<^verbatim>\<open>cmd/ussycode/main.go\<close>: the parts put together. Start-up takes a configuration to a running server, or
  to the message it ends with; what fails without ending it (telemetry, the VM manager, the LLM gateway,
  Caddy) leaves its part out. The running server answers the HTTPS API, SSH connections and the web panel over
  one database. Log lines and the HTTP listeners are left out; the contexts of commands do not time out.
\<close>

subsection \<open>Start-up\<close>

record 'k startup_env =
  su_outside :: outside
  su_Open :: "string \<Rightarrow> string + db"
  su_Migrate :: "db \<Rightarrow> string + db"
  su_NewVMManager :: "server_config \<Rightarrow> string + vm_env \<times> network_manager"
  su_unused_network :: network_manager     \<comment> \<open>of a host without VM manager, never used\<close>
  su_llm_lib :: llm_lib
  su_key_env :: "'k key_env"
  su_PublicKey :: "'k \<Rightarrow> string"           \<comment> \<open>\<^verbatim>\<open>MarshalAuthorizedKey\<close> of the public key\<close>
  su_web :: "string option"                \<comment> \<open>error of opening the embedded files\<close>
  su_templates :: "string option"
  su_static :: "string + string option"

record server =
  sv_gateway :: gateway
  sv_world :: world
  sv_limiter :: rate_limiter
  sv_panel :: admin_panel
  sv_smtp :: SMTPConfig

text \<open>\<^verbatim>\<open>New\<close> of \<^verbatim>\<open>internal/ssh/gateway.go\<close>.\<close>

definition gateway_New ::
  "'k key_env \<Rightarrow> ('k \<Rightarrow> string) \<Rightarrow> outside \<Rightarrow> vm_env option \<Rightarrow> string \<Rightarrow> string \<Rightarrow> string + gateway" where
  "gateway_New keys public ot vmManager hostKeyPath domain =
     (case fst (loadOrGenerateHostKey keys) of
        Inl e \<Rightarrow> Inl (''host key: '' @ e)
      | Inr signer \<Rightarrow>
        Inr \<lparr>gw_outside = ot, gw_VM = vmManager, gw_LLMGateway = None, gw_hostKeyPath = hostKeyPath,
             gw_hostPublicKey = public signer, gw_domain = (if domain = '''' then ''ussy.host'' else domain),
             gw_RoutussyURL = '''', gw_RoutussyInternalKey = ''''\<rparr>)"

text \<open>\<^verbatim>\<open>NewHandler\<close> of \<^verbatim>\<open>internal/api/handler.go\<close>: its limiter.\<close>

definition api_handler_limiter :: "rat \<Rightarrow> int \<Rightarrow> rate_limiter" where
  "api_handler_limiter rate burst = NewRateLimiter (if rate \<le> 0 then 60 else rate) (if burst \<le> 0 then 10 else burst)"

definition llm_config :: "server_config \<Rightarrow> LLMGatewayConfig" where
  "llm_config cfg =
     (if cf_LLMEncryptSecret cfg \<noteq> '''' then DefaultLLMGatewayConfig\<lparr>lc_EncryptSecret := cf_LLMEncryptSecret cfg\<rparr>
      else DefaultLLMGatewayConfig)"

definition email_config :: "server_config \<Rightarrow> EmailSendConfig" where
  "email_config cfg =
     \<lparr>ec_SMTPRelay = cf_SMTPRelay cfg, ec_SMTPUsername = '''', ec_SMTPPassword = '''', ec_FromAddress = cf_SMTPFromAddress cfg,
      ec_RatePerHourPerVM = 0\<rparr>"

definition smtp_config :: "server_config \<Rightarrow> SMTPConfig" where
  "smtp_config cfg =
     NewSMTPServer \<lparr>sc_Domain = cf_Domain cfg, sc_RootfsDir = cf_DataDir cfg @ ''/disks'', sc_MaxUnread = 0, sc_RatePerHourPerVM = 0,
       sc_Hostname = ''''\<rparr>"

text \<open>Caddy is asked whether it is there; with an address for certificates it gets its base configuration.\<close>

definition connect_caddy :: "caddy_env \<Rightarrow> server_config \<Rightarrow> proxy_manager \<Rightarrow> proxy_manager" where
  "connect_caddy env cfg m =
     (case Healthy env m of
        (healthy, m) \<Rightarrow> if healthy \<and> cf_TLSEmail cfg \<noteq> '''' then snd (EnsureBaseConfig env (cf_TLSEmail cfg) m) else m)"

definition start_up :: "'k startup_env \<Rightarrow> server_config \<Rightarrow> string + server" where
  "start_up env cfg =
     (case Validate cfg of
        Some e \<Rightarrow> Inl (''invalid configuration: '' @ e)
      | None \<Rightarrow>
     (case su_Open env (cf_DBPath cfg) of
        Inl e \<Rightarrow> Inl (''open database: '' @ e)
      | Inr database \<Rightarrow>
     (case su_Migrate env database of
        Inl e \<Rightarrow> Inl (''migrate database: '' @ e)
      | Inr database \<Rightarrow>
        let (vmManager, network) =
              (case su_NewVMManager env cfg of Inl _ \<Rightarrow> (None, su_unused_network env) | Inr (m, nm) \<Rightarrow> (Some m, nm));
            llmGW = (case NewLLMGateway (su_llm_lib env) (Some (llm_config cfg)) of Inl _ \<Rightarrow> None | Inr g \<Rightarrow> Some g);
            metaSrv = NewServer database;
            metaSrv = (if llmGW = None then metaSrv else SetLLMGateway llmGW metaSrv);
            metaSrv = SetEmailSender (Some (NewEmailSender (Some (email_config cfg)))) metaSrv;
            proxyMgr = connect_caddy (ot_caddy (su_outside env)) cfg
              (NewManager (cf_CaddyAdminAddr cfg) (cf_Domain cfg) (cf_AuthProxyURL cfg)) in
        (case gateway_New (su_key_env env) (su_PublicKey env) (su_outside env) vmManager (cf_SSHHostKeyPath cfg) (cf_Domain cfg) of
           Inl e \<Rightarrow> Inl (''create gateway: '' @ e)
         | Inr gw \<Rightarrow>
           let gw = gw\<lparr>gw_LLMGateway := llmGW\<rparr>;
               gw = (if cf_RoutussyURL cfg \<noteq> '''' then
                       gw\<lparr>gw_RoutussyURL := cf_RoutussyURL cfg, gw_RoutussyInternalKey := cf_RoutussyInternalKey cfg\<rparr> else gw) in
           (case su_web env of
              Some e \<Rightarrow> Inl (''admin web assets: '' @ e)
            | None \<Rightarrow>
              (case NewHandler (Some (cf_Domain cfg)) (su_templates env) (su_static env) of
                 Inl e \<Rightarrow> Inl (''create admin panel: '' @ e)
               | Inr panel \<Rightarrow>
                 Inr \<lparr>sv_gateway = gw,
                      sv_world =
                        \<lparr>w_host = \<lparr>vh_db = database, vh_net = network, vh_log = [], vh_fc = [], vh_running = [], vh_files = []\<rparr>,
                         w_Metadata = Some metaSrv, w_Proxy = Some proxyMgr, w_draws = 0, w_in = [], w_out = []\<rparr>,
                      sv_limiter = api_handler_limiter 0 0, sv_panel = panel, sv_smtp = smtp_config cfg\<rparr>))))))"

definition with_db :: "db \<Rightarrow> server \<Rightarrow> server" where
  "with_db d s = s\<lparr>sv_world := (sv_world s)\<lparr>w_host := (w_host (sv_world s))\<lparr>vh_db := d\<rparr>\<rparr>\<rparr>"

definition sv_db :: "server \<Rightarrow> db" where "sv_db s = w_db (sv_world s)"

subsection \<open>The HTTPS API\<close>

text \<open>The keys of a user, as the database has them now; a key that cannot be parsed is skipped.\<close>

definition server_keys :: "(string \<Rightarrow> 'key option) \<Rightarrow> db \<Rightarrow> int \<Rightarrow> 'key list option" where
  "server_keys ParseAuthorizedKey d userID =
     (case SSHKeysByUser userID d of
        Inl _ \<Rightarrow> None
      | Inr keys \<Rightarrow> Some (List.map_filter (\<lambda>k. ParseAuthorizedKey (k_PublicKey k)) keys))"

text \<open>
  The library of the API with the server's resolver and executor. \<open>echo\<close> is what a command that asks reads,
  \<open>render\<close> the text of its output. A command that panics closes the connection; here it fails.
\<close>

record ('key, 'sig) api_lib =
  al_handler :: "('key, 'sig, world) api_env"
  al_ParseAuthorizedKey :: "string \<Rightarrow> 'key option"
  al_render :: "shown list \<Rightarrow> string"
  al_echo :: "string list"

definition execute_command :: "('key, 'sig) api_lib \<Rightarrow> gateway \<Rightarrow> nanos \<Rightarrow> world \<Rightarrow> user \<Rightarrow> string \<Rightarrow> string list \<Rightarrow> exec_result \<times> world" where
  "execute_command lib gw now w user command args =
     (case APIExecutor_Execute gw (al_render lib) (al_echo lib) now user command args w of
        (Exec out code None, w) \<Rightarrow> (ExecDone out code, w)
      | (Exec out code (Some e), w) \<Rightarrow> (ExecFailed (err_text \<lparr>sh_gw = gw, sh_session = None, sh_user = user\<rparr> e), w)
      | (ExecPanic p, w) \<Rightarrow> (ExecFailed p, w))"

definition server_api :: "('key, 'sig) api_lib \<Rightarrow> gateway \<Rightarrow> nanos \<Rightarrow> db \<Rightarrow> ('key, 'sig, world) api_env" where
  "server_api lib gw now d =
     (al_handler lib)\<lparr>keyResolver := Some (server_keys (al_ParseAuthorizedKey lib) d), executor := Some (execute_command lib gw now)\<rparr>"

text \<open>\<^verbatim>\<open>POST /exec\<close>: the executor works on the database that authentication leaves.\<close>

definition serve_exec :: "('key, 'sig) api_lib \<Rightarrow> nanos \<Rightarrow> http_request \<Rightarrow> server \<Rightarrow> api_response option \<times> server" where
  "serve_exec lib now r s =
     (let d = sv_db s; env = server_api lib (sv_gateway s) now d; s = with_db (snd (authenticate env now (rq_Authorization r) d)) s;
          (resp, st) = handleExec env now r \<lparr>h_db = d, h_limiter = sv_limiter s, h_exec = sv_world s\<rparr>
      in (resp, s\<lparr>sv_limiter := h_limiter st, sv_world := h_exec st\<rparr>))"

subsection \<open>SSH and the web panel\<close>

text \<open>
  A connection: the client offers keys and signs with the last one, if the server accepts it; the session then
  runs with what the client types.
\<close>

definition ssh_ctx :: "nanos \<Rightarrow> string \<Rightarrow> (string \<times> string) list \<Rightarrow> server \<Rightarrow> conn_ctx" where
  "ssh_ctx now remoteIP keys s = offer_keys (sv_gateway s) now (sv_db s) remoteIP keys no_ctx"

definition ssh_accepts :: "nanos \<Rightarrow> string \<Rightarrow> (string \<times> string) list \<Rightarrow> server \<Rightarrow> bool" where
  "ssh_accepts now remoteIP keys s \<longleftrightarrow> keys \<noteq> [] \<and>
     fst (publicKeyHandler (sv_gateway s) now (sv_db s) remoteIP (last keys) (ssh_ctx now remoteIP (butlast keys) s))"

definition serve_ssh ::
  "(nat \<Rightarrow> nanos) \<Rightarrow> nanos \<Rightarrow> string \<Rightarrow> (string \<times> string) list \<Rightarrow> string list \<Rightarrow> string list \<Rightarrow> server \<Rightarrow> server" where
  "serve_ssh clock now remoteIP keys cmd input s =
     (if \<not> ssh_accepts now remoteIP keys s then s
      else case sessionHandler (sv_gateway s) clock (ssh_ctx now remoteIP keys s) cmd ((sv_world s)\<lparr>w_in := input, w_out := []\<rparr>) of
        None \<Rightarrow> s
      | Some (_, w) \<Rightarrow> s\<lparr>sv_world := w\<rparr>)"

definition serve_web :: "nanos \<Rightarrow> string + string \<Rightarrow> admin_request \<Rightarrow> server \<Rightarrow> admin_response \<times> server" where
  "serve_web now random rq s =
     (case admin_serve now random rq (sv_panel s, sv_db s) of (r, pn, d) \<Rightarrow> (r, (with_db d s)\<lparr>sv_panel := pn\<rparr>))"

text \<open>The magic links on the public address.\<close>

definition serve_magic :: "nanos \<Rightarrow> string + string \<Rightarrow> string \<Rightarrow> server \<Rightarrow> admin_response \<times> server" where
  "serve_magic now random token s =
     (case HandleMagicLink now random token (sv_panel s, sv_db s) of (r, pn, d) \<Rightarrow> (r, (with_db d s)\<lparr>sv_panel := pn\<rparr>))"

subsection \<open>Shutdown\<close>

text \<open>The running VMs are stopped first; closing the listeners is input and output only.\<close>

definition shut_down :: "nanos \<Rightarrow> server \<Rightarrow> server" where
  "shut_down now s =
     (case gw_VM (sv_gateway s) of
        None \<Rightarrow> s
      | Some m \<Rightarrow> s\<lparr>sv_world := (sv_world s)\<lparr>w_host := ShutdownAll m now (w_host (sv_world s))\<rparr>\<rparr>)"

subsection \<open>Histories\<close>

datatype server_event =
    ApiExec nanos http_request
  | SshConnection "nat \<Rightarrow> nanos" nanos string "(string \<times> string) list" "string list" "string list"
  | WebRequest nanos "string + string" admin_request
  | MagicVisit nanos "string + string" string

primrec server_step :: "('key, 'sig) api_lib \<Rightarrow> server_event \<Rightarrow> server \<Rightarrow> server" where
  "server_step lib (ApiExec now r) s = snd (serve_exec lib now r s)"
| "server_step lib (SshConnection clock now ip keys cmd input) s = serve_ssh clock now ip keys cmd input s"
| "server_step lib (WebRequest now random rq) s = snd (serve_web now random rq s)"
| "server_step lib (MagicVisit now random token) s = snd (serve_magic now random token s)"

definition server_run :: "('key, 'sig) api_lib \<Rightarrow> server_event list \<Rightarrow> server \<Rightarrow> server" where
  "server_run lib evs s = fold (server_step lib) evs s"

end
