(* ===== verification/Admin_Properties.thy ===== *)
theory Admin_Properties
  imports Admin_Panel
begin

section \<open>Properties of the admin panel\<close>

text \<open>
  Histories of the panel: requests, runs of the cleanup and what the rest of the program does to the
  database. A session was opened by redeeming the magic link of an operator or administrator; changes of
  trust levels need a session and are audited; a link opens one session.
\<close>

subsection \<open>Histories\<close>

datatype panel_event = Served nanos "string + string" admin_request | Cleaned nanos | Elsewhere nanos db_op

primrec panel_step :: "panel_event \<Rightarrow> admin_panel \<times> db \<Rightarrow> admin_panel \<times> db" where
  "panel_step (Served now random rq) s = snd (admin_serve now random rq s)"
| "panel_step (Cleaned now) s = ((fst s)\<lparr>pn_sessions := session_CleanExpired now (pn_sessions (fst s))\<rparr>, snd s)"
| "panel_step (Elsewhere now op) s = (fst s, run_op now op (snd s))"

definition panel_run :: "panel_event list \<Rightarrow> admin_panel \<times> db \<Rightarrow> admin_panel \<times> db" where
  "panel_run evs s = fold panel_step evs s"

lemma panel_run_simps [simp]:
  "panel_run [] s = s" "panel_run (evs @ [ev]) s = panel_step ev (panel_run evs s)"
  "panel_run (ev # evs) s = panel_run evs (panel_step ev s)"
  by (simp_all add: panel_run_def)

text \<open>The magic token a request redeems.\<close>

definition redeemed :: "admin_request \<Rightarrow> string option" where
  "redeemed rq =
     (case admin_route_of (rq_Method rq) (rq_Path rq) of
        LoginCallback \<Rightarrow>
          let token = first_value ''token'' (rq_Query rq) in if token = '''' then None else Some token
      | MagicLink token \<Rightarrow> if token = '''' then None else Some token
      | _ \<Rightarrow> None)"

definition signs_in :: "panel_event \<Rightarrow> db \<Rightarrow> string \<Rightarrow> admin_session \<Rightarrow> bool" where
  "signs_in ev d sid sess \<longleftrightarrow>
     (\<exists>now b rq token u d'. ev = Served now (Inr b) rq \<and> redeemed rq = Some token \<and>
        ValidateMagicToken now token d = (Inr u, d') \<and> panel_role (u_TrustLevel u) \<and> sid = hex_string b \<and>
        sess = \<lparr>sn_UserID = u_ID u, sn_Handle = u_Handle u, sn_ExpiresAt = now + sessionTTL\<rparr>)"

subsection \<open>What one request does\<close>

definition trust_ops :: "nanos \<Rightarrow> admin_session \<Rightarrow> int \<Rightarrow> string \<Rightarrow> (nanos \<times> db_op) list" where
  "trust_ops now sess i level =
     [(now, Account (OpSetUserTrustLevel i level)),
      (now, Account (OpCreateAuditLog (Some (sn_UserID sess)) ''admin.user.trust_level.set'' ''user'' (Some (dec i))
        (Some (''trust_level='' @ level))))]"

lemma SetUserTrustLevel_fails: "SetUserTrustLevel now j level d = (Inl e, d') \<Longrightarrow> d' = d"
  by (auto simp: SetUserTrustLevel_def WriteTx_def exec_def Let_def split: if_splits)

definition panel_levels :: "string \<Rightarrow> bool" where
  "panel_levels l = list_ex (\<lambda>v. v = l) [''newbie'', ''citizen'', ''operator'', ''admin'']"

lemma panel_levels_iff: "panel_levels l \<longleftrightarrow> l \<in> set ValidTrustLevels"
  by (auto simp: panel_levels_def ValidTrustLevels_def)

lemma set_trust_cases:
  assumes "handleSetTrustLevel now sess s rq d = (r, d')"
  shows "d' = d \<or> (\<exists>i level. level \<in> set ValidTrustLevels \<and> fst (SetUserTrustLevel now i level d) = Inr () \<and>
      d' = run_ops (trust_ops now sess i level) d)"
proof -
  define P where "P e \<longleftrightarrow> e = d \<or> (\<exists>i level. level \<in> set ValidTrustLevels \<and> fst (SetUserTrustLevel now i level d) = Inr () \<and>
      e = run_ops (trust_ops now sess i level) d)" for e
  have P: "P d" by (simp add: P_def)
  have written: "P (snd (CreateAuditLog now (Some (sn_UserID sess)) ''admin.user.trust_level.set'' ''user'' (Some (dec j))
        (Some (''trust_level='' @ l)) d1))"
    if "SetUserTrustLevel now j l d = (Inr x, d1)" "panel_levels l" for j l x d1
    using that unfolding P_def
    by (intro disjI2 exI [of _ j] exI [of _ l]) (simp add: trust_ops_def run_ops_def panel_levels_iff)
  have "P d'" using P assms unfolding handleSetTrustLevel_def panel_levels_def [symmetric] Let_def
    by (auto dest!: SetUserTrustLevel_fails dest: written split: option.splits if_splits prod.splits sum.splits)
  then show ?thesis unfolding P_def .
qed

text \<open>The four cases: nothing, a logout, a redeemed link, a change of a trust level.\<close>

lemma serve_cases:
  assumes "admin_serve now random rq (pn, d) = (r, pn', d')"
  shows "(pn' = pn \<and> d' = d) \<or>
    (d' = d \<and> (\<exists>sid. pn' = pn\<lparr>pn_sessions := AList.delete sid (pn_sessions pn)\<rparr>)) \<or>
    (\<exists>token. redeemed rq = Some token \<and> d' = snd (ValidateMagicToken now token d) \<and>
       (pn' = pn \<or> (\<exists>b u. random = Inr b \<and> fst (ValidateMagicToken now token d) = Inr u \<and> panel_role (u_TrustLevel u) \<and>
          pn' = pn\<lparr>pn_sessions := AList.update (hex_string b)
            \<lparr>sn_UserID = u_ID u, sn_Handle = u_Handle u, sn_ExpiresAt = now + sessionTTL\<rparr> (pn_sessions pn)\<rparr>))) \<or>
    (pn' = pn \<and> (\<exists>sess i level. requireAuth now rq pn = Inr sess \<and> level \<in> set ValidTrustLevels \<and>
       fst (SetUserTrustLevel now i level d) = Inr () \<and> d' = run_ops (trust_ops now sess i level) d))"
proof (cases "admin_route_of (rq_Method rq) (rq_Path rq)")
  case LoginCallback
  then show ?thesis using assms
    by (auto simp: admin_serve_def handleLoginCallback_def redeemed_def open_session_def session_Create_def Let_def
        split: if_splits prod.splits sum.splits)
next
  case (MagicLink token)
  then show ?thesis using assms
    by (auto simp: admin_serve_def HandleMagicLink_def redeemed_def open_session_def session_Create_def Let_def
        split: if_splits prod.splits sum.splits option.splits)
next
  case (SetTrust i)
  show ?thesis
  proof (cases "requireAuth now rq pn")
    case (Inl x)
    then show ?thesis using assms SetTrust by (simp add: admin_serve_def Let_def)
  next
    case (Inr sess)
    then have "handleSetTrustLevel now sess i rq d = (r, d')" "pn' = pn"
      using assms SetTrust by (auto simp: admin_serve_def Let_def split: prod.splits)
    then show ?thesis using set_trust_cases [of now sess i rq d r d'] Inr by blast
  qed
next
  case Logout
  then show ?thesis using assms
    by (auto simp: admin_serve_def handleLogout_def session_Delete_def Let_def split: option.splits)
qed (use assms in \<open>auto simp: admin_serve_def Let_def split: sum.splits\<close>)

subsection \<open>Sessions are opened by links\<close>

definition store_ok :: "session_store \<Rightarrow> bool" where "store_ok s \<longleftrightarrow> distinct (map fst s)"

lemma store_steps:
  "store_ok s \<Longrightarrow> store_ok (AList.update k x s)" "store_ok s \<Longrightarrow> store_ok (AList.delete k s)"
  "store_ok s \<Longrightarrow> store_ok (session_CleanExpired now s)"
  by (simp_all add: store_ok_def distinct_update distinct_delete session_CleanExpired_def distinct_map_filter)

lemma clean_lookup: "store_ok s \<Longrightarrow> map_of (session_CleanExpired now s) k = Some x \<Longrightarrow> map_of s k = Some x"
  by (auto simp: store_ok_def session_CleanExpired_def dest!: map_of_SomeD intro: map_of_is_SomeI)

lemma step_store: "store_ok (pn_sessions (fst s)) \<Longrightarrow> store_ok (pn_sessions (fst (panel_step ev s)))"
proof (cases ev)
  case (Served now random rq)
  assume ok: "store_ok (pn_sessions (fst s))"
  obtain r pn' d' where "admin_serve now random rq (fst s, snd s) = (r, pn', d')" by (metis surj_pair)
  from serve_cases [OF this] this show ?thesis using ok Served by (auto intro: store_steps)
qed (auto intro: store_steps)

lemma step_session:
  assumes "map_of (pn_sessions (fst (panel_step ev s))) sid = Some sess" "store_ok (pn_sessions (fst s))"
  shows "map_of (pn_sessions (fst s)) sid = Some sess \<or> signs_in ev (snd s) sid sess"
proof (cases ev)
  case (Served now random rq)
  obtain r pn' d' where run: "admin_serve now random rq (fst s, snd s) = (r, pn', d')" by (metis surj_pair)
  have pn': "map_of (pn_sessions pn') sid = Some sess" using assms(1) Served run by simp
  from serve_cases [OF run] pn' show ?thesis
    by (auto simp: Served signs_in_def update_conv' delete_conv' prod_eq_iff split: if_splits)
qed (use assms in \<open>auto dest: clean_lookup\<close>)

lemma run_store: "store_ok (pn_sessions (fst s)) \<Longrightarrow> store_ok (pn_sessions (fst (panel_run evs s)))"
  by (induction evs rule: rev_induct) (auto intro: step_store)

lemma run_session:
  assumes "map_of (pn_sessions (fst (panel_run evs s))) sid = Some sess" "pn_sessions (fst s) = []"
  shows "\<exists>xs ev ys. evs = xs @ ev # ys \<and> signs_in ev (snd (panel_run xs s)) sid sess"
  using assms(1)
proof (induction evs rule: rev_induct)
  case (snoc ev evs)
  have "store_ok (pn_sessions (fst (panel_run evs s)))" by (rule run_store) (simp add: assms(2) store_ok_def)
  from step_session [OF _ this, of ev sid sess] snoc.prems
  consider "map_of (pn_sessions (fst (panel_run evs s))) sid = Some sess" | "signs_in ev (snd (panel_run evs s)) sid sess"
    by auto
  then show ?case
  proof cases
    case 1
    then obtain xs e ys where "evs = xs @ e # ys" "signs_in e (snd (panel_run xs s)) sid sess" using snoc.IH by blast
    then show ?thesis by (intro exI [of _ xs] exI [of _ e] exI [of _ "ys @ [ev]"]) simp
  qed blast
qed (simp add: assms(2))

subsection \<open>Changes to accounts\<close>

lemma validate_users: "users (tables (snd (ValidateMagicToken now token d))) = users (tables d)"
proof (cases "ValidateMagicToken now token d")
  case (Pair r d')
  show ?thesis
  proof (cases r)
    case (Inl e)
    then show ?thesis using Pair by (auto simp: ValidateMagicToken_def WriteTx_def split: if_splits sum.splits prod.splits)
  next
    case (Inr u)
    then show ?thesis using Pair by (auto elim!: ValidateMagicToken_Inr)
  qed
qed

lemma audit_users: "users (tables (snd (CreateAuditLog now a n tt ti x d))) = users (tables d)"
  by (cases "CreateAuditLog now a n tt ti x d"; cases "fst (CreateAuditLog now a n tt ti x d)")
     (auto simp: CreateAuditLog_def WriteTx_Inr WriteTx_def Let_def bump_def read_back_Inr split: if_splits sum.splits prod.splits dest!: try_do_Inr [THEN iffD1])

lemma users_changed:
  assumes "admin_serve now random rq (pn, d) = (r, pn', d')" "users (tables d') \<noteq> users (tables d)"
  obtains sess i level where "requireAuth now rq pn = Inr sess" "level \<in> set ValidTrustLevels"
    "fst (SetUserTrustLevel now i level d) = Inr ()" "d' = run_ops (trust_ops now sess i level) d"
  using serve_cases [OF assms(1)] assms(2) by (auto simp: validate_users)

lemma requireAuth_session:
  "requireAuth now rq pn = Inr sess \<Longrightarrow>
     \<exists>sid. map_of (rq_Cookies rq) sessionCookieName = Some sid \<and> map_of (pn_sessions pn) sid = Some sess \<and>
       now \<le> sn_ExpiresAt sess"
  by (auto simp: requireAuth_def session_Get_def split: option.splits if_splits)

text \<open>C14. Accounts change through the panel only under a session that is not older than a day and was
opened, earlier in the history, by redeeming a valid magic link of somebody who was operator or
administrator then.\<close>

theorem panel_changes_need_login:
  assumes "panel_run evs s = (pn, d)" "pn_sessions (fst s) = []"
    "admin_serve now random rq (pn, d) = (r, pn', d')" "users (tables d') \<noteq> users (tables d)"
  shows "\<exists>xs ev ys sid sess. evs = xs @ ev # ys \<and> signs_in ev (snd (panel_run xs s)) sid sess \<and>
    map_of (rq_Cookies rq) sessionCookieName = Some sid \<and> now \<le> sn_ExpiresAt sess"
proof -
  from users_changed [OF assms(3,4)] obtain sess where "requireAuth now rq pn = Inr sess" by blast
  then obtain sid where sid: "map_of (rq_Cookies rq) sessionCookieName = Some sid"
    "map_of (pn_sessions pn) sid = Some sess" "now \<le> sn_ExpiresAt sess"
    using requireAuth_session by blast
  then show ?thesis using run_session [of evs s sid sess] assms(1,2) by fastforce
qed

text \<open>The witnesses: ada becomes operator and signs in with her link, then makes bob a citizen.\<close>

definition panel_request :: "string \<Rightarrow> string list \<Rightarrow> admin_request" where
  "panel_request meth p =
     \<lparr>rq_Method = meth, rq_Path = p, rq_Cookies = [(''ussy_admin_session'', ''0a'')], rq_Query = [],
      rq_Form = Some [(''trust_level'', ''citizen'')]\<rparr>"

definition panel_events :: "panel_event list" where
  "panel_events =
     [Elsewhere 0 (Account (OpSetUserTrustLevel 1 ''operator'')),
      Served 0 (Inr [CHR 0x0A]) (panel_request ''GET'' [''__auth'', ''magic'', ''tok''])]"

definition sample_panel :: "admin_panel \<times> db" where
  "sample_panel = (\<lparr>pn_sessions = [], pn_domain = ''ussy.host'', pn_css = None\<rparr>, sample_db)"

definition trust_request :: admin_request where
  "trust_request = panel_request ''POST'' [''admin'', ''users'', ''2'', ''trust'']"

definition signed_panel :: "admin_panel \<times> db" where "signed_panel = panel_run panel_events sample_panel"

definition trusted_db :: db where
  "trusted_db = snd (snd (admin_serve second (Inl ''none'') trust_request signed_panel))"

lemma trusted_db_eval:
  "map u_TrustLevel (users (tables trusted_db)) = [''operator'', ''citizen'']"
  "map u_TrustLevel (users (tables (snd signed_panel))) = [''operator'', ''newbie'']"
  by code_simp+

theorem panel_changes_need_login_witness:
  "\<exists>xs ev ys sid sess. panel_events = xs @ ev # ys \<and> signs_in ev (snd (panel_run xs sample_panel)) sid sess"
proof -
  have run: "panel_run panel_events sample_panel = (fst signed_panel, snd signed_panel)" by (simp add: signed_panel_def)
  obtain r pn' where serve: "admin_serve second (Inl ''none'') trust_request (fst signed_panel, snd signed_panel) = (r, pn', trusted_db)"
    unfolding trusted_db_def by (metis prod.collapse)
  have "users (tables trusted_db) \<noteq> users (tables (snd signed_panel))" using trusted_db_eval by auto
  from panel_changes_need_login [OF run _ serve this] show ?thesis by (simp add: sample_panel_def) blast
qed

lemma trust_write:
  assumes "fst (SetUserTrustLevel now i level d) = Inr ()"
  shows "writer_open d \<and> audit (tables (snd (SetUserTrustLevel now i level d))) = audit (tables d) \<and>
    seq (tables (snd (SetUserTrustLevel now i level d))) = seq (tables d) \<and>
    writer_open (snd (SetUserTrustLevel now i level d)) \<and>
    has_user (tables (snd (SetUserTrustLevel now i level d))) j = has_user (tables d) j"
proof -
  have "list_ex (\<lambda>u. u_ID u = j) (sql_update p f us) = list_ex (\<lambda>u. u_ID u = j) us" if "\<And>u. u_ID (f u) = u_ID u" for p f and us :: "user_row list"
    using that by (induction us) (auto simp: sql_update_def)
  then show ?thesis using assms
    by (auto simp: SetUserTrustLevel_def WriteTx_def exec_def has_user_def Let_def split: if_splits)
qed

lemma audit_write:
  assumes "writer_open d" "has_user (tables d) a"
  shows "\<exists>row. audit (tables (snd (CreateAuditLog now (Some a) n tt ti x d))) = audit (tables d) @ [row] \<and>
    al_ActorID row = Some a \<and> al_Action row = n \<and> al_TargetID row = ti \<and> al_Detail row = x"
proof -
  let ?row = "\<lparr>al_ID = seq (tables d) TAudit + 1, al_ActorID = Some a, al_Action = n, al_TargetType = tt,
    al_TargetID = ti, al_Detail = x, al_CreatedAt = unix now\<rparr>"
  have "audit (tables (snd (CreateAuditLog now (Some a) n tt ti x d))) = audit (tables d) @ [?row]"
    using assms(1,2) by (simp add: CreateAuditLog_def WriteTx_def Let_def next_id_def fk_check_def sql_insert_def no_clash_def
      read_back_def bump_def query_row_def sql_select_def split: list.split) (simp add: list_ex_iff)
  then show ?thesis by (intro exI [of _ ?row]) simp
qed

text \<open>C15. Every change is audited: accounts change exactly as \<^verbatim>\<open>SetUserTrustLevel\<close> changes them, to one
of the four levels, and if the user of the session exists one entry is added that names them, the account and
the level.\<close>

theorem trust_change_audited:
  assumes "admin_serve now random rq (pn, d) = (r, pn', d')" "users (tables d') \<noteq> users (tables d)"
  shows "\<exists>sess i level. requireAuth now rq pn = Inr sess \<and> level \<in> set ValidTrustLevels \<and>
    users (tables d') = users (tables (snd (SetUserTrustLevel now i level d))) \<and>
    (has_user (tables d) (sn_UserID sess) \<longrightarrow> (\<exists>row. audit (tables d') = audit (tables d) @ [row] \<and>
       al_ActorID row = Some (sn_UserID sess) \<and> al_Action row = ''admin.user.trust_level.set'' \<and>
       al_TargetID row = Some (dec i) \<and> al_Detail row = Some (''trust_level='' @ level)))"
proof -
  from users_changed [OF assms] obtain sess i level where
    1: "requireAuth now rq pn = Inr sess" "level \<in> set ValidTrustLevels" "fst (SetUserTrustLevel now i level d) = Inr ()"
      "d' = run_ops (trust_ops now sess i level) d" by blast
  let ?d1 = "snd (SetUserTrustLevel now i level d)"
  have d': "d' = snd (CreateAuditLog now (Some (sn_UserID sess)) ''admin.user.trust_level.set'' ''user'' (Some (dec i))
      (Some (''trust_level='' @ level)) ?d1)"
    using 1(4) by (simp add: trust_ops_def run_ops_def)
  then have "users (tables d') = users (tables ?d1)" by (simp only: audit_users)
  moreover have "\<exists>row. audit (tables d') = audit (tables d) @ [row] \<and> al_ActorID row = Some (sn_UserID sess) \<and>
      al_Action row = ''admin.user.trust_level.set'' \<and> al_TargetID row = Some (dec i) \<and>
      al_Detail row = Some (''trust_level='' @ level)" if "has_user (tables d) (sn_UserID sess)"
    using audit_write [of ?d1 "sn_UserID sess"] trust_write [OF 1(3)] that unfolding d' by metis
  ultimately show ?thesis using 1(1,2) by blast
qed

theorem trust_change_audited_witness:
  "\<exists>i level. level \<in> set ValidTrustLevels \<and>
     users (tables trusted_db) = users (tables (snd (SetUserTrustLevel second i level (snd signed_panel))))"
proof -
  obtain r pn' where serve: "admin_serve second (Inl ''none'') trust_request (fst signed_panel, snd signed_panel) = (r, pn', trusted_db)"
    unfolding trusted_db_def by (metis prod.collapse)
  have "users (tables trusted_db) \<noteq> users (tables (snd signed_panel))" using trusted_db_eval by auto
  from trust_change_audited [OF serve this] show ?thesis by blast
qed

subsection \<open>Links\<close>

lemma serve_ops:
  assumes "admin_serve now random rq (pn, d) = (r, pn', d')"
  shows "\<exists>ops. d' = run_ops ops d \<and> (\<forall>t u token e. (t, Tok (OpCreateMagicToken u token e)) \<notin> set ops)"
proof -
  have validate: "snd (ValidateMagicToken now token d) = run_ops [(now, Tok (OpValidateMagicToken token))] d" for token
    by (simp add: run_ops_def)
  have "\<exists>ops. run_ops ops0 d = run_ops ops d \<and> (\<forall>t u token e. (t, Tok (OpCreateMagicToken u token e)) \<notin> set ops)"
    if "\<And>t u token e. (t, Tok (OpCreateMagicToken u token e)) \<notin> set ops0" for ops0
    using that by blast
  from this [of "[]"] this [of "[(now, Tok (OpValidateMagicToken token))]" for token] this [of "trust_ops now sess i level" for sess i level]
  show ?thesis using serve_cases [OF assms] unfolding validate
    by (auto simp: trust_ops_def run_ops_def)
qed

lemma spent_step:
  assumes "magic_spent token (tables (snd s))" "\<And>t u e. ev \<noteq> Elsewhere t (Tok (OpCreateMagicToken u token e))"
  shows "magic_spent token (tables (snd (panel_step ev s)))"
proof (cases ev)
  case (Served now random rq)
  obtain r pn' d' where run: "admin_serve now random rq (fst s, snd s) = (r, pn', d')" by (metis surj_pair)
  then obtain ops where "d' = run_ops ops (snd s)" "\<And>t u e. (t, Tok (OpCreateMagicToken u token e)) \<notin> set ops"
    using serve_ops [OF run] by blast
  then show ?thesis using magic_spent_steps [OF assms(1)] run Served by simp
next
  case (Elsewhere now op)
  have "magic_spent token (tables (run_ops [(now, op)] (snd s)))"
    by (rule magic_spent_steps [OF assms(1)]) (use assms(2) Elsewhere in auto)
  then show ?thesis by (simp add: Elsewhere run_ops_def)
qed (use assms in simp)

lemma spent_run:
  assumes "magic_spent token (tables (snd s))" "\<And>t u e. Elsewhere t (Tok (OpCreateMagicToken u token e)) \<notin> set evs"
  shows "magic_spent token (tables (snd (panel_run evs s)))"
  using assms(2)
proof (induction evs rule: rev_induct)
  case (snoc ev evs)
  then show ?case by (auto intro!: spent_step)
qed (simp add: assms(1))

lemma redeemed_routes:
  assumes "redeemed rq = Some token"
  obtains "admin_serve now random rq (pn, d) = handleLoginCallback now random rq (pn, d)"
    "first_value ''token'' (rq_Query rq) = token" "token \<noteq> []"
  | "admin_serve now random rq (pn, d) = HandleMagicLink now random token (pn, d)" "token \<noteq> []"
proof (cases "admin_route_of (rq_Method rq) (rq_Path rq)")
  case LoginCallback
  then show ?thesis using assms that(1) by (simp add: redeemed_def admin_serve_def Let_def split: if_splits)
next
  case (MagicLink token)
  then show ?thesis using assms that(2) by (simp add: redeemed_def admin_serve_def Let_def split: if_splits)
qed (use assms in \<open>simp_all add: redeemed_def\<close>)

lemma serve_redeems:
  assumes "redeemed rq = Some token" "ValidateMagicToken now token d = (Inr u, d1)"
  shows "snd (snd (admin_serve now random rq (pn, d))) = d1"
  by (rule redeemed_routes [OF assms(1), of now random pn d])
     (simp_all add: handleLoginCallback_def HandleMagicLink_def Let_def assms(2) split: sum.split option.split prod.split)

lemma serve_refuses:
  assumes "redeemed rq = Some token" "ValidateMagicToken now token d = (Inl e, d)"
  shows "admin_serve now random rq (pn, d) = (see_other ''/admin/login?error=invalid+or+expired+token'', pn, d)"
  by (rule redeemed_routes [OF assms(1), of now random pn d])
     (simp_all add: handleLoginCallback_def HandleMagicLink_def Let_def assms(2))

text \<open>A link is good for one visit: once a request has redeemed a token, every later request with it,
whatever happened in between short of storing the token again, changes nothing and is sent to the login
page.\<close>

theorem magic_link_one_visit:
  assumes "redeemed rq = Some token" "ValidateMagicToken now token (snd s) = (Inr u, d1)"
    "\<And>t u e. Elsewhere t (Tok (OpCreateMagicToken u token e)) \<notin> set evs" "redeemed rq' = Some token"
    "panel_run (Served now random rq # evs) s = (pn, d)"
  shows "admin_serve now' random' rq' (pn, d) = (see_other ''/admin/login?error=invalid+or+expired+token'', pn, d)"
proof -
  have "snd (panel_step (Served now random rq) s) = d1"
    using serve_redeems [OF assms(1,2), of random "fst s"] by simp
  then have "magic_spent token (tables d)"
    using spent_run [of token "panel_step (Served now random rq) s" evs] ValidateMagicToken_spends [OF assms(2)] assms(3,5)
    by simp
  then obtain e where "ValidateMagicToken now' token d = (Inl e, d)" using magic_spent_rejected by blast
  then show ?thesis by (rule serve_refuses [OF assms(4)])
qed

definition magic_request :: admin_request where
  "magic_request = panel_request ''GET'' [''__auth'', ''magic'', ''tok'']"

theorem magic_link_one_visit_witness:
  "rs_Location (fst (admin_serve second (Inl ''none'') magic_request
      (panel_run [Served 0 (Inr ''x'') magic_request, Cleaned second] sample_panel))) =
    Some ''/admin/login?error=invalid+or+expired+token''"
proof -
  have tok: "redeemed magic_request = Some ''tok''" by code_simp
  obtain u d1 where v: "ValidateMagicToken 0 ''tok'' (snd sample_panel) = (Inr u, d1)"
    using ValidateMagicToken_succeeds [OF sample_db_ok, of _ "''tok''" 0]
    by (auto simp: sample_panel_def sample_db_eval go_time)
  obtain pn d where run: "panel_run (Served 0 (Inr ''x'') magic_request # [Cleaned second]) sample_panel = (pn, d)"
    by (metis surj_pair)
  have "Elsewhere t (Tok (OpCreateMagicToken w ''tok'' e)) \<notin> set [Cleaned second]" for t w e by simp
  from magic_link_one_visit [OF tok v this tok run, of second "Inl ''none''"] show ?thesis
    unfolding run by (simp add: see_other_def)
qed

end
