(* ===== verification/Server_Properties.thy ===== *)
theory Server_Properties
  imports Server_Main Admin_Properties
begin

section \<open>Properties of the running server\<close>

text \<open>
  Over any history of API requests, SSH connections and web requests, by anybody and with any input: the
  database stays well-formed, and what belongs to a user changes only by events that act for that user. An event
  is a database part (signing in, registering, the web panel) followed by a run of permitted steps of the user
  it acts for; \<open>begins_with\<close> and \<open>server_step_cases\<close> say so.
\<close>

subsection \<open>The database part of an event\<close>

text \<open>\<open>who\<close> is the user a registration makes.\<close>

fun entry_op :: "int option \<Rightarrow> db_op \<Rightarrow> bool" where
  "entry_op who (Account (OpCreateUser _)) = True"
| "entry_op who (Account (OpAddSSHKey u _ _ _)) = (who = Some u)"
| "entry_op who (Account (OpSetUserTrustLevel _ _)) = True"
| "entry_op who (Account (OpCreateAuditLog _ _ _ _ _)) = True"
| "entry_op who (Tok (OpTouchAPIToken _)) = True"
| "entry_op who (Tok (OpValidateMagicToken _)) = True"
| "entry_op who _ = False"

definition enters :: "int option \<Rightarrow> db \<Rightarrow> db \<Rightarrow> bool" where
  "enters who d d' \<longleftrightarrow> (\<exists>ops. d' = run_ops ops d \<and> (\<forall>x \<in> set ops. entry_op who (snd x)))"

lemma run_ops_append: "run_ops (xs @ ys) d = run_ops ys (run_ops xs d)"
  by (simp add: run_ops_def)

lemma enters_refl: "enters who d d"
  unfolding enters_def by (rule exI [of _ "[]"]) simp

lemma enters_op: "entry_op who op \<Longrightarrow> enters who d (run_op now op d)"
  unfolding enters_def by (rule exI [of _ "[(now, op)]"]) simp

lemma enters_trans: "enters who a b \<Longrightarrow> enters who b c \<Longrightarrow> enters who a c"
  unfolding enters_def by (metis run_ops_append set_append Un_iff)

lemma enters_induct:
  assumes "enters who d d'" "P d" "\<And>d now op. P d \<Longrightarrow> entry_op who op \<Longrightarrow> P (run_op now op d)"
  shows "P d'"
proof -
  obtain ops where ops: "d' = run_ops ops d" "\<forall>x \<in> set ops. entry_op who (snd x)" using assms(1) by (auto simp: enters_def)
  have "P (run_ops ops d)" if "P d" "\<forall>x \<in> set ops. entry_op who (snd x)" for ops d
    using that by (induction ops arbitrary: d) (simp_all add: assms(3))
  then show ?thesis using ops assms(2) by simp
qed

lemma enters_ok: "enters who d d' \<Longrightarrow> db_ok d \<Longrightarrow> db_ok d'"
  by (erule enters_induct) (simp_all add: run_op_ok)

lemma entry_frames:
  assumes "entry_op who op"
  shows "vms (tables (run_op now op d)) = vms (tables d)" "arena_part (tables (run_op now op d)) = arena_part (tables d)"
  using assms by (cases "(who, op)" rule: entry_op.cases; simp add: vms_frame arena_frame del: run_account_op.simps run_token_op.simps)+

lemma enters_names: "enters who d d' \<Longrightarrow> names_valid (tables d) \<Longrightarrow> names_valid (tables d')"
  by (erule enters_induct) (simp_all add: names_same [OF entry_frames(1)])

lemma enters_seats: "enters who d d' \<Longrightarrow> seats_ok (tables d) \<Longrightarrow> seats_ok (tables d')"
  by (erule enters_induct) (simp_all add: seats_frame [OF entry_frames(2)])

subsection \<open>What belongs to a user\<close>

definition owned_by :: "int \<Rightarrow> tables \<Rightarrow> int \<Rightarrow> bool" where
  "owned_by a t v \<longleftrightarrow> list_ex (\<lambda>r. v_ID r = v \<and> v_UserID r = a) (vms t)"

record user_data =
  ud_vms :: "vm list"
  ud_keys :: "ssh_key list"
  ud_tags :: "(int \<times> string) list"
  ud_shares :: "share list"
  ud_domains :: "custom_domain list"
  ud_tutorial :: "tutorial_progress list"
  ud_llm_keys :: "llm_key list"

definition data_of :: "int \<Rightarrow> tables \<Rightarrow> user_data" where
  "data_of a t =
     \<lparr>ud_vms = filter (\<lambda>v. v_UserID v = a) (vms t), ud_keys = filter (\<lambda>k. k_UserID k = a) (ssh_keys t),
      ud_tags = filter (\<lambda>g. owned_by a t (fst g)) (vm_tags t), ud_shares = filter (\<lambda>s. owned_by a t (s_VMID s)) (shares t),
      ud_domains = filter (\<lambda>c. owned_by a t (cd_VMID c)) (domains t),
      ud_tutorial = filter (\<lambda>p. tp_UserID p = a) (tutorial t), ud_llm_keys = filter (\<lambda>k. lk_UserID k = a) (llm_keys t)\<rparr>"

lemma filter_weaker: "(\<And>x. p x \<Longrightarrow> q x) \<Longrightarrow> filter p xs = filter p (filter q xs)"
  by (auto intro!: filter_cong)

lemma filter_part:
  assumes "filter q xs = filter q ys" "\<And>x. p x \<Longrightarrow> q x"
  shows "filter p xs = filter p ys"
  using assms(1) filter_weaker [of p q] assms(2) by metis

lemma owned_foreign: "a \<noteq> u \<Longrightarrow> owned_by a t v \<Longrightarrow> foreign u t v"
  by (auto simp: owned_by_def foreign_def list_ex_iff)

lemma owned_part: "filter (\<lambda>v. v_UserID v = a) (vms t') = filter (\<lambda>v. v_UserID v = a) (vms t) \<Longrightarrow> owned_by a t' = owned_by a t"
proof
  fix v
  assume "filter (\<lambda>v. v_UserID v = a) (vms t') = filter (\<lambda>v. v_UserID v = a) (vms t)"
  then have "{r \<in> set (vms t'). v_UserID r = a} = {r \<in> set (vms t). v_UserID r = a}" by (metis set_filter)
  then show "owned_by a t' v = owned_by a t v" by (auto simp: owned_by_def list_ex_iff)
qed

text \<open>Data kept for all others is kept for each of them.\<close>

lemma data_of_kept:
  assumes "data_of_others u t' = data_of_others u t" "a \<noteq> u"
  shows "data_of a t' = data_of a t"
proof -
  have v: "filter (\<lambda>v. v_UserID v = a) (vms t') = filter (\<lambda>v. v_UserID v = a) (vms t)"
    by (rule filter_part [of "\<lambda>v. v_UserID v \<noteq> u"]) (use assms(1) in \<open>simp add: data_of_others_def\<close>, use assms(2) in simp)
  note own = owned_part [OF v]
  have f: "foreign u t' = foreign u t" by (rule foreign_same) (use assms(1) in \<open>simp add: data_of_others_def\<close>)
  have parts: "filter (\<lambda>g. foreign u t (fst g)) (vm_tags t') = filter (\<lambda>g. foreign u t (fst g)) (vm_tags t)"
    "filter (\<lambda>s. foreign u t (s_VMID s)) (shares t') = filter (\<lambda>s. foreign u t (s_VMID s)) (shares t)"
    "filter (\<lambda>c. foreign u t (cd_VMID c)) (domains t') = filter (\<lambda>c. foreign u t (cd_VMID c)) (domains t)"
    "filter (\<lambda>k. k_UserID k \<noteq> u) (ssh_keys t') = filter (\<lambda>k. k_UserID k \<noteq> u) (ssh_keys t)"
    "filter (\<lambda>p. tp_UserID p \<noteq> u) (tutorial t') = filter (\<lambda>p. tp_UserID p \<noteq> u) (tutorial t)"
    "filter (\<lambda>k. lk_UserID k \<noteq> u) (llm_keys t') = filter (\<lambda>k. lk_UserID k \<noteq> u) (llm_keys t)"
    using assms(1) unfolding data_of_others_def f by simp_all
  note own_foreign = owned_foreign [OF assms(2), of t]
  have "filter (\<lambda>g. owned_by a t (fst g)) (vm_tags t') = filter (\<lambda>g. owned_by a t (fst g)) (vm_tags t)"
    by (rule filter_part [OF parts(1)]) (rule own_foreign)
  moreover have "filter (\<lambda>s. owned_by a t (s_VMID s)) (shares t') = filter (\<lambda>s. owned_by a t (s_VMID s)) (shares t)"
    by (rule filter_part [OF parts(2)]) (rule own_foreign)
  moreover have "filter (\<lambda>c. owned_by a t (cd_VMID c)) (domains t') = filter (\<lambda>c. owned_by a t (cd_VMID c)) (domains t)"
    by (rule filter_part [OF parts(3)]) (rule own_foreign)
  moreover have "filter (\<lambda>k. k_UserID k = a) (ssh_keys t') = filter (\<lambda>k. k_UserID k = a) (ssh_keys t)"
    by (rule filter_part [OF parts(4)]) (use assms(2) in simp)
  moreover have "filter (\<lambda>p. tp_UserID p = a) (tutorial t') = filter (\<lambda>p. tp_UserID p = a) (tutorial t)"
    by (rule filter_part [OF parts(5)]) (use assms(2) in simp)
  moreover have "filter (\<lambda>k. lk_UserID k = a) (llm_keys t') = filter (\<lambda>k. lk_UserID k = a) (llm_keys t)"
    by (rule filter_part [OF parts(6)]) (use assms(2) in simp)
  ultimately show ?thesis by (simp only: data_of_def own v)
qed

lemma entry_data:
  assumes "entry_op who op" "who \<noteq> Some a"
  shows "data_of a (tables (run_op now op d)) = data_of a (tables d)"
  using assms
  by (cases "(who, op)" rule: entry_op.cases)
    (auto simp: account_defs token_defs op_Inr data_of_def owned_by_def intro!: WriteTx_frame split: if_split_asm)

lemma enters_data: "enters who d d' \<Longrightarrow> who \<noteq> Some a \<Longrightarrow> data_of a (tables d') = data_of a (tables d)"
  by (erule enters_induct [where P = "\<lambda>e. data_of a (tables e) = data_of a (tables d)"]) (simp_all add: entry_data)

subsection \<open>Events\<close>

lemma WriteTx_fails: "fst (WriteTx fn d) = Inl e \<Longrightarrow> snd (WriteTx fn d) = d"
  by (auto simp: WriteTx_def split: sum.splits if_splits prod.splits)

lemma authenticate_enters: "authenticate env now h d = (r, d') \<Longrightarrow> enters None d d'"
proof -
  have touch: "enters None d (snd (TouchAPIToken now k d))" for k
    using enters_op [of None "Tok (OpTouchAPIToken k)" d now] by simp
  show "authenticate env now h d = (r, d') \<Longrightarrow> enters None d d'"
    unfolding authenticate_def authenticateShortToken_def Let_def
    by (auto simp: enters_refl touch split: if_splits sum.splits)
qed

definition account_of :: "'e + user option \<Rightarrow> int option" where
  "account_of r = (case r of Inr (Some u) \<Rightarrow> Some (u_ID u) | _ \<Rightarrow> None)"

lemma account_of_simps [simp]: "account_of (Inl e) = None" "account_of (Inr None) = None" "account_of (Inr (Some u)) = Some (u_ID u)"
  by (simp_all add: account_of_def)

lemma db_write_host: "db_write f w = (r, w') \<Longrightarrow> w_host w' = (w_host w)\<lparr>vh_db := snd (f (w_db w))\<rparr> \<and> r = fst (f (w_db w))"
  by (auto simp: db_write_def split: prod.splits)

definition entered :: "int option \<Rightarrow> vm_host \<Rightarrow> vm_host \<Rightarrow> bool" where
  "entered who h h' \<longleftrightarrow> (\<exists>d. h' = h\<lparr>vh_db := d\<rparr> \<and> enters who (vh_db h) d)"

lemma entered_refl: "entered who h h"
  unfolding entered_def by (rule exI [of _ "vh_db h"]) (simp add: enters_refl)

lemma create_account_cases:
  assumes "create_account now ctx h w = (r, w')"
  obtains (none) e where "w' = w" "r = Inl e"
  | (user) e where "db_write (CreateUser now h) w = (Inl e, w')" "isl r"
  | (no_key) u w1 pk e where "db_write (CreateUser now h) w = (Inr u, w1)"
      "db_write (AddSSHKey now (u_ID u) (TrimSpace pk) (cx_Fingerprint ctx) '''') w1 = (Inl e, w')" "isl r"
  | (key) u w1 pk k w2 where "db_write (CreateUser now h) w = (Inr u, w1)"
      "db_write (AddSSHKey now (u_ID u) (TrimSpace pk) (cx_Fingerprint ctx) '''') w1 = (Inr k, w2)" "w_host w' = w_host w2" "r = Inr u"
proof -
  from assms consider e where "w' = w" "r = Inl e"
    | e where "db_write (CreateUser now h) w = (Inl e, w')" "isl r"
    | pk u w1 e where "db_write (CreateUser now h) w = (Inr u, w1)"
      "db_write (AddSSHKey now (u_ID u) (TrimSpace pk) (cx_Fingerprint ctx) '''') w1 = (Inl e, w')" "isl r"
    | pk u w1 k w2 where "db_write (CreateUser now h) w = (Inr u, w1)"
      "db_write (AddSSHKey now (u_ID u) (TrimSpace pk) (cx_Fingerprint ctx) '''') w1 = (Inr k, w2)" "w_host w' = w_host w2" "r = Inr u"
    unfolding create_account_def
    by (cases "cx_PublicKey ctx"; cases "cx_Fingerprint ctx = []"; cases "db_write (CreateUser now h) w"; cases "fst (db_write (CreateUser now h) w)")
      (auto cong: quiet split: prod.splits sum.splits)
  then show thesis using that by cases blast+
qed

lemma create_account_enters:
  assumes "create_account now ctx h w = (r, w')"
  shows "entered (account_of (map_sum id Some r)) (w_host w) (w_host w')"
proof -
  have enteredI: "entered who (w_host w) (w_host w')" if "w_host w' = (w_host w)\<lparr>vh_db := d\<rparr>" "enters who (w_db w) d" for who d
    using that by (auto simp: entered_def w_db_def)
  have u: "enters who (w_db w) (snd (CreateUser now h (w_db w)))" for who
    using enters_op [of who "Account (OpCreateUser h)" "w_db w" now] by simp
  from assms show ?thesis
  proof (cases rule: create_account_cases)
    case none
    then show ?thesis by (simp add: entered_refl)
  next
    case (user e)
    obtain x where "r = Inl x" using user(2) by (cases r) auto
    then show ?thesis using enteredI [OF _ u] db_write_host [OF user(1)] by simp
  next
    case (no_key v w1 pk e)
    define add where "add = AddSSHKey now (u_ID v) (TrimSpace pk) (cx_Fingerprint ctx) ''''"
    let ?d1 = "snd (CreateUser now h (w_db w))"
    have h1: "w_host w1 = (w_host w)\<lparr>vh_db := ?d1\<rparr>" using db_write_host [OF no_key(1)] by simp
    have h2: "w_host w' = (w_host w)\<lparr>vh_db := snd (add ?d1)\<rparr>" "fst (add ?d1) = Inl e"
      using db_write_host [OF no_key(2) [folded add_def]] h1 by (simp_all add: w_db_def)
    have "snd (add ?d1) = ?d1" using h2(2) unfolding add_def AddSSHKey_def by (rule WriteTx_fails)
    moreover obtain x where "r = Inl x" using no_key(3) by (cases r) auto
    ultimately show ?thesis using enteredI [OF _ u] h2(1) by simp
  next
    case (key v w1 pk k w2)
    define add where "add = AddSSHKey now (u_ID v) (TrimSpace pk) (cx_Fingerprint ctx) ''''"
    let ?d1 = "snd (CreateUser now h (w_db w))"
    have h1: "w_host w1 = (w_host w)\<lparr>vh_db := ?d1\<rparr>" using db_write_host [OF key(1)] by simp
    have h2: "w_host w' = (w_host w)\<lparr>vh_db := snd (add ?d1)\<rparr>"
      using db_write_host [OF key(2) [folded add_def]] h1 key(3) by (simp add: w_db_def)
    have "enters (Some (u_ID v)) ?d1 (snd (add ?d1))"
      using enters_op [of "Some (u_ID v)" "Account (OpAddSSHKey (u_ID v) (TrimSpace pk) (cx_Fingerprint ctx) '''')" ?d1 now]
      by (simp add: add_def)
    then have "enters (Some (u_ID v)) (w_db w) (snd (add ?d1))" using enters_trans [OF u] by blast
    then show ?thesis using enteredI [OF h2] key(4) by simp
  qed
qed

lemma handle_loop_enters: "handle_loop now ctx n w = (r, w') \<Longrightarrow> entered (account_of r) (w_host w) (w_host w')"
proof (induction n arbitrary: w)
  case (Suc n)
  obtain x w1 where 1: "ReadLine w = (x, w1)" by (metis surj_pair)
  have w1: "w_host w1 = w_host w" using ReadLine_step [OF 1] by simp
  have IH: "entered (account_of r) (w_host w) (w_host w')" if "handle_loop now ctx n w2 = (r, w')" "w_host w2 = w_host w1" for w2
    using Suc.IH [OF that(1)] that(2) w1 by simp
  have same: "entered (account_of r) (w_host w) (w_host w')" if "w_host w' = w_host w1" for r :: "shell_error + user option"
    using that w1 entered_refl by simp
  show ?case using Suc.prems w1
    by (auto simp: 1 Let_def cong: quiet dest: IH create_account_enters intro: same entered_refl split: option.splits if_splits sum.splits prod.splits)
qed (auto simp: entered_refl cong: quiet)

lemma registration_enters:
  "handleRegistration now ctx w = (r, w') \<Longrightarrow> entered (account_of r) (w_host w) (w_host w')"
  unfolding handleRegistration_def by (drule handle_loop_enters) simp

text \<open>The user an event acts for: the owner of the token, the user of the connection or the account it makes.\<close>

definition event_user :: "('key, 'sig) api_lib \<Rightarrow> server_event \<Rightarrow> server \<Rightarrow> int option" where
  "event_user lib ev s =
     (case ev of
        ApiExec now r \<Rightarrow>
          (case fst (authenticate (server_api lib (sv_gateway s) now (sv_db s)) now (rq_Authorization r) (sv_db s)) of
             Inl _ \<Rightarrow> None | Inr (user, _) \<Rightarrow> Some (u_ID user))
      | SshConnection clock now ip keys cmd input \<Rightarrow>
          if \<not> ssh_accepts now ip keys s then None
          else (case cx_User (ssh_ctx now ip keys s) of
            Some u \<Rightarrow> Some (u_ID u)
          | None \<Rightarrow>
            account_of (fst (handleRegistration (clock (length input)) (ssh_ctx now ip keys s)
              ((sv_world s)\<lparr>w_in := input, w_out := []\<rparr>))))
      | _ \<Rightarrow> None)"

definition sv_host :: "server \<Rightarrow> vm_host" where "sv_host s = w_host (sv_world s)"

lemma sv_db_host: "sv_db s = vh_db (sv_host s)"
  by (simp add: sv_db_def sv_host_def w_db_def)

text \<open>An event from \<open>s\<close>: it enters, then its user acts.\<close>

definition event_runs :: "int option \<Rightarrow> server \<Rightarrow> server \<Rightarrow> bool" where
  "event_runs who s s' \<longleftrightarrow> sv_gateway s' = sv_gateway s \<and>
     (\<exists>h. (entered who (sv_host s) h \<or> entered None (sv_host s) h) \<and>
        (sv_host s' = h \<or> (\<exists>u. who = Some (u_ID u) \<and> acts (sv_gateway s) u h (sv_host s'))))"

lemma event_runsI:
  assumes "sv_gateway s' = sv_gateway s" "entered who (sv_host s) h \<or> entered None (sv_host s) h"
    "sv_host s' = h \<or> (\<exists>u. who = Some (u_ID u) \<and> acts (sv_gateway s) u h (sv_host s'))"
  shows "event_runs who s s'"
  using assms by (auto simp: event_runs_def)

lemma entered_ok: "entered who h h' \<Longrightarrow> db_ok (vh_db h) \<Longrightarrow> db_ok (vh_db h')"
  by (auto simp: entered_def enters_ok)

lemma exec_command_acts:
  assumes "exec_command (server_api lib g now d) r user perms w = (resp, w')" "db_ok (w_db w)"
  shows "acts g user (w_host w) (w_host w')"
proof (cases "w' = w")
  case False
  then have "snd (exec_command (server_api lib g now d) r user perms w) \<noteq> w" using assms(1) by simp
  then obtain execute c n args where e: "executor (server_api lib g now d) = Some execute"
    "snd (exec_command (server_api lib g now d) r user perms w) = snd (execute w user n args)"
    by (rule exec_command_runs)
  then have "w' = snd (execute_command lib g now w user n args)" using assms(1) by (simp add: server_api_def)
  moreover obtain q w2 where run: "APIExecutor_Execute g (al_render lib) (al_echo lib) now user n args w = (q, w2)" by fastforce
  ultimately have "w' = w2" by (simp add: execute_command_def split: exec_end.splits option.splits)
  then show ?thesis using Execute_permitted [OF run assms(2)] by simp
qed (simp add: acts_refl)

lemma serve_exec_runs:
  assumes "db_ok (sv_db s)"
  shows "event_runs (event_user lib (ApiExec now r) s) s (snd (serve_exec lib now r s))"
proof -
  define env where "env = server_api lib (sv_gateway s) now (sv_db s)"
  obtain q d where a: "authenticate env now (rq_Authorization r) (sv_db s) = (q, d)" by fastforce
  have enter: "enters None (sv_db s) d" by (rule authenticate_enters [OF a])
  define s1 where "s1 = with_db d s"
  have h1: "sv_host s1 = (sv_host s)\<lparr>vh_db := d\<rparr>" "sv_gateway s1 = sv_gateway s" "sv_limiter s1 = sv_limiter s"
    by (simp_all add: s1_def with_db_def sv_host_def)
  then have ent: "entered None (sv_host s) (sv_host s1)" using enter by (auto simp: entered_def sv_db_host)
  obtain resp st where run: "handleExec env now r \<lparr>h_db = sv_db s, h_limiter = sv_limiter s, h_exec = sv_world s1\<rparr> = (resp, st)" by fastforce
  have res: "sv_world (snd (serve_exec lib now r s)) = h_exec st" "sv_gateway (snd (serve_exec lib now r s)) = sv_gateway s"
    using run a h1 by (simp_all add: serve_exec_def Let_def env_def [symmetric] s1_def [symmetric])
  show ?thesis
  proof (cases q)
    case (Inl e)
    then have "h_exec st = sv_world s1" using run a by (simp add: handleExec_def) (metis api_state.select_convs(3) api_state.surjective api_state.update_convs(1))
    then show ?thesis using res ent by (intro event_runsI) (auto simp: sv_host_def)
  next
    case (Inr p)
    obtain user perms fp where p: "p = (user, perms, fp)" by (cases p)
    have u: "event_user lib (ApiExec now r) s = Some (u_ID user)" using a Inr p by (simp add: event_user_def env_def)
    obtain resp2 w2 where x: "exec_command env r user perms (sv_world s1) = (resp2, w2)" by fastforce
    have ok: "db_ok (w_db (sv_world s1))" using entered_ok [OF ent] assms by (simp add: sv_db_host sv_host_def w_db_def)
    have "h_exec st = sv_world s1 \<or> h_exec st = w2"
      using run a Inr p x by (auto simp: handleExec_def Let_def split: prod.splits if_splits)
    then show ?thesis
      using exec_command_acts [OF x [unfolded env_def] ok] res ent u by (intro event_runsI [where h = "sv_host s1"]) (auto simp: sv_host_def)
  qed
qed

lemma serve_ssh_runs:
  assumes "db_ok (sv_db s)"
  shows "event_runs (event_user lib (SshConnection clock now ip keys cmd input) s) s (serve_ssh clock now ip keys cmd input s)"
proof (cases "ssh_accepts now ip keys s")
  case False
  then show ?thesis by (intro event_runsI [where h = "sv_host s"]) (auto simp: serve_ssh_def entered_refl)
next
  case True
  define ctx where "ctx = ssh_ctx now ip keys s"
  define w where "w = (sv_world s)\<lparr>w_in := input, w_out := []\<rparr>"
  have w: "w_host w = sv_host s" by (simp add: w_def sv_host_def)
  have ok: "db_ok (w_db w)" using assms w by (simp add: sv_db_host w_db_def)
  show ?thesis
  proof (cases "sessionHandler (sv_gateway s) clock ctx cmd w")
    case None
    then show ?thesis using True
      by (intro event_runsI [where h = "sv_host s"]) (auto simp: serve_ssh_def ctx_def w_def entered_refl)
  next
    case (Some res)
    obtain e w' where run: "sessionHandler (sv_gateway s) clock ctx cmd w = Some (e, w')" using Some by (cases res) auto
    have s': "serve_ssh clock now ip keys cmd input s = s\<lparr>sv_world := w'\<rparr>"
      using run True by (simp add: serve_ssh_def ctx_def w_def)
    show ?thesis
    proof (cases "cx_User ctx")
      case (Some u)
      have "event_user lib (SshConnection clock now ip keys cmd input) s = Some (u_ID u)"
        using True Some by (simp add: event_user_def ctx_def)
      then show ?thesis using session_acts [OF run Some ok] w s'
        by (intro event_runsI [where h = "sv_host s"]) (auto simp: sv_host_def entered_refl)
    next
      case None
      obtain q w1 where reg: "handleRegistration (clock (length input)) ctx w = (q, w1)" by fastforce
      have who: "event_user lib (SshConnection clock now ip keys cmd input) s = account_of q"
        using True None reg by (simp add: event_user_def ctx_def w_def)
      have ent: "entered (account_of q) (sv_host s) (w_host w1)" using registration_enters [OF reg] w by simp
      have len: "length (w_in w) = length input" by (simp add: w_def)
      show ?thesis
      proof (cases "account_of q")
        case None
        then have "w_host w' = w_host w1"
          using run \<open>cx_User ctx = None\<close> reg len by (auto simp: sessionHandler_def Let_def account_of_def cong: quiet split: sum.splits option.splits)
        then show ?thesis using ent who s' by (intro event_runsI [where h = "w_host w1"]) (auto simp: sv_host_def)
      next
        case (Some i)
        then obtain u where u: "q = Inr (Some u)" "i = u_ID u" by (auto simp: account_of_def split: sum.splits option.splits)
        have "sessionHandler (sv_gateway s) clock (ctx\<lparr>cx_User := Some u\<rparr>) cmd w1 = Some (e, w')"
          using run \<open>cx_User ctx = None\<close> reg u len by (simp add: sessionHandler_def Let_def cong: quiet)
        from session_acts [OF this] have "acts (sv_gateway s) u (w_host w1) (w_host w')"
          using entered_ok [OF ent] assms by (simp add: w_db_def sv_db_host)
        then show ?thesis using ent who s' u by (intro event_runsI [where h = "w_host w1"]) (auto simp: sv_host_def)
      qed
    qed
  qed
qed

lemma panel_enters:
  assumes "admin_serve now random rq (pn, d) = (r, pn', d')"
  shows "enters None d d'"
proof -
  have magic: "enters None d (snd (ValidateMagicToken now token d))" for token
    using enters_op [of None "Tok (OpValidateMagicToken token)" d now] by simp
  have trust: "enters None d (run_ops (trust_ops now sess i level) d)" for sess i level
    unfolding enters_def by (rule exI [of _ "trust_ops now sess i level"]) (simp add: trust_ops_def)
  show ?thesis using serve_cases [OF assms] magic trust enters_refl by (elim disjE conjE exE) auto
qed

lemma magic_as_request:
  "token \<noteq> [] \<Longrightarrow> HandleMagicLink now random token (pn, d) =
     admin_serve now random \<lparr>rq_Method = ''GET'', rq_Path = [''__auth'', ''magic'', token], rq_Cookies = [], rq_Query = [], rq_Form = None\<rparr> (pn, d)"
  by (simp add: admin_serve_def admin_route_of_def get_route_def)

lemma with_db_runs:
  assumes "enters None (sv_db s) d"
  shows "event_runs who s ((with_db d s)\<lparr>sv_panel := pn\<rparr>)"
  using assms by (intro event_runsI [where h = "(sv_host s)\<lparr>vh_db := d\<rparr>"]) (auto simp: with_db_def sv_host_def entered_def sv_db_def w_db_def)

lemma server_step_runs:
  assumes "db_ok (sv_db s)"
  shows "event_runs (event_user lib ev s) s (server_step lib ev s)"
proof (cases ev)
  case (ApiExec now r)
  then show ?thesis using serve_exec_runs [OF assms] by simp
next
  case (SshConnection clock now ip keys cmd input)
  then show ?thesis using serve_ssh_runs [OF assms] by simp
next
  case (WebRequest now random rq)
  obtain r pn d where run: "admin_serve now random rq (sv_panel s, sv_db s) = (r, pn, d)" by (metis surj_pair)
  then show ?thesis using with_db_runs [OF panel_enters [OF run]] WebRequest by (simp add: serve_web_def)
next
  case (MagicVisit now random token)
  obtain r pn d where run: "HandleMagicLink now random token (sv_panel s, sv_db s) = (r, pn, d)" by (metis surj_pair)
  have "enters None (sv_db s) d"
  proof (cases "token = []")
    case True
    then show ?thesis using run by (simp add: HandleMagicLink_def enters_refl)
  qed (use run panel_enters magic_as_request in metis)
  then show ?thesis using with_db_runs MagicVisit run by (simp add: serve_magic_def)
qed

text \<open>What entering and the steps of any user keep, every event keeps.\<close>

lemma event_runs_invariant:
  assumes "event_runs who s s'" "P (sv_host s)"
    "\<And>x h h'. P h \<Longrightarrow> entered x h h' \<Longrightarrow> x = who \<or> x = None \<Longrightarrow> P h'"
    "\<And>u h h'. P h \<Longrightarrow> acts (sv_gateway s) u h h' \<Longrightarrow> who = Some (u_ID u) \<Longrightarrow> P h'"
  shows "P (sv_host s')"
proof -
  obtain h where h: "entered who (sv_host s) h \<or> entered None (sv_host s) h"
    "sv_host s' = h \<or> (\<exists>u. who = Some (u_ID u) \<and> acts (sv_gateway s) u h (sv_host s'))"
    using assms(1) by (auto simp: event_runs_def)
  have "P h" using h(1) assms(2,3) by blast
  then show ?thesis using h(2) assms(4) by blast
qed

definition server_ok :: "db \<Rightarrow> bool" where
  "server_ok d \<longleftrightarrow> db_ok d \<and> names_valid (tables d) \<and> seats_ok (tables d)"

lemma server_step_ok:
  assumes "server_ok (sv_db s)"
  shows "server_ok (sv_db (server_step lib ev s))"
proof -
  have ok: "db_ok (sv_db s)" using assms by (simp add: server_ok_def)
  have "server_ok (vh_db (sv_host (server_step lib ev s)))"
  proof (rule event_runs_invariant [OF server_step_runs [OF ok], where P = "\<lambda>h. server_ok (vh_db h)"])
    show "server_ok (vh_db (sv_host s))" using assms by (simp add: sv_db_host)
  next
    fix x h h' assume "server_ok (vh_db h)" "entered x h h'"
    then show "server_ok (vh_db h')" by (auto simp: server_ok_def entered_def intro: enters_ok enters_names enters_seats)
  next
    fix u h h' assume "server_ok (vh_db h)" "acts (sv_gateway s) u h h'"
    then show "server_ok (vh_db h')" by (auto simp: server_ok_def intro: acts_ok acts_names acts_seats)
  qed
  then show ?thesis by (simp add: sv_db_host)
qed

lemma server_run_simps [simp]:
  "server_run lib [] s = s" "server_run lib (ev # evs) s = server_run lib evs (server_step lib ev s)"
  by (simp_all add: server_run_def)

lemma server_run_ok: "server_ok (sv_db s) \<Longrightarrow> server_ok (sv_db (server_run lib evs s))"
  by (induction evs arbitrary: s) (simp_all add: server_step_ok)

text \<open>One event keeps what belongs to a user it does not act for.\<close>

lemma server_step_data:
  assumes "db_ok (sv_db s)" "event_user lib ev s \<noteq> Some a"
  shows "db_ok (sv_db (server_step lib ev s)) \<and>
    data_of a (tables (sv_db (server_step lib ev s))) = data_of a (tables (sv_db s)) \<and>
    (\<forall>i. owned_by a (tables (sv_db s)) i \<longrightarrow>
       map_of (vh_running (sv_host (server_step lib ev s))) i = map_of (vh_running (sv_host s)) i)"
proof -
  define P where "P h \<longleftrightarrow> db_ok (vh_db h) \<and> data_of a (tables (vh_db h)) = data_of a (tables (sv_db s)) \<and>
    (\<forall>i. owned_by a (tables (sv_db s)) i \<longrightarrow> map_of (vh_running h) i = map_of (vh_running (sv_host s)) i)" for h :: vm_host
  have own: "owned_by a (tables (vh_db h)) = owned_by a (tables (sv_db s))" if "P h" for h :: vm_host
  proof -
    have "ud_vms (data_of a (tables (vh_db h))) = ud_vms (data_of a (tables (sv_db s)))" using that by (simp add: P_def)
    then show ?thesis by (intro owned_part) (simp add: data_of_def)
  qed
  have "P (sv_host (server_step lib ev s))"
  proof (rule event_runs_invariant [OF server_step_runs [OF assms(1)], where P = P])
    show "P (sv_host s)" using assms(1) by (simp add: P_def sv_db_host)
  next
    fix x h h' assume h: "P h" "entered x h h'" "x = event_user lib ev s \<or> x = None"
    then have "x \<noteq> Some a" using assms(2) by auto
    then show "P h'" using h(1,2) by (auto simp: P_def entered_def enters_ok enters_data)
  next
    fix u h h' assume h: "P h" "acts (sv_gateway s) u h h'" "event_user lib ev s = Some (u_ID u)"
    then have a: "a \<noteq> u_ID u" using assms(2) by auto
    have ok: "db_ok (vh_db h)" using h(1) by (simp add: P_def)
    have "data_of a (tables (vh_db h')) = data_of a (tables (vh_db h))"
      using data_of_kept [OF conjunct1 [OF acts_others [OF h(2) ok]] a] .
    moreover have "map_of (vh_running h') i = map_of (vh_running h) i" if "owned_by a (tables (sv_db s)) i" for i
      using acts_running [OF h(2) ok] owned_foreign [OF a] own [OF h(1)] that by metis
    ultimately show "P h'" using h(1) acts_ok [OF h(2) ok] by (simp add: P_def)
  qed
  then show ?thesis by (simp add: P_def sv_db_host)
qed

lemma server_run_data:
  assumes "db_ok (sv_db s)" "\<And>xs ev ys. evs = xs @ ev # ys \<Longrightarrow> event_user lib ev (server_run lib xs s) \<noteq> Some a"
  shows "data_of a (tables (sv_db (server_run lib evs s))) = data_of a (tables (sv_db s)) \<and>
    (\<forall>i. owned_by a (tables (sv_db s)) i \<longrightarrow>
       map_of (vh_running (sv_host (server_run lib evs s))) i = map_of (vh_running (sv_host s)) i)"
  using assms
proof (induction evs arbitrary: s)
  case (Cons ev evs)
  let ?s = "server_step lib ev s"
  have one: "event_user lib ev s \<noteq> Some a" using Cons.prems(2) [of "[]"] by simp
  note step = server_step_data [OF Cons.prems(1) one]
  have rest: "event_user lib e (server_run lib xs ?s) \<noteq> Some a" if "evs = xs @ e # ys" for xs e ys
    using Cons.prems(2) [of "ev # xs" e ys] that by simp
  note IH = Cons.IH [OF conjunct1 [OF step] rest]
  have "ud_vms (data_of a (tables (sv_db ?s))) = ud_vms (data_of a (tables (sv_db s)))" using step by simp
  then have own: "owned_by a (tables (sv_db ?s)) = owned_by a (tables (sv_db s))"
    by (intro owned_part) (simp add: data_of_def)
  show ?case using IH step by (simp add: own)
qed simp

subsection \<open>Shutdown\<close>

lemma arena_status: "arena_part (tables (snd (UpdateVMStatus now v st tap ip mac pid d))) = arena_part (tables d)"
  by (rule arena_frame(1) [where vo = "OpUpdateVMStatus v st tap ip mac pid", simplified])

lemma arena_delete: "arena_part (tables (snd (DeleteVM v d))) = arena_part (tables d)"
  by (rule arena_frame(1) [where vo = "OpDeleteVM v", simplified])

lemma touches_ok: "touches v d d' \<Longrightarrow> server_ok d \<Longrightarrow> server_ok d'"
  unfolding server_ok_def
  by (induction rule: touches.induct)
    (auto simp only: UpdateVMStatus_ok DeleteVM_ok names_status names_delete seats_frame [OF arena_status] seats_frame [OF arena_delete])

lemma shut_down_ok: "server_ok (sv_db s) \<Longrightarrow> server_ok (sv_db (shut_down now s))"
proof -
  have "server_ok (vh_db (fold (\<lambda>i h. snd (Stop m now i h)) ids h))" if "server_ok (vh_db h)" for m ids h
    using that
  proof (induction ids arbitrary: h)
    case (Cons i ids)
    have "server_ok (vh_db (snd (Stop m now i h)))"
      using Stop_tends [of i h m now] touches_ok Cons.prems by (auto simp: tends_def)
    then show ?case using Cons.IH by simp
  qed simp
  then show "server_ok (sv_db s) \<Longrightarrow> server_ok (sv_db (shut_down now s))"
    by (simp add: shut_down_def sv_db_def w_db_def ShutdownAll_def split: option.split)
qed

subsection \<open>A server for the witnesses\<close>

text \<open>Its database knows ada, her VM and her key; the libraries are those of the other samples.\<close>

definition sample_api_lib :: "(string, string) api_lib" where
  "sample_api_lib =
     \<lparr>al_handler =
        \<lparr>b64_decode = Some, perms_unmarshal = (\<lambda>j. Some \<lparr>p_Exp = 100, p_Nbf = 0, p_Cmds = [], p_Ctx = j\<rparr>), sig_unmarshal = Some,
         key_verify = (\<lambda>k m s. s = k @ m), key_fingerprint = (\<lambda>k. k), keyResolver = None, command_unmarshal = Inr, executor = None\<rparr>,
      al_ParseAuthorizedKey = (\<lambda>s. Some s), al_render = (\<lambda>_. ''''), al_echo = []\<rparr>"

definition sample_startup :: "db \<Rightarrow> string startup_env" where
  "sample_startup d =
     \<lparr>su_outside = sample_outside, su_Open = (\<lambda>_. Inr d), su_Migrate = Inr, su_NewVMManager = (\<lambda>_. Inr (good_env, good_net)),
      su_unused_network = good_net, su_llm_lib = \<lparr>ll_aead = (\<lambda>_. undefined), ll_parse_url = (\<lambda>_. None)\<rparr>,
      su_key_env = \<lparr>ke_ReadFile = Inr (Some ''pem''), ke_ParsePrivateKey = Inr, ke_GenerateKey = Inl ''no'',
        ke_MarshalPrivateKey = (\<lambda>_. Inl ''no''), ke_WriteFile = None\<rparr>,
      su_PublicKey = (\<lambda>k. k), su_web = None, su_templates = None, su_static = Inr None\<rparr>"

definition wired_server :: server where
  "wired_server = (case start_up (sample_startup keyed_db) (DefaultConfig (\<lambda>_. '''')) of Inr s \<Rightarrow> s)"

text \<open>eve registers and tries to tag ada's VM; then a visit to a magic link nobody made.\<close>

definition sample_events :: "server_event list" where
  "sample_events =
     [SshConnection (\<lambda>_. 0) 0 ''1.2.3.4'' [(''SHA256:eve'', ''ssh-ed25519 EEEE'')] [''tag'', ''web'', ''mine''] [''eve''],
      MagicVisit 0 (Inl ''no'') ''guess'']"

lemma sample_config_valid: "Validate (DefaultConfig (\<lambda>_. [])) = None"
  by code_simp

lemma start_up_db:
  assumes "start_up env cfg = Inr s" "su_Open env (cf_DBPath cfg) = Inr d0" "su_Migrate env d0 = Inr d"
  shows "sv_db s = d"
  using assms unfolding start_up_def
  by (auto simp: sv_db_def w_db_def Let_def split: option.split_asm sum.split_asm prod.split_asm)

lemma sample_starts: "\<exists>s. start_up (sample_startup d) (DefaultConfig (\<lambda>_. [])) = Inr s"
  unfolding start_up_def sample_config_valid sample_startup_def
  by (simp add: gateway_New_def loadOrGenerateHostKey_def NewHandler_def Let_def)

lemma sample_run_users: "map u_Handle (users (tables (sv_db (server_run sample_api_lib sample_events wired_server)))) = [''ada'', ''bob'', ''eve'']"
  by code_simp

lemma wired_server_ok: "server_ok (sv_db wired_server)"
proof -
  obtain s where s: "start_up (sample_startup keyed_db) (DefaultConfig (\<lambda>_. [])) = Inr s" using sample_starts by blast
  then have "sv_db s = keyed_db" by (rule start_up_db) (simp_all add: sample_startup_def)
  moreover have "wired_server = s" using s by (simp add: wired_server_def)
  moreover have "db_ok keyed_db" unfolding keyed_db_def by (rule run_op_ok [OF sample_db_ok])
  moreover have "names_valid (tables keyed_db)" "seats_ok (tables keyed_db)" by code_simp+
  ultimately show ?thesis by (simp add: server_ok_def)
qed

lemma sample_event_users:
  "event_user sample_api_lib (sample_events ! 0) wired_server = Some 3"
  "event_user sample_api_lib (sample_events ! 1) s = None"
proof -
  show "event_user sample_api_lib (sample_events ! 0) wired_server = Some 3" by code_simp
  show "event_user sample_api_lib (sample_events ! 1) s = None" by (simp add: sample_events_def event_user_def)
qed

subsection \<open>Properties\<close>

text \<open>C1. What belongs to a user changes only by events that act for that user: over any history of API
commands, SSH connections and web requests of anybody else, the user's VMs with their tags, shares and domains,
keys, tutorial progress and API keys stay as they are in the database, and the machines that run for those VMs
stay the ones they were.\<close>

theorem server_isolation:
  assumes "server_ok (sv_db s)"
    and "\<And>n. n < length evs \<Longrightarrow> event_user lib (evs ! n) (server_run lib (take n evs) s) \<noteq> Some a"
  shows "data_of a (tables (sv_db (server_run lib evs s))) = data_of a (tables (sv_db s)) \<and>
    (\<forall>i. owned_by a (tables (sv_db s)) i \<longrightarrow>
       map_of (vh_running (w_host (sv_world (server_run lib evs s)))) i = map_of (vh_running (w_host (sv_world s))) i)"
proof -
  have ok: "db_ok (sv_db s)" using assms(1) by (simp add: server_ok_def)
  have "event_user lib ev (server_run lib xs s) \<noteq> Some a" if "evs = xs @ ev # ys" for xs ev ys
    using assms(2) [of "length xs"] that by simp
  from server_run_data [OF ok this] show ?thesis by (simp add: sv_host_def)
qed

text \<open>ada owns a VM and a key; eve has registered and has typed a command at it.\<close>

theorem server_isolation_witness:
  "data_of 1 (tables (sv_db (server_run sample_api_lib sample_events wired_server))) = data_of 1 (tables (sv_db wired_server)) \<and>
   length (ud_vms (data_of 1 (tables (sv_db wired_server)))) = 1 \<and>
   map u_Handle (users (tables (sv_db (server_run sample_api_lib sample_events wired_server)))) = [''ada'', ''bob'', ''eve'']"
proof -
  have two: "n = 0 \<or> n = 1" if "n < length sample_events" for n using that by (auto simp: sample_events_def)
  have "event_user sample_api_lib (sample_events ! n) (server_run sample_api_lib (take n sample_events) wired_server) \<noteq> Some 1"
    if "n < length sample_events" for n using two [OF that] sample_event_users by auto
  from server_isolation [OF wired_server_ok this]
  have "data_of 1 (tables (sv_db (server_run sample_api_lib sample_events wired_server))) = data_of 1 (tables (sv_db wired_server))"
    by blast
  moreover have "length (ud_vms (data_of 1 (tables (sv_db wired_server)))) = 1" by code_simp
  ultimately show ?thesis using sample_run_users by simp
qed





end
