(* ===== verification/Spec2Isabelle.thy ===== *)
theory Spec2Isabelle
  imports Caddy_Routes Mesh_Wireguard Node_Scheduler Node_Manager Node_Pki Agent_Cli Metadata_Service Image_Manager Zfs_Storage
    Auth_Tokens Server_Properties
begin

text \<open>
  A model of \<^bold>\<open>ussycode\<close>, a server that gives its users small virtual machines (Firecracker) reached
  over SSH and HTTPS, written in Go; the sources are under \<^verbatim>\<open>src/internal\<close>.

  \<^bold>\<open>The program and its theories.\<close> Everything persistent is in one SQLite database
  (\<^verbatim>\<open>internal/db\<close>): accounts, keys, VMs, shares, tokens, quotas, the arena. Requests reach the
  program through an HTTPS API (\<^verbatim>\<open>internal/api\<close>), through an authentication proxy in front of the
  VMs' web servers, configured in Caddy (\<^verbatim>\<open>internal/proxy\<close>), through SSH, through inbound mail, and
  from inside the VMs through a metadata service with gateways to LLM providers and to a mail relay
  (\<^verbatim>\<open>internal/gateway\<close>). The VM manager (\<^verbatim>\<open>internal/vm\<close>) starts and stops VMs. A pool of
  nodes is kept by the control plane (\<^verbatim>\<open>internal/controlplane\<close>, \<^verbatim>\<open>scheduler\<close>,
  \<^verbatim>\<open>mesh\<close>, \<^verbatim>\<open>pki\<close>).

  \<^item> \<^verbatim>\<open>Ussy_Prelude\<close>: time as nanoseconds, 64-bit integers, Go's string functions, decimal numbers.
  \<^item> \<^verbatim>\<open>Sql_Tables\<close>: the meaning of the SQL statement forms, with the locales \<^verbatim>\<open>uniq_table\<close> and
    \<^verbatim>\<open>keyed_table\<close> that state what a table with constraints promises.
  \<^item> \<^verbatim>\<open>Db_Model\<close>, \<^verbatim>\<open>Db_Queries\<close>: the schema (one record per table, each table an interpretation
    of a locale), transactions, and every query of \<^verbatim>\<open>queries.go\<close> under its name.
    \<^verbatim>\<open>Db_Invariant\<close>, \<^verbatim>\<open>Db_Preservation\<close>: the invariant of the tables and its preservation by all
    writing operations; \<^verbatim>\<open>Db_Properties\<close>: the behaviour of the queries;
    \<^verbatim>\<open>Db_Frames\<close>: what operations leave alone, for the components that share the database.
  \<^item> \<^verbatim>\<open>Rate_Limits\<close>: the four rate limiters, with the locales \<^verbatim>\<open>admission\<close> (token buckets) and
    \<^verbatim>\<open>hour_window\<close> (hourly counters), each interpreted on its two implementations.
  \<^item> \<^verbatim>\<open>Api_Handler\<close>: \<^verbatim>\<open>api/handler.go\<close>, both kinds of token and \<^verbatim>\<open>POST /exec\<close>.
  \<^item> \<^verbatim>\<open>Auth_Proxy\<close>, \<^verbatim>\<open>Caddy_Routes\<close>: \<^verbatim>\<open>proxy/auth.go\<close> and \<^verbatim>\<open>proxy/caddy.go\<close>.
  \<^item> \<^verbatim>\<open>Go_Files\<close>, \<^verbatim>\<open>Smtp_Server\<close>: paths and files; \<^verbatim>\<open>gateway/email.go\<close>.
  \<^item> \<^verbatim>\<open>Mesh_Allocator\<close>, \<^verbatim>\<open>Node_Scheduler\<close>, \<^verbatim>\<open>Node_Manager\<close>, \<^verbatim>\<open>Node_Pki\<close>: the node pool
    (\<^verbatim>\<open>mesh/allocator.go\<close>, \<^verbatim>\<open>scheduler/scheduler.go\<close>,
    \<^verbatim>\<open>controlplane/nodemanager.go\<close>, \<^verbatim>\<open>pki/ca.go\<close>).
  \<^item> \<^verbatim>\<open>Vm_Network\<close>, \<^verbatim>\<open>Guest_Files\<close>, \<^verbatim>\<open>Vm_Manager\<close>: \<^verbatim>\<open>vm/network.go\<close>, \<^verbatim>\<open>vm/nftables.go\<close>,
    the edits of the guest's image, \<^verbatim>\<open>vm/firecracker.go\<close> and the life cycle of \<^verbatim>\<open>vm/manager.go\<close>.
  \<^item> \<^verbatim>\<open>Llm_Gateway\<close>, \<^verbatim>\<open>Email_Send\<close>, \<^verbatim>\<open>Metadata_Service\<close>: \<^verbatim>\<open>gateway/llm.go\<close> with \<^verbatim>\<open>crypto.go\<close>,
    \<^verbatim>\<open>email_send.go\<close>, and \<^verbatim>\<open>metadata.go\<close>, which holds the other two.
  \<^item> \<^verbatim>\<open>Go_Base64\<close>, \<^verbatim>\<open>Go_Format\<close>: the encodings and the formatting verbs of the Go library.
  \<^item> \<^verbatim>\<open>Shell_Core\<close>: the SSH gateway as the commands see it (\<^verbatim>\<open>ssh/gateway.go\<close>,
    \<^verbatim>\<open>shell.go\<close>): \<open>world\<close> holds the host of the VM manager with the database, the metadata service,
    the Caddy manager, the lines still to be read and what was written; \<open>outside\<close> holds what is not in the
    repository. \<^verbatim>\<open>Shell_Vms\<close>, \<^verbatim>\<open>Shell_Access\<close>, \<^verbatim>\<open>Shell_Arena\<close>,
    \<^verbatim>\<open>Shell_Tutorial\<close>: the commands of \<^verbatim>\<open>commands.go\<close> (VMs; keys, shares, domains,
    LLM keys, administration), \<^verbatim>\<open>browser.go\<close>, \<^verbatim>\<open>community.go\<close>, \<^verbatim>\<open>arena.go\<close>,
    \<^verbatim>\<open>tutorial.go\<close>, and the \<^verbatim>\<open>commands\<close> map. \<^verbatim>\<open>Shell_Session\<close>: keys offered,
    registration, the shell, single commands and the executor of the API.
  \<^item> \<^verbatim>\<open>Shell_Policy\<close> states what a user may do as a step relation \<open>acts\<close>;
    \<^verbatim>\<open>Shell_Refinement\<close> shows that every command, and so every session, is a run of such steps;
    \<^verbatim>\<open>Shell_Isolation\<close> what such runs preserve; \<^verbatim>\<open>Shell_Properties\<close> and
    \<^verbatim>\<open>Shell_Entry\<close> the properties of sessions, of entering the gateway and of single commands.
  \<^item> \<^verbatim>\<open>Admin_Panel\<close>, \<^verbatim>\<open>Admin_Properties\<close>: \<^verbatim>\<open>admin/admin.go\<close>, the web panel as a function of the
    request, the sessions and the database, and its histories.
  \<^item> \<^verbatim>\<open>Auth_Tokens\<close>: \<^verbatim>\<open>auth/token.go\<close> and \<^verbatim>\<open>auth/middleware.go\<close>.
    \<^verbatim>\<open>Mesh_Wireguard\<close>: \<^verbatim>\<open>mesh/wireguard.go\<close>, refining a set of peers per interface.
    \<^verbatim>\<open>Zfs_Storage\<close>: \<^verbatim>\<open>storage/zfs.go\<close> over a \<^verbatim>\<open>zfs\<close> program. \<^verbatim>\<open>Node_Agent\<close>,
    \<^verbatim>\<open>Agent_Cli\<close>: the agent of a node (\<^verbatim>\<open>agent/agent.go\<close>, \<^verbatim>\<open>heartbeat.go\<close>), the messages of
    \<^verbatim>\<open>proto/nodev1/node.go\<close>, and its command line (\<^verbatim>\<open>cmd/ussyverse-agent/main.go\<close>).
  \<^item> \<^verbatim>\<open>Image_Manager\<close>: \<^verbatim>\<open>vm/image.go\<close>, each operation as the calls to the operating system it adds to
    those made before, so that what may be written where is a property of the list.
  \<^item> \<^verbatim>\<open>Go_Float\<close>, \<^verbatim>\<open>Go_Scan\<close>, \<^verbatim>\<open>Go_Flag\<close>: numbers, scanning and the flag package of the Go library;
    the last with a locale of flag tables, interpreted in \<^verbatim>\<open>Server_Config\<close> (\<^verbatim>\<open>config/config.go\<close>).
  \<^item> \<^verbatim>\<open>Server_Main\<close>: \<^verbatim>\<open>cmd/ussycode/main.go\<close>. \<open>start_up\<close> puts the parts together, \<open>server_run\<close>
    runs a list of API requests, SSH connections and web requests over the one database, \<open>shut_down\<close> ends it.
    \<^verbatim>\<open>Server_Properties\<close>: what holds over such histories. An event is shown to be a database part
    (\<open>enters\<close>) followed by a run of \<open>acts\<close> of the user it acts for (\<open>event_user\<close>), so that the lemmas on
    sessions carry over.

  \<^bold>\<open>Conventions.\<close> A struct is a record with the struct's fields under a prefix, a function that
  returns an error has a sum or an option as its result, a method that changes its receiver returns the
  new state. The clock is an argument. Strings are lists of bytes, case mapping is that of ASCII. Floating
  point is exact rational arithmetic. Wrapping an error keeps its kind. What is not in the repository (Caddy,
  \<^verbatim>\<open>ip\<close>, \<^verbatim>\<open>nft\<close>, \<^verbatim>\<open>debugfs\<close>, the Firecracker SDK, Docker images, SMTP relays,
  signatures and ciphers, JSON decoding, \<^verbatim>\<open>net/url\<close>) is a parameter of the definitions that use it,
  in most cases a function of the list of requests made so far, so that its answers may depend on any
  history. A method that holds a mutex throughout is one step. Where the code releases the lock between two
  steps that matter (\<^verbatim>\<open>Proxy\<close> of the LLM gateway) the model has the two steps; the operations of
  the VM manager are taken to run one after the other.

  \<^bold>\<open>What the lemmas show.\<close> The database invariant holds after any history. Access: who may run commands
  through the API, who gets through the proxy and under which identity, that routes are guarded, that
  magic links and join tokens work once. The limiters admit what they promise over any sequence of requests.
  Inbound mail is stored as it was sent, inside the mailbox of its VM, within the bounds; outbound mail goes
  to the owner only. A guest sees its own metadata only, is charged for its own key, and is found by its
  address. A session of the gateway touches nothing of other users, stays within the quota and ends; a key
  that registered signs its owner in. Over the whole server: what belongs to a user changes only by events of
  that user, and the database stays well-formed from start to shutdown. The panel changes accounts only for those
  who signed in, and audits it; images are unpacked below their directory and enter the cache whole; settings have
  their precedence; tokens and the state of an agent read back as they were written. Starting a VM leaves tracking, network and database in agreement on every error path. Subnets of
  nodes are disjoint and all are used; placement picks a best node; commands reach nodes once and in order.

  \<^bold>\<open>Termination and bounds.\<close> All loops are structural or have a measure, but for the loop of the SSH shell:
  \<open>Run\<close> gives it one round for each line of input and one for the end of the input, and a session is proved
  to return. The history of
  the VM manager is bounded by \<open>2 ^ 32\<close> operations, the number of addresses: the counter of
  addresses is a 32-bit word. The mesh allocator's bounds are hypotheses on the configured prefix.

  \<^bold>\<open>Not modelled.\<close> Line editing of the SSH terminal, the SSH handshake, the listeners, signals and
  HTML templates, the migration runner, the sockets of the metadata service, and the search for the Firecracker
  binary: input and output only. Telemetry only calls the OpenTelemetry
  library.
\<close>

end
